(* ===== verification/Prelude.thy ===== *)
theory Prelude
  imports Complex_Main "HOL-Library.AList"
begin

text \<open>
  Shared vocabulary of the development.

  \<^item> The exceptions of \<^verbatim>\<open>core/exceptions.py\<close> and
    \<^verbatim>\<open>engine/execution/exceptions.py\<close> as values: a class (with its base classes)
    and the structured attributes of the raise. The free text of a message is not modelled.
  \<^item> A Python routine that may mutate state and may raise is a function
    \<open>'s \<Rightarrow> 'a res \<times> 's\<close>: the state reached so far survives a raise, as it does in Python.
  \<^item> A \<^verbatim>\<open>dict\<close> is an association list in insertion order (\<open>AList.update\<close> replaces in
    place or appends, \<open>AList.delete\<close> removes).
  \<^item> The rules that carry the component proofs: \<open>obeys\<close> for frame conditions and
    invariants, and \<open>triple\<close> for what a routine returns.
\<close>

section \<open>Exceptions\<close>

datatype exn_class =
    ValidationError | OrderValidationError
  | AuthorizationError
  | ExchangeError | OrderExecutionError | ExchangeConnectionError | ExchangeRateLimitError
  | InsufficientBalanceError | InvalidStateTransition
  | GridError | ProfitLockError | PortfolioError | RecoveryError | NotificationError
  | TimeoutError | RetryableError
  | OrderNotFound | OrderAlreadyFilled | TradingInstanceNotFound
  | ReconciliationError | CheckpointError | StrategyError | AuthenticationError
  | ConfigurationError | ExchangeAccountNotFound | SymbolNotSupported
  | PyValueError | PyKeyError | PyIndexError | PyRuntimeError | PyTypeError
  | PyAttributeError | PyDecimalException | OtherException

text \<open>The base classes that \<^verbatim>\<open>except\<close> clauses of the code can name, nearest first.\<close>

fun bases :: "exn_class \<Rightarrow> exn_class list" where
  "bases OrderValidationError = [OrderValidationError, ValidationError]"
| "bases OrderExecutionError = [OrderExecutionError, ExchangeError]"
| "bases ExchangeConnectionError = [ExchangeConnectionError, ExchangeError]"
| "bases ExchangeRateLimitError = [ExchangeRateLimitError, ExchangeError]"
| "bases c = [c]"

datatype exn = Exn (exn_kind: exn_class) (exn_args: "string list")

definition isinstance :: "exn \<Rightarrow> exn_class list \<Rightarrow> bool" where
  "isinstance e cs \<longleftrightarrow> list_ex (\<lambda>c. c \<in> set (bases (exn_kind e))) cs"

section \<open>Routines with state and exceptions\<close>

datatype 'a res = Ok 'a | Raise exn

type_synonym ('s, 'a) py = "'s \<Rightarrow> 'a res \<times> 's"

definition ret :: "'a \<Rightarrow> ('s, 'a) py" where
  "ret a = (\<lambda>s. (Ok a, s))"

definition throw :: "exn \<Rightarrow> ('s, 'a) py" where
  "throw e = (\<lambda>s. (Raise e, s))"

definition bind :: "('s, 'a) py \<Rightarrow> ('a \<Rightarrow> ('s, 'b) py) \<Rightarrow> ('s, 'b) py" where
  "bind m f = (\<lambda>s. case m s of (Ok a, s') \<Rightarrow> f a s' | (Raise e, s') \<Rightarrow> (Raise e, s'))"

definition seq :: "('s, 'a) py \<Rightarrow> ('s, 'b) py \<Rightarrow> ('s, 'b) py" where
  "seq m n = bind m (\<lambda>_. n)"

text \<open>\<^verbatim>\<open>try: m  except ... as e: h(e)\<close>; the handler re-raises what it does not catch.\<close>

definition try_catch :: "('s, 'a) py \<Rightarrow> (exn \<Rightarrow> ('s, 'a) py) \<Rightarrow> ('s, 'a) py" where
  "try_catch m h = (\<lambda>s. case m s of (Ok a, s') \<Rightarrow> (Ok a, s') | (Raise e, s') \<Rightarrow> h e s')"

definition gets :: "('s \<Rightarrow> 'a) \<Rightarrow> ('s, 'a) py" where
  "gets f = (\<lambda>s. (Ok (f s), s))"

definition modify :: "('s \<Rightarrow> 's) \<Rightarrow> ('s, unit) py" where
  "modify f = (\<lambda>s. (Ok (), f s))"

definition lift_res :: "'a res \<Rightarrow> ('s, 'a) py" where
  "lift_res r = (\<lambda>s. (r, s))"

text \<open>A routine chosen by the current state.\<close>

definition reading :: "('s \<Rightarrow> ('s, 'a) py) \<Rightarrow> ('s, 'a) py" where
  "reading f = (\<lambda>s. f s s)"

text \<open>Results without state: pure code that may raise.\<close>

definition rbind :: "'a res \<Rightarrow> ('a \<Rightarrow> 'b res) \<Rightarrow> 'b res" where
  "rbind r f = (case r of Ok a \<Rightarrow> f a | Raise e \<Rightarrow> Raise e)"

fun rmap :: "('a \<Rightarrow> 'b res) \<Rightarrow> 'a list \<Rightarrow> 'b list res" where
  "rmap f [] = Ok []"
| "rmap f (x # xs) = rbind (f x) (\<lambda>y. rbind (rmap f xs) (\<lambda>ys. Ok (y # ys)))"

lemma rbind_simps [simp]: "rbind (Ok a) f = f a" "rbind (Raise e) f = Raise e"
  by (simp_all add: rbind_def)

fun for_each :: "('a \<Rightarrow> ('s, unit) py) \<Rightarrow> 'a list \<Rightarrow> ('s, unit) py" where
  "for_each f [] = ret ()"
| "for_each f (x # xs) = seq (f x) (for_each f xs)"

text \<open>A loop that collects: \<^verbatim>\<open>for x in xs: out.extend(f(x))\<close>.\<close>

fun collect :: "('a \<Rightarrow> ('s, 'b list) py) \<Rightarrow> 'a list \<Rightarrow> ('s, 'b list) py" where
  "collect f [] = ret []"
| "collect f (x # xs) = bind (f x) (\<lambda>y. bind (collect f xs) (\<lambda>ys. ret (y @ ys)))"

named_theorems py_simps \<open>unfolding of the routine combinators\<close>

declare ret_def [py_simps] throw_def [py_simps] bind_def [py_simps] seq_def [py_simps]
  try_catch_def [py_simps] gets_def [py_simps] modify_def [py_simps] lift_res_def [py_simps]
  reading_def [py_simps]

lemma bind_ret [simp]: "bind (ret a) f = f a"
  by (simp add: py_simps)

lemma bind_throw [simp]: "bind (throw e) f = throw e"
  by (simp add: py_simps)

lemma seq_ret [simp]: "seq (ret a) n = n"
  by (simp add: py_simps)

lemma seq_throw [simp]: "seq (throw e) n = throw e"
  by (simp add: py_simps)

lemma bind_lift_res: "bind (lift_res r) f = (case r of Ok a \<Rightarrow> f a | Raise e \<Rightarrow> throw e)"
  by (cases r) (simp_all add: py_simps)

lemma bind_Ok: "m s = (Ok a, t) \<Longrightarrow> bind m f s = f a t"
  by (simp add: py_simps)

lemma bind_Raise: "m s = (Raise e, t) \<Longrightarrow> bind m f s = (Raise e, t)"
  by (simp add: py_simps)

lemma seq_Ok: "m s = (Ok a, t) \<Longrightarrow> seq m n s = n t"
  by (simp add: py_simps)

lemma seq_Raise: "m s = (Raise e, t) \<Longrightarrow> seq m n s = (Raise e, t)"
  by (simp add: py_simps)

lemma bind_OkE:
  assumes "bind m f s = (Ok b, t)"
  obtains a u where "m s = (Ok a, u)" and "f a u = (Ok b, t)"
  using assms by (auto simp: bind_def split: prod.splits res.splits)

lemma seq_OkE:
  assumes "seq m n s = (Ok b, t)"
  obtains a u where "m s = (Ok a, u)" and "n u = (Ok b, t)"
  using assms unfolding seq_def by (rule bind_OkE)

lemma seq_reading: "seq (reading f) n s = seq (f s) n s"
  by (simp add: py_simps)

lemma bind_gets: "bind (gets f) g s = g (f s) s"
  by (simp add: py_simps)

lemma collect_Ok:
  "f x s = (Ok y, u) \<Longrightarrow> collect f xs u = (Ok ys, t) \<Longrightarrow> collect f (x # xs) s = (Ok (y @ ys), t)"
  by (simp add: py_simps)

lemma collect_Raise:
  "f x s = (Raise e, t) \<Longrightarrow> collect f (x # xs) s = (Raise e, t)"
  "f x s = (Ok y, u) \<Longrightarrow> collect f xs u = (Raise e, t) \<Longrightarrow> collect f (x # xs) s = (Raise e, t)"
  by (simp_all add: py_simps)

lemma bind_assoc: "bind (bind m f) g = bind m (\<lambda>x. bind (f x) g)"
  by (auto simp: py_simps fun_eq_iff split: prod.splits res.splits)

lemma bind_ret_right [simp]: "bind m ret = m"
  by (auto simp: py_simps fun_eq_iff split: prod.splits res.splits)

lemma for_each_append: "for_each f (xs @ ys) = seq (for_each f xs) (for_each f ys)"
  by (induction xs) (auto simp: seq_def bind_assoc)

section \<open>What every run of a routine respects\<close>

text \<open>
  The contract a routine keeps between its first and its last state, whether it returns or
  raises, is a reflexive and transitive relation \<open>R\<close>. Every combinator respects it when its
  parts do. The two uses are frames (\<open>R\<close> says that a field is unchanged) and invariants.
\<close>

named_theorems resp_intros \<open>introduction rules for routines that respect a relation\<close>

definition obeys :: "('s \<Rightarrow> 's \<Rightarrow> bool) \<Rightarrow> ('s, 'a) py \<Rightarrow> bool" where
  "obeys R m \<longleftrightarrow> (\<forall>s. R s (snd (m s)))"

lemma obeysD: "obeys R m \<Longrightarrow> R s (snd (m s))"
  by (simp add: obeys_def)

lemma obeys_if [resp_intros]:
  "(b \<Longrightarrow> obeys R m) \<Longrightarrow> (\<not> b \<Longrightarrow> obeys R n) \<Longrightarrow> obeys R (if b then m else n)"
  by simp

lemma obeys_option [resp_intros]:
  "(x = None \<Longrightarrow> obeys R m) \<Longrightarrow> (\<And>y. x = Some y \<Longrightarrow> obeys R (f y)) \<Longrightarrow>
   obeys R (case x of None \<Rightarrow> m | Some y \<Rightarrow> f y)"
  by (cases x) auto

lemma obeys_res [resp_intros]:
  "(\<And>a. r = Ok a \<Longrightarrow> obeys R (f a)) \<Longrightarrow> (\<And>e. r = Raise e \<Longrightarrow> obeys R (g e)) \<Longrightarrow>
   obeys R (case r of Ok a \<Rightarrow> f a | Raise e \<Rightarrow> g e)"
  by (cases r) auto

lemma obeys_reading [resp_intros]: "(\<And>s. obeys R (f s)) \<Longrightarrow> obeys R (reading f)"
  by (simp add: obeys_def reading_def)

lemma obeys_let [resp_intros]:
  "obeys R (f x) \<Longrightarrow> obeys R (Let x f)"
  by simp

lemma obeys_pair [resp_intros]:
  "(\<And>a b. p = (a, b) \<Longrightarrow> obeys R (f a b)) \<Longrightarrow> obeys R (case p of (a, b) \<Rightarrow> f a b)"
  by (cases p) auto

locale step_contract =
  fixes R :: "'s \<Rightarrow> 's \<Rightarrow> bool"
  assumes R_refl: "R s s"
    and R_trans: "R s t \<Longrightarrow> R t u \<Longrightarrow> R s u"
begin

lemma ret: "obeys R (ret a)"
  by (simp add: obeys_def ret_def R_refl)

lemma throw: "obeys R (throw e)"
  by (simp add: obeys_def throw_def R_refl)

lemma gets: "obeys R (gets f)"
  by (simp add: obeys_def gets_def R_refl)

lemma lift_res: "obeys R (lift_res r)"
  by (simp add: obeys_def lift_res_def R_refl)

lemma modify: "(\<And>s. R s (f s)) \<Longrightarrow> obeys R (modify f)"
  by (simp add: obeys_def modify_def)

lemma bind: "obeys R m \<Longrightarrow> (\<And>a. obeys R (f a)) \<Longrightarrow> obeys R (bind m f)"
  by (auto simp: obeys_def bind_def split: prod.splits res.splits
      intro: R_trans) (metis R_trans snd_conv)+

lemma seq: "obeys R m \<Longrightarrow> obeys R n \<Longrightarrow> obeys R (seq m n)"
  by (simp add: seq_def bind)

lemma try_catch:
  "obeys R m \<Longrightarrow> (\<And>e. obeys R (h e)) \<Longrightarrow> obeys R (try_catch m h)"
  by (auto simp: obeys_def try_catch_def split: prod.splits res.splits)
    (metis R_trans snd_conv)+

lemma for_each: "(\<And>x. x \<in> set xs \<Longrightarrow> obeys R (f x)) \<Longrightarrow> obeys R (for_each f xs)"
  by (induction xs) (auto intro: ret seq)

lemma collect: "(\<And>x. x \<in> set xs \<Longrightarrow> obeys R (f x)) \<Longrightarrow> obeys R (collect f xs)"
  by (induction xs) (auto intro!: ret bind)

lemmas contract_rules = ret throw gets lift_res bind seq try_catch for_each collect

end

text \<open>A frame: the part of the state that \<open>f\<close> reads is left alone.\<close>

definition same :: "('s \<Rightarrow> 'f) \<Rightarrow> 's \<Rightarrow> 's \<Rightarrow> bool" where
  "same f s t \<longleftrightarrow> f t = f s"

interpretation frame: step_contract "same f" for f :: "'s \<Rightarrow> 'f"
  by unfold_locales (auto simp: same_def)

text \<open>An invariant: it holds at the end if it held at the start.\<close>

definition keeps :: "('s \<Rightarrow> bool) \<Rightarrow> 's \<Rightarrow> 's \<Rightarrow> bool" where
  "keeps I s t \<longleftrightarrow> (I s \<longrightarrow> I t)"

interpretation inv: step_contract "keeps I" for I :: "'s \<Rightarrow> bool"
  by unfold_locales (auto simp: keeps_def)

lemmas frame_rules = frame.contract_rules
lemmas inv_rules = inv.contract_rules

lemma obeys_same_modify: "(\<And>s. f (g s) = f s) \<Longrightarrow> obeys (same f) (modify g)"
  by (rule frame.modify) (simp add: same_def)

lemma obeys_keeps_modify: "(\<And>s. I s \<Longrightarrow> I (g s)) \<Longrightarrow> obeys (keeps I) (modify g)"
  by (rule inv.modify) (simp add: keeps_def)

declare frame_rules [resp_intros] inv_rules [resp_intros]
declare obeys_same_modify [resp_intros] obeys_keeps_modify [resp_intros]

lemma sameD: "obeys (same f) m \<Longrightarrow> f (snd (m s)) = f s"
  by (simp add: obeys_def same_def)

lemma keepsD: "obeys (keeps I) m \<Longrightarrow> I s \<Longrightarrow> I (snd (m s))"
  by (simp add: obeys_def keeps_def)

section \<open>Routines that never raise\<close>

named_theorems total_intros \<open>introduction rules for routines that never raise\<close>

definition total :: "('s, 'a) py \<Rightarrow> bool" where
  "total m \<longleftrightarrow> (\<forall>s. \<exists>a t. m s = (Ok a, t))"

lemma totalE: "total m \<Longrightarrow> (\<And>a t. m s = (Ok a, t) \<Longrightarrow> thesis) \<Longrightarrow> thesis"
  by (auto simp: total_def)

lemma total_basic [total_intros]:
  "total (ret a)" "total (gets f)" "total (modify g)"
  by (simp_all add: total_def py_simps)

lemma total_bind [total_intros]: "total m \<Longrightarrow> (\<And>a. total (f a)) \<Longrightarrow> total (bind m f)"
  unfolding total_def bind_def by (metis (no_types, lifting) case_prod_conv res.simps(5))

lemma total_seq [total_intros]: "total m \<Longrightarrow> total n \<Longrightarrow> total (seq m n)"
  unfolding seq_def by (rule total_bind)

lemma total_reading [total_intros]: "(\<And>s. total (f s)) \<Longrightarrow> total (reading f)"
  by (auto simp: total_def reading_def)

lemma total_try_catch [total_intros]: "(\<And>e. total (h e)) \<Longrightarrow> total (try_catch m h)"
  unfolding total_def try_catch_def by (auto split: prod.splits res.splits)

lemma total_if [total_intros]: "(b \<Longrightarrow> total m) \<Longrightarrow> (\<not> b \<Longrightarrow> total n) \<Longrightarrow> total (if b then m else n)"
  by simp

lemma total_option [total_intros]:
  "(x = None \<Longrightarrow> total m) \<Longrightarrow> (\<And>y. x = Some y \<Longrightarrow> total (f y)) \<Longrightarrow>
   total (case x of None \<Rightarrow> m | Some y \<Rightarrow> f y)"
  by (cases x) auto

lemma total_let [total_intros]: "total (f x) \<Longrightarrow> total (Let x f)"
  by simp

lemma total_collect [total_intros]: "(\<And>x. x \<in> set xs \<Longrightarrow> total (f x)) \<Longrightarrow> total (collect f xs)"
  by (induction xs) (auto intro!: total_intros)

lemma total_for_each [total_intros]: "(\<And>x. x \<in> set xs \<Longrightarrow> total (f x)) \<Longrightarrow> total (for_each f xs)"
  by (induction xs) (auto intro!: total_intros)

text \<open>A handler around such a routine is never entered.\<close>

lemma try_catch_total: "total m \<Longrightarrow> try_catch m h = m"
proof
  fix s
  assume "total m"
  then obtain a t where "m s = (Ok a, t)" by (rule totalE)
  then show "try_catch m h s = m s" by (simp add: try_catch_def)
qed

section \<open>Triples\<close>

text \<open>
  \<open>triple P m Q E\<close>: from a state in \<open>P\<close> the routine ends in \<open>Q\<close> with its value, or
  raises in \<open>E\<close>. Both exits are constrained, so nothing holds for want of a result.
\<close>

definition triple ::
  "('s \<Rightarrow> bool) \<Rightarrow> ('s, 'a) py \<Rightarrow> ('a \<Rightarrow> 's \<Rightarrow> bool) \<Rightarrow> (exn \<Rightarrow> 's \<Rightarrow> bool) \<Rightarrow> bool" where
  "triple P m Q E \<longleftrightarrow>
     (\<forall>s. P s \<longrightarrow> (case m s of (Ok a, s') \<Rightarrow> Q a s' | (Raise e, s') \<Rightarrow> E e s'))"

lemma tripleI:
  "(\<And>s. P s \<Longrightarrow> (case m s of (Ok a, s') \<Rightarrow> Q a s' | (Raise e, s') \<Rightarrow> E e s')) \<Longrightarrow> triple P m Q E"
  by (simp add: triple_def)

lemma triple_Ok: "triple P m Q E \<Longrightarrow> P s \<Longrightarrow> m s = (Ok a, s') \<Longrightarrow> Q a s'"
  by (auto simp: triple_def)

lemma triple_Raise: "triple P m Q E \<Longrightarrow> P s \<Longrightarrow> m s = (Raise e, s') \<Longrightarrow> E e s'"
  by (auto simp: triple_def split: prod.splits res.splits)

lemma triple_bind:
  "triple P m M E \<Longrightarrow> (\<And>a. triple (M a) (f a) Q E) \<Longrightarrow> triple P (bind m f) Q E"
  by (fastforce simp: triple_def bind_def split: prod.splits res.splits)

lemma triple_seq:
  "triple P m (\<lambda>_. M) E \<Longrightarrow> triple M n Q E \<Longrightarrow> triple P (seq m n) Q E"
  unfolding seq_def by (rule triple_bind)

lemma triple_try:
  "triple P m Q M \<Longrightarrow> (\<And>e. triple (M e) (h e) Q E) \<Longrightarrow> triple P (try_catch m h) Q E"
  by (fastforce simp: triple_def try_catch_def split: prod.splits res.splits)

lemma triple_weaken:
  "triple P' m Q' E' \<Longrightarrow> (\<And>s. P s \<Longrightarrow> P' s) \<Longrightarrow> (\<And>a s. Q' a s \<Longrightarrow> Q a s) \<Longrightarrow>
   (\<And>e s. E' e s \<Longrightarrow> E e s) \<Longrightarrow> triple P m Q E"
  by (fastforce simp: triple_def split: prod.splits res.splits)

lemma triple_frame:
  "obeys (same f) m \<Longrightarrow> triple (\<lambda>s. P (f s)) m (\<lambda>_ s. P (f s)) (\<lambda>_ s. P (f s))"
proof (rule tripleI)
  fix s
  assume "obeys (same f) m" and "P (f s)"
  then have "P (f (snd (m s)))" by (simp add: sameD)
  then show "case m s of (Ok a, t) \<Rightarrow> P (f t) | (Raise e, t) \<Rightarrow> P (f t)"
    by (cases "m s") (simp split: res.splits)
qed

lemma triple_throw: "(\<And>s. P s \<Longrightarrow> E e s) \<Longrightarrow> triple P (throw e) Q E"
  by (simp add: triple_def throw_def)

lemma triple_ret: "(\<And>s. P s \<Longrightarrow> Q a s) \<Longrightarrow> triple P (ret a) Q E"
  by (simp add: triple_def ret_def)

lemma triple_reading: "(\<And>s. P s \<Longrightarrow> triple (\<lambda>t. t = s) (f s) Q E) \<Longrightarrow> triple P (reading f) Q E"
  by (simp add: triple_def reading_def)

lemma triple_for_each:
  assumes "\<And>x. x \<in> set xs \<Longrightarrow> triple I (f x) (\<lambda>_. I) E"
  shows "triple I (for_each f xs) (\<lambda>_. I) E"
  using assms
proof (induction xs)
  case Nil
  then show ?case by (simp add: triple_def ret_def)
next
  case (Cons x xs)
  then show ?case by (auto intro: triple_seq)
qed

section \<open>Dictionaries\<close>

type_synonym ('k, 'v) dict = "('k \<times> 'v) list"

abbreviation dget :: "('k, 'v) dict \<Rightarrow> 'k \<Rightarrow> 'v option" where
  "dget d k \<equiv> map_of d k"

abbreviation dput :: "'k \<Rightarrow> 'v \<Rightarrow> ('k, 'v) dict \<Rightarrow> ('k, 'v) dict" where
  "dput \<equiv> AList.update"

abbreviation ddel :: "'k \<Rightarrow> ('k, 'v) dict \<Rightarrow> ('k, 'v) dict" where
  "ddel \<equiv> AList.delete"

text \<open>The keys of a dictionary are pairwise different.\<close>

definition dict_ok :: "('k, 'v) dict \<Rightarrow> bool" where
  "dict_ok d \<longleftrightarrow> distinct (map fst d)"

lemma dget_dput [simp]: "dget (dput k v d) j = (if j = k then Some v else dget d j)"
  by (simp add: update_conv')

lemma dget_ddel [simp]: "dget (ddel k d) j = (if j = k then None else dget d j)"
  by (simp add: delete_conv')

lemma dict_ok_Nil [simp, intro]: "dict_ok []"
  by (simp add: dict_ok_def)

lemma dict_ok_dput [simp, intro]: "dict_ok d \<Longrightarrow> dict_ok (dput k v d)"
  by (simp add: dict_ok_def distinct_update)

lemma dict_ok_ddel [simp, intro]: "dict_ok d \<Longrightarrow> dict_ok (ddel k d)"
  by (simp add: dict_ok_def distinct_delete)

lemma dput_new: "dget d k = None \<Longrightarrow> dput k v d = d @ [(k, v)]"
  by (induction d) (auto split: if_splits)

lemma dput_dput [simp]: "dput k v (dput k w d) = dput k v d"
  by (induction d) auto

lemma in_dput: "p \<in> set (dput k v d) \<Longrightarrow> p = (k, v) \<or> p \<in> set d"
  by (induction d) (auto split: if_splits)

lemma dput_self: "dget d k = Some v \<Longrightarrow> dput k v d = d"
  by (induction d) (auto split: if_splits)

lemma dget_Some_iff: "dict_ok d \<Longrightarrow> dget d k = Some v \<longleftrightarrow> (k, v) \<in> set d"
  by (auto simp: dict_ok_def dest: map_of_SomeD)

lemma length_dput: "length (dput k v d) = (if dget d k = None then Suc (length d) else length d)"
  by (induction d) auto

lemma length_ddel:
  "dict_ok d \<Longrightarrow> length (ddel k d) = (if dget d k = None then length d else length d - 1)"
proof (induction d)
  case Nil
  then show ?case by (simp add: AList.delete_eq)
next
  case (Cons p d)
  show ?case
  proof (cases "fst p = k")
    case True
    have "k \<notin> fst ` set d" using Cons.prems True by (auto simp: dict_ok_def)
    then have "ddel k d = d" by (simp add: delete_idem)
    with True show ?thesis by (cases p) simp
  next
    case False
    have "dict_ok d" using Cons.prems by (simp add: dict_ok_def)
    moreover have "dget d k \<noteq> None \<Longrightarrow> length d \<noteq> 0" by auto
    ultimately show ?thesis using False Cons.IH by (cases p) auto
  qed
qed

text \<open>
  The stores of the program (grid states, profit locks, tracked orders, positions, workers)
  share the contract of a keyed store. \<open>lookup\<close>, \<open>insert\<close> and \<open>remove\<close> are the operations
  the engines use; the laws are what they rely on.
\<close>

locale keyed_store =
  fixes lookup :: "'m \<Rightarrow> 'k \<Rightarrow> 'v option"
    and insert :: "'k \<Rightarrow> 'v \<Rightarrow> 'm \<Rightarrow> 'm"
    and remove :: "'k \<Rightarrow> 'm \<Rightarrow> 'm"
    and wf :: "'m \<Rightarrow> bool"
  assumes lookup_insert: "lookup (insert k v m) j = (if j = k then Some v else lookup m j)"
    and lookup_remove: "lookup (remove k m) j = (if j = k then None else lookup m j)"
    and wf_insert: "wf m \<Longrightarrow> wf (insert k v m)"
    and wf_remove: "wf m \<Longrightarrow> wf (remove k m)"
begin

lemma lookup_insert_same: "lookup (insert k v m) k = Some v"
  by (simp add: lookup_insert)

lemma lookup_insert_other: "j \<noteq> k \<Longrightarrow> lookup (insert k v m) j = lookup m j"
  by (simp add: lookup_insert)

lemma remove_insert: "lookup (remove k (insert k v m)) = lookup (remove k m)"
  by (auto simp: lookup_remove lookup_insert)

lemma insert_commute:
  "j \<noteq> k \<Longrightarrow> lookup (insert j v (insert k w m)) = lookup (insert k w (insert j v m))"
  by (auto simp: lookup_insert)

end

interpretation dict: keyed_store map_of AList.update AList.delete dict_ok
  by unfold_locales auto

section \<open>Validated state machines\<close>

text \<open>
  Six parts of the program (orders, grids, grid levels, profit locks, processes, recovery)
  guard a status field with a transition table and a \<^verbatim>\<open>validate_transition\<close> that raises on
  a pair outside the table. \<open>allowed\<close> is the table and \<open>terminal\<close> the code's
  \<^verbatim>\<open>is_terminal\<close>. A status history is a list of validated targets.
\<close>

locale validated_machine =
  fixes allowed :: "'st \<Rightarrow> 'st list"
    and validate :: "'st \<Rightarrow> 'st \<Rightarrow> unit res"
  assumes validate_Ok: "validate a b = Ok () \<longleftrightarrow> b \<in> set (allowed a)"
begin

fun run :: "'st \<Rightarrow> 'st list \<Rightarrow> 'st res" where
  "run a [] = Ok a"
| "run a (b # bs) = (case validate a b of Ok _ \<Rightarrow> run b bs | Raise e \<Rightarrow> Raise e)"

lemma validate_cases: "validate a b = Ok () \<or> (\<exists>e. validate a b = Raise e)"
  by (cases "validate a b") auto

lemma run_Cons_Ok:
  "run a (b # bs) = Ok c \<longleftrightarrow> b \<in> set (allowed a) \<and> run b bs = Ok c"
  using validate_Ok [of a b] by (auto split: res.splits)

lemma run_invariant:
  assumes "run a bs = Ok c" and "P a" and "\<And>x y. P x \<Longrightarrow> y \<in> set (allowed x) \<Longrightarrow> P y"
  shows "P c"
  using assms(1,2)
proof (induction bs arbitrary: a)
  case Nil
  then show ?case by simp
next
  case (Cons b bs)
  from Cons.prems(1) have b: "b \<in> set (allowed a)" and r: "run b bs = Ok c"
    by (simp_all only: run_Cons_Ok)
  from b Cons.prems(2) have "P b" by (rule assms(3) [rotated])
  with r show ?case by (rule Cons.IH)
qed

lemma run_stuck: "allowed a = [] \<Longrightarrow> run a bs = Ok c \<Longrightarrow> bs = [] \<and> c = a"
proof (cases bs)
  case Nil
  then show "allowed a = [] \<Longrightarrow> run a bs = Ok c \<Longrightarrow> bs = [] \<and> c = a" by simp
next
  case (Cons b cs)
  then show "allowed a = [] \<Longrightarrow> run a bs = Ok c \<Longrightarrow> bs = [] \<and> c = a"
    by (simp only: run_Cons_Ok) simp
qed

lemma run_append:
  "run a (bs @ cs) = (case run a bs of Ok b \<Rightarrow> run b cs | Raise e \<Rightarrow> Raise e)"
  by (induction bs arbitrary: a) (auto split: res.splits)

text \<open>Some history of validated targets leads from one status to another.\<close>

definition reaches :: "'st \<Rightarrow> 'st \<Rightarrow> bool" where
  "reaches a b \<longleftrightarrow> (\<exists>path. run a path = Ok b)"

lemma reaches_refl [simp]: "reaches a a"
  unfolding reaches_def by (rule exI [of _ "[]"]) simp

lemma reaches_trans: "reaches a b \<Longrightarrow> reaches b c \<Longrightarrow> reaches a c"
  unfolding reaches_def by (metis res.simps(5) run_append)

lemma reaches_step: "b \<in> set (allowed a) \<Longrightarrow> reaches a b"
  unfolding reaches_def by (rule exI [of _ "[b]"]) (simp only: run_Cons_Ok, simp)

lemma reaches_stuck: "allowed a = [] \<Longrightarrow> reaches a b \<Longrightarrow> b = a"
  unfolding reaches_def using run_stuck by blast

end

section \<open>Rendering numbers\<close>

text \<open>\<^verbatim>\<open>str(n)\<close> for integers, as the code uses it in keys and identifiers.\<close>

definition digit_char :: "nat \<Rightarrow> char" where
  "digit_char d = char_of (48 + d)"

fun show_nat :: "nat \<Rightarrow> string" where
  "show_nat n = (if n < 10 then [digit_char n] else show_nat (n div 10) @ [digit_char (n mod 10)])"

declare show_nat.simps [simp del]

definition show_int :: "int \<Rightarrow> string" where
  "show_int n = (if n < 0 then CHR ''-'' # show_nat (nat (- n)) else show_nat (nat n))"

definition read_digits :: "string \<Rightarrow> nat" where
  "read_digits = foldl (\<lambda>n c. n * 10 + (of_char c - 48)) 0"

lemma of_digit_char [simp]: "d < 10 \<Longrightarrow> of_char (digit_char d) = 48 + d"
  by (simp add: digit_char_def)

lemma digit_chars:
  "digit_char 0 = CHR ''0''" "digit_char 1 = CHR ''1''" "digit_char 2 = CHR ''2''"
  "digit_char 3 = CHR ''3''" "digit_char 4 = CHR ''4''" "digit_char 5 = CHR ''5''"
  "digit_char 6 = CHR ''6''" "digit_char 7 = CHR ''7''" "digit_char 8 = CHR ''8''"
  "digit_char 9 = CHR ''9''"
  by code_simp+

lemma read_show_nat [simp]: "read_digits (show_nat n) = n"
proof (induction n rule: show_nat.induct)
  case (1 n)
  then show ?case
    by (cases "n < 10") (simp_all add: show_nat.simps [of n] read_digits_def)
qed

lemma show_nat_inj: "show_nat m = show_nat n \<longleftrightarrow> m = n"
  by (metis read_show_nat)

lemma show_nat_chars: "c \<in> set (show_nat n) \<Longrightarrow> \<exists>d<10. c = digit_char d"
proof (induction n rule: show_nat.induct)
  case (1 n)
  have last: "\<exists>d<10. digit_char (n mod 10) = digit_char d"
    by (intro exI [of _ "n mod 10"]) simp
  show ?case
    using 1 last by (cases "n < 10") (auto simp: show_nat.simps [of n])
qed

lemma digit_char_not_colon: "d < 10 \<Longrightarrow> digit_char d \<noteq> CHR '':''"
  by (auto dest!: arg_cong [where f = "of_char :: char \<Rightarrow> nat"])

lemma digit_char_not_minus: "d < 10 \<Longrightarrow> digit_char d \<noteq> CHR ''-''"
  by (auto dest!: arg_cong [where f = "of_char :: char \<Rightarrow> nat"])

lemma show_nat_no_colon: "CHR '':'' \<notin> set (show_nat n)"
  by (metis show_nat_chars digit_char_not_colon)

lemma show_nat_no_minus: "CHR ''-'' \<notin> set (show_nat n)"
  by (metis show_nat_chars digit_char_not_minus)

lemma show_int_no_colon: "CHR '':'' \<notin> set (show_int n)"
  by (auto simp: show_int_def show_nat_no_colon)

lemma show_int_inj: "show_int m = show_int n \<longleftrightarrow> m = n"
proof
  assume eq: "show_int m = show_int n"
  have neg: "\<And>k l. CHR ''-'' # show_nat k \<noteq> show_nat l"
    by (metis list.set_intros(1) show_nat_no_minus)
  show "m = n"
    using eq neg by (auto simp: show_int_def show_nat_inj split: if_splits) (metis neg)+
qed simp

text \<open>A suffix without a separator is determined: keys built with a separator are unambiguous.\<close>

lemma split_at_last_separator:
  assumes "a @ c # b = a' @ c # b'" and "c \<notin> set b" and "c \<notin> set b'"
  shows "a = a' \<and> b = b'"
  using assms
proof (induction b arbitrary: b' rule: rev_induct)
  case Nil
  then show ?case by (cases b' rule: rev_cases) auto
next
  case (snoc x b)
  then show ?case
    by (cases b' rule: rev_cases) (auto dest!: snoc.IH)
qed

end
