(* ===== verification/Decimal.thy ===== *)
theory Decimal
  imports Prelude
begin

text \<open>
  Python's \<^verbatim>\<open>decimal.Decimal\<close> as the program uses it: prices, quantities and percentages
  under the default context (28 significant digits, \<^verbatim>\<open>ROUND_HALF_EVEN\<close>, division by zero
  raises). A finite decimal is represented by its numerical value, a rational; every arithmetic
  operation computes the exact result and then rounds it to the context precision
  (\<open>dfix\<close>). Construction, comparison, \<open>min\<close> and \<open>max\<close> do not round. Trailing zeros,
  signed zeros, NaN, infinities and exponents beyond the context's six-digit range are
  not represented.

  The lemmas are what the pricing proofs rest on: rounding is monotone, odd, exact on values of at
  most 28 digits, keeps the sign, and has a relative error of at most half a unit in the 28th digit.
\<close>

section \<open>Rounding to 28 significant digits\<close>

type_synonym decimal = rat

fun ndigits :: "nat \<Rightarrow> nat" where
  "ndigits n = (if n < 10 then 1 else Suc (ndigits (n div 10)))"

declare ndigits.simps [simp del]

definition pow10 :: "int \<Rightarrow> rat" where
  "pow10 k = (if 0 \<le> k then 10 ^ nat k else 1 / 10 ^ nat (- k))"

text \<open>The adjusted exponent: the power of ten of the leading digit of a non-zero value.\<close>

definition adjusted :: "rat \<Rightarrow> int" where
  "adjusted x = (let a = \<bar>x\<bar> in
     if 1 \<le> a then int (ndigits (nat \<lfloor>a\<rfloor>)) - 1 else - int (ndigits (nat (\<lceil>1 / a\<rceil> - 1))))"

definition round_half_even :: "rat \<Rightarrow> int" where
  "round_half_even x = (let n = \<lfloor>x\<rfloor>; f = x - of_int n in
     if f < 1 / 2 then n else if 1 / 2 < f then n + 1 else if even n then n else n + 1)"

definition prec :: int where
  "prec = 28"

definition dfix :: "rat \<Rightarrow> decimal" where
  "dfix x = (if x = 0 then 0 else
     let k = adjusted x - (prec - 1) in of_int (round_half_even (x / pow10 k)) * pow10 k)"

definition dadd :: "decimal \<Rightarrow> decimal \<Rightarrow> decimal" where "dadd a b = dfix (a + b)"
definition dsub :: "decimal \<Rightarrow> decimal \<Rightarrow> decimal" where "dsub a b = dfix (a - b)"
definition dmul :: "decimal \<Rightarrow> decimal \<Rightarrow> decimal" where "dmul a b = dfix (a * b)"
definition ddiv :: "decimal \<Rightarrow> decimal \<Rightarrow> decimal" where "ddiv a b = dfix (a / b)"
definition dneg :: "decimal \<Rightarrow> decimal" where "dneg a = dfix (- a)"

text \<open>\<open>ddiv\<close> is used where the code has checked the divisor; \<open>py_div\<close> raises on zero.\<close>

definition py_div :: "decimal \<Rightarrow> decimal \<Rightarrow> decimal res" where
  "py_div a b = (if b = 0 then Raise (Exn PyDecimalException []) else Ok (ddiv a b))"

text \<open>\<^verbatim>\<open>d.quantize(Decimal("0.01"), rounding=ROUND_DOWN)\<close>, for results within the precision.\<close>

definition quantize2_down :: "decimal \<Rightarrow> decimal" where
  "quantize2_down x = (if 0 \<le> x then of_int \<lfloor>x * 100\<rfloor> / 100 else of_int \<lceil>x * 100\<rceil> / 100)"

section \<open>Powers of ten and digit counts\<close>

lemma pow10_pos [simp]: "0 < pow10 k"
  by (simp add: pow10_def)

lemma pow10_nonzero [simp]: "pow10 k \<noteq> 0"
  using pow10_pos [of k] by linarith

lemma pow10_abs [simp]: "\<bar>pow10 k\<bar> = pow10 k"
  by (simp add: less_imp_le)

lemma pow10_0 [simp]: "pow10 0 = 1"
  by (simp add: pow10_def)

lemma pow10_of_nat: "pow10 (int n) = 10 ^ n"
  by (simp add: pow10_def)

lemma pow10_Suc: "pow10 (k + 1) = 10 * pow10 k"
proof (cases "0 \<le> k")
  case True
  then show ?thesis by (simp add: pow10_def nat_add_distrib)
next
  case False
  then obtain m where m: "k = - int (Suc m)"
    by (metis not_le negD)
  then show ?thesis by (cases "m = 0") (auto simp: pow10_def nat_diff_distrib nat_add_distrib)
qed

lemma pow10_add_nat: "pow10 (k + int n) = 10 ^ n * pow10 k"
proof (induction n)
  case (Suc n)
  have "pow10 (k + int (Suc n)) = pow10 (k + int n + 1)" by (simp add: ac_simps)
  with Suc show ?case by (simp add: pow10_Suc)
qed simp

lemma pow10_split: "j \<le> k \<Longrightarrow> pow10 k = 10 ^ nat (k - j) * pow10 j"
  using pow10_add_nat [of j "nat (k - j)"] by simp

lemma pow10_mono: "j \<le> k \<Longrightarrow> pow10 j \<le> pow10 k"
  by (simp add: pow10_split [of j k])

lemma pow10_strict_mono: "j < k \<Longrightarrow> pow10 j < pow10 k"
proof -
  assume "j < k"
  then have "pow10 (j + 1) \<le> pow10 k" by (intro pow10_mono) simp
  then show ?thesis using pow10_pos [of j] unfolding pow10_Suc by linarith
qed

lemma pow10_less_cancel: "pow10 j < pow10 k \<Longrightarrow> j < k"
  using pow10_mono [of k j] by (cases "j < k") auto

lemma ndigits_bounds: "0 < n \<Longrightarrow> 10 ^ (ndigits n - 1) \<le> n \<and> n < 10 ^ ndigits n"
proof (induction n rule: ndigits.induct)
  case (1 n)
  show ?case
  proof (cases "n < 10")
    case True
    with "1.prems" show ?thesis by (simp add: ndigits.simps [of n])
  next
    case False
    then have d: "0 < n div 10" by simp
    let ?m = "ndigits (n div 10)"
    from 1 False d have ih: "10 ^ (?m - 1) \<le> n div 10" "n div 10 < 10 ^ ?m" by auto
    have pos: "0 < ?m" by (simp add: ndigits.simps [of "n div 10"])
    have "10 ^ ?m = 10 * (10 :: nat) ^ (?m - 1)" using pos by (cases ?m) auto
    then have "10 ^ ?m \<le> n" and "n < 10 * 10 ^ ?m" using ih by linarith+
    with False show ?thesis by (simp add: ndigits.simps [of n])
  qed
qed

lemma ndigits_pos: "0 < ndigits n"
  by (simp add: ndigits.simps [of n])

lemma of_nat_pow10_le: "(10 :: rat) ^ d \<le> of_nat n \<longleftrightarrow> 10 ^ d \<le> n"
  using of_nat_le_iff [of "10 ^ d" n, where ?'a = rat] by simp

lemma of_nat_le_pow10: "of_nat n + 1 \<le> (10 :: rat) ^ d \<longleftrightarrow> n + 1 \<le> 10 ^ d"
  using of_nat_le_iff [of "n + 1" "10 ^ d", where ?'a = rat] by (simp add: add.commute)

lemma adjusted_ge_one:
  assumes "1 \<le> a"
  shows "pow10 (adjusted a) \<le> a \<and> a < pow10 (adjusted a + 1)"
proof -
  let ?n = "nat \<lfloor>a\<rfloor>"
  from assms have fl: "1 \<le> \<lfloor>a\<rfloor>" by simp
  then have n: "0 < ?n" by simp
  from ndigits_bounds [OF n] have lo: "10 ^ (ndigits ?n - 1) \<le> ?n" and hi: "?n + 1 \<le> 10 ^ ndigits ?n"
    by (simp_all only: Suc_eq_plus1 [symmetric] Suc_le_eq)
  have adj: "adjusted a = int (ndigits ?n - 1)"
    using assms ndigits_pos [of ?n] by (simp add: adjusted_def of_nat_diff)
  have "(10 :: rat) ^ (ndigits ?n - 1) \<le> of_nat ?n"
    using lo by (simp only: of_nat_pow10_le)
  also have "\<dots> \<le> a" using fl by simp
  finally have l: "pow10 (adjusted a) \<le> a" by (simp add: adj pow10_of_nat)
  have "a < of_nat ?n + 1" using fl by linarith
  also have "\<dots> \<le> (10 :: rat) ^ ndigits ?n"
    using hi by (simp only: of_nat_le_pow10)
  also have "\<dots> = pow10 (adjusted a + 1)"
    using ndigits_pos [of ?n] by (simp add: adj pow10_of_nat [symmetric] of_nat_diff)
  finally show ?thesis using l by simp
qed

lemma adjusted_less_one:
  assumes "0 < a" and "a < 1"
  shows "pow10 (adjusted a) \<le> a \<and> a < pow10 (adjusted a + 1)"
proof -
  let ?n = "nat (\<lceil>1 / a\<rceil> - 1)"
  have inv: "1 < 1 / a" using assms by simp
  then have c: "2 \<le> \<lceil>1 / a\<rceil>" by linarith
  then have n: "0 < ?n" by simp
  let ?d = "ndigits ?n"
  from ndigits_bounds [OF n] have lo: "10 ^ (?d - 1) \<le> ?n" and hi: "?n + 1 \<le> 10 ^ ?d"
    by (simp_all only: Suc_eq_plus1 [symmetric] Suc_le_eq)
  have adj: "adjusted a = - int ?d" using assms by (simp add: adjusted_def)
  have "int ?n = \<lceil>1 / a\<rceil> - 1" using c by linarith
  then have q: "of_nat ?n = of_int \<lceil>1 / a\<rceil> - (1 :: rat)"
    by (metis of_int_1 of_int_diff of_int_of_nat_eq)
  have "1 / a \<le> of_nat ?n + 1" unfolding q using le_of_int_ceiling [of "1 / a"] by simp
  also have "\<dots> \<le> (10 :: rat) ^ ?d"
    using hi by (simp only: of_nat_le_pow10)
  finally have "1 / (10 :: rat) ^ ?d \<le> a" using assms by (simp add: field_simps)
  then have l: "pow10 (adjusted a) \<le> a"
    using ndigits_pos [of ?n] by (simp add: adj pow10_def)
  have "(10 :: rat) ^ (?d - 1) \<le> of_nat ?n"
    using lo by (simp only: of_nat_pow10_le)
  also have "\<dots> < 1 / a" unfolding q using ceiling_correct [of "1 / a"] by simp
  finally have "a < 1 / (10 :: rat) ^ (?d - 1)" using assms by (simp add: field_simps)
  moreover have "pow10 (adjusted a + 1) = 1 / (10 :: rat) ^ (?d - 1)"
    using ndigits_pos [of ?n] by (simp add: adj pow10_def nat_diff_distrib)
  ultimately show ?thesis using l by simp
qed

lemma adjusted_abs [simp]: "adjusted \<bar>x\<bar> = adjusted x"
  by (simp add: adjusted_def)

lemma adjusted_minus [simp]: "adjusted (- x) = adjusted x"
  by (simp add: adjusted_def)

lemma adjusted_bounds:
  "x \<noteq> 0 \<Longrightarrow> pow10 (adjusted x) \<le> \<bar>x\<bar> \<and> \<bar>x\<bar> < pow10 (adjusted x + 1)"
  using adjusted_ge_one [of "\<bar>x\<bar>"] adjusted_less_one [of "\<bar>x\<bar>"] by (cases "1 \<le> \<bar>x\<bar>") auto

lemma adjusted_mono: "0 < x \<Longrightarrow> x \<le> y \<Longrightarrow> adjusted x \<le> adjusted y"
proof -
  assume "0 < x" "x \<le> y"
  then have "pow10 (adjusted x) < pow10 (adjusted y + 1)"
    using adjusted_bounds [of x] adjusted_bounds [of y] by linarith
  then show ?thesis using pow10_less_cancel by fastforce
qed

section \<open>Rounding to an integer\<close>

lemma round_half_even_cases:
  obtains "of_int (round_half_even x) \<le> x" and "x \<le> of_int (round_half_even x) + 1 / 2"
  | "x \<le> of_int (round_half_even x)" and "of_int (round_half_even x) - 1 / 2 \<le> x"
proof (cases "x - of_int \<lfloor>x\<rfloor> < 1 / 2")
  case True
  then have "round_half_even x = \<lfloor>x\<rfloor>" by (simp add: round_half_even_def Let_def)
  with True that(1) show thesis by simp
next
  case False
  then have "round_half_even x = \<lfloor>x\<rfloor> + 1
      \<or> round_half_even x = \<lfloor>x\<rfloor> \<and> x - of_int \<lfloor>x\<rfloor> = 1 / 2"
    by (auto simp: round_half_even_def Let_def)
  then consider "round_half_even x = \<lfloor>x\<rfloor> + 1"
    | "round_half_even x = \<lfloor>x\<rfloor>" "x - of_int \<lfloor>x\<rfloor> = 1 / 2"
    by blast
  then show thesis
  proof cases
    case 1
    then show thesis using False that(2) by (simp add: algebra_simps) linarith
  next
    case 2
    then show thesis using that(1) by simp
  qed
qed

lemma round_half_even_error: "\<bar>of_int (round_half_even x) - x\<bar> \<le> 1 / 2"
  by (cases x rule: round_half_even_cases) auto

lemma round_half_even_of_int [simp]: "round_half_even (of_int n) = n"
  by (simp add: round_half_even_def)

lemma round_half_even_mono: "x \<le> y \<Longrightarrow> round_half_even x \<le> round_half_even y"
proof -
  assume le: "x \<le> y"
  show ?thesis
  proof (cases "\<lfloor>x\<rfloor> = \<lfloor>y\<rfloor>")
    case True
    then show ?thesis using le by (auto simp: round_half_even_def Let_def)
  next
    case False
    with le have "\<lfloor>x\<rfloor> + 1 \<le> \<lfloor>y\<rfloor>" using floor_mono [OF le] by linarith
    moreover have "round_half_even x \<le> \<lfloor>x\<rfloor> + 1" and "\<lfloor>y\<rfloor> \<le> round_half_even y"
      by (auto simp: round_half_even_def Let_def)
    ultimately show ?thesis by linarith
  qed
qed

lemma floor_minus_non_int: "x \<noteq> of_int \<lfloor>x\<rfloor> \<Longrightarrow> \<lfloor>- (x :: rat)\<rfloor> = - \<lfloor>x\<rfloor> - 1"
  by (rule floor_unique) (use of_int_floor_le [of x] in \<open>linarith | (simp, linarith)\<close>)+

lemma round_half_even_minus: "round_half_even (- x) = - round_half_even x"
proof (cases "x = of_int \<lfloor>x\<rfloor>")
  case True
  then obtain n where "x = of_int n" by blast
  then show ?thesis by (metis of_int_minus round_half_even_of_int)
next
  case False
  then show ?thesis
    by (auto simp: round_half_even_def Let_def floor_minus_non_int)
qed

section \<open>Rounding to the context precision\<close>

named_theorems dec_simps \<open>definitions of the decimal operations\<close>

declare dadd_def [dec_simps] dsub_def [dec_simps] dmul_def [dec_simps] ddiv_def [dec_simps]
  dneg_def [dec_simps]

text \<open>A value is representable when the context does not change it.\<close>

definition rep :: "rat \<Rightarrow> bool" where
  "rep x \<longleftrightarrow> dfix x = x"

lemma dfix_0 [simp]: "dfix 0 = 0"
  by (simp add: dfix_def)

lemma dfix_minus: "dfix (- x) = - dfix x"
  by (simp add: dfix_def Let_def round_half_even_minus)

abbreviation ulp :: "rat \<Rightarrow> rat" where
  "ulp x \<equiv> pow10 (adjusted x - (prec - 1))"

lemma dfix_nonzero: "x \<noteq> 0 \<Longrightarrow> dfix x = of_int (round_half_even (x / ulp x)) * ulp x"
  by (simp add: dfix_def Let_def)

lemma prec_digits: "pow10 (adjusted x) = 10 ^ 27 * ulp x"
  "pow10 (adjusted x + 1) = 10 ^ 28 * ulp x"
  using pow10_add_nat [of "adjusted x - 27" 27] pow10_add_nat [of "adjusted x - 27" 28]
  by (simp_all add: prec_def add.commute)

lemma coefficient_bounds:
  assumes "0 < x"
  shows "10 ^ 27 \<le> round_half_even (x / ulp x) \<and> round_half_even (x / ulp x) \<le> 10 ^ 28"
proof -
  from assms adjusted_bounds [of x]
  have "10 ^ 27 * ulp x \<le> x" and "x \<le> 10 ^ 28 * ulp x" by (simp_all add: prec_digits)
  then have "of_int (10 ^ 27) \<le> x / ulp x" and "x / ulp x \<le> of_int (10 ^ 28)"
    by (simp_all add: field_simps)
  from round_half_even_mono [OF this(1)] round_half_even_mono [OF this(2)]
  show ?thesis by (simp only: round_half_even_of_int)
qed

lemma dfix_pos_bounds:
  assumes "0 < x"
  shows "pow10 (adjusted x) \<le> dfix x \<and> dfix x \<le> pow10 (adjusted x + 1)"
proof -
  let ?c = "round_half_even (x / ulp x)"
  have "of_int (10 ^ 27) \<le> (of_int ?c :: rat)" and "of_int ?c \<le> (of_int (10 ^ 28) :: rat)"
    using coefficient_bounds [OF assms] by (simp_all only: of_int_le_iff)
  then show ?thesis
    using assms by (simp add: dfix_nonzero prec_digits)
qed

lemma dfix_pos: "0 < x \<Longrightarrow> 0 < dfix x"
  using dfix_pos_bounds [of x] pow10_pos [of "adjusted x"] by linarith

lemma dfix_neg: "x < 0 \<Longrightarrow> dfix x < 0"
  using dfix_pos [of "- x"] by (simp add: dfix_minus)

lemma dfix_pos_iff [simp]: "0 < dfix x \<longleftrightarrow> 0 < x"
proof
  assume "0 < dfix x"
  then have "\<not> x < 0" and "x \<noteq> 0" using dfix_neg [of x] by auto
  then show "0 < x" by simp
qed (rule dfix_pos)

lemma dfix_neg_iff [simp]: "dfix x < 0 \<longleftrightarrow> x < 0"
  using dfix_pos_iff [of "- x"] by (simp add: dfix_minus)

lemma dfix_nonneg_iff [simp]: "0 \<le> dfix x \<longleftrightarrow> 0 \<le> x"
  using dfix_neg_iff [of x] by linarith

lemma dfix_nonpos_iff [simp]: "dfix x \<le> 0 \<longleftrightarrow> x \<le> 0"
  using dfix_pos_iff [of x] by linarith

lemma dfix_zero_iff [simp]: "dfix x = 0 \<longleftrightarrow> x = 0"
  using dfix_nonneg_iff [of x] dfix_nonpos_iff [of x] by linarith

lemma dfix_mono_pos:
  assumes "0 < x" and "x \<le> y"
  shows "dfix x \<le> dfix y"
proof (cases "adjusted x = adjusted y")
  case True
  have "x / ulp x \<le> y / ulp x" by (rule divide_right_mono) (use assms in \<open>simp_all add: less_imp_le\<close>)
  then have "round_half_even (x / ulp x) \<le> round_half_even (y / ulp x)"
    by (rule round_half_even_mono)
  then have "(of_int (round_half_even (x / ulp x)) :: rat) \<le> of_int (round_half_even (y / ulp x))"
    by (simp only: of_int_le_iff)
  with assms True show ?thesis by (simp add: dfix_nonzero)
next
  case False
  with assms adjusted_mono [of x y] have "pow10 (adjusted x + 1) \<le> pow10 (adjusted y)"
    by (intro pow10_mono) simp
  with assms dfix_pos_bounds [of x] dfix_pos_bounds [of y] show ?thesis by simp
qed

lemma dfix_mono: "x \<le> y \<Longrightarrow> dfix x \<le> dfix y"
proof -
  assume le: "x \<le> y"
  consider "0 < x" | "y < 0" | "x \<le> 0" "0 \<le> y" by linarith
  then show ?thesis
  proof cases
    case 1
    then show ?thesis using le by (rule dfix_mono_pos)
  next
    case 2
    with le have "dfix (- y) \<le> dfix (- x)" by (intro dfix_mono_pos) simp_all
    then show ?thesis by (simp add: dfix_minus)
  next
    case 3
    then have "dfix x \<le> 0" and "0 \<le> dfix y" by simp_all
    then show ?thesis by linarith
  qed
qed

section \<open>Representable values\<close>

lemma rep_0 [simp]: "rep 0"
  by (simp add: rep_def)

lemma rep_minus [simp]: "rep (- x) \<longleftrightarrow> rep x"
  by (auto simp: rep_def dfix_minus)

lemma dfix_rep [simp]: "rep x \<Longrightarrow> dfix x = x"
  by (simp add: rep_def)

lemma rep_if_multiple: "x \<noteq> 0 \<Longrightarrow> x = of_int n * ulp x \<Longrightarrow> rep x"
proof -
  assume nz: "x \<noteq> 0" and x: "x = of_int n * ulp x"
  have "x / ulp x = of_int n" by (subst x) simp
  with nz x show "rep x" by (simp add: rep_def dfix_nonzero)
qed

lemma rep_coefficient:
  assumes "\<bar>c\<bar> \<le> 10 ^ 28"
  shows "rep (of_int c * pow10 e)"
proof (cases "c = 0")
  case False
  let ?x = "of_int c * pow10 e"
  let ?m = "adjusted ?x"
  have nz: "?x \<noteq> 0" using False by simp
  have abs: "\<bar>?x\<bar> \<le> 10 ^ 28 * pow10 e"
  proof -
    have "of_int \<bar>c\<bar> \<le> (of_int (10 ^ 28) :: rat)" using assms by (simp only: of_int_le_iff)
    then show ?thesis by (simp add: abs_mult less_imp_le)
  qed
  have up: "10 ^ 28 * pow10 e = pow10 (e + 28)" using pow10_add_nat [of e 28] by simp
  have lo: "pow10 ?m \<le> \<bar>?x\<bar>" using adjusted_bounds [OF nz] by simp
  with abs up have "pow10 ?m \<le> pow10 (e + 28)" by simp
  then have me: "?m \<le> e + 28" using pow10_strict_mono [of "e + 28" ?m] by linarith
  show ?thesis
  proof (cases "?m - 27 \<le> e")
    case True
    have "?x = of_int (c * 10 ^ nat (e - (?m - 27))) * ulp ?x"
      using pow10_split [OF True] by (simp add: prec_def)
    with nz show ?thesis by (rule rep_if_multiple)
  next
    case False
    with me have m: "?m = e + 28" by simp
    have top: "\<bar>?x\<bar> = pow10 ?m" using lo abs up m by simp
    have "pow10 ?m = 10 ^ 27 * ulp ?x" by (rule prec_digits)
    with top have "\<bar>?x\<bar> = of_int (10 ^ 27) * ulp ?x" by simp
    then have "?x = of_int (10 ^ 27) * ulp ?x \<or> ?x = of_int (- (10 ^ 27)) * ulp ?x" by linarith
    then show ?thesis using nz rep_if_multiple by blast
  qed
qed simp

lemma rep_int: "\<bar>c\<bar> \<le> 10 ^ 28 \<Longrightarrow> rep (of_int c)"
  using rep_coefficient [of c 0] by simp

lemma rep_numeral: "numeral k \<le> (10 ^ 28 :: int) \<Longrightarrow> rep (numeral k)"
  using rep_int [of "numeral k"] by simp

lemma rep_1 [simp]: "rep 1"
  using rep_int [of 1] by simp

lemma rep_100 [simp]: "rep 100"
  by (rule rep_numeral) simp

text \<open>The context's own results are representable: rounding twice is rounding once.\<close>

lemma rep_dfix [simp]: "rep (dfix x)"
proof (cases "x = 0")
  case False
  have pos: "\<bar>round_half_even (\<bar>x\<bar> / ulp x)\<bar> \<le> 10 ^ 28"
    using coefficient_bounds [of "\<bar>x\<bar>"] False by simp
  have "rep (of_int (round_half_even (\<bar>x\<bar> / ulp x)) * ulp x)"
    by (rule rep_coefficient) (rule pos)
  then have "rep (dfix \<bar>x\<bar>)" using False by (simp add: dfix_nonzero)
  then show ?thesis by (cases "0 \<le> x") (simp_all add: dfix_minus)
qed simp

lemma rep_ops [simp]: "rep (dadd a b)" "rep (dsub a b)" "rep (dmul a b)" "rep (ddiv a b)"
  "rep (dneg a)"
  by (simp_all add: dec_simps)

section \<open>Order facts of the decimal operations\<close>

lemma dfix_le_rep: "x \<le> y \<Longrightarrow> rep y \<Longrightarrow> dfix x \<le> y"
  using dfix_mono [of x y] by simp

lemma rep_le_dfix: "x \<le> y \<Longrightarrow> rep x \<Longrightarrow> x \<le> dfix y"
  using dfix_mono [of x y] by simp

lemma dadd_ge_left: "0 \<le> b \<Longrightarrow> rep a \<Longrightarrow> a \<le> dadd a b"
  by (simp add: dadd_def rep_le_dfix)

lemma dsub_le_left: "0 \<le> b \<Longrightarrow> rep a \<Longrightarrow> dsub a b \<le> a"
  by (simp add: dsub_def dfix_le_rep)

lemma dadd_0 [simp]: "rep a \<Longrightarrow> dadd a 0 = a" "rep a \<Longrightarrow> dadd 0 a = a"
  by (simp_all add: dadd_def)

lemma dsub_self [simp]: "dsub a a = 0"
  by (simp add: dsub_def)

lemma dmul_0 [simp]: "dmul a 0 = 0" "dmul 0 a = 0"
  by (simp_all add: dmul_def)

lemma dmul_1 [simp]: "rep a \<Longrightarrow> dmul a 1 = a" "rep a \<Longrightarrow> dmul 1 a = a"
  by (simp_all add: dmul_def)

lemma dadd_mono: "a \<le> b \<Longrightarrow> c \<le> d \<Longrightarrow> dadd a c \<le> dadd b d"
  by (simp add: dadd_def dfix_mono)

lemma dsub_mono: "a \<le> b \<Longrightarrow> d \<le> c \<Longrightarrow> dsub a c \<le> dsub b d"
  by (simp add: dsub_def dfix_mono)

lemma dmul_mono: "a \<le> b \<Longrightarrow> 0 \<le> c \<Longrightarrow> dmul a c \<le> dmul b c"
  by (simp add: dmul_def dfix_mono mult_right_mono)

lemma dmul_mono_left: "a \<le> b \<Longrightarrow> 0 \<le> c \<Longrightarrow> dmul c a \<le> dmul c b"
  by (simp add: dmul_def dfix_mono mult_left_mono)

lemma dmul_nonneg: "0 \<le> a \<Longrightarrow> 0 \<le> b \<Longrightarrow> 0 \<le> dmul a b"
  by (simp add: dmul_def)

lemma dmul_pos: "0 < a \<Longrightarrow> 0 < b \<Longrightarrow> 0 < dmul a b"
  by (simp add: dmul_def)

lemma ddiv_pos: "0 < a \<Longrightarrow> 0 < b \<Longrightarrow> 0 < ddiv a b"
  by (simp add: ddiv_def)

lemma ddiv_nonneg: "0 \<le> a \<Longrightarrow> 0 < b \<Longrightarrow> 0 \<le> ddiv a b"
  by (simp add: ddiv_def)

lemma ddiv_mono: "a \<le> b \<Longrightarrow> 0 < c \<Longrightarrow> ddiv a c \<le> ddiv b c"
  by (simp add: ddiv_def dfix_mono divide_right_mono)

lemma ddiv_pos_iff: "0 < c \<Longrightarrow> 0 < ddiv a c \<longleftrightarrow> 0 < a"
  by (simp add: ddiv_def zero_less_divide_iff)

lemma dmul_pos_iff: "0 < c \<Longrightarrow> 0 < dmul a c \<longleftrightarrow> 0 < a"
  by (simp add: dmul_def zero_less_mult_iff)

lemma dmul_sign [simp]: "0 < dmul a b \<longleftrightarrow> 0 < a * b" "0 \<le> dmul a b \<longleftrightarrow> 0 \<le> a * b"
  by (simp_all add: dmul_def)

lemma dsub_sign [simp]: "0 < dsub a b \<longleftrightarrow> b < a" "0 \<le> dsub a b \<longleftrightarrow> b \<le> a" "dsub a b = 0 \<longleftrightarrow> a = b"
  "dsub a b < 0 \<longleftrightarrow> a < b" "dsub a b \<le> 0 \<longleftrightarrow> a \<le> b"
  by (auto simp: dsub_def)

text \<open>The relative error of one operation: half a unit in the 28th significant digit.\<close>

lemma dfix_error: "\<bar>dfix x - x\<bar> \<le> \<bar>x\<bar> / (2 * 10 ^ 27)"
proof (cases "x = 0")
  case False
  let ?r = "of_int (round_half_even (x / ulp x)) :: rat"
  have "dfix x - x = (?r - x / ulp x) * ulp x"
    using False by (simp add: dfix_nonzero left_diff_distrib)
  then have "\<bar>dfix x - x\<bar> = \<bar>?r - x / ulp x\<bar> * ulp x" by (simp only: abs_mult abs_of_pos pow10_pos)
  also have "\<dots> \<le> 1 / 2 * ulp x"
    by (rule mult_right_mono) (use round_half_even_error in \<open>auto simp: less_imp_le\<close>)
  also have "\<dots> \<le> \<bar>x\<bar> / (2 * 10 ^ 27)"
    using adjusted_bounds [OF False] by (simp add: prec_digits field_simps)
  finally show ?thesis .
qed simp

section \<open>Evaluation\<close>

text \<open>Rounding of concrete values by the simplifier.\<close>

lemma floor_rat_numeral [simp]:
  "\<lfloor>numeral a / (numeral b :: rat)\<rfloor> = numeral a div numeral b"
  "\<lfloor>1 / (numeral b :: rat)\<rfloor> = 1 div numeral b"
  "\<lfloor>- numeral a / (numeral b :: rat)\<rfloor> = (- numeral a) div numeral b"
  "\<lfloor>- (numeral a / (numeral b :: rat))\<rfloor> = (- numeral a) div numeral b"
  using floor_divide_of_int_eq [of "numeral a" "numeral b", where ?'a = rat]
    floor_divide_of_int_eq [of 1 "numeral b", where ?'a = rat]
    floor_divide_of_int_eq [of "- numeral a" "numeral b", where ?'a = rat]
  by simp_all

lemmas dec_eval = dec_simps dfix_def Let_def adjusted_def ndigits.simps prec_def pow10_def
  round_half_even_def ceiling_def

end
