(* ===== verification/DomainTypes.thy ===== *)
theory DomainTypes
  imports Decimal
begin

text \<open>
  The data of \<^verbatim>\<open>core/domain_types.py\<close> that the engines exchange, the strings operations
  the code applies to them, and the world an engine runs in: a clock, the supply of
  \<^verbatim>\<open>uuid4()\<close> values and the exchange. An enumeration is a \<^theory_text>\<open>datatype\<close> with its
  \<^verbatim>\<open>.value\<close>; a dataclass is a \<^theory_text>\<open>record\<close>. The exchange behind an adapter is a state of
  arbitrary type \<open>'x\<close>, and an adapter is a record of functions on it.
\<close>

section \<open>Strings, identifiers, time\<close>

type_synonym uuid = nat
type_synonym datetime = int

definition char_upper :: "char \<Rightarrow> char" where
  "char_upper c = (let n = (of_char c :: nat) in if 97 \<le> n \<and> n \<le> 122 then char_of (n - 32) else c)"

definition char_lower :: "char \<Rightarrow> char" where
  "char_lower c = (let n = (of_char c :: nat) in if 65 \<le> n \<and> n \<le> 90 then char_of (n + 32) else c)"

definition py_upper :: "string \<Rightarrow> string" where
  "py_upper = map char_upper"

definition py_lower :: "string \<Rightarrow> string" where
  "py_lower = map char_lower"

definition is_space :: "char \<Rightarrow> bool" where
  "is_space c \<longleftrightarrow> (let n = (of_char c :: nat) in n = 32 \<or> (9 \<le> n \<and> n \<le> 13) \<or> (28 \<le> n \<and> n \<le> 31))"

text \<open>\<^verbatim>\<open>not s or not s.strip()\<close>\<close>

definition blank :: "string \<Rightarrow> bool" where
  "blank s \<longleftrightarrow> list_all is_space s"

text \<open>The truth value of an optional string, and \<^verbatim>\<open>a or b\<close> on such values.\<close>

definition truthy :: "string option \<Rightarrow> bool" where
  "truthy x \<longleftrightarrow> x \<noteq> None \<and> x \<noteq> Some []"

definition py_or :: "string option \<Rightarrow> string option \<Rightarrow> string option" where
  "py_or a b = (if truthy a then a else b)"

lemma char_upper_idem: "char_upper (char_upper c) = char_upper c"
proof -
  have "of_char (char_of n :: char) = (n :: nat)" if "n < 256" for n
    using that by simp
  then show ?thesis by (auto simp: char_upper_def Let_def)
qed

lemma py_upper_idem [simp]: "py_upper (py_upper s) = py_upper s"
  by (simp add: py_upper_def char_upper_idem comp_def)

section \<open>Enumerations\<close>

datatype order_side = BUY | SELL

fun side_value :: "order_side \<Rightarrow> string" where
  "side_value BUY = ''buy''"
| "side_value SELL = ''sell''"

datatype order_type = LIMIT | MARKET | STOP_LIMIT

fun order_type_value :: "order_type \<Rightarrow> string" where
  "order_type_value LIMIT = ''limit''"
| "order_type_value MARKET = ''market''"
| "order_type_value STOP_LIMIT = ''stop_limit''"

datatype order_status =
  O_PENDING | O_OPEN | O_PARTIALLY_FILLED | O_FILLED | O_CANCELLED | O_REJECTED | O_EXPIRED

fun order_status_value :: "order_status \<Rightarrow> string" where
  "order_status_value O_PENDING = ''pending''"
| "order_status_value O_OPEN = ''open''"
| "order_status_value O_PARTIALLY_FILLED = ''partially_filled''"
| "order_status_value O_FILLED = ''filled''"
| "order_status_value O_CANCELLED = ''cancelled''"
| "order_status_value O_REJECTED = ''rejected''"
| "order_status_value O_EXPIRED = ''expired''"

datatype instance_status =
  T_CREATED | T_READY | T_RUNNING | T_PAUSED | T_STOPPING | T_STOPPED | T_ERROR | T_RECOVERING
  | T_RECOVERED

fun instance_status_value :: "instance_status \<Rightarrow> string" where
  "instance_status_value T_CREATED = ''created''"
| "instance_status_value T_READY = ''ready''"
| "instance_status_value T_RUNNING = ''running''"
| "instance_status_value T_PAUSED = ''paused''"
| "instance_status_value T_STOPPING = ''stopping''"
| "instance_status_value T_STOPPED = ''stopped''"
| "instance_status_value T_ERROR = ''error''"
| "instance_status_value T_RECOVERING = ''recovering''"
| "instance_status_value T_RECOVERED = ''recovered''"

datatype level_status = L_WAITING | L_OPEN | L_FILLED | L_CANCELLED | L_TP_HIT

fun level_status_value :: "level_status \<Rightarrow> string" where
  "level_status_value L_WAITING = ''waiting''"
| "level_status_value L_OPEN = ''open''"
| "level_status_value L_FILLED = ''filled''"
| "level_status_value L_CANCELLED = ''cancelled''"
| "level_status_value L_TP_HIT = ''tp_hit''"

datatype risk_level = RISK_LOW | RISK_MEDIUM | RISK_HIGH | RISK_CRITICAL

section \<open>Orders\<close>

text \<open>\<open>r_error_message\<close> holds the exception whose \<^verbatim>\<open>str()\<close> the code stores.\<close>

record order_result =
  r_order_id :: string
  r_exchange_order_id :: string
  r_symbol :: string
  r_side :: string
  r_order_type :: string
  r_quantity :: decimal
  r_price :: "decimal option"
  r_filled_quantity :: decimal
  r_average_fill_price :: "decimal option"
  r_status :: string
  r_created_at :: datetime
  r_updated_at :: datetime
  r_error_message :: "exn option"

section \<open>Grids\<close>

record grid_level =
  lv_level :: int
  lv_buy_price :: decimal
  lv_sell_price :: decimal
  lv_quantity :: decimal
  lv_buy_order_id :: "string option"
  lv_sell_order_id :: "string option"
  lv_status :: level_status

record grid_state =
  g_instance_id :: string
  g_status :: string
  g_upper_price :: decimal
  g_lower_price :: decimal
  g_grid_count :: int
  g_grid_spacing :: decimal
  g_investment_per_grid :: decimal
  g_levels :: "grid_level list"
  g_total_cycles :: int
  g_total_profit :: decimal
  g_exchange_account_id :: "uuid option"
  g_symbol :: string
  g_current_price :: "decimal option"

section \<open>The world\<close>

record 'x world =
  clock :: datetime
  uuid_next :: uuid
  sleeps :: "rat list"
  exch :: 'x

text \<open>
  An exchange adapter (\<^verbatim>\<open>adapters/base.py\<close>), with the operations the execution engine calls.
  Each runs on the exchange's own state and returns or raises.
\<close>

record 'x adapter =
  ad_exchange_name :: string
  ad_place_order :: "string \<Rightarrow> string \<Rightarrow> string \<Rightarrow> decimal \<Rightarrow> decimal option \<Rightarrow> decimal option \<Rightarrow>
    string option \<Rightarrow> ('x, order_result) py"
  ad_cancel_order :: "string \<Rightarrow> string \<Rightarrow> ('x, bool) py"
  ad_get_order :: "string \<Rightarrow> string \<Rightarrow> ('x, order_result) py"
  ad_get_open_orders :: "string option \<Rightarrow> ('x, order_result list) py"

definition now :: "(('x, 'm) world_scheme, datetime) py" where
  "now = gets clock"

definition uuid4 :: "(('x, 'm) world_scheme, uuid) py" where
  "uuid4 = (\<lambda>s. (Ok (uuid_next s), s\<lparr>uuid_next := Suc (uuid_next s)\<rparr>))"

definition sleep :: "rat \<Rightarrow> (('x, 'm) world_scheme, unit) py" where
  "sleep d = modify (\<lambda>s. s\<lparr>sleeps := sleeps s @ [d]\<rparr>)"

definition call_adapter :: "('x, 'a) py \<Rightarrow> (('x, 'm) world_scheme, 'a) py" where
  "call_adapter f = (\<lambda>s. case f (exch s) of (r, x) \<Rightarrow> (r, s\<lparr>exch := x\<rparr>))"

declare now_def [py_simps] uuid4_def [py_simps] sleep_def [py_simps] call_adapter_def [py_simps]

lemma bind_uuid4: "bind uuid4 f s = f (uuid_next s) (s\<lparr>uuid_next := Suc (uuid_next s)\<rparr>)"
  by (simp add: py_simps)

text \<open>The routines of the world touch nothing of the engines' own state.\<close>

lemma world_frames [resp_intros]:
  "obeys (same world.more) now" "obeys (same world.more) uuid4" "obeys (same world.more) (sleep d)"
  "obeys (same world.more) (call_adapter f)"
  by (auto simp: obeys_def same_def py_simps split: prod.splits)

section \<open>Market data\<close>

record ticker_data =
  td_symbol :: string
  td_bid :: decimal
  td_ask :: decimal
  td_last :: decimal
  td_volume :: decimal
  td_timestamp :: datetime

record order_book =
  ob_symbol :: string
  ob_bids :: "(decimal \<times> decimal) list"
  ob_asks :: "(decimal \<times> decimal) list"
  ob_timestamp :: datetime

record market_candle =
  mc_symbol :: string
  mc_interval :: string
  mc_open :: decimal
  mc_high :: decimal
  mc_low :: decimal
  mc_close :: decimal
  mc_volume :: decimal
  mc_timestamp :: datetime

end
