(* ===== verification/GridModel.thy ===== *)
theory GridModel
  imports DomainTypes
begin

text \<open>
  \<^verbatim>\<open>engine/grid/state.py\<close> (the state machines and the operations on the levels of one grid),
  \<^verbatim>\<open>engine/grid/calculator.py\<close> and \<^verbatim>\<open>engine/grid/planner.py\<close>: how the levels of a grid
  are laid out between two prices or from averaging steps, and which orders a price calls for.
  Grid states are strings in the code and here; level lookups take the first level with the number.
\<close>

section \<open>State machines\<close>

abbreviation "G_IDLE \<equiv> ''idle''"
abbreviation "G_INITIALIZED \<equiv> ''initialized''"
abbreviation "G_ACTIVE \<equiv> ''active''"
abbreviation "G_PAUSED \<equiv> ''paused''"
abbreviation "G_COMPLETED \<equiv> ''completed''"
abbreviation "G_ERROR \<equiv> ''error''"

definition grid_transitions :: "string \<Rightarrow> string list" where
  "grid_transitions st =
     (if st = G_IDLE then [G_INITIALIZED]
      else if st = G_INITIALIZED then [G_ACTIVE, G_ERROR]
      else if st = G_ACTIVE then [G_PAUSED, G_COMPLETED, G_ERROR]
      else if st = G_PAUSED then [G_ACTIVE, G_COMPLETED, G_ERROR]
      else if st = G_ERROR then [G_ACTIVE, G_PAUSED]
      else [])"

fun level_transitions :: "level_status \<Rightarrow> level_status list" where
  "level_transitions L_WAITING = [L_OPEN, L_CANCELLED]"
| "level_transitions L_OPEN = [L_FILLED, L_CANCELLED, L_WAITING, L_TP_HIT]"
| "level_transitions L_FILLED = [L_OPEN, L_TP_HIT, L_CANCELLED]"
| "level_transitions L_TP_HIT = [L_WAITING, L_OPEN]"
| "level_transitions L_CANCELLED = [L_WAITING]"

definition validate_grid_transition :: "string \<Rightarrow> string \<Rightarrow> unit res" where
  "validate_grid_transition from_status to_status =
     (if to_status \<notin> set (grid_transitions from_status)
      then Raise (Exn InvalidStateTransition [from_status, to_status]) else Ok ())"

definition validate_level_transition :: "level_status \<Rightarrow> level_status \<Rightarrow> unit res" where
  "validate_level_transition from_status to_status =
     (if to_status \<notin> set (level_transitions from_status)
      then Raise (Exn InvalidStateTransition
             [level_status_value from_status, level_status_value to_status])
      else Ok ())"

definition is_grid_terminal :: "string \<Rightarrow> bool" where
  "is_grid_terminal st \<longleftrightarrow> st \<in> set [G_COMPLETED]"

definition is_level_terminal :: "level_status \<Rightarrow> bool" where
  "is_level_terminal st \<longleftrightarrow> st = L_TP_HIT"

interpretation grid_sm: validated_machine grid_transitions validate_grid_transition
  by unfold_locales (simp add: validate_grid_transition_def)

interpretation level_sm: validated_machine level_transitions validate_level_transition
  by unfold_locales (simp add: validate_level_transition_def)

section \<open>Levels by number\<close>

definition find_level :: "int \<Rightarrow> grid_level list \<Rightarrow> grid_level option" where
  "find_level n lvs = find (\<lambda>lv. lv_level lv = n) lvs"

text \<open>The assignment to the object found: the first level with the number.\<close>

fun set_level :: "int \<Rightarrow> (grid_level \<Rightarrow> grid_level) \<Rightarrow> grid_level list \<Rightarrow> grid_level list" where
  "set_level n f [] = []"
| "set_level n f (lv # lvs) = (if lv_level lv = n then f lv # lvs else lv # set_level n f lvs)"

text \<open>A function that updates other fields than the number.\<close>

abbreviation keeps_number :: "(grid_level \<Rightarrow> grid_level) \<Rightarrow> bool" where
  "keeps_number f \<equiv> (\<forall>lv. lv_level (f lv) = lv_level lv)"

lemma find_level_simps [simp]:
  "find_level n [] = None"
  "find_level n (lv # lvs) = (if lv_level lv = n then Some lv else find_level n lvs)"
  by (auto simp: find_level_def)

lemma find_level_Some: "find_level n lvs = Some lv \<Longrightarrow> lv \<in> set lvs \<and> lv_level lv = n"
  by (induction lvs) (auto split: if_splits)

lemma find_set_level:
  "keeps_number f \<Longrightarrow>
   find_level m (set_level n f lvs) = (if m = n then map_option f (find_level n lvs) else find_level m lvs)"
  by (induction lvs) auto

lemma set_level_numbers [simp]: "keeps_number f \<Longrightarrow> map lv_level (set_level n f lvs) = map lv_level lvs"
  by (induction lvs) auto

lemma set_level_length [simp]: "length (set_level n f lvs) = length lvs"
  by (induction lvs) auto

lemma set_level_compose:
  "keeps_number f \<Longrightarrow> set_level n g (set_level n f lvs) = set_level n (\<lambda>lv. g (f lv)) lvs"
  by (induction lvs) auto

lemma set_level_missing: "find_level n lvs = None \<Longrightarrow> set_level n f lvs = lvs"
  by (induction lvs) (auto split: if_splits)

lemma find_level_None: "find_level n lvs = None \<longleftrightarrow> n \<notin> lv_level ` set lvs"
  by (induction lvs) auto

lemma find_level_distinct:
  "distinct (map lv_level lvs) \<Longrightarrow> lv \<in> set lvs \<Longrightarrow> find_level (lv_level lv) lvs = Some lv"
  by (induction lvs) (auto simp: rev_image_eqI)

text \<open>The stores of the levels of one grid share the contract of a keyed map of fixed keys.\<close>

lemma set_level_distinct:
  "distinct (map lv_level lvs) \<Longrightarrow>
   set_level n f lvs = map (\<lambda>lv. if lv_level lv = n then f lv else lv) lvs"
proof (induction lvs)
  case (Cons a lvs)
  then show ?case by (auto intro!: map_idI [symmetric] simp: image_iff)
qed simp

section \<open>Calculator\<close>

definition validate_parameters :: "decimal \<Rightarrow> decimal \<Rightarrow> int \<Rightarrow> decimal \<Rightarrow> unit res" where
  "validate_parameters upper_price lower_price grid_count investment =
     (if upper_price \<le> lower_price then Raise (Exn ValidationError [])
      else if grid_count < 2 then Raise (Exn ValidationError [])
      else if investment \<le> 0 then Raise (Exn ValidationError [])
      else Ok ())"

definition calculate_spacing :: "decimal \<Rightarrow> decimal \<Rightarrow> int \<Rightarrow> decimal res" where
  "calculate_spacing upper_price lower_price grid_count =
     py_div (dsub upper_price lower_price) (of_int grid_count)"

definition tp_multiplier :: decimal where
  "tp_multiplier = 5 / 2"

definition uniform_level :: "decimal \<Rightarrow> decimal \<Rightarrow> decimal \<Rightarrow> decimal \<Rightarrow> int \<Rightarrow> grid_level" where
  "uniform_level upper_price lower_price spacing investment i =
     (let buy_price = dadd lower_price (dmul spacing (of_int i));
          target = dadd buy_price (dmul spacing tp_multiplier);
          sell_price = (if upper_price < target then upper_price else target);
          quantity = (if 0 < buy_price then ddiv investment buy_price else 0)
      in \<lparr>lv_level = i, lv_buy_price = buy_price, lv_sell_price = sell_price, lv_quantity = quantity,
          lv_buy_order_id = None, lv_sell_order_id = None, lv_status = L_WAITING\<rparr>)"

definition calculate_levels :: "decimal \<Rightarrow> decimal \<Rightarrow> int \<Rightarrow> decimal \<Rightarrow> grid_level list res" where
  "calculate_levels upper_price lower_price grid_count investment =
     (case validate_parameters upper_price lower_price grid_count investment of
        Raise e \<Rightarrow> Raise e
      | Ok _ \<Rightarrow>
          (case calculate_spacing upper_price lower_price grid_count of
             Raise e \<Rightarrow> Raise e
           | Ok spacing \<Rightarrow>
               Ok (map (uniform_level upper_price lower_price spacing investment) [0..grid_count - 1])))"

record grid_data =
  gd_levels :: "grid_level list"
  gd_spacing :: decimal

definition calculate_grid_state_data :: "decimal \<Rightarrow> decimal \<Rightarrow> int \<Rightarrow> decimal \<Rightarrow> grid_data res" where
  "calculate_grid_state_data upper_price lower_price grid_count investment =
     (case calculate_levels upper_price lower_price grid_count investment of
        Raise e \<Rightarrow> Raise e
      | Ok lvs \<Rightarrow>
          (case calculate_spacing upper_price lower_price grid_count of
             Raise e \<Rightarrow> Raise e
           | Ok spacing \<Rightarrow> Ok \<lparr>gd_levels = lvs, gd_spacing = spacing\<rparr>))"

record averaging_step =
  st_step_number :: int
  st_drop_rate :: decimal
  st_multiple_buy_amount :: "decimal option"
  st_take_profit :: decimal

text \<open>One turn of the loop over the steps; the next step starts from the buy price of this one.\<close>

definition averaging_level :: "decimal \<Rightarrow> decimal \<Rightarrow> decimal \<Rightarrow> averaging_step \<Rightarrow> grid_level res" where
  "averaging_level start_price investment prev step =
     (let n = st_step_number step;
          multiplier = (case st_multiple_buy_amount step of None \<Rightarrow> 1 | Some x \<Rightarrow> x);
          buy_price = (if n = 0 then start_price
                       else dmul prev (dsub 1 (ddiv (st_drop_rate step) 100)))
      in if n \<noteq> 0 \<and> buy_price \<le> 0 then Raise (Exn ValidationError [])
         else Ok \<lparr>lv_level = n, lv_buy_price = buy_price,
                  lv_sell_price = dmul buy_price (dadd 1 (ddiv (st_take_profit step) 100)),
                  lv_quantity = (if 0 < buy_price then ddiv (dmul investment multiplier) buy_price else 0),
                  lv_buy_order_id = None, lv_sell_order_id = None, lv_status = L_WAITING\<rparr>)"

fun averaging_levels :: "decimal \<Rightarrow> decimal \<Rightarrow> decimal \<Rightarrow> averaging_step list \<Rightarrow> grid_level list res" where
  "averaging_levels start_price investment prev [] = Ok []"
| "averaging_levels start_price investment prev (step # steps) =
     (case averaging_level start_price investment prev step of
        Raise e \<Rightarrow> Raise e
      | Ok lv \<Rightarrow>
          (case averaging_levels start_price investment (lv_buy_price lv) steps of
             Raise e \<Rightarrow> Raise e
           | Ok lvs \<Rightarrow> Ok (lv # lvs)))"

definition calculate_levels_with_averaging ::
  "decimal \<Rightarrow> decimal \<Rightarrow> averaging_step list \<Rightarrow> grid_level list res" where
  "calculate_levels_with_averaging start_price investment steps =
     (if steps = [] then Raise (Exn ValidationError [])
      else if investment \<le> 0 then Raise (Exn ValidationError [])
      else if start_price \<le> 0 then Raise (Exn ValidationError [])
      else averaging_levels start_price investment start_price steps)"

definition calculate_grid_state_data_with_averaging ::
  "decimal \<Rightarrow> decimal \<Rightarrow> averaging_step list \<Rightarrow> grid_data res" where
  "calculate_grid_state_data_with_averaging start_price investment steps =
     (case calculate_levels_with_averaging start_price investment steps of
        Raise e \<Rightarrow> Raise e
      | Ok lvs \<Rightarrow> Ok \<lparr>gd_levels = lvs, gd_spacing = 0\<rparr>)"

section \<open>Planner\<close>

datatype action_kind = PLACE_BUY | PLACE_SELL | CANCEL

record grid_action =
  ga_level :: int
  ga_action :: action_kind
  ga_side :: order_side
  ga_price :: decimal
  ga_quantity :: decimal
  ga_order_id :: "string option"

definition buy_action :: "grid_level \<Rightarrow> grid_action" where
  "buy_action lv = \<lparr>ga_level = lv_level lv, ga_action = PLACE_BUY, ga_side = BUY,
     ga_price = lv_buy_price lv, ga_quantity = lv_quantity lv, ga_order_id = None\<rparr>"

definition sell_action :: "grid_level \<Rightarrow> grid_action" where
  "sell_action lv = \<lparr>ga_level = lv_level lv, ga_action = PLACE_SELL, ga_side = SELL,
     ga_price = lv_sell_price lv, ga_quantity = lv_quantity lv, ga_order_id = None\<rparr>"

definition plan_level :: "grid_level \<Rightarrow> decimal \<Rightarrow> grid_action option" where
  "plan_level lv current_price =
     (case lv_status lv of
        L_WAITING \<Rightarrow> if current_price \<le> lv_buy_price lv then Some (buy_action lv) else None
      | L_FILLED \<Rightarrow> if lv_sell_price lv \<le> current_price then Some (sell_action lv) else None
      | L_TP_HIT \<Rightarrow> Some (buy_action lv)
      | _ \<Rightarrow> None)"

text \<open>Whether the widened step passes over the buy of a level; \<^verbatim>\<open>int()\<close> of a decimal truncates.\<close>

definition skips_buy :: "bool \<Rightarrow> decimal \<Rightarrow> int \<Rightarrow> bool" where
  "skips_buy breaker_active widen_multiplier n \<longleftrightarrow>
     breaker_active \<and> 1 < widen_multiplier \<and> 1 < \<lfloor>widen_multiplier\<rfloor> \<and> n mod \<lfloor>widen_multiplier\<rfloor> \<noteq> 0"

definition plan :: "grid_level list \<Rightarrow> decimal \<Rightarrow> bool \<Rightarrow> decimal \<Rightarrow> grid_action list" where
  "plan lvs current_price breaker_active widen_multiplier =
     filter (\<lambda>a. \<not> (ga_action a = PLACE_BUY \<and> skips_buy breaker_active widen_multiplier (ga_level a)))
       (List.map_filter (\<lambda>lv. plan_level lv current_price) lvs)"

definition plan_initial :: "grid_level list \<Rightarrow> decimal \<Rightarrow> grid_action list" where
  "plan_initial lvs current_price =
     map buy_action (filter (\<lambda>lv. lv_status lv = L_WAITING \<and> lv_buy_price lv < current_price) lvs)"

definition cancel_action :: "grid_level \<Rightarrow> grid_action option" where
  "cancel_action lv =
     (if lv_status lv = L_OPEN then
        (case py_or (lv_buy_order_id lv) (lv_sell_order_id lv) of
           None \<Rightarrow> None
         | Some oid \<Rightarrow> Some \<lparr>ga_level = lv_level lv, ga_action = CANCEL,
             ga_side = (if truthy (lv_buy_order_id lv) then BUY else SELL),
             ga_price = lv_buy_price lv, ga_quantity = lv_quantity lv, ga_order_id = Some oid\<rparr>)
      else None)"

definition plan_cancel_all :: "grid_level list \<Rightarrow> grid_action list" where
  "plan_cancel_all lvs = List.map_filter cancel_action lvs"

section \<open>The uniform layout\<close>

lemma calculate_levels_Ok:
  "calculate_levels u l n amount = Ok lvs \<longleftrightarrow> l < u \<and> 2 \<le> n \<and> 0 < amount \<and>
     lvs = map (uniform_level u l (ddiv (dsub u l) (of_int n)) amount) [0..n - 1]"
  by (auto simp: calculate_levels_def validate_parameters_def calculate_spacing_def py_div_def not_le)

lemma dfix_upper: "0 \<le> x \<Longrightarrow> dfix x \<le> x * (1 + 1 / (2 * 10 ^ 27))"
proof -
  assume "0 \<le> x"
  have "dfix x - x \<le> \<bar>dfix x - x\<bar>" by simp
  also have "\<dots> \<le> x / (2 * 10 ^ 27)" using dfix_error [of x] \<open>0 \<le> x\<close> by simp
  finally show ?thesis by (simp add: algebra_simps)
qed

lemma uniform_buy_below:
  assumes "rep u" and "rep (u - l)" and "l < u" and "0 \<le> i" and "i < n" and "n \<le> 10 ^ 27"
  shows "dadd l (dmul (ddiv (dsub u l) (of_int n)) (of_int i)) \<le> u"
proof -
  let ?d = "u - l" and ?e = "1 / (2 * 10 ^ 27) :: rat"
  let ?s = "ddiv (dsub u l) (of_int n)"
  have n: "0 < (of_int n :: rat)" and d: "0 < ?d" using assms by simp_all
  have s: "?s \<le> ?d / of_int n * (1 + ?e)"
    using dfix_upper [of "?d / of_int n"] n d assms(2) by (simp add: ddiv_def dsub_def)
  have "(of_int i :: rat) \<le> of_int n - 1" using assms(5) by (simp add: of_int_diff [symmetric] del: of_int_diff)
  then have "of_int i * (1 + ?e) \<le> (of_int n - 1) * (1 + ?e)" by (rule mult_right_mono) simp
  also have "\<dots> \<le> of_int n"
  proof -
    have "(of_int n :: rat) \<le> 10 ^ 27"
      using assms(6) by (metis of_int_le_iff of_int_numeral of_int_power)
    then show ?thesis by (simp add: algebra_simps)
  qed
  finally have i: "of_int i * (1 + ?e) \<le> of_int n" .
  have "?s * of_int i \<le> ?d / of_int n * (1 + ?e) * of_int i"
    using s assms(4) by (intro mult_right_mono) simp_all
  also have "\<dots> = ?d / of_int n * (of_int i * (1 + ?e))" by simp
  also have "\<dots> \<le> ?d / of_int n * of_int n" using i n d by (intro mult_left_mono) simp_all
  also have "\<dots> = ?d" using n by simp
  finally have "dmul ?s (of_int i) \<le> ?d" unfolding dmul_def by (rule dfix_le_rep [OF _ assms(2)])
  then have "l + dmul ?s (of_int i) \<le> u" by simp
  then show ?thesis unfolding dadd_def by (rule dfix_le_rep [OF _ assms(1)])
qed

lemma uniform_buy_mono:
  "0 \<le> s \<Longrightarrow> x \<le> y \<Longrightarrow> dadd l (dmul s x) \<le> dadd l (dmul s y)"
  by (intro dadd_mono dmul_mono_left) simp_all

lemma uniform_sell_mono:
  "0 \<le> s \<Longrightarrow> i \<le> j \<Longrightarrow>
   lv_sell_price (uniform_level u l s amount i) \<le> lv_sell_price (uniform_level u l s amount j)"
  using dadd_mono [OF uniform_buy_mono [of s "of_int i" "of_int j" l] order_refl, of "dmul s tp_multiplier"]
  by (simp add: uniform_level_def Let_def)

text \<open>The quantity of a level buys the investment, up to one rounding.\<close>

lemma quantity_cost:
  assumes "0 < b" and "0 < amount"
  shows "\<bar>ddiv amount b * b - amount\<bar> \<le> amount / (2 * 10 ^ 27)"
proof -
  have "\<bar>ddiv amount b - amount / b\<bar> \<le> amount / b / (2 * 10 ^ 27)"
    using dfix_error [of "amount / b"] assms by (simp add: ddiv_def)
  then have "\<bar>ddiv amount b - amount / b\<bar> * b \<le> amount / b / (2 * 10 ^ 27) * b"
    using assms(1) by (intro mult_right_mono) simp_all
  moreover have "\<bar>ddiv amount b - amount / b\<bar> * b = \<bar>ddiv amount b * b - amount\<bar>"
    using assms(1) by (simp add: abs_mult_pos left_diff_distrib)
  ultimately show ?thesis using assms(1) by simp
qed

section \<open>The averaging layout\<close>

lemma averaging_level_drop:
  assumes "averaging_level sp amount prev step = Ok lv" and "st_step_number step \<noteq> 0"
    and "rep prev" and "0 < prev" and "0 \<le> st_drop_rate step"
  shows "lv_level lv = st_step_number step \<and> 0 < lv_buy_price lv \<and> lv_buy_price lv \<le> prev \<and>
    rep (lv_buy_price lv)"
proof -
  have "dsub 1 (ddiv (st_drop_rate step) 100) \<le> 1"
    using assms(5) by (intro dsub_le_left ddiv_nonneg) simp_all
  then have "dmul prev (dsub 1 (ddiv (st_drop_rate step) 100)) \<le> dmul prev 1"
    using assms(4) by (intro dmul_mono_left) simp_all
  with assms show ?thesis
    by (auto simp: averaging_level_def Let_def not_le simp del: dmul_sign split: if_splits)
qed

lemma averaging_level_sell:
  assumes "averaging_level sp amount prev step = Ok lv" and "0 \<le> st_take_profit step"
    and "rep (lv_buy_price lv)" and "0 < lv_buy_price lv"
  shows "lv_buy_price lv \<le> lv_sell_price lv"
proof -
  have "1 \<le> dadd 1 (ddiv (st_take_profit step) 100)"
    using assms(2) by (intro dadd_ge_left ddiv_nonneg) simp_all
  then have "dmul (lv_buy_price lv) 1 \<le> dmul (lv_buy_price lv) (dadd 1 (ddiv (st_take_profit step) 100))"
    using assms(4) by (intro dmul_mono_left) simp_all
  with assms show ?thesis
    by (auto simp: averaging_level_def Let_def split: if_splits)
qed

lemma averaging_levels_layout:
  assumes "averaging_levels sp amount prev steps = Ok lvs" and "rep prev" and "0 < prev"
    and "\<forall>st \<in> set steps. st_step_number st \<noteq> 0 \<and> 0 \<le> st_drop_rate st \<and> 0 \<le> st_take_profit st"
  shows "map lv_level lvs = map st_step_number steps \<and> sorted_wrt (\<ge>) (map lv_buy_price lvs) \<and>
    (\<forall>lv \<in> set lvs. 0 < lv_buy_price lv \<and> lv_buy_price lv \<le> prev \<and> lv_buy_price lv \<le> lv_sell_price lv)"
  using assms
proof (induction steps arbitrary: prev lvs)
  case (Cons step steps)
  from Cons.prems(1) obtain lv rest where lv: "averaging_level sp amount prev step = Ok lv"
    and rest: "averaging_levels sp amount (lv_buy_price lv) steps = Ok rest" and lvs: "lvs = lv # rest"
    by (auto split: res.splits)
  have one: "lv_level lv = st_step_number step \<and> 0 < lv_buy_price lv \<and> lv_buy_price lv \<le> prev \<and>
      rep (lv_buy_price lv)"
    using averaging_level_drop [OF lv] Cons.prems(2-4) by simp
  have "lv_buy_price lv \<le> lv_sell_price lv"
    using averaging_level_sell [OF lv] one Cons.prems(4) by simp
  moreover have "map lv_level rest = map st_step_number steps \<and> sorted_wrt (\<ge>) (map lv_buy_price rest) \<and>
      (\<forall>x \<in> set rest. 0 < lv_buy_price x \<and> lv_buy_price x \<le> lv_buy_price lv \<and> lv_buy_price x \<le> lv_sell_price x)"
    using Cons.IH [OF rest] one Cons.prems(4) by simp
  ultimately show ?case using one unfolding lvs by fastforce
qed simp

section \<open>Properties\<close>

text \<open>
  The uniform grid between two prices. For a range that a decimal represents exactly and up to
  \<open>10 ^ 27\<close> levels, the calculator returns one level for each number from 0 on, with buy and sell
  prices in ascending order inside the range, no sale under the purchase price, and quantities that
  cost the investment per grid up to one decimal rounding; all levels wait.
\<close>

theorem uniform_grid_layout:
  assumes "calculate_levels u l n amount = Ok lvs" and "rep u" and "rep l" and "rep (u - l)"
    and "0 < l" and "n \<le> 10 ^ 27"
  shows "map lv_level lvs = [0..n - 1] \<and>
    sorted (map lv_buy_price lvs) \<and> sorted (map lv_sell_price lvs) \<and>
    (\<forall>lv \<in> set lvs. l \<le> lv_buy_price lv \<and> lv_buy_price lv \<le> lv_sell_price lv \<and> lv_sell_price lv \<le> u \<and>
       0 < lv_quantity lv \<and> \<bar>lv_quantity lv * lv_buy_price lv - amount\<bar> \<le> amount / (2 * 10 ^ 27) \<and>
       lv_status lv = L_WAITING)"
proof -
  let ?s = "ddiv (dsub u l) (of_int n)"
  let ?lv = "uniform_level u l ?s amount"
  have lu: "l < u" and n: "2 \<le> n" and amount: "0 < amount" and lvs: "lvs = map ?lv [0..n - 1]"
    using assms(1) unfolding calculate_levels_Ok by simp_all
  have s: "0 \<le> ?s" using lu n by (intro ddiv_nonneg) simp_all
  have buys: "sorted (map lv_buy_price lvs)"
    unfolding lvs by (auto simp: sorted_iff_nth_mono uniform_level_def Let_def intro!: uniform_buy_mono [OF s])
  have sells: "sorted (map lv_sell_price lvs)"
    unfolding lvs by (auto simp: sorted_iff_nth_mono intro!: uniform_sell_mono [OF s])
  have each: "l \<le> lv_buy_price (?lv i) \<and> lv_buy_price (?lv i) \<le> lv_sell_price (?lv i) \<and>
      lv_sell_price (?lv i) \<le> u \<and> 0 < lv_quantity (?lv i) \<and>
      \<bar>lv_quantity (?lv i) * lv_buy_price (?lv i) - amount\<bar> \<le> amount / (2 * 10 ^ 27) \<and>
      lv_status (?lv i) = L_WAITING" if "0 \<le> i" "i < n" for i
  proof -
    let ?b = "dadd l (dmul ?s (of_int i))"
    have "l \<le> ?b" using s that(1) assms(3) by (intro dadd_ge_left dmul_nonneg) simp_all
    moreover have "?b \<le> u" using uniform_buy_below [OF assms(2,4) lu that assms(6)] .
    moreover have "?b \<le> dadd ?b (dmul ?s tp_multiplier)"
      using s by (intro dadd_ge_left dmul_nonneg) (simp_all add: tp_multiplier_def)
    moreover have "0 < ?b" using \<open>l \<le> ?b\<close> assms(5) by simp
    ultimately show ?thesis
      using quantity_cost [OF \<open>0 < ?b\<close> amount] amount
      by (simp add: uniform_level_def Let_def ddiv_pos)
  qed
  have "map lv_level lvs = [0..n - 1]" by (simp add: lvs uniform_level_def Let_def comp_def)
  with buys sells each show ?thesis by (auto simp: lvs)
qed

theorem uniform_grid_layout_witness:
  "\<exists>lvs. calculate_levels 200 100 4 50 = Ok lvs \<and> map lv_level lvs = [0..3] \<and>
     sorted (map lv_buy_price lvs)"
proof -
  obtain lvs where "calculate_levels 200 100 4 50 = Ok lvs"
    by (auto simp: calculate_levels_Ok)
  with uniform_grid_layout [of 200 100 4 50 lvs] show ?thesis by (simp add: rep_numeral)
qed

text \<open>
  The averaging grid. When the steps are numbered from 0, every drop rate and take-profit is not
  negative and the calculator does not refuse, it returns one level per step with the step's number,
  the first one at the start price; the buy prices are positive and never rise from step to step, and
  no level sells under its buy price.
\<close>

theorem averaging_grid_layout:
  assumes "calculate_levels_with_averaging sp amount (step # steps) = Ok lvs" and "rep sp"
    and "st_step_number step = 0" and "\<forall>st \<in> set steps. st_step_number st \<noteq> 0"
    and "\<forall>st \<in> set (step # steps). 0 \<le> st_drop_rate st \<and> 0 \<le> st_take_profit st"
  shows "map lv_level lvs = map st_step_number (step # steps) \<and> lv_buy_price (hd lvs) = sp \<and>
    sorted_wrt (\<ge>) (map lv_buy_price lvs) \<and>
    (\<forall>lv \<in> set lvs. 0 < lv_buy_price lv \<and> lv_buy_price lv \<le> lv_sell_price lv)"
proof -
  from assms(1) have sp: "0 < sp" and "averaging_levels sp amount sp (step # steps) = Ok lvs"
    by (auto simp: calculate_levels_with_averaging_def not_le split: if_splits)
  then obtain lv rest where lv: "averaging_level sp amount sp step = Ok lv"
    and rest: "averaging_levels sp amount (lv_buy_price lv) steps = Ok rest" and lvs: "lvs = lv # rest"
    by (auto split: res.splits)
  have first: "lv_level lv = 0" "lv_buy_price lv = sp"
    using lv assms(3) by (auto simp: averaging_level_def Let_def)
  have "lv_buy_price lv \<le> lv_sell_price lv"
    using averaging_level_sell [OF lv] first assms(2,5) sp by simp
  moreover have "map lv_level rest = map st_step_number steps \<and> sorted_wrt (\<ge>) (map lv_buy_price rest) \<and>
      (\<forall>x \<in> set rest. 0 < lv_buy_price x \<and> lv_buy_price x \<le> sp \<and> lv_buy_price x \<le> lv_sell_price x)"
    using averaging_levels_layout [OF rest] first assms(2,4,5) sp by simp
  ultimately show ?thesis using first assms(3) sp unfolding lvs by auto
qed

definition two_steps :: "averaging_step list" where
  "two_steps =
     [\<lparr>st_step_number = 0, st_drop_rate = 0, st_multiple_buy_amount = None, st_take_profit = 5\<rparr>,
      \<lparr>st_step_number = 1, st_drop_rate = 10, st_multiple_buy_amount = Some 2, st_take_profit = 5\<rparr>]"

theorem averaging_grid_layout_witness:
  "\<exists>lvs. calculate_levels_with_averaging 100 50 two_steps = Ok lvs \<and> map lv_level lvs = [0, 1] \<and>
     sorted_wrt (\<ge>) (map lv_buy_price lvs)"
proof -
  have "0 < dmul 100 (dsub 1 (ddiv 10 100))" by (simp add: dec_eval)
  then obtain lvs where lvs: "calculate_levels_with_averaging 100 50 two_steps = Ok lvs"
    by (auto simp: calculate_levels_with_averaging_def two_steps_def averaging_level_def Let_def
        not_le [symmetric] simp del: dmul_sign)
  with averaging_grid_layout [OF lvs [unfolded two_steps_def]] show ?thesis
    by (auto simp: rep_numeral)
qed

text \<open>
  C16. What the planner calls for at a price, exactly: a buy for each waiting level that the price
  has come down to and for each level whose take-profit was hit, unless the active breaker's widened
  step passes over it, and a sale for each filled level that the price has reached. The breaker never
  takes a sale out of the plan, and an action always has the price and quantity of its level.
\<close>

theorem plan_exact:
  "set (plan lvs price breaker_active widen) =
     {buy_action lv |lv. lv \<in> set lvs \<and>
        (lv_status lv = L_WAITING \<and> price \<le> lv_buy_price lv \<or> lv_status lv = L_TP_HIT) \<and>
        \<not> (breaker_active \<and> 1 < \<lfloor>widen\<rfloor> \<and> lv_level lv mod \<lfloor>widen\<rfloor> \<noteq> 0)} \<union>
     {sell_action lv |lv. lv \<in> set lvs \<and> lv_status lv = L_FILLED \<and> lv_sell_price lv \<le> price}"
proof -
  have skip: "skips_buy breaker_active widen n \<longleftrightarrow>
      breaker_active \<and> 1 < \<lfloor>widen\<rfloor> \<and> n mod \<lfloor>widen\<rfloor> \<noteq> 0" for n
    by (auto simp: skips_buy_def)
  have kinds: "ga_action (buy_action lv) = PLACE_BUY" "ga_level (buy_action lv) = lv_level lv"
    "ga_action (sell_action lv) = PLACE_SELL" for lv
    by (simp_all add: buy_action_def sell_action_def)
  have planned: "a \<in> set (List.map_filter (\<lambda>lv. plan_level lv price) lvs) \<longleftrightarrow>
      (\<exists>lv \<in> set lvs. plan_level lv price = Some a)" for a
    by (auto simp: List.map_filter_def image_iff)
  have some: "plan_level lv price = Some a \<longleftrightarrow>
      (lv_status lv = L_WAITING \<and> price \<le> lv_buy_price lv \<or> lv_status lv = L_TP_HIT) \<and> a = buy_action lv \<or>
      lv_status lv = L_FILLED \<and> lv_sell_price lv \<le> price \<and> a = sell_action lv" for lv a
    by (auto simp: plan_level_def split: level_status.splits)
  show ?thesis
    unfolding plan_def set_filter planned some skip by (auto simp: kinds)
qed

end
