(* ===== verification/TAEngine.thy ===== *)
theory TAEngine
  imports DomainTypes
begin

text \<open>
  \<^verbatim>\<open>services/ta_engine.py\<close>: the technical-analysis gate. The indicators compute with Python
  \<^verbatim>\<open>float\<close>s; the definitions use the same operations in the same order on an arbitrary type
  \<open>'f\<close> of numbers, whose operations are the record \<open>fl\<close> (double arithmetic in the program, exact
  rationals in the witnesses). A division whose divisor equals zero raises, as it does in Python.
  Period parameters are natural numbers. The reporting fields of a result (value, detail) are not
  modelled.
\<close>

section \<open>Numbers\<close>

record 'f fl_ops =
  fl_add :: "'f \<Rightarrow> 'f \<Rightarrow> 'f"
  fl_sub :: "'f \<Rightarrow> 'f \<Rightarrow> 'f"
  fl_mul :: "'f \<Rightarrow> 'f \<Rightarrow> 'f"
  fl_quot :: "'f \<Rightarrow> 'f \<Rightarrow> 'f"
  fl_less :: "'f \<Rightarrow> 'f \<Rightarrow> bool"
  fl_le :: "'f \<Rightarrow> 'f \<Rightarrow> bool"
  fl_eq :: "'f \<Rightarrow> 'f \<Rightarrow> bool"
  fl_lit :: "rat \<Rightarrow> 'f"
  fl_sqrt :: "'f \<Rightarrow> 'f"
  fl_abs :: "'f \<Rightarrow> 'f"
  fl_neg :: "'f \<Rightarrow> 'f"

text \<open>Exact arithmetic, with the identity for the root (no witness needs one).\<close>

definition exact :: "rat fl_ops" where
  "exact = \<lparr>fl_add = (+), fl_sub = (-), fl_mul = (*), fl_quot = (/), fl_less = (<), fl_le = (\<le>),
     fl_eq = (=), fl_lit = id, fl_sqrt = id, fl_abs = abs, fl_neg = uminus\<rparr>"

definition fl_div :: "'f fl_ops \<Rightarrow> 'f \<Rightarrow> 'f \<Rightarrow> 'f res" where
  "fl_div fl a b = (if fl_eq fl b (fl_lit fl 0) then Raise (Exn OtherException []) else Ok (fl_quot fl a b))"

text \<open>Python's \<^verbatim>\<open>max\<close> and \<^verbatim>\<open>min\<close> of two, and \<^verbatim>\<open>sum\<close>, which starts from the integer 0.\<close>

definition fl_max :: "'f fl_ops \<Rightarrow> 'f \<Rightarrow> 'f \<Rightarrow> 'f" where
  "fl_max fl a b = (if fl_less fl a b then b else a)"

definition fl_min :: "'f fl_ops \<Rightarrow> 'f \<Rightarrow> 'f \<Rightarrow> 'f" where
  "fl_min fl a b = (if fl_less fl b a then b else a)"

definition fl_sum :: "'f fl_ops \<Rightarrow> 'f list \<Rightarrow> 'f" where
  "fl_sum fl = foldl (fl_add fl) (fl_lit fl 0)"

definition fl_nat :: "'f fl_ops \<Rightarrow> nat \<Rightarrow> 'f" where
  "fl_nat fl n = fl_lit fl (of_nat n)"

text \<open>\<^verbatim>\<open>max(xs)\<close> and \<^verbatim>\<open>min(xs)\<close> raise on an empty list.\<close>

fun fl_list_max :: "'f fl_ops \<Rightarrow> 'f list \<Rightarrow> 'f res" where
  "fl_list_max fl [] = Raise (Exn PyValueError [])"
| "fl_list_max fl (x # xs) = Ok (foldl (fl_max fl) x xs)"

fun fl_list_min :: "'f fl_ops \<Rightarrow> 'f list \<Rightarrow> 'f res" where
  "fl_list_min fl [] = Raise (Exn PyValueError [])"
| "fl_list_min fl (x # xs) = Ok (foldl (fl_min fl) x xs)"

text \<open>\<^verbatim>\<open>xs[-n:]\<close>, where \<^verbatim>\<open>xs[-0:]\<close> is the whole list, and a checked index.\<close>

definition last_n :: "nat \<Rightarrow> 'a list \<Rightarrow> 'a list" where
  "last_n n xs = (if n = 0 then xs else drop (length xs - n) xs)"

definition index :: "'a list \<Rightarrow> nat \<Rightarrow> 'a res" where
  "index xs i = (if i < length xs then Ok (xs ! i) else Raise (Exn PyIndexError []))"

definition last_elem :: "'a list \<Rightarrow> 'a res" where
  "last_elem xs = (if xs = [] then Raise (Exn PyIndexError []) else Ok (last xs))"

section \<open>Configurations and results\<close>

text \<open>A candle's fields as \<^verbatim>\<open>float(c[...])\<close>; a missing key is \<open>None\<close>.\<close>

record 'f candle =
  c_high :: "'f option"
  c_low :: "'f option"
  c_close :: "'f option"

record 'f ta_params =
  tp_period :: "nat option"
  tp_oversold :: "'f option"
  tp_fast_period :: "nat option"
  tp_slow_period :: "nat option"
  tp_signal_period :: "nat option"
  tp_std_dev :: "'f option"
  tp_lookback :: "nat option"
  tp_tolerance :: "'f option"
  tp_k_period :: "nat option"
  tp_d_period :: "nat option"
  tp_max_multiplier :: "'f option"

record 'f ta_config =
  tc_indicator :: string
  tc_operator :: "string option"
  tc_params :: "'f ta_params"
  tc_enabled :: "bool option"

record indicator_result =
  ir_indicator :: string
  ir_passed :: bool

record ta_gate_result =
  tg_passed :: bool
  tg_operator :: string
  tg_results :: "indicator_result list"

text \<open>\<^verbatim>\<open>params.get(key, default)\<close>\<close>

definition default :: "'a \<Rightarrow> 'a option \<Rightarrow> 'a" where
  "default d x = (case x of None \<Rightarrow> d | Some y \<Rightarrow> y)"

lemma default_simps [simp]: "default d None = d" "default d (Some y) = y"
  by (simp_all add: default_def)

definition closes :: "'f candle list \<Rightarrow> 'f list" where
  "closes = List.map_filter c_close"

definition highs :: "'f candle list \<Rightarrow> 'f list" where
  "highs = List.map_filter c_high"

definition lows :: "'f candle list \<Rightarrow> 'f list" where
  "lows = List.map_filter c_low"

definition verdict :: "string \<Rightarrow> bool \<Rightarrow> indicator_result" where
  "verdict name passed = \<lparr>ir_indicator = name, ir_passed = passed\<rparr>"

section \<open>Averages\<close>

text \<open>The consecutive changes \<^verbatim>\<open>xs[i] - xs[i - 1]\<close>.\<close>

fun changes :: "'f fl_ops \<Rightarrow> 'f list \<Rightarrow> 'f list" where
  "changes fl (x # y # zs) = fl_sub fl y x # changes fl (y # zs)"
| "changes fl _ = []"

text \<open>Wilder's smoothing: \<^verbatim>\<open>avg = (avg * (period - 1) + g) / period\<close> for each further value.\<close>

fun smooth :: "'f fl_ops \<Rightarrow> nat \<Rightarrow> 'f \<Rightarrow> 'f list \<Rightarrow> 'f res" where
  "smooth fl period avg [] = Ok avg"
| "smooth fl period avg (g # gs) =
     rbind (fl_div fl (fl_add fl (fl_mul fl avg (fl_lit fl (of_int (int period - 1)))) g) (fl_nat fl period))
       (\<lambda>a. smooth fl period a gs)"

definition calculate_rsi :: "'f fl_ops \<Rightarrow> 'f list \<Rightarrow> nat \<Rightarrow> 'f res" where
  "calculate_rsi fl cs period =
     (if length cs < period + 1 then Ok (fl_lit fl 50)
      else
        let ds = changes fl cs;
            gains = map (\<lambda>d. fl_max fl d (fl_lit fl 0)) ds;
            losses = map (\<lambda>d. fl_max fl (fl_neg fl d) (fl_lit fl 0)) ds
        in rbind (fl_div fl (fl_sum fl (take period gains)) (fl_nat fl period)) (\<lambda>g0.
           rbind (fl_div fl (fl_sum fl (take period losses)) (fl_nat fl period)) (\<lambda>l0.
           rbind (smooth fl period g0 (drop period gains)) (\<lambda>avg_gain.
           rbind (smooth fl period l0 (drop period losses)) (\<lambda>avg_loss.
           if fl_eq fl avg_loss (fl_lit fl 0) then Ok (fl_lit fl 100)
           else rbind (fl_div fl avg_gain avg_loss) (\<lambda>rs.
                rbind (fl_div fl (fl_lit fl 100) (fl_add fl (fl_lit fl 1) rs)) (\<lambda>q.
                  Ok (fl_sub fl (fl_lit fl 100) q))))))))"

definition eval_rsi :: "'f fl_ops \<Rightarrow> 'f ta_params \<Rightarrow> 'f candle list \<Rightarrow> indicator_result res" where
  "eval_rsi fl params candles =
     (let period = default 14 (tp_period params); oversold = default (fl_lit fl 30) (tp_oversold params);
          cs = closes candles
      in if length cs < period + 1 then Ok (verdict ''rsi'' False)
         else rbind (calculate_rsi fl cs period) (\<lambda>rsi. Ok (verdict ''rsi'' (fl_less fl rsi oversold))))"

text \<open>The exponential average: one value per position from \<^verbatim>\<open>period - 1\<close> on.\<close>

fun ema_from :: "'f fl_ops \<Rightarrow> 'f \<Rightarrow> 'f \<Rightarrow> 'f list \<Rightarrow> 'f list" where
  "ema_from fl k e [] = [e]"
| "ema_from fl k e (v # vs) = e # ema_from fl k (fl_add fl (fl_mul fl (fl_sub fl v e) k) e) vs"

definition calculate_ema :: "'f fl_ops \<Rightarrow> 'f list \<Rightarrow> nat \<Rightarrow> 'f list res" where
  "calculate_ema fl vs period =
     (if length vs < period then Ok [if vs = [] then fl_lit fl 0 else last vs]
      else rbind (fl_div fl (fl_sum fl (take period vs)) (fl_nat fl period)) (\<lambda>e.
             Ok (ema_from fl (fl_quot fl (fl_lit fl 2) (fl_nat fl (period + 1))) e (drop period vs))))"

definition calculate_macd ::
  "'f fl_ops \<Rightarrow> 'f list \<Rightarrow> nat \<Rightarrow> nat \<Rightarrow> nat \<Rightarrow> ('f \<times> 'f) res" where
  "calculate_macd fl cs fast slow signal =
     rbind (calculate_ema fl cs fast) (\<lambda>ema_fast.
     rbind (calculate_ema fl cs slow) (\<lambda>ema_slow.
       let macd_values = map (\<lambda>(f, s). fl_sub fl f s) (zip ema_fast ema_slow)
       in rbind (calculate_ema fl macd_values signal) (\<lambda>signal_values.
          rbind (last_elem macd_values) (\<lambda>m. rbind (last_elem signal_values) (\<lambda>s. Ok (m, s))))))"

definition eval_macd :: "'f fl_ops \<Rightarrow> 'f ta_params \<Rightarrow> 'f candle list \<Rightarrow> indicator_result res" where
  "eval_macd fl params candles =
     (let fast = default 12 (tp_fast_period params); slow = default 26 (tp_slow_period params);
          signal = default 9 (tp_signal_period params); cs = closes candles
      in if length cs < slow + signal then Ok (verdict ''macd'' False)
         else rbind (calculate_macd fl cs fast slow signal) (\<lambda>(m, s). Ok (verdict ''macd'' (fl_less fl s m))))"

definition eval_bollinger ::
  "'f fl_ops \<Rightarrow> 'f ta_params \<Rightarrow> 'f candle list \<Rightarrow> decimal \<Rightarrow> indicator_result res" where
  "eval_bollinger fl params candles current_price =
     (let period = default 20 (tp_period params); std_dev = default (fl_lit fl 2) (tp_std_dev params);
          cs = closes candles; window = last_n period cs
      in if length cs < period then Ok (verdict ''bollinger_bands'' False)
         else rbind (fl_div fl (fl_sum fl window) (fl_nat fl period)) (\<lambda>sma.
              rbind (fl_div fl (fl_sum fl (map (\<lambda>c. fl_mul fl (fl_sub fl c sma) (fl_sub fl c sma)) window))
                       (fl_nat fl period)) (\<lambda>variance.
                Ok (verdict ''bollinger_bands'' (fl_less fl (fl_lit fl current_price)
                      (fl_sub fl sma (fl_mul fl std_dev (fl_sqrt fl variance))))))))"

definition fib_ratios :: "rat list" where
  "fib_ratios = [236/1000, 382/1000, 1/2, 618/1000, 786/1000]"

text \<open>\<^verbatim>\<open>min(..., key=...)\<close>: the first of the least keys.\<close>

fun argmin :: "'f fl_ops \<Rightarrow> ('f \<Rightarrow> 'f) \<Rightarrow> 'f \<Rightarrow> 'f list \<Rightarrow> 'f" where
  "argmin fl key best [] = best"
| "argmin fl key best (x # xs) = argmin fl key (if fl_less fl (key x) (key best) then x else best) xs"

definition eval_fibonacci ::
  "'f fl_ops \<Rightarrow> 'f ta_params \<Rightarrow> 'f candle list \<Rightarrow> decimal \<Rightarrow> indicator_result res" where
  "eval_fibonacci fl params candles current_price =
     (let lookback = default 100 (tp_lookback params);
          tolerance = default (fl_lit fl (2/100)) (tp_tolerance params); cs = closes candles
      in if length cs < 10 then Ok (verdict ''fibonacci_retracement'' False)
         else
           let recent = (if lookback \<le> length cs then last_n lookback cs else cs)
           in rbind (fl_list_max fl recent) (\<lambda>high. rbind (fl_list_min fl recent) (\<lambda>low.
                let diff = fl_sub fl high low
                in if fl_eq fl diff (fl_lit fl 0) then Ok (verdict ''fibonacci_retracement'' False)
                   else
                     let levels = map (\<lambda>r. fl_add fl low (fl_mul fl diff (fl_lit fl r))) fib_ratios;
                         price = fl_lit fl current_price;
                         dist = (\<lambda>x. fl_abs fl (fl_sub fl x price));
                         nearest = argmin fl dist (hd levels) (tl levels)
                     in rbind (fl_div fl (dist nearest) price) (\<lambda>d.
                          Ok (verdict ''fibonacci_retracement'' (fl_le fl d tolerance))))))"

definition eval_ema_crossover :: "'f fl_ops \<Rightarrow> 'f ta_params \<Rightarrow> 'f candle list \<Rightarrow> indicator_result res" where
  "eval_ema_crossover fl params candles =
     (let fast = default 9 (tp_fast_period params); slow = default 21 (tp_slow_period params);
          cs = closes candles
      in if length cs < slow then Ok (verdict ''ema_crossover'' False)
         else rbind (calculate_ema fl cs fast) (\<lambda>ef. rbind (calculate_ema fl cs slow) (\<lambda>es.
              rbind (last_elem ef) (\<lambda>f. rbind (last_elem es) (\<lambda>s.
                Ok (verdict ''ema_crossover'' (fl_less fl s f)))))))"

definition eval_sma_crossover :: "'f fl_ops \<Rightarrow> 'f ta_params \<Rightarrow> 'f candle list \<Rightarrow> indicator_result res" where
  "eval_sma_crossover fl params candles =
     (let fast = default 9 (tp_fast_period params); slow = default 21 (tp_slow_period params);
          cs = closes candles
      in if length cs < slow then Ok (verdict ''sma_crossover'' False)
         else rbind (fl_div fl (fl_sum fl (last_n fast cs)) (fl_nat fl fast)) (\<lambda>f.
              rbind (fl_div fl (fl_sum fl (last_n slow cs)) (fl_nat fl slow)) (\<lambda>s.
                Ok (verdict ''sma_crossover'' (fl_less fl s f)))))"

text \<open>
  The \<^verbatim>\<open>k_values\<close> of the stochastic oscillator feed only the reported %D; their computation can
  still raise, on lists of highs or lows that are too short.
\<close>

definition stochastic_k ::
  "'f fl_ops \<Rightarrow> 'f list \<Rightarrow> 'f list \<Rightarrow> 'f list \<Rightarrow> nat \<Rightarrow> nat \<Rightarrow> unit res" where
  "stochastic_k fl hs ls cs k_period i =
     (if i < k_period then Ok ()
      else rbind (fl_list_max fl (take k_period (drop (i - k_period) hs))) (\<lambda>h.
           rbind (fl_list_min fl (take k_period (drop (i - k_period) ls))) (\<lambda>l.
           if fl_eq fl h l then Ok ()
           else rbind (index cs i) (\<lambda>c. rbind (fl_div fl (fl_sub fl c l) (fl_sub fl h l)) (\<lambda>_. Ok ())))))"

definition eval_stochastic :: "'f fl_ops \<Rightarrow> 'f ta_params \<Rightarrow> 'f candle list \<Rightarrow> indicator_result res" where
  "eval_stochastic fl params candles =
     (let k_period = default 14 (tp_k_period params); d_period = default 3 (tp_d_period params);
          oversold = default (fl_lit fl 20) (tp_oversold params);
          hs = highs candles; ls = lows candles; cs = closes candles
      in if length cs < k_period then Ok (verdict ''stochastic'' False)
         else rbind (fl_list_max fl (last_n k_period hs)) (\<lambda>high.
              rbind (fl_list_min fl (last_n k_period ls)) (\<lambda>low.
              if fl_eq fl high low then Ok (verdict ''stochastic'' False)
              else rbind (last_elem cs) (\<lambda>c.
                   rbind (fl_div fl (fl_sub fl c low) (fl_sub fl high low)) (\<lambda>q.
                   let k_value = fl_mul fl q (fl_lit fl 100)
                   in rbind (rmap (stochastic_k fl hs ls cs k_period)
                        [max k_period (length cs - d_period * k_period)..<length cs]) (\<lambda>_.
                      if d_period = 0 then Raise (Exn OtherException [])
                      else Ok (verdict ''stochastic'' (fl_less fl k_value oversold))))))))"

definition true_range ::
  "'f fl_ops \<Rightarrow> 'f list \<Rightarrow> 'f list \<Rightarrow> 'f list \<Rightarrow> nat \<Rightarrow> 'f res" where
  "true_range fl hs ls cs i =
     rbind (index hs i) (\<lambda>h. rbind (index ls i) (\<lambda>l. rbind (index cs (i - 1)) (\<lambda>c.
       Ok (fl_max fl (fl_max fl (fl_sub fl h l) (fl_abs fl (fl_sub fl h c))) (fl_abs fl (fl_sub fl l c))))))"

definition eval_atr :: "'f fl_ops \<Rightarrow> 'f ta_params \<Rightarrow> 'f candle list \<Rightarrow> indicator_result res" where
  "eval_atr fl params candles =
     (let period = default 14 (tp_period params);
          max_multiplier = default (fl_lit fl 3) (tp_max_multiplier params);
          hs = highs candles; ls = lows candles; cs = closes candles
      in if length cs < period + 1 then Ok (verdict ''atr'' False)
         else rbind (rmap (true_range fl hs ls cs) [1..<length cs]) (\<lambda>trs.
              rbind (fl_div fl (fl_sum fl (last_n period trs)) (fl_nat fl period)) (\<lambda>atr.
              rbind (if trs = [] then Ok atr else fl_div fl (fl_sum fl trs) (fl_nat fl (length trs))) (\<lambda>avg.
                Ok (verdict ''atr'' (fl_le fl atr (fl_mul fl avg max_multiplier)))))))"

section \<open>The gate\<close>

definition evaluate_indicator :: "'f fl_ops \<Rightarrow> string \<Rightarrow> 'f ta_params \<Rightarrow> 'f candle list \<Rightarrow> decimal \<Rightarrow>
    indicator_result res" where
  "evaluate_indicator fl name params candles current_price =
     (if name = ''rsi'' then eval_rsi fl params candles
      else if name = ''macd'' then eval_macd fl params candles
      else if name = ''bollinger_bands'' then eval_bollinger fl params candles current_price
      else if name = ''fibonacci_retracement'' then eval_fibonacci fl params candles current_price
      else if name = ''ema_crossover'' then eval_ema_crossover fl params candles
      else if name = ''sma_crossover'' then eval_sma_crossover fl params candles
      else if name = ''stochastic'' then eval_stochastic fl params candles
      else if name = ''atr'' then eval_atr fl params candles
      else Ok (verdict name True))"

definition indicator_or_failed :: "'f fl_ops \<Rightarrow> 'f candle list \<Rightarrow> decimal \<Rightarrow> 'f ta_config \<Rightarrow> indicator_result" where
  "indicator_or_failed fl candles current_price c =
     (case evaluate_indicator fl (tc_indicator c) (tc_params c) candles current_price of
        Ok r \<Rightarrow> r | Raise e \<Rightarrow> verdict (tc_indicator c) False)"

definition ta_evaluate :: "'f fl_ops \<Rightarrow> 'f ta_config list \<Rightarrow> 'f candle list \<Rightarrow> decimal \<Rightarrow> ta_gate_result" where
  "ta_evaluate fl configs candles current_price =
     (let enabled = filter (\<lambda>c. default True (tc_enabled c)) configs
      in if enabled = [] then \<lparr>tg_passed = True, tg_operator = ''none'', tg_results = []\<rparr>
         else
           let operator = default ''and'' (tc_operator (hd enabled));
               results = map (indicator_or_failed fl candles current_price) enabled
           in \<lparr>tg_passed = (if operator = ''and'' then list_all ir_passed results
                             else list_ex ir_passed results),
               tg_operator = operator, tg_results = results\<rparr>)"

section \<open>The averages of a prefix\<close>

lemma length_ema_from [simp]: "length (ema_from fl k e vs) = Suc (length vs)"
  by (induction vs arbitrary: e) auto

lemma take_ema_from: "take (Suc n) (ema_from fl k e vs) = ema_from fl k e (take n vs)"
proof (induction vs arbitrary: e n)
  case (Cons v vs)
  then show ?case by (cases n) auto
qed simp

text \<open>The average at a position depends on the values up to it only.\<close>

lemma calculate_ema_prefix:
  assumes "calculate_ema fl vs p = Ok es" and "p + n \<le> length vs"
  shows "length es = length vs - p + 1 \<and> calculate_ema fl (take (p + n) vs) p = Ok (take (Suc n) es)"
proof -
  from assms(2) have len: "\<not> length vs < p" "\<not> length (take (p + n) vs) < p" by simp_all
  from assms(1) len obtain e where e: "fl_div fl (fl_sum fl (take p vs)) (fl_nat fl p) = Ok e"
    and es: "es = ema_from fl (fl_quot fl (fl_lit fl 2) (fl_nat fl (p + 1))) e (drop p vs)"
    by (auto simp: calculate_ema_def rbind_def split: res.splits)
  have "drop p (take (p + n) vs) = take n (drop p vs)" by (simp add: drop_take)
  with e es len show ?thesis by (simp add: calculate_ema_def take_ema_from)
qed

lemma last_take_Suc: "n < length xs \<Longrightarrow> last (take (Suc n) xs) = xs ! n"
  by (simp add: take_Suc_conv_app_nth)

lemma calculate_macd_line:
  assumes "calculate_macd fl cs fast slow signal = Ok (m, sg)" and "fast \<le> slow" and "slow \<le> length cs"
  shows "\<exists>ef es. calculate_ema fl (take (length cs - (slow - fast)) cs) fast = Ok ef \<and>
    calculate_ema fl cs slow = Ok es \<and> m = fl_sub fl (last ef) (last es)"
proof -
  from assms(1) obtain ef es where ef: "calculate_ema fl cs fast = Ok ef"
    and es: "calculate_ema fl cs slow = Ok es"
    and m: "last_elem (map (\<lambda>(f, s). fl_sub fl f s) (zip ef es)) = Ok m"
    unfolding calculate_macd_def by (auto simp: rbind_def Let_def split: res.splits)
  let ?n = "length cs - slow"
  from calculate_ema_prefix [OF ef, of ?n] assms(2,3)
  have le: "length ef = length cs - fast + 1"
    and pre: "calculate_ema fl (take (fast + ?n) cs) fast = Ok (take (Suc ?n) ef)" by simp_all
  from calculate_ema_prefix [OF es, of ?n] assms(3) have ls: "length es = Suc ?n" by simp
  have z: "length (zip ef es) = Suc ?n" using le ls assms(2,3) by simp
  then have "m = fl_sub fl (ef ! ?n) (es ! ?n)"
    using m by (auto simp: last_elem_def last_conv_nth split: if_splits)
  moreover have "last (take (Suc ?n) ef) = ef ! ?n" using le assms(2,3) by (intro last_take_Suc) simp
  moreover have "last es = es ! ?n" using ls by (cases es rule: rev_cases) (auto simp: nth_append)
  moreover have "fast + ?n = length cs - (slow - fast)" using assms(2,3) by simp
  ultimately show ?thesis using pre es by metis
qed

section \<open>Properties\<close>

text \<open>
  The MACD line compares averages of different times. The line that the gate evaluates is the
  slow average of all closes subtracted from the fast average of the closes without the last
  \<^verbatim>\<open>slow - fast\<close> ones (14 candles with the defaults): the two average lists are paired from their
  first entries, and the fast one starts earlier.
\<close>

theorem macd_line_is_stale:
  assumes "calculate_macd fl cs fast slow signal = Ok (m, sg)" and "fast \<le> slow" and "slow \<le> length cs"
  shows "\<exists>ef es. calculate_ema fl (take (length cs - (slow - fast)) cs) fast = Ok ef \<and>
    calculate_ema fl cs slow = Ok es \<and> m = fl_sub fl (last ef) (last es)"
  using assms by (rule calculate_macd_line)

theorem macd_line_is_stale_witness:
  "calculate_macd exact [1, 2, 3, 10] 1 3 1 = Ok (- 4, - 4) \<and>
   (\<exists>ef es. calculate_ema exact [1, 2] 1 = Ok ef \<and> calculate_ema exact [1, 2, 3, 10] 3 = Ok es \<and>
      - 4 = last ef - last es)"
proof -
  have c: "calculate_macd exact [1, 2, 3, 10] 1 3 1 = Ok (- 4, - 4)"
    by (simp add: calculate_macd_def calculate_ema_def exact_def fl_div_def fl_sum_def fl_nat_def
        last_elem_def Let_def)
  from macd_line_is_stale [OF c] c show ?thesis by (simp add: exact_def)
qed

end
