(* ===== verification/CircuitBreaker.thy ===== *)
theory CircuitBreaker
  imports TAEngine
begin

text \<open>
  \<^verbatim>\<open>engine/grid/circuit_breaker.py\<close>: the daily-drop circuit breaker of one grid. The clock counts
  seconds, and \<^verbatim>\<open>_utc_today()\<close> is the number of the current day. Methods that read the clock take
  the time as an argument.
\<close>

section \<open>State\<close>

datatype resume_mode = TA_CONFIRM | WIDEN_STEP | TRAILING_BUY

definition default_recovery_pct :: decimal where
  "default_recovery_pct = 5"

definition default_widen_multiplier :: decimal where
  "default_widen_multiplier = 2"

definition utc_today :: "datetime \<Rightarrow> int" where
  "utc_today t = t div 86400"

record 'f breaker =
  cb_instance_id :: string
  cb_critical_threshold :: decimal
  cb_min_continuation_rate :: decimal
  cb_resume_mode :: resume_mode
  cb_recovery_pct :: decimal
  cb_widen_multiplier :: decimal
  cb_day_open_price :: "decimal option"
  cb_triggered :: bool
  cb_trigger_date :: "int option"
  cb_trigger_price :: "decimal option"
  cb_triggered_at :: "datetime option"
  cb_bottom_price :: "decimal option"
  cb_ta_15m_configs :: "'f ta_config list"

definition no_params :: "'f ta_params" where
  "no_params = \<lparr>tp_period = None, tp_oversold = None, tp_fast_period = None, tp_slow_period = None,
     tp_signal_period = None, tp_std_dev = None, tp_lookback = None, tp_tolerance = None,
     tp_k_period = None, tp_d_period = None, tp_max_multiplier = None\<rparr>"

definition default_ta_15m_configs :: "'f fl_ops \<Rightarrow> 'f ta_config list" where
  "default_ta_15m_configs fl =
     [\<lparr>tc_indicator = ''rsi'', tc_operator = Some ''and'',
       tc_params = no_params\<lparr>tp_period := Some 14, tp_oversold := Some (fl_lit fl 30)\<rparr>,
       tc_enabled = Some True\<rparr>,
      \<lparr>tc_indicator = ''macd'', tc_operator = Some ''and'',
       tc_params = no_params\<lparr>tp_fast_period := Some 12, tp_slow_period := Some 26,
         tp_signal_period := Some 9\<rparr>,
       tc_enabled = Some True\<rparr>]"

text \<open>Construction, with the defaults of \<^verbatim>\<open>__post_init__\<close>.\<close>

definition new_breaker :: "'f fl_ops \<Rightarrow> string \<Rightarrow> decimal \<Rightarrow> decimal \<Rightarrow> resume_mode \<Rightarrow> decimal \<Rightarrow> decimal \<Rightarrow>
    decimal option \<Rightarrow> 'f ta_config list \<Rightarrow> 'f breaker" where
  "new_breaker fl i threshold continuation mode recovery widen day_open configs =
     \<lparr>cb_instance_id = i, cb_critical_threshold = threshold, cb_min_continuation_rate = continuation,
      cb_resume_mode = mode, cb_recovery_pct = recovery, cb_widen_multiplier = widen,
      cb_day_open_price = day_open, cb_triggered = False, cb_trigger_date = None,
      cb_trigger_price = None, cb_triggered_at = None, cb_bottom_price = None,
      cb_ta_15m_configs = (if configs = [] then default_ta_15m_configs fl else configs)\<rparr>"

section \<open>Operations\<close>

definition check_new_day :: "datetime \<Rightarrow> decimal \<Rightarrow> 'f breaker \<Rightarrow> 'f breaker" where
  "check_new_day t current_price b =
     (let today = utc_today t in
      if cb_trigger_date b = Some today then b
      else if cb_trigger_date b = None then
        b\<lparr>cb_trigger_date := Some today,
          cb_day_open_price := (if cb_day_open_price b = None then Some current_price
                                else cb_day_open_price b)\<rparr>
      else b\<lparr>cb_triggered := False, cb_trigger_date := Some today,
             cb_day_open_price := Some current_price, cb_bottom_price := None\<rparr>)"

definition intraday_drop_pct :: "decimal \<Rightarrow> 'f breaker \<Rightarrow> decimal" where
  "intraday_drop_pct current_price b =
     (case cb_day_open_price b of
        None \<Rightarrow> 0
      | Some o1 \<Rightarrow> if o1 \<le> 0 then 0 else dmul (ddiv (dsub current_price o1) o1) 100)"

definition should_trigger :: "decimal \<Rightarrow> 'f breaker \<Rightarrow> bool" where
  "should_trigger current_price b \<longleftrightarrow>
     \<not> cb_triggered b \<and> intraday_drop_pct current_price b \<le> dneg (cb_critical_threshold b)"

definition update_bottom :: "decimal \<Rightarrow> 'f breaker \<Rightarrow> 'f breaker" where
  "update_bottom current_price b =
     (if \<not> cb_triggered b then b
      else case cb_bottom_price b of
        None \<Rightarrow> b\<lparr>cb_bottom_price := Some current_price\<rparr>
      | Some x \<Rightarrow> if current_price < x then b\<lparr>cb_bottom_price := Some current_price\<rparr> else b)"

definition should_resume_trailing :: "decimal \<Rightarrow> 'f breaker \<Rightarrow> bool" where
  "should_resume_trailing current_price b \<longleftrightarrow>
     cb_triggered b \<and>
     (case cb_bottom_price b of
        None \<Rightarrow> False
      | Some x \<Rightarrow> 0 < x \<and> dmul x (dadd 1 (ddiv (cb_recovery_pct b) 100)) \<le> current_price)"

definition trigger :: "datetime \<Rightarrow> decimal \<Rightarrow> 'f breaker \<Rightarrow> 'f breaker" where
  "trigger t price b = b\<lparr>cb_triggered := True, cb_trigger_price := Some price,
     cb_triggered_at := Some t, cb_bottom_price := Some price\<rparr>"

definition reset :: "'f breaker \<Rightarrow> 'f breaker" where
  "reset b = b\<lparr>cb_triggered := False\<rparr>"

section \<open>Behaviour\<close>

lemma check_new_day_same_day: "cb_trigger_date b = Some (utc_today t) \<Longrightarrow> check_new_day t p b = b"
  by (simp add: check_new_day_def)

lemma check_new_day_date [simp]: "cb_trigger_date (check_new_day t p b) = Some (utc_today t)"
  by (auto simp: check_new_day_def Let_def)

text \<open>A day's open is taken once: a second price of the day changes nothing.\<close>

lemma check_new_day_idem: "utc_today t = utc_today u \<Longrightarrow> check_new_day u q (check_new_day t p b) = check_new_day t p b"
  by (rule check_new_day_same_day) simp

lemma intraday_drop_mono: "p \<le> q \<Longrightarrow> intraday_drop_pct p b \<le> intraday_drop_pct q b"
  by (auto simp: intraday_drop_pct_def not_le split: option.splits
      intro!: dmul_mono ddiv_mono dsub_mono)

text \<open>A price that triggers the breaker does so at every lower value.\<close>

lemma should_trigger_downward: "should_trigger q b \<Longrightarrow> p \<le> q \<Longrightarrow> should_trigger p b"
  using intraday_drop_mono [of p q b] by (auto simp: should_trigger_def)

lemma should_trigger_once [simp]: "\<not> should_trigger q (trigger t p b)"
  by (simp add: should_trigger_def trigger_def)

text \<open>The recorded bottom is the least price since the trigger.\<close>

lemma update_bottom_trigger:
  "cb_bottom_price (fold update_bottom ps (trigger t p b)) = Some (foldl min p ps) \<and>
   cb_triggered (fold update_bottom ps (trigger t p b))"
proof -
  have "cb_triggered c \<Longrightarrow> cb_bottom_price c = Some m \<Longrightarrow>
      cb_bottom_price (fold update_bottom ps c) = Some (foldl min m ps) \<and>
      cb_triggered (fold update_bottom ps c)" for c :: "'a breaker" and m
  proof (induction ps arbitrary: c m)
    case (Cons q ps)
    have "cb_triggered (update_bottom q c)" and "cb_bottom_price (update_bottom q c) = Some (min m q)"
      using Cons.prems by (auto simp: update_bottom_def min_def)
    from Cons.IH [OF this] show ?case by simp
  qed simp
  then show ?thesis by (simp add: trigger_def)
qed

lemma update_bottom_frames [simp]:
  "cb_triggered (update_bottom p b) = cb_triggered b"
  "cb_recovery_pct (update_bottom p b) = cb_recovery_pct b"
  "cb_resume_mode (update_bottom p b) = cb_resume_mode b"
  "cb_widen_multiplier (update_bottom p b) = cb_widen_multiplier b"
  "cb_ta_15m_configs (update_bottom p b) = cb_ta_15m_configs b"
  by (auto simp: update_bottom_def split: option.splits)

lemma update_bottom_below: "cb_triggered b \<Longrightarrow> \<exists>x \<le> p. cb_bottom_price (update_bottom p b) = Some x"
  by (auto simp: update_bottom_def split: option.splits)

text \<open>Trailing recovery: at the bottom itself the breaker stays for any positive recovery.\<close>

lemma no_resume_at_bottom:
  assumes "0 < cb_recovery_pct b" and "cb_bottom_price b = Some x"
    and "p < dmul x (dadd 1 (ddiv (cb_recovery_pct b) 100))"
  shows "\<not> should_resume_trailing p b"
  using assms by (simp add: should_resume_trailing_def)

end
