(* ===== verification/OrderModel.thy ===== *)
theory OrderModel
  imports DomainTypes
begin

text \<open>
  \<^verbatim>\<open>engine/execution/models.py\<close>, \<^verbatim>\<open>engine/execution/order_state.py\<close> and
  \<^verbatim>\<open>engine/execution/validator.py\<close>: the order request and the tracked order, the order
  lifecycle, and the validation that stands before the exchange.
\<close>

section \<open>Data\<close>

datatype exec_status =
  E_PENDING | E_SUBMITTING | E_OPEN | E_PARTIALLY_FILLED | E_FILLED | E_CANCELLING | E_CANCELLED
  | E_REJECTED | E_FAILED

fun exec_status_value :: "exec_status \<Rightarrow> string" where
  "exec_status_value E_PENDING = ''pending''"
| "exec_status_value E_SUBMITTING = ''submitting''"
| "exec_status_value E_OPEN = ''open''"
| "exec_status_value E_PARTIALLY_FILLED = ''partially_filled''"
| "exec_status_value E_FILLED = ''filled''"
| "exec_status_value E_CANCELLING = ''cancelling''"
| "exec_status_value E_CANCELLED = ''cancelled''"
| "exec_status_value E_REJECTED = ''rejected''"
| "exec_status_value E_FAILED = ''failed''"

record order_request =
  q_request_id :: "uuid option"
  q_exchange_account_id :: "uuid option"
  q_symbol :: string
  q_side :: order_side
  q_order_type :: order_type
  q_quantity :: decimal
  q_price :: "decimal option"
  q_stop_price :: "decimal option"
  q_client_order_id :: "string option"

record tracked_order =
  t_request_id :: "uuid option"
  t_exchange_account_id :: "uuid option"
  t_result :: order_result
  t_status :: exec_status
  t_created_at :: datetime
  t_updated_at :: datetime
  t_retry_count :: int

definition is_active :: "tracked_order \<Rightarrow> bool" where
  "is_active t \<longleftrightarrow>
     t_status t \<in> set [E_PENDING, E_SUBMITTING, E_OPEN, E_PARTIALLY_FILLED, E_CANCELLING]"

definition touch :: "datetime \<Rightarrow> tracked_order \<Rightarrow> tracked_order" where
  "touch n t = t\<lparr>t_updated_at := n\<rparr>"

section \<open>The order lifecycle\<close>

fun order_transitions :: "exec_status \<Rightarrow> exec_status list" where
  "order_transitions E_PENDING = [E_SUBMITTING]"
| "order_transitions E_SUBMITTING = [E_OPEN, E_PARTIALLY_FILLED, E_FILLED, E_REJECTED, E_FAILED]"
| "order_transitions E_OPEN = [E_PARTIALLY_FILLED, E_FILLED, E_CANCELLING, E_CANCELLED]"
| "order_transitions E_PARTIALLY_FILLED =
     [E_PARTIALLY_FILLED, E_FILLED, E_CANCELLING, E_CANCELLED]"
| "order_transitions E_CANCELLING = [E_CANCELLED, E_FILLED, E_PARTIALLY_FILLED]"
| "order_transitions E_FAILED = [E_SUBMITTING]"
| "order_transitions E_FILLED = []"
| "order_transitions E_CANCELLED = []"
| "order_transitions E_REJECTED = []"

definition validate_order_transition :: "exec_status \<Rightarrow> exec_status \<Rightarrow> unit res" where
  "validate_order_transition current target =
     (if target \<notin> set (order_transitions current)
      then Raise (Exn InvalidStateTransition [exec_status_value current, exec_status_value target])
      else Ok ())"

definition order_is_terminal :: "exec_status \<Rightarrow> bool" where
  "order_is_terminal st \<longleftrightarrow> st \<in> set [E_FILLED, E_CANCELLED, E_REJECTED]"

interpretation order_sm: validated_machine order_transitions validate_order_transition
  by unfold_locales (simp add: validate_order_transition_def)

lemma order_terminal_iff: "order_is_terminal st \<longleftrightarrow> order_transitions st = []"
  by (cases st) (simp_all add: order_is_terminal_def)

lemma is_active_iff:
  "is_active t \<longleftrightarrow> \<not> order_is_terminal (t_status t) \<and> t_status t \<noteq> E_FAILED"
  by (cases "t_status t") (simp_all add: is_active_def order_is_terminal_def)

lemma validate_order_Raise:
  "validate_order_transition a b = Raise e \<longleftrightarrow>
     b \<notin> set (order_transitions a) \<and>
     e = Exn InvalidStateTransition [exec_status_value a, exec_status_value b]"
  by (auto simp: validate_order_transition_def)

section \<open>Validation\<close>

definition order_invalid :: "exn" where
  "order_invalid = Exn OrderValidationError []"

definition validate_symbol_supported :: "string \<Rightarrow> unit res" where
  "validate_symbol_supported symbol = (if symbol = [] \<or> blank symbol then Raise order_invalid else Ok ())"

text \<open>The checks in the order of the code; \<open>adapter\<close> only says whether one was passed.\<close>

definition validate_request :: "order_request \<Rightarrow> bool \<Rightarrow> unit res" where
  "validate_request q adapter =
     (if q_request_id q = None then Raise order_invalid
      else if q_exchange_account_id q = None then Raise order_invalid
      else if q_symbol q = [] \<or> blank (q_symbol q) then Raise order_invalid
      else if side_value (q_side q) \<notin> set [''buy'', ''sell''] then Raise order_invalid
      else if q_order_type q \<notin> set [LIMIT, MARKET, STOP_LIMIT] then Raise order_invalid
      else if q_quantity q \<le> 0 then Raise order_invalid
      else if q_order_type q \<in> set [LIMIT, STOP_LIMIT] \<and>
        (case q_price q of None \<Rightarrow> True | Some p \<Rightarrow> p \<le> 0) then Raise order_invalid
      else if q_order_type q = STOP_LIMIT \<and>
        (case q_stop_price q of None \<Rightarrow> True | Some p \<Rightarrow> p \<le> 0) then Raise order_invalid
      else if q_order_type q = MARKET \<and> q_price q \<noteq> None then Raise order_invalid
      else if adapter then validate_symbol_supported (q_symbol q) else Ok ())"

text \<open>What a validated request satisfies, as a specification.\<close>

definition well_formed_request :: "order_request \<Rightarrow> bool" where
  "well_formed_request q \<longleftrightarrow>
     q_request_id q \<noteq> None \<and> q_exchange_account_id q \<noteq> None \<and> \<not> blank (q_symbol q) \<and>
     0 < q_quantity q \<and>
     (case q_order_type q of
        LIMIT \<Rightarrow> (\<exists>p. q_price q = Some p \<and> 0 < p)
      | STOP_LIMIT \<Rightarrow> (\<exists>p. q_price q = Some p \<and> 0 < p) \<and> (\<exists>p. q_stop_price q = Some p \<and> 0 < p)
      | MARKET \<Rightarrow> q_price q = None)"

lemma validate_request_Ok: "validate_request q adapter = Ok () \<longleftrightarrow> well_formed_request q"
proof -
  have s: "side_value (q_side q) \<in> set [''buy'', ''sell'']" by (cases "q_side q") auto
  have b: "q_symbol q = [] \<or> blank (q_symbol q) \<longleftrightarrow> blank (q_symbol q)"
    by (auto simp: blank_def)
  show ?thesis
    using s b unfolding validate_request_def validate_symbol_supported_def well_formed_request_def
    by (cases "q_order_type q") (auto simp: not_le split: option.splits)
qed

lemma validate_request_cases:
  "validate_request q adapter = Ok () \<or> validate_request q adapter = Raise order_invalid"
  by (auto simp: validate_request_def validate_symbol_supported_def)

end
