(* ===== verification/OrderTracker.thy ===== *)
theory OrderTracker
  imports OrderModel
begin

text \<open>
  \<^verbatim>\<open>engine/execution/tracker.py\<close>: the orders the engine knows, by account and order id, and
  the idempotency index from request ids to those keys. A \<^verbatim>\<open>TrackedOrder\<close> is referenced from
  one key of \<^verbatim>\<open>_orders\<close> at a time, so the object the code mutates is the entry under that key.
\<close>

section \<open>State and operations\<close>

type_synonym order_key = "uuid option \<times> string"

record tracker =
  orders :: "(order_key, tracked_order) dict"
  request_index :: "(uuid option, order_key) dict"

definition empty_tracker :: tracker where
  "empty_tracker = \<lparr>orders = [], request_index = []\<rparr>"

definition track ::
  "datetime \<Rightarrow> uuid option \<Rightarrow> uuid option \<Rightarrow> order_result \<Rightarrow> exec_status \<Rightarrow> tracker \<Rightarrow> tracker" where
  "track n rid acct res st tr =
     (let t = \<lparr>t_request_id = rid, t_exchange_account_id = acct, t_result = res, t_status = st,
                t_created_at = n, t_updated_at = n, t_retry_count = 0\<rparr>;
          key = (acct, r_order_id res)
      in tr\<lparr>orders := dput key t (orders tr), request_index := dput rid key (request_index tr)\<rparr>)"

definition get_by_request_id :: "uuid option \<Rightarrow> tracker \<Rightarrow> tracked_order option" where
  "get_by_request_id rid tr =
     (case dget (request_index tr) rid of None \<Rightarrow> None | Some key \<Rightarrow> dget (orders tr) key)"

definition get_tracked :: "uuid option \<Rightarrow> string \<Rightarrow> tracker \<Rightarrow> tracked_order option" where
  "get_tracked acct oid tr = dget (orders tr) (acct, oid)"

definition re_key ::
  "uuid option \<Rightarrow> string \<Rightarrow> string \<Rightarrow> tracker \<Rightarrow> tracked_order option \<times> tracker" where
  "re_key acct old new tr =
     (case dget (orders tr) (acct, old) of
        None \<Rightarrow> (None, tr)
      | Some t \<Rightarrow> (Some t, tr\<lparr>orders := dput (acct, new) t (ddel (acct, old) (orders tr)),
                            request_index := dput (t_request_id t) (acct, new) (request_index tr)\<rparr>))"

definition update_order ::
  "datetime \<Rightarrow> uuid option \<Rightarrow> string \<Rightarrow> order_result \<Rightarrow> exec_status option \<Rightarrow> bool \<Rightarrow> tracker \<Rightarrow>
    tracked_order option \<times> tracker" where
  "update_order n acct oid res st increment_retry tr =
     (case dget (orders tr) (acct, oid) of
        None \<Rightarrow> (None, tr)
      | Some t \<Rightarrow>
          let t1 = t\<lparr>t_result := res\<rparr>;
              t2 = (case st of None \<Rightarrow> t1 | Some x \<Rightarrow> t1\<lparr>t_status := x\<rparr>);
              t3 = (if increment_retry then t2\<lparr>t_retry_count := t_retry_count t2 + 1\<rparr> else t2);
              t4 = touch n t3
          in (Some t4, tr\<lparr>orders := dput (acct, oid) t4 (orders tr)\<rparr>))"

definition update_status ::
  "datetime \<Rightarrow> uuid option \<Rightarrow> string \<Rightarrow> exec_status \<Rightarrow> tracker \<Rightarrow> tracked_order option \<times> tracker" where
  "update_status n acct oid st tr =
     (case dget (orders tr) (acct, oid) of
        None \<Rightarrow> (None, tr)
      | Some t \<Rightarrow> let t' = touch n (t\<lparr>t_status := st\<rparr>)
          in (Some t', tr\<lparr>orders := dput (acct, oid) t' (orders tr)\<rparr>))"

text \<open>Both listings filter by account when one is given.\<close>

definition for_account :: "uuid option option \<Rightarrow> order_key \<Rightarrow> bool" where
  "for_account acct k \<longleftrightarrow> (case acct of None \<Rightarrow> True | Some a \<Rightarrow> fst k = a)"

definition list_active :: "uuid option option \<Rightarrow> tracker \<Rightarrow> tracked_order list" where
  "list_active acct tr = map snd (filter (\<lambda>(k, t). is_active t \<and> for_account acct k) (orders tr))"

definition list_all_orders :: "uuid option option \<Rightarrow> tracker \<Rightarrow> tracked_order list" where
  "list_all_orders acct tr = map snd (filter (\<lambda>(k, t). for_account acct k) (orders tr))"

definition clear_tracker :: "tracker \<Rightarrow> tracker" where
  "clear_tracker tr = tr\<lparr>orders := [], request_index := []\<rparr>"

definition map_exchange_status :: "string \<Rightarrow> exec_status" where
  "map_exchange_status s =
     (let v = py_lower s in
      if v = ''pending'' then E_PENDING
      else if v = ''open'' then E_OPEN
      else if v = ''partially_filled'' then E_PARTIALLY_FILLED
      else if v = ''filled'' then E_FILLED
      else if v = ''cancelled'' then E_CANCELLED
      else if v = ''rejected'' then E_REJECTED
      else if v = ''expired'' then E_CANCELLED
      else E_OPEN)"

section \<open>The index invariant\<close>

text \<open>
  Keys are unique, and every tracked order is the one its request id leads to. So a request id
  belongs to at most one tracked order, which is what makes the idempotency cache sound.
\<close>

definition tracker_inv :: "tracker \<Rightarrow> bool" where
  "tracker_inv tr \<longleftrightarrow> dict_ok (orders tr) \<and> dict_ok (request_index tr) \<and>
     (\<forall>k t. dget (orders tr) k = Some t \<longrightarrow> dget (request_index tr) (t_request_id t) = Some k)"

lemma tracker_inv_empty [simp]: "tracker_inv empty_tracker"
  by (simp add: tracker_inv_def empty_tracker_def)

lemma tracker_inv_clear [simp]: "tracker_inv (clear_tracker tr)"
  by (simp add: tracker_inv_def clear_tracker_def)

lemma tracker_invD:
  "tracker_inv tr \<Longrightarrow> dget (orders tr) k = Some t \<Longrightarrow> dget (request_index tr) (t_request_id t) = Some k"
  unfolding tracker_inv_def by blast

lemma tracker_inv_unique:
  "tracker_inv tr \<Longrightarrow> dget (orders tr) j = Some t \<Longrightarrow> dget (orders tr) k = Some u \<Longrightarrow>
   t_request_id t = t_request_id u \<Longrightarrow> j = k"
  by (metis option.inject tracker_invD)

lemma tracker_inv_track:
  assumes "tracker_inv tr" and "get_by_request_id rid tr = None"
  shows "tracker_inv (track n rid acct res st tr)"
proof -
  have "t_request_id t \<noteq> rid" if "dget (orders tr) k = Some t" for k t
    using that assms by (auto simp: get_by_request_id_def dest: tracker_invD)
  then show ?thesis
    using assms(1) by (auto simp: tracker_inv_def track_def Let_def split: if_splits)
qed

text \<open>Replacing an entry by one with the same request id.\<close>

lemma tracker_inv_replace:
  assumes "tracker_inv tr" and "dget (orders tr) k = Some t" and "t_request_id t' = t_request_id t"
  shows "tracker_inv (tr\<lparr>orders := dput k t' (orders tr)\<rparr>)"
  using assms by (auto simp: tracker_inv_def)

lemma tracker_inv_re_key:
  assumes "tracker_inv tr"
  shows "tracker_inv (snd (re_key acct old new tr))"
proof (cases "dget (orders tr) (acct, old)")
  case (Some t)
  have "t_request_id u \<noteq> t_request_id t"
    if "dget (orders tr) k = Some u" and "k \<noteq> (acct, old)" for k u
    using that Some assms tracker_inv_unique by blast
  with Some assms show ?thesis by (auto simp: re_key_def tracker_inv_def split: if_splits)
qed (use assms in \<open>simp add: re_key_def\<close>)

lemma update_order_request_id:
  "dget (orders tr) (acct, oid) = Some t \<Longrightarrow> fst (update_order n acct oid res st b tr) = Some t' \<Longrightarrow>
   t_request_id t' = t_request_id t"
  by (auto simp: update_order_def Let_def touch_def split: option.splits if_splits)

lemma tracker_inv_update:
  "tracker_inv tr \<Longrightarrow> tracker_inv (snd (update_order n acct oid res st b tr))"
  by (auto simp: update_order_def Let_def touch_def split: option.splits
      intro!: tracker_inv_replace)

lemma tracker_inv_update_status:
  "tracker_inv tr \<Longrightarrow> tracker_inv (snd (update_status n acct oid st tr))"
  by (auto simp: update_status_def Let_def touch_def split: option.splits
      intro!: tracker_inv_replace)

lemmas tracker_inv_intros = tracker_inv_track tracker_inv_replace tracker_inv_re_key
  tracker_inv_update tracker_inv_update_status

section \<open>Lookups\<close>

lemma get_by_request_id_track:
  "get_by_request_id rid (track n rid acct res st tr) = Some
     \<lparr>t_request_id = rid, t_exchange_account_id = acct, t_result = res, t_status = st,
       t_created_at = n, t_updated_at = n, t_retry_count = 0\<rparr>"
  by (simp add: get_by_request_id_def track_def Let_def)

text \<open>Re-keying moves the order: the request id leads to it, the old key is gone.\<close>

lemma get_by_request_id_re_key:
  "dget (orders tr) (acct, old) = Some t \<Longrightarrow> new \<noteq> old \<Longrightarrow>
   get_by_request_id (t_request_id t) (snd (re_key acct old new tr)) = Some t \<and>
   get_tracked acct old (snd (re_key acct old new tr)) = None"
  by (auto simp: re_key_def get_by_request_id_def get_tracked_def)

lemma list_active_sublist:
  "set (list_active acct tr) \<subseteq> set (list_all_orders acct tr)"
  by (auto simp: list_active_def list_all_orders_def)

lemma list_active_iff:
  "dict_ok (orders tr) \<Longrightarrow> t \<in> set (list_active acct tr) \<longleftrightarrow>
     (\<exists>k. dget (orders tr) k = Some t \<and> is_active t \<and> for_account acct k)"
  by (force simp: list_active_def dget_Some_iff)

end
