(* ===== verification/PaperExchange.thy ===== *)
theory PaperExchange
  imports DomainTypes
begin

text \<open>
  A concrete exchange on which the witnesses of the development run: it accepts every order as
  open, under consecutive identifiers, and keeps the book of what it has accepted. A second
  adapter on the same book is down: every call raises a connection error.
\<close>

type_synonym book = "order_result list"

definition accept :: "string \<Rightarrow> string \<Rightarrow> string \<Rightarrow> decimal \<Rightarrow> decimal option \<Rightarrow> book \<Rightarrow> order_result" where
  "accept symbol side otype qty price b =
     \<lparr>r_order_id = ''x'' @ show_nat (length b), r_exchange_order_id = ''x'' @ show_nat (length b),
      r_symbol = symbol, r_side = side, r_order_type = otype, r_quantity = qty, r_price = price,
      r_filled_quantity = 0, r_average_fill_price = None, r_status = ''open'', r_created_at = 0,
      r_updated_at = 0, r_error_message = None\<rparr>"

definition paper :: "book adapter" where
  "paper =
     \<lparr>ad_exchange_name = ''paper'',
      ad_place_order = (\<lambda>symbol side otype qty price stop cid b.
        let r = accept symbol side otype qty price b in (Ok r, b @ [r])),
      ad_cancel_order = (\<lambda>symbol oid b. (Ok True, b)),
      ad_get_order = (\<lambda>symbol oid b. case find (\<lambda>r. r_order_id r = oid) b of
        None \<Rightarrow> (Raise (Exn OrderNotFound [oid]), b) | Some r \<Rightarrow> (Ok r, b)),
      ad_get_open_orders = (\<lambda>symbol b. (Ok b, b))\<rparr>"

definition offline :: exn where
  "offline = Exn ExchangeConnectionError [''offline'']"

definition paper_down :: "book adapter" where
  "paper_down =
     \<lparr>ad_exchange_name = ''paper'',
      ad_place_order = (\<lambda>symbol side otype qty price stop cid b. (Raise offline, b)),
      ad_cancel_order = (\<lambda>symbol oid b. (Raise offline, b)),
      ad_get_order = (\<lambda>symbol oid b. (Raise offline, b)),
      ad_get_open_orders = (\<lambda>symbol b. (Raise offline, b))\<rparr>"

lemmas paper_simps = paper_def accept_def paper_down_def offline_def show_nat.simps
  digit_chars Let_def

end
