(* ===== verification/OrderExecutor.thy ===== *)
theory OrderExecutor
  imports OrderModel PaperExchange
begin

text \<open>
  \<^verbatim>\<open>engine/execution/executor.py\<close>: dispatch to an exchange adapter, with retries of
  transient failures and exponential backoff. The delays (\<^verbatim>\<open>float\<close> seconds in the code) are
  rationals; with the default configuration every delay is a small power of two or the cap, on
  which the code's floats are exact. \<^verbatim>\<open>asyncio.sleep\<close> appends to the world's record of sleeps.
\<close>

section \<open>Operations\<close>

record executor =
  max_retries :: int
  base_delay :: rat
  max_delay :: rat
  backoff_multiplier :: rat

definition default_executor :: executor where
  "default_executor = \<lparr>max_retries = 3, base_delay = 1, max_delay = 30, backoff_multiplier = 2\<rparr>"

definition transient_errors :: "exn_class list" where
  "transient_errors = [ExchangeConnectionError, ExchangeRateLimitError, TimeoutError, RetryableError]"

definition terminal_errors :: "exn_class list" where
  "terminal_errors = [ExchangeError, InsufficientBalanceError]"

text \<open>
  \<^verbatim>\<open>OrderExecutionError(exchange_name=..., error_code=...)\<close>; the code attribute of the cause
  travels with it.
\<close>

definition execution_error :: "'x adapter \<Rightarrow> exn \<Rightarrow> exn" where
  "execution_error ad e = Exn OrderExecutionError (ad_exchange_name ad # exn_args e)"

definition exhausted_error :: "'x adapter \<Rightarrow> exn" where
  "exhausted_error ad = Exn OrderExecutionError [ad_exchange_name ad]"

text \<open>The arguments with which the adapter is asked to place the order.\<close>

definition placement :: "order_request \<Rightarrow> 'x adapter \<Rightarrow> ('x, order_result) py" where
  "placement q ad =
     ad_place_order ad (py_upper (q_symbol q)) (side_value (q_side q))
       (order_type_value (q_order_type q)) (q_quantity q) (q_price q) (q_stop_price q)
       (q_client_order_id q)"

text \<open>The loop \<^verbatim>\<open>for attempt in range(max_retries)\<close>; the first argument counts the attempts left.\<close>

fun execute_loop ::
  "nat \<Rightarrow> rat \<Rightarrow> executor \<Rightarrow> order_request \<Rightarrow> 'x adapter \<Rightarrow> (('x, 'm) world_scheme, order_result) py"
where
  "execute_loop 0 delay ex q ad = throw (exhausted_error ad)"
| "execute_loop (Suc n) delay ex q ad =
     try_catch
       (call_adapter (placement q ad))
       (\<lambda>e. if isinstance e transient_errors then
              (if n = 0 then throw (exhausted_error ad)
               else seq (sleep delay)
                 (execute_loop n (min (delay * backoff_multiplier ex) (max_delay ex)) ex q ad))
            else if isinstance e terminal_errors then throw (execution_error ad e)
            else throw e)"

definition execute ::
  "executor \<Rightarrow> order_request \<Rightarrow> 'x adapter \<Rightarrow> (('x, 'm) world_scheme, order_result) py" where
  "execute ex q ad = execute_loop (nat (max_retries ex)) (base_delay ex) ex q ad"

definition wrap_exchange_error :: "'x adapter \<Rightarrow> ('s, 'a) py \<Rightarrow> ('s, 'a) py" where
  "wrap_exchange_error ad m =
     try_catch m (\<lambda>e. if isinstance e [ExchangeError] then throw (execution_error ad e) else throw e)"

definition exec_cancel ::
  "string \<Rightarrow> string \<Rightarrow> 'x adapter \<Rightarrow> (('x, 'm) world_scheme, bool) py" where
  "exec_cancel symbol order_id ad =
     wrap_exchange_error ad (call_adapter (ad_cancel_order ad (py_upper symbol) order_id))"

definition exec_get_order ::
  "string \<Rightarrow> string \<Rightarrow> 'x adapter \<Rightarrow> (('x, 'm) world_scheme, order_result) py" where
  "exec_get_order symbol order_id ad =
     wrap_exchange_error ad (call_adapter (ad_get_order ad (py_upper symbol) order_id))"

definition exec_get_open_orders ::
  "string option \<Rightarrow> 'x adapter \<Rightarrow> (('x, 'm) world_scheme, order_result list) py" where
  "exec_get_open_orders symbol ad =
     wrap_exchange_error ad (call_adapter (ad_get_open_orders ad
       (case symbol of None \<Rightarrow> None | Some s \<Rightarrow> if s = [] then None else Some (py_upper s))))"

section \<open>Frames\<close>

lemma execute_loop_frame [resp_intros]: "obeys (same world.more) (execute_loop n d ex q ad)"
  by (induction n arbitrary: d) (auto intro!: resp_intros)

lemma executor_frames [resp_intros]:
  "obeys (same world.more) (execute ex q ad)"
  "obeys (same world.more) (exec_cancel symbol oid ad)"
  "obeys (same world.more) (exec_get_order symbol oid ad)"
  "obeys (same world.more) (exec_get_open_orders osym ad)"
  by (auto simp: execute_def exec_cancel_def exec_get_order_def exec_get_open_orders_def
      wrap_exchange_error_def intro!: resp_intros)

section \<open>Retries\<close>

text \<open>The delays slept before the attempts 2, 3, ... when every attempt fails transiently.\<close>

fun backoff :: "nat \<Rightarrow> rat \<Rightarrow> executor \<Rightarrow> rat list" where
  "backoff 0 d ex = []"
| "backoff (Suc n) d ex = d # backoff n (min (d * backoff_multiplier ex) (max_delay ex)) ex"

lemma length_backoff [simp]: "length (backoff n d ex) = n"
  by (induction n arbitrary: d) auto

lemma backoff_bounded:
  "d \<le> max_delay ex \<Longrightarrow> x \<in> set (backoff n d ex) \<Longrightarrow> x \<le> max_delay ex"
proof (induction n arbitrary: d)
  case (Suc n)
  then show ?case using Suc.IH [of "min (d * backoff_multiplier ex) (max_delay ex)"] by auto
qed simp

lemma backoff_increasing:
  assumes "0 \<le> d" and "d \<le> max_delay ex" and "1 \<le> backoff_multiplier ex"
  shows "sorted (backoff n d ex) \<and> (\<forall>x \<in> set (backoff n d ex). d \<le> x)"
  using assms
proof (induction n arbitrary: d)
  case (Suc n)
  let ?d = "min (d * backoff_multiplier ex) (max_delay ex)"
  have le: "d \<le> ?d" using Suc.prems mult_left_mono [of 1 "backoff_multiplier ex" d] by simp
  moreover have "0 \<le> ?d" and "?d \<le> max_delay ex" using Suc.prems le by auto
  ultimately show ?case using Suc.IH [of ?d] Suc.prems(3) by fastforce
qed simp

text \<open>One turn of the loop, by the outcome of the placement.\<close>

lemma execute_loop_step:
  "execute_loop (Suc n) d ex q ad s =
     (case placement q ad (exch s) of
        (Ok a, x) \<Rightarrow> (Ok a, s\<lparr>exch := x\<rparr>)
      | (Raise e, x) \<Rightarrow>
          if isinstance e transient_errors then
            (if n = 0 then (Raise (exhausted_error ad), s\<lparr>exch := x\<rparr>)
             else execute_loop n (min (d * backoff_multiplier ex) (max_delay ex)) ex q ad
                    (s\<lparr>exch := x, sleeps := sleeps s @ [d]\<rparr>))
          else if isinstance e terminal_errors then (Raise (execution_error ad e), s\<lparr>exch := x\<rparr>)
          else (Raise e, s\<lparr>exch := x\<rparr>))"
  by (auto simp: py_simps split: prod.splits res.splits)

lemma execute_loop_zero: "execute_loop 0 d ex q ad s = (Raise (exhausted_error ad), s)"
  by (simp add: py_simps)

declare execute_loop.simps [simp del]

text \<open>
  The number of attempts: the exchange is asked at most \<open>max_retries\<close> times. \<open>places\<close> is any
  count that a placement on the exchange raises by at most one.
\<close>

lemma execute_loop_attempts:
  assumes "\<And>x. places (snd (placement q ad x)) \<le> places x + (1 :: nat)"
  shows "places (exch (snd (execute_loop n d ex q ad s))) \<le> places (exch s) + n"
proof (induction n arbitrary: d s)
  case (Suc n)
  obtain r x where call: "placement q ad (exch s) = (r, x)" by force
  have one: "places x \<le> places (exch s) + 1" using assms [of "exch s"] call by simp
  show ?case
  proof (cases r)
    case (Ok a)
    with call one show ?thesis by (simp add: execute_loop_step)
  next
    case (Raise e)
    with call one Suc.IH [of "min (d * backoff_multiplier ex) (max_delay ex)"
        "s\<lparr>exch := x, sleeps := sleeps s @ [d]\<rparr>"]
    show ?thesis by (simp add: execute_loop_step)
  qed
qed (simp add: execute_loop_zero)

text \<open>When every attempt fails transiently, the call raises after exactly the backoff schedule.\<close>

lemma execute_loop_all_transient:
  assumes "\<And>x. \<exists>e x'. placement q ad x = (Raise e, x') \<and> isinstance e transient_errors"
  shows "fst (execute_loop n d ex q ad s) = Raise (exhausted_error ad) \<and>
    sleeps (snd (execute_loop n d ex q ad s)) = sleeps s @ backoff (n - 1) d ex"
proof (induction n arbitrary: d s)
  case (Suc n)
  from assms [of "exch s"] obtain e x' where
    "placement q ad (exch s) = (Raise e, x')" and "isinstance e transient_errors" by blast
  moreover have "n \<noteq> 0 \<Longrightarrow>
      backoff n d ex = d # backoff (n - 1) (min (d * backoff_multiplier ex) (max_delay ex)) ex"
    by (cases n) simp_all
  ultimately show ?case using Suc.IH by (cases "n = 0") (simp_all add: execute_loop_step)
qed (simp add: execute_loop_zero)

text \<open>A non-transient failure is not retried: the exchange saw one request.\<close>

lemma execute_loop_terminal:
  assumes "placement q ad (exch s) = (Raise e, x)" and "\<not> isinstance e transient_errors"
  shows "\<exists>e'. execute_loop (Suc n) d ex q ad s = (Raise e', s\<lparr>exch := x\<rparr>)"
  using assms by (simp add: execute_loop_step)

section \<open>Properties\<close>

lemma execute_loop_exch_all_transient:
  assumes "\<And>x. \<exists>e x'. placement q ad x = (Raise e, x') \<and> isinstance e transient_errors"
  shows "exch (snd (execute_loop n d ex q ad s)) = ((\<lambda>x. snd (placement q ad x)) ^^ n) (exch s)"
proof (induction n arbitrary: d s)
  case (Suc n)
  from assms [of "exch s"] obtain e x' where
    "placement q ad (exch s) = (Raise e, x')" and "isinstance e transient_errors" by blast
  with Suc.IH show ?case by (cases "n = 0")
    (simp_all add: execute_loop_step funpow_Suc_right del: funpow.simps(2))
qed (simp add: execute_loop_zero)

text \<open>
  C10. Retries are bounded and backed off. When every placement fails transiently, the executor asks
  the exchange exactly \<^verbatim>\<open>max_retries\<close> times, sleeps the backoff schedule between the attempts
  (each delay at most the cap, never shorter than the one before), and then raises
  \<^verbatim>\<open>OrderExecutionError\<close>.
\<close>

theorem retries_exhausted:
  assumes "\<And>x. \<exists>e x'. placement q ad x = (Raise e, x') \<and> isinstance e transient_errors"
    and "0 \<le> base_delay ex" and "base_delay ex \<le> max_delay ex" and "1 \<le> backoff_multiplier ex"
  shows "\<exists>ds. fst (execute ex q ad s) = Raise (exhausted_error ad) \<and>
    exch (snd (execute ex q ad s)) =
      ((\<lambda>x. snd (placement q ad x)) ^^ nat (max_retries ex)) (exch s) \<and>
    sleeps (snd (execute ex q ad s)) = sleeps s @ ds \<and> length ds = nat (max_retries ex) - 1 \<and>
    sorted ds \<and> (\<forall>d \<in> set ds. base_delay ex \<le> d \<and> d \<le> max_delay ex)"
  using execute_loop_all_transient [where s = s, OF assms(1)]
    execute_loop_exch_all_transient [where s = s, OF assms(1)]
    backoff_increasing [OF assms(2-4)] backoff_bounded [OF assms(3)]
  unfolding execute_def
  by (intro exI [of _ "backoff (nat (max_retries ex) - 1) (base_delay ex) ex"]) simp

definition sell_quote :: order_request where
  "sell_quote = \<lparr>q_request_id = Some 2, q_exchange_account_id = Some 7, q_symbol = ''BTC'',
     q_side = SELL, q_order_type = MARKET, q_quantity = 1, q_price = None, q_stop_price = None,
     q_client_order_id = None\<rparr>"

definition quiet_world :: "book world" where
  "quiet_world = \<lparr>clock = 0, uuid_next = 0, sleeps = [], exch = []\<rparr>"

theorem retries_exhausted_witness:
  "\<exists>ds. fst (execute default_executor sell_quote paper_down quiet_world) =
      Raise (exhausted_error paper_down) \<and>
    sleeps (snd (execute default_executor sell_quote paper_down quiet_world)) = ds \<and> length ds = 2"
proof -
  have "\<exists>e x'. placement sell_quote paper_down x = (Raise e, x') \<and> isinstance e transient_errors" for x
    by (simp add: placement_def paper_down_def offline_def isinstance_def transient_errors_def)
  from retries_exhausted [OF this, of default_executor quiet_world] show ?thesis
    by (auto simp: default_executor_def quiet_world_def)
qed

end
