(* ===== verification/ExecutionEngine.thy ===== *)
theory ExecutionEngine
  imports OrderTracker OrderExecutor
begin

text \<open>
  \<^verbatim>\<open>engine/execution/execution_engine.py\<close>: the single entry point for placing, cancelling
  and synchronising orders. The engine's state extends the world by its tracker, its registered
  adapters and its executor's configuration; a handler is one routine, run without interleaving.
  The object \<^verbatim>\<open>tracked\<close> that a handler holds is the tracker entry under the key the handler
  last gave it.
\<close>

section \<open>State\<close>

record 'x exec_engine = "'x world" +
  trk :: tracker
  adapters :: "(uuid option, 'x adapter) dict"
  executor_config :: executor

type_synonym ('x, 'm, 'a) xe = "(('x, 'm) exec_engine_scheme, 'a) py"

definition register_adapter :: "uuid option \<Rightarrow> 'x adapter \<Rightarrow> ('x, 'm, unit) xe" where
  "register_adapter acct ad = modify (\<lambda>s. s\<lparr>adapters := dput acct ad (adapters s)\<rparr>)"

definition unregister_adapter :: "uuid option \<Rightarrow> ('x, 'm, unit) xe" where
  "unregister_adapter acct = modify (\<lambda>s. s\<lparr>adapters := ddel acct (adapters s)\<rparr>)"

definition get_adapter :: "uuid option \<Rightarrow> ('x, 'm, 'x adapter) xe" where
  "get_adapter acct = reading (\<lambda>s. case dget (adapters s) acct of
      None \<Rightarrow> throw (Exn OrderExecutionError [''unknown''])
    | Some ad \<Rightarrow> ret ad)"

section \<open>Internal routines\<close>

text \<open>\<^verbatim>\<open>_local_order_id\<close>: a prefix and (a rendering of) a fresh uuid.\<close>

definition local_order_id :: "('x, 'm, string) xe" where
  "local_order_id = bind uuid4 (\<lambda>u. ret (''local_'' @ show_nat u))"

text \<open>\<^verbatim>\<open>_create_pending\<close>: the placeholder result, and the key of the new order.\<close>

definition placeholder :: "datetime \<Rightarrow> order_request \<Rightarrow> string \<Rightarrow> order_result" where
  "placeholder n q oid =
     \<lparr>r_order_id = oid, r_exchange_order_id = [], r_symbol = py_upper (q_symbol q),
      r_side = side_value (q_side q), r_order_type = order_type_value (q_order_type q),
      r_quantity = q_quantity q, r_price = q_price q, r_filled_quantity = 0,
      r_average_fill_price = None, r_status = order_status_value O_PENDING,
      r_created_at = n, r_updated_at = n, r_error_message = None\<rparr>"

definition create_pending :: "order_request \<Rightarrow> ('x, 'm, order_key) xe" where
  "create_pending q =
     bind local_order_id (\<lambda>oid. bind now (\<lambda>n.
       seq (modify (\<lambda>s. s\<lparr>trk := track n (q_request_id q) (q_exchange_account_id q)
               (placeholder n q oid) E_PENDING (trk s)\<rparr>))
          (ret (q_exchange_account_id q, oid))))"

text \<open>\<^verbatim>\<open>_transition\<close>: raises, leaving the order alone, or sets the status and the timestamp.\<close>

definition transition :: "order_key \<Rightarrow> exec_status \<Rightarrow> ('x, 'm, unit) xe" where
  "transition key target = reading (\<lambda>s. case dget (orders (trk s)) key of
      None \<Rightarrow> ret ()
    | Some t \<Rightarrow> seq (lift_res (validate_order_transition (t_status t) target))
        (modify (\<lambda>s. s\<lparr>trk := (trk s)\<lparr>orders :=
            dput key (touch (clock s) (t\<lparr>t_status := target\<rparr>)) (orders (trk s))\<rparr>\<rparr>)))"

definition tracker_update :: "uuid option \<Rightarrow> string \<Rightarrow> order_result \<Rightarrow> exec_status \<Rightarrow> ('x, 'm, unit) xe"
where
  "tracker_update acct oid res st =
     modify (\<lambda>s. s\<lparr>trk := snd (update_order (clock s) acct oid res (Some st) False (trk s))\<rparr>)"

definition tracker_re_key :: "uuid option \<Rightarrow> string \<Rightarrow> string \<Rightarrow> ('x, 'm, unit) xe" where
  "tracker_re_key acct old new = modify (\<lambda>s. s\<lparr>trk := snd (re_key acct old new (trk s))\<rparr>)"

definition result_from_error :: "datetime \<Rightarrow> order_request \<Rightarrow> tracked_order \<Rightarrow> exn \<Rightarrow> order_result" where
  "result_from_error n q t e =
     \<lparr>r_order_id = r_order_id (t_result t), r_exchange_order_id = r_exchange_order_id (t_result t),
      r_symbol = py_upper (q_symbol q), r_side = side_value (q_side q),
      r_order_type = order_type_value (q_order_type q), r_quantity = q_quantity q,
      r_price = q_price q, r_filled_quantity = r_filled_quantity (t_result t),
      r_average_fill_price = r_average_fill_price (t_result t),
      r_status = order_status_value O_REJECTED, r_created_at = r_created_at (t_result t),
      r_updated_at = n, r_error_message = Some e\<rparr>"

text \<open>
  The \<^verbatim>\<open>except Exception\<close> arm of \<^verbatim>\<open>place_order\<close>. \<open>key\<close> is where the order is now;
  the update goes to the order id in its result, which is still the local one.
\<close>

definition place_failed :: "order_request \<Rightarrow> order_key \<Rightarrow> exn \<Rightarrow> ('x, 'm, unit) xe" where
  "place_failed q key e =
     seq (transition key E_FAILED)
      (reading (\<lambda>s. case dget (orders (trk s)) key of
         None \<Rightarrow> throw e
       | Some t \<Rightarrow> seq (tracker_update (q_exchange_account_id q) (r_order_id (t_result t))
              (result_from_error (clock s) q t e) E_FAILED) (throw e)))"

section \<open>Placing\<close>

definition submit :: "order_request \<Rightarrow> order_key \<Rightarrow> 'x adapter \<Rightarrow> ('x, 'm, order_result) xe" where
  "submit q key ad =
     seq (transition key E_SUBMITTING)
       (reading (\<lambda>s. execute (executor_config s) q ad))"

definition record_result :: "order_request \<Rightarrow> order_key \<Rightarrow> order_result \<Rightarrow> ('x, 'm, order_result) xe" where
  "record_result q key res =
     (let acct = q_exchange_account_id q;
          new = (acct, r_order_id res);
          status = map_exchange_status (r_status res)
      in seq (if r_order_id res \<noteq> snd key then tracker_re_key acct (snd key) (r_order_id res) else ret ())
           (try_catch
             (seq (transition new status)
               (seq (tracker_update acct (r_order_id res) res status) (ret res)))
             (\<lambda>e. seq (place_failed q new e) (throw e))))"

definition place_order :: "order_request \<Rightarrow> ('x, 'm, order_result) xe" where
  "place_order q = reading (\<lambda>s. case get_by_request_id (q_request_id q) (trk s) of
      Some t \<Rightarrow> ret (t_result t)
    | None \<Rightarrow>
        bind (get_adapter (q_exchange_account_id q)) (\<lambda>ad.
        seq (lift_res (validate_request q True))
        (bind (create_pending q) (\<lambda>key.
         bind (try_catch (submit q key ad) (\<lambda>e. seq (place_failed q key e) (throw e)))
           (record_result q key)))))"

section \<open>Cancelling and synchronising\<close>

definition sync_tracked :: "uuid option \<Rightarrow> string \<Rightarrow> tracked_order \<Rightarrow> 'x adapter \<Rightarrow>
    ('x, 'm, order_result) xe" where
  "sync_tracked acct oid t ad =
     bind (exec_get_order (r_symbol (t_result t)) (r_exchange_order_id (t_result t)) ad) (\<lambda>res.
       let status = map_exchange_status (r_status res)
       in seq (transition (acct, oid) status)
            (seq (tracker_update acct oid res status) (ret res)))"

definition cancelled_result :: "datetime \<Rightarrow> order_result \<Rightarrow> order_result" where
  "cancelled_result n r = r\<lparr>r_status := order_status_value O_CANCELLED, r_updated_at := n,
     r_error_message := None\<rparr>"

definition cancel_order :: "uuid option \<Rightarrow> string \<Rightarrow> ('x, 'm, order_result) xe" where
  "cancel_order acct oid = reading (\<lambda>s. case get_tracked acct oid (trk s) of
      None \<Rightarrow> throw (Exn OrderNotFound [oid])
    | Some t \<Rightarrow>
        if t_status t \<in> set [E_FILLED, E_CANCELLED, E_REJECTED] then ret (t_result t)
        else bind (get_adapter acct) (\<lambda>ad.
          seq (transition (acct, oid) E_CANCELLING)
            (try_catch
              (seq (exec_cancel (r_symbol (t_result t)) (r_exchange_order_id (t_result t)) ad)
                (seq (transition (acct, oid) E_CANCELLED)
                  (bind now (\<lambda>n. seq (tracker_update acct oid (cancelled_result n (t_result t)) E_CANCELLED)
                    (ret (cancelled_result n (t_result t)))))))
              (\<lambda>e. if isinstance e [OrderExecutionError, OrderAlreadyFilled]
                   then sync_tracked acct oid t ad else throw e))))"

definition sync_order :: "uuid option \<Rightarrow> string \<Rightarrow> ('x, 'm, order_result) xe" where
  "sync_order acct oid = reading (\<lambda>s. case get_tracked acct oid (trk s) of
      None \<Rightarrow> throw (Exn OrderNotFound [oid])
    | Some t \<Rightarrow> bind (get_adapter acct) (sync_tracked acct oid t))"

text \<open>One turn of the loop of \<^verbatim>\<open>cancel_all_orders\<close>; an \<^verbatim>\<open>OrderExecutionError\<close> of the
  cancellation is passed over.\<close>

definition cancel_open :: "uuid option \<Rightarrow> 'x adapter \<Rightarrow> order_result \<Rightarrow> ('x, 'm, order_result list) xe"
where
  "cancel_open acct ad res =
     bind (try_catch (seq (exec_cancel (r_symbol res) (r_exchange_order_id res) ad) (ret True))
             (\<lambda>e. if isinstance e [OrderExecutionError] then ret False else throw e))
       (\<lambda>done. if done then seq (transition (acct, r_order_id res) E_CANCELLED) (ret [res]) else ret [])"

definition cancel_all_orders :: "uuid option \<Rightarrow> string option \<Rightarrow> ('x, 'm, order_result list) xe" where
  "cancel_all_orders acct symbol =
     bind (get_adapter acct) (\<lambda>ad.
     bind (exec_get_open_orders symbol ad) (collect (cancel_open acct ad)))"

definition get_order :: "uuid option \<Rightarrow> string \<Rightarrow> ('x, 'm, order_result option) xe" where
  "get_order acct oid = gets (\<lambda>s. map_option t_result (get_tracked acct oid (trk s)))"

definition list_active_orders :: "uuid option option \<Rightarrow> ('x, 'm, order_result list) xe" where
  "list_active_orders acct = gets (\<lambda>s. map t_result (list_active acct (trk s)))"

section \<open>Frames and the tracker invariant\<close>

lemma world_more_exec:
  fixes s t :: "('x, 'm) exec_engine_scheme"
  assumes "world.more t = world.more s"
  shows "trk t = trk s" "adapters t = adapters s" "executor_config t = executor_config s"
    "exec_engine.more t = exec_engine.more s"
  using assms by (cases s; cases t; simp)+

lemma world_frame_exec:
  assumes "obeys (same world.more) (m :: ('x, 'm, 'a) xe)"
  shows "obeys (same trk) m" "obeys (same adapters) m" "obeys (same executor_config) m"
    "obeys (same exec_engine.more) m"
  unfolding obeys_def same_def using world_more_exec [OF sameD [OF assms]] by simp_all

lemma same_keeps: "obeys (same f) m \<Longrightarrow> obeys (keeps (\<lambda>s. P (f s))) m"
  by (simp add: obeys_def same_def keeps_def)

text \<open>Every routine of the engine leaves the state of its clients alone.\<close>

abbreviation client_frame :: "('x, 'm, 'a) xe \<Rightarrow> bool" where
  "client_frame m \<equiv> obeys (same exec_engine.more) m"

abbreviation tracker_sound :: "('x, 'm) exec_engine_scheme \<Rightarrow> bool" where
  "tracker_sound s \<equiv> tracker_inv (trk s)"

lemmas world_client_frames [resp_intros] = world_frames [THEN world_frame_exec(4)]
  executor_frames [THEN world_frame_exec(4)]

lemmas world_tracker_frames [resp_intros] =
  world_frames [THEN world_frame_exec(1), THEN same_keeps]
  executor_frames [THEN world_frame_exec(1), THEN same_keeps]

lemma get_adapter_frame [resp_intros]: "obeys (same f) (get_adapter acct)"
  unfolding get_adapter_def by (intro resp_intros)

lemma transition_frame [resp_intros]: "client_frame (transition key st)"
  unfolding transition_def by (intro resp_intros) simp

lemma tracker_update_frame [resp_intros]: "client_frame (tracker_update acct oid res st)"
  unfolding tracker_update_def by (intro resp_intros) simp

lemma tracker_re_key_frame [resp_intros]: "client_frame (tracker_re_key acct oid oid')"
  unfolding tracker_re_key_def by (intro resp_intros) simp

lemma create_pending_frame [resp_intros]: "client_frame (create_pending q)"
  unfolding create_pending_def local_order_id_def by (intro resp_intros) simp

lemma place_failed_frame [resp_intros]: "client_frame (place_failed q key e)"
  unfolding place_failed_def by (intro resp_intros)

lemma record_result_frame [resp_intros]: "client_frame (record_result q key res)"
  unfolding record_result_def by (intro resp_intros)

lemma place_order_frame [resp_intros]: "client_frame (place_order q)"
  unfolding place_order_def submit_def by (intro resp_intros)

lemma sync_tracked_frame [resp_intros]: "client_frame (sync_tracked acct oid t ad)"
  unfolding sync_tracked_def by (intro resp_intros)

lemma cancel_order_frame [resp_intros]: "client_frame (cancel_order acct oid)"
  unfolding cancel_order_def by (intro resp_intros)

lemma sync_order_frame [resp_intros]: "client_frame (sync_order acct oid)"
  unfolding sync_order_def by (intro resp_intros)

lemma cancel_all_orders_frame [resp_intros]: "client_frame (cancel_all_orders acct symbol)"
  unfolding cancel_all_orders_def cancel_open_def by (intro resp_intros)

lemma transition_sound [resp_intros]: "obeys (keeps tracker_sound) (transition key st)"
  unfolding obeys_def keeps_def transition_def
  by (auto simp: py_simps touch_def split: option.splits res.splits intro!: tracker_inv_replace)

lemma tracker_update_sound [resp_intros]:
  "obeys (keeps tracker_sound) (tracker_update acct oid res st)"
  unfolding tracker_update_def by (intro resp_intros) (simp add: tracker_inv_update)

lemma tracker_re_key_sound [resp_intros]:
  "obeys (keeps tracker_sound) (tracker_re_key acct oid oid')"
  unfolding tracker_re_key_def by (intro resp_intros) (simp add: tracker_inv_re_key)

lemma get_adapter_sound [resp_intros]: "obeys (keeps I) (get_adapter acct)"
  unfolding get_adapter_def by (intro resp_intros)

lemma place_failed_sound [resp_intros]: "obeys (keeps tracker_sound) (place_failed q key e)"
  unfolding place_failed_def by (intro resp_intros)

lemma submit_sound [resp_intros]: "obeys (keeps tracker_sound) (submit q key ad)"
  unfolding submit_def by (intro resp_intros)

lemma record_result_sound [resp_intros]: "obeys (keeps tracker_sound) (record_result q key res)"
  unfolding record_result_def by (intro resp_intros)

lemma sync_tracked_sound [resp_intros]: "obeys (keeps tracker_sound) (sync_tracked acct oid t ad)"
  unfolding sync_tracked_def by (intro resp_intros)

lemma cancel_order_sound [resp_intros]: "obeys (keeps tracker_sound) (cancel_order acct oid)"
  unfolding cancel_order_def by (intro resp_intros)

lemma sync_order_sound [resp_intros]: "obeys (keeps tracker_sound) (sync_order acct oid)"
  unfolding sync_order_def by (intro resp_intros)

lemma cancel_all_orders_sound [resp_intros]:
  "obeys (keeps tracker_sound) (cancel_all_orders acct symbol)"
  unfolding cancel_all_orders_def cancel_open_def by (intro resp_intros)

section \<open>What placing an order does\<close>

text \<open>The state and the key after \<^verbatim>\<open>_create_pending\<close>.\<close>

abbreviation local_key :: "order_request \<Rightarrow> ('x, 'm) exec_engine_scheme \<Rightarrow> order_key" where
  "local_key q s \<equiv> (q_exchange_account_id q, ''local_'' @ show_nat (uuid_next s))"

definition pending_state :: "order_request \<Rightarrow> ('x, 'm) exec_engine_scheme \<Rightarrow>
    ('x, 'm) exec_engine_scheme" where
  "pending_state q s = s\<lparr>uuid_next := Suc (uuid_next s),
     trk := track (clock s) (q_request_id q) (q_exchange_account_id q)
       (placeholder (clock s) q (snd (local_key q s))) E_PENDING (trk s)\<rparr>"

lemma create_pending_eq: "create_pending q s = (Ok (local_key q s), pending_state q s)"
  by (simp add: create_pending_def local_order_id_def pending_state_def py_simps)

definition placing :: "order_request \<Rightarrow> order_key \<Rightarrow> 'x adapter \<Rightarrow> ('x, 'm, order_result) xe" where
  "placing q key ad =
     bind (try_catch (submit q key ad) (\<lambda>e. seq (place_failed q key e) (throw e))) (record_result q key)"

lemma place_order_cases:
  obtains (cached) t where "get_by_request_id (q_request_id q) (trk s) = Some t"
    and "place_order q s = (Ok (t_result t), s)"
  | (refused) e where "get_by_request_id (q_request_id q) (trk s) = None"
    and "place_order q s = (Raise e, s)"
    and "dget (adapters s) (q_exchange_account_id q) = None \<or> \<not> well_formed_request q"
  | (attempted) ad where "get_by_request_id (q_request_id q) (trk s) = None"
    and "dget (adapters s) (q_exchange_account_id q) = Some ad" and "well_formed_request q"
    and "place_order q s = placing q (local_key q s) ad (pending_state q s)"
proof (cases "get_by_request_id (q_request_id q) (trk s)")
  case (Some t)
  then show thesis by (intro cached [of t]) (simp_all add: place_order_def py_simps)
next
  case none: None
  show thesis
  proof (cases "dget (adapters s) (q_exchange_account_id q)")
    case None
    with none show thesis
      by (intro refused) (simp_all add: place_order_def get_adapter_def py_simps)
  next
    case ad: (Some ad)
    from validate_request_cases [of q True] show thesis
    proof
      assume "validate_request q True = Ok ()"
      with none ad show thesis
        by (intro attempted [of ad]; simp add: validate_request_Ok)
          (simp add: place_order_def placing_def get_adapter_def create_pending_eq py_simps
            validate_request_Ok [of q True, symmetric])
    next
      assume bad: "validate_request q True = Raise order_invalid"
      then have "\<not> well_formed_request q" by (simp add: validate_request_Ok [of q True, symmetric])
      with none ad bad show thesis
        by (intro refused) (simp_all add: place_order_def get_adapter_def py_simps)
    qed
  qed
qed

lemma pending_state_sound:
  "tracker_sound s \<Longrightarrow> get_by_request_id (q_request_id q) (trk s) = None \<Longrightarrow>
   tracker_sound (pending_state q s)"
  by (simp add: pending_state_def tracker_inv_track)

lemma placing_sound [resp_intros]: "obeys (keeps tracker_sound) (placing q key ad)"
  unfolding placing_def by (intro resp_intros)

lemma place_order_sound [resp_intros]: "obeys (keeps tracker_sound) (place_order q)"
  unfolding obeys_def keeps_def
proof (intro allI impI)
  fix s :: "('a, 'b) exec_engine_scheme"
  assume s: "tracker_sound s"
  show "tracker_sound (snd (place_order q s))"
  proof (cases q s rule: place_order_cases)
    case (attempted ad)
    then show ?thesis
      using keepsD [OF placing_sound pending_state_sound [OF s]] by simp
  qed (use s in simp_all)
qed

text \<open>The exchange is asked only for well-formed requests that are new to the tracker.\<close>

lemma place_order_exchange:
  assumes "exch (snd (place_order q s)) \<noteq> exch s"
  shows "well_formed_request q \<and> get_by_request_id (q_request_id q) (trk s) = None"
  using assms by (cases q s rule: place_order_cases) auto

text \<open>
  The order of a request on its way: it is tracked under \<open>key\<close>, its request id leads there, and
  its status and stored result are known.
\<close>

definition tracks :: "order_request \<Rightarrow> string \<Rightarrow> exec_status \<Rightarrow> order_result \<Rightarrow> tracker \<Rightarrow> bool" where
  "tracks q oid st res tr \<longleftrightarrow>
     (\<exists>t. dget (orders tr) (q_exchange_account_id q, oid) = Some t \<and> t_request_id t = q_request_id q \<and>
        t_status t = st \<and> t_result t = res) \<and>
     dget (request_index tr) (q_request_id q) = Some (q_exchange_account_id q, oid)"

lemma tracks_lookup:
  "tracks q oid st res tr \<Longrightarrow>
   \<exists>t. get_by_request_id (q_request_id q) tr = Some t \<and> t_status t = st \<and> t_result t = res"
  by (auto simp: tracks_def get_by_request_id_def)

lemma placeholder_status: "r_status (placeholder n q oid) = order_status_value O_PENDING"
  by (simp add: placeholder_def)

lemma tracks_pending:
  "tracks q (snd (local_key q s)) E_PENDING (placeholder (clock s) q (snd (local_key q s)))
     (trk (pending_state q s))"
  by (simp add: tracks_def pending_state_def track_def Let_def placeholder_def)

lemma transition_tracks:
  "triple (\<lambda>s. tracks q oid st res (trk s)) (transition (q_exchange_account_id q, oid) st')
     (\<lambda>_ s. tracks q oid st' res (trk s) \<and> st' \<in> set (order_transitions st))
     (\<lambda>e s. tracks q oid st res (trk s) \<and> st' \<notin> set (order_transitions st) \<and>
        e = Exn InvalidStateTransition [exec_status_value st, exec_status_value st'])"
  by (rule tripleI)
    (auto simp: tracks_def transition_def py_simps touch_def validate_order_transition_def
      split: if_splits)

lemma tracker_update_tracks:
  "triple (\<lambda>s. tracks q oid st res (trk s)) (tracker_update (q_exchange_account_id q) oid res' st')
     (\<lambda>_ s. tracks q oid st' res' (trk s)) E"
  by (rule tripleI)
    (auto simp: tracks_def tracker_update_def update_order_def py_simps touch_def Let_def)

lemma tracker_update_other:
  "oid' \<noteq> oid \<Longrightarrow>
   triple (\<lambda>s. tracks q oid st res (trk s)) (tracker_update (q_exchange_account_id q) oid' res' st')
     (\<lambda>_ s. tracks q oid st res (trk s)) E"
  by (rule tripleI)
    (auto simp: tracks_def tracker_update_def update_order_def py_simps Let_def split: option.splits)

lemma tracker_re_key_tracks:
  "triple (\<lambda>s. tracks q oid st res (trk s)) (tracker_re_key (q_exchange_account_id q) oid oid')
     (\<lambda>_ s. tracks q oid' st res (trk s)) E"
  by (rule tripleI) (auto simp: tracks_def tracker_re_key_def re_key_def py_simps)

text \<open>What a failed placement leaves behind: a \<^verbatim>\<open>FAILED\<close> order that still answers to its id.\<close>

definition failed_record :: "order_request \<Rightarrow> tracker \<Rightarrow> bool" where
  "failed_record q tr \<longleftrightarrow> (\<exists>oid res. tracks q oid E_FAILED res tr \<and>
     r_status res \<in> {order_status_value O_REJECTED, order_status_value O_PENDING})"

lemma failed_recordI:
  "tracks q oid E_FAILED res tr \<Longrightarrow>
   r_status res \<in> {order_status_value O_REJECTED, order_status_value O_PENDING} \<Longrightarrow> failed_record q tr"
  unfolding failed_record_def by blast

lemma result_from_error_status [simp]: "r_status (result_from_error n q t e) = order_status_value O_REJECTED"
  by (simp add: result_from_error_def)

lemma place_failed_records:
  assumes "r_status res = order_status_value O_PENDING"
  shows "triple (\<lambda>s. tracks q oid E_SUBMITTING res (trk s))
     (place_failed q (q_exchange_account_id q, oid) e) Q (\<lambda>_ s. failed_record q (trk s))"
  unfolding place_failed_def
proof (rule triple_seq)
  show "triple (\<lambda>s. tracks q oid E_SUBMITTING res (trk s))
      (transition (q_exchange_account_id q, oid) E_FAILED)
      (\<lambda>_ s. tracks q oid E_FAILED res (trk s)) (\<lambda>_ s. failed_record q (trk s))"
    by (rule triple_weaken [OF transition_tracks]) auto
next
  show "triple (\<lambda>s. tracks q oid E_FAILED res (trk s))
      (reading (\<lambda>s. case dget (orders (trk s)) (q_exchange_account_id q, oid) of
         None \<Rightarrow> throw e
       | Some t \<Rightarrow> seq (tracker_update (q_exchange_account_id q) (r_order_id (t_result t))
              (result_from_error (clock s) q t e) E_FAILED) (throw e)))
      Q (\<lambda>_ s. failed_record q (trk s))"
  proof (rule triple_reading)
    fix s :: "('a, 'b) exec_engine_scheme"
    assume tr: "tracks q oid E_FAILED res (trk s)"
    then obtain t where t: "dget (orders (trk s)) (q_exchange_account_id q, oid) = Some t"
      and res: "t_result t = res" by (auto simp: tracks_def)
    let ?res' = "result_from_error (clock s) q t e"
    have "triple (\<lambda>s. tracks q oid E_FAILED res (trk s))
        (tracker_update (q_exchange_account_id q) (r_order_id res) ?res' E_FAILED)
        (\<lambda>_ s. failed_record q (trk s)) (\<lambda>_ s. failed_record q (trk s))"
    proof (cases "r_order_id res = oid")
      case True
      show ?thesis unfolding True
        by (rule triple_weaken [OF tracker_update_tracks]) (auto intro: failed_recordI)
    next
      case False
      show ?thesis
        by (rule triple_weaken [OF tracker_update_other [OF False]])
          (use assms in \<open>auto intro: failed_recordI\<close>)
    qed
    then have "triple (\<lambda>u. u = s) (tracker_update (q_exchange_account_id q) (r_order_id res) ?res' E_FAILED)
        (\<lambda>_ s. failed_record q (trk s)) (\<lambda>_ s. failed_record q (trk s))"
      by (rule triple_weaken) (use tr in simp_all)
    then have "triple (\<lambda>u. u = s) (seq (tracker_update (q_exchange_account_id q) (r_order_id res)
        ?res' E_FAILED) (throw e)) Q (\<lambda>_ s. failed_record q (trk s))"
      by (rule triple_seq) (rule triple_throw)
    with t res show "triple (\<lambda>u. u = s) (case dget (orders (trk s)) (q_exchange_account_id q, oid) of
        None \<Rightarrow> throw e
      | Some t \<Rightarrow> seq (tracker_update (q_exchange_account_id q) (r_order_id (t_result t))
            (result_from_error (clock s) q t e) E_FAILED) (throw e))
      Q (\<lambda>_ s. failed_record q (trk s))" by simp
  qed
qed

lemma execute_keeps_trk:
  "obeys (same trk) (reading (\<lambda>s. execute (executor_config s) q ad) :: ('x, 'm, order_result) xe)"
  by (rule obeys_reading) (rule world_frame_exec(1), rule executor_frames)

lemma submit_tracks:
  "triple (\<lambda>s. tracks q oid E_PENDING res (trk s)) (submit q (q_exchange_account_id q, oid) ad)
     (\<lambda>_ s. tracks q oid E_SUBMITTING res (trk s)) (\<lambda>_ s. tracks q oid E_SUBMITTING res (trk s))"
  unfolding submit_def
proof (rule triple_seq)
  show "triple (\<lambda>s. tracks q oid E_PENDING res (trk s))
      (transition (q_exchange_account_id q, oid) E_SUBMITTING)
      (\<lambda>_ s. tracks q oid E_SUBMITTING res (trk s)) (\<lambda>_ s. tracks q oid E_SUBMITTING res (trk s))"
    by (rule triple_weaken [OF transition_tracks]) auto
next
  show "triple (\<lambda>s. tracks q oid E_SUBMITTING res (trk s))
      (reading (\<lambda>s. execute (executor_config s) q ad))
      (\<lambda>_ s. tracks q oid E_SUBMITTING res (trk s)) (\<lambda>_ s. tracks q oid E_SUBMITTING res (trk s))"
    by (rule triple_frame [OF execute_keeps_trk, where P = "tracks q oid E_SUBMITTING res"])
qed

text \<open>A recorded result is the stored one; a rejected one leaves the failed record.\<close>

lemma record_result_tracks:
  assumes "r_status res0 = order_status_value O_PENDING"
  shows "triple (\<lambda>s. tracks q oid E_SUBMITTING res0 (trk s))
     (record_result q (q_exchange_account_id q, oid) res)
     (\<lambda>r s. r = res \<and> tracks q (r_order_id res) (map_exchange_status (r_status res)) res (trk s))
     (\<lambda>_ s. failed_record q (trk s))"
  unfolding record_result_def Let_def snd_conv
proof (rule triple_seq)
  show "triple (\<lambda>s. tracks q oid E_SUBMITTING res0 (trk s))
      (if r_order_id res \<noteq> oid then tracker_re_key (q_exchange_account_id q) oid (r_order_id res)
       else ret ())
      (\<lambda>_ s. tracks q (r_order_id res) E_SUBMITTING res0 (trk s)) (\<lambda>_ s. failed_record q (trk s))"
    by (auto intro: tracker_re_key_tracks triple_ret)
next
  let ?st = "map_exchange_status (r_status res)"
  let ?new = "(q_exchange_account_id q, r_order_id res)"
  have "triple (\<lambda>s. tracks q (r_order_id res) E_SUBMITTING res0 (trk s))
      (seq (transition ?new ?st)
        (seq (tracker_update (q_exchange_account_id q) (r_order_id res) res ?st) (ret res)))
      (\<lambda>r s. r = res \<and> tracks q (r_order_id res) ?st res (trk s))
      (\<lambda>_ s. tracks q (r_order_id res) E_SUBMITTING res0 (trk s))"
    by (rule triple_seq [where M = "\<lambda>s. tracks q (r_order_id res) ?st res0 (trk s)"])
      (auto intro: triple_weaken [OF transition_tracks] triple_seq [OF tracker_update_tracks] triple_ret)
  then show "triple (\<lambda>s. tracks q (r_order_id res) E_SUBMITTING res0 (trk s))
      (try_catch (seq (transition ?new ?st)
          (seq (tracker_update (q_exchange_account_id q) (r_order_id res) res ?st) (ret res)))
        (\<lambda>e. seq (place_failed q ?new e) (throw e)))
      (\<lambda>r s. r = res \<and> tracks q (r_order_id res) ?st res (trk s))
      (\<lambda>_ s. failed_record q (trk s))"
    by (rule triple_try)
      (intro triple_seq [OF place_failed_records [OF assms]] triple_throw, simp)
qed

lemma placing_tracks:
  assumes "r_status res0 = order_status_value O_PENDING"
  shows "triple (\<lambda>s. tracks q oid E_PENDING res0 (trk s)) (placing q (q_exchange_account_id q, oid) ad)
     (\<lambda>r s. tracks q (r_order_id r) (map_exchange_status (r_status r)) r (trk s))
     (\<lambda>_ s. failed_record q (trk s))"
  unfolding placing_def
proof (rule triple_bind)
  show "triple (\<lambda>s. tracks q oid E_PENDING res0 (trk s))
      (try_catch (submit q (q_exchange_account_id q, oid) ad)
        (\<lambda>e. seq (place_failed q (q_exchange_account_id q, oid) e) (throw e)))
      (\<lambda>_ s. tracks q oid E_SUBMITTING res0 (trk s)) (\<lambda>_ s. failed_record q (trk s))"
    by (rule triple_try [OF submit_tracks])
      (intro triple_seq [OF place_failed_records [OF assms]] triple_throw, simp)
next
  show "triple (\<lambda>s. tracks q oid E_SUBMITTING res0 (trk s))
      (record_result q (q_exchange_account_id q, oid) r)
      (\<lambda>r s. tracks q (r_order_id r) (map_exchange_status (r_status r)) r (trk s))
      (\<lambda>_ s. failed_record q (trk s))" for r
    by (rule triple_weaken [OF record_result_tracks [OF assms]]) auto
qed

lemma placing_pending:
  "triple (\<lambda>u. tracks q (snd (local_key q s)) E_PENDING
         (placeholder (clock s) q (snd (local_key q s))) (trk u))
     (placing q (local_key q s) ad)
     (\<lambda>r u. tracks q (r_order_id r) (map_exchange_status (r_status r)) r (trk u))
     (\<lambda>_ u. failed_record q (trk u))"
  unfolding snd_conv by (rule placing_tracks) (rule placeholder_status)

text \<open>After an attempt, the request id always answers from the cache.\<close>

lemma place_order_Ok_cached:
  assumes "place_order q s = (Ok r, s')"
  shows "\<exists>t. get_by_request_id (q_request_id q) (trk s') = Some t \<and> t_result t = r"
proof (cases q s rule: place_order_cases)
  case (cached t)
  with assms show ?thesis by auto
next
  case (refused e)
  with assms show ?thesis by simp
next
  case (attempted ad)
  have "placing q (local_key q s) ad (pending_state q s) = (Ok r, s')"
    using assms attempted(4) by simp
  then have "tracks q (r_order_id r) (map_exchange_status (r_status r)) r (trk s')"
    by (rule placing_pending [THEN triple_Ok, rotated]) (rule tracks_pending)
  then show ?thesis using tracks_lookup by blast
qed

lemma place_order_Raise_cached:
  assumes "place_order q s = (Raise e, s')" and "s' \<noteq> s"
  shows "\<exists>t. get_by_request_id (q_request_id q) (trk s') = Some t \<and> t_status t = E_FAILED \<and>
    r_status (t_result t) \<in> {order_status_value O_REJECTED, order_status_value O_PENDING}"
proof (cases q s rule: place_order_cases)
  case (cached t)
  with assms show ?thesis by simp
next
  case (refused e)
  with assms show ?thesis by simp
next
  case (attempted ad)
  have "placing q (local_key q s) ad (pending_state q s) = (Raise e, s')"
    using assms attempted(4) by simp
  then have "failed_record q (trk s')"
    by (rule placing_pending [THEN triple_Raise, rotated]) (rule tracks_pending)
  then show ?thesis using tracks_lookup unfolding failed_record_def by blast
qed

lemma place_order_cached_eq:
  "get_by_request_id (q_request_id q) (trk s) = Some t \<Longrightarrow> place_order q s = (Ok (t_result t), s)"
  by (simp add: place_order_def py_simps)

section \<open>The contract with the engines that place orders\<close>

text \<open>
  What the grid and profit-lock engines rely on: a request that has been answered is answered again
  from memory, a request that failed on the exchange is answered from memory too, and their own
  state is not touched. \<open>seen\<close> is the answer the gateway has stored for a request.
\<close>

locale order_gateway =
  fixes place :: "'q \<Rightarrow> ('s, 'r) py"
    and seen :: "'q \<Rightarrow> 's \<Rightarrow> 'r option"
    and client :: "'s \<Rightarrow> 'c"
  assumes place_seen: "seen q s = Some r \<Longrightarrow> place q s = (Ok r, s)"
    and Ok_seen: "place q s = (Ok r, s') \<Longrightarrow> seen q s' = Some r"
    and Raise_seen: "place q s = (Raise e, s') \<Longrightarrow> s' = s \<or> seen q s' \<noteq> None"
    and client_untouched: "client (snd (place q s)) = client s"
begin

fun place_again :: "nat \<Rightarrow> 'q \<Rightarrow> ('s, 'r) py" where
  "place_again 0 q = place q"
| "place_again (Suc n) q = bind (place q) (\<lambda>_. place_again n q)"

lemma replay: "place q s = (Ok r, s') \<Longrightarrow> place q s' = (Ok r, s')"
  by (rule place_seen) (rule Ok_seen)

lemma place_again_once: "place q s = (Ok r, s') \<Longrightarrow> place_again n q s = (Ok r, s')"
proof (induction n arbitrary: s)
  case (Suc n)
  from Suc.IH [OF replay [OF Suc.prems]] Suc.prems show ?case by (simp add: bind_def)
qed simp

lemma retry_after_failure:
  "place q s = (Raise e, s') \<Longrightarrow> s' \<noteq> s \<Longrightarrow> \<exists>r. place q s' = (Ok r, s')"
  using Raise_seen place_seen by blast

lemma at_most_one_effect:
  "snd (place q (snd (place q s))) = snd (place q s) \<or> (\<exists>e. place q s = (Raise e, s))"
proof (cases "place q s")
  case (Pair r s')
  show ?thesis
  proof (cases r)
    case (Ok a)
    with Pair replay show ?thesis by simp
  next
    case (Raise e)
    with Pair retry_after_failure [of q s e s'] show ?thesis by (cases "s' = s") auto
  qed
qed

end

definition answered :: "order_request \<Rightarrow> ('x, 'm) exec_engine_scheme \<Rightarrow> order_result option" where
  "answered q s = map_option t_result (get_by_request_id (q_request_id q) (trk s))"

interpretation gateway: order_gateway place_order answered exec_engine.more
proof unfold_locales
  fix q s r and s' :: "('a, 'b) exec_engine_scheme"
  show "answered q s' = Some r \<Longrightarrow> place_order q s' = (Ok r, s')"
    using place_order_cached_eq by (fastforce simp: answered_def)
  show "place_order q s = (Ok r, s') \<Longrightarrow> answered q s' = Some r"
    using place_order_Ok_cached by (fastforce simp: answered_def)
  show "place_order q s = (Raise e, s') \<Longrightarrow> s' = s \<or> answered q s' \<noteq> None" for e
    using place_order_Raise_cached by (fastforce simp: answered_def)
  show "exec_engine.more (snd (place_order q s')) = exec_engine.more s'"
    by (rule sameD [OF place_order_frame])
qed

section \<open>Outcomes of the exchange\<close>

lemma submit_cases:
  assumes "submit q (local_key q s) ad (pending_state q s) = (r, s1)"
  shows "tracks q (snd (local_key q s)) E_SUBMITTING
    (placeholder (clock s) q (snd (local_key q s))) (trk s1)"
proof -
  have T: "triple (\<lambda>u. tracks q (snd (local_key q s)) E_PENDING
        (placeholder (clock s) q (snd (local_key q s))) (trk u)) (submit q (local_key q s) ad)
      (\<lambda>_ u. tracks q (snd (local_key q s)) E_SUBMITTING
        (placeholder (clock s) q (snd (local_key q s))) (trk u))
      (\<lambda>_ u. tracks q (snd (local_key q s)) E_SUBMITTING
        (placeholder (clock s) q (snd (local_key q s))) (trk u))"
    unfolding snd_conv by (rule submit_tracks)
  show ?thesis
  proof (cases r)
    case (Ok a)
    with assms have "submit q (local_key q s) ad (pending_state q s) = (Ok a, s1)" by simp
    then show ?thesis by (rule T [THEN triple_Ok, rotated]) (rule tracks_pending)
  next
    case (Raise e)
    with assms have "submit q (local_key q s) ad (pending_state q s) = (Raise e, s1)" by simp
    then show ?thesis by (rule T [THEN triple_Raise, rotated]) (rule tracks_pending)
  qed
qed

text \<open>
  The lifecycle admits only some answers to a submission. Any other accepted answer (pending,
  cancelled, expired) is turned into an exception after the exchange has the order.
\<close>

lemma record_result_triple:
  "triple (\<lambda>s. tracks q oid E_SUBMITTING res0 (trk s))
     (record_result q (q_exchange_account_id q, oid) res)
     (\<lambda>_ _. map_exchange_status (r_status res) \<in> set (order_transitions E_SUBMITTING))
     (\<lambda>e _. map_exchange_status (r_status res) \<notin> set (order_transitions E_SUBMITTING) \<and>
        e = Exn InvalidStateTransition [exec_status_value E_SUBMITTING,
              exec_status_value (map_exchange_status (r_status res))])"
  unfolding record_result_def Let_def snd_conv
proof (rule triple_seq [where M = "\<lambda>s. tracks q (r_order_id res) E_SUBMITTING res0 (trk s)"])
  let ?st = "map_exchange_status (r_status res)"
  let ?new = "(q_exchange_account_id q, r_order_id res)"
  let ?bad = "\<lambda>e (s :: ('a, 'b) exec_engine_scheme). ?st \<notin> set (order_transitions E_SUBMITTING) \<and>
    e = Exn InvalidStateTransition [exec_status_value E_SUBMITTING, exec_status_value ?st]"
  show "triple (\<lambda>s. tracks q oid E_SUBMITTING res0 (trk s))
      (if r_order_id res \<noteq> oid then tracker_re_key (q_exchange_account_id q) oid (r_order_id res)
       else ret ())
      (\<lambda>_ s. tracks q (r_order_id res) E_SUBMITTING res0 (trk s)) ?bad"
    by (auto intro: tracker_re_key_tracks triple_ret)
  show "triple (\<lambda>s. tracks q (r_order_id res) E_SUBMITTING res0 (trk s))
      (try_catch (seq (transition ?new ?st)
          (seq (tracker_update (q_exchange_account_id q) (r_order_id res) res ?st) (ret res)))
        (\<lambda>e. seq (place_failed q ?new e) (throw e)))
      (\<lambda>_ _. ?st \<in> set (order_transitions E_SUBMITTING)) ?bad"
  proof (rule triple_try [where M = "\<lambda>e s. ?bad e s \<and> tracks q (r_order_id res) E_SUBMITTING res0 (trk s)"])
    show "triple (\<lambda>s. tracks q (r_order_id res) E_SUBMITTING res0 (trk s))
        (seq (transition ?new ?st)
          (seq (tracker_update (q_exchange_account_id q) (r_order_id res) res ?st) (ret res)))
        (\<lambda>_ _. ?st \<in> set (order_transitions E_SUBMITTING))
        (\<lambda>e s. ?bad e s \<and> tracks q (r_order_id res) E_SUBMITTING res0 (trk s))"
      by (rule triple_seq [where M = "\<lambda>_. ?st \<in> set (order_transitions E_SUBMITTING)"],
          rule triple_weaken [OF transition_tracks])
        (auto simp: triple_def tracker_update_def py_simps)
    show "triple (\<lambda>s. ?bad e s \<and> tracks q (r_order_id res) E_SUBMITTING res0 (trk s))
        (seq (place_failed q ?new e) (throw e))
        (\<lambda>_ _. ?st \<in> set (order_transitions E_SUBMITTING)) ?bad" for e
      by (auto simp: triple_def place_failed_def transition_def tracks_def py_simps
          validate_order_transition_def tracker_update_def)
  qed
qed

lemma placing_eq:
  "placing q key ad s =
     (case submit q key ad s of
        (Ok res, s1) \<Rightarrow> record_result q key res s1
      | (Raise e, s1) \<Rightarrow> seq (place_failed q key e) (throw e) s1)"
  by (auto simp: placing_def bind_def try_catch_def split: prod.splits res.splits)
    (auto simp: seq_def bind_def throw_def split: prod.splits res.splits)

lemma placing_outcome:
  assumes sub: "submit q (local_key q s) ad (pending_state q s) = (Ok res, s1)"
  shows "map_exchange_status (r_status res) \<in> set (order_transitions E_SUBMITTING) \<longrightarrow>
      fst (placing q (local_key q s) ad (pending_state q s)) = Ok res"
    and "map_exchange_status (r_status res) \<notin> set (order_transitions E_SUBMITTING) \<longrightarrow>
      fst (placing q (local_key q s) ad (pending_state q s)) =
        Raise (Exn InvalidStateTransition [exec_status_value E_SUBMITTING,
          exec_status_value (map_exchange_status (r_status res))])"
proof -
  obtain r s2 where rec: "record_result q (local_key q s) res s1 = (r, s2)" by force
  then have pl: "placing q (local_key q s) ad (pending_state q s) = (r, s2)"
    using sub by (simp add: placing_eq)
  have tr: "tracks q (snd (local_key q s)) E_SUBMITTING
      (placeholder (clock s) q (snd (local_key q s))) (trk s1)"
    by (rule submit_cases [OF sub])
  note A = record_result_triple [where q = q and oid = "snd (local_key q s)" and res = res
      and ?res0.0 = "placeholder (clock s) q (snd (local_key q s))"]
  note B = record_result_tracks [where q = q and oid = "snd (local_key q s)" and res = res
      and ?res0.0 = "placeholder (clock s) q (snd (local_key q s))", OF placeholder_status]
  from A tr rec have a: "case r of Ok _ \<Rightarrow> map_exchange_status (r_status res) \<in> set (order_transitions E_SUBMITTING)
      | Raise e \<Rightarrow> map_exchange_status (r_status res) \<notin> set (order_transitions E_SUBMITTING) \<and>
        e = Exn InvalidStateTransition [exec_status_value E_SUBMITTING,
              exec_status_value (map_exchange_status (r_status res))]"
    unfolding triple_def by (cases r) fastforce+
  from B tr rec have b: "case r of Ok a \<Rightarrow> a = res | Raise e \<Rightarrow> True"
    unfolding triple_def by (cases r) fastforce+
  show "map_exchange_status (r_status res) \<in> set (order_transitions E_SUBMITTING) \<longrightarrow>
      fst (placing q (local_key q s) ad (pending_state q s)) = Ok res"
    using a b pl by (cases r) auto
  show "map_exchange_status (r_status res) \<notin> set (order_transitions E_SUBMITTING) \<longrightarrow>
      fst (placing q (local_key q s) ad (pending_state q s)) =
        Raise (Exn InvalidStateTransition [exec_status_value E_SUBMITTING,
          exec_status_value (map_exchange_status (r_status res))])"
    using a pl by (cases r) auto
qed

section \<open>Cancelling and synchronising\<close>

lemma sync_tracked_eq:
  assumes "dget (orders (trk s)) (acct, oid) = Some u"
    and "exec_get_order (r_symbol (t_result t)) (r_exchange_order_id (t_result t)) ad s = (Ok res, s1)"
  shows "sync_tracked acct oid t ad s =
     (let st = map_exchange_status (r_status res) in
      if st \<in> set (order_transitions (t_status u))
      then (Ok res, s1\<lparr>trk := (trk s)\<lparr>orders := dput (acct, oid)
              (u\<lparr>t_result := res, t_status := st, t_updated_at := clock s1\<rparr>) (orders (trk s))\<rparr>\<rparr>)
      else (Raise (Exn InvalidStateTransition [exec_status_value (t_status u), exec_status_value st]), s1))"
proof -
  have "trk s1 = trk s"
    using sameD [OF world_frame_exec(1) [OF executor_frames(3)], of _ _ ad s] assms(2)
    by (metis snd_conv)
  with assms show ?thesis
    by (auto simp: sync_tracked_def bind_def Let_def seq_def transition_def reading_def ret_def
        lift_res_def modify_def tracker_update_def update_order_def touch_def
        validate_order_transition_def)
qed

text \<open>Synchronising an order the exchange still reports as open.\<close>

lemma sync_order_still_open:
  assumes "get_tracked acct oid (trk s) = Some t" and "t_status t = E_OPEN"
    and "dget (adapters s) acct = Some ad"
    and "exec_get_order (r_symbol (t_result t)) (r_exchange_order_id (t_result t)) ad s = (Ok res, s1)"
    and "map_exchange_status (r_status res) = E_OPEN"
  shows "sync_order acct oid s =
    (Raise (Exn InvalidStateTransition [''open'', ''open'']), s1)"
  using assms sync_tracked_eq [of s acct oid t t ad res s1]
  by (simp add: sync_order_def get_tracked_def reading_def bind_def get_adapter_def ret_def)

text \<open>A second cancellation of an order whose first one did not complete.\<close>

lemma cancel_order_cancelling:
  assumes "get_tracked acct oid (trk s) = Some t" and "t_status t = E_CANCELLING"
    and "dget (adapters s) acct = Some ad"
  shows "cancel_order acct oid s =
    (Raise (Exn InvalidStateTransition [''cancelling'', ''cancelling'']), s)"
  using assms
  by (simp add: cancel_order_def get_tracked_def get_adapter_def transition_def py_simps
      validate_order_transition_def)

text \<open>A terminal order answers from memory, whatever the exchange says.\<close>

lemma cancel_order_terminal:
  "get_tracked acct oid (trk s) = Some t \<Longrightarrow> order_is_terminal (t_status t) \<Longrightarrow>
   cancel_order acct oid s = (Ok (t_result t), s)"
  by (cases "t_status t") (simp_all add: cancel_order_def order_is_terminal_def py_simps)

text \<open>
  The cancellation of a live order as the code performs it: any answer of the adapter that is not
  an exception, also \<^verbatim>\<open>False\<close>, is recorded as a cancellation.
\<close>

lemma cancel_order_accepted:
  assumes t: "get_tracked acct oid (trk s) = Some t"
    and st: "E_CANCELLING \<in> set (order_transitions (t_status t))"
    and ad: "dget (adapters s) acct = Some ad"
    and call: "ad_cancel_order ad (py_upper (r_symbol (t_result t)))
      (r_exchange_order_id (t_result t)) (exch s) = (Ok b, x)"
  shows "fst (cancel_order acct oid s) = Ok (cancelled_result (clock s) (t_result t)) \<and>
    exch (snd (cancel_order acct oid s)) = x \<and>
    get_tracked acct oid (trk (snd (cancel_order acct oid s))) =
      Some (t\<lparr>t_status := E_CANCELLED, t_updated_at := clock s,
              t_result := cancelled_result (clock s) (t_result t)\<rparr>)"
proof -
  have "t_status t \<notin> set [E_FILLED, E_CANCELLED, E_REJECTED]"
    using st by (cases "t_status t") auto
  with assms show ?thesis
    by (simp add: cancel_order_def get_tracked_def get_adapter_def transition_def py_simps
        validate_order_transition_def touch_def exec_cancel_def wrap_exchange_error_def
        tracker_update_def update_order_def Let_def)
qed

section \<open>Histories of the engine\<close>

text \<open>
  A handler runs to its end, or the world moves between two handlers: time passes, and the
  exchange changes its books by itself.
\<close>

inductive exec_step :: "('x, 'm) exec_engine_scheme \<Rightarrow> ('x, 'm) exec_engine_scheme \<Rightarrow> bool" where
  placed: "exec_step s (snd (place_order q s))"
| cancelled: "exec_step s (snd (cancel_order acct oid s))"
| synced: "exec_step s (snd (sync_order acct oid s))"
| all_cancelled: "exec_step s (snd (cancel_all_orders acct symbol s))"
| registered: "exec_step s (snd (register_adapter acct ad s))"
| unregistered: "exec_step s (snd (unregister_adapter acct s))"
| world_moved: "clock s \<le> c \<Longrightarrow> exec_step s (s\<lparr>clock := c, exch := x\<rparr>)"

inductive_cases exec_stepE: "exec_step s t"

inductive exec_reachable :: "('x, 'm) exec_engine_scheme \<Rightarrow> bool" where
  fresh: "trk s = empty_tracker \<Longrightarrow> exec_reachable s"
| stepped: "exec_reachable s \<Longrightarrow> exec_step s t \<Longrightarrow> exec_reachable t"

lemma exec_step_sound: "exec_step s t \<Longrightarrow> tracker_sound s \<Longrightarrow> tracker_sound t"
proof (erule exec_stepE)
qed (auto simp: keepsD [OF place_order_sound] keepsD [OF cancel_order_sound]
    keepsD [OF sync_order_sound] keepsD [OF cancel_all_orders_sound]
    register_adapter_def unregister_adapter_def modify_def)

lemma exec_reachable_sound: "exec_reachable s \<Longrightarrow> tracker_sound s"
  by (induction rule: exec_reachable.induct) (auto dest: exec_step_sound)

section \<open>Status changes follow the lifecycle\<close>

text \<open>
  Every order that was tracked is still tracked under its key, for the same request, and its status
  was reached through validated transitions. Cancelling and synchronising respect this contract;
  so a filled, cancelled or rejected order keeps its status for good.
\<close>

definition moves :: "('x, 'm) exec_engine_scheme \<Rightarrow> ('x, 'm) exec_engine_scheme \<Rightarrow> bool" where
  "moves s s' \<longleftrightarrow> (\<forall>k t. dget (orders (trk s)) k = Some t \<longrightarrow>
     (\<exists>t' path. dget (orders (trk s')) k = Some t' \<and> t_request_id t' = t_request_id t \<and>
        order_sm.run (t_status t) path = Ok (t_status t')))"

lemma moves_refl: "moves s s"
  unfolding moves_def by (metis order_sm.run.simps(1))

lemma run_join:
  "order_sm.run a xs = Ok b \<Longrightarrow> order_sm.run b ys = Ok c \<Longrightarrow> \<exists>path. order_sm.run a path = Ok c"
  by (rule exI [of _ "xs @ ys"]) (simp add: order_sm.run_append)

lemma moves_trans:
  assumes "moves s s'" and "moves s' s''"
  shows "moves s s''"
  unfolding moves_def
proof (intro allI impI)
  fix k t
  assume "dget (orders (trk s)) k = Some t"
  with assms(1) obtain t' p where t': "dget (orders (trk s')) k = Some t'"
    "t_request_id t' = t_request_id t" "order_sm.run (t_status t) p = Ok (t_status t')"
    unfolding moves_def by blast
  with assms(2) obtain t'' p' where "dget (orders (trk s'')) k = Some t''"
    "t_request_id t'' = t_request_id t'" "order_sm.run (t_status t') p' = Ok (t_status t'')"
    unfolding moves_def by blast
  with t' run_join show "\<exists>t' path. dget (orders (trk s'')) k = Some t' \<and>
      t_request_id t' = t_request_id t \<and> order_sm.run (t_status t) path = Ok (t_status t')"
    by metis
qed

interpretation lifecycle: step_contract moves
  by unfold_locales (auto intro: moves_refl moves_trans)

declare lifecycle.contract_rules [resp_intros]

lemma same_trk_moves: "obeys (same trk) m \<Longrightarrow> obeys moves m"
  by (auto simp: obeys_def same_def moves_def intro: exI [of _ "[]"])

lemmas world_moves_frames [resp_intros] =
  world_frames [THEN world_frame_exec(1), THEN same_trk_moves]
  executor_frames [THEN world_frame_exec(1), THEN same_trk_moves]

lemma moves_put:
  assumes "dget (orders (trk s)) key = Some t" and "t_request_id t' = t_request_id t"
    and "t_status t' \<in> set (order_transitions (t_status t))"
    and "orders (trk s') = dput key t' (orders (trk s))"
  shows "moves s s'"
proof -
  have "order_sm.run (t_status t) [t_status t'] = Ok (t_status t')"
    using assms(3) by (simp add: validate_order_transition_def)
  moreover have "order_sm.run (t_status u) [] = Ok (t_status u)" for u by simp
  ultimately show ?thesis using assms unfolding moves_def
    by (auto simp del: order_sm.run.simps)
qed

lemma transition_moves [resp_intros]: "obeys moves (transition key st)"
  unfolding obeys_def
proof
  fix s :: "('a, 'b) exec_engine_scheme"
  show "moves s (snd (transition key st s))"
  proof (cases "dget (orders (trk s)) key")
    case (Some t)
    show ?thesis
    proof (cases "st \<in> set (order_transitions (t_status t))")
      case True
      show ?thesis
        by (rule moves_put [OF Some, where t' = "touch (clock s) (t\<lparr>t_status := st\<rparr>)"])
          (use Some True in \<open>simp_all add: transition_def py_simps touch_def validate_order_transition_def\<close>)
    qed (use Some in \<open>simp add: transition_def py_simps validate_order_transition_def moves_refl\<close>)
  qed (simp add: transition_def py_simps moves_refl)
qed

text \<open>An update that follows the transition to the status it writes changes no status.\<close>

lemma transition_status:
  "transition key st s = (Ok (), s') \<Longrightarrow> dget (orders (trk s')) key = Some t \<Longrightarrow> t_status t = st"
  by (auto simp: transition_def py_simps touch_def split: option.splits res.splits)

lemma tracker_update_moves:
  assumes "\<And>t. dget (orders (trk s)) (acct, oid) = Some t \<Longrightarrow> t_status t = st"
  shows "moves s (snd (tracker_update acct oid res st s))"
  using assms
  by (auto simp: tracker_update_def py_simps update_order_def touch_def moves_def Let_def
      split: option.splits intro: exI [of _ "[]"])

lemma transition_then_update_moves [resp_intros]:
  assumes "\<And>x. obeys (same trk) (n x)"
  shows "obeys moves (seq (transition (acct, oid) st)
    (bind now (\<lambda>d. seq (tracker_update acct oid (res d) st) (n d))))"
  unfolding obeys_def
proof
  fix s :: "('a, 'b) exec_engine_scheme"
  show "moves s (snd (seq (transition (acct, oid) st)
      (bind now (\<lambda>d. seq (tracker_update acct oid (res d) st) (n d))) s))"
  proof (cases "transition (acct, oid) st s")
    case (Pair r s1)
    have m1: "moves s s1" using obeysD [OF transition_moves, of s "(acct, oid)" st] Pair by simp
    show ?thesis
    proof (cases r)
      case (Ok u)
      then have "moves s1 (snd (tracker_update acct oid (res (clock s1)) st s1))"
        using transition_status Pair by (intro tracker_update_moves) auto
      moreover obtain s2 where u: "tracker_update acct oid (res (clock s1)) st s1 = (Ok (), s2)"
        by (simp add: tracker_update_def modify_def)
      moreover have "moves s2 (snd (n (clock s1) s2))"
        by (rule obeysD [OF same_trk_moves [OF assms]])
      ultimately show ?thesis using m1 Pair Ok
        by (auto simp: seq_def bind_def now_def gets_def intro: moves_trans)
    qed (use m1 Pair in \<open>simp add: seq_def bind_def\<close>)
  qed
qed

lemma sync_tracked_moves [resp_intros]: "obeys moves (sync_tracked acct oid t ad)"
proof -
  have drop: "seq (transition (acct, oid) st) (seq (tracker_update acct oid res st) (ret res)) =
      seq (transition (acct, oid) st) (bind now (\<lambda>d. seq (tracker_update acct oid res st) (ret res)))"
    for st and res :: order_result
    by (auto simp: py_simps fun_eq_iff split: prod.splits res.splits)
  show ?thesis unfolding sync_tracked_def Let_def drop by (intro resp_intros)
qed

lemma cancel_order_moves [resp_intros]: "obeys moves (cancel_order acct oid)"
  unfolding cancel_order_def get_adapter_def by (intro resp_intros)

lemma sync_order_moves [resp_intros]: "obeys moves (sync_order acct oid)"
  unfolding sync_order_def get_adapter_def by (intro resp_intros)

lemma cancel_all_orders_moves [resp_intros]: "obeys moves (cancel_all_orders acct symbol)"
  unfolding cancel_all_orders_def cancel_open_def get_adapter_def by (intro resp_intros)

section \<open>A run on the paper exchange\<close>

definition engine_on :: "book adapter \<Rightarrow> book exec_engine" where
  "engine_on ad = \<lparr>clock = 0, uuid_next = 0, sleeps = [], exch = [], trk = empty_tracker,
     adapters = [(Some 7, ad)], executor_config = default_executor\<rparr>"

definition buy_one :: order_request where
  "buy_one = \<lparr>q_request_id = Some 1, q_exchange_account_id = Some 7, q_symbol = ''BTC'',
     q_side = BUY, q_order_type = LIMIT, q_quantity = 1, q_price = Some 100, q_stop_price = None,
     q_client_order_id = None\<rparr>"

lemma buy_one_well_formed: "well_formed_request buy_one"
  by (simp add: well_formed_request_def buy_one_def blank_def is_space_def)

lemma buy_one_fresh: "get_by_request_id (q_request_id buy_one) (trk (engine_on ad)) = None"
  by (simp add: engine_on_def empty_tracker_def get_by_request_id_def)

lemma buy_one_adapter: "dget (adapters (engine_on ad)) (q_exchange_account_id buy_one) = Some ad"
  by (simp add: engine_on_def buy_one_def)

definition bought :: "order_result" where
  "bought = accept ''BTC'' ''buy'' ''limit'' 1 (Some 100) []"

lemma buy_one_placement: "placement buy_one paper b =
    (let r = accept ''BTC'' ''buy'' ''limit'' 1 (Some 100) b in (Ok r, b @ [r]))"
  by (simp add: placement_def paper_def buy_one_def py_upper_def char_upper_def)

definition bought_state :: "book exec_engine" where
  "bought_state = snd (place_order buy_one (engine_on paper))"

text \<open>The world and the configuration after a placement, for computing with it.\<close>

lemma submit_accepted:
  assumes "0 < max_retries (executor_config s)" and "placement q ad (exch s) = (Ok res, x)"
    and "dget (orders (trk s)) key = Some t" and "t_status t = E_PENDING"
  shows "submit q key ad s = (Ok res, s\<lparr>exch := x, trk := (trk s)\<lparr>orders :=
      dput key (t\<lparr>t_status := E_SUBMITTING, t_updated_at := clock s\<rparr>) (orders (trk s))\<rparr>\<rparr>)"
proof -
  obtain n where "nat (max_retries (executor_config s)) = Suc n"
    using assms(1) by (metis gr0_conv_Suc zero_less_nat_eq)
  with assms show ?thesis
    by (simp add: submit_def transition_def py_simps validate_order_transition_def touch_def
        execute_def execute_loop_step)
qed

lemma engine_exch_frames [resp_intros]:
  "obeys (same exch) (transition key st :: ('x, 'm, unit) xe)"
  "obeys (same exch) (tracker_update acct oid res st' :: ('x, 'm, unit) xe)"
  "obeys (same exch) (tracker_re_key acct oid oid' :: ('x, 'm, unit) xe)"
  unfolding transition_def tracker_update_def tracker_re_key_def
  by ((intro resp_intros; simp)+)

lemma record_result_exch [resp_intros]:
  "obeys (same exch) (record_result q key res :: ('x, 'm, order_result) xe)"
  unfolding record_result_def place_failed_def by (intro resp_intros)

lemma place_order_adapters [resp_intros]:
  "obeys (same adapters) (place_order q :: ('x, 'm, order_result) xe)"
  unfolding place_order_def submit_def create_pending_def local_order_id_def record_result_def
    place_failed_def transition_def tracker_update_def tracker_re_key_def get_adapter_def
  by (intro resp_intros world_frame_exec(2) [OF world_frames(1)] world_frame_exec(2) [OF world_frames(2)]
      world_frame_exec(2) [OF executor_frames(1)]; simp)

lemma place_order_answer:
  assumes new: "get_by_request_id (q_request_id q) (trk s) = None"
    and ad: "dget (adapters s) (q_exchange_account_id q) = Some ad"
    and wf: "well_formed_request q"
    and sub: "submit q (local_key q s) ad (pending_state q s) = (Ok res, s1)"
  shows "exch (snd (place_order q s)) = exch s1"
    and "map_exchange_status (r_status res) \<in> set (order_transitions E_SUBMITTING) \<Longrightarrow>
      fst (place_order q s) = Ok res \<and>
      tracks q (r_order_id res) (map_exchange_status (r_status res)) res (trk (snd (place_order q s)))"
    and "map_exchange_status (r_status res) \<notin> set (order_transitions E_SUBMITTING) \<Longrightarrow>
      fst (place_order q s) = Raise (Exn InvalidStateTransition [exec_status_value E_SUBMITTING,
          exec_status_value (map_exchange_status (r_status res))]) \<and>
      failed_record q (trk (snd (place_order q s)))"
proof -
  have eq: "place_order q s = placing q (local_key q s) ad (pending_state q s)"
  proof (cases q s rule: place_order_cases)
    case (attempted ad')
    with ad show ?thesis by simp
  qed (use assms in simp_all)
  have "placing q (local_key q s) ad (pending_state q s) = record_result q (local_key q s) res s1"
    using sub by (simp add: placing_eq)
  then show "exch (snd (place_order q s)) = exch s1"
    using sameD [OF record_result_exch] eq by metis
  note out = placing_outcome [OF sub, folded eq]
  obtain r s2 where po: "place_order q s = (r, s2)" by force
  show "map_exchange_status (r_status res) \<in> set (order_transitions E_SUBMITTING) \<Longrightarrow>
      fst (place_order q s) = Ok res \<and>
      tracks q (r_order_id res) (map_exchange_status (r_status res)) res (trk (snd (place_order q s)))"
  proof -
    assume "map_exchange_status (r_status res) \<in> set (order_transitions E_SUBMITTING)"
    with out(1) po have "r = Ok res" by (simp del: order_transitions.simps)
    with po eq have "placing q (local_key q s) ad (pending_state q s) = (Ok res, s2)" by simp
    then have "tracks q (r_order_id res) (map_exchange_status (r_status res)) res (trk s2)"
      by (rule placing_pending [THEN triple_Ok, rotated]) (rule tracks_pending)
    with po \<open>r = Ok res\<close> show ?thesis by simp
  qed
  show "map_exchange_status (r_status res) \<notin> set (order_transitions E_SUBMITTING) \<Longrightarrow>
      fst (place_order q s) = Raise (Exn InvalidStateTransition [exec_status_value E_SUBMITTING,
          exec_status_value (map_exchange_status (r_status res))]) \<and>
      failed_record q (trk (snd (place_order q s)))"
  proof -
    assume "map_exchange_status (r_status res) \<notin> set (order_transitions E_SUBMITTING)"
    with out(2) po obtain e where r: "r = Raise e" and
      e: "e = Exn InvalidStateTransition [exec_status_value E_SUBMITTING,
          exec_status_value (map_exchange_status (r_status res))]"
      by (simp del: order_transitions.simps)
    with po eq have "placing q (local_key q s) ad (pending_state q s) = (Raise e, s2)" by simp
    then have "failed_record q (trk s2)"
      by (rule placing_pending [THEN triple_Raise, rotated]) (rule tracks_pending)
    with po r e show ?thesis by simp
  qed
qed

lemma submit_pending:
  assumes "0 < max_retries (executor_config s)" and "placement q ad (exch s) = (Ok res, x)"
  obtains s1 where "submit q (local_key q s) ad (pending_state q s) = (Ok res, s1)" and "exch s1 = x"
proof -
  have "dget (orders (trk (pending_state q s))) (local_key q s) = Some
      \<lparr>t_request_id = q_request_id q, t_exchange_account_id = q_exchange_account_id q,
       t_result = placeholder (clock s) q (snd (local_key q s)), t_status = E_PENDING,
       t_created_at = clock s, t_updated_at = clock s, t_retry_count = 0\<rparr>"
    by (simp add: pending_state_def track_def Let_def placeholder_def)
  from submit_accepted [OF _ _ this, of q ad res x] assms that show thesis
    by (simp add: pending_state_def)
qed

lemma bought_state_facts:
  "exch bought_state = [bought]" "fst (place_order buy_one (engine_on paper)) = Ok bought"
  "tracks buy_one ''x0'' E_OPEN bought (trk bought_state)"
proof -
  obtain s1 where sub: "submit buy_one (local_key buy_one (engine_on paper)) paper
      (pending_state buy_one (engine_on paper)) = (Ok bought, s1)" and x: "exch s1 = [bought]"
    by (rule submit_pending [of "engine_on paper" buy_one paper bought "[bought]"])
      (simp_all add: engine_on_def default_executor_def buy_one_placement bought_def Let_def)
  note A = place_order_answer [OF buy_one_fresh buy_one_adapter buy_one_well_formed sub]
  have "map_exchange_status (r_status bought) = E_OPEN" and "r_order_id bought = ''x0''"
    by (simp_all add: bought_def paper_simps map_exchange_status_def py_lower_def char_lower_def)
  with A x show "exch bought_state = [bought]"
    "fst (place_order buy_one (engine_on paper)) = Ok bought"
    "tracks buy_one ''x0'' E_OPEN bought (trk bought_state)"
    by (simp_all add: bought_state_def)
qed

lemma bought_state_reachable: "exec_reachable bought_state"
  unfolding bought_state_def
  by (rule exec_reachable.stepped [OF exec_reachable.fresh exec_step.placed]) (simp add: engine_on_def)

section \<open>Properties\<close>

text \<open>
  C1. Placing an order is idempotent. Whatever the first attempt that reached beyond validation
  did (answer, or raise at any point), every later placement of the same request returns the stored
  answer without another effect: neither the exchange nor the engine changes again. When the first
  attempt returned, the answer is the same one; when it raised, the retry does not raise but
  returns the record of the failure.
\<close>

theorem place_order_at_most_once:
  assumes "place_order q s = (r, s1)" and "s1 \<noteq> s"
  shows "\<exists>res. (\<forall>n. gateway.place_again n q s1 = (Ok res, s1)) \<and> (\<forall>a. r = Ok a \<longrightarrow> res = a) \<and>
    (\<forall>e. r = Raise e \<longrightarrow> r_status res \<in> {''rejected'', ''pending''})"
proof (cases r)
  case (Ok a)
  with assms have "place_order q s1 = (Ok a, s1)" by (auto dest: gateway.replay)
  with Ok gateway.place_again_once show ?thesis by blast
next
  case (Raise e)
  with assms place_order_Raise_cached [of q s e s1] obtain t where
    "get_by_request_id (q_request_id q) (trk s1) = Some t"
    "r_status (t_result t) \<in> {''rejected'', ''pending''}" by auto
  with Raise gateway.place_again_once [OF place_order_cached_eq] show ?thesis by blast
qed

theorem place_order_at_most_once_witness:
  "\<exists>res. \<forall>n. gateway.place_again n buy_one bought_state = (Ok res, bought_state)"
proof -
  note bought_state_facts(1)
  moreover have "exch (engine_on paper) = []" by (simp add: engine_on_def)
  ultimately have "bought_state \<noteq> engine_on paper" by (metis list.distinct(1))
  then show ?thesis
    using place_order_at_most_once [of buy_one "engine_on paper"] unfolding bought_state_def
    by (metis surjective_pairing)
qed

text \<open>
  C2. In every reachable state of the execution engine, two tracked orders never share a request
  id, and the request id of a tracked order leads to that order: the idempotency index is exact
  after any sequence of placements, cancellations, synchronisations and moves of the world.
\<close>

theorem reachable_orders_unique:
  assumes "exec_reachable s" and "dget (orders (trk s)) j = Some t"
    and "dget (orders (trk s)) k = Some u" and "t_request_id t = t_request_id u"
  shows "j = k \<and> get_by_request_id (t_request_id t) (trk s) = Some t"
proof -
  from assms(1) have inv: "tracker_sound s" by (rule exec_reachable_sound)
  from inv assms(2-4) have "j = k" by (rule tracker_inv_unique)
  with inv assms(2) show ?thesis by (simp add: get_by_request_id_def tracker_invD)
qed

theorem reachable_orders_unique_witness:
  "\<exists>t. get_by_request_id (Some 1) (trk bought_state) = Some t \<and> t_status t = E_OPEN"
proof -
  obtain t where "dget (orders (trk bought_state)) (Some 7, ''x0'') = Some t"
    "t_request_id t = Some 1" "t_status t = E_OPEN"
    using bought_state_facts(3) by (auto simp: tracks_def buy_one_def)
  with reachable_orders_unique [OF bought_state_reachable this(1) this(1)] show ?thesis by auto
qed

text \<open>
  C3. The exchange is only ever asked to place a well-formed order that is new: symbol not blank,
  positive quantity, a positive price exactly when the order type needs one, a positive stop price
  for stop-limit orders, an account with an adapter, and a request id that no tracked order has.
\<close>

theorem exchange_sees_valid_new_orders:
  assumes "exch (snd (place_order q s)) \<noteq> exch s"
  shows "well_formed_request q \<and> get_by_request_id (q_request_id q) (trk s) = None \<and>
    dget (adapters s) (q_exchange_account_id q) \<noteq> None"
  using assms by (cases q s rule: place_order_cases) auto

theorem exchange_sees_valid_new_orders_witness:
  "well_formed_request buy_one \<and> 0 < q_quantity buy_one"
proof -
  have "exch (snd (place_order buy_one (engine_on paper))) \<noteq> exch (engine_on paper)"
    using bought_state_facts(1) by (simp add: bought_state_def engine_on_def)
  from exchange_sees_valid_new_orders [OF this] show ?thesis by (simp add: buy_one_def)
qed

text \<open>
  C4. What a placement that the exchange accepts leads to. The exchange is changed exactly by that
  one call. If its answer is open, partially filled, filled or rejected, it is returned and the
  order is tracked under the exchange's id with that status and result; with any other answer
  (pending, cancelled, expired) \<^verbatim>\<open>place_order\<close> raises although the exchange has the order, and
  records it as failed.
\<close>

theorem accepted_placement:
  assumes "get_by_request_id (q_request_id q) (trk s) = None"
    and "dget (adapters s) (q_exchange_account_id q) = Some ad"
    and "well_formed_request q" and "0 < max_retries (executor_config s)"
    and "placement q ad (exch s) = (Ok res, x)"
  shows "exch (snd (place_order q s)) = x \<and>
    (if py_lower (r_status res) \<in> {''pending'', ''cancelled'', ''expired''}
     then (\<exists>e. fst (place_order q s) = Raise e \<and> exn_kind e = InvalidStateTransition) \<and>
       failed_record q (trk (snd (place_order q s)))
     else fst (place_order q s) = Ok res \<and>
       tracks q (r_order_id res) (map_exchange_status (r_status res)) res
         (trk (snd (place_order q s))))"
proof -
  obtain s1 where sub: "submit q (local_key q s) ad (pending_state q s) = (Ok res, s1)" "exch s1 = x"
    using submit_pending [OF assms(4,5)] .
  note A = place_order_answer [OF assms(1-3) sub(1)]
  have "map_exchange_status (r_status res) \<in> set (order_transitions E_SUBMITTING) \<longleftrightarrow>
      py_lower (r_status res) \<notin> {''pending'', ''cancelled'', ''expired''}"
    by (simp add: map_exchange_status_def Let_def)
  with A sub(2) show ?thesis by auto
qed

theorem accepted_placement_witness:
  "exch (snd (place_order buy_one (engine_on paper))) = [bought] \<and>
   fst (place_order buy_one (engine_on paper)) = Ok bought"
proof -
  have pl: "placement buy_one paper (exch (engine_on paper)) = (Ok bought, [bought])"
    by (simp add: buy_one_placement bought_def engine_on_def Let_def)
  have "0 < max_retries (executor_config (engine_on paper))"
    by (simp add: engine_on_def default_executor_def)
  from accepted_placement [OF buy_one_fresh buy_one_adapter buy_one_well_formed this pl]
  show ?thesis by (simp add: bought_def accept_def py_lower_def char_lower_def)
qed

text \<open>
  C8. Cancelling, synchronising and cancelling everything never lose an order and move every status
  only along the transition table; an order that is filled, cancelled or rejected keeps its status.
\<close>

theorem lifecycle_respected:
  assumes "dget (orders (trk s)) k = Some t"
    and "s' \<in> {snd (cancel_order acct oid s), snd (sync_order acct oid s),
               snd (cancel_all_orders acct symbol s)}"
  shows "\<exists>t'. dget (orders (trk s')) k = Some t' \<and> t_request_id t' = t_request_id t \<and>
    (\<exists>path. order_sm.run (t_status t) path = Ok (t_status t')) \<and>
    (order_is_terminal (t_status t) \<longrightarrow> t_status t' = t_status t)"
proof -
  have "moves s s'"
    using assms(2) obeysD [OF cancel_order_moves] obeysD [OF sync_order_moves]
      obeysD [OF cancel_all_orders_moves] by blast
  with assms(1) obtain t' path where t': "dget (orders (trk s')) k = Some t'"
    "t_request_id t' = t_request_id t" "order_sm.run (t_status t) path = Ok (t_status t')"
    unfolding moves_def by blast
  moreover have "order_is_terminal (t_status t) \<Longrightarrow> t_status t' = t_status t"
    using order_sm.run_stuck [OF _ t'(3)] by (simp add: order_terminal_iff)
  ultimately show ?thesis by blast
qed

theorem lifecycle_respected_witness:
  "\<exists>t'. dget (orders (trk (snd (cancel_order (Some 7) ''x0'' bought_state)))) (Some 7, ''x0'') = Some t'
    \<and> t_request_id t' = Some 1"
proof -
  obtain t where "dget (orders (trk bought_state)) (Some 7, ''x0'') = Some t" "t_request_id t = Some 1"
    using bought_state_facts(3) by (auto simp: tracks_def buy_one_def)
  with lifecycle_respected [OF this(1), where acct = "Some 7" and oid = "''x0''"] show ?thesis by auto
qed

text \<open>
  The cancellation of a live order. Whatever the adapter answers without raising, also
  \<^verbatim>\<open>False\<close>, the order is recorded and reported as cancelled, keeping its fill; an order whose
  cancellation did not complete (status cancelling) raises on every further attempt without asking
  the exchange; a filled, cancelled or rejected one answers from memory.
\<close>

theorem cancel_order_outcome:
  assumes "get_tracked acct oid (trk s) = Some t" and "dget (adapters s) acct = Some ad"
    and "ad_cancel_order ad (py_upper (r_symbol (t_result t)))
      (r_exchange_order_id (t_result t)) (exch s) = (Ok b, x)"
  shows "(t_status t \<in> {E_OPEN, E_PARTIALLY_FILLED} \<longrightarrow>
      fst (cancel_order acct oid s) = Ok (cancelled_result (clock s) (t_result t)) \<and>
      exch (snd (cancel_order acct oid s)) = x \<and>
      map_option t_status (get_tracked acct oid (trk (snd (cancel_order acct oid s)))) = Some E_CANCELLED)
    \<and> (t_status t \<in> {E_PENDING, E_SUBMITTING, E_CANCELLING, E_FAILED} \<longrightarrow>
      (\<exists>e. cancel_order acct oid s = (Raise e, s) \<and> exn_kind e = InvalidStateTransition))
    \<and> (order_is_terminal (t_status t) \<longrightarrow> cancel_order acct oid s = (Ok (t_result t), s))"
proof (intro conjI impI)
  assume "order_is_terminal (t_status t)"
  with assms(1) show "cancel_order acct oid s = (Ok (t_result t), s)" by (rule cancel_order_terminal)
next
  assume "t_status t \<in> {E_PENDING, E_SUBMITTING, E_CANCELLING, E_FAILED}"
  with assms show "\<exists>e. cancel_order acct oid s = (Raise e, s) \<and> exn_kind e = InvalidStateTransition"
    by (auto simp: cancel_order_def get_tracked_def get_adapter_def transition_def py_simps
      validate_order_transition_def)
next
  assume "t_status t \<in> {E_OPEN, E_PARTIALLY_FILLED}"
  then have "E_CANCELLING \<in> set (order_transitions (t_status t))" by auto
  note A = cancel_order_accepted [OF assms(1) this assms(2,3)]
  from A show "fst (cancel_order acct oid s) = Ok (cancelled_result (clock s) (t_result t))"
    "exch (snd (cancel_order acct oid s)) = x"
    "map_option t_status (get_tracked acct oid (trk (snd (cancel_order acct oid s)))) = Some E_CANCELLED"
    by simp_all
qed

lemma bought_adapter: "dget (adapters bought_state) (Some 7) = Some paper"
  using sameD [OF place_order_adapters, of buy_one "engine_on paper"]
  by (simp add: bought_state_def engine_on_def)

lemma bought_tracked:
  obtains t where "get_tracked (Some 7) ''x0'' (trk bought_state) = Some t" and "t_status t = E_OPEN"
    and "t_result t = bought"
  using bought_state_facts(3) by (auto simp: tracks_def buy_one_def get_tracked_def)

theorem cancel_order_outcome_witness:
  "fst (cancel_order (Some 7) ''x0'' bought_state) = Ok (cancelled_result (clock bought_state) bought)"
proof -
  obtain t where t: "get_tracked (Some 7) ''x0'' (trk bought_state) = Some t" "t_status t = E_OPEN"
    "t_result t = bought"
    by (rule bought_tracked)
  have "ad_cancel_order paper (py_upper (r_symbol (t_result t)))
      (r_exchange_order_id (t_result t)) (exch bought_state) = (Ok True, exch bought_state)"
    by (simp add: paper_def)
  from cancel_order_outcome [OF t(1) bought_adapter this] t show ?thesis by simp
qed

text \<open>
  C9. Synchronising an order with the exchange accepts the exchange's status exactly when the
  lifecycle has that step, and then stores status and result; otherwise it raises and stores
  nothing. In particular an open order that the exchange still reports as open cannot be
  synchronised.
\<close>

theorem sync_order_outcome:
  assumes "get_tracked acct oid (trk s) = Some t" and "dget (adapters s) acct = Some ad"
    and "exec_get_order (r_symbol (t_result t)) (r_exchange_order_id (t_result t)) ad s = (Ok res, s1)"
  shows "(let st = map_exchange_status (r_status res) in
    if st \<in> set (order_transitions (t_status t))
    then fst (sync_order acct oid s) = Ok res \<and>
      get_tracked acct oid (trk (snd (sync_order acct oid s))) =
        Some (t\<lparr>t_result := res, t_status := st, t_updated_at := clock s1\<rparr>)
    else sync_order acct oid s =
      (Raise (Exn InvalidStateTransition [exec_status_value (t_status t), exec_status_value st]), s1))"
proof -
  have u: "dget (orders (trk s)) (acct, oid) = Some t" using assms(1) by (simp add: get_tracked_def)
  have "sync_order acct oid s = sync_tracked acct oid t ad s"
    using assms(1,2) by (simp add: sync_order_def get_adapter_def py_simps)
  with sync_tracked_eq [OF u assms(3)] show ?thesis
    by (simp add: Let_def get_tracked_def)
qed

theorem sync_order_outcome_witness:
  "sync_order (Some 7) ''x0'' bought_state =
     (Raise (Exn InvalidStateTransition [''open'', ''open'']), bought_state)"
proof -
  obtain t where t: "get_tracked (Some 7) ''x0'' (trk bought_state) = Some t" "t_status t = E_OPEN"
    "t_result t = bought"
    by (rule bought_tracked)
  have b: "r_order_id bought = ''x0''" "r_exchange_order_id bought = ''x0''" "r_status bought = ''open''"
    by (simp_all add: bought_def paper_simps)
  have "exec_get_order (r_symbol (t_result t)) (r_exchange_order_id (t_result t)) paper bought_state =
      (Ok bought, bought_state)"
    using b bought_state_facts(1) t(3)
    by (simp add: exec_get_order_def wrap_exchange_error_def py_simps paper_def)
  from sync_order_outcome [OF t(1) bought_adapter this] t(2) b show ?thesis
    by (simp add: Let_def map_exchange_status_def py_lower_def char_lower_def)
qed

end
