(* ===== verification/ProfitLockModel.thy ===== *)
theory ProfitLockModel
  imports DomainTypes
begin

text \<open>
  \<^verbatim>\<open>engine/profit_lock/state.py\<close>, \<^verbatim>\<open>calculator.py\<close> and \<^verbatim>\<open>policy.py\<close>: the lock state and
  its transition table, the floating profit, and the policy that decides from a price whether to
  arm, trail or execute the lock. The measured decision times of the metrics are not modelled.
\<close>

section \<open>State\<close>

datatype plock_status =
  P_DISABLED | P_MONITORING | P_TRIGGERED | P_EXECUTING | P_LOCKED | P_CANCELLED | P_ERROR

fun plock_status_value :: "plock_status \<Rightarrow> string" where
  "plock_status_value P_DISABLED = ''disabled''"
| "plock_status_value P_MONITORING = ''monitoring''"
| "plock_status_value P_TRIGGERED = ''triggered''"
| "plock_status_value P_EXECUTING = ''executing''"
| "plock_status_value P_LOCKED = ''locked''"
| "plock_status_value P_CANCELLED = ''cancelled''"
| "plock_status_value P_ERROR = ''error''"

record plock_state =
  pl_instance_id :: string
  pl_status :: plock_status
  pl_enabled :: bool
  pl_trigger_percentage :: decimal
  pl_trail_percentage :: decimal
  pl_max_profit_percentage :: decimal
  pl_entry_price :: decimal
  pl_quantity :: decimal
  pl_side :: string
  pl_highest_price :: "decimal option"
  pl_lock_price :: "decimal option"
  pl_is_triggered :: bool
  pl_is_executed :: bool
  pl_lock_order_id :: "string option"
  pl_exchange_account_id :: "uuid option"
  pl_symbol :: string

record plock_metrics =
  pm_decisions_made :: int
  pm_errors_count :: int
  pm_retries_count :: int
  pm_events_processed :: int
  pm_locks_triggered :: int
  pm_locks_executed :: int

definition new_metrics :: plock_metrics where
  "new_metrics = \<lparr>pm_decisions_made = 0, pm_errors_count = 0, pm_retries_count = 0,
     pm_events_processed = 0, pm_locks_triggered = 0, pm_locks_executed = 0\<rparr>"

definition record_decision :: "plock_metrics \<Rightarrow> plock_metrics" where
  "record_decision m = m\<lparr>pm_decisions_made := pm_decisions_made m + 1\<rparr>"

definition record_event :: "plock_metrics \<Rightarrow> plock_metrics" where
  "record_event m = m\<lparr>pm_events_processed := pm_events_processed m + 1\<rparr>"

definition record_error :: "plock_metrics \<Rightarrow> plock_metrics" where
  "record_error m = m\<lparr>pm_errors_count := pm_errors_count m + 1\<rparr>"

definition record_lock_triggered :: "plock_metrics \<Rightarrow> plock_metrics" where
  "record_lock_triggered m = m\<lparr>pm_locks_triggered := pm_locks_triggered m + 1\<rparr>"

definition record_lock_executed :: "plock_metrics \<Rightarrow> plock_metrics" where
  "record_lock_executed m = m\<lparr>pm_locks_executed := pm_locks_executed m + 1\<rparr>"

section \<open>Transitions\<close>

fun plock_transitions :: "plock_status \<Rightarrow> plock_status list" where
  "plock_transitions P_DISABLED = [P_MONITORING, P_CANCELLED]"
| "plock_transitions P_MONITORING = [P_TRIGGERED, P_DISABLED, P_CANCELLED, P_ERROR]"
| "plock_transitions P_TRIGGERED = [P_TRIGGERED, P_EXECUTING, P_DISABLED, P_CANCELLED, P_ERROR]"
| "plock_transitions P_EXECUTING = [P_LOCKED, P_TRIGGERED, P_DISABLED, P_CANCELLED, P_ERROR]"
| "plock_transitions P_LOCKED = [P_MONITORING, P_DISABLED, P_CANCELLED]"
| "plock_transitions P_CANCELLED = [P_DISABLED, P_MONITORING]"
| "plock_transitions P_ERROR = [P_MONITORING, P_TRIGGERED, P_DISABLED]"

definition validate_plock_transition :: "plock_status \<Rightarrow> plock_status \<Rightarrow> unit res" where
  "validate_plock_transition from_status to_status =
     (if to_status \<notin> set (plock_transitions from_status)
      then Raise (Exn InvalidStateTransition [plock_status_value from_status, plock_status_value to_status])
      else Ok ())"

definition plock_is_terminal :: "plock_status \<Rightarrow> bool" where
  "plock_is_terminal st \<longleftrightarrow> st \<in> set [P_LOCKED, P_DISABLED]"

interpretation plock_sm: validated_machine plock_transitions validate_plock_transition
  by unfold_locales (simp add: validate_plock_transition_def)

text \<open>A lock is executed only after it has been triggered and an order is out.\<close>

lemma plock_executing_from: "P_EXECUTING \<in> set (plock_transitions st) \<longleftrightarrow> st = P_TRIGGERED"
  by (cases st) simp_all

lemma plock_locked_from: "P_LOCKED \<in> set (plock_transitions st) \<longleftrightarrow> st = P_EXECUTING"
  by (cases st) simp_all

section \<open>Floating profit\<close>

record profit_result =
  pr_floating_profit :: decimal
  pr_profit_percentage :: decimal
  pr_is_profitable :: bool
  pr_entry_price :: decimal
  pr_current_price :: decimal
  pr_quantity :: decimal

definition validate_profit :: "decimal \<Rightarrow> decimal \<Rightarrow> decimal \<Rightarrow> unit res" where
  "validate_profit entry_price current_price quantity =
     (if entry_price \<le> 0 then Raise (Exn ValidationError [])
      else if current_price \<le> 0 then Raise (Exn ValidationError [])
      else if quantity \<le> 0 then Raise (Exn ValidationError [])
      else Ok ())"

definition calculate_profit :: "decimal \<Rightarrow> decimal \<Rightarrow> decimal \<Rightarrow> string \<Rightarrow> profit_result res" where
  "calculate_profit entry_price current_price quantity side =
     (case validate_profit entry_price current_price quantity of
        Raise e \<Rightarrow> Raise e
      | Ok _ \<Rightarrow>
          if side \<notin> set [''long'', ''short''] then Raise (Exn ValidationError [])
          else
            let floating_profit =
                  (if side = ''long'' then dmul (dsub current_price entry_price) quantity
                   else dmul (dsub entry_price current_price) quantity);
                investment = dmul entry_price quantity;
                profit_percentage =
                  (if 0 < investment then dmul (ddiv floating_profit investment) 100 else 0)
            in Ok \<lparr>pr_floating_profit = floating_profit, pr_profit_percentage = profit_percentage,
                   pr_is_profitable = 0 < floating_profit, pr_entry_price = entry_price,
                   pr_current_price = current_price, pr_quantity = quantity\<rparr>)"

text \<open>
  The profit of a long position grows with the price, that of a short one falls: rounding does not
  change the order, and the sign of the reported profit is the sign of the price move.
\<close>

lemma calculate_profit_Ok:
  "calculate_profit entry cur qty side = Ok p \<longleftrightarrow>
     0 < entry \<and> 0 < cur \<and> 0 < qty \<and> (side = ''long'' \<or> side = ''short'') \<and>
     p = (let f = (if side = ''long'' then dmul (dsub cur entry) qty else dmul (dsub entry cur) qty)
          in \<lparr>pr_floating_profit = f, pr_profit_percentage = dmul (ddiv f (dmul entry qty)) 100,
              pr_is_profitable = 0 < f, pr_entry_price = entry, pr_current_price = cur,
              pr_quantity = qty\<rparr>)"
  by (auto simp: calculate_profit_def validate_profit_def Let_def not_le)

lemma long_profit_mono:
  assumes "calculate_profit entry p qty ''long'' = Ok a" and "calculate_profit entry q qty ''long'' = Ok b"
    and "p \<le> q"
  shows "pr_floating_profit a \<le> pr_floating_profit b \<and> pr_profit_percentage a \<le> pr_profit_percentage b"
proof -
  have qty: "0 < qty" and pos: "0 < dmul entry qty"
    using assms(1) by (simp_all add: calculate_profit_Ok)
  have "dmul (dsub p entry) qty \<le> dmul (dsub q entry) qty"
    using assms(3) qty by (intro dmul_mono dsub_mono) simp_all
  then have "dmul (ddiv (dmul (dsub p entry) qty) (dmul entry qty)) 100
      \<le> dmul (ddiv (dmul (dsub q entry) qty) (dmul entry qty)) 100"
    by (rule dmul_mono [OF ddiv_mono [OF _ pos]]) simp
  with assms \<open>dmul (dsub p entry) qty \<le> dmul (dsub q entry) qty\<close> show ?thesis
    by (simp add: calculate_profit_Ok Let_def)
qed

lemma profit_sign:
  assumes "calculate_profit entry cur qty side = Ok p"
  shows "(0 < pr_floating_profit p \<longleftrightarrow> (if side = ''long'' then entry < cur else cur < entry)) \<and>
    (0 < pr_profit_percentage p \<longleftrightarrow> 0 < pr_floating_profit p)"
proof -
  from assms have q: "0 < qty" and i: "0 < dmul entry qty" by (simp_all add: calculate_profit_Ok)
  from assms show ?thesis
    by (auto simp: calculate_profit_Ok Let_def dmul_pos_iff [OF q] ddiv_pos_iff [OF i]
        dmul_pos_iff [of 100] simp del: dmul_sign)
qed

section \<open>The policy\<close>

datatype policy_action = A_NONE | A_UPDATE_LOCK | A_TRIGGER_LOCK | A_EXECUTE_LOCK

record policy_decision =
  d_action :: policy_action
  d_new_lock_price :: "decimal option"

text \<open>\<^verbatim>\<open>x or default\<close> for an optional decimal: \<^verbatim>\<open>None\<close> and zero are both false.\<close>

definition price_or :: "decimal option \<Rightarrow> decimal \<Rightarrow> decimal" where
  "price_or x d = (case x of None \<Rightarrow> d | Some p \<Rightarrow> if p = 0 then d else p)"

definition compute_lock_price :: "decimal \<Rightarrow> decimal \<Rightarrow> decimal" where
  "compute_lock_price highest_price trail_percentage =
     dmul highest_price (dsub 1 (ddiv trail_percentage 100))"

definition new_highest :: "decimal \<Rightarrow> plock_state \<Rightarrow> decimal" where
  "new_highest current_price st =
     (case pl_highest_price st of None \<Rightarrow> current_price
      | Some h \<Rightarrow> if h < current_price then current_price else h)"

definition no_action :: policy_decision where
  "no_action = \<lparr>d_action = A_NONE, d_new_lock_price = None\<rparr>"

definition evaluate_policy :: "decimal \<Rightarrow> profit_result \<Rightarrow> plock_state \<Rightarrow> policy_decision" where
  "evaluate_policy current_price profit st =
     (if \<not> pl_enabled st then no_action
      else if pl_status st \<notin> set [P_MONITORING, P_TRIGGERED] then no_action
      else if 0 < pl_max_profit_percentage st \<and>
              pl_max_profit_percentage st \<le> pr_profit_percentage profit
      then \<lparr>d_action = A_EXECUTE_LOCK, d_new_lock_price = Some current_price\<rparr>
      else
        let high = new_highest current_price st;
            lock = dmul high (dsub 1 (ddiv (pl_trail_percentage st) 100))
        in if pl_status st = P_MONITORING then
             (if pl_trigger_percentage st \<le> pr_profit_percentage profit
              then \<lparr>d_action = A_TRIGGER_LOCK, d_new_lock_price = Some lock\<rparr>
              else no_action)
           else if price_or (pl_highest_price st) 0 < high \<and>
                (case pl_lock_price st of None \<Rightarrow> True | Some l \<Rightarrow> l < lock)
           then \<lparr>d_action = A_UPDATE_LOCK, d_new_lock_price = Some lock\<rparr>
           else (case pl_lock_price st of
                   None \<Rightarrow> no_action
                 | Some l \<Rightarrow> if current_price \<le> l
                     then \<lparr>d_action = A_EXECUTE_LOCK, d_new_lock_price = Some l\<rparr> else no_action))"

lemma compute_lock_price_eq:
  "compute_lock_price h (pl_trail_percentage st) = dmul h (dsub 1 (ddiv (pl_trail_percentage st) 100))"
  by (simp add: compute_lock_price_def)

text \<open>A lock that is out of the two live states, or disabled, is inert.\<close>

lemma evaluate_policy_inert:
  "\<not> pl_enabled st \<or> pl_status st \<notin> {P_MONITORING, P_TRIGGERED} \<Longrightarrow>
   d_action (evaluate_policy p pr st) = A_NONE"
  by (auto simp: evaluate_policy_def no_action_def)

text \<open>The trail factor lies strictly between 0 and 1 for the percentages \<^verbatim>\<open>enable\<close> accepts.\<close>

lemma trail_factor_bounds:
  assumes "0 < t" and "t < 100"
  shows "0 \<le> dsub 1 (ddiv t 100) \<and> dsub 1 (ddiv t 100) \<le> 1"
proof -
  have "0 \<le> ddiv t 100" and "ddiv t 100 \<le> 1"
    using assms by (auto simp: ddiv_def intro: dfix_le_rep)
  then show ?thesis by (simp add: dsub_le_left)
qed

lemma compute_lock_price_mono:
  "0 < t \<Longrightarrow> t < 100 \<Longrightarrow> h \<le> k \<Longrightarrow> compute_lock_price h t \<le> compute_lock_price k t"
  using trail_factor_bounds [of t] by (simp add: compute_lock_price_def dmul_mono)

lemma compute_lock_price_below:
  "0 < t \<Longrightarrow> t < 100 \<Longrightarrow> 0 \<le> h \<Longrightarrow> rep h \<Longrightarrow> compute_lock_price h t \<le> h"
  using trail_factor_bounds [of t] dmul_mono_left [of "dsub 1 (ddiv t 100)" 1 h]
  by (simp add: compute_lock_price_def)

end
