(* ===== verification/ProfitLockEngine.thy ===== *)
theory ProfitLockEngine
  imports ExecutionEngine ProfitLockModel
begin

text \<open>
  \<^verbatim>\<open>engine/profit_lock/engine.py\<close> and the store of \<^verbatim>\<open>engine/profit_lock/state.py\<close>: the
  profit lock of each instance, driven by prices and order events. The engine places its orders
  through the execution engine, whose state its own state extends.
\<close>

section \<open>Store\<close>

record 'x plock_engine = "'x exec_engine" +
  pl_states :: "(string, plock_state) dict"
  pl_metrics :: "(string, plock_metrics) dict"

type_synonym ('x, 'm, 'a) xp = "(('x, 'm) plock_engine_scheme, 'a) py"

definition pl_put :: "string \<Rightarrow> plock_state \<Rightarrow> ('x, 'm, unit) xp" where
  "pl_put i st = modify (\<lambda>s. s\<lparr>pl_states := dput i st (pl_states s),
     pl_metrics := (if dget (pl_metrics s) i = None then dput i new_metrics (pl_metrics s)
                    else pl_metrics s)\<rparr>)"

definition pl_get :: "string \<Rightarrow> ('x, 'm) plock_engine_scheme \<Rightarrow> plock_state option" where
  "pl_get i s = dget (pl_states s) i"

definition pl_remove :: "string \<Rightarrow> ('x, 'm, plock_state option) xp" where
  "pl_remove i = bind (gets (pl_get i)) (\<lambda>st.
     seq (modify (\<lambda>s. s\<lparr>pl_metrics := ddel i (pl_metrics s), pl_states := ddel i (pl_states s)\<rparr>))
       (ret st))"

definition plock_error :: "string \<Rightarrow> exn" where
  "plock_error i = Exn ProfitLockError [i]"

text \<open>An update of the stored state object in place.\<close>

definition pl_set :: "string \<Rightarrow> (plock_state \<Rightarrow> plock_state) \<Rightarrow> ('x, 'm, unit) xp" where
  "pl_set i f = modify (\<lambda>s. case pl_get i s of None \<Rightarrow> s
     | Some st \<Rightarrow> s\<lparr>pl_states := dput i (f st) (pl_states s)\<rparr>)"

definition pl_transition :: "string \<Rightarrow> plock_status \<Rightarrow> ('x, 'm, unit) xp" where
  "pl_transition i to_status = reading (\<lambda>s. case pl_get i s of
      None \<Rightarrow> throw (plock_error i)
    | Some st \<Rightarrow> seq (lift_res (validate_plock_transition (pl_status st) to_status))
        (pl_set i (\<lambda>st. st\<lparr>pl_status := to_status\<rparr>)))"

definition pl_update :: "string \<Rightarrow> (plock_state \<Rightarrow> plock_state) \<Rightarrow> ('x, 'm, unit) xp" where
  "pl_update i f = reading (\<lambda>s. case pl_get i s of None \<Rightarrow> throw (plock_error i) | Some _ \<Rightarrow> pl_set i f)"

text \<open>\<^verbatim>\<open>get_metrics(i).record_x()\<close>; the entry is created when there is none.\<close>

definition pl_metric :: "string \<Rightarrow> (plock_metrics \<Rightarrow> plock_metrics) \<Rightarrow> ('x, 'm, unit) xp" where
  "pl_metric i f = modify (\<lambda>s. s\<lparr>pl_metrics :=
     dput i (f (case dget (pl_metrics s) i of None \<Rightarrow> new_metrics | Some m \<Rightarrow> m)) (pl_metrics s)\<rparr>)"

definition pl_clear :: "('x, 'm, unit) xp" where
  "pl_clear = modify (\<lambda>s. s\<lparr>pl_states := [], pl_metrics := []\<rparr>)"

section \<open>Lifecycle\<close>

definition enabled_state :: "string \<Rightarrow> uuid option \<Rightarrow> string \<Rightarrow> decimal \<Rightarrow> decimal \<Rightarrow> string \<Rightarrow>
    decimal \<Rightarrow> decimal \<Rightarrow> decimal \<Rightarrow> plock_state" where
  "enabled_state i acct symbol entry_price quantity side trigger trail max_profit =
     \<lparr>pl_instance_id = i, pl_status = P_MONITORING, pl_enabled = True,
      pl_trigger_percentage = trigger, pl_trail_percentage = trail,
      pl_max_profit_percentage = max_profit, pl_entry_price = entry_price, pl_quantity = quantity,
      pl_side = side, pl_highest_price = Some entry_price, pl_lock_price = None,
      pl_is_triggered = False, pl_is_executed = False, pl_lock_order_id = None,
      pl_exchange_account_id = acct, pl_symbol = symbol\<rparr>"

definition pl_enable :: "string \<Rightarrow> uuid option \<Rightarrow> string \<Rightarrow> decimal \<Rightarrow> decimal \<Rightarrow> string \<Rightarrow>
    decimal \<Rightarrow> decimal \<Rightarrow> decimal \<Rightarrow> ('x, 'm, bool) xp" where
  "pl_enable i acct symbol entry_price quantity side trigger trail max_profit =
     (if trigger \<le> 0 then throw (Exn ValidationError [])
      else if trail \<le> 0 then throw (Exn ValidationError [])
      else if 100 \<le> trail then throw (Exn ValidationError [])
      else seq (pl_put i (enabled_state i acct symbol entry_price quantity side trigger trail max_profit))
             (ret True))"

definition pl_disable :: "string \<Rightarrow> ('x, 'm, bool) xp" where
  "pl_disable i = reading (\<lambda>s. case pl_get i s of
      None \<Rightarrow> throw (plock_error i)
    | Some st \<Rightarrow>
        seq (if pl_status st = P_EXECUTING \<and> truthy (pl_lock_order_id st) then
               try_catch (seq (cancel_order (pl_exchange_account_id st) (the (pl_lock_order_id st))) (ret ()))
                 (\<lambda>e. pl_metric i record_error)
             else ret ())
         (seq (pl_transition i P_DISABLED)
           (seq (pl_set i (\<lambda>st. st\<lparr>pl_enabled := False, pl_is_triggered := False,
                                   pl_lock_order_id := None\<rparr>))
             (ret True))))"

section \<open>Executing\<close>

definition lock_request :: "uuid \<Rightarrow> plock_state \<Rightarrow> decimal \<Rightarrow> order_request" where
  "lock_request u st lock_price =
     \<lparr>q_request_id = Some u, q_exchange_account_id = pl_exchange_account_id st,
      q_symbol = pl_symbol st, q_side = (if pl_side st = ''long'' then SELL else BUY),
      q_order_type = LIMIT, q_quantity = pl_quantity st, q_price = Some lock_price,
      q_stop_price = None, q_client_order_id = None\<rparr>"

definition place_lock_order :: "string \<Rightarrow> decimal \<Rightarrow> ('x, 'm, bool) xp" where
  "place_lock_order i lock_price = reading (\<lambda>s. case pl_get i s of
      None \<Rightarrow> throw (plock_error i)
    | Some st \<Rightarrow>
        seq (pl_transition i P_EXECUTING)
         (bind uuid4 (\<lambda>u.
            try_catch
              (bind (place_order (lock_request u st lock_price)) (\<lambda>res.
                 seq (pl_set i (\<lambda>st. st\<lparr>pl_lock_order_id := Some (r_order_id res)\<rparr>)) (ret True)))
              (\<lambda>e. seq (pl_transition i P_ERROR)
                    (seq (pl_metric i record_error) (throw (plock_error i)))))))"

definition execute_lock :: "string \<Rightarrow> decimal \<Rightarrow> ('x, 'm, bool) xp" where
  "execute_lock i lock_price = reading (\<lambda>s. case pl_get i s of
      None \<Rightarrow> throw (plock_error i)
    | Some _ \<Rightarrow> place_lock_order i lock_price)"

section \<open>Events\<close>

definition raise_highest :: "decimal \<Rightarrow> plock_state \<Rightarrow> decimal" where
  "raise_highest current_price st =
     max (price_or (pl_highest_price st) current_price) current_price"

definition handle_trigger :: "string \<Rightarrow> decimal \<Rightarrow> decimal option \<Rightarrow> ('x, 'm, unit) xp" where
  "handle_trigger i current_price lock_price = reading (\<lambda>s.
     case (pl_get i s, lock_price) of
       (Some st, Some l) \<Rightarrow>
         seq (if pl_status st = P_MONITORING then pl_transition i P_TRIGGERED else ret ())
          (seq (pl_set i (\<lambda>st. st\<lparr>pl_is_triggered := True,
                 pl_highest_price := Some (raise_highest current_price st), pl_lock_price := Some l\<rparr>))
            (pl_metric i record_lock_triggered))
     | _ \<Rightarrow> ret ())"

definition handle_update :: "string \<Rightarrow> decimal \<Rightarrow> decimal option \<Rightarrow> ('x, 'm, unit) xp" where
  "handle_update i current_price new_lock_price = reading (\<lambda>s.
     case (pl_get i s, new_lock_price) of
       (Some st, Some l) \<Rightarrow>
         pl_set i (\<lambda>st. st\<lparr>pl_highest_price := Some (raise_highest current_price st),
                           pl_lock_price := Some l\<rparr>)
     | _ \<Rightarrow> ret ())"

definition handle_execute :: "string \<Rightarrow> decimal option \<Rightarrow> ('x, 'm, unit) xp" where
  "handle_execute i lock_price =
     (case lock_price of None \<Rightarrow> ret () | Some l \<Rightarrow> seq (place_lock_order i l) (ret ()))"

definition pl_on_price_update :: "string \<Rightarrow> decimal \<Rightarrow> ('x, 'm, unit) xp" where
  "pl_on_price_update i current_price = reading (\<lambda>s. case pl_get i s of
      None \<Rightarrow> ret ()
    | Some st \<Rightarrow>
        if \<not> pl_enabled st then ret ()
        else if pl_status st \<notin> set [P_MONITORING, P_TRIGGERED] then ret ()
        else
          seq (pl_metric i record_event)
           (bind (lift_res (calculate_profit (pl_entry_price st) current_price (pl_quantity st) (pl_side st)))
             (\<lambda>profit.
                let decision = evaluate_policy current_price profit st
                in seq (pl_metric i record_decision)
                    (case d_action decision of
                       A_NONE \<Rightarrow> ret ()
                     | A_TRIGGER_LOCK \<Rightarrow> handle_trigger i current_price (d_new_lock_price decision)
                     | A_UPDATE_LOCK \<Rightarrow> handle_update i current_price (d_new_lock_price decision)
                     | A_EXECUTE_LOCK \<Rightarrow> handle_execute i (d_new_lock_price decision)))))"

definition pl_on_position_update :: "string \<Rightarrow> decimal \<Rightarrow> decimal \<Rightarrow> ('x, 'm, unit) xp" where
  "pl_on_position_update i entry_price quantity = reading (\<lambda>s. case pl_get i s of
      None \<Rightarrow> ret ()
    | Some _ \<Rightarrow> pl_update i (\<lambda>st. st\<lparr>pl_entry_price := entry_price, pl_quantity := quantity\<rparr>))"

definition pl_on_order_filled :: "string \<Rightarrow> string \<Rightarrow> ('x, 'm, unit) xp" where
  "pl_on_order_filled i order_id = reading (\<lambda>s. case pl_get i s of
      None \<Rightarrow> ret ()
    | Some st \<Rightarrow>
        if pl_lock_order_id st \<noteq> Some order_id then ret ()
        else if pl_status st \<noteq> P_EXECUTING then ret ()
        else seq (pl_transition i P_LOCKED)
              (seq (pl_set i (\<lambda>st. st\<lparr>pl_is_executed := True, pl_lock_order_id := None\<rparr>))
                (pl_metric i record_lock_executed)))"

definition pl_on_order_cancelled :: "string \<Rightarrow> string \<Rightarrow> ('x, 'm, unit) xp" where
  "pl_on_order_cancelled i order_id = reading (\<lambda>s. case pl_get i s of
      None \<Rightarrow> ret ()
    | Some st \<Rightarrow>
        if pl_lock_order_id st \<noteq> Some order_id then ret ()
        else if pl_status st \<noteq> P_EXECUTING then ret ()
        else seq (pl_transition i P_TRIGGERED)
              (pl_set i (\<lambda>st. st\<lparr>pl_lock_order_id := None\<rparr>)))"

definition pl_get_state :: "string \<Rightarrow> ('x, 'm, plock_state) xp" where
  "pl_get_state i = reading (\<lambda>s. case pl_get i s of None \<Rightarrow> throw (plock_error i) | Some st \<Rightarrow> ret st)"

section \<open>The store as a keyed store\<close>

lemma client_more_plock:
  fixes s t :: "('x, 'm) plock_engine_scheme"
  assumes "exec_engine.more t = exec_engine.more s"
  shows "pl_states t = pl_states s" "pl_metrics t = pl_metrics s"
    "plock_engine.more t = plock_engine.more s"
  using assms by (cases s; cases t; simp)+

lemma exec_frames_plock:
  assumes "obeys (same exec_engine.more) (m :: ('x, 'm, 'a) xp)"
  shows "obeys (same pl_states) m" "obeys (same pl_metrics) m" "obeys (same plock_engine.more) m"
  unfolding obeys_def same_def using client_more_plock [OF sameD [OF assms]] by simp_all

lemma pl_get_place_order: "pl_get i (snd (place_order q s)) = pl_get i s"
  by (simp add: pl_get_def sameD [OF exec_frames_plock(1) [OF place_order_frame]])

lemma pl_get_cancel_order: "pl_get i (snd (cancel_order a oid s)) = pl_get i s"
  by (simp add: pl_get_def sameD [OF exec_frames_plock(1) [OF cancel_order_frame]])

lemma pl_set_eq: "pl_get i s = Some st \<Longrightarrow> pl_set i f s = (Ok (), s\<lparr>pl_states := dput i (f st) (pl_states s)\<rparr>)"
  by (simp add: pl_set_def py_simps)

lemma pl_get_put [simp]:
  "pl_get j (s\<lparr>pl_states := dput i st (pl_states s')\<rparr>) = (if j = i then Some st else pl_get j s')"
  by (simp add: pl_get_def)

lemma pl_transition_eq:
  "pl_get i s = Some st \<Longrightarrow> pl_transition i to s =
     (if to \<in> set (plock_transitions (pl_status st))
      then (Ok (), s\<lparr>pl_states := dput i (st\<lparr>pl_status := to\<rparr>) (pl_states s)\<rparr>)
      else (Raise (Exn InvalidStateTransition
              [plock_status_value (pl_status st), plock_status_value to]), s))"
  by (simp add: pl_transition_def py_simps validate_plock_transition_def pl_set_def)

section \<open>Placing the lock order\<close>

text \<open>
  The three outcomes of \<^verbatim>\<open>_place_lock_order\<close> for a stored lock: refused by the state machine,
  order out, or in error.
\<close>

lemma place_lock_order_refused:
  assumes "pl_get i s = Some st" and "pl_status st \<noteq> P_TRIGGERED"
  shows "place_lock_order i l s =
    (Raise (Exn InvalidStateTransition [plock_status_value (pl_status st), ''executing'']), s)"
  using assms by (simp add: place_lock_order_def reading_def seq_def bind_def pl_transition_eq
      plock_executing_from)

abbreviation executing_state :: "string \<Rightarrow> plock_state \<Rightarrow> ('x, 'm) plock_engine_scheme \<Rightarrow>
    ('x, 'm) plock_engine_scheme" where
  "executing_state i st s \<equiv> s\<lparr>pl_states := dput i (st\<lparr>pl_status := P_EXECUTING\<rparr>) (pl_states s),
     uuid_next := Suc (uuid_next s)\<rparr>"

lemma place_lock_order_triggered:
  assumes "pl_get i s = Some st" and "pl_status st = P_TRIGGERED"
  shows "case place_order (lock_request (uuid_next s) st l) (executing_state i st s) of
      (Ok res, s1) \<Rightarrow>
        place_lock_order i l s = (Ok True, s1\<lparr>pl_states := dput i
          (st\<lparr>pl_status := P_EXECUTING, pl_lock_order_id := Some (r_order_id res)\<rparr>) (pl_states s1)\<rparr>)
    | (Raise e, s1) \<Rightarrow> \<exists>s2. place_lock_order i l s = (Raise (plock_error i), s2) \<and>
        pl_states s2 = dput i (st\<lparr>pl_status := P_ERROR\<rparr>) (pl_states s1) \<and> exch s2 = exch s1"
proof -
  let ?s0 = "executing_state i st s"
  obtain r s1 where po: "place_order (lock_request (uuid_next s) st l) ?s0 = (r, s1)" by force
  have g: "pl_get i s1 = Some (st\<lparr>pl_status := P_EXECUTING\<rparr>)"
    using pl_get_place_order [of i "lock_request (uuid_next s) st l" ?s0] po by (simp add: pl_get_def)
  have t: "pl_transition i P_EXECUTING s =
      (Ok (), s\<lparr>pl_states := dput i (st\<lparr>pl_status := P_EXECUTING\<rparr>) (pl_states s)\<rparr>)"
    using assms by (simp add: pl_transition_eq)
  show ?thesis
  proof (cases r)
    case (Ok res)
    with po g t assms show ?thesis
      by (simp add: place_lock_order_def py_simps pl_set_eq)
  next
    case (Raise e)
    with po g t assms show ?thesis
      by (simp add: place_lock_order_def py_simps pl_transition_eq pl_metric_def)
  qed
qed

text \<open>Only the lock of the instance itself is touched.\<close>

lemma place_lock_order_result:
  assumes "pl_get i s = Some st" and "pl_status st = P_TRIGGERED"
  shows "\<exists>st'. pl_get i (snd (place_lock_order i l s)) = Some st' \<and>
    ((\<exists>oid. st' = st\<lparr>pl_status := P_EXECUTING, pl_lock_order_id := Some oid\<rparr>) \<or>
     st' = st\<lparr>pl_status := P_ERROR\<rparr>) \<and>
    (\<forall>j. j \<noteq> i \<longrightarrow> pl_get j (snd (place_lock_order i l s)) = pl_get j s)"
proof -
  let ?q = "lock_request (uuid_next s) st l"
  obtain r s1 where po: "place_order ?q (executing_state i st s) = (r, s1)" by force
  have other: "pl_get j s1 = pl_get j s" if "j \<noteq> i" for j
    using pl_get_place_order [of j ?q "executing_state i st s"] po that by (simp add: pl_get_def)
  show ?thesis
    using place_lock_order_triggered [OF assms, of l] po other
    by (cases r) (auto simp: pl_get_def)
qed

section \<open>One price\<close>

text \<open>The lock state after a decision that places no order.\<close>

definition trailed :: "decimal \<Rightarrow> policy_decision \<Rightarrow> plock_state \<Rightarrow> plock_state" where
  "trailed p d st = (case d_action d of
      A_TRIGGER_LOCK \<Rightarrow> st\<lparr>pl_status := P_TRIGGERED, pl_is_triggered := True,
        pl_highest_price := Some (raise_highest p st), pl_lock_price := d_new_lock_price d\<rparr>
    | A_UPDATE_LOCK \<Rightarrow> st\<lparr>pl_highest_price := Some (raise_highest p st),
        pl_lock_price := d_new_lock_price d\<rparr>
    | _ \<Rightarrow> st)"

lemma evaluate_policy_shape:
  "d_action (evaluate_policy p pr st) = A_TRIGGER_LOCK \<Longrightarrow> pl_status st = P_MONITORING"
  "d_action (evaluate_policy p pr st) = A_UPDATE_LOCK \<Longrightarrow> pl_status st = P_TRIGGERED"
  "d_action (evaluate_policy p pr st) \<noteq> A_NONE \<Longrightarrow> \<exists>l. d_new_lock_price (evaluate_policy p pr st) = Some l"
  by (auto simp: evaluate_policy_def no_action_def Let_def split: if_splits option.splits)

definition live :: "plock_state \<Rightarrow> bool" where
  "live st \<longleftrightarrow> pl_enabled st \<and> (pl_status st = P_MONITORING \<or> pl_status st = P_TRIGGERED)"

lemma evaluate_policy_lock:
  "d_action (evaluate_policy p pr st) \<in> {A_TRIGGER_LOCK, A_UPDATE_LOCK} \<Longrightarrow>
   d_new_lock_price (evaluate_policy p pr st) =
     Some (compute_lock_price (new_highest p st) (pl_trail_percentage st))"
  by (auto simp: evaluate_policy_def no_action_def Let_def compute_lock_price_def
      split: if_splits option.splits)

text \<open>The state in which the policy acts: as before, but for the metrics.\<close>

definition ticked :: "string \<Rightarrow> ('x, 'm) plock_engine_scheme \<Rightarrow> ('x, 'm) plock_engine_scheme" where
  "ticked i s = snd (pl_metric i record_decision (snd (pl_metric i record_event s)))"

lemma ticked_simps [simp]:
  "pl_states (ticked i s) = pl_states s" "exch (ticked i s) = exch s" "trk (ticked i s) = trk s"
  "adapters (ticked i s) = adapters s" "uuid_next (ticked i s) = uuid_next s"
  "pl_get j (ticked i s) = pl_get j s"
  by (simp_all add: ticked_def pl_metric_def py_simps pl_get_def)

lemma pl_on_price_update_inert:
  "pl_get i s = None \<or> (\<exists>st. pl_get i s = Some st \<and> \<not> live st) \<Longrightarrow> pl_on_price_update i p s = (Ok (), s)"
  by (auto simp: pl_on_price_update_def py_simps live_def)

lemma pl_on_price_update_invalid:
  assumes "pl_get i s = Some st" and "live st"
    and "calculate_profit (pl_entry_price st) p (pl_quantity st) (pl_side st) = Raise e"
  shows "fst (pl_on_price_update i p s) = Raise e \<and> pl_states (snd (pl_on_price_update i p s)) = pl_states s
    \<and> exch (snd (pl_on_price_update i p s)) = exch s"
  using assms by (auto simp: pl_on_price_update_def py_simps live_def pl_metric_def)

lemma pl_on_price_update_live:
  assumes "pl_get i s = Some st" and "live st"
    and "calculate_profit (pl_entry_price st) p (pl_quantity st) (pl_side st) = Ok pr"
  shows "pl_on_price_update i p s = (let d = evaluate_policy p pr st in
     case d_action d of
       A_NONE \<Rightarrow> ret ()
     | A_TRIGGER_LOCK \<Rightarrow> handle_trigger i p (d_new_lock_price d)
     | A_UPDATE_LOCK \<Rightarrow> handle_update i p (d_new_lock_price d)
     | A_EXECUTE_LOCK \<Rightarrow> handle_execute i (d_new_lock_price d)) (ticked i s)"
  using assms
  by (auto simp: pl_on_price_update_def py_simps live_def ticked_def pl_metric_def Let_def)

lemma pl_on_price_update_trails:
  assumes g: "pl_get i s = Some st" and l: "live st"
    and c: "calculate_profit (pl_entry_price st) p (pl_quantity st) (pl_side st) = Ok pr"
    and d: "d_action (evaluate_policy p pr st) \<noteq> A_EXECUTE_LOCK"
  shows "\<exists>s'. pl_on_price_update i p s = (Ok (), s') \<and> exch s' = exch s \<and> trk s' = trk s \<and>
    pl_get i s' = Some (trailed p (evaluate_policy p pr st) st) \<and>
    (\<forall>j. j \<noteq> i \<longrightarrow> pl_get j s' = pl_get j s)"
proof -
  let ?d = "evaluate_policy p pr st"
  note eq = pl_on_price_update_live [OF g l c]
  consider "d_action ?d = A_NONE"
    | k where "d_action ?d = A_TRIGGER_LOCK" "pl_status st = P_MONITORING" "d_new_lock_price ?d = Some k"
    | k where "d_action ?d = A_UPDATE_LOCK" "d_new_lock_price ?d = Some k"
    using d evaluate_policy_shape [of p pr st] by (cases "d_action ?d") auto
  then show ?thesis
  proof cases
    case 1
    with eq g show ?thesis by (simp add: py_simps trailed_def)
  next
    case (2 k)
    with eq g show ?thesis
      by (simp add: py_simps trailed_def handle_trigger_def pl_transition_eq pl_set_def pl_metric_def)
        (simp add: pl_get_def raise_highest_def)
  next
    case (3 k)
    with eq g show ?thesis
      by (simp add: py_simps trailed_def handle_update_def pl_set_eq)
  qed
qed

lemma pl_on_price_update_executes:
  assumes g: "pl_get i s = Some st" and l: "live st"
    and c: "calculate_profit (pl_entry_price st) p (pl_quantity st) (pl_side st) = Ok pr"
    and d: "d_action (evaluate_policy p pr st) = A_EXECUTE_LOCK"
    and k: "d_new_lock_price (evaluate_policy p pr st) = Some k"
  shows "pl_on_price_update i p s = seq (place_lock_order i k) (ret ()) (ticked i s)"
  using pl_on_price_update_live [OF g l c] d k by (simp add: handle_execute_def)

section \<open>The invariant of a lock\<close>

definition plock_ok :: "plock_state \<Rightarrow> bool" where
  "plock_ok st \<longleftrightarrow>
     0 < pl_trigger_percentage st \<and> 0 < pl_trail_percentage st \<and> pl_trail_percentage st < 100 \<and>
     (pl_enabled st \<longleftrightarrow> pl_status st \<noteq> P_DISABLED) \<and>
     (\<exists>h. pl_highest_price st = Some h \<and>
        (pl_status st \<in> {P_TRIGGERED, P_EXECUTING} \<longrightarrow>
           pl_lock_price st = Some (compute_lock_price h (pl_trail_percentage st)))) \<and>
     (pl_lock_order_id st \<noteq> None \<longrightarrow> pl_status st = P_EXECUTING)"

definition locks_ok :: "('x, 'm) plock_engine_scheme \<Rightarrow> bool" where
  "locks_ok s \<longleftrightarrow> (\<forall>i st. pl_get i s = Some st \<longrightarrow> plock_ok st)"

lemma raise_highest_eq:
  "0 < p \<Longrightarrow> pl_highest_price st = Some h \<Longrightarrow> raise_highest p st = max h p \<and> new_highest p st = max h p"
  by (auto simp: raise_highest_def new_highest_def price_or_def)

lemma plock_ok_trailed:
  assumes "plock_ok st" and "live st"
    and "calculate_profit (pl_entry_price st) p (pl_quantity st) (pl_side st) = Ok pr"
  shows "plock_ok (trailed p (evaluate_policy p pr st) st)"
proof -
  have p: "0 < p" using assms(3) by (simp add: calculate_profit_Ok)
  obtain h where h: "pl_highest_price st = Some h" using assms(1) by (auto simp: plock_ok_def)
  note rh = raise_highest_eq [OF p h]
  note lock = evaluate_policy_lock [of p pr st] and shape = evaluate_policy_shape [of p pr st]
  show ?thesis
  proof (cases "d_action (evaluate_policy p pr st)")
    case A_TRIGGER_LOCK
    with lock shape assms(1) rh show ?thesis by (simp add: trailed_def plock_ok_def)
  next
    case A_UPDATE_LOCK
    with lock shape assms(1) rh show ?thesis by (simp add: trailed_def plock_ok_def)
  qed (use assms(1) in \<open>simp_all add: trailed_def\<close>)
qed

lemma locks_ok_step:
  assumes "locks_ok s" and "\<And>st. pl_get i s' = Some st \<Longrightarrow> plock_ok st"
    and "\<And>j. j \<noteq> i \<Longrightarrow> pl_get j s' = pl_get j s"
  shows "locks_ok s'"
  using assms unfolding locks_ok_def by metis

lemma plock_ok_status:
  "plock_ok st \<Longrightarrow> pl_status st = P_TRIGGERED \<Longrightarrow> plock_ok (st\<lparr>pl_status := P_ERROR\<rparr>)"
  "plock_ok st \<Longrightarrow> pl_status st = P_TRIGGERED \<Longrightarrow>
     plock_ok (st\<lparr>pl_status := P_EXECUTING, pl_lock_order_id := x\<rparr>)"
  by (auto simp: plock_ok_def)

lemma locks_ok_place_lock_order: "locks_ok s \<Longrightarrow> locks_ok (snd (place_lock_order i l s))"
proof -
  assume ok: "locks_ok s"
  show ?thesis
  proof (cases "pl_get i s")
    case None
    with ok show ?thesis by (simp add: place_lock_order_def py_simps)
  next
    case (Some st)
    show ?thesis
    proof (cases "pl_status st = P_TRIGGERED")
      case True
      have "plock_ok st" using ok Some by (simp add: locks_ok_def)
      with place_lock_order_result [OF Some True, of l] plock_ok_status [OF _ True]
      show ?thesis by (intro locks_ok_step [OF ok, of i]) auto
    next
      case False
      with place_lock_order_refused [OF Some False] ok show ?thesis by simp
    qed
  qed
qed

lemma locks_ok_price: "locks_ok s \<Longrightarrow> locks_ok (snd (pl_on_price_update i p s))"
proof -
  assume ok: "locks_ok s"
  consider (inert) "pl_get i s = None \<or> (\<exists>st. pl_get i s = Some st \<and> \<not> live st)"
    | (live) st where "pl_get i s = Some st" "live st" by (cases "pl_get i s") auto
  then show ?thesis
  proof cases
    case inert
    then show ?thesis using ok by (simp add: pl_on_price_update_inert)
  next
    case (live st)
    have st: "plock_ok st" using ok live(1) by (simp add: locks_ok_def)
    show ?thesis
    proof (cases "calculate_profit (pl_entry_price st) p (pl_quantity st) (pl_side st)")
      case (Raise e)
      with pl_on_price_update_invalid [OF live Raise] ok show ?thesis
        by (simp add: locks_ok_def pl_get_def)
    next
      case c: (Ok pr)
      show ?thesis
      proof (cases "d_action (evaluate_policy p pr st) = A_EXECUTE_LOCK")
        case True
        then obtain k where k: "d_new_lock_price (evaluate_policy p pr st) = Some k"
          using evaluate_policy_shape(3) [of p pr st] by auto
        have "locks_ok (ticked i s)" using ok by (simp add: locks_ok_def)
        then have "locks_ok (snd (place_lock_order i k (ticked i s)))"
          by (rule locks_ok_place_lock_order)
        then show ?thesis
          using pl_on_price_update_executes [OF live c True k]
          by (auto simp: seq_def bind_def ret_def split: prod.splits res.splits)
      next
        case False
        from pl_on_price_update_trails [OF live c False] plock_ok_trailed [OF st live(2) c]
        show ?thesis by (auto intro: locks_ok_step [OF ok, of i])
      qed
    qed
  qed
qed

section \<open>The other handlers\<close>

definition disabled_state :: "plock_state \<Rightarrow> plock_state" where
  "disabled_state st = st\<lparr>pl_status := P_DISABLED, pl_enabled := False, pl_is_triggered := False,
     pl_lock_order_id := None\<rparr>"

definition filled_state :: "plock_state \<Rightarrow> plock_state" where
  "filled_state st = st\<lparr>pl_status := P_LOCKED, pl_is_executed := True, pl_lock_order_id := None\<rparr>"

definition reopened_state :: "plock_state \<Rightarrow> plock_state" where
  "reopened_state st = st\<lparr>pl_status := P_TRIGGERED, pl_lock_order_id := None\<rparr>"

lemma plock_disable_cancel:
  "\<exists>s1. (if b then try_catch (seq (cancel_order acct oid) (ret ())) (\<lambda>e. pl_metric i record_error)
     else ret ()) s = (Ok (), s1) \<and> pl_states s1 = pl_states s"
proof -
  obtain r s1 where c: "cancel_order acct oid s = (r, s1)" by force
  then have "pl_states s1 = pl_states s"
    using sameD [OF exec_frames_plock(1) [OF cancel_order_frame], of acct oid s] by simp
  with c show ?thesis by (cases r) (auto simp: py_simps pl_metric_def)
qed

lemma pl_disable_result:
  assumes "pl_get i s = Some st"
  shows "if pl_status st = P_DISABLED then \<forall>j. pl_get j (snd (pl_disable i s)) = pl_get j s
    else fst (pl_disable i s) = Ok True \<and>
      (\<forall>j. pl_get j (snd (pl_disable i s)) = (if j = i then Some (disabled_state st) else pl_get j s))"
proof -
  obtain s1 where s1: "(if pl_status st = P_EXECUTING \<and> truthy (pl_lock_order_id st) then
        try_catch (seq (cancel_order (pl_exchange_account_id st) (the (pl_lock_order_id st))) (ret ()))
          (\<lambda>e. pl_metric i record_error) else ret ()) s = (Ok (), s1)"
    and same: "pl_states s1 = pl_states s"
    using plock_disable_cancel by blast
  have g: "pl_get j s1 = pl_get j s" for j using same by (simp add: pl_get_def)
  have eq: "pl_disable i s = seq (pl_transition i P_DISABLED)
       (seq (pl_set i (\<lambda>st. st\<lparr>pl_enabled := False, pl_is_triggered := False, pl_lock_order_id := None\<rparr>))
         (ret True)) s1"
    using assms s1 by (simp add: pl_disable_def reading_def seq_def bind_def)
  show ?thesis
  proof (cases "pl_status st = P_DISABLED")
    case True
    with eq g assms show ?thesis by (simp add: py_simps pl_transition_eq)
  next
    case False
    then have "P_DISABLED \<in> set (plock_transitions (pl_status st))" by (cases "pl_status st") simp_all
    with False eq g assms show ?thesis
      by (simp add: py_simps pl_transition_eq pl_set_eq disabled_state_def)
  qed
qed

lemma pl_on_order_filled_result:
  "pl_get j (snd (pl_on_order_filled i oid s)) =
     (case pl_get i s of None \<Rightarrow> pl_get j s
      | Some st \<Rightarrow> if j = i \<and> pl_lock_order_id st = Some oid \<and> pl_status st = P_EXECUTING
          then Some (filled_state st) else pl_get j s)"
  by (auto simp: pl_on_order_filled_def py_simps pl_transition_eq pl_set_eq pl_metric_def
      filled_state_def split: option.splits) (auto simp: pl_get_def)

lemma pl_on_order_cancelled_result:
  "pl_get j (snd (pl_on_order_cancelled i oid s)) =
     (case pl_get i s of None \<Rightarrow> pl_get j s
      | Some st \<Rightarrow> if j = i \<and> pl_lock_order_id st = Some oid \<and> pl_status st = P_EXECUTING
          then Some (reopened_state st) else pl_get j s)"
  by (auto simp: pl_on_order_cancelled_def py_simps pl_transition_eq pl_set_eq
      reopened_state_def split: option.splits)

lemma pl_on_position_update_result:
  "pl_get j (snd (pl_on_position_update i e q s)) =
     (case pl_get i s of None \<Rightarrow> pl_get j s
      | Some st \<Rightarrow> if j = i then Some (st\<lparr>pl_entry_price := e, pl_quantity := q\<rparr>) else pl_get j s)"
  by (auto simp: pl_on_position_update_def py_simps pl_update_def pl_set_eq split: option.splits)

lemma pl_enable_result:
  "pl_enable i acct symbol e q side trig trail cap s =
     (if 0 < trig \<and> 0 < trail \<and> trail < 100
      then (Ok True, snd (pl_put i (enabled_state i acct symbol e q side trig trail cap) s))
      else (Raise (Exn ValidationError []), s))"
  by (auto simp: pl_enable_def py_simps pl_put_def not_le)

lemma pl_get_pl_put [simp]: "pl_get j (snd (pl_put i st s)) = (if j = i then Some st else pl_get j s)"
  by (simp add: pl_put_def pl_get_def modify_def)

section \<open>Histories of the profit locks\<close>

inductive pl_step :: "('x, 'm) plock_engine_scheme \<Rightarrow> ('x, 'm) plock_engine_scheme \<Rightarrow> bool" where
  enabled: "pl_step s (snd (pl_enable i acct symbol e q side trig trail cap s))"
| disabled: "pl_step s (snd (pl_disable i s))"
| priced: "pl_step s (snd (pl_on_price_update i p s))"
| positioned: "pl_step s (snd (pl_on_position_update i e q s))"
| filled: "pl_step s (snd (pl_on_order_filled i oid s))"
| order_cancelled: "pl_step s (snd (pl_on_order_cancelled i oid s))"
| executed: "pl_step s (snd (execute_lock i l s))"
| cleared: "pl_step s (snd (pl_clear s))"
| elsewhere: "pl_states t = pl_states s \<Longrightarrow> pl_step s t"

inductive_cases pl_stepE: "pl_step s t"

inductive pl_reachable :: "('x, 'm) plock_engine_scheme \<Rightarrow> bool" where
  fresh: "pl_states s = [] \<Longrightarrow> pl_reachable s"
| stepped: "pl_reachable s \<Longrightarrow> pl_step s t \<Longrightarrow> pl_reachable t"

lemma plock_ok_results:
  "plock_ok st \<Longrightarrow> plock_ok (disabled_state st)"
  "plock_ok st \<Longrightarrow> pl_status st = P_EXECUTING \<Longrightarrow> plock_ok (filled_state st)"
  "plock_ok st \<Longrightarrow> pl_status st = P_EXECUTING \<Longrightarrow> plock_ok (reopened_state st)"
  "plock_ok st \<Longrightarrow> plock_ok (st\<lparr>pl_entry_price := e, pl_quantity := q\<rparr>)"
  "0 < trig \<Longrightarrow> 0 < trail \<Longrightarrow> trail < 100 \<Longrightarrow>
     plock_ok (enabled_state i acct symbol e q side trig trail cap)"
  by (auto simp: plock_ok_def disabled_state_def filled_state_def reopened_state_def enabled_state_def)

lemma locks_okD: "locks_ok s \<Longrightarrow> pl_get i s = Some st \<Longrightarrow> plock_ok st"
  by (simp add: locks_ok_def)

lemma pl_step_ok: "pl_step s t \<Longrightarrow> locks_ok s \<Longrightarrow> locks_ok t"
proof (induction rule: pl_step.induct)
  case (enabled s i acct symbol e q side trig trail cap)
  then show ?case
    by (auto simp: pl_enable_result locks_ok_def plock_ok_results split: if_splits)
next
  case (disabled s i)
  show ?case
  proof (cases "pl_get i s")
    case None
    with disabled show ?thesis by (simp add: pl_disable_def py_simps)
  next
    case (Some st)
    show ?thesis
      using pl_disable_result [OF Some] disabled Some
      by (auto simp: locks_ok_def plock_ok_results split: if_splits)
  qed
next
  case (priced s i p)
  then show ?case by (simp add: locks_ok_price)
next
  case (positioned s i e q)
  then show ?case
    by (auto simp: locks_ok_def pl_on_position_update_result plock_ok_results
        split: option.splits if_splits)
next
  case (filled s i oid)
  then show ?case
    by (auto simp: locks_ok_def pl_on_order_filled_result plock_ok_results
        split: option.splits if_splits)
next
  case (order_cancelled s i oid)
  then show ?case
    by (auto simp: locks_ok_def pl_on_order_cancelled_result plock_ok_results
        split: option.splits if_splits)
next
  case (executed s i l)
  then show ?case
    using locks_ok_place_lock_order [of s i l]
    by (auto simp: execute_lock_def py_simps split: option.splits)
next
  case (cleared s)
  then show ?case by (simp add: pl_clear_def py_simps locks_ok_def pl_get_def)
next
  case (elsewhere t s)
  then show ?case by (simp add: locks_ok_def pl_get_def)
qed

lemma pl_reachable_ok: "pl_reachable s \<Longrightarrow> locks_ok s"
proof (induction rule: pl_reachable.induct)
  case (fresh s)
  then show ?case by (simp add: locks_ok_def pl_get_def)
next
  case (stepped s t)
  then show ?case using pl_step_ok by blast
qed

section \<open>The trailing stop\<close>

text \<open>
  The abstract trailing stop: the running maximum of the prices, and the stop a fixed percentage
  below it, which fires at the first price at or under the stop.
\<close>

fun stop_price :: "decimal \<Rightarrow> decimal \<Rightarrow> decimal list \<Rightarrow> decimal option" where
  "stop_price trail peak [] = None"
| "stop_price trail peak (p # ps) =
     (if p \<le> compute_lock_price peak trail then Some (compute_lock_price peak trail)
      else stop_price trail (max peak p) ps)"

text \<open>
  An armed lock stands for the abstract stop with maximum \<open>peak\<close>. The code records a new highest
  price only when that raises the stop, so the recorded one may be lower with the same stop.
\<close>

definition armed_at :: "decimal \<Rightarrow> plock_state \<Rightarrow> bool" where
  "armed_at peak st \<longleftrightarrow> plock_ok st \<and> live st \<and> pl_status st = P_TRIGGERED \<and>
     pl_max_profit_percentage st \<le> 0 \<and> 0 < pl_entry_price st \<and> 0 < pl_quantity st \<and>
     pl_side st \<in> {''long'', ''short''} \<and>
     (\<exists>h. pl_highest_price st = Some h \<and> 0 \<le> h \<and> rep h \<and> h \<le> peak \<and>
        compute_lock_price h (pl_trail_percentage st) = compute_lock_price peak (pl_trail_percentage st))"

lemma armed_profit:
  assumes "armed_at peak st" and "0 < p"
  obtains pr where "calculate_profit (pl_entry_price st) p (pl_quantity st) (pl_side st) = Ok pr"
  using assms by (auto simp: armed_at_def calculate_profit_Ok)

lemma armed_lock:
  "armed_at peak st \<Longrightarrow> pl_lock_price st = Some (compute_lock_price peak (pl_trail_percentage st))"
  by (auto simp: armed_at_def plock_ok_def)

lemma max_lock:
  "0 < t \<Longrightarrow> t < 100 \<Longrightarrow> compute_lock_price (max a b) t = max (compute_lock_price a t) (compute_lock_price b t)"
  using compute_lock_price_mono [of t a b] compute_lock_price_mono [of t b a]
  by (auto simp: max_def)

text \<open>One price above the stop: the exchange is not asked, and the lock stands for the new maximum.\<close>

lemma armed_continues:
  assumes a: "armed_at peak st" and g: "pl_get i s = Some st" and p: "0 < p" "rep p"
    and above: "compute_lock_price peak (pl_trail_percentage st) < p"
  shows "\<exists>s' st'. pl_on_price_update i p s = (Ok (), s') \<and> pl_get i s' = Some st' \<and>
    armed_at (max peak p) st' \<and> exch s' = exch s \<and>
    pl_trail_percentage st' = pl_trail_percentage st"
proof -
  let ?t = "pl_trail_percentage st" and ?f = "\<lambda>x. compute_lock_price x (pl_trail_percentage st)"
  obtain pr where c: "calculate_profit (pl_entry_price st) p (pl_quantity st) (pl_side st) = Ok pr"
    using armed_profit [OF a p(1)] .
  obtain h where h: "pl_highest_price st = Some h" "0 \<le> h" "rep h" "h \<le> peak" "?f h = ?f peak"
    using a by (auto simp: armed_at_def)
  have t: "0 < ?t" "?t < 100" and l: "live st" and st: "pl_status st = P_TRIGGERED" "pl_enabled st"
    and cap: "pl_max_profit_percentage st \<le> 0"
    using a by (auto simp: armed_at_def plock_ok_def live_def)
  have lock: "pl_lock_price st = Some (?f peak)" using a by (rule armed_lock)
  have peak0: "0 < max peak p" "h \<le> max peak p" using p h by (auto simp: max_def)
  have d: "evaluate_policy p pr st = (if h < p \<and> ?f peak < ?f p
      then \<lparr>d_action = A_UPDATE_LOCK, d_new_lock_price = Some (?f p)\<rparr> else no_action)"
    using st cap lock above h(1,2)
    by (auto simp: evaluate_policy_def Let_def new_highest_def price_or_def compute_lock_price_def)
  then have "d_action (evaluate_policy p pr st) \<noteq> A_EXECUTE_LOCK" by (simp add: no_action_def)
  from pl_on_price_update_trails [OF g l c this] obtain s' where
    s': "pl_on_price_update i p s = (Ok (), s')" "exch s' = exch s"
    "pl_get i s' = Some (trailed p (evaluate_policy p pr st) st)" by blast
  have ok: "plock_ok (trailed p (evaluate_policy p pr st) st)"
    using a by (intro plock_ok_trailed [OF _ l c]) (simp add: armed_at_def)
  have "armed_at (max peak p) (trailed p (evaluate_policy p pr st) st)"
  proof (cases "h < p \<and> ?f peak < ?f p")
    case True
    then have "peak < p" using compute_lock_price_mono [OF t, of p peak] by (cases "p \<le> peak") auto
    with True ok d a p h(1) raise_highest_eq(1) [OF p(1) h(1)] show ?thesis
      by (auto simp: armed_at_def trailed_def live_def max_def)
  next
    case False
    then have "?f (max peak p) = ?f peak"
      using compute_lock_price_mono [OF t, of p h] h(4,5) unfolding max_lock [OF t] by auto
    with False ok d a h peak0 show ?thesis
      by (auto simp: armed_at_def trailed_def no_action_def live_def)
  qed
  moreover have "pl_trail_percentage (trailed p (evaluate_policy p pr st) st) = ?t"
    using d by (simp add: trailed_def no_action_def)
  ultimately show ?thesis using s' by blast
qed

text \<open>A price at or under the stop: the lock order is placed at the stop.\<close>

lemma armed_fires:
  assumes a: "armed_at peak st" and g: "pl_get i s = Some st" and p: "0 < p"
    and below: "p \<le> compute_lock_price peak (pl_trail_percentage st)"
  shows "pl_on_price_update i p s =
    seq (place_lock_order i (compute_lock_price peak (pl_trail_percentage st))) (ret ()) (ticked i s)"
proof -
  let ?t = "pl_trail_percentage st" and ?f = "\<lambda>x. compute_lock_price x (pl_trail_percentage st)"
  obtain pr where c: "calculate_profit (pl_entry_price st) p (pl_quantity st) (pl_side st) = Ok pr"
    using armed_profit [OF a p(1)] .
  obtain h where h: "pl_highest_price st = Some h" "0 \<le> h" "rep h" "?f h = ?f peak"
    using a by (auto simp: armed_at_def)
  have t: "0 < ?t" "?t < 100" and l: "live st" and st: "pl_status st = P_TRIGGERED" "pl_enabled st"
    and cap: "pl_max_profit_percentage st \<le> 0"
    using a by (auto simp: armed_at_def plock_ok_def live_def)
  have lock: "pl_lock_price st = Some (?f peak)" using a by (rule armed_lock)
  have "p \<le> h" using compute_lock_price_below [OF t h(2,3)] below h(4) by simp
  then have "evaluate_policy p pr st = \<lparr>d_action = A_EXECUTE_LOCK, d_new_lock_price = Some (?f peak)\<rparr>"
    using st cap lock below h(1)
    by (auto simp: evaluate_policy_def Let_def new_highest_def price_or_def)
  then show ?thesis by (intro pl_on_price_update_executes [OF g l c]) simp_all
qed

lemma armed_run:
  assumes "armed_at peak st" and "pl_get i s = Some st" and "\<forall>p \<in> set ps. 0 < p \<and> rep p"
    and "stop_price (pl_trail_percentage st) peak ps = None"
  shows "\<exists>s' st'. for_each (pl_on_price_update i) ps s = (Ok (), s') \<and> pl_get i s' = Some st' \<and>
    armed_at (foldl max peak ps) st' \<and> exch s' = exch s \<and>
    pl_trail_percentage st' = pl_trail_percentage st"
  using assms
proof (induction ps arbitrary: peak st s)
  case Nil
  then show ?case by (auto simp: ret_def)
next
  case (Cons p ps)
  from Cons.prems(4) have above: "compute_lock_price peak (pl_trail_percentage st) < p"
    and rest: "stop_price (pl_trail_percentage st) (max peak p) ps = None"
    by (simp_all split: if_splits)
  obtain s1 st1 where 1: "pl_on_price_update i p s = (Ok (), s1)" "pl_get i s1 = Some st1"
    "armed_at (max peak p) st1" "exch s1 = exch s" "pl_trail_percentage st1 = pl_trail_percentage st"
    using armed_continues [OF Cons.prems(1,2) _ _ above] Cons.prems(3) by auto
  from Cons.IH [OF 1(3,2)] Cons.prems(3) rest 1(5) obtain s2 st2 where
    "for_each (pl_on_price_update i) ps s1 = (Ok (), s2)" "pl_get i s2 = Some st2"
    "armed_at (foldl max (max peak p) ps) st2" "exch s2 = exch s1"
    "pl_trail_percentage st2 = pl_trail_percentage st" by auto
  with 1 show ?case by (simp add: seq_def bind_def)
qed

lemma stop_price_app:
  "stop_price t peak ps = None \<Longrightarrow> stop_price t peak (ps @ qs) = stop_price t (foldl max peak ps) qs"
  by (induction ps arbitrary: peak) (auto split: if_splits)

section \<open>A lock on the paper exchange\<close>

definition engine_with :: "book adapter \<Rightarrow> plock_state \<Rightarrow> book plock_engine" where
  "engine_with ad st = exec_engine.extend (engine_on ad) (plock_engine.fields [(''g'', st)] [])"

definition paper_lock :: "plock_status \<Rightarrow> decimal option \<Rightarrow> decimal \<Rightarrow> plock_state" where
  "paper_lock status lock cap = \<lparr>pl_instance_id = ''g'', pl_status = status, pl_enabled = True,
     pl_trigger_percentage = 1, pl_trail_percentage = 2, pl_max_profit_percentage = cap,
     pl_entry_price = 100, pl_quantity = 1, pl_side = ''long'', pl_highest_price = Some 200,
     pl_lock_price = lock, pl_is_triggered = True, pl_is_executed = False, pl_lock_order_id = None,
     pl_exchange_account_id = Some 7, pl_symbol = ''BTC''\<rparr>"

lemma paper_lock_price: "compute_lock_price 200 2 = 196"
  by (simp add: compute_lock_price_def dec_eval)

lemma pl_get_engine_with [simp]: "pl_get ''g'' (engine_with ad st) = Some st"
  by (simp add: pl_get_def engine_with_def exec_engine.defs plock_engine.defs)

lemma paper_armed: "armed_at 200 (paper_lock P_TRIGGERED (Some 196) 0)"
  using paper_lock_price by (simp add: armed_at_def paper_lock_def plock_ok_def live_def rep_numeral)

section \<open>Properties\<close>

text \<open>
  C6. In every reachable state of the profit-lock engine each lock is consistent: it is enabled
  exactly when it is not disabled, its trail percentage is between 0 and 100, a triggered or
  executing lock has the lock price that its recorded highest price determines, and a lock order
  is recorded only while the lock is executing. Every handler preserves this, also when it raises.
\<close>

theorem reachable_locks_consistent:
  assumes "pl_reachable s" and "pl_get i s = Some st"
  shows "(pl_enabled st \<longleftrightarrow> pl_status st \<noteq> P_DISABLED) \<and>
    0 < pl_trail_percentage st \<and> pl_trail_percentage st < 100 \<and>
    (pl_status st \<in> {P_TRIGGERED, P_EXECUTING} \<longrightarrow>
      (\<exists>h. pl_highest_price st = Some h \<and>
           pl_lock_price st = Some (compute_lock_price h (pl_trail_percentage st)))) \<and>
    (pl_lock_order_id st \<noteq> None \<longrightarrow> pl_status st = P_EXECUTING)"
  using locks_okD [OF pl_reachable_ok [OF assms(1)] assms(2)] by (auto simp: plock_ok_def)

definition fresh_locks :: "book plock_engine" where
  "fresh_locks = exec_engine.extend (engine_on paper) (plock_engine.fields [] [])"

theorem reachable_locks_consistent_witness:
  "pl_enabled (enabled_state ''g'' (Some 7) ''BTC'' 100 1 ''long'' 1 2 0)"
proof -
  let ?s = "snd (pl_enable ''g'' (Some 7) ''BTC'' 100 1 ''long'' 1 2 0 fresh_locks)"
  have "pl_reachable fresh_locks"
    by (rule pl_reachable.fresh) (simp add: fresh_locks_def exec_engine.defs plock_engine.defs)
  then have "pl_reachable ?s" by (rule pl_reachable.stepped) (rule pl_step.enabled)
  moreover have "pl_get ''g'' ?s = Some (enabled_state ''g'' (Some 7) ''BTC'' 100 1 ''long'' 1 2 0)"
    by (simp add: pl_enable_result)
  ultimately show ?thesis
    using reachable_locks_consistent [of ?s] by (simp add: enabled_state_def)
qed

text \<open>
  C5. The armed lock implements a trailing stop. For any sequence of valid prices on which the
  abstract stop (running maximum, less the trail percentage) does not fire, the engine places no
  order, raises nothing, and ends with the stop of the maximum; and at the first price at or under
  that stop it places the lock order at exactly the stop price.
\<close>

theorem trailing_stop_refined:
  assumes "armed_at peak st" and "pl_get i s = Some st" and "\<forall>p \<in> set ps. 0 < p \<and> rep p"
    and "stop_price (pl_trail_percentage st) peak ps = None"
  shows "\<exists>s' st'. for_each (pl_on_price_update i) ps s = (Ok (), s') \<and> exch s' = exch s \<and>
    pl_get i s' = Some st' \<and> pl_status st' = P_TRIGGERED \<and>
    pl_lock_price st' = Some (compute_lock_price (foldl max peak ps) (pl_trail_percentage st)) \<and>
    (\<forall>p l. 0 < p \<and> stop_price (pl_trail_percentage st) peak (ps @ [p]) = Some l \<longrightarrow>
       pl_on_price_update i p s' = seq (place_lock_order i l) (ret ()) (ticked i s'))"
proof -
  obtain s' st' where run: "for_each (pl_on_price_update i) ps s = (Ok (), s')"
    "pl_get i s' = Some st'" "armed_at (foldl max peak ps) st'" "exch s' = exch s"
    "pl_trail_percentage st' = pl_trail_percentage st"
    using armed_run [OF assms] by blast
  have "pl_on_price_update i p s' = seq (place_lock_order i l) (ret ()) (ticked i s')"
    if "0 < p" and "stop_price (pl_trail_percentage st) peak (ps @ [p]) = Some l" for p l
    using that armed_fires [OF run(3,2) that(1)] run(5)
    by (simp add: stop_price_app [OF assms(4)] split: if_splits)
  moreover have "pl_status st' = P_TRIGGERED" using run(3) by (simp add: armed_at_def)
  ultimately show ?thesis using run armed_lock [OF run(3)] by auto
qed

theorem trailing_stop_refined_witness:
  "\<exists>s'. for_each (pl_on_price_update ''g'') [198, 199]
      (engine_with paper (paper_lock P_TRIGGERED (Some 196) 0)) = (Ok (), s') \<and>
    pl_on_price_update ''g'' 195 s' = seq (place_lock_order ''g'' 196) (ret ()) (ticked ''g'' s')"
proof -
  let ?st = "paper_lock P_TRIGGERED (Some 196) 0"
  have t: "pl_trail_percentage ?st = 2" by (simp add: paper_lock_def)
  have none: "stop_price (pl_trail_percentage ?st) 200 [198, 199] = None"
    and fires: "stop_price (pl_trail_percentage ?st) 200 ([198, 199] @ [195]) = Some 196"
    by (simp_all add: t paper_lock_price max_def)
  have valid: "\<forall>p \<in> set [198, 199]. 0 < p \<and> rep (p :: rat)" by (simp add: rep_numeral)
  from trailing_stop_refined [OF paper_armed pl_get_engine_with valid none, of paper]
  obtain s' where s': "for_each (pl_on_price_update ''g'') [198, 199] (engine_with paper ?st) = (Ok (), s')"
    and fire: "\<forall>p l. 0 < p \<and> stop_price (pl_trail_percentage ?st) 200 ([198, 199] @ [p]) = Some l \<longrightarrow>
      pl_on_price_update ''g'' p s' = seq (place_lock_order ''g'' l) (ret ()) (ticked ''g'' s')"
    by blast
  have "pl_on_price_update ''g'' 195 s' = seq (place_lock_order ''g'' 196) (ret ()) (ticked ''g'' s')"
    by (rule fire [rule_format]) (use fires in simp)
  with s' show ?thesis by blast
qed

text \<open>
  C7. Executing a triggered lock places one limit order for the whole position at the lock price,
  selling a long position and buying back a short one. When the placement returns, the lock is
  executing with the returned order; when it raises, the lock is in error and every later price is
  ignored, so the position has no stop any more.
\<close>

theorem lock_execution_outcome:
  assumes "pl_get i s = Some st" and "pl_status st = P_TRIGGERED"
    and "place_lock_order i l s = (r, s')"
    and "place_order (lock_request (uuid_next s) st l) (executing_state i st s) = (answer, s1)"
  shows "exch s' = exch s1 \<and>
    (case answer of
       Ok res \<Rightarrow> r = Ok True \<and> pl_get i s' =
         Some (st\<lparr>pl_status := P_EXECUTING, pl_lock_order_id := Some (r_order_id res)\<rparr>)
     | Raise e \<Rightarrow> r = Raise (plock_error i) \<and> pl_get i s' = Some (st\<lparr>pl_status := P_ERROR\<rparr>) \<and>
         (\<forall>p. pl_on_price_update i p s' = (Ok (), s')))"
proof (cases answer)
  case (Ok res)
  with place_lock_order_triggered [OF assms(1,2), of l] assms(3,4) show ?thesis by simp
next
  case (Raise e)
  with place_lock_order_triggered [OF assms(1,2), of l] assms(3,4)
  have "r = Raise (plock_error i)" "exch s' = exch s1" and
    get: "pl_get i s' = Some (st\<lparr>pl_status := P_ERROR\<rparr>)"
    by (auto simp: pl_get_def)
  then show ?thesis using Raise by (simp add: pl_on_price_update_inert live_def)
qed

theorem lock_execution_outcome_witness:
  "exch (snd (place_lock_order ''g'' 196 (engine_with paper_down (paper_lock P_TRIGGERED (Some 196) 0)))) =
   exch (snd (place_order
     (lock_request (uuid_next (engine_with paper_down (paper_lock P_TRIGGERED (Some 196) 0)))
       (paper_lock P_TRIGGERED (Some 196) 0) 196)
     (executing_state ''g'' (paper_lock P_TRIGGERED (Some 196) 0)
       (engine_with paper_down (paper_lock P_TRIGGERED (Some 196) 0)))))"
proof -
  have "pl_status (paper_lock P_TRIGGERED (Some 196) 0) = P_TRIGGERED" by (simp add: paper_lock_def)
  from lock_execution_outcome [OF pl_get_engine_with this surjective_pairing surjective_pairing]
  show ?thesis by (rule conjunct1)
qed

text \<open>
  A profit cap that is reached while the lock only monitors never sells: the policy asks for an
  execution, the state machine refuses the step from monitoring to executing, the handler raises and
  the lock, the tracker and the exchange stay as they were. This repeats at every such price.
\<close>

theorem profit_cap_refused_while_monitoring:
  assumes "pl_get i s = Some st" and "pl_enabled st" and "pl_status st = P_MONITORING"
    and "calculate_profit (pl_entry_price st) p (pl_quantity st) (pl_side st) = Ok pr"
    and "0 < pl_max_profit_percentage st"
    and "pl_max_profit_percentage st \<le> pr_profit_percentage pr"
  shows "fst (pl_on_price_update i p s) =
      Raise (Exn InvalidStateTransition [''monitoring'', ''executing'']) \<and>
    pl_get i (snd (pl_on_price_update i p s)) = Some st \<and>
    exch (snd (pl_on_price_update i p s)) = exch s \<and> trk (snd (pl_on_price_update i p s)) = trk s"
proof -
  have "evaluate_policy p pr st = \<lparr>d_action = A_EXECUTE_LOCK, d_new_lock_price = Some p\<rparr>"
    using assms by (simp add: evaluate_policy_def)
  then have "pl_on_price_update i p s = seq (place_lock_order i p) (ret ()) (ticked i s)"
    using assms by (intro pl_on_price_update_executes [OF assms(1) _ assms(4)]) (simp_all add: live_def)
  also have "\<dots> = (Raise (Exn InvalidStateTransition [''monitoring'', ''executing'']), ticked i s)"
    using place_lock_order_refused [of i "ticked i s" st p] assms(1,3)
    by (simp add: seq_def bind_def)
  finally show ?thesis using assms(1) by simp
qed

theorem profit_cap_refused_while_monitoring_witness:
  "fst (pl_on_price_update ''g'' 200 (engine_with paper (paper_lock P_MONITORING None 50))) =
     Raise (Exn InvalidStateTransition [''monitoring'', ''executing''])"
proof -
  let ?st = "paper_lock P_MONITORING None 50"
  have c: "calculate_profit (pl_entry_price ?st) 200 (pl_quantity ?st) (pl_side ?st) =
      Ok \<lparr>pr_floating_profit = 100, pr_profit_percentage = 100, pr_is_profitable = True,
          pr_entry_price = 100, pr_current_price = 200, pr_quantity = 1\<rparr>"
    by (simp add: calculate_profit_Ok paper_lock_def) (simp add: dec_eval)
  show ?thesis
    using profit_cap_refused_while_monitoring [OF pl_get_engine_with _ _ c, of paper]
    by (simp add: paper_lock_def)
qed

end
