(* ===== verification/GridEngine.thy ===== *)
theory GridEngine
  imports GridModel CircuitBreaker ProfitLockEngine
begin

text \<open>
  \<^verbatim>\<open>engine/grid/engine.py\<close> and the store of \<^verbatim>\<open>engine/grid/state.py\<close>: the grid trading cycle.
  The engine's state extends the one of the profit locks by the grids, the trailing and
  technical-analysis configurations, the candle caches and the circuit breakers.
  A level object of the code is the entry of the grid's level list: handlers that hold a level found
  by its number update the first level with that number, loops over the levels go by position.
\<close>

section \<open>State\<close>

record trailing =
  tr_trigger_percentage :: decimal
  tr_trail_percentage :: decimal
  tr_max_profit_percentage :: decimal

record ('x, 'f) grid_engine = "'x plock_engine" +
  grids :: "(string, grid_state) dict"
  trailing_config :: "(string, trailing) dict"
  ta_configs :: "(string, 'f ta_config list) dict"
  ta_candles :: "(string, 'f candle list) dict"
  breakers :: "(string, 'f breaker) dict"
  ta_candles_15m :: "(string, 'f candle list) dict"
  has_profit_lock :: bool

type_synonym ('x, 'f, 'm, 'a) xg = "(('x, 'f, 'm) grid_engine_scheme, 'a) py"

definition grid_error :: "string \<Rightarrow> exn" where
  "grid_error i = Exn GridError [i]"

section \<open>Store\<close>

definition grid_put :: "string \<Rightarrow> grid_state \<Rightarrow> ('x, 'f, 'm, unit) xg" where
  "grid_put i g = modify (\<lambda>s. s\<lparr>grids := dput i g (grids s)\<rparr>)"

definition grid_get :: "string \<Rightarrow> ('x, 'f, 'm) grid_engine_scheme \<Rightarrow> grid_state option" where
  "grid_get i s = dget (grids s) i"

definition grid_remove :: "string \<Rightarrow> ('x, 'f, 'm, grid_state option) xg" where
  "grid_remove i = bind (gets (grid_get i)) (\<lambda>g.
     seq (modify (\<lambda>s. s\<lparr>grids := ddel i (grids s)\<rparr>)) (ret g))"

text \<open>An assignment to a field of the stored grid object.\<close>

definition grid_set :: "string \<Rightarrow> (grid_state \<Rightarrow> grid_state) \<Rightarrow> ('x, 'f, 'm, unit) xg" where
  "grid_set i f = modify (\<lambda>s. case grid_get i s of None \<Rightarrow> s
     | Some g \<Rightarrow> s\<lparr>grids := dput i (f g) (grids s)\<rparr>)"

definition with_grid :: "string \<Rightarrow> (grid_state \<Rightarrow> ('x, 'f, 'm, 'a) xg) \<Rightarrow> ('x, 'f, 'm, 'a) xg" where
  "with_grid i f = reading (\<lambda>s. case grid_get i s of None \<Rightarrow> throw (grid_error i) | Some g \<Rightarrow> f g)"

definition transition_grid :: "string \<Rightarrow> string \<Rightarrow> ('x, 'f, 'm, unit) xg" where
  "transition_grid i to_status = with_grid i (\<lambda>g.
     seq (lift_res (validate_grid_transition (g_status g) to_status))
       (grid_set i (\<lambda>g. g\<lparr>g_status := to_status\<rparr>)))"

definition on_level :: "int \<Rightarrow> (grid_level \<Rightarrow> grid_level) \<Rightarrow> grid_state \<Rightarrow> grid_state" where
  "on_level n f g = g\<lparr>g_levels := set_level n f (g_levels g)\<rparr>"

definition transition_level :: "string \<Rightarrow> int \<Rightarrow> level_status \<Rightarrow> ('x, 'f, 'm, unit) xg" where
  "transition_level i n to_status = with_grid i (\<lambda>g.
     case find_level n (g_levels g) of
       None \<Rightarrow> throw (grid_error i)
     | Some lv \<Rightarrow> seq (lift_res (validate_level_transition (lv_status lv) to_status))
         (grid_set i (on_level n (\<lambda>lv. lv\<lparr>lv_status := to_status\<rparr>))))"

definition get_level :: "string \<Rightarrow> int \<Rightarrow> ('x, 'f, 'm) grid_engine_scheme \<Rightarrow> grid_level option" where
  "get_level i n s = (case grid_get i s of None \<Rightarrow> None | Some g \<Rightarrow> find_level n (g_levels g))"

definition update_level :: "string \<Rightarrow> int \<Rightarrow> (grid_level \<Rightarrow> grid_level) \<Rightarrow> ('x, 'f, 'm, unit) xg" where
  "update_level i n f = reading (\<lambda>s. case get_level i n s of
      None \<Rightarrow> throw (grid_error i) | Some lv \<Rightarrow> grid_set i (on_level n f))"

definition list_levels :: "string \<Rightarrow> ('x, 'f, 'm) grid_engine_scheme \<Rightarrow> grid_level list" where
  "list_levels i s = (case grid_get i s of None \<Rightarrow> [] | Some g \<Rightarrow> g_levels g)"

definition grid_clear :: "('x, 'f, 'm, unit) xg" where
  "grid_clear = modify (\<lambda>s. s\<lparr>grids := []\<rparr>)"

section \<open>Configuration\<close>

definition configure_trailing_profit ::
  "string \<Rightarrow> decimal \<Rightarrow> decimal \<Rightarrow> decimal \<Rightarrow> ('x, 'f, 'm, unit) xg" where
  "configure_trailing_profit i trig trail cap = modify (\<lambda>s. s\<lparr>trailing_config :=
     dput i \<lparr>tr_trigger_percentage = trig, tr_trail_percentage = trail,
             tr_max_profit_percentage = cap\<rparr> (trailing_config s)\<rparr>)"

definition configure_ta :: "string \<Rightarrow> 'f ta_config list \<Rightarrow> ('x, 'f, 'm, unit) xg" where
  "configure_ta i configs = modify (\<lambda>s. s\<lparr>ta_configs :=
     (if configs = [] then ddel i (ta_configs s) else dput i configs (ta_configs s))\<rparr>)"

definition update_ta_candles :: "string \<Rightarrow> 'f candle list \<Rightarrow> ('x, 'f, 'm, unit) xg" where
  "update_ta_candles i cs = modify (\<lambda>s. s\<lparr>ta_candles := dput i cs (ta_candles s)\<rparr>)"

definition configure_circuit_breaker :: "'f fl_ops \<Rightarrow> string \<Rightarrow> decimal \<Rightarrow> decimal \<Rightarrow> resume_mode \<Rightarrow>
    decimal option \<Rightarrow> decimal option \<Rightarrow> decimal option \<Rightarrow> 'f ta_config list \<Rightarrow> ('x, 'f, 'm, unit) xg" where
  "configure_circuit_breaker fl i threshold continuation mode recovery widen day_open configs =
     modify (\<lambda>s. s\<lparr>breakers := dput i
       (new_breaker fl i threshold continuation mode (default default_recovery_pct recovery)
          (default default_widen_multiplier widen) day_open configs) (breakers s)\<rparr>)"

definition update_ta_candles_15m :: "string \<Rightarrow> 'f candle list \<Rightarrow> ('x, 'f, 'm, unit) xg" where
  "update_ta_candles_15m i cs = modify (\<lambda>s. s\<lparr>ta_candles_15m := dput i cs (ta_candles_15m s)\<rparr>)"

definition get_circuit_breaker :: "string \<Rightarrow> ('x, 'f, 'm, 'f breaker option) xg" where
  "get_circuit_breaker i = gets (\<lambda>s. dget (breakers s) i)"

section \<open>Orders\<close>

definition limit_request ::
  "uuid \<Rightarrow> grid_state \<Rightarrow> order_side \<Rightarrow> decimal \<Rightarrow> decimal option \<Rightarrow> order_request" where
  "limit_request u g side quantity price =
     \<lparr>q_request_id = Some u, q_exchange_account_id = g_exchange_account_id g, q_symbol = g_symbol g,
      q_side = side, q_order_type = LIMIT, q_quantity = quantity, q_price = price,
      q_stop_price = None, q_client_order_id = None\<rparr>"

text \<open>The order id field of a level for a side, set and cleared.\<close>

definition record_order :: "order_side \<Rightarrow> string \<Rightarrow> grid_level \<Rightarrow> grid_level" where
  "record_order side oid lv =
     (if side = BUY then lv\<lparr>lv_buy_order_id := Some oid\<rparr> else lv\<lparr>lv_sell_order_id := Some oid\<rparr>)"

lemma record_order_simps [simp]:
  "lv_level (record_order side oid lv) = lv_level lv"
  "lv_status (record_order side oid lv) = lv_status lv"
  "lv_buy_price (record_order side oid lv) = lv_buy_price lv"
  "lv_sell_price (record_order side oid lv) = lv_sell_price lv"
  "lv_quantity (record_order side oid lv) = lv_quantity lv"
  by (simp_all add: record_order_def)

definition clear_order :: "order_side \<Rightarrow> grid_level \<Rightarrow> grid_level" where
  "clear_order side lv =
     (if side = BUY then lv\<lparr>lv_buy_order_id := None\<rparr> else lv\<lparr>lv_sell_order_id := None\<rparr>)"

lemma clear_order_simps [simp]:
  "lv_level (clear_order side lv) = lv_level lv"
  "lv_status (clear_order side lv) = lv_status lv"
  "lv_buy_price (clear_order side lv) = lv_buy_price lv"
  "lv_sell_price (clear_order side lv) = lv_sell_price lv"
  "lv_quantity (clear_order side lv) = lv_quantity lv"
  by (simp_all add: clear_order_def)

text \<open>\<^verbatim>\<open>_place_order\<close>\<close>

definition grid_place :: "string \<Rightarrow> grid_action \<Rightarrow> ('x, 'f, 'm, string) xg" where
  "grid_place i a = with_grid i (\<lambda>g.
     bind uuid4 (\<lambda>u.
     bind (place_order (limit_request u g (ga_side a) (ga_quantity a) (Some (ga_price a)))) (\<lambda>res.
     seq (update_level i (ga_level a) (record_order (ga_side a) (r_order_id res)))
       (seq (transition_level i (ga_level a) L_OPEN) (ret (r_order_id res))))))"

text \<open>\<^verbatim>\<open>_cancel_order\<close>\<close>

definition grid_cancel :: "string \<Rightarrow> grid_action \<Rightarrow> ('x, 'f, 'm, unit) xg" where
  "grid_cancel i a = with_grid i (\<lambda>g.
     case ga_order_id a of
       None \<Rightarrow> ret ()
     | Some oid \<Rightarrow>
         seq (cancel_order (g_exchange_account_id g) oid)
         (seq (update_level i (ga_level a) (clear_order (ga_side a)))
           (transition_level i (ga_level a) L_CANCELLED)))"

definition grid_place_each :: "string \<Rightarrow> grid_action list \<Rightarrow> ('x, 'f, 'm, unit) xg" where
  "grid_place_each i = for_each (\<lambda>a. seq (grid_place i a) (ret ()))"

section \<open>Lifecycle\<close>

definition initialize_grid :: "string \<Rightarrow> uuid option \<Rightarrow> string \<Rightarrow> decimal \<Rightarrow> decimal \<Rightarrow> int \<Rightarrow> decimal \<Rightarrow>
    averaging_step list option \<Rightarrow> ('x, 'f, 'm, grid_state) xg" where
  "initialize_grid i acct symbol upper_price lower_price grid_count investment steps =
     (let averaging = (steps \<noteq> None \<and> steps \<noteq> Some []);
          data = (if averaging
                  then calculate_grid_state_data_with_averaging upper_price investment (the steps)
                  else calculate_grid_state_data upper_price lower_price grid_count investment)
      in bind (lift_res data) (\<lambda>d.
         seq (grid_put i \<lparr>g_instance_id = i, g_status = G_IDLE, g_upper_price = upper_price,
                g_lower_price = (if averaging then lv_buy_price (last (gd_levels d)) else lower_price),
                g_grid_count = (if averaging then int (length (gd_levels d)) else grid_count),
                g_grid_spacing = gd_spacing d, g_investment_per_grid = investment,
                g_levels = gd_levels d, g_total_cycles = 0, g_total_profit = 0,
                g_exchange_account_id = acct, g_symbol = symbol, g_current_price = None\<rparr>)
         (seq (transition_grid i G_INITIALIZED) (with_grid i ret))))"

definition activate_grid :: "string \<Rightarrow> decimal \<Rightarrow> ('x, 'f, 'm, bool) xg" where
  "activate_grid i current_price = with_grid i (\<lambda>_.
     seq (transition_grid i G_ACTIVE)
     (seq (grid_set i (\<lambda>g. g\<lparr>g_current_price := Some current_price\<rparr>))
     (seq (reading (\<lambda>s. grid_place_each i (plan_initial (list_levels i s) current_price)))
       (ret True))))"

definition pause_grid :: "string \<Rightarrow> ('x, 'f, 'm, bool) xg" where
  "pause_grid i = with_grid i (\<lambda>_.
     seq (reading (\<lambda>s. for_each (grid_cancel i) (plan_cancel_all (list_levels i s))))
     (seq (transition_grid i G_PAUSED) (ret True)))"

definition resume_grid :: "string \<Rightarrow> decimal \<Rightarrow> ('x, 'f, 'm, bool) xg" where
  "resume_grid i current_price = with_grid i (\<lambda>_.
     seq (transition_grid i G_ACTIVE)
     (seq (grid_set i (\<lambda>g. g\<lparr>g_current_price := Some current_price\<rparr>))
     (seq (reading (\<lambda>s. grid_place_each i (plan (list_levels i s) current_price False 1)))
       (ret True))))"

definition close_all_grid_orders :: "string \<Rightarrow> ('x, 'f, 'm, bool) xg" where
  "close_all_grid_orders i =
     seq (reading (\<lambda>s. for_each (grid_cancel i) (plan_cancel_all (list_levels i s)))) (ret True)"

section \<open>Prices\<close>

text \<open>One turn of \<^verbatim>\<open>_cancel_all_pending_buys\<close>, for the level at a position.\<close>

definition cancel_pending_buy :: "string \<Rightarrow> uuid option \<Rightarrow> nat \<Rightarrow> ('x, 'f, 'm, unit) xg" where
  "cancel_pending_buy i acct k = reading (\<lambda>s.
     let lv = list_levels i s ! k in
     if lv_status lv = L_WAITING \<and> truthy (lv_buy_order_id lv) then
       try_catch
         (seq (cancel_order acct (the (lv_buy_order_id lv)))
           (grid_set i (\<lambda>g. g\<lparr>g_levels := (g_levels g)[k := (g_levels g ! k)\<lparr>lv_buy_order_id := None\<rparr>]\<rparr>)))
         (\<lambda>_. ret ())
     else ret ())"

definition cancel_all_pending_buys :: "string \<Rightarrow> ('x, 'f, 'm, unit) xg" where
  "cancel_all_pending_buys i = reading (\<lambda>s. case grid_get i s of
      None \<Rightarrow> ret ()
    | Some g \<Rightarrow> for_each (cancel_pending_buy i (g_exchange_account_id g)) [0..<length (g_levels g)])"

definition breaker_set :: "string \<Rightarrow> ('f breaker \<Rightarrow> 'f breaker) \<Rightarrow> ('x, 'f, 'm, unit) xg" where
  "breaker_set i f = modify (\<lambda>s. case dget (breakers s) i of None \<Rightarrow> s
     | Some b \<Rightarrow> s\<lparr>breakers := dput i (f b) (breakers s)\<rparr>)"

text \<open>The first part of the handler: day rollover and trigger. The result says whether the breaker
  has just triggered.\<close>

definition breaker_check :: "string \<Rightarrow> decimal \<Rightarrow> ('x, 'f, 'm, bool) xg" where
  "breaker_check i price = reading (\<lambda>s. case dget (breakers s) i of
      None \<Rightarrow> ret False
    | Some b \<Rightarrow>
        let b1 = check_new_day (clock s) price b
        in if should_trigger price b1
           then seq (breaker_set i (\<lambda>_. trigger (clock s) price b1))
                  (seq (cancel_all_pending_buys i) (ret True))
           else seq (breaker_set i (\<lambda>_. b1)) (ret False))"

text \<open>The confirmation by the 15-minute candles: \<open>None\<close> when there is nothing to evaluate.\<close>

definition ta_15m :: "'f fl_ops \<Rightarrow> string \<Rightarrow> decimal \<Rightarrow> 'f breaker \<Rightarrow> ('x, 'f, 'm) grid_engine_scheme \<Rightarrow>
    bool option" where
  "ta_15m fl i price b s =
     (case dget (ta_candles_15m s) i of
        None \<Rightarrow> None
      | Some cs \<Rightarrow> if cb_ta_15m_configs b = [] \<or> cs = [] then None
          else Some (tg_passed (ta_evaluate fl (cb_ta_15m_configs b) cs price)))"

text \<open>The gate of the configured indicators; it is open without configuration or candles.\<close>

definition ta_gate :: "'f fl_ops \<Rightarrow> string \<Rightarrow> decimal \<Rightarrow> ('x, 'f, 'm) grid_engine_scheme \<Rightarrow> bool" where
  "ta_gate fl i price s =
     (case (dget (ta_configs s) i, dget (ta_candles s) i) of
        (Some configs, Some cs) \<Rightarrow>
          if configs = [] \<or> cs = [] then True else tg_passed (ta_evaluate fl configs cs price)
      | _ \<Rightarrow> True)"

text \<open>The gate and resume logic: whether buys may be placed at this price.\<close>

definition buy_gate :: "'f fl_ops \<Rightarrow> string \<Rightarrow> decimal \<Rightarrow> ('x, 'f, 'm, bool) xg" where
  "buy_gate fl i price = reading (\<lambda>s.
     case dget (breakers s) i of
       Some b \<Rightarrow>
         if cb_triggered b then
           let b1 = update_bottom price b
           in seq (breaker_set i (\<lambda>_. b1))
             (case cb_resume_mode b of
                WIDEN_STEP \<Rightarrow>
                  seq (if ta_15m fl i price b1 s = Some True then breaker_set i reset else ret ()) (ret True)
              | TRAILING_BUY \<Rightarrow>
                  if should_resume_trailing price b1 then seq (breaker_set i reset) (ret True) else ret False
              | TA_CONFIRM \<Rightarrow>
                  (case ta_15m fl i price b1 s of
                     None \<Rightarrow> ret False
                   | Some passed \<Rightarrow>
                       if passed then seq (breaker_set i reset) (ret True) else ret False))
         else ret (ta_gate fl i price s)
     | None \<Rightarrow> ret (ta_gate fl i price s))"

text \<open>The plan of a tick, made between the breaker check and the gate.\<close>

definition tick_plan :: "string \<Rightarrow> decimal \<Rightarrow> ('x, 'f, 'm) grid_engine_scheme \<Rightarrow> grid_action list" where
  "tick_plan i price s =
     (case dget (breakers s) i of
        None \<Rightarrow> plan (list_levels i s) price False 1
      | Some b \<Rightarrow> plan (list_levels i s) price (cb_triggered b)
          (if cb_triggered b \<and> cb_resume_mode b = WIDEN_STEP then cb_widen_multiplier b else 1))"

definition run_action :: "string \<Rightarrow> bool \<Rightarrow> bool \<Rightarrow> grid_action \<Rightarrow> ('x, 'f, 'm, unit) xg" where
  "run_action i just_triggered gate a =
     (case ga_action a of
        CANCEL \<Rightarrow> grid_cancel i a
      | PLACE_BUY \<Rightarrow> if just_triggered \<or> \<not> gate then ret () else seq (grid_place i a) (ret ())
      | PLACE_SELL \<Rightarrow> seq (grid_place i a) (ret ()))"

definition lock_key :: "string \<Rightarrow> int \<Rightarrow> string" where
  "lock_key i n = i @ '':level:'' @ show_int n"

text \<open>The price goes to the profit lock of every filled level; what a lock raises is swallowed.\<close>

definition forward_price :: "string \<Rightarrow> decimal \<Rightarrow> ('x, 'f, 'm, unit) xg" where
  "forward_price i price = reading (\<lambda>s.
     if has_profit_lock s \<and> dget (trailing_config s) i \<noteq> None then
       for_each (\<lambda>k. reading (\<lambda>s.
           let lv = list_levels i s ! k in
           if lv_status lv = L_FILLED
           then try_catch (pl_on_price_update (lock_key i (lv_level lv)) price) (\<lambda>_. ret ())
           else ret ())) [0..<length (list_levels i s)]
     else ret ())"

definition active_tick :: "'f fl_ops \<Rightarrow> string \<Rightarrow> decimal \<Rightarrow> ('x, 'f, 'm, unit) xg" where
  "active_tick fl i price =
     seq (grid_set i (\<lambda>g. g\<lparr>g_current_price := Some price\<rparr>))
     (bind (breaker_check i price) (\<lambda>just_triggered.
      bind (gets (tick_plan i price)) (\<lambda>actions.
      bind (buy_gate fl i price) (\<lambda>gate.
      seq (for_each (run_action i just_triggered gate) actions) (forward_price i price)))))"

definition on_price_update :: "'f fl_ops \<Rightarrow> string \<Rightarrow> decimal \<Rightarrow> ('x, 'f, 'm, unit) xg" where
  "on_price_update fl i price = reading (\<lambda>s. case grid_get i s of
      None \<Rightarrow> ret ()
    | Some g \<Rightarrow> if g_status g \<noteq> G_ACTIVE then ret () else active_tick fl i price)"

section \<open>Fills\<close>

definition enable_trailing :: "string \<Rightarrow> int \<Rightarrow> decimal \<Rightarrow> decimal \<Rightarrow> trailing \<Rightarrow> ('x, 'f, 'm, unit) xg" where
  "enable_trailing i n fill_price quantity tr = with_grid i (\<lambda>g.
     try_catch
       (seq (pl_enable (lock_key i n) (g_exchange_account_id g) (g_symbol g) fill_price quantity ''long''
               (tr_trigger_percentage tr) (tr_trail_percentage tr) (tr_max_profit_percentage tr)) (ret ()))
       (\<lambda>_. ret ()))"

definition on_buy_filled :: "string \<Rightarrow> int \<Rightarrow> decimal \<Rightarrow> decimal \<Rightarrow> ('x, 'f, 'm, unit) xg" where
  "on_buy_filled i n fill_price quantity = reading (\<lambda>s. case get_level i n s of
      None \<Rightarrow> throw (grid_error i)
    | Some lv \<Rightarrow>
        seq (transition_level i n L_FILLED)
        (seq (grid_set i (on_level n (\<lambda>lv. lv\<lparr>lv_buy_order_id := None\<rparr>)))
        (with_grid i (\<lambda>g.
           let trailing = dget (trailing_config s) i in
           seq (if g_status g = G_ACTIVE \<and> trailing = None
                then seq (grid_place i (sell_action lv)) (ret ()) else ret ())
             (case trailing of
                None \<Rightarrow> ret ()
              | Some tr \<Rightarrow> if has_profit_lock s then enable_trailing i n fill_price quantity tr
                  else ret ())))))"

text \<open>
  The release of the level's profit lock never gets that far: \<^verbatim>\<open>get_state\<close> is a coroutine function and is
  called without \<^verbatim>\<open>await\<close>, so \<^verbatim>\<open>pl_state.enabled\<close> is asked of a coroutine object and raises; the clause
  \<^verbatim>\<open>except Exception: pass\<close> swallows it.
\<close>

definition release_lock :: "string \<Rightarrow> ('x, 'f, 'm, unit) xg" where
  "release_lock key = try_catch (throw (Exn PyAttributeError [])) (\<lambda>_. ret ())"

definition on_sell_filled :: "string \<Rightarrow> int \<Rightarrow> decimal \<Rightarrow> decimal \<Rightarrow> ('x, 'f, 'm, unit) xg" where
  "on_sell_filled i n fill_price quantity = reading (\<lambda>s. case get_level i n s of
      None \<Rightarrow> throw (grid_error i)
    | Some lv \<Rightarrow>
        seq (transition_level i n L_TP_HIT)
        (seq (grid_set i (on_level n (\<lambda>lv. lv\<lparr>lv_sell_order_id := None\<rparr>)))
        (seq (if has_profit_lock s then release_lock (lock_key i n) else ret ())
        (seq (grid_set i (\<lambda>g. g\<lparr>g_total_cycles := g_total_cycles g + 1,
                g_total_profit := dadd (g_total_profit g)
                  (dmul (dsub fill_price (lv_buy_price lv)) quantity)\<rparr>))
        (with_grid i (\<lambda>g. if g_status g = G_ACTIVE then transition_level i n L_WAITING else ret ()))))))"

section \<open>Manual orders\<close>

record force_buy_result =
  fb_order_id :: string
  fb_level :: int
  fb_price :: decimal
  fb_quantity :: decimal

text \<open>
  The target of a forced buy: the level asked for, unless it is filled, or the first waiting level
  below the current price. Comparing with a missing current price raises.
\<close>

definition force_buy_target :: "string \<Rightarrow> grid_state \<Rightarrow> int option \<Rightarrow> grid_level res" where
  "force_buy_target i g level =
     (case level of
        Some n \<Rightarrow>
          (case find_level n (g_levels g) of
             None \<Rightarrow> Raise (grid_error i)
           | Some lv \<Rightarrow> if lv_status lv = L_FILLED then Raise (grid_error i) else Ok lv)
      | None \<Rightarrow>
          (case g_current_price g of
             None \<Rightarrow> if list_ex (\<lambda>lv. lv_status lv = L_WAITING) (g_levels g)
               then Raise (Exn PyTypeError []) else Raise (grid_error i)
           | Some p \<Rightarrow>
               (case find (\<lambda>lv. lv_status lv = L_WAITING \<and> lv_buy_price lv < p) (g_levels g) of
                  None \<Rightarrow> Raise (grid_error i) | Some lv \<Rightarrow> Ok lv)))"

definition cancel_quietly :: "uuid option \<Rightarrow> string option \<Rightarrow> ('x, 'f, 'm, unit) xg" where
  "cancel_quietly acct oid = (case oid of
      None \<Rightarrow> ret ()
    | Some x \<Rightarrow> try_catch (seq (cancel_order acct x) (ret ())) (\<lambda>_. ret ()))"

definition force_buy ::
  "string \<Rightarrow> int option \<Rightarrow> decimal option \<Rightarrow> decimal option \<Rightarrow> ('x, 'f, 'm, force_buy_result) xg" where
  "force_buy i level price quantity = with_grid i (\<lambda>g.
     if g_status g \<noteq> G_ACTIVE then throw (grid_error i)
     else bind (lift_res (force_buy_target i g level)) (\<lambda>lv.
       let n = lv_level lv;
           buy_price = default (lv_buy_price lv) price;
           buy_qty = default (lv_quantity lv) quantity
       in seq (cancel_quietly (g_exchange_account_id g) (lv_buy_order_id lv))
         (bind uuid4 (\<lambda>u.
          bind (place_order (limit_request u g BUY buy_qty (Some buy_price))) (\<lambda>res.
          seq (update_level i n (record_order BUY (r_order_id res)))
            (seq (transition_level i n L_OPEN)
              (ret \<lparr>fb_order_id = r_order_id res, fb_level = n, fb_price = buy_price,
                    fb_quantity = buy_qty\<rparr>)))))))"

record force_sell_result =
  fs_order_ids :: "string list"
  fs_levels_sold :: "int list"
  fs_price :: "decimal option"
  fs_total_quantity :: decimal
  fs_total_value :: decimal

text \<open>The positions of the levels to sell.\<close>

definition force_sell_targets :: "string \<Rightarrow> grid_state \<Rightarrow> int option \<Rightarrow> nat list res" where
  "force_sell_targets i g level =
     (case level of
        Some n \<Rightarrow>
          (case find_level n (g_levels g) of
             None \<Rightarrow> Raise (grid_error i)
           | Some lv \<Rightarrow> if lv_status lv \<noteq> L_FILLED then Raise (grid_error i)
               else Ok [length (takeWhile (\<lambda>lv. lv_level lv \<noteq> n) (g_levels g))])
      | None \<Rightarrow>
          let ks = filter (\<lambda>k. lv_status (g_levels g ! k) = L_FILLED) [0..<length (g_levels g)]
          in if ks = [] then Raise (grid_error i) else Ok ks)"

text \<open>One sale: the order placed, its quantity and the running totals.\<close>

definition force_sell_one :: "string \<Rightarrow> grid_state \<Rightarrow> decimal option \<Rightarrow> decimal option \<Rightarrow> nat \<Rightarrow>
    force_sell_result \<Rightarrow> ('x, 'f, 'm, force_sell_result) xg" where
  "force_sell_one i g sell_price quantity k acc = reading (\<lambda>s.
     let lv = list_levels i s ! k;
         asked = default (lv_quantity lv) quantity;
         sell_qty = (if lv_quantity lv < asked then lv_quantity lv else asked)
     in seq (cancel_quietly (g_exchange_account_id g) (lv_sell_order_id lv))
       (bind uuid4 (\<lambda>u.
        bind (place_order (limit_request u g SELL sell_qty sell_price)) (\<lambda>res.
        case sell_price of
          None \<Rightarrow> throw (Exn PyTypeError [])
        | Some p \<Rightarrow>
            seq (update_level i (lv_level lv) (record_order SELL (r_order_id res)))
              (ret (acc\<lparr>fs_order_ids := fs_order_ids acc @ [r_order_id res],
                     fs_levels_sold := fs_levels_sold acc @ [lv_level lv],
                     fs_total_quantity := dadd (fs_total_quantity acc) sell_qty,
                     fs_total_value := dadd (fs_total_value acc) (dmul sell_qty p)\<rparr>))))))"

fun force_sell_loop :: "string \<Rightarrow> grid_state \<Rightarrow> decimal option \<Rightarrow> decimal option \<Rightarrow> nat list \<Rightarrow>
    force_sell_result \<Rightarrow> ('x, 'f, 'm, force_sell_result) xg" where
  "force_sell_loop i g sell_price quantity [] acc = ret acc"
| "force_sell_loop i g sell_price quantity (k # ks) acc =
     bind (force_sell_one i g sell_price quantity k acc) (force_sell_loop i g sell_price quantity ks)"

definition force_sell ::
  "string \<Rightarrow> int option \<Rightarrow> decimal option \<Rightarrow> decimal option \<Rightarrow> ('x, 'f, 'm, force_sell_result) xg" where
  "force_sell i level price quantity = with_grid i (\<lambda>g.
     if g_status g \<noteq> G_ACTIVE then throw (grid_error i)
     else
       let sell_price = (if price \<noteq> None then price else g_current_price g)
       in bind (lift_res (force_sell_targets i g level)) (\<lambda>ks.
            force_sell_loop i g sell_price quantity ks
              \<lparr>fs_order_ids = [], fs_levels_sold = [], fs_price = sell_price,
               fs_total_quantity = 0, fs_total_value = 0\<rparr>))"

section \<open>Queries\<close>

definition get_grid_state :: "string \<Rightarrow> ('x, 'f, 'm, grid_state) xg" where
  "get_grid_state i = with_grid i ret"

definition get_grid_level :: "string \<Rightarrow> int \<Rightarrow> ('x, 'f, 'm, grid_level option) xg" where
  "get_grid_level i n = gets (get_level i n)"

definition get_grid_levels :: "string \<Rightarrow> ('x, 'f, 'm, grid_level list) xg" where
  "get_grid_levels i = gets (list_levels i)"

section \<open>Frames\<close>

lemma plock_more_grid:
  fixes s t :: "('x, 'f, 'm) grid_engine_scheme"
  assumes "plock_engine.more t = plock_engine.more s"
  shows "grids t = grids s" "trailing_config t = trailing_config s" "breakers t = breakers s"
    "has_profit_lock t = has_profit_lock s" "ta_configs t = ta_configs s" "ta_candles t = ta_candles s"
    "ta_candles_15m t = ta_candles_15m s"
  using assms by (cases s; cases t; simp)+

text \<open>Every routine of the engines below leaves the grid engine's own fields alone.\<close>

abbreviation below_grid :: "('x, 'f, 'm, 'a) xg \<Rightarrow> bool" where
  "below_grid m \<equiv> obeys (same plock_engine.more) m"

lemma below_grid_frames:
  assumes "below_grid m"
  shows "obeys (same grids) m" "obeys (same trailing_config) m" "obeys (same breakers) m"
    "obeys (same has_profit_lock) m"
  unfolding obeys_def same_def using plock_more_grid [OF sameD [OF assms]] by simp_all

lemma below_grid_state:
  "below_grid m \<Longrightarrow> grid_get i (snd (m s)) = grid_get i s"
  "below_grid m \<Longrightarrow> dget (trailing_config (snd (m s))) i = dget (trailing_config s) i"
  "below_grid m \<Longrightarrow> dget (breakers (snd (m s))) i = dget (breakers s) i"
  "below_grid m \<Longrightarrow> has_profit_lock (snd (m s)) = has_profit_lock s"
  using below_grid_frames [THEN sameD, of m s] by (simp_all add: grid_get_def)

lemma exec_below_grid [resp_intros]:
  "below_grid (place_order q)" "below_grid (cancel_order acct oid)"
  by (rule exec_frames_plock(3), rule place_order_frame cancel_order_frame)+

lemma world_below_grid [resp_intros]:
  "below_grid uuid4" "below_grid now"
  by (rule exec_frames_plock(3), rule world_frame_exec(4), rule world_frames)+

lemma pl_below_grid [resp_intros]:
  "obeys (same plock_engine.more) (pl_set i f)"
  "obeys (same plock_engine.more) (pl_put i st)"
  "obeys (same plock_engine.more) (pl_metric i h)"
  by (auto simp: obeys_def same_def pl_set_def pl_put_def pl_metric_def modify_def split: option.splits)

lemma pl_transition_below_grid [resp_intros]: "obeys (same plock_engine.more) (pl_transition i st)"
  unfolding pl_transition_def by (intro resp_intros)

lemma place_lock_order_below_grid [resp_intros]: "obeys (same plock_engine.more) (place_lock_order i l)"
  unfolding place_lock_order_def
  by (intro resp_intros exec_frames_plock(3) [OF place_order_frame]
      exec_frames_plock(3) [OF world_frame_exec(4) [OF world_frames(2)]])

lemma pl_handlers_below_grid [resp_intros]:
  "obeys (same plock_engine.more) (pl_on_price_update i p)"
  "obeys (same plock_engine.more) (pl_enable i acct symbol e q side trig trail cap)"
  "obeys (same plock_engine.more) (pl_disable i)"
  "obeys (same plock_engine.more) (pl_get_state i)"
proof -
  show "obeys (same plock_engine.more) (pl_on_price_update i p)"
    unfolding pl_on_price_update_def handle_trigger_def handle_update_def handle_execute_def Let_def
    by (intro resp_intros) (auto split: policy_action.splits option.splits intro!: resp_intros)
  show "obeys (same plock_engine.more) (pl_enable i acct symbol e q side trig trail cap)"
    unfolding pl_enable_def by (intro resp_intros)
  show "obeys (same plock_engine.more) (pl_disable i)"
    unfolding pl_disable_def
    by (intro resp_intros exec_frames_plock(3) [OF cancel_order_frame])
  show "obeys (same plock_engine.more) (pl_get_state i)"
    unfolding pl_get_state_def by (intro resp_intros)
qed

section \<open>The store, computed\<close>

lemma grid_get_put [simp]:
  "grid_get j (s\<lparr>grids := dput i g (grids t)\<rparr>) = (if j = i then Some g else grid_get j t)"
  by (simp add: grid_get_def)

lemma grid_set_eq:
  "grid_get i s = Some g \<Longrightarrow> grid_set i f s = (Ok (), s\<lparr>grids := dput i (f g) (grids s)\<rparr>)"
  by (simp add: grid_set_def modify_def)

lemma with_grid_eq: "grid_get i s = Some g \<Longrightarrow> with_grid i f s = f g s"
  by (simp add: with_grid_def reading_def)

lemma transition_grid_eq:
  "grid_get i s = Some g \<Longrightarrow> transition_grid i to s =
     (if to \<in> set (grid_transitions (g_status g))
      then (Ok (), s\<lparr>grids := dput i (g\<lparr>g_status := to\<rparr>) (grids s)\<rparr>)
      else (Raise (Exn InvalidStateTransition [g_status g, to]), s))"
  by (simp add: transition_grid_def with_grid_eq py_simps validate_grid_transition_def grid_set_def)

lemma transition_level_eq:
  "grid_get i s = Some g \<Longrightarrow> find_level n (g_levels g) = Some lv \<Longrightarrow> transition_level i n to s =
     (if to \<in> set (level_transitions (lv_status lv))
      then (Ok (), s\<lparr>grids := dput i (on_level n (\<lambda>lv. lv\<lparr>lv_status := to\<rparr>) g) (grids s)\<rparr>)
      else (Raise (Exn InvalidStateTransition
              [level_status_value (lv_status lv), level_status_value to]), s))"
  by (simp add: transition_level_def with_grid_eq py_simps validate_level_transition_def grid_set_def)

lemma update_level_eq:
  "grid_get i s = Some g \<Longrightarrow> find_level n (g_levels g) = Some lv \<Longrightarrow>
   update_level i n f s = (Ok (), s\<lparr>grids := dput i (on_level n f g) (grids s)\<rparr>)"
  by (simp add: update_level_def reading_def get_level_def grid_set_eq)

lemma on_level_simps [simp]:
  "g_levels (on_level n f g) = set_level n f (g_levels g)"
  "g_status (on_level n f g) = g_status g"
  "g_instance_id (on_level n f g) = g_instance_id g"
  "g_upper_price (on_level n f g) = g_upper_price g"
  "g_lower_price (on_level n f g) = g_lower_price g"
  "g_grid_count (on_level n f g) = g_grid_count g"
  "g_grid_spacing (on_level n f g) = g_grid_spacing g"
  "g_investment_per_grid (on_level n f g) = g_investment_per_grid g"
  "g_total_cycles (on_level n f g) = g_total_cycles g"
  "g_total_profit (on_level n f g) = g_total_profit g"
  "g_exchange_account_id (on_level n f g) = g_exchange_account_id g"
  "g_symbol (on_level n f g) = g_symbol g"
  "g_current_price (on_level n f g) = g_current_price g"
  "grid_state.more (on_level n f g) = grid_state.more g"
  by (simp_all add: on_level_def)

lemma on_level_compose:
  "keeps_number f \<Longrightarrow> on_level n h (on_level n f g) = on_level n (\<lambda>lv. h (f lv)) g"
  by (simp add: on_level_def set_level_compose)

lemma get_level_Some:
  "get_level i n s = Some lv \<longleftrightarrow> (\<exists>g. grid_get i s = Some g \<and> find_level n (g_levels g) = Some lv)"
  by (auto simp: get_level_def split: option.splits)

section \<open>Fills, computed\<close>

lemma release_lock_skips [simp]: "release_lock key = ret ()"
  by (simp add: release_lock_def py_simps fun_eq_iff)

definition sold_level :: "bool \<Rightarrow> grid_level \<Rightarrow> grid_level" where
  "sold_level active lv = lv\<lparr>lv_sell_order_id := None, lv_status := (if active then L_WAITING else L_TP_HIT)\<rparr>"

definition sold_grid :: "int \<Rightarrow> grid_level \<Rightarrow> decimal \<Rightarrow> decimal \<Rightarrow> grid_state \<Rightarrow> grid_state" where
  "sold_grid n lv fill_price quantity g =
     (on_level n (sold_level (g_status g = G_ACTIVE)) g)
       \<lparr>g_total_cycles := g_total_cycles g + 1,
        g_total_profit := dadd (g_total_profit g) (dmul (dsub fill_price (lv_buy_price lv)) quantity)\<rparr>"

lemma swap_fields:
  "(lv :: grid_level)\<lparr>lv_status := st, lv_sell_order_id := x\<rparr> = lv\<lparr>lv_sell_order_id := x, lv_status := st\<rparr>"
  by simp

lemma on_sell_filled_eq:
  assumes g: "grid_get i s = Some g" and lv: "find_level n (g_levels g) = Some lv"
  shows "if L_TP_HIT \<in> set (level_transitions (lv_status lv))
    then \<exists>s'. on_sell_filled i n fp qty s = (Ok (), s') \<and>
      (\<forall>j. grid_get j s' = (if j = i then Some (sold_grid n lv fp qty g) else grid_get j s))
    else on_sell_filled i n fp qty s =
      (Raise (Exn InvalidStateTransition [level_status_value (lv_status lv), ''tp_hit'']), s)"
proof (cases "L_TP_HIT \<in> set (level_transitions (lv_status lv))")
  case True
  let ?hit = "\<lambda>lv :: grid_level. lv\<lparr>lv_status := L_TP_HIT\<rparr>"
  let ?clear = "\<lambda>lv :: grid_level. lv\<lparr>lv_sell_order_id := None\<rparr>"
  let ?g2 = "on_level n (\<lambda>lv. ?clear (?hit lv)) g"
  let ?s1 = "s\<lparr>grids := dput i (on_level n ?hit g) (grids s)\<rparr>"
  let ?s2 = "?s1\<lparr>grids := dput i ?g2 (grids ?s1)\<rparr>"
  have 1: "transition_level i n L_TP_HIT s = (Ok (), ?s1)"
    using transition_level_eq [OF g lv] True by simp
  have 2: "grid_set i (on_level n ?clear) ?s1 = (Ok (), ?s2)"
    by (simp add: grid_set_eq [of i _ "on_level n ?hit g"] on_level_compose)
  have 3: "(if has_profit_lock s then release_lock (lock_key i n) else ret ()) ?s2 = (Ok (), ?s2)"
    by (simp add: ret_def)
  let ?bank = "\<lambda>g. g\<lparr>g_total_cycles := g_total_cycles g + 1, g_total_profit := dadd (g_total_profit g)
     (dmul (dsub fp (lv_buy_price lv)) qty)\<rparr>"
  have g3: "grid_get j ?s2 = (if j = i then Some ?g2 else grid_get j s)" for j
    by (simp add: grid_get_def)
  let ?s4 = "?s2\<lparr>grids := dput i (?bank ?g2) (grids ?s2)\<rparr>"
  have 4: "grid_set i ?bank ?s2 = (Ok (), ?s4)" by (rule grid_set_eq) (simp add: g3)
  have find: "find_level n (set_level n (\<lambda>lv. ?clear (?hit lv)) (g_levels g)) = Some (?clear (?hit lv))"
    using lv by (simp add: find_set_level)
  have 5: "\<exists>s'. with_grid i (\<lambda>g. if g_status g = G_ACTIVE then transition_level i n L_WAITING else ret ()) ?s4
      = (Ok (), s') \<and> (\<forall>j. grid_get j s' = (if j = i then Some (sold_grid n lv fp qty g) else grid_get j s))"
  proof (cases "g_status g = G_ACTIVE")
    case True
    have "?s4 = ?s4" by simp
    have eq: "transition_level i n L_WAITING ?s4 =
        (Ok (), ?s4\<lparr>grids := dput i (on_level n (\<lambda>lv. lv\<lparr>lv_status := L_WAITING\<rparr>) (?bank ?g2)) (grids ?s4)\<rparr>)"
      by (subst transition_level_eq [where g = "?bank ?g2" and lv = "?clear (?hit lv)"])
        (simp_all add: find)
    have "on_level n (\<lambda>lv. lv\<lparr>lv_status := L_WAITING\<rparr>) (?bank ?g2) = sold_grid n lv fp qty g"
      using True by (intro grid_state.equality)
        (simp_all add: sold_grid_def set_level_compose sold_level_def [abs_def])
    with eq True g3 show ?thesis by (simp add: with_grid_eq [of i _ "?bank ?g2"])
  next
    case False
    then have "?bank ?g2 = sold_grid n lv fp qty g"
      by (intro grid_state.equality)
        (simp_all add: sold_grid_def sold_level_def [abs_def] swap_fields)
    moreover have "g_status (sold_grid n lv fp qty g) = g_status g" by (simp add: sold_grid_def)
    ultimately show ?thesis using False g3 by (simp add: with_grid_eq [of i _ "?bank ?g2"] ret_def)
  qed
  have "get_level i n s = Some lv" using g lv by (simp add: get_level_def)
  with 1 2 3 4 5 True show ?thesis
    by (simp add: on_sell_filled_def reading_def seq_def bind_def)
next
  case False
  with transition_level_eq [OF g lv, of L_TP_HIT] g lv show ?thesis
    by (simp add: on_sell_filled_def reading_def get_level_def seq_def bind_def)
qed

text \<open>So no lock is released: a sell fill leaves the profit locks as they are.\<close>

lemma sell_fill_keeps_locks: "obeys (same pl_states) (on_sell_filled i n fp qty)"
  unfolding on_sell_filled_def transition_level_def grid_set_def with_grid_def release_lock_skips
  by (intro resp_intros) (simp_all split: option.splits)

section \<open>Orders of a level, computed\<close>

abbreviation fresh_uuid :: "('x, 'f, 'm) grid_engine_scheme \<Rightarrow> ('x, 'f, 'm) grid_engine_scheme" where
  "fresh_uuid s \<equiv> s\<lparr>uuid_next := Suc (uuid_next s)\<rparr>"

lemma grid_get_uuid [simp]: "grid_get i (s\<lparr>uuid_next := u\<rparr>) = grid_get i s"
  by (simp add: grid_get_def)

lemma place_order_grids: "place_order q s = (r, s1) \<Longrightarrow> grids s1 = grids s"
  using sameD [OF below_grid_frames(1) [OF exec_below_grid(1)], of q s] by simp

lemma open_level_eq:
  assumes g: "grid_get i s = Some g" and lv: "find_level n (g_levels g) = Some lv"
  shows "seq (update_level i n (record_order side oid)) (seq (transition_level i n L_OPEN) (ret r)) s =
    (if L_OPEN \<in> set (level_transitions (lv_status lv))
     then (Ok r, s\<lparr>grids := dput i (on_level n (\<lambda>lv. (record_order side oid lv)\<lparr>lv_status := L_OPEN\<rparr>) g)
                      (grids s)\<rparr>)
     else (Raise (Exn InvalidStateTransition [level_status_value (lv_status lv), ''open'']),
           s\<lparr>grids := dput i (on_level n (record_order side oid) g) (grids s)\<rparr>))"
proof -
  let ?g1 = "on_level n (record_order side oid) g"
  let ?s1 = "s\<lparr>grids := dput i ?g1 (grids s)\<rparr>"
  have "find_level n (g_levels ?g1) = Some (record_order side oid lv)"
    using lv by (simp add: find_set_level)
  with transition_level_eq [of i ?s1 ?g1 n _ L_OPEN] update_level_eq [OF g lv]
  show ?thesis by (simp add: seq_def bind_def ret_def on_level_compose)
qed

lemma grid_place_eq:
  assumes g: "grid_get i s = Some g" and lv: "find_level (ga_level a) (g_levels g) = Some lv"
    and po: "place_order (limit_request (uuid_next s) g (ga_side a) (ga_quantity a) (Some (ga_price a)))
      (fresh_uuid s) = (r, s1)"
  shows "grid_place i a s = (case r of
      Raise e \<Rightarrow> (Raise e, s1)
    | Ok res \<Rightarrow>
        if L_OPEN \<in> set (level_transitions (lv_status lv))
        then (Ok (r_order_id res), s1\<lparr>grids := dput i (on_level (ga_level a)
                (\<lambda>lv. (record_order (ga_side a) (r_order_id res) lv)\<lparr>lv_status := L_OPEN\<rparr>) g) (grids s1)\<rparr>)
        else (Raise (Exn InvalidStateTransition [level_status_value (lv_status lv), ''open'']),
              s1\<lparr>grids := dput i (on_level (ga_level a) (record_order (ga_side a) (r_order_id res)) g)
                (grids s1)\<rparr>))"
proof -
  have g1: "grid_get i s1 = Some g"
    using place_order_grids [OF po] g by (simp add: grid_get_def)
  have body: "grid_place i a s = bind (place_order (limit_request (uuid_next s) g (ga_side a)
       (ga_quantity a) (Some (ga_price a)))) (\<lambda>res.
     seq (update_level i (ga_level a) (record_order (ga_side a) (r_order_id res)))
       (seq (transition_level i (ga_level a) L_OPEN) (ret (r_order_id res)))) (fresh_uuid s)"
    using g by (simp add: grid_place_def with_grid_eq bind_uuid4)
  show ?thesis
    unfolding body using po by (cases r) (simp_all add: bind_def open_level_eq [OF g1 lv])
qed

text \<open>A grid whose fills are handled outside trailing: the buy fill puts out the sell order.\<close>

definition bought_level :: "grid_level \<Rightarrow> grid_level" where
  "bought_level lv = lv\<lparr>lv_status := L_FILLED, lv_buy_order_id := None\<rparr>"

definition buy_filled_state :: "string \<Rightarrow> int \<Rightarrow> grid_state \<Rightarrow> ('x, 'f, 'm) grid_engine_scheme \<Rightarrow>
    ('x, 'f, 'm) grid_engine_scheme" where
  "buy_filled_state i n g s = s\<lparr>grids := dput i (on_level n bought_level g) (grids s)\<rparr>"

lemma buy_filled_prefix:
  assumes g: "grid_get i s = Some g" and lv: "find_level n (g_levels g) = Some lv"
    and st: "lv_status lv = L_OPEN"
  shows "seq (transition_level i n L_FILLED)
       (seq (grid_set i (on_level n (\<lambda>lv. lv\<lparr>lv_buy_order_id := None\<rparr>))) m) s =
    m (buy_filled_state i n g s)"
proof -
  let ?s1 = "s\<lparr>grids := dput i (on_level n (\<lambda>lv. lv\<lparr>lv_status := L_FILLED\<rparr>) g) (grids s)\<rparr>"
  have "grid_set i (on_level n (\<lambda>lv. lv\<lparr>lv_buy_order_id := None\<rparr>)) ?s1 = (Ok (), buy_filled_state i n g s)"
    by (simp add: grid_set_eq [of i _ "on_level n (\<lambda>lv. lv\<lparr>lv_status := L_FILLED\<rparr>) g"]
        on_level_compose buy_filled_state_def bought_level_def [abs_def])
  with transition_level_eq [OF g lv, of L_FILLED] st show ?thesis
    by (simp add: seq_def bind_def)
qed

text \<open>A grid whose fills are handled outside trailing: the buy fill puts out the sell order.\<close>

lemma on_buy_filled_active:
  assumes g: "grid_get i s = Some g" and lv: "find_level n (g_levels g) = Some lv"
    and st: "lv_status lv = L_OPEN" and act: "g_status g = G_ACTIVE"
    and no_trail: "dget (trailing_config s) i = None"
    and po: "place_order (limit_request (uuid_next s) g SELL (lv_quantity lv) (Some (lv_sell_price lv)))
      (fresh_uuid (buy_filled_state i n g s)) = (r, s1)"
  shows "case r of
      Raise e \<Rightarrow> on_buy_filled i n fp qty s = (Raise e, s1) \<and>
        grid_get i s1 = Some (on_level n bought_level g)
    | Ok res \<Rightarrow> on_buy_filled i n fp qty s = (Ok (), s1\<lparr>grids := dput i
          (on_level n (\<lambda>lv. (record_order SELL (r_order_id res) (bought_level lv))\<lparr>lv_status := L_OPEN\<rparr>) g)
          (grids s1)\<rparr>)"
proof -
  let ?g1 = "on_level n bought_level g"
  let ?s0 = "buy_filled_state i n g s"
  have keep: "keeps_number bought_level" by (simp add: bought_level_def)
  have n: "lv_level lv = n" using find_level_Some [OF lv] by simp
  have g0: "grid_get i ?s0 = Some ?g1" by (simp add: buy_filled_state_def)
  have lv0: "find_level (ga_level (sell_action lv)) (g_levels ?g1) = Some (bought_level lv)"
    using lv n keep by (simp add: find_set_level sell_action_def)
  have req: "limit_request u ?g1 = limit_request u g" for u
    by (simp add: limit_request_def fun_eq_iff)
  have u: "uuid_next ?s0 = uuid_next s" by (simp add: buy_filled_state_def)
  have po': "place_order (limit_request (uuid_next ?s0) ?g1 (ga_side (sell_action lv))
      (ga_quantity (sell_action lv)) (Some (ga_price (sell_action lv)))) (fresh_uuid ?s0) = (r, s1)"
    using po by (simp add: sell_action_def req u)
  have eq: "on_buy_filled i n fp qty s = seq (seq (grid_place i (sell_action lv)) (ret ())) (ret ()) ?s0"
    using g lv act no_trail g0
    by (simp add: on_buy_filled_def reading_def get_level_def buy_filled_prefix [OF g lv st]
        with_grid_eq [OF g0] Let_def)
  from grid_place_eq [OF g0 lv0 po'] show ?thesis
    unfolding eq using place_order_grids [OF po'] g0 n
    by (cases r) (simp_all add: seq_def bind_def ret_def sell_action_def bought_level_def
        on_level_compose grid_get_def)
qed

section \<open>What every handler respects\<close>

text \<open>
  A grid keeps its layout: the levels with their numbers, prices and quantities, and the range and
  market it was made for. Its status moves along the transition table, its cycles are counted up, and a
  cancelled level stays cancelled.
\<close>

definition lv_moves :: "grid_level \<Rightarrow> grid_level \<Rightarrow> bool" where
  "lv_moves a b \<longleftrightarrow> lv_level b = lv_level a \<and> lv_buy_price b = lv_buy_price a \<and>
     lv_sell_price b = lv_sell_price a \<and> lv_quantity b = lv_quantity a \<and>
     (lv_status a = L_CANCELLED \<longrightarrow> lv_status b = L_CANCELLED)"

definition same_range :: "grid_state \<Rightarrow> grid_state \<Rightarrow> bool" where
  "same_range g h \<longleftrightarrow> g_instance_id h = g_instance_id g \<and> g_upper_price h = g_upper_price g \<and>
     g_lower_price h = g_lower_price g \<and> g_grid_count h = g_grid_count g \<and> g_grid_spacing h = g_grid_spacing g \<and>
     g_investment_per_grid h = g_investment_per_grid g \<and> g_exchange_account_id h = g_exchange_account_id g \<and>
     g_symbol h = g_symbol g"

definition g_moves :: "grid_state \<Rightarrow> grid_state \<Rightarrow> bool" where
  "g_moves g h \<longleftrightarrow> list_all2 lv_moves (g_levels g) (g_levels h) \<and> same_range g h \<and>
     g_total_cycles g \<le> g_total_cycles h \<and> grid_sm.reaches (g_status g) (g_status h)"

definition trades :: "('x, 'f, 'm) grid_engine_scheme \<Rightarrow> ('x, 'f, 'm) grid_engine_scheme \<Rightarrow> bool" where
  "trades s t \<longleftrightarrow>
     (\<forall>i g. grid_get i s = Some g \<longrightarrow> (\<exists>h. grid_get i t = Some h \<and> g_moves g h))"

lemma lv_moves_refl [simp]: "lv_moves a a"
  by (simp add: lv_moves_def)

lemma lv_moves_trans: "lv_moves a b \<Longrightarrow> lv_moves b c \<Longrightarrow> lv_moves a c"
  unfolding lv_moves_def by auto

lemma g_moves_refl [simp]: "g_moves g g"
  by (simp add: g_moves_def same_range_def list_all2_refl)

lemma g_moves_trans: "g_moves a b \<Longrightarrow> g_moves b c \<Longrightarrow> g_moves a c"
  unfolding g_moves_def same_range_def
  by (auto intro: grid_sm.reaches_trans list_all2_trans [of lv_moves lv_moves lv_moves] lv_moves_trans)

interpretation trading: step_contract trades
proof unfold_locales
  fix s t u :: "('a, 'b, 'c) grid_engine_scheme"
  show "trades s s" by (simp add: trades_def)
  show "trades s t \<Longrightarrow> trades t u \<Longrightarrow> trades s u"
    unfolding trades_def by (metis g_moves_trans)
qed

declare trading.contract_rules [resp_intros]

lemma below_grid_trades: "below_grid m \<Longrightarrow> obeys trades m"
  unfolding obeys_def [of trades] trades_def by (simp add: below_grid_state)

lemmas below_trades [resp_intros] = exec_below_grid [THEN below_grid_trades]
  world_below_grid [THEN below_grid_trades] pl_handlers_below_grid [THEN below_grid_trades]

lemma grid_set_trades [resp_intros]: "(\<And>g. g_moves g (f g)) \<Longrightarrow> obeys trades (grid_set i f)"
  unfolding obeys_def trades_def grid_set_def modify_def
  by (auto split: option.splits)

lemma with_grid_trades [resp_intros]: "(\<And>g. obeys trades (f g)) \<Longrightarrow> obeys trades (with_grid i f)"
  unfolding with_grid_def by (intro resp_intros)

lemma set_level_moves:
  "(\<And>lv. find_level n lvs = Some lv \<Longrightarrow> lv_moves lv (f lv)) \<Longrightarrow> list_all2 lv_moves lvs (set_level n f lvs)"
  by (induction lvs) (auto intro: list_all2_refl)

lemma on_level_moves:
  "(\<And>lv. find_level n (g_levels g) = Some lv \<Longrightarrow> lv_moves lv (f lv)) \<Longrightarrow> g_moves g (on_level n f g)"
  unfolding g_moves_def same_range_def by (auto intro: set_level_moves)

lemma lv_moves_orders [simp]:
  "lv_moves lv (record_order side oid lv)" "lv_moves lv (clear_order side lv)"
  "lv_moves lv (lv\<lparr>lv_buy_order_id := x\<rparr>)" "lv_moves lv (lv\<lparr>lv_sell_order_id := x\<rparr>)"
  unfolding lv_moves_def by auto

lemma update_level_trades [resp_intros]:
  "(\<And>lv. lv_moves lv (f lv)) \<Longrightarrow> obeys trades (update_level i n f)"
  unfolding update_level_def by (intro resp_intros on_level_moves)

lemma transition_grid_trades [resp_intros]: "obeys trades (transition_grid i to)"
  unfolding obeys_def
proof
  fix s :: "('a, 'b, 'c) grid_engine_scheme"
  show "trades s (snd (transition_grid i to s))"
  proof (cases "grid_get i s")
    case (Some g)
    then show ?thesis
      by (auto simp: transition_grid_eq trades_def g_moves_def same_range_def
          intro: list_all2_refl grid_sm.reaches_step)
  qed (simp add: transition_grid_def with_grid_def py_simps trading.R_refl)
qed

lemma transition_level_trades:
  assumes "to \<noteq> L_WAITING \<or> (\<exists>g lv. grid_get i s = Some g \<and> find_level n (g_levels g) = Some lv \<and>
    lv_status lv \<noteq> L_CANCELLED)"
  shows "trades s (snd (transition_level i n to s))"
proof (cases "grid_get i s")
  case None
  then show ?thesis by (simp add: transition_level_def with_grid_def py_simps trading.R_refl)
next
  case (Some g)
  show ?thesis
  proof (cases "find_level n (g_levels g)")
    case None
    with Some show ?thesis by (simp add: transition_level_def with_grid_eq py_simps trading.R_refl)
  next
    case lv: (Some lv)
    show ?thesis
    proof (cases "to \<in> set (level_transitions (lv_status lv))")
      case True
      have "lv_moves lv (lv\<lparr>lv_status := to\<rparr>)"
        using True assms Some lv by (auto simp: lv_moves_def)
      then have "g_moves g (on_level n (\<lambda>lv. lv\<lparr>lv_status := to\<rparr>) g)"
        using lv by (intro on_level_moves) simp
      with True show ?thesis by (simp add: transition_level_eq [OF Some lv] trades_def Some)
    qed (simp add: transition_level_eq [OF Some lv] trading.R_refl)
  qed
qed

lemma transition_level_obeys [resp_intros]: "to \<noteq> L_WAITING \<Longrightarrow> obeys trades (transition_level i n to)"
  unfolding obeys_def by (simp add: transition_level_trades)

lemma grid_place_trades [resp_intros]: "obeys trades (grid_place i a)"
  unfolding grid_place_def by (intro resp_intros; simp)

lemma grid_cancel_trades [resp_intros]: "obeys trades (grid_cancel i a)"
  unfolding grid_cancel_def by (intro resp_intros; simp)

lemma grid_place_each_trades [resp_intros]: "obeys trades (grid_place_each i as)"
  unfolding grid_place_each_def by (intro resp_intros)

lemma g_moves_fields [simp]:
  "g_moves g (g\<lparr>g_current_price := x\<rparr>)"
  "g_total_cycles g \<le> y \<Longrightarrow> g_moves g (g\<lparr>g_total_cycles := y, g_total_profit := z\<rparr>)"
  unfolding g_moves_def same_range_def by (auto intro: list_all2_refl)

lemma list_update_moves: "lv_moves (xs ! k) y \<Longrightarrow> list_all2 lv_moves xs (xs[k := y])"
  by (cases "k < length xs") (auto simp: list_all2_conv_all_nth nth_list_update)

lemma cancel_all_pending_buys_trades [resp_intros]: "obeys trades (cancel_all_pending_buys i)"
proof -
  have "g_moves g (g\<lparr>g_levels := (g_levels g)[k := (g_levels g ! k)\<lparr>lv_buy_order_id := None\<rparr>]\<rparr>)" for g k
    unfolding g_moves_def same_range_def by (auto intro: list_update_moves)
  then show ?thesis
    unfolding cancel_all_pending_buys_def cancel_pending_buy_def Let_def by (intro resp_intros)
qed

lemma breaker_set_grids [resp_intros]: "obeys (same grids) (breaker_set i f)"
  unfolding breaker_set_def by (intro resp_intros) (simp split: option.splits)

lemma same_grids_trades: "obeys (same grids) m \<Longrightarrow> obeys trades m"
  unfolding obeys_def same_def trades_def by (simp add: grid_get_def)

lemmas breaker_set_trades [resp_intros] = breaker_set_grids [THEN same_grids_trades]

lemma breaker_check_trades [resp_intros]: "obeys trades (breaker_check i p)"
  unfolding breaker_check_def Let_def by (intro resp_intros)

lemma buy_gate_trades [resp_intros]: "obeys trades (buy_gate fl i p)"
  unfolding buy_gate_def Let_def
  by (intro resp_intros) (auto split: resume_mode.splits intro!: resp_intros)

lemma run_action_trades [resp_intros]: "obeys trades (run_action i j b a)"
  unfolding run_action_def by (auto split: action_kind.splits intro!: resp_intros)

lemma forward_price_trades [resp_intros]: "obeys trades (forward_price i p)"
  unfolding forward_price_def Let_def by (intro resp_intros)

lemma handlers_trade [resp_intros]:
  "obeys trades (on_price_update fl i p)" "obeys trades (activate_grid i p)"
  "obeys trades (pause_grid i)" "obeys trades (resume_grid i p)"
  "obeys trades (close_all_grid_orders i)" "obeys trades (force_buy i on op oq)"
  unfolding on_price_update_def active_tick_def activate_grid_def pause_grid_def resume_grid_def
    close_all_grid_orders_def force_buy_def cancel_quietly_def Let_def
  by (intro resp_intros; simp)+

lemma force_sell_trades [resp_intros]: "obeys trades (force_sell i on op oq)"
proof -
  have "obeys trades (force_sell_loop i g p q ks acc)" for g p q ks acc
    by (induction ks arbitrary: acc)
      (auto simp: force_sell_one_def cancel_quietly_def Let_def intro!: resp_intros)
  then show ?thesis unfolding force_sell_def Let_def by (intro resp_intros)
qed

lemma on_buy_filled_trades [resp_intros]: "obeys trades (on_buy_filled i n fp qty)"
  unfolding on_buy_filled_def enable_trailing_def Let_def
  by (intro resp_intros on_level_moves; simp)

lemma sold_level_moves:
  assumes "L_TP_HIT \<in> set (level_transitions (lv_status lv))"
  shows "lv_moves lv (sold_level b lv)"
proof -
  have "lv_status lv \<noteq> L_CANCELLED" using assms by auto
  then show ?thesis by (simp add: lv_moves_def sold_level_def)
qed

lemma on_sell_filled_trades [resp_intros]: "obeys trades (on_sell_filled i n fp qty)"
  unfolding obeys_def
proof
  fix s :: "('a, 'b, 'c) grid_engine_scheme"
  show "trades s (snd (on_sell_filled i n fp qty s))"
  proof (cases "get_level i n s")
    case None
    then show ?thesis by (simp add: on_sell_filled_def py_simps trading.R_refl)
  next
    case (Some lv)
    then obtain g where g: "grid_get i s = Some g" and lv: "find_level n (g_levels g) = Some lv"
      unfolding get_level_Some by blast
    show ?thesis
    proof (cases "L_TP_HIT \<in> set (level_transitions (lv_status lv))")
      case True
      have "g_moves g (sold_grid n lv fp qty g)"
        unfolding sold_grid_def
        by (rule g_moves_trans [OF on_level_moves g_moves_fields(2)]) (use lv True sold_level_moves in auto)
      with on_sell_filled_eq [OF g lv, of fp qty] True g show ?thesis by (auto simp: trades_def)
    next
      case False
      with on_sell_filled_eq [OF g lv, of fp qty] show ?thesis by (simp add: trading.R_refl)
    qed
  qed
qed

section \<open>Waiting levels have no order\<close>

definition clean :: "grid_state \<Rightarrow> bool" where
  "clean g \<longleftrightarrow> (\<forall>lv \<in> set (g_levels g). lv_status lv = L_WAITING \<longrightarrow> lv_buy_order_id lv = None)"

definition grids_clean :: "('x, 'f, 'm) grid_engine_scheme \<Rightarrow> bool" where
  "grids_clean s \<longleftrightarrow> (\<forall>i g. grid_get i s = Some g \<longrightarrow> clean g)"

abbreviation keeps_clean :: "('x, 'f, 'm, 'a) xg \<Rightarrow> bool" where
  "keeps_clean m \<equiv> obeys (keeps grids_clean) m"

lemma same_grids_clean: "obeys (same grids) m \<Longrightarrow> keeps_clean m"
  unfolding obeys_def same_def keeps_def grids_clean_def by (simp add: grid_get_def)

lemmas below_clean [resp_intros] = exec_below_grid [THEN below_grid_frames(1), THEN same_grids_clean]
  world_below_grid [THEN below_grid_frames(1), THEN same_grids_clean]
  pl_handlers_below_grid [THEN below_grid_frames(1), THEN same_grids_clean]
  breaker_set_grids [THEN same_grids_clean]

lemma grid_set_clean: "(\<And>g. clean g \<Longrightarrow> clean (f g)) \<Longrightarrow> keeps_clean (grid_set i f)"
  unfolding obeys_def keeps_def grids_clean_def grid_set_def modify_def
  by (auto split: option.splits)

lemma with_grid_clean [resp_intros]: "(\<And>g. keeps_clean (f g)) \<Longrightarrow> keeps_clean (with_grid i f)"
  unfolding with_grid_def by (intro resp_intros)

lemma set_level_in: "x \<in> set (set_level n f lvs) \<Longrightarrow> x \<in> set lvs \<or> (\<exists>lv. find_level n lvs = Some lv \<and> x = f lv)"
  by (induction lvs) (auto split: if_splits)

lemma on_level_clean:
  assumes "clean g"
    and "\<And>lv. find_level n (g_levels g) = Some lv \<Longrightarrow> lv_status (f lv) = L_WAITING \<Longrightarrow>
      lv_buy_order_id (f lv) = None"
  shows "clean (on_level n f g)"
  using assms set_level_in [of _ n f "g_levels g"] unfolding clean_def by fastforce

lemma clean_find: "clean g \<Longrightarrow> find_level n (g_levels g) = Some lv \<Longrightarrow> lv_status lv = L_WAITING \<Longrightarrow>
    lv_buy_order_id lv = None"
  unfolding clean_def by (auto dest: find_level_Some)

lemma update_level_clean:
  "(\<And>lv. lv_status (f lv) = lv_status lv \<and> (lv_buy_order_id lv = None \<longrightarrow> lv_buy_order_id (f lv) = None)) \<Longrightarrow>
   keeps_clean (update_level i n f)"
  unfolding update_level_def
  by (intro resp_intros grid_set_clean on_level_clean) (auto dest: clean_find)

lemma transition_grid_clean [resp_intros]: "keeps_clean (transition_grid i to)"
  unfolding transition_grid_def by (intro resp_intros grid_set_clean) (simp add: clean_def)

lemma transition_level_clean [resp_intros]: "to \<noteq> L_WAITING \<Longrightarrow> keeps_clean (transition_level i n to)"
  unfolding transition_level_def by (intro resp_intros grid_set_clean on_level_clean) auto

lemma open_level_clean:
  "keeps_clean (seq (update_level i n (record_order side oid)) (seq (transition_level i n L_OPEN) (ret r)))"
  unfolding obeys_def keeps_def
proof (intro allI impI)
  fix s :: "('a, 'b, 'c) grid_engine_scheme"
  assume s: "grids_clean s"
  let ?m = "seq (update_level i n (record_order side oid)) (seq (transition_level i n L_OPEN) (ret r))"
  show "grids_clean (snd (?m s))"
  proof (cases "get_level i n s")
    case None
    with s show ?thesis by (simp add: update_level_def py_simps)
  next
    case (Some lv)
    then obtain g where g: "grid_get i s = Some g" and lv: "find_level n (g_levels g) = Some lv"
      unfolding get_level_Some by blast
    have cg: "clean g" using s g by (simp add: grids_clean_def)
    have "clean (on_level n (\<lambda>lv. (record_order side oid lv)\<lparr>lv_status := L_OPEN\<rparr>) g)"
      by (rule on_level_clean [OF cg]) simp
    moreover have "clean (on_level n (record_order side oid) g)"
      if "L_OPEN \<notin> set (level_transitions (lv_status lv))"
      by (rule on_level_clean [OF cg]) (use that lv in \<open>auto\<close>)
    ultimately show ?thesis using s by (auto simp: open_level_eq [OF g lv] grids_clean_def)
  qed
qed

lemma grid_place_clean [resp_intros]: "keeps_clean (grid_place i a)"
  unfolding grid_place_def
  by (intro with_grid_clean inv.bind below_clean open_level_clean)

lemma clear_order_clean [resp_intros]: "keeps_clean (update_level i n (clear_order side))"
  by (rule update_level_clean) (simp add: clear_order_def)

lemma record_sell_clean [resp_intros]: "keeps_clean (update_level i n (record_order SELL oid))"
  by (rule update_level_clean) (simp add: record_order_def)

lemma grid_cancel_clean [resp_intros]: "keeps_clean (grid_cancel i a)"
  unfolding grid_cancel_def by (intro resp_intros; simp)

lemma price_clean [resp_intros]: "keeps_clean (grid_set i (\<lambda>g. g\<lparr>g_current_price := x\<rparr>))"
  by (rule grid_set_clean) (simp add: clean_def)

lemma cancel_all_pending_buys_clean [resp_intros]: "keeps_clean (cancel_all_pending_buys i)"
proof -
  have "clean (g\<lparr>g_levels := (g_levels g)[k := (g_levels g ! k)\<lparr>lv_buy_order_id := None\<rparr>]\<rparr>)"
    if "clean g" for g k
    using that set_update_subset_insert [of "g_levels g" k "(g_levels g ! k)\<lparr>lv_buy_order_id := None\<rparr>"]
    by (auto simp: clean_def)
  then show ?thesis
    unfolding cancel_all_pending_buys_def cancel_pending_buy_def Let_def
    by (intro resp_intros grid_set_clean)
qed

lemma breaker_check_clean [resp_intros]: "keeps_clean (breaker_check i p)"
  unfolding breaker_check_def Let_def by (intro resp_intros)

lemma buy_gate_clean [resp_intros]: "keeps_clean (buy_gate fl i p)"
  unfolding buy_gate_def Let_def
  by (intro resp_intros) (auto split: resume_mode.splits intro!: resp_intros)

lemma run_action_clean [resp_intros]: "keeps_clean (run_action i j b a)"
  unfolding run_action_def by (auto split: action_kind.splits intro!: resp_intros)

lemma forward_price_clean [resp_intros]: "keeps_clean (forward_price i p)"
  unfolding forward_price_def Let_def by (intro resp_intros)

lemma handlers_clean [resp_intros]:
  "keeps_clean (on_price_update fl i p)" "keeps_clean (activate_grid i p)" "keeps_clean (pause_grid i)"
  "keeps_clean (resume_grid i p)" "keeps_clean (close_all_grid_orders i)"
  unfolding on_price_update_def active_tick_def activate_grid_def pause_grid_def resume_grid_def
    close_all_grid_orders_def grid_place_each_def Let_def
  by (intro resp_intros; simp)+

lemma force_buy_clean [resp_intros]: "keeps_clean (force_buy i on op oq)"
  unfolding force_buy_def cancel_quietly_def Let_def
  by (intro with_grid_clean obeys_if inv.throw inv.bind inv.seq inv.lift_res inv.ret inv.try_catch
      obeys_option below_clean open_level_clean)

lemma force_sell_clean [resp_intros]: "keeps_clean (force_sell i on op oq)"
proof -
  have "keeps_clean (force_sell_loop i g p q ks acc)" for g p q ks acc
    by (induction ks arbitrary: acc)
      (auto simp: force_sell_one_def cancel_quietly_def Let_def intro!: resp_intros)
  then show ?thesis unfolding force_sell_def Let_def by (intro resp_intros)
qed

lemma on_buy_filled_clean [resp_intros]: "keeps_clean (on_buy_filled i n fp qty)"
proof -
  have "keeps_clean (grid_set i (on_level n (\<lambda>lv. lv\<lparr>lv_buy_order_id := None\<rparr>)))"
    by (intro grid_set_clean on_level_clean) simp_all
  then show ?thesis
    unfolding on_buy_filled_def enable_trailing_def Let_def by (intro resp_intros; simp)
qed

text \<open>A sell fill makes its level waiting; that is clean when the level has no open buy order.\<close>

lemma on_sell_filled_clean:
  fixes s :: "('x, 'f, 'm) grid_engine_scheme"
  assumes s: "grids_clean s" and no: "\<And>lv. get_level i n s = Some lv \<Longrightarrow> lv_buy_order_id lv = None"
  shows "grids_clean (snd (on_sell_filled i n fp qty s))"
proof (cases "get_level i n s")
  case None
  with s show ?thesis by (simp add: on_sell_filled_def py_simps)
next
  case (Some lv)
  then obtain g where g: "grid_get i s = Some g" and lv: "find_level n (g_levels g) = Some lv"
    unfolding get_level_Some by blast
  have "clean (on_level n (sold_level (g_status g = G_ACTIVE)) g)"
    by (rule on_level_clean) (use s g no [OF Some] lv in \<open>auto simp: grids_clean_def sold_level_def\<close>)
  then have "clean (sold_grid n lv fp qty g)" by (simp add: sold_grid_def clean_def)
  moreover have "grids_clean s'" if "clean h" and "\<forall>j. grid_get j s' = (if j = i then Some h else grid_get j s)"
    for h and s' :: "('x, 'f, 'm) grid_engine_scheme"
    using that s unfolding grids_clean_def by (metis option.inject)
  ultimately show ?thesis using on_sell_filled_eq [OF g lv, of fp qty] s
    by (cases "L_TP_HIT \<in> set (level_transitions (lv_status lv))") auto
qed

section \<open>Histories of the grids\<close>

text \<open>The handlers that trade, and the steps around them.\<close>

inductive trading_step :: "'f fl_ops \<Rightarrow> ('x, 'f, 'm) grid_engine_scheme \<Rightarrow>
    ('x, 'f, 'm) grid_engine_scheme \<Rightarrow> bool" for fl where
  activated: "trading_step fl s (snd (activate_grid i p s))"
| paused: "trading_step fl s (snd (pause_grid i s))"
| resumed: "trading_step fl s (snd (resume_grid i p s))"
| closed: "trading_step fl s (snd (close_all_grid_orders i s))"
| priced: "trading_step fl s (snd (on_price_update fl i p s))"
| bought: "trading_step fl s (snd (on_buy_filled i n fp qty s))"
| sold: "trading_step fl s (snd (on_sell_filled i n fp qty s))"
| forced_buy: "trading_step fl s (snd (force_buy i on op oq s))"
| forced_sell: "trading_step fl s (snd (force_sell i on op oq s))"
| elsewhere: "grids t = grids s \<Longrightarrow> trading_step fl s t"

lemma grids_eq_trades: "grids t = grids s \<Longrightarrow> trades s t"
  by (simp add: trades_def grid_get_def)

lemma grids_eq_clean: "grids t = grids s \<Longrightarrow> grids_clean s \<Longrightarrow> grids_clean t"
  by (simp add: grids_clean_def grid_get_def)

lemma trading_step_trades: "trading_step fl s t \<Longrightarrow> trades s t"
  by (induction rule: trading_step.induct)
    (simp_all add: handlers_trade [THEN obeysD] force_sell_trades [THEN obeysD]
      on_buy_filled_trades [THEN obeysD] on_sell_filled_trades [THEN obeysD] grids_eq_trades)

text \<open>
  The handlers that keep waiting levels without a buy order: all of them but a sell fill of a level that
  has one (a buy forced on a level whose sale is out leaves both orders on it).
\<close>

lemmas grids_clean_kept = handlers_clean [THEN keepsD] force_buy_clean [THEN keepsD] force_sell_clean [THEN keepsD]
  on_buy_filled_clean [THEN keepsD] on_sell_filled_clean grids_eq_clean

lemma calculated_levels_fresh:
  "calculate_grid_state_data up lo n amount = Ok d \<Longrightarrow> lv \<in> set (gd_levels d) \<Longrightarrow>
     lv_buy_order_id lv = None \<and> lv_status lv = L_WAITING"
  by (auto simp: calculate_grid_state_data_def calculate_levels_def uniform_level_def Let_def
      split: res.splits)

lemma averaged_levels_fresh:
  "averaging_levels sp amount prev steps = Ok lvs \<Longrightarrow> lv \<in> set lvs \<Longrightarrow>
     lv_buy_order_id lv = None \<and> lv_status lv = L_WAITING"
  by (induction steps arbitrary: prev lvs)
    (auto simp: averaging_level_def Let_def split: res.splits if_splits)

lemma averaged_data_fresh:
  "calculate_grid_state_data_with_averaging sp amount steps = Ok d \<Longrightarrow> lv \<in> set (gd_levels d) \<Longrightarrow>
     lv_buy_order_id lv = None \<and> lv_status lv = L_WAITING"
  by (auto simp: calculate_grid_state_data_with_averaging_def calculate_levels_with_averaging_def
      split: res.splits if_splits dest: averaged_levels_fresh)

lemma initialize_grid_clean:
  "keeps_clean (initialize_grid i acct symbol up lo n amount steps)"
  unfolding initialize_grid_def Let_def bind_lift_res
proof (rule obeys_res)
  fix d
  assume "(if steps \<noteq> None \<and> steps \<noteq> Some []
      then calculate_grid_state_data_with_averaging up amount (the steps)
      else calculate_grid_state_data up lo n amount) = Ok d"
  then have "\<And>lv. lv \<in> set (gd_levels d) \<Longrightarrow> lv_buy_order_id lv = None"
    by (auto split: if_splits dest: calculated_levels_fresh averaged_data_fresh)
  then have put: "g_levels g = gd_levels d \<Longrightarrow> keeps_clean (grid_put i g)" for g
    unfolding grid_put_def by (intro resp_intros) (auto simp: grids_clean_def clean_def)
  then show "keeps_clean (seq (grid_put i \<lparr>g_instance_id = i, g_status = G_IDLE, g_upper_price = up,
      g_lower_price = (if steps \<noteq> None \<and> steps \<noteq> Some [] then lv_buy_price (last (gd_levels d)) else lo),
      g_grid_count = (if steps \<noteq> None \<and> steps \<noteq> Some [] then int (length (gd_levels d)) else n),
      g_grid_spacing = gd_spacing d, g_investment_per_grid = amount, g_levels = gd_levels d,
      g_total_cycles = 0, g_total_profit = 0, g_exchange_account_id = acct, g_symbol = symbol,
      g_current_price = None\<rparr>) (seq (transition_grid i G_INITIALIZED) (with_grid i ret)))"
    by (intro inv.seq transition_grid_clean with_grid_clean inv.ret put grid_state.simps)
qed (rule inv.throw)

section \<open>The breaker, computed\<close>

text \<open>Where no waiting level has an order, the breaker cancels nothing.\<close>

lemma cancel_pending_buy_clean:
  assumes "grid_get i s = Some g" and "clean g" and "k < length (g_levels g)"
  shows "cancel_pending_buy i acct k s = (Ok (), s)"
proof -
  have "g_levels g ! k \<in> set (g_levels g)" using assms(3) by simp
  with assms(1,2) show ?thesis
    by (auto simp: cancel_pending_buy_def reading_def Let_def list_levels_def clean_def truthy_def ret_def)
qed

lemma for_each_skip: "(\<And>x. x \<in> set xs \<Longrightarrow> f x s = (Ok (), s)) \<Longrightarrow> for_each f xs s = (Ok (), s)"
  by (induction xs) (auto simp: seq_def bind_def ret_def)

lemma cancel_all_pending_buys_skip:
  assumes "grids_clean s"
  shows "cancel_all_pending_buys i s = (Ok (), s)"
proof (cases "grid_get i s")
  case (Some g)
  with assms have "clean g" by (simp add: grids_clean_def)
  then have "for_each (cancel_pending_buy i (g_exchange_account_id g)) [0..<length (g_levels g)] s = (Ok (), s)"
    by (intro for_each_skip cancel_pending_buy_clean [OF Some]) auto
  with Some show ?thesis by (simp add: cancel_all_pending_buys_def reading_def)
qed (simp add: cancel_all_pending_buys_def reading_def ret_def)

text \<open>When buys are blocked, the plan comes down to the sales of filled levels.\<close>

definition due_sales :: "grid_level list \<Rightarrow> decimal \<Rightarrow> grid_action list" where
  "due_sales lvs price =
     map sell_action (filter (\<lambda>lv. lv_status lv = L_FILLED \<and> lv_sell_price lv \<le> price) lvs)"

lemma plan_level_kind:
  "plan_level lv p = Some a \<Longrightarrow> ga_action a = PLACE_SELL \<longleftrightarrow>
     lv_status lv = L_FILLED \<and> lv_sell_price lv \<le> p \<and> a = sell_action lv"
  "plan_level lv p = Some a \<Longrightarrow> ga_action a = PLACE_BUY \<or> ga_action a = PLACE_SELL"
  by (auto simp: plan_level_def sell_action_def buy_action_def split: level_status.splits if_splits)

lemma plan_level_due:
  "lv_status lv = L_FILLED \<and> lv_sell_price lv \<le> p \<Longrightarrow> plan_level lv p = Some (sell_action lv)"
  by (simp add: plan_level_def)

lemma plan_Nil [simp]: "plan [] p act w = []"
  by (simp add: plan_def map_filter_simps)

lemma plan_Cons:
  "plan (lv # lvs) p act w =
     (case plan_level lv p of
        None \<Rightarrow> plan lvs p act w
      | Some a \<Rightarrow> (if ga_action a = PLACE_BUY \<and> skips_buy act w (ga_level a) then [] else [a]) @
          plan lvs p act w)"
  by (auto simp: plan_def map_filter_simps split: option.splits)

lemma run_blocked:
  assumes "just \<or> \<not> gate"
  shows "for_each (run_action i just gate) (plan lvs p act w) = grid_place_each i (due_sales lvs p)"
proof (induction lvs)
  case (Cons lv lvs)
  show ?case
  proof (cases "plan_level lv p")
    case None
    then have "\<not> (lv_status lv = L_FILLED \<and> lv_sell_price lv \<le> p)" using plan_level_due by fastforce
    with None Cons show ?thesis by (auto simp: plan_Cons due_sales_def)
  next
    case (Some a)
    show ?thesis
    proof (cases "ga_action a = PLACE_SELL")
      case True
      with plan_level_kind(1) [OF Some] have a: "lv_status lv = L_FILLED \<and> lv_sell_price lv \<le> p \<and>
        a = sell_action lv" by simp
      with True Some Cons show ?thesis
        by (simp add: plan_Cons due_sales_def grid_place_each_def run_action_def)
    next
      case False
      with plan_level_kind [OF Some] plan_level_due [of lv p] Some
      have "\<not> (lv_status lv = L_FILLED \<and> lv_sell_price lv \<le> p)" and "ga_action a = PLACE_BUY" by auto
      with Some Cons assms show ?thesis
        by (auto simp: plan_Cons due_sales_def grid_place_each_def run_action_def)
    qed
  qed
qed (simp add: due_sales_def grid_place_each_def)

end
