(* ===== verification/GridCorrectness.thy ===== *)
theory GridCorrectness
  imports GridEngine
begin

text \<open>
  The correctness of the grid engine: what one price does while the circuit breaker blocks buys,
  what pausing costs, and the histories of a grid. The
  definitions are those of \<^verbatim>\<open>GridModel\<close>, \<^verbatim>\<open>CircuitBreaker\<close> and \<^verbatim>\<open>GridEngine\<close>.
\<close>

section \<open>A price under the breaker\<close>

abbreviation with_price :: "decimal \<Rightarrow> grid_state \<Rightarrow> grid_state" where
  "with_price p g \<equiv> g\<lparr>g_current_price := Some p\<rparr>"

lemma breakers_grid_get [simp]:
  "grid_get i (s\<lparr>breakers := d\<rparr>) = grid_get i s" "list_levels i (s\<lparr>breakers := d\<rparr>) = list_levels i s"
  by (simp_all add: grid_get_def list_levels_def)

lemma grids_clean_price: "grids_clean s \<Longrightarrow> grid_get i s = Some g \<Longrightarrow>
    grids_clean (s\<lparr>grids := dput i (with_price p g) (grids s)\<rparr>)"
  using keepsD [OF price_clean, of s i "Some p"] by (simp add: grid_set_eq)

lemma grids_clean_breakers: "grids_clean s \<Longrightarrow> grids_clean (s\<lparr>breakers := d\<rparr>)"
  by (simp add: grids_clean_def)

text \<open>Whether buys are blocked at a price, by the breaker as it stands after the day check.\<close>

definition buys_blocked :: "'f fl_ops \<Rightarrow> string \<Rightarrow> decimal \<Rightarrow> 'f breaker \<Rightarrow>
    ('x, 'f, 'm) grid_engine_scheme \<Rightarrow> bool" where
  "buys_blocked fl i p b s \<longleftrightarrow> should_trigger p b \<or>
     cb_triggered b \<and>
     (cb_resume_mode b = TRAILING_BUY \<and> \<not> should_resume_trailing p (update_bottom p b) \<or>
      cb_resume_mode b = TA_CONFIRM \<and> ta_15m fl i p (update_bottom p b) s \<noteq> Some True)"

lemma breaker_set_eq:
  "dget (breakers s) i = Some b \<Longrightarrow> breaker_set i f s = (Ok (), s\<lparr>breakers := dput i (f b) (breakers s)\<rparr>)"
  by (simp add: breaker_set_def modify_def)

lemma breaker_check_eq:
  assumes "dget (breakers s) i = Some b" and "grids_clean s"
  shows "breaker_check i p s = (let b1 = check_new_day (clock s) p b in
    if should_trigger p b1 then (Ok True, s\<lparr>breakers := dput i (trigger (clock s) p b1) (breakers s)\<rparr>)
    else (Ok False, s\<lparr>breakers := dput i b1 (breakers s)\<rparr>))"
  using assms cancel_all_pending_buys_skip [OF grids_clean_breakers [OF assms(2)]]
  by (simp add: breaker_check_def reading_def Let_def seq_def bind_def breaker_set_eq ret_def)

text \<open>The gate leaves everything but the breaker alone, and it is shut when buys are blocked.\<close>

lemma buy_gate_eq:
  assumes "dget (breakers s) i = Some b"
  shows "\<exists>gate b2. buy_gate fl i p s = (Ok gate, s\<lparr>breakers := dput i b2 (breakers s)\<rparr>) \<and>
    (cb_triggered b \<and> buys_blocked fl i p b s \<longrightarrow> \<not> gate)"
proof (cases "cb_triggered b")
  case False
  have "s\<lparr>breakers := dput i b (breakers s)\<rparr> = s"
    using dput_self [OF assms] by simp
  with False assms show ?thesis by (auto simp: buy_gate_def py_simps intro!: exI [of _ b])
next
  case True
  let ?b1 = "update_bottom p b"
  have set1: "breaker_set i (\<lambda>_. ?b1) s = (Ok (), s\<lparr>breakers := dput i ?b1 (breakers s)\<rparr>)"
    by (rule breaker_set_eq [OF assms])
  let ?s1 = "s\<lparr>breakers := dput i ?b1 (breakers s)\<rparr>"
  have eq: "buy_gate fl i p s =
      (case cb_resume_mode b of
         WIDEN_STEP \<Rightarrow>
           seq (if ta_15m fl i p ?b1 s = Some True then breaker_set i reset else ret ()) (ret True)
       | TRAILING_BUY \<Rightarrow>
           if should_resume_trailing p ?b1 then seq (breaker_set i reset) (ret True) else ret False
       | TA_CONFIRM \<Rightarrow>
           (case ta_15m fl i p ?b1 s of
              None \<Rightarrow> ret False
            | Some passed \<Rightarrow> if passed then seq (breaker_set i reset) (ret True) else ret False)) ?s1"
    using True assms by (simp add: buy_gate_def reading_def Let_def seq_Ok set1)
  let ?confirmed = "ta_15m fl i p ?b1 s = Some True" and ?recovered = "should_resume_trailing p ?b1"
  define clears where "clears \<longleftrightarrow> (if cb_resume_mode b = TRAILING_BUY then ?recovered else ?confirmed)"
  define gate where "gate \<longleftrightarrow> cb_resume_mode b = WIDEN_STEP \<or> clears"
  define b2 where "b2 = (if clears then reset ?b1 else ?b1)"
  have reset: "breaker_set i reset ?s1 = (Ok (), s\<lparr>breakers := dput i (reset ?b1) (breakers s)\<rparr>)"
    by (simp add: breaker_set_eq [of ?s1 i ?b1])
  have "buy_gate fl i p s = (Ok gate, s\<lparr>breakers := dput i b2 (breakers s)\<rparr>)"
  proof (cases "cb_resume_mode b")
    case TA_CONFIRM
    then show ?thesis
      unfolding eq gate_def b2_def clears_def
      by (cases "ta_15m fl i p ?b1 s") (simp_all add: seq_Ok [of _ _ "()"] reset ret_def)
  next
    case WIDEN_STEP
    then show ?thesis
      unfolding eq gate_def b2_def clears_def
      by (cases ?confirmed) (simp_all add: seq_Ok [of _ _ "()"] reset ret_def)
  next
    case TRAILING_BUY
    then show ?thesis
      unfolding eq gate_def b2_def clears_def
      by (cases ?recovered) (simp_all add: seq_Ok [of _ _ "()"] reset ret_def)
  qed
  moreover have "buys_blocked fl i p b s \<Longrightarrow> \<not> gate"
    using True by (auto simp: buys_blocked_def should_trigger_def gate_def clears_def)
  ultimately show ?thesis by blast
qed

text \<open>
  One price for an active grid whose buys are blocked: the engine places the sales that are due and
  forwards the price to the locks, in a state that differs from the first one only in the recorded
  price and the breaker.
\<close>

lemma blocked_tick:
  assumes g: "grid_get i s = Some g" and act: "g_status g = G_ACTIVE" and clean: "grids_clean s"
    and b: "dget (breakers s) i = Some b"
    and blocked: "buys_blocked fl i p (check_new_day (clock s) p b) s"
  shows "\<exists>b2. on_price_update fl i p s =
    seq (grid_place_each i (due_sales (g_levels g) p)) (forward_price i p)
      (s\<lparr>grids := dput i (with_price p g) (grids s), breakers := dput i b2 (breakers s)\<rparr>)"
proof -
  let ?b1 = "check_new_day (clock s) p b"
  let ?s1 = "s\<lparr>grids := dput i (with_price p g) (grids s)\<rparr>"
  define just where "just \<longleftrightarrow> should_trigger p ?b1"
  define b2 where "b2 = (if just then trigger (clock s) p ?b1 else ?b1)"
  let ?s2 = "?s1\<lparr>breakers := dput i b2 (breakers s)\<rparr>"
  have set: "grid_set i (with_price p) s = (Ok (), ?s1)" by (rule grid_set_eq [OF g])
  have check: "breaker_check i p ?s1 = (Ok just, ?s2)"
    using breaker_check_eq [of ?s1 i b p] grids_clean_price [OF clean g] b
    by (simp add: just_def b2_def Let_def)
  have b2: "dget (breakers ?s2) i = Some b2" by simp
  obtain gate b3 where gate: "buy_gate fl i p ?s2 = (Ok gate, ?s2\<lparr>breakers := dput i b3 (breakers ?s2)\<rparr>)"
    and shut: "cb_triggered b2 \<and> buys_blocked fl i p b2 ?s2 \<longrightarrow> \<not> gate"
    using buy_gate_eq [OF b2] by blast
  have "just \<or> \<not> gate"
  proof (cases just)
    case False
    then have "b2 = ?b1" by (simp add: b2_def)
    moreover have "buys_blocked fl i p ?b1 ?s2"
      using blocked by (auto simp: buys_blocked_def ta_15m_def)
    moreover have "cb_triggered ?b1" using blocked False by (auto simp: buys_blocked_def just_def)
    ultimately show ?thesis using shut by simp
  qed simp
  moreover have "tick_plan i p ?s2 = plan (g_levels g) p (cb_triggered b2)
      (if cb_triggered b2 \<and> cb_resume_mode b2 = WIDEN_STEP then cb_widen_multiplier b2 else 1)"
    by (simp add: tick_plan_def) (simp add: list_levels_def grid_get_def)
  ultimately have "active_tick fl i p s =
    seq (grid_place_each i (due_sales (g_levels g) p)) (forward_price i p) (?s2\<lparr>breakers := dput i b3 (breakers ?s2)\<rparr>)"
    using set check gate
    by (simp add: active_tick_def seq_Ok bind_Ok bind_gets run_blocked)
  then have "on_price_update fl i p s =
    seq (grid_place_each i (due_sales (g_levels g) p)) (forward_price i p) (?s1\<lparr>breakers := dput i b3 (breakers s)\<rparr>)"
    using g act by (simp add: on_price_update_def reading_def)
  then show ?thesis by blast
qed

section \<open>Pausing\<close>









lemma trading_history_trades: "(trading_step fl)\<^sup>*\<^sup>* s t \<Longrightarrow> trades s t"
proof (induction rule: rtranclp_induct)
  case base
  show ?case by (rule trading.R_refl)
next
  case (step t u)
  from step.IH trading_step_trades [OF step.hyps(2)] show ?case by (rule trading.R_trans)
qed



section \<open>A grid on the paper exchange\<close>

definition paper_level :: "int \<Rightarrow> level_status \<Rightarrow> string option \<Rightarrow> grid_level" where
  "paper_level n st oid = \<lparr>lv_level = n, lv_buy_price = 100, lv_sell_price = 110, lv_quantity = 1,
     lv_buy_order_id = oid, lv_sell_order_id = None, lv_status = st\<rparr>"

definition paper_grid :: "string \<Rightarrow> grid_level list \<Rightarrow> grid_state" where
  "paper_grid st lvs = \<lparr>g_instance_id = ''g'', g_status = st, g_upper_price = 200, g_lower_price = 100,
     g_grid_count = int (length lvs), g_grid_spacing = 10, g_investment_per_grid = 100,
     g_levels = lvs, g_total_cycles = 0, g_total_profit = 0, g_exchange_account_id = Some 7,
     g_symbol = ''BTC'', g_current_price = Some 100\<rparr>"

definition grid_over :: "book exec_engine \<Rightarrow> grid_state list \<Rightarrow> rat breaker list \<Rightarrow> (book, rat) grid_engine" where
  "grid_over ex gs bs = plock_engine.extend (exec_engine.extend ex (plock_engine.fields [] []))
     (grid_engine.fields (map (Pair ''g'') gs) [] [] [] (map (Pair ''g'') bs) [] True)"

lemmas grid_over_defs = grid_over_def exec_engine.defs plock_engine.defs grid_engine.defs

lemma grid_over_simps [simp]:
  "grid_get i (grid_over ex [] bs) = None"
  "grid_get ''g'' (grid_over ex (g # gs) bs) = Some g"
  "breakers (grid_over ex gs bs) = map (Pair ''g'') bs"
  "trailing_config (grid_over ex gs bs) = []" "clock (grid_over ex gs bs) = clock ex"
  "trk (grid_over ex gs bs) = trk ex" "adapters (grid_over ex gs bs) = adapters ex"
  "exch (grid_over ex gs bs) = exch ex" "uuid_next (grid_over ex gs bs) = uuid_next ex"
  "executor_config (grid_over ex gs bs) = executor_config ex"
  by (simp_all add: grid_over_defs grid_get_def)

definition open_grid :: "(book, rat) grid_engine" where
  "open_grid = grid_over bought_state [paper_grid G_ACTIVE [paper_level 0 L_OPEN (Some ''x0'')]] []"

lemma open_grid_simps [simp]:
  "grid_get ''g'' open_grid = Some (paper_grid G_ACTIVE [paper_level 0 L_OPEN (Some ''x0'')])"
  "get_level ''g'' 0 open_grid = Some (paper_level 0 L_OPEN (Some ''x0''))"
  by (simp_all add: open_grid_def get_level_def paper_grid_def paper_level_def)




text \<open>A grid whose breaker has triggered today and waits for the price to recover.\<close>

definition tripped :: "rat breaker" where
  "tripped = (new_breaker exact ''g'' 10 0 TRAILING_BUY 100 1 (Some 200) [])
     \<lparr>cb_triggered := True, cb_trigger_date := Some (utc_today 0)\<rparr>"

definition tripped_grid :: "(book, rat) grid_engine" where
  "tripped_grid = grid_over (engine_on paper) [paper_grid G_ACTIVE [paper_level 0 L_WAITING None]] [tripped]"

lemma tripped_grid_simps:
  "grid_get ''g'' tripped_grid = Some (paper_grid G_ACTIVE [paper_level 0 L_WAITING None])"
  "dget (breakers tripped_grid) ''g'' = Some tripped"
  "clock tripped_grid = 0"
  by (simp_all add: tripped_grid_def engine_on_def)

section \<open>Properties\<close>


lemma trades_layout: "list_all2 lv_moves xs ys \<Longrightarrow>
    map (\<lambda>lv. (lv_level lv, lv_buy_price lv, lv_sell_price lv, lv_quantity lv)) ys =
    map (\<lambda>lv. (lv_level lv, lv_buy_price lv, lv_sell_price lv, lv_quantity lv)) xs"
  by (induction rule: list_all2_induct) (simp_all add: lv_moves_def)

lemma grid_never_restarts:
  assumes "grid_sm.reaches a b"
  shows "(a = G_COMPLETED \<longrightarrow> b = G_COMPLETED) \<and> (b = G_IDLE \<longrightarrow> a = G_IDLE) \<and>
    (b = G_INITIALIZED \<longrightarrow> a \<in> {G_IDLE, G_INITIALIZED})"
proof -
  let ?P = "\<lambda>x. (a = G_COMPLETED \<longrightarrow> x = G_COMPLETED) \<and> (x = G_IDLE \<longrightarrow> a = G_IDLE) \<and>
    (x = G_INITIALIZED \<longrightarrow> a \<in> {G_IDLE, G_INITIALIZED})"
  obtain bs where "grid_sm.run a bs = Ok b" using assms unfolding grid_sm.reaches_def by blast
  then show ?thesis
    by (rule grid_sm.run_invariant [where P = ?P]) (auto simp: grid_transitions_def split: if_splits)
qed




text \<open>
  C11. A grid keeps its layout whatever happens to it. Across any history of handlers (prices, fills,
  activation, pauses, manual orders) the grid is still there, with the same range, market and amount, and
  the same levels in the same order with their prices and quantities; its completed cycles are
  never counted down; a completed grid stays completed and none becomes idle or initialized again;
  and a cancelled level stays cancelled for good.
\<close>

theorem grid_history_keeps_layout:
  assumes "(trading_step fl)\<^sup>*\<^sup>* s t" and "grid_get i s = Some g"
  shows "\<exists>h. grid_get i t = Some h \<and> same_range g h \<and>
    map (\<lambda>lv. (lv_level lv, lv_buy_price lv, lv_sell_price lv, lv_quantity lv)) (g_levels h) =
    map (\<lambda>lv. (lv_level lv, lv_buy_price lv, lv_sell_price lv, lv_quantity lv)) (g_levels g) \<and>
    g_total_cycles g \<le> g_total_cycles h \<and>
    (g_status g = G_COMPLETED \<longrightarrow> g_status h = G_COMPLETED) \<and> (g_status h = G_IDLE \<longrightarrow> g_status g = G_IDLE) \<and>
    (g_status h = G_INITIALIZED \<longrightarrow> g_status g \<in> {G_IDLE, G_INITIALIZED}) \<and>
    (\<forall>k < length (g_levels g). lv_status (g_levels g ! k) = L_CANCELLED \<longrightarrow> lv_status (g_levels h ! k) = L_CANCELLED)"
proof -
  have "trades s t" using assms(1) by (rule trading_history_trades)
  then obtain h where h: "grid_get i t = Some h" and moves: "g_moves g h" using assms(2) by (auto simp: trades_def)
  then have "list_all2 lv_moves (g_levels g) (g_levels h)" by (simp add: g_moves_def)
  then have "\<forall>k < length (g_levels g). lv_status (g_levels g ! k) = L_CANCELLED \<longrightarrow> lv_status (g_levels h ! k) = L_CANCELLED"
    by (auto simp: list_all2_conv_all_nth lv_moves_def)
  with h moves show ?thesis
    using trades_layout [of "g_levels g" "g_levels h"] grid_never_restarts [of "g_status g" "g_status h"]
    by (intro exI [of _ h]) (simp add: g_moves_def)
qed

theorem grid_history_keeps_layout_witness:
  "\<exists>h. grid_get ''g'' (snd (on_price_update exact ''g'' 50 open_grid)) = Some h \<and> g_status h \<noteq> G_IDLE \<and>
     map lv_level (g_levels h) = [0] \<and> g_symbol h = g_symbol (paper_grid G_ACTIVE [])"
proof -
  have "(trading_step exact)\<^sup>*\<^sup>* open_grid (snd (on_price_update exact ''g'' 50 open_grid))"
    by (rule r_into_rtranclp, rule trading_step.priced)
  from grid_history_keeps_layout [OF this open_grid_simps(1)] show ?thesis
    by (auto simp: paper_grid_def paper_level_def same_range_def)
qed



text \<open>
  While no waiting level has an order, the circuit breaker's \<^verbatim>\<open>_cancel_all_pending_buys\<close> does nothing
  at all: it looks for waiting levels that have one. So the buy orders that are open at the exchange when
  the breaker triggers stay open.
\<close>

theorem breaker_cancels_no_open_buy:
  assumes "grids_clean s"
  shows "cancel_all_pending_buys i s = (Ok (), s)"
  using assms by (rule cancel_all_pending_buys_skip)

lemma new_grid_clean:
  assumes "grids s = []"
  shows "grids_clean (snd (initialize_grid i acct symbol up lo n amount steps s))"
  by (rule keepsD [OF initialize_grid_clean]) (simp add: assms grids_clean_def grid_get_def)

text \<open>
  C13. While the circuit breaker blocks buys (it triggers at this price, or it is active and its
  resume condition does not hold), a price makes an active grid place only the sales that are due,
  each of a filled level whose sell price is reached, and forwards the price to the profit locks;
  before that only the recorded price and the breaker itself have changed. The first hypothesis, that no
  waiting level has a buy order, holds of a new grid and is kept by every handler except the sell fill of
  a level on which a buy was forced while its sale was out.
\<close>

theorem breaker_blocks_buys:
  assumes "grids_clean s" and "grid_get i s = Some g" and "g_status g = G_ACTIVE"
    and "dget (breakers s) i = Some b"
    and "buys_blocked fl i p (check_new_day (clock s) p b) s"
  shows "\<exists>b2. on_price_update fl i p s =
    seq (grid_place_each i (due_sales (g_levels g) p)) (forward_price i p)
      (s\<lparr>grids := dput i (with_price p g) (grids s), breakers := dput i b2 (breakers s)\<rparr>)"
  using assms by (intro blocked_tick)

theorem breaker_blocks_buys_witness:
  "\<exists>b2. on_price_update exact ''g'' 50 tripped_grid = forward_price ''g'' 50
      (tripped_grid\<lparr>grids := dput ''g'' (with_price 50 (paper_grid G_ACTIVE [paper_level 0 L_WAITING None]))
         (grids tripped_grid), breakers := dput ''g'' b2 (breakers tripped_grid)\<rparr>)"
proof -
  have "grids_clean tripped_grid"
    by (auto simp: grids_clean_def tripped_grid_def grid_over_defs grid_get_def clean_def paper_grid_def
        paper_level_def split: if_splits)
  moreover have "g_status (paper_grid G_ACTIVE [paper_level 0 L_WAITING None]) = G_ACTIVE"
    by (simp add: paper_grid_def)
  moreover have "buys_blocked exact ''g'' 50 (check_new_day (clock tripped_grid) 50 tripped) tripped_grid"
    by (simp add: buys_blocked_def tripped_grid_simps tripped_def check_new_day_def new_breaker_def
        should_resume_trailing_def update_bottom_def should_trigger_def ddiv_def dadd_def dmul_def rep_numeral)
  ultimately obtain b2 where "on_price_update exact ''g'' 50 tripped_grid =
    seq (grid_place_each ''g'' (due_sales (g_levels (paper_grid G_ACTIVE [paper_level 0 L_WAITING None])) 50))
      (forward_price ''g'' 50) (tripped_grid\<lparr>grids := dput ''g'' (with_price 50 (paper_grid G_ACTIVE [paper_level 0 L_WAITING None]))
         (grids tripped_grid), breakers := dput ''g'' b2 (breakers tripped_grid)\<rparr>)"
    using breaker_blocks_buys [OF _ tripped_grid_simps(1) _ tripped_grid_simps(2), of exact 50] by blast
  moreover have "due_sales (g_levels (paper_grid G_ACTIVE [paper_level 0 L_WAITING None])) 50 = []"
    by (simp add: due_sales_def paper_grid_def paper_level_def)
  ultimately show ?thesis by (auto simp: grid_place_each_def seq_Ok ret_def)
qed

end
