(* ===== verification/RetryRounds.thy ===== *)
theory RetryRounds
  imports Prelude
begin

text \<open>
  Queues that are worked off in rounds: the retry worker and the notification queue take their queue,
  try every entry, and put back those that failed with attempts left. The locale states what a round
  promises; inside it, enough rounds empty the queue.
\<close>

fun repeat :: "nat \<Rightarrow> ('s, 'a) py \<Rightarrow> ('s, unit) py" where
  "repeat 0 m = ret ()"
| "repeat (Suc n) m = seq m (repeat n m)"

locale retry_rounds =
  fixes queue :: "'s \<Rightarrow> 'j list" and attempts_left :: "'j \<Rightarrow> int" and round :: "('s, 'a) py"
    and good :: "'s \<Rightarrow> bool"
  assumes round_step: "good s \<Longrightarrow> \<exists>a t. round s = (Ok a, t) \<and> good t \<and>
    (\<forall>k \<in> set (queue t). \<exists>j \<in> set (queue s). attempts_left k = attempts_left j - 1 \<and> 0 < attempts_left k)"
begin

lemma rounds_drain:
  assumes "good s" and "\<forall>j \<in> set (queue s). attempts_left j \<le> int n" and "0 < n"
  shows "\<exists>t. repeat n round s = (Ok (), t) \<and> good t \<and> queue t = []"
  using assms
proof (induction n arbitrary: s)
  case (Suc n)
  obtain a t where t: "round s = (Ok a, t)" "good t"
    and step: "\<forall>k \<in> set (queue t). \<exists>j \<in> set (queue s). attempts_left k = attempts_left j - 1 \<and> 0 < attempts_left k"
    using round_step [OF Suc.prems(1)] by blast
  have less: "k \<in> set (queue t) \<Longrightarrow> 0 < attempts_left k \<and> attempts_left k \<le> int n" for k
    using step Suc.prems(2) by fastforce
  show ?case
  proof (cases "n = 0")
    case True
    then have "queue t = []" using less [of "hd (queue t)"] by (cases "queue t") auto
    with t True show ?thesis by (simp add: seq_Ok ret_def)
  next
    case False
    with Suc.IH [of t] t less show ?thesis by (simp add: seq_Ok)
  qed
qed simp

lemma rounds_never_raise: "good s \<Longrightarrow> \<exists>t. repeat n round s = (Ok (), t) \<and> good t"
proof (induction n arbitrary: s)
  case (Suc n)
  obtain a t where "round s = (Ok a, t)" "good t" using round_step [OF Suc.prems] by blast
  with Suc.IH [of t] show ?case by (simp add: seq_Ok)
qed (simp add: ret_def)

end

text \<open>One round over the entries: take the queue, handle each entry, collect the answers.\<close>

definition queue_round :: "('s \<Rightarrow> 'j list) \<Rightarrow> ('s \<Rightarrow> 's) \<Rightarrow> ('j \<Rightarrow> ('s, 'r) py) \<Rightarrow> ('s, 'r list) py" where
  "queue_round queue clear one = reading (\<lambda>s.
     seq (modify clear) (collect (\<lambda>j. bind (one j) (\<lambda>r. ret [r])) (queue s)))"

text \<open>
  The contract for one entry. \<open>balance n\<close> is the account of the queue when \<open>n\<close> entries taken from it
  are still to be handled.
\<close>

locale retry_queue =
  fixes queue :: "'s \<Rightarrow> 'j list" and clear :: "'s \<Rightarrow> 's" and attempts_left :: "'j \<Rightarrow> int"
    and one :: "'j \<Rightarrow> ('s, 'r) py" and balance :: "int \<Rightarrow> 's \<Rightarrow> bool"
  assumes queue_clear: "queue (clear s) = []"
    and balance_clear: "balance 0 s \<Longrightarrow> balance (int (length (queue s))) (clear s)"
    and one_step: "balance (1 + n) s \<Longrightarrow> \<exists>r t ks. one j s = (Ok r, t) \<and> balance n t \<and> queue t = queue s @ ks \<and>
      (\<forall>k \<in> set ks. attempts_left k = attempts_left j - 1 \<and> 0 < attempts_left k)"
begin

lemma collect_entries:
  assumes "balance (int (length js) + n) s"
  shows "\<exists>rs t ks. collect (\<lambda>j. bind (one j) (\<lambda>r. ret [r])) js s = (Ok rs, t) \<and> length rs = length js \<and>
    balance n t \<and> queue t = queue s @ ks \<and>
    (\<forall>k \<in> set ks. \<exists>j \<in> set js. attempts_left k = attempts_left j - 1 \<and> 0 < attempts_left k)"
  using assms
proof (induction js arbitrary: s)
  case Nil
  then show ?case by (simp add: ret_def)
next
  case (Cons j js)
  have "balance (1 + (int (length js) + n)) s" using Cons.prems by (simp add: ac_simps)
  then obtain r s1 k1 where 1: "one j s = (Ok r, s1)" "queue s1 = queue s @ k1"
    "\<forall>k \<in> set k1. attempts_left k = attempts_left j - 1 \<and> 0 < attempts_left k"
    and "balance (int (length js) + n) s1" using one_step by blast
  from Cons.IH [OF this(4)] obtain rs t k2 where
    2: "collect (\<lambda>j. bind (one j) (\<lambda>r. ret [r])) js s1 = (Ok rs, t)" "length rs = length js" "balance n t"
      "queue t = queue s1 @ k2"
      "\<forall>k \<in> set k2. \<exists>j \<in> set js. attempts_left k = attempts_left j - 1 \<and> 0 < attempts_left k" by blast
  have "collect (\<lambda>j. bind (one j) (\<lambda>r. ret [r])) (j # js) s = (Ok (r # rs), t)"
    using 1(1) 2(1) by (simp add: bind_Ok ret_def)
  then show ?case using 1 2 by fastforce
qed

lemma round_effect:
  assumes "balance 0 s"
  shows "\<exists>rs t. queue_round queue clear one s = (Ok rs, t) \<and> length rs = length (queue s) \<and> balance 0 t \<and>
    (\<forall>k \<in> set (queue t). \<exists>j \<in> set (queue s). attempts_left k = attempts_left j - 1 \<and> 0 < attempts_left k)"
proof -
  have "balance (int (length (queue s)) + 0) (clear s)" using balance_clear [OF assms] by simp
  from collect_entries [OF this] show ?thesis
    by (auto simp: queue_round_def reading_def seq_Ok modify_def queue_clear)
qed

end

sublocale retry_queue \<subseteq> retry_rounds queue attempts_left "queue_round queue clear one" "balance 0"
  by unfold_locales (use round_effect in blast)

end
