(* ===== verification/RetryWorker.thy ===== *)
theory RetryWorker
  imports DomainTypes RetryRounds
begin

text \<open>
  \<^verbatim>\<open>engine/scheduler/retry.py\<close>: failed jobs are run again, round by round, until they succeed or
  have failed \<^verbatim>\<open>max_retries\<close> times; then they go to the dead letter callback. A job's coroutine is
  a name of arbitrary type \<open>'c\<close> and \<open>call\<close>, an argument of the operations, is what calling it does
  to the whole state; \<open>dlq\<close> is the optional callback.
\<close>

section \<open>State\<close>

record 'c retry_job =
  rj_task_id :: string
  rj_coroutine :: 'c
  rj_retry_count :: int
  rj_max_retries :: int
  rj_created_at :: datetime
  rj_last_error :: "exn option"

record retry_metrics =
  jobs_submitted :: int
  jobs_succeeded :: int
  jobs_retried :: int
  jobs_failed :: int
  moved_to_dlq :: int

record ('x, 'c) retry_worker = "'x world" +
  rw_max_retries :: int
  rw_backoff_base :: int
  rw_queue :: "'c retry_job list"
  rw_metrics :: retry_metrics

type_synonym ('x, 'c, 'm, 'a) rw = "(('x, 'c, 'm) retry_worker_scheme, 'a) py"

datatype job_status = JOB_SUCCESS | JOB_RETRY | JOB_FAILED

record job_report =
  jr_task_id :: string
  jr_status :: job_status
  jr_attempts :: int
  jr_error :: "exn option"

section \<open>Operations\<close>

definition rw_count :: "(retry_metrics \<Rightarrow> retry_metrics) \<Rightarrow> ('x, 'c, 'm, unit) rw" where
  "rw_count f = modify (\<lambda>s. s\<lparr>rw_metrics := f (rw_metrics s)\<rparr>)"

definition rw_enqueue :: "'c retry_job \<Rightarrow> ('x, 'c, 'm, unit) rw" where
  "rw_enqueue j = modify (\<lambda>s. s\<lparr>rw_queue := rw_queue s @ [j]\<rparr>)"

definition rw_submit :: "string \<Rightarrow> 'c \<Rightarrow> ('x, 'c, 'm, string) rw" where
  "rw_submit task_id c = reading (\<lambda>s.
     seq (rw_enqueue \<lparr>rj_task_id = task_id, rj_coroutine = c, rj_retry_count = 0,
            rj_max_retries = rw_max_retries s, rj_created_at = clock s, rj_last_error = None\<rparr>)
     (seq (rw_count (\<lambda>m. m\<lparr>jobs_submitted := jobs_submitted m + 1\<rparr>)) (ret task_id)))"

definition get_backoff_seconds :: "int \<Rightarrow> int \<Rightarrow> int" where
  "get_backoff_seconds base retry_count =
     (if retry_count \<le> 0 then 0 else base * 2 ^ nat (retry_count - 1))"

definition retried :: "'c retry_job \<Rightarrow> exn \<Rightarrow> 'c retry_job" where
  "retried j e = j\<lparr>rj_last_error := Some e, rj_retry_count := rj_retry_count j + 1\<rparr>"

text \<open>The dead letter callback; what it raises is logged and dropped.\<close>

definition hand_over :: "('c retry_job \<Rightarrow> exn \<Rightarrow> ('x, 'c, 'm, unit) rw) option \<Rightarrow> 'c retry_job \<Rightarrow> exn \<Rightarrow>
    ('x, 'c, 'm, unit) rw" where
  "hand_over dlq j e = (case dlq of None \<Rightarrow> ret () | Some f \<Rightarrow> try_catch (f j e) (\<lambda>_. ret ()))"

text \<open>What follows the failure of a job: it is queued again or given up.\<close>

definition job_failed :: "('c retry_job \<Rightarrow> exn \<Rightarrow> ('x, 'c, 'm, unit) rw) option \<Rightarrow> 'c retry_job \<Rightarrow> exn \<Rightarrow>
    ('x, 'c, 'm, job_report) rw" where
  "job_failed dlq job e =
     (let j = retried job e
      in if rj_retry_count j < rj_max_retries j
         then seq (rw_enqueue j)
           (seq (rw_count (\<lambda>m. m\<lparr>jobs_retried := jobs_retried m + 1\<rparr>))
             (ret \<lparr>jr_task_id = rj_task_id j, jr_status = JOB_RETRY, jr_attempts = rj_retry_count j,
                   jr_error = Some e\<rparr>))
         else seq (rw_count (\<lambda>m. m\<lparr>jobs_failed := jobs_failed m + 1, moved_to_dlq := moved_to_dlq m + 1\<rparr>))
           (seq (hand_over dlq j e)
             (ret \<lparr>jr_task_id = rj_task_id j, jr_status = JOB_FAILED, jr_attempts = rj_retry_count j,
                   jr_error = Some e\<rparr>)))"

text \<open>The wait before a repeated attempt.\<close>

definition backoff_wait :: "'c retry_job \<Rightarrow> ('x, 'c, 'm, unit) rw" where
  "backoff_wait job = reading (\<lambda>s.
     let backoff = get_backoff_seconds (rw_backoff_base s) (rj_retry_count job)
     in if 0 < backoff \<and> 0 < rj_retry_count job then sleep (of_int backoff) else ret ())"

definition process_job :: "('c \<Rightarrow> ('x, 'c, 'm, unit) rw) \<Rightarrow>
    ('c retry_job \<Rightarrow> exn \<Rightarrow> ('x, 'c, 'm, unit) rw) option \<Rightarrow> 'c retry_job \<Rightarrow>
    ('x, 'c, 'm, job_report) rw" where
  "process_job call dlq job =
     seq (backoff_wait job)
       (try_catch
         (seq (call (rj_coroutine job))
           (seq (rw_count (\<lambda>m. m\<lparr>jobs_succeeded := jobs_succeeded m + 1\<rparr>))
             (ret \<lparr>jr_task_id = rj_task_id job, jr_status = JOB_SUCCESS,
                   jr_attempts = rj_retry_count job + 1, jr_error = None\<rparr>)))
         (job_failed dlq job))"

definition process_queue :: "('c \<Rightarrow> ('x, 'c, 'm, unit) rw) \<Rightarrow>
    ('c retry_job \<Rightarrow> exn \<Rightarrow> ('x, 'c, 'm, unit) rw) option \<Rightarrow> ('x, 'c, 'm, job_report list) rw" where
  "process_queue call dlq = reading (\<lambda>s.
     seq (modify (\<lambda>s. s\<lparr>rw_queue := []\<rparr>))
       (collect (\<lambda>job. bind (process_job call dlq job) (\<lambda>r. ret [r])) (rw_queue s)))"

definition rw_queue_size :: "('x, 'c, 'm, nat) rw" where
  "rw_queue_size = gets (\<lambda>s. length (rw_queue s))"

text \<open>The rounds a caller makes.\<close>

fun rw_rounds :: "('c \<Rightarrow> ('x, 'c, 'm, unit) rw) \<Rightarrow>
    ('c retry_job \<Rightarrow> exn \<Rightarrow> ('x, 'c, 'm, unit) rw) option \<Rightarrow> nat \<Rightarrow> ('x, 'c, 'm, unit) rw" where
  "rw_rounds call dlq 0 = ret ()"
| "rw_rounds call dlq (Suc n) = seq (process_queue call dlq) (rw_rounds call dlq n)"

section \<open>One job\<close>

text \<open>Jobs and callbacks that leave the worker's queue and counters to it.\<close>

definition well_behaved :: "('c \<Rightarrow> ('x, 'c, 'm, unit) rw) \<Rightarrow>
    ('c retry_job \<Rightarrow> exn \<Rightarrow> ('x, 'c, 'm, unit) rw) option \<Rightarrow> bool" where
  "well_behaved call dlq \<longleftrightarrow>
     (\<forall>c. obeys (same (\<lambda>s. (rw_queue s, rw_metrics s))) (call c)) \<and>
     (\<forall>f. dlq = Some f \<longrightarrow> (\<forall>j e. obeys (same (\<lambda>s. (rw_queue s, rw_metrics s))) (f j e)))"

text \<open>What one job does to the worker: at most one job is queued again, and one counter of the
  outcome grows.\<close>

definition job_effect :: "'c retry_job \<Rightarrow> job_report \<Rightarrow> ('x, 'c, 'm) retry_worker_scheme \<Rightarrow>
    ('x, 'c, 'm) retry_worker_scheme \<Rightarrow> bool" where
  "job_effect j r s t \<longleftrightarrow>
     (case jr_status r of
        JOB_SUCCESS \<Rightarrow> rw_queue t = rw_queue s \<and>
          rw_metrics t = (rw_metrics s)\<lparr>jobs_succeeded := jobs_succeeded (rw_metrics s) + 1\<rparr>
      | JOB_RETRY \<Rightarrow> rj_retry_count j + 1 < rj_max_retries j \<and>
          (\<exists>e. jr_error r = Some e \<and> rw_queue t = rw_queue s @ [retried j e]) \<and>
          rw_metrics t = (rw_metrics s)\<lparr>jobs_retried := jobs_retried (rw_metrics s) + 1\<rparr>
      | JOB_FAILED \<Rightarrow> rj_max_retries j \<le> rj_retry_count j + 1 \<and> rw_queue t = rw_queue s \<and>
          rw_metrics t = (rw_metrics s)\<lparr>jobs_failed := jobs_failed (rw_metrics s) + 1,
            moved_to_dlq := moved_to_dlq (rw_metrics s) + 1\<rparr>)"

lemma frame_at: "obeys (same f) m \<Longrightarrow> m s = (r, t) \<Longrightarrow> f t = f s"
  by (metis sameD snd_conv)

abbreviation books :: "('x, 'c, 'm) retry_worker_scheme \<Rightarrow> 'c retry_job list \<times> retry_metrics" where
  "books s \<equiv> (rw_queue s, rw_metrics s)"

lemma hand_over_ok:
  assumes "well_behaved call dlq"
  shows "\<exists>t. hand_over dlq j e s = (Ok (), t) \<and> books t = books s"
proof (cases dlq)
  case (Some f)
  obtain r t where f: "f j e s = (r, t)" by (cases "f j e s")
  have "obeys (same books) (f j e)" using assms Some by (simp add: well_behaved_def)
  from frame_at [OF this f] f Some show ?thesis
    by (cases r) (auto simp: hand_over_def try_catch_def ret_def)
qed (simp add: hand_over_def ret_def)

lemma rw_count_eq: "rw_count f s = (Ok (), s\<lparr>rw_metrics := f (rw_metrics s)\<rparr>)"
  by (simp add: rw_count_def modify_def)

lemma rw_enqueue_eq: "rw_enqueue j s = (Ok (), s\<lparr>rw_queue := rw_queue s @ [j]\<rparr>)"
  by (simp add: rw_enqueue_def modify_def)

lemma job_failed_effect:
  assumes "well_behaved call dlq" and "books s1 = books s"
  shows "\<exists>r t. job_failed dlq j e s1 = (Ok r, t) \<and> jr_status r \<noteq> JOB_SUCCESS \<and> job_effect j r s t"
proof (cases "rj_retry_count j + 1 < rj_max_retries j")
  case True
  with assms(2) show ?thesis
    by (simp add: job_failed_def retried_def seq_Ok rw_enqueue_eq rw_count_eq ret_def
        job_effect_def)
next
  case False
  let ?s2 = "s1\<lparr>rw_metrics := (rw_metrics s1)\<lparr>jobs_failed := jobs_failed (rw_metrics s1) + 1,
    moved_to_dlq := moved_to_dlq (rw_metrics s1) + 1\<rparr>\<rparr>"
  obtain t where t: "hand_over dlq (retried j e) e ?s2 = (Ok (), t)" and same: "books t = books ?s2"
    using hand_over_ok [OF assms(1)] by blast
  have "rj_retry_count (retried j e) = rj_retry_count j + 1" "rj_max_retries (retried j e) = rj_max_retries j"
    by (simp_all add: retried_def)
  with False have "job_failed dlq j e s1 = (Ok \<lparr>jr_task_id = rj_task_id (retried j e),
      jr_status = JOB_FAILED, jr_attempts = rj_retry_count j + 1, jr_error = Some e\<rparr>, t)"
    by (simp add: job_failed_def Let_def seq_Ok rw_count_eq t ret_def)
  with False same assms(2) show ?thesis by (simp add: job_effect_def)
qed

lemma backoff_wait_ok: "\<exists>t. backoff_wait j s = (Ok (), t) \<and> books t = books s"
  by (cases "0 < get_backoff_seconds (rw_backoff_base s) (rj_retry_count j) \<and> 0 < rj_retry_count j")
    (simp_all add: backoff_wait_def reading_def Let_def sleep_def modify_def ret_def)

lemma process_job_effect:
  assumes "well_behaved call dlq"
  shows "\<exists>r t. process_job call dlq j s = (Ok r, t) \<and> job_effect j r s t"
proof -
  obtain s1 where s1: "backoff_wait j s = (Ok (), s1)" and same1: "books s1 = books s"
    using backoff_wait_ok by blast
  obtain r s2 where c: "call (rj_coroutine j) s1 = (r, s2)" by (cases "call (rj_coroutine j) s1")
  have "obeys (same books) (call (rj_coroutine j))"
    using assms by (simp add: well_behaved_def)
  from frame_at [OF this c] same1 have same2: "books s2 = books s" by simp
  show ?thesis
  proof (cases r)
    case (Ok u)
    with c same2 show ?thesis
      by (simp add: process_job_def seq_Ok s1 try_catch_def rw_count_eq ret_def job_effect_def)
  next
    case (Raise e)
    from job_failed_effect [OF assms same2, of j e] obtain r t where
      "job_failed dlq j e s2 = (Ok r, t)" "job_effect j r s t" by blast
    with c Raise show ?thesis
      by (simp add: process_job_def seq_Ok s1 try_catch_def seq_Raise)
  qed
qed

section \<open>Rounds\<close>

text \<open>A round handles the queue it finds; what it leaves are the jobs that failed and may run again.\<close>

definition may_retry :: "'c retry_job \<Rightarrow> 'c retry_job \<Rightarrow> bool" where
  "may_retry j k \<longleftrightarrow> rj_retry_count j + 1 < rj_max_retries j \<and> (\<exists>e. k = retried j e)"

text \<open>The account of the counters: every job submitted is done, given up or still queued.\<close>

definition accounted :: "('x, 'c, 'm) retry_worker_scheme \<Rightarrow> int \<Rightarrow> bool" where
  "accounted s pending \<longleftrightarrow> jobs_submitted (rw_metrics s) =
     jobs_succeeded (rw_metrics s) + jobs_failed (rw_metrics s) + int (length (rw_queue s)) + pending"

lemma job_effect_accounted:
  "job_effect j r s t \<Longrightarrow> accounted s (1 + n) \<Longrightarrow> accounted t n"
  by (auto simp: job_effect_def accounted_def split: job_status.splits)

definition budget :: "'c retry_job \<Rightarrow> int" where
  "budget j = rj_max_retries j - rj_retry_count j"

lemma may_retry_budget: "may_retry j k \<Longrightarrow> budget k = budget j - 1 \<and> 0 < budget k"
  by (auto simp: may_retry_def budget_def retried_def)

interpretation rw: retry_queue rw_queue "\<lambda>s. s\<lparr>rw_queue := []\<rparr>" budget "process_job call dlq"
    "\<lambda>n s. well_behaved call dlq \<and> accounted s n"
  for call :: "'c \<Rightarrow> ('x, 'c, 'm, unit) rw" and dlq
proof
  fix n j and s :: "('x, 'c, 'm) retry_worker_scheme"
  assume "well_behaved call dlq \<and> accounted s (1 + n)"
  then obtain r t where p: "process_job call dlq j s = (Ok r, t)" "job_effect j r s t"
    using process_job_effect by blast
  then have "\<exists>ks. rw_queue t = rw_queue s @ ks \<and> (\<forall>k \<in> set ks. may_retry j k)"
    by (auto simp: job_effect_def may_retry_def split: job_status.splits)
  with p \<open>well_behaved call dlq \<and> accounted s (1 + n)\<close>
  show "\<exists>r t ks. process_job call dlq j s = (Ok r, t) \<and> (well_behaved call dlq \<and> accounted t n) \<and>
      rw_queue t = rw_queue s @ ks \<and> (\<forall>k \<in> set ks. budget k = budget j - 1 \<and> 0 < budget k)"
    using job_effect_accounted may_retry_budget by blast
qed (auto simp: accounted_def)

lemma rw_rounds_repeat: "rw_rounds call dlq n =
    repeat n (queue_round rw_queue (\<lambda>s. s\<lparr>rw_queue := []\<rparr>) (process_job call dlq))"
  by (induction n) (simp_all add: process_queue_def queue_round_def)

section \<open>Properties\<close>

text \<open>
  Retrying comes to an end. When jobs and the dead letter callback leave the worker's own queue
  and counters alone, every round returns (nothing a job or the callback raises escapes); once as many
  rounds have been made as the jobs have attempts left, the queue is empty, and if every submitted
  job was accounted for before, each one has now either succeeded or been given up.
\<close>

theorem retry_rounds_drain:
  assumes "well_behaved call dlq" and "\<forall>j \<in> set (rw_queue s). budget j \<le> int n" and "0 < n"
    and "accounted s 0"
  shows "\<exists>t. rw_rounds call dlq n s = (Ok (), t) \<and> rw_queue t = [] \<and>
    jobs_submitted (rw_metrics t) = jobs_succeeded (rw_metrics t) + jobs_failed (rw_metrics t)"
  using rw.rounds_drain [of call dlq s n] assms by (auto simp: rw_rounds_repeat accounted_def)

definition sample_worker :: "(unit, string) retry_worker" where
  "sample_worker = \<lparr>clock = 0, uuid_next = 0, sleeps = [], exch = (), rw_max_retries = 3,
     rw_backoff_base = 1, rw_queue = [], rw_metrics = \<lparr>jobs_submitted = 0, jobs_succeeded = 0,
       jobs_retried = 0, jobs_failed = 0, moved_to_dlq = 0\<rparr>\<rparr>"

theorem retry_rounds_drain_witness:
  "\<exists>t. rw_rounds (\<lambda>c. if c = ''bad'' then throw (Exn OtherException []) else ret ()) None 3
      (snd (rw_submit ''b'' ''bad'' (snd (rw_submit ''a'' ''good'' sample_worker)))) = (Ok (), t) \<and>
    rw_queue t = []"
proof -
  let ?call = "\<lambda>c :: string. if c = ''bad'' then throw (Exn OtherException []) else
      (ret () :: (unit, string, unit, unit) rw)"
  have ok: "well_behaved ?call None"
    unfolding well_behaved_def by (auto intro!: resp_intros)
  show ?thesis
    using retry_rounds_drain [OF ok, of "snd (rw_submit ''b'' ''bad'' (snd (rw_submit ''a'' ''good'' sample_worker)))" 3]
    by (auto simp: rw_submit_def rw_enqueue_def rw_count_def py_simps sample_worker_def budget_def accounted_def)
qed

end
