(* ===== verification/DeadLetterQueue.thy ===== *)
theory DeadLetterQueue
  imports DomainTypes
begin

text \<open>
  \<^verbatim>\<open>engine/scheduler/dlq.py\<close>: events that have failed for good, kept for inspection and replay.
  Payload and metadata of an event have an arbitrary type \<open>'d\<close>. The replay handler is an argument
  of the operations: it runs on the whole state, answers whether it succeeded, and may raise.
\<close>

section \<open>State\<close>

record 'd dl_entry =
  dl_id :: string
  dl_event_type :: string
  dl_data :: 'd
  dl_metadata :: "'d option"
  dl_reason :: string
  dl_created_at :: datetime
  dl_replay_count :: int

record dl_metrics =
  entries_added :: int
  entries_replayed :: int
  entries_replay_succeeded :: int
  entries_replay_failed :: int
  entries_cleared :: int

record ('x, 'd) dead_letters = "'x world" +
  dl_entries :: "(string, 'd dl_entry) dict"
  dl_metrics :: dl_metrics

type_synonym ('x, 'd, 'm, 'a) dl = "(('x, 'd, 'm) dead_letters_scheme, 'a) py"

type_synonym ('x, 'd, 'm) dl_handler = "'d dl_entry \<Rightarrow> ('x, 'd, 'm, bool) dl"

section \<open>Operations\<close>

definition dl_count :: "(dl_metrics \<Rightarrow> dl_metrics) \<Rightarrow> ('x, 'd, 'm, unit) dl" where
  "dl_count f = modify (\<lambda>s. s\<lparr>dl_metrics := f (dl_metrics s)\<rparr>)"

definition dl_add :: "string \<Rightarrow> 'd \<Rightarrow> string \<Rightarrow> 'd option \<Rightarrow> ('x, 'd, 'm, string) dl" where
  "dl_add event_type data reason metadata = bind uuid4 (\<lambda>u. bind now (\<lambda>t.
     let entry_id = show_nat u in
     seq (modify (\<lambda>s. s\<lparr>dl_entries := dput entry_id
        \<lparr>dl_id = entry_id, dl_event_type = event_type, dl_data = data, dl_metadata = metadata,
         dl_reason = reason, dl_created_at = t, dl_replay_count = 0\<rparr> (dl_entries s)\<rparr>))
     (seq (dl_count (\<lambda>m. m\<lparr>entries_added := entries_added m + 1\<rparr>)) (ret entry_id))))"

definition dl_get_all :: "('x, 'd, 'm, 'd dl_entry list) dl" where
  "dl_get_all = gets (\<lambda>s. map snd (dl_entries s))"

definition dl_get_by_event_type :: "string \<Rightarrow> ('x, 'd, 'm, 'd dl_entry list) dl" where
  "dl_get_by_event_type event_type =
     gets (\<lambda>s. filter (\<lambda>e. dl_event_type e = event_type) (map snd (dl_entries s)))"

definition dl_get_by_id :: "string \<Rightarrow> ('x, 'd, 'm, 'd dl_entry option) dl" where
  "dl_get_by_id entry_id = gets (\<lambda>s. dget (dl_entries s) entry_id)"

text \<open>\<^verbatim>\<open>del self._entries[entry_id]\<close> raises when the handler has removed the entry itself.\<close>

definition dl_delete :: "string \<Rightarrow> ('x, 'd, 'm, unit) dl" where
  "dl_delete entry_id = reading (\<lambda>s. case dget (dl_entries s) entry_id of
      None \<Rightarrow> throw (Exn PyKeyError [entry_id])
    | Some _ \<Rightarrow> modify (\<lambda>s. s\<lparr>dl_entries := ddel entry_id (dl_entries s)\<rparr>))"

definition dl_replay_failed :: "('x, 'd, 'm, bool) dl" where
  "dl_replay_failed =
     seq (dl_count (\<lambda>m. m\<lparr>entries_replay_failed := entries_replay_failed m + 1\<rparr>)) (ret False)"

text \<open>The attempt itself, inside the \<^verbatim>\<open>try\<close>.\<close>

definition dl_attempt :: "('x, 'd, 'm) dl_handler \<Rightarrow> 'd dl_entry \<Rightarrow> string \<Rightarrow> ('x, 'd, 'm, bool) dl" where
  "dl_attempt h entry entry_id = bind (h entry) (\<lambda>success.
     if success then
       seq (dl_delete entry_id)
         (seq (dl_count (\<lambda>m. m\<lparr>entries_replay_succeeded := entries_replay_succeeded m + 1\<rparr>))
           (ret True))
     else dl_replay_failed)"

definition dl_replay :: "('x, 'd, 'm) dl_handler option \<Rightarrow> string \<Rightarrow> ('x, 'd, 'm, bool) dl" where
  "dl_replay handler entry_id = reading (\<lambda>s. case dget (dl_entries s) entry_id of
      None \<Rightarrow> ret False
    | Some e \<Rightarrow>
        let entry = e\<lparr>dl_replay_count := dl_replay_count e + 1\<rparr> in
        seq (modify (\<lambda>s. s\<lparr>dl_entries := dput entry_id entry (dl_entries s)\<rparr>))
        (seq (dl_count (\<lambda>m. m\<lparr>entries_replayed := entries_replayed m + 1\<rparr>))
          (case handler of
             None \<Rightarrow> ret False
           | Some h \<Rightarrow> try_catch (dl_attempt h entry entry_id) (\<lambda>_. dl_replay_failed))))"

definition dl_clear :: "('x, 'd, 'm, unit) dl" where
  "dl_clear = reading (\<lambda>s.
     seq (modify (\<lambda>s. s\<lparr>dl_entries := []\<rparr>))
       (dl_count (\<lambda>m. m\<lparr>entries_cleared := entries_cleared m + int (length (dl_entries s))\<rparr>)))"

section \<open>The account of the queue\<close>

text \<open>
  Every key is the rendering of a uuid already handed out, keys are different, every entry is stored
  under its own id, and what was added is stored, replayed with success or cleared.
\<close>

definition dl_ok :: "('x, 'd, 'm) dead_letters_scheme \<Rightarrow> bool" where
  "dl_ok s \<longleftrightarrow> dict_ok (dl_entries s) \<and>
     (\<forall>k e. dget (dl_entries s) k = Some e \<longrightarrow> dl_id e = k \<and> 0 \<le> dl_replay_count e \<and>
        (\<exists>u < uuid_next s. k = show_nat u)) \<and>
     entries_added (dl_metrics s) = int (length (dl_entries s)) +
       entries_replay_succeeded (dl_metrics s) + entries_cleared (dl_metrics s)"

abbreviation dl_view :: "('x, 'd, 'm) dead_letters_scheme \<Rightarrow>
    (string, 'd dl_entry) dict \<times> dl_metrics \<times> nat" where
  "dl_view s \<equiv> (dl_entries s, dl_metrics s, uuid_next s)"

lemma dl_ok_view: "dl_view t = dl_view s \<Longrightarrow> dl_ok t = dl_ok s"
  by (simp add: dl_ok_def)

definition new_entry :: "string \<Rightarrow> 'd \<Rightarrow> string \<Rightarrow> 'd option \<Rightarrow> ('x, 'd, 'm) dead_letters_scheme \<Rightarrow> 'd dl_entry" where
  "new_entry et d reason md s = \<lparr>dl_id = show_nat (uuid_next s), dl_event_type = et, dl_data = d,
     dl_metadata = md, dl_reason = reason, dl_created_at = clock s, dl_replay_count = 0\<rparr>"

lemma dl_add_eq: "dl_add et d reason md s = (Ok (show_nat (uuid_next s)),
    s\<lparr>uuid_next := Suc (uuid_next s),
      dl_entries := dput (show_nat (uuid_next s)) (new_entry et d reason md s) (dl_entries s),
      dl_metrics := (dl_metrics s)\<lparr>entries_added := entries_added (dl_metrics s) + 1\<rparr>\<rparr>)"
  by (simp add: dl_add_def new_entry_def dl_count_def py_simps Let_def)

lemma dl_add_ok:
  assumes "dl_ok s"
  shows "dl_ok (snd (dl_add et d reason md s))"
proof -
  let ?k = "show_nat (uuid_next s)"
  have key: "dget (dl_entries s) k = Some e \<Longrightarrow> dl_id e = k \<and> 0 \<le> dl_replay_count e \<and>
      (\<exists>u < Suc (uuid_next s). k = show_nat u)" for k e
    using assms unfolding dl_ok_def by (meson less_SucI)
  have "dget (dl_entries s) ?k = None"
  proof (rule ccontr)
    assume "dget (dl_entries s) ?k \<noteq> None"
    then obtain u where "u < uuid_next s" "?k = show_nat u" using assms by (auto simp: dl_ok_def)
    then show False by (simp add: show_nat_inj)
  qed
  then have "length (dput ?k (new_entry et d reason md s) (dl_entries s)) = Suc (length (dl_entries s))"
    by (simp add: length_dput)
  with assms show ?thesis
    unfolding dl_ok_def [of "snd (dl_add et d reason md s)"]
    by (auto simp: dl_add_eq dl_ok_def new_entry_def dest: key)
qed

lemma dl_clear_ok: "dl_ok s \<Longrightarrow> dl_ok (snd (dl_clear s))"
  by (simp add: dl_ok_def dl_clear_def dl_count_def py_simps)

text \<open>A handler that leaves the queue to itself.\<close>

definition quiet_handler :: "('x, 'd, 'm) dl_handler \<Rightarrow> bool" where
  "quiet_handler h \<longleftrightarrow> (\<forall>e. obeys (same dl_view) (h e))"

text \<open>The whole of a replay, for such a handler.\<close>

definition replayed :: "'d dl_entry \<Rightarrow> 'd dl_entry" where
  "replayed e = e\<lparr>dl_replay_count := dl_replay_count e + 1\<rparr>"

lemma dl_replay_missing: "dget (dl_entries s) k = None \<Longrightarrow> dl_replay handler k s = (Ok False, s)"
  by (simp add: dl_replay_def py_simps)

text \<open>The state in which the handler starts.\<close>

definition replaying :: "string \<Rightarrow> 'd dl_entry \<Rightarrow> ('x, 'd, 'm) dead_letters_scheme \<Rightarrow>
    ('x, 'd, 'm) dead_letters_scheme" where
  "replaying k e s = s\<lparr>dl_entries := dput k (replayed e) (dl_entries s),
     dl_metrics := (dl_metrics s)\<lparr>entries_replayed := entries_replayed (dl_metrics s) + 1\<rparr>\<rparr>"

lemma dl_replay_eq:
  assumes "dget (dl_entries s) k = Some e"
  shows "dl_replay handler k s = (case handler of None \<Rightarrow> (Ok False, replaying k e s)
    | Some h \<Rightarrow> try_catch (dl_attempt h (replayed e) k) (\<lambda>_. dl_replay_failed) (replaying k e s))"
  using assms by (simp add: dl_replay_def py_simps Let_def dl_count_def replaying_def replayed_def split: option.splits)

lemma replaying_ok: "dl_ok s \<Longrightarrow> dget (dl_entries s) k = Some e \<Longrightarrow> dl_ok (replaying k e s)"
  by (fastforce simp: dl_ok_def replaying_def replayed_def length_dput)

lemma dl_attempt_eq:
  assumes "quiet_handler h" and "h e s = (r, t)" and "dget (dl_entries s) k = Some e'"
  shows "try_catch (dl_attempt h e k) (\<lambda>_. dl_replay_failed) s =
    (if r = Ok True
     then (Ok True, t\<lparr>dl_entries := ddel k (dl_entries s), dl_metrics := (dl_metrics s)
             \<lparr>entries_replay_succeeded := entries_replay_succeeded (dl_metrics s) + 1\<rparr>\<rparr>)
     else (Ok False, t\<lparr>dl_metrics := (dl_metrics s)
             \<lparr>entries_replay_failed := entries_replay_failed (dl_metrics s) + 1\<rparr>\<rparr>)) \<and>
   dl_view t = dl_view s"
proof -
  have "obeys (same dl_view) (h e)" using assms(1) by (simp add: quiet_handler_def)
  then have view: "dl_view t = dl_view s" using sameD [of dl_view "h e" s] assms(2) by simp
  with assms show ?thesis
    by (cases r) (auto simp: dl_attempt_def py_simps dl_delete_def dl_replay_failed_def dl_count_def)
qed

lemma ddel_ok:
  assumes "dl_ok s" and "dget (dl_entries s) k = Some e" and "dl_view t = dl_view s"
  shows "dl_ok (t\<lparr>dl_entries := ddel k (dl_entries s), dl_metrics := (dl_metrics s)
    \<lparr>entries_replay_succeeded := entries_replay_succeeded (dl_metrics s) + 1\<rparr>\<rparr>)"
proof -
  have d: "dict_ok (dl_entries s)" using assms(1) by (simp add: dl_ok_def)
  have "0 < length (dl_entries s)" using assms(2) by (cases "dl_entries s") simp_all
  moreover have "length (ddel k (dl_entries s)) = length (dl_entries s) - 1"
    using assms(2) by (simp add: length_ddel [OF d])
  ultimately have len: "int (length (ddel k (dl_entries s))) = int (length (dl_entries s)) - 1"
    by linarith
  have keys: "dget (ddel k (dl_entries s)) j = Some x \<Longrightarrow> dget (dl_entries s) j = Some x" for j x
    by (simp split: if_splits)
  from assms(1,3) len d show ?thesis
    unfolding dl_ok_def by (simp del: dget_ddel) (blast dest: keys)
qed

section \<open>Properties\<close>

text \<open>
  Replaying an entry. With a handler that leaves the queue alone, a replay of a stored entry
  returns true exactly when the handler returned true, and then the entry is gone; when the handler
  answers false or raises, nothing escapes and the entry stays, its replay count one higher. Other
  entries are untouched, and the account of the queue (added = stored + replayed with success +
  cleared, every entry under its own id) is kept.
\<close>

theorem dlq_replay_outcome:
  assumes "dl_ok s" and "dget (dl_entries s) k = Some e" and "quiet_handler h"
    and "h (replayed e) (replaying k e s) = (r, t)"
  shows "\<exists>u. dl_replay (Some h) k s = (Ok (r = Ok True), u) \<and> dl_ok u \<and>
    (\<forall>j. dget (dl_entries u) j = (if j \<noteq> k then dget (dl_entries s) j
       else if r = Ok True then None else Some (replayed e)))"
proof -
  let ?s = "replaying k e s"
  have stored: "dget (dl_entries ?s) k = Some (replayed e)" by (simp add: replaying_def)
  have ok: "dl_ok ?s" using assms(1,2) by (rule replaying_ok)
  note run = dl_attempt_eq [OF assms(3,4) stored]
  then have view: "dl_view t = dl_view ?s" by blast
  have others: "dget (dl_entries ?s) j = (if j = k then Some (replayed e) else dget (dl_entries s) j)" for j
    by (simp add: replaying_def)
  show ?thesis
  proof (cases "r = Ok True")
    case True
    with run ddel_ok [OF ok stored view] others show ?thesis
      by (simp add: dl_replay_eq [OF assms(2)])
  next
    case False
    have "dl_ok (t\<lparr>dl_metrics := (dl_metrics ?s)
        \<lparr>entries_replay_failed := entries_replay_failed (dl_metrics ?s) + 1\<rparr>\<rparr>)"
      using ok view by (simp add: dl_ok_def)
    with False run view others show ?thesis
      by (simp add: dl_replay_eq [OF assms(2)])
  qed
qed

definition empty_letters :: "(unit, string) dead_letters" where
  "empty_letters = \<lparr>clock = 0, uuid_next = 0, sleeps = [], exch = (), dl_entries = [],
     dl_metrics = \<lparr>entries_added = 0, entries_replayed = 0, entries_replay_succeeded = 0,
       entries_replay_failed = 0, entries_cleared = 0\<rparr>\<rparr>"

theorem dlq_replay_outcome_witness:
  "\<exists>u. dl_replay (Some (\<lambda>e. throw (Exn OtherException []))) ''0''
      (snd (dl_add ''order'' ''data'' ''timeout'' None empty_letters)) = (Ok False, u) \<and>
    dget (dl_entries u) ''0'' \<noteq> None"
proof -
  let ?s = "snd (dl_add ''order'' ''data'' ''timeout'' None empty_letters)"
  let ?e = "new_entry ''order'' ''data'' ''timeout'' None empty_letters"
  let ?h = "\<lambda>e. throw (Exn OtherException []) :: (unit, string, unit, bool) dl"
  have "dl_ok empty_letters" by (simp add: dl_ok_def empty_letters_def)
  then have ok: "dl_ok ?s" by (rule dl_add_ok)
  have key: "show_nat (uuid_next empty_letters) = ''0''"
    by (simp add: empty_letters_def show_nat.simps digit_chars)
  have e: "dget (dl_entries ?s) ''0'' = Some ?e"
    by (simp add: dl_add_eq key)
  have quiet: "quiet_handler ?h"
    unfolding quiet_handler_def by (auto intro!: resp_intros)
  have "?h (replayed ?e) (replaying ''0'' ?e ?s) = (Raise (Exn OtherException []), replaying ''0'' ?e ?s)"
    by (simp add: throw_def)
  from dlq_replay_outcome [OF ok e quiet this] show ?thesis by auto
qed

end
