(* ===== verification/EventBus.thy ===== *)
theory EventBus
  imports DomainTypes
begin

text \<open>
  \<^verbatim>\<open>engine/scheduler/bus.py\<close>: the in-memory publish/subscribe bus. A handler is a name of arbitrary
  type \<open>'h\<close>; \<open>call\<close>, an argument of \<open>publish\<close>, is what calling (and awaiting) it on an event does to
  the whole state. The payload has an arbitrary type \<open>'d\<close>.
\<close>

section \<open>State\<close>

record 'h subscriber =
  sub_id :: string
  sub_handler :: 'h

record bus_metrics =
  events_published :: int
  events_delivered :: int
  subscribers_added :: int
  subscribers_removed :: int

record 'd bus_event =
  ev_type :: string
  ev_id :: string
  ev_timestamp :: datetime
  ev_data :: 'd
  ev_metadata :: "'d option"

record ('x, 'h) event_bus = "'x world" +
  bus_subscribers :: "(string, 'h subscriber list) dict"
  bus_metrics :: bus_metrics

type_synonym ('x, 'h, 'm, 'a) eb = "(('x, 'h, 'm) event_bus_scheme, 'a) py"

section \<open>Operations\<close>

definition bus_count :: "(bus_metrics \<Rightarrow> bus_metrics) \<Rightarrow> ('x, 'h, 'm, unit) eb" where
  "bus_count f = modify (\<lambda>s. s\<lparr>bus_metrics := f (bus_metrics s)\<rparr>)"

definition subscribers_of :: "string \<Rightarrow> ('x, 'h, 'm) event_bus_scheme \<Rightarrow> 'h subscriber list" where
  "subscribers_of et s = (case dget (bus_subscribers s) et of None \<Rightarrow> [] | Some subs \<Rightarrow> subs)"

text \<open>One delivery; what the handler raises is logged and dropped.\<close>

definition deliver :: "('h \<Rightarrow> 'd bus_event \<Rightarrow> ('x, 'h, 'm, unit) eb) \<Rightarrow> 'd bus_event \<Rightarrow> 'h subscriber \<Rightarrow>
    ('x, 'h, 'm, unit) eb" where
  "deliver call ev sub = try_catch
     (seq (call (sub_handler sub) ev)
       (bus_count (\<lambda>m. m\<lparr>events_delivered := events_delivered m + 1\<rparr>)))
     (\<lambda>_. ret ())"

definition publish :: "('h \<Rightarrow> 'd bus_event \<Rightarrow> ('x, 'h, 'm, unit) eb) \<Rightarrow> string \<Rightarrow> 'd \<Rightarrow> 'd option \<Rightarrow>
    ('x, 'h, 'm, string) eb" where
  "publish call event_type data metadata = bind uuid4 (\<lambda>u.
     seq (bus_count (\<lambda>m. m\<lparr>events_published := events_published m + 1\<rparr>))
     (bind now (\<lambda>t. reading (\<lambda>s.
       seq (for_each (deliver call \<lparr>ev_type = event_type, ev_id = show_nat u, ev_timestamp = t,
              ev_data = data, ev_metadata = metadata\<rparr>) (subscribers_of event_type s))
         (ret (show_nat u))))))"

definition subscribe :: "string \<Rightarrow> 'h \<Rightarrow> ('x, 'h, 'm, string) eb" where
  "subscribe event_type handler = bind uuid4 (\<lambda>u.
     seq (modify (\<lambda>s. s\<lparr>bus_subscribers := dput event_type
        (subscribers_of event_type s @ [\<lparr>sub_id = show_nat u, sub_handler = handler\<rparr>])
        (bus_subscribers s)\<rparr>))
     (seq (bus_count (\<lambda>m. m\<lparr>subscribers_added := subscribers_added m + 1\<rparr>)) (ret (show_nat u))))"

text \<open>The nested search of \<^verbatim>\<open>unsubscribe\<close>: the first subscriber with the id is dropped.\<close>

fun drop_subscriber :: "string \<Rightarrow> 'h subscriber list \<Rightarrow> 'h subscriber list option" where
  "drop_subscriber i [] = None"
| "drop_subscriber i (sub # subs) =
     (if sub_id sub = i then Some subs
      else map_option (Cons sub) (drop_subscriber i subs))"

fun drop_from_bus :: "string \<Rightarrow> (string, 'h subscriber list) dict \<Rightarrow>
    (string, 'h subscriber list) dict option" where
  "drop_from_bus i [] = None"
| "drop_from_bus i ((et, subs) # d) =
     (case drop_subscriber i subs of
        Some subs' \<Rightarrow> Some ((et, subs') # d)
      | None \<Rightarrow> map_option (Cons (et, subs)) (drop_from_bus i d))"

definition unsubscribe :: "string \<Rightarrow> ('x, 'h, 'm, bool) eb" where
  "unsubscribe subscription_id = reading (\<lambda>s.
     case drop_from_bus subscription_id (bus_subscribers s) of
       None \<Rightarrow> ret False
     | Some d \<Rightarrow> seq (modify (\<lambda>s. s\<lparr>bus_subscribers := d\<rparr>))
         (seq (bus_count (\<lambda>m. m\<lparr>subscribers_removed := subscribers_removed m + 1\<rparr>)) (ret True)))"

definition get_subscribers :: "string \<Rightarrow> ('x, 'h, 'm, string list) eb" where
  "get_subscribers et = gets (\<lambda>s. map sub_id (subscribers_of et s))"

definition get_subscriber_count :: "string \<Rightarrow> ('x, 'h, 'm, nat) eb" where
  "get_subscriber_count et = gets (\<lambda>s. length (subscribers_of et s))"

section \<open>Subscriptions\<close>

text \<open>Every subscription id is the rendering of a uuid already handed out.\<close>

definition bus_ok :: "('x, 'h, 'm) event_bus_scheme \<Rightarrow> bool" where
  "bus_ok s \<longleftrightarrow> dict_ok (bus_subscribers s) \<and>
     (\<forall>(et, subs) \<in> set (bus_subscribers s). \<forall>sub \<in> set subs. \<exists>u < uuid_next s. sub_id sub = show_nat u)"

lemma drop_subscriber_None: "i \<notin> sub_id ` set subs \<Longrightarrow> drop_subscriber i subs = None"
  by (induction subs) auto

lemma drop_subscriber_last:
  "i \<notin> sub_id ` set subs \<Longrightarrow> sub_id sub = i \<Longrightarrow> drop_subscriber i (subs @ [sub]) = Some subs"
  by (induction subs) auto

lemma drop_from_bus_None:
  "\<forall>(et, subs) \<in> set d. i \<notin> sub_id ` set subs \<Longrightarrow> drop_from_bus i d = None"
  by (induction d) (auto simp: drop_subscriber_None)

text \<open>The lists of a bus, whether or not the event type has an entry.\<close>

definition same_lists :: "('k, 'v list) dict \<Rightarrow> ('k, 'v list) dict \<Rightarrow> bool" where
  "same_lists d d' \<longleftrightarrow> (\<forall>k. (case dget d k of None \<Rightarrow> [] | Some xs \<Rightarrow> xs) = (case dget d' k of None \<Rightarrow> [] | Some xs \<Rightarrow> xs))"

lemma drop_from_bus_last:
  assumes "\<forall>(et, subs) \<in> set d. i \<notin> sub_id ` set subs" and "sub_id sub = i"
  shows "\<exists>d'. drop_from_bus i (dput et ((case dget d et of None \<Rightarrow> [] | Some xs \<Rightarrow> xs) @ [sub]) d) = Some d' \<and>
    same_lists d' d"
  using assms(1)
proof (induction d)
  case Nil
  show ?case using assms(2) by (simp add: same_lists_def)
next
  case (Cons p d)
  obtain k subs where p: "p = (k, subs)" by (cases p)
  show ?case
  proof (cases "k = et")
    case True
    with p Cons.prems assms(2) show ?thesis
      by (simp add: drop_subscriber_last same_lists_def)
  next
    case False
    from Cons.IH Cons.prems obtain d' where
      "drop_from_bus i (dput et ((case dget d et of None \<Rightarrow> [] | Some xs \<Rightarrow> xs) @ [sub]) d) = Some d'"
      "same_lists d' d" by auto
    with p Cons.prems False show ?thesis
      by (auto simp: drop_subscriber_None same_lists_def)
  qed
qed

lemma drop_from_bus_keys: "drop_from_bus i d = Some d' \<Longrightarrow> map fst d' = map fst d"
  by (induction d arbitrary: d') (auto split: option.splits)

lemma bus_ok_fresh:
  "bus_ok s \<Longrightarrow> \<forall>(et, subs) \<in> set (bus_subscribers s). show_nat (uuid_next s) \<notin> sub_id ` set subs"
  by (fastforce simp: bus_ok_def show_nat_inj)

lemma subscribe_eq: "subscribe et h s = (Ok (show_nat (uuid_next s)),
    s\<lparr>uuid_next := Suc (uuid_next s), bus_subscribers := dput et
        (subscribers_of et s @ [\<lparr>sub_id = show_nat (uuid_next s), sub_handler = h\<rparr>]) (bus_subscribers s),
      bus_metrics := (bus_metrics s)\<lparr>subscribers_added := subscribers_added (bus_metrics s) + 1\<rparr>\<rparr>)"
  by (simp add: subscribe_def bus_count_def py_simps subscribers_of_def)

lemma subscribe_ok:
  assumes "bus_ok s"
  shows "bus_ok (snd (subscribe et h s))"
proof -
  let ?subs = "subscribers_of et s @ [\<lparr>sub_id = show_nat (uuid_next s), sub_handler = h\<rparr>]"
  have old: "sub \<in> set (subscribers_of et s) \<Longrightarrow> \<exists>u < uuid_next s. sub_id sub = show_nat u" for sub
  proof (cases "dget (bus_subscribers s) et")
    case (Some subs)
    assume "sub \<in> set (subscribers_of et s)"
    with Some have "sub \<in> set subs" by (simp add: subscribers_of_def)
    with assms map_of_SomeD [OF Some] show ?thesis unfolding bus_ok_def by blast
  qed (simp add: subscribers_of_def)
  have new: "sub \<in> set ?subs \<Longrightarrow> \<exists>u < Suc (uuid_next s). sub_id sub = show_nat u" for sub
    using old less_SucI by (fastforce)
  have rest: "(k, subs) \<in> set (dput et ?subs (bus_subscribers s)) \<Longrightarrow>
      subs = ?subs \<or> (k, subs) \<in> set (bus_subscribers s)" for k subs
    using in_dput [of "(k, subs)" et ?subs "bus_subscribers s"] by auto
  show ?thesis
    unfolding bus_ok_def subscribe_eq
  proof (simp, intro conjI ballI)
    show "dict_ok (dput et ?subs (bus_subscribers s))" using assms by (auto simp: bus_ok_def)
    fix x assume x: "x \<in> set (dput et ?subs (bus_subscribers s))"
    obtain k subs where k: "x = (k, subs)" by (cases x)
    have "\<exists>u < Suc (uuid_next s). sub_id sub = show_nat u" if "sub \<in> set subs" for sub
    proof (cases "subs = ?subs")
      case True
      with that new show ?thesis by blast
    next
      case False
      with x k rest have "(k, subs) \<in> set (bus_subscribers s)" by blast
      with assms that obtain u where "u < uuid_next s" "sub_id sub = show_nat u"
        unfolding bus_ok_def by blast
      then show ?thesis using less_SucI by blast
    qed
    then show "case x of (et, subs) \<Rightarrow> \<forall>sub \<in> set subs. \<exists>u < Suc (uuid_next s). sub_id sub = show_nat u"
      by (simp add: k)
  qed
qed

section \<open>Delivery\<close>

text \<open>Handlers that leave the bus alone.\<close>

definition quiet_handlers :: "('h \<Rightarrow> 'd bus_event \<Rightarrow> ('x, 'h, 'm, unit) eb) \<Rightarrow> bool" where
  "quiet_handlers call \<longleftrightarrow>
     (\<forall>h ev. obeys (same (\<lambda>s. (bus_subscribers s, bus_metrics s))) (call h ev))"

text \<open>The states of a delivery, subscriber by subscriber.\<close>

fun visit :: "('h \<Rightarrow> 'd bus_event \<Rightarrow> ('x, 'h, 'm, unit) eb) \<Rightarrow> 'd bus_event \<Rightarrow> 'h subscriber list \<Rightarrow>
    ('x, 'h, 'm) event_bus_scheme \<Rightarrow> ('x, 'h, 'm) event_bus_scheme list" where
  "visit call ev [] s = []"
| "visit call ev (sub # subs) s = s # visit call ev subs (snd (deliver call ev sub s))"

definition delivered :: "('h \<Rightarrow> 'd bus_event \<Rightarrow> ('x, 'h, 'm, unit) eb) \<Rightarrow> 'd bus_event \<Rightarrow>
    'h subscriber \<times> ('x, 'h, 'm) event_bus_scheme \<Rightarrow> bool" where
  "delivered call ev p \<longleftrightarrow> fst (call (sub_handler (fst p)) ev (snd p)) = Ok ()"

lemma deliver_ok:
  assumes "quiet_handlers call"
  shows "\<exists>t. deliver call ev sub s = (Ok (), t) \<and> bus_subscribers t = bus_subscribers s \<and>
    bus_metrics t = (bus_metrics s)\<lparr>events_delivered := events_delivered (bus_metrics s) +
      (if delivered call ev (sub, s) then 1 else 0)\<rparr>"
proof -
  obtain r t where c: "call (sub_handler sub) ev s = (r, t)" by (cases "call (sub_handler sub) ev s")
  have "obeys (same (\<lambda>s. (bus_subscribers s, bus_metrics s))) (call (sub_handler sub) ev)"
    using assms by (simp add: quiet_handlers_def)
  from sameD [OF this, of s] c show ?thesis
    by (cases r) (simp_all add: deliver_def bus_count_def py_simps delivered_def)
qed

lemma visit_all:
  assumes "quiet_handlers call"
  shows "\<exists>t. for_each (deliver call ev) subs s = (Ok (), t) \<and> bus_subscribers t = bus_subscribers s \<and>
    length (visit call ev subs s) = length subs \<and>
    bus_metrics t = (bus_metrics s)\<lparr>events_delivered := events_delivered (bus_metrics s) +
      int (length (filter (delivered call ev) (zip subs (visit call ev subs s))))\<rparr>"
proof (induction subs arbitrary: s)
  case (Cons sub subs)
  obtain s1 where 1: "deliver call ev sub s = (Ok (), s1)" "bus_subscribers s1 = bus_subscribers s"
    "bus_metrics s1 = (bus_metrics s)\<lparr>events_delivered := events_delivered (bus_metrics s) +
      (if delivered call ev (sub, s) then 1 else 0)\<rparr>"
    using deliver_ok [OF assms] by blast
  obtain t where "for_each (deliver call ev) subs s1 = (Ok (), t)" "bus_subscribers t = bus_subscribers s1"
    "length (visit call ev subs s1) = length subs"
    "bus_metrics t = (bus_metrics s1)\<lparr>events_delivered := events_delivered (bus_metrics s1) +
      int (length (filter (delivered call ev) (zip subs (visit call ev subs s1))))\<rparr>"
    using Cons.IH [of s1] by blast
  with 1 show ?case by (simp add: seq_Ok)
qed (simp add: ret_def)

text \<open>The event of a publication, and the state in which its delivery starts.\<close>

definition event_of :: "string \<Rightarrow> 'd \<Rightarrow> 'd option \<Rightarrow> ('x, 'h, 'm) event_bus_scheme \<Rightarrow> 'd bus_event" where
  "event_of et d md s = \<lparr>ev_type = et, ev_id = show_nat (uuid_next s), ev_timestamp = clock s,
     ev_data = d, ev_metadata = md\<rparr>"

definition counted :: "('x, 'h, 'm) event_bus_scheme \<Rightarrow> ('x, 'h, 'm) event_bus_scheme" where
  "counted s = s\<lparr>uuid_next := Suc (uuid_next s), bus_metrics := (bus_metrics s)
     \<lparr>events_published := events_published (bus_metrics s) + 1\<rparr>\<rparr>"

section \<open>Properties\<close>

text \<open>
  A subscription and its removal cancel out. Subscribing appends a fresh id to the list of that
  event type and to no other; unsubscribing that id returns true and gives every event type the
  list of subscribers it had before; unsubscribing it again returns false and changes nothing.
\<close>

theorem subscription_roundtrip:
  assumes "bus_ok s" and "subscribe et h s = (Ok i, s1)"
  shows "(\<forall>k. subscribers_of k s1 = subscribers_of k s @
      (if k = et then [\<lparr>sub_id = i, sub_handler = h\<rparr>] else [])) \<and>
    (\<exists>s2. unsubscribe i s1 = (Ok True, s2) \<and> (\<forall>k. subscribers_of k s2 = subscribers_of k s) \<and>
      unsubscribe i s2 = (Ok False, s2))"
proof -
  from assms(2) have i: "i = show_nat (uuid_next s)" and s1: "bus_subscribers s1 = dput et
      (subscribers_of et s @ [\<lparr>sub_id = i, sub_handler = h\<rparr>]) (bus_subscribers s)"
    by (auto simp: subscribe_eq)
  have fresh: "\<forall>(k, subs) \<in> set (bus_subscribers s). i \<notin> sub_id ` set subs"
    using bus_ok_fresh [OF assms(1)] i by simp
  obtain d where d: "drop_from_bus i (bus_subscribers s1) = Some d" "same_lists d (bus_subscribers s)"
    using drop_from_bus_last [OF fresh, of "\<lparr>sub_id = i, sub_handler = h\<rparr>" et] s1
    by (auto simp: subscribers_of_def)
  let ?s2 = "s1\<lparr>bus_subscribers := d, bus_metrics := (bus_metrics s1)
    \<lparr>subscribers_removed := subscribers_removed (bus_metrics s1) + 1\<rparr>\<rparr>"
  have lists: "subscribers_of k ?s2 = subscribers_of k s" for k
    using d(2) by (simp add: same_lists_def subscribers_of_def)
  have first: "unsubscribe i s1 = (Ok True, ?s2)"
    using d(1) by (simp add: unsubscribe_def bus_count_def py_simps)
  have "\<forall>(k, subs) \<in> set d. i \<notin> sub_id ` set subs"
  proof -
    have "dict_ok (bus_subscribers s1)" using assms(1) s1 by (auto simp: bus_ok_def)
    then have "dict_ok d" using drop_from_bus_keys [OF d(1)] by (simp add: dict_ok_def)
    have "i \<notin> sub_id ` set subs" if "(k, subs) \<in> set d" for k subs
    proof -
      have "dget d k = Some subs" using that dget_Some_iff [OF \<open>dict_ok d\<close>] by blast
      then have "subs = subscribers_of k s" using lists [of k] by (simp add: subscribers_of_def)
      then show ?thesis using fresh
        by (auto simp: subscribers_of_def split: option.splits dest!: map_of_SomeD)
    qed
    then show ?thesis by blast
  qed
  then have "unsubscribe i ?s2 = (Ok False, ?s2)"
    by (simp add: unsubscribe_def py_simps drop_from_bus_None)
  with first lists s1 show ?thesis by (auto simp: subscribers_of_def)
qed

definition quiet_bus :: "(unit, string) event_bus" where
  "quiet_bus = \<lparr>clock = 0, uuid_next = 0, sleeps = [], exch = (), bus_subscribers = [],
     bus_metrics = \<lparr>events_published = 0, events_delivered = 0, subscribers_added = 0,
       subscribers_removed = 0\<rparr>\<rparr>"

lemma quiet_bus_ok: "bus_ok quiet_bus"
  by (simp add: bus_ok_def quiet_bus_def)

theorem subscription_roundtrip_witness:
  "\<exists>i s1 s2. subscribe ''tick'' ''f'' (snd (subscribe ''tick'' ''g'' quiet_bus)) = (Ok i, s1) \<and>
     unsubscribe i s1 = (Ok True, s2)"
proof -
  let ?s = "snd (subscribe ''tick'' ''g'' quiet_bus)"
  have "bus_ok ?s" using quiet_bus_ok by (rule subscribe_ok)
  from subscription_roundtrip [OF this, of "''tick''" "''f''"] show ?thesis
    using subscribe_eq [of "''tick''" "''f''" ?s] by blast
qed

text \<open>
  C26. One handler never silences another. When handlers leave the bus alone, publishing returns a
  fresh event id whatever the handlers raise; each subscriber of the event type, as subscribed when
  the event is published, is called exactly once, in order of subscription, from the state the
  previous call left; the list of subscribers is unchanged, and the delivery counter grows by the
  number of handlers that returned.
\<close>

theorem publish_reaches_every_subscriber:
  assumes "quiet_handlers call"
  shows "\<exists>t. publish call et d md s = (Ok (show_nat (uuid_next s)), t) \<and>
    for_each (deliver call (event_of et d md s)) (subscribers_of et s) (counted s) = (Ok (), t) \<and>
    length (visit call (event_of et d md s) (subscribers_of et s) (counted s)) = length (subscribers_of et s) \<and>
    bus_subscribers t = bus_subscribers s \<and>
    events_delivered (bus_metrics t) = events_delivered (bus_metrics s) +
      int (length (filter (delivered call (event_of et d md s))
        (zip (subscribers_of et s) (visit call (event_of et d md s) (subscribers_of et s) (counted s)))))"
proof -
  let ?ev = "event_of et d md s"
  have pub: "publish call et d md s =
      seq (for_each (deliver call ?ev) (subscribers_of et s)) (ret (show_nat (uuid_next s))) (counted s)"
    by (simp add: publish_def bus_count_def py_simps event_of_def counted_def subscribers_of_def)
  obtain t where "for_each (deliver call ?ev) (subscribers_of et s) (counted s) = (Ok (), t)"
    "bus_subscribers t = bus_subscribers (counted s)"
    "length (visit call ?ev (subscribers_of et s) (counted s)) = length (subscribers_of et s)"
    "bus_metrics t = (bus_metrics (counted s))\<lparr>events_delivered := events_delivered (bus_metrics (counted s)) +
      int (length (filter (delivered call ?ev)
        (zip (subscribers_of et s) (visit call ?ev (subscribers_of et s) (counted s)))))\<rparr>"
    using visit_all [OF assms(1)] by blast
  moreover have "bus_subscribers (counted s) = bus_subscribers s"
    "events_delivered (bus_metrics (counted s)) = events_delivered (bus_metrics s)"
    by (simp_all add: counted_def)
  ultimately show ?thesis by (simp add: pub seq_Ok ret_def)
qed

theorem publish_reaches_every_subscriber_witness:
  "\<exists>t. publish (\<lambda>h ev. if h = ''bad'' then throw (Exn OtherException []) else ret ()) ''tick'' ''x'' None
      (snd (subscribe ''tick'' ''good'' (snd (subscribe ''tick'' ''bad'' quiet_bus)))) = (Ok ''2'', t)"
proof -
  let ?call = "\<lambda>h (ev :: string bus_event). if h = ''bad'' then throw (Exn OtherException []) else
      (ret () :: (unit, string, unit, unit) eb)"
  let ?s = "snd (subscribe ''tick'' ''good'' (snd (subscribe ''tick'' ''bad'' quiet_bus)))"
  have "quiet_handlers ?call" unfolding quiet_handlers_def by (auto intro!: resp_intros)
  moreover have "show_nat (uuid_next ?s) = ''2''"
    by (simp add: subscribe_eq quiet_bus_def show_nat.simps digit_chars numeral_2_eq_2 [symmetric] del: One_nat_def)
  ultimately show ?thesis
    using publish_reaches_every_subscriber [where call = ?call and et = "''tick''" and s = ?s and d = "''x''"
        and md = None] by auto
qed

end
