(* ===== verification/JobScheduler.thy ===== *)
theory JobScheduler
  imports DomainTypes
begin

text \<open>
  \<^verbatim>\<open>engine/scheduler/scheduler.py\<close>: periodic background tasks. A task's coroutine is a name of
  arbitrary type \<open>'c\<close>; \<open>call\<close>, an argument of the operations that run tasks, is what calling it does
  to the whole state and what it returns, of arbitrary type \<open>'r\<close>. Times are seconds.
\<close>

section \<open>State\<close>

record 'c scheduled_task =
  st_id :: string
  st_name :: string
  st_task_type :: string
  st_interval_seconds :: int
  st_coroutine :: "'c option"
  st_last_run :: "datetime option"
  st_next_run :: "datetime option"
  st_enabled :: bool
  st_run_count :: int
  st_failure_count :: int

record task_metrics =
  tasks_added :: int
  tasks_removed :: int
  tasks_executed :: int
  tasks_failed :: int

record ('x, 'c) job_scheduler = "'x world" +
  js_tasks :: "(string, 'c scheduled_task) dict"
  js_metrics :: task_metrics

type_synonym ('x, 'c, 'm, 'a) js = "(('x, 'c, 'm) job_scheduler_scheme, 'a) py"

datatype 'r task_report = TASK_SUCCESS string 'r | TASK_FAILED string exn

section \<open>Operations\<close>

definition js_count :: "(task_metrics \<Rightarrow> task_metrics) \<Rightarrow> ('x, 'c, 'm, unit) js" where
  "js_count f = modify (\<lambda>s. s\<lparr>js_metrics := f (js_metrics s)\<rparr>)"

text \<open>An assignment to fields of the task object; nothing happens to a task no longer stored.\<close>

definition js_update :: "string \<Rightarrow> ('c scheduled_task \<Rightarrow> 'c scheduled_task) \<Rightarrow> ('x, 'c, 'm, unit) js" where
  "js_update i f = modify (\<lambda>s. case dget (js_tasks s) i of None \<Rightarrow> s
     | Some t \<Rightarrow> s\<lparr>js_tasks := dput i (f t) (js_tasks s)\<rparr>)"

definition add_task :: "string \<Rightarrow> string \<Rightarrow> int \<Rightarrow> 'c option \<Rightarrow> bool \<Rightarrow> ('x, 'c, 'm, string) js" where
  "add_task name task_type interval coroutine enabled = bind uuid4 (\<lambda>u. bind now (\<lambda>t.
     let task_id = show_nat u in
     seq (modify (\<lambda>s. s\<lparr>js_tasks := dput task_id
        \<lparr>st_id = task_id, st_name = name, st_task_type = task_type, st_interval_seconds = interval,
         st_coroutine = coroutine, st_last_run = None, st_next_run = Some (t + interval),
         st_enabled = enabled, st_run_count = 0, st_failure_count = 0\<rparr> (js_tasks s)\<rparr>))
     (seq (js_count (\<lambda>m. m\<lparr>tasks_added := tasks_added m + 1\<rparr>)) (ret task_id))))"

definition remove_task :: "string \<Rightarrow> ('x, 'c, 'm, bool) js" where
  "remove_task i = reading (\<lambda>s. if dget (js_tasks s) i = None then ret False
     else seq (modify (\<lambda>s. s\<lparr>js_tasks := ddel i (js_tasks s)\<rparr>))
       (seq (js_count (\<lambda>m. m\<lparr>tasks_removed := tasks_removed m + 1\<rparr>)) (ret True)))"

definition set_task_enabled :: "bool \<Rightarrow> string \<Rightarrow> ('x, 'c, 'm, bool) js" where
  "set_task_enabled b i = reading (\<lambda>s. if dget (js_tasks s) i = None then ret False
     else seq (js_update i (\<lambda>t. t\<lparr>st_enabled := b\<rparr>)) (ret True))"

definition enable_task :: "string \<Rightarrow> ('x, 'c, 'm, bool) js" where
  "enable_task = set_task_enabled True"

definition disable_task :: "string \<Rightarrow> ('x, 'c, 'm, bool) js" where
  "disable_task = set_task_enabled False"

definition scheduled_at :: "datetime \<Rightarrow> 'c scheduled_task \<Rightarrow> 'c scheduled_task" where
  "scheduled_at t task = task\<lparr>st_last_run := Some t, st_next_run := Some (t + st_interval_seconds task)\<rparr>"

definition run_task :: "('c \<Rightarrow> ('x, 'c, 'm, 'r) js) \<Rightarrow> string \<Rightarrow> ('x, 'c, 'm, 'r task_report option) js" where
  "run_task call i = reading (\<lambda>s. case dget (js_tasks s) i of
      None \<Rightarrow> ret None
    | Some task \<Rightarrow>
        (case st_coroutine task of
           None \<Rightarrow> ret None
         | Some c \<Rightarrow>
             if \<not> st_enabled task then ret None
             else bind now (\<lambda>t. seq (js_update i (scheduled_at t))
               (try_catch
                 (bind (call c) (\<lambda>r.
                    seq (js_update i (\<lambda>t. t\<lparr>st_run_count := st_run_count t + 1\<rparr>))
                    (seq (js_count (\<lambda>m. m\<lparr>tasks_executed := tasks_executed m + 1\<rparr>))
                      (ret (Some (TASK_SUCCESS i r))))))
                 (\<lambda>e. seq (js_update i (\<lambda>t. t\<lparr>st_failure_count := st_failure_count t + 1\<rparr>))
                    (seq (js_count (\<lambda>m. m\<lparr>tasks_failed := tasks_failed m + 1\<rparr>))
                      (ret (Some (TASK_FAILED i e)))))))))"

text \<open>The reports of a run, none when the task did not run.\<close>

definition run_reports :: "('c \<Rightarrow> ('x, 'c, 'm, 'r) js) \<Rightarrow> string \<Rightarrow> ('x, 'c, 'm, 'r task_report list) js" where
  "run_reports call i = bind (run_task call i) (\<lambda>r. ret (case r of None \<Rightarrow> [] | Some x \<Rightarrow> [x]))"

definition run_all :: "('c \<Rightarrow> ('x, 'c, 'm, 'r) js) \<Rightarrow> ('x, 'c, 'm, 'r task_report list) js" where
  "run_all call = reading (\<lambda>s. collect (run_reports call) (map fst (js_tasks s)))"

definition is_pending :: "datetime \<Rightarrow> 'c scheduled_task \<Rightarrow> bool" where
  "is_pending t task \<longleftrightarrow> st_enabled task \<and>
     (case st_next_run task of None \<Rightarrow> True | Some n \<Rightarrow> n \<le> t)"

definition get_pending_tasks :: "datetime option \<Rightarrow> ('x, 'c, 'm, 'c scheduled_task list) js" where
  "get_pending_tasks asked = gets (\<lambda>s. filter (is_pending (case asked of None \<Rightarrow> clock s | Some t \<Rightarrow> t))
     (map snd (js_tasks s)))"

definition get_task_count :: "('x, 'c, 'm, nat) js" where
  "get_task_count = gets (\<lambda>s. length (js_tasks s))"

definition get_tasks_by_type :: "string \<Rightarrow> ('x, 'c, 'm, 'c scheduled_task list) js" where
  "get_tasks_by_type ty = gets (\<lambda>s. filter (\<lambda>t. st_task_type t = ty) (map snd (js_tasks s)))"

section \<open>One run\<close>

text \<open>Coroutines that leave the schedule alone; time does not pass during a run.\<close>

definition quiet_tasks :: "('c \<Rightarrow> ('x, 'c, 'm, 'r) js) \<Rightarrow> bool" where
  "quiet_tasks call \<longleftrightarrow> (\<forall>c. obeys (same (\<lambda>s. (js_tasks s, clock s))) (call c))"

definition runnable :: "'c scheduled_task \<Rightarrow> bool" where
  "runnable task \<longleftrightarrow> st_enabled task \<and> st_coroutine task \<noteq> None"

text \<open>What a run leaves of its task: the new schedule, and one of the two counters higher.\<close>

definition ran_at :: "datetime \<Rightarrow> 'c scheduled_task \<Rightarrow> 'c scheduled_task \<Rightarrow> bool" where
  "ran_at t task task' \<longleftrightarrow>
     (task' = scheduled_at t task\<lparr>st_run_count := st_run_count task + 1\<rparr> \<or>
      task' = scheduled_at t task\<lparr>st_failure_count := st_failure_count task + 1\<rparr>)"

lemma js_update_eq:
  "dget (js_tasks s) i = Some task \<Longrightarrow> js_update i f s = (Ok (), s\<lparr>js_tasks := dput i (f task) (js_tasks s)\<rparr>)"
  by (simp add: js_update_def modify_def)

lemma js_count_eq: "js_count f s = (Ok (), s\<lparr>js_metrics := f (js_metrics s)\<rparr>)"
  by (simp add: js_count_def modify_def)

lemma run_task_idle:
  "dget (js_tasks s) i = None \<or> (\<exists>task. dget (js_tasks s) i = Some task \<and> \<not> runnable task) \<Longrightarrow>
   run_task call i s = (Ok None, s)"
  by (auto simp: run_task_def reading_def runnable_def ret_def split: option.splits)

lemma run_task_runs:
  assumes "quiet_tasks call" and task: "dget (js_tasks s) i = Some task" and "runnable task"
  shows "\<exists>r t task'. run_task call i s = (Ok (Some r), t) \<and> clock t = clock s \<and>
    js_tasks t = dput i task' (js_tasks s) \<and> ran_at (clock s) task task'"
proof -
  obtain c where c: "st_coroutine task = Some c" and en: "st_enabled task"
    using assms(3) by (auto simp: runnable_def)
  let ?s1 = "s\<lparr>js_tasks := dput i (scheduled_at (clock s) task) (js_tasks s)\<rparr>"
  obtain r t where call: "call c ?s1 = (r, t)" by (cases "call c ?s1")
  have "obeys (same (\<lambda>s. (js_tasks s, clock s))) (call c)" using assms(1) by (simp add: quiet_tasks_def)
  from sameD [OF this, of ?s1] call have t: "js_tasks t = js_tasks ?s1" "clock t = clock s" by simp_all
  then have stored: "dget (js_tasks t) i = Some (scheduled_at (clock s) task)" by simp
  have body: "run_task call i s = try_catch
      (bind (call c) (\<lambda>r. seq (js_update i (\<lambda>t. t\<lparr>st_run_count := st_run_count t + 1\<rparr>))
         (seq (js_count (\<lambda>m. m\<lparr>tasks_executed := tasks_executed m + 1\<rparr>)) (ret (Some (TASK_SUCCESS i r))))))
      (\<lambda>e. seq (js_update i (\<lambda>t. t\<lparr>st_failure_count := st_failure_count t + 1\<rparr>))
         (seq (js_count (\<lambda>m. m\<lparr>tasks_failed := tasks_failed m + 1\<rparr>)) (ret (Some (TASK_FAILED i e))))) ?s1"
    using task c en by (simp add: run_task_def reading_def now_def bind_gets seq_Ok js_update_eq)
  show ?thesis
  proof (cases r)
    case (Ok x)
    with call stored t show ?thesis
      by (simp add: body try_catch_def bind_Ok seq_Ok js_update_eq js_count_eq ret_def)
        (intro exI conjI, rule refl, simp add: ran_at_def scheduled_at_def)
  next
    case (Raise e)
    with call stored t show ?thesis
      by (simp add: body try_catch_def bind_Raise seq_Ok js_update_eq js_count_eq ret_def)
        (intro exI conjI, rule refl, simp add: ran_at_def scheduled_at_def)
  qed
qed

text \<open>A run of many tasks: each runnable one of them has run, everything else is as before.\<close>

definition task_run :: "datetime \<Rightarrow> string set \<Rightarrow> (string, 'c scheduled_task) dict \<Rightarrow>
    (string, 'c scheduled_task) dict \<Rightarrow> bool" where
  "task_run t ids d d' \<longleftrightarrow> (\<forall>i.
     (dget d i = None \<longrightarrow> dget d' i = None) \<and>
     (\<forall>task. dget d i = Some task \<longrightarrow>
        (if i \<in> ids \<and> runnable task then \<exists>task'. dget d' i = Some task' \<and> ran_at t task task'
         else dget d' i = Some task)))"

lemma task_run_none: "task_run t {} d d"
  by (simp add: task_run_def)

lemma task_run_skip:
  "dget d i = None \<or> (\<exists>task. dget d i = Some task \<and> \<not> runnable task) \<Longrightarrow> task_run t ids d d' \<Longrightarrow>
   task_run t (insert i ids) d d'"
  unfolding task_run_def by (metis insert_iff option.discI option.inject)

lemma task_run_step:
  assumes "dget d i = Some task" and "runnable task" and "ran_at t task task'" and "i \<notin> ids"
    and "task_run t ids (dput i task' d) d'"
  shows "task_run t (insert i ids) d d'"
  using assms(5) [unfolded task_run_def, rule_format] assms(1-4) unfolding task_run_def
  by (metis dget_dput insert_iff option.discI option.inject)

lemma run_ids:
  assumes "quiet_tasks call" and "distinct ids"
  shows "\<exists>rs t. collect (run_reports call) ids s = (Ok rs, t) \<and>
    clock t = clock s \<and> task_run (clock s) (set ids) (js_tasks s) (js_tasks t)"
  using assms(2)
proof (induction ids arbitrary: s)
  case Nil
  show ?case by (simp add: ret_def task_run_none)
next
  case (Cons i ids)
  show ?case
  proof (cases "\<exists>task. dget (js_tasks s) i = Some task \<and> runnable task")
    case True
    then obtain task where task: "dget (js_tasks s) i = Some task" "runnable task" by blast
    from run_task_runs [OF assms(1) task] obtain r s1 task' where
      1: "run_task call i s = (Ok (Some r), s1)" "clock s1 = clock s"
        "js_tasks s1 = dput i task' (js_tasks s)" "ran_at (clock s) task task'" by blast
    from Cons.IH [of s1] Cons.prems obtain rs t where
      2: "collect (run_reports call) ids s1 = (Ok rs, t)"
        "clock t = clock s1" "task_run (clock s1) (set ids) (js_tasks s1) (js_tasks t)" by auto
    have "task_run (clock s) (set (i # ids)) (js_tasks s) (js_tasks t)"
      using task_run_step [OF task 1(4)] Cons.prems 2(3) 1(2,3) by simp
    moreover have "run_reports call i s = (Ok [r], s1)"
      using 1(1) by (simp add: run_reports_def bind_Ok ret_def)
    ultimately show ?thesis using collect_Ok [OF _ 2(1), of i s "[r]"] 1(2) 2(2) by auto
  next
    case False
    then have skip: "dget (js_tasks s) i = None \<or> (\<exists>task. dget (js_tasks s) i = Some task \<and> \<not> runnable task)"
      by (cases "dget (js_tasks s) i") auto
    from Cons.IH [of s] Cons.prems obtain rs t where
      2: "collect (run_reports call) ids s = (Ok rs, t)"
        "clock t = clock s" "task_run (clock s) (set ids) (js_tasks s) (js_tasks t)" by auto
    have "run_reports call i s = (Ok [], s)"
      using run_task_idle [OF skip, of call] by (simp add: run_reports_def bind_Ok ret_def)
    from collect_Ok [OF this 2(1)] 2(2) task_run_skip [OF skip 2(3)] show ?thesis by auto
  qed
qed

section \<open>Properties\<close>

text \<open>
  Running all tasks. When coroutines leave the schedule and the clock alone, \<^verbatim>\<open>run_all\<close> returns
  whatever they raise; each enabled task with a coroutine has run once (its run or its failure
  counter is one higher) and is due again one interval later: with a positive interval it is not
  pending now, and from one interval later on it is. Every other task is as before.
\<close>

theorem run_all_reschedules:
  assumes "quiet_tasks call" and "dict_ok (js_tasks s)"
  shows "\<exists>rs t. run_all call s = (Ok rs, t) \<and>
    (\<forall>i task. dget (js_tasks s) i = Some task \<longrightarrow>
      (if runnable task
       then \<exists>task'. dget (js_tasks t) i = Some task' \<and> ran_at (clock s) task task' \<and>
         (\<forall>now. is_pending now task' \<longleftrightarrow> clock s + st_interval_seconds task \<le> now)
       else dget (js_tasks t) i = Some task))"
proof -
  obtain rs t where run: "run_all call s = (Ok rs, t)"
    and after: "task_run (clock s) (set (map fst (js_tasks s))) (js_tasks s) (js_tasks t)"
    using run_ids [OF assms(1), of "map fst (js_tasks s)" s] assms(2)
    by (auto simp: run_all_def reading_def dict_ok_def)
  have "if runnable task
       then \<exists>task'. dget (js_tasks t) i = Some task' \<and> ran_at (clock s) task task' \<and>
         (\<forall>now. is_pending now task' \<longleftrightarrow> clock s + st_interval_seconds task \<le> now)
       else dget (js_tasks t) i = Some task" if i: "dget (js_tasks s) i = Some task" for i task
  proof -
    have "i \<in> set (map fst (js_tasks s))" using i by (force dest: map_of_SomeD)
    moreover have "runnable task \<Longrightarrow> ran_at (clock s) task task' \<Longrightarrow>
        is_pending now task' \<longleftrightarrow> clock s + st_interval_seconds task \<le> now" for task' now
      by (auto simp: ran_at_def scheduled_at_def is_pending_def runnable_def)
    ultimately show ?thesis
      using after [unfolded task_run_def, rule_format, of i] i by auto
  qed
  with run show ?thesis by blast
qed

definition idle_scheduler :: "(unit, string) job_scheduler" where
  "idle_scheduler = \<lparr>clock = 0, uuid_next = 0, sleeps = [], exch = (), js_tasks = [],
     js_metrics = \<lparr>tasks_added = 0, tasks_removed = 0, tasks_executed = 0, tasks_failed = 0\<rparr>\<rparr>"

theorem run_all_reschedules_witness:
  "\<exists>rs t task. run_all (\<lambda>c :: string. throw (Exn OtherException []) :: (unit, string, unit, unit) js)
      (snd (add_task ''sync'' ''sync'' 60 (Some ''f'') True idle_scheduler)) = (Ok rs, t) \<and>
    dget (js_tasks t) (show_nat 0) = Some task \<and> \<not> is_pending 59 task \<and> is_pending 60 task"
proof -
  let ?s = "snd (add_task ''sync'' ''sync'' 60 (Some ''f'') True idle_scheduler)"
  let ?call = "\<lambda>c :: string. throw (Exn OtherException []) :: (unit, string, unit, unit) js"
  have quiet: "quiet_tasks ?call" unfolding quiet_tasks_def by (auto intro!: resp_intros)
  have "dict_ok (js_tasks ?s)"
    by (simp add: add_task_def js_count_def py_simps Let_def idle_scheduler_def dict_ok_def)
  moreover obtain task where "dget (js_tasks ?s) (show_nat 0) = Some task" "runnable task"
    "st_interval_seconds task = 60"
    by (simp add: add_task_def js_count_def py_simps Let_def idle_scheduler_def runnable_def)
  moreover have "clock ?s = 0"
    by (simp add: add_task_def js_count_def py_simps Let_def idle_scheduler_def)
  ultimately show ?thesis using run_all_reschedules [OF quiet, of ?s] by fastforce
qed

end
