(* ===== verification/WorkerManager.thy ===== *)
theory WorkerManager
  imports DomainTypes
begin

text \<open>
  \<^verbatim>\<open>engine/scheduler/manager.py\<close>: the lifecycle of workers. The state of a worker is a string in
  the code; the type invariant below says which strings can occur. Coroutines are only kept.
\<close>

section \<open>State\<close>

record worker_status =
  wk_name :: string
  wk_state :: string
  wk_started_at :: "datetime option"
  wk_stopped_at :: "datetime option"
  wk_error_count :: int
  wk_last_error :: "string option"

record worker_metrics =
  workers_started :: int
  workers_stopped :: int
  workers_paused :: int
  workers_resumed :: int
  workers_errored :: int

record ('x, 'c) worker_manager = "'x world" +
  wm_workers :: "(string, worker_status) dict"
  wm_coroutines :: "(string, 'c) dict"
  wm_metrics :: worker_metrics

type_synonym ('x, 'c, 'm, 'a) wm = "(('x, 'c, 'm) worker_manager_scheme, 'a) py"

section \<open>Operations\<close>

definition wm_count :: "(worker_metrics \<Rightarrow> worker_metrics) \<Rightarrow> ('x, 'c, 'm, unit) wm" where
  "wm_count f = modify (\<lambda>s. s\<lparr>wm_metrics := f (wm_metrics s)\<rparr>)"

definition wm_set :: "string \<Rightarrow> worker_status \<Rightarrow> ('x, 'c, 'm, unit) wm" where
  "wm_set name w = modify (\<lambda>s. s\<lparr>wm_workers := dput name w (wm_workers s)\<rparr>)"

definition register_worker :: "string \<Rightarrow> 'c \<Rightarrow> ('x, 'c, 'm, unit) wm" where
  "register_worker name coroutine =
     seq (modify (\<lambda>s. s\<lparr>wm_coroutines := dput name coroutine (wm_coroutines s)\<rparr>))
       (wm_set name \<lparr>wk_name = name, wk_state = ''idle'', wk_started_at = None, wk_stopped_at = None,
          wk_error_count = 0, wk_last_error = None\<rparr>)"

text \<open>An operation on a registered worker, and what it answers when there is none.\<close>

definition on_worker :: "string \<Rightarrow> 'a \<Rightarrow> (worker_status \<Rightarrow> ('x, 'c, 'm, 'a) wm) \<Rightarrow> ('x, 'c, 'm, 'a) wm" where
  "on_worker name missing f = reading (\<lambda>s. case dget (wm_workers s) name of
      None \<Rightarrow> ret missing | Some w \<Rightarrow> f w)"

definition start_worker :: "string \<Rightarrow> ('x, 'c, 'm, bool) wm" where
  "start_worker name = on_worker name False (\<lambda>w. if wk_state w = ''running'' then ret True
        else bind now (\<lambda>t. seq (wm_set name (w\<lparr>wk_state := ''running'', wk_started_at := Some t,
               wk_stopped_at := None, wk_error_count := 0, wk_last_error := None\<rparr>))
          (seq (wm_count (\<lambda>m. m\<lparr>workers_started := workers_started m + 1\<rparr>)) (ret True))))"

definition stop_worker :: "string \<Rightarrow> ('x, 'c, 'm, bool) wm" where
  "stop_worker name = on_worker name False (\<lambda>w. if wk_state w = ''stopped'' then ret True
        else bind now (\<lambda>t. seq (wm_set name (w\<lparr>wk_state := ''stopped'', wk_stopped_at := Some t\<rparr>))
          (seq (wm_count (\<lambda>m. m\<lparr>workers_stopped := workers_stopped m + 1\<rparr>)) (ret True))))"

definition pause_worker :: "string \<Rightarrow> ('x, 'c, 'm, bool) wm" where
  "pause_worker name = on_worker name False (\<lambda>w. if wk_state w \<notin> {''running''} then ret False
        else seq (wm_set name (w\<lparr>wk_state := ''paused''\<rparr>))
          (seq (wm_count (\<lambda>m. m\<lparr>workers_paused := workers_paused m + 1\<rparr>)) (ret True)))"

definition resume_worker :: "string \<Rightarrow> ('x, 'c, 'm, bool) wm" where
  "resume_worker name = on_worker name False (\<lambda>w. if wk_state w \<noteq> ''paused'' then ret False
        else seq (wm_set name (w\<lparr>wk_state := ''running''\<rparr>))
          (seq (wm_count (\<lambda>m. m\<lparr>workers_resumed := workers_resumed m + 1\<rparr>)) (ret True)))"

definition mark_error :: "string \<Rightarrow> string \<Rightarrow> ('x, 'c, 'm, unit) wm" where
  "mark_error name error = on_worker name () (\<lambda>w.
     seq (wm_set name (w\<lparr>wk_state := ''error'', wk_error_count := wk_error_count w + 1,
            wk_last_error := Some error\<rparr>))
       (wm_count (\<lambda>m. m\<lparr>workers_errored := workers_errored m + 1\<rparr>)))"

definition get_worker_status :: "string \<Rightarrow> ('x, 'c, 'm, worker_status option) wm" where
  "get_worker_status name = gets (\<lambda>s. dget (wm_workers s) name)"

definition get_all_workers :: "('x, 'c, 'm, worker_status list) wm" where
  "get_all_workers = gets (\<lambda>s. map snd (wm_workers s))"

definition get_running_workers :: "('x, 'c, 'm, worker_status list) wm" where
  "get_running_workers = gets (\<lambda>s. filter (\<lambda>w. wk_state w = ''running'') (map snd (wm_workers s)))"

section \<open>The type of a worker\<close>

definition worker_states :: "string list" where
  "worker_states = [''idle'', ''running'', ''paused'', ''stopped'', ''error'']"

text \<open>The fields agree with the state.\<close>

definition worker_ok :: "worker_status \<Rightarrow> bool" where
  "worker_ok w \<longleftrightarrow> wk_state w \<in> set worker_states \<and> 0 \<le> wk_error_count w \<and>
     (wk_last_error w = None \<longleftrightarrow> wk_error_count w = 0) \<and>
     (wk_state w = ''error'' \<longrightarrow> 0 < wk_error_count w) \<and>
     (wk_state w \<in> {''running'', ''paused''} \<longrightarrow> wk_started_at w \<noteq> None) \<and>
     (wk_state w \<in> {''running'', ''paused''} \<longrightarrow> wk_error_count w = 0 \<and> wk_stopped_at w = None) \<and>
     (wk_state w = ''stopped'' \<longrightarrow> wk_stopped_at w \<noteq> None) \<and>
     (wk_state w = ''idle'' \<longrightarrow> wk_started_at w = None \<and> wk_stopped_at w = None \<and> wk_error_count w = 0)"

definition workers_ok :: "('x, 'c, 'm) worker_manager_scheme \<Rightarrow> bool" where
  "workers_ok s \<longleftrightarrow> dict_ok (wm_workers s) \<and>
     (\<forall>name w. dget (wm_workers s) name = Some w \<longrightarrow> worker_ok w \<and> wk_name w = name \<and>
        dget (wm_coroutines s) name \<noteq> None)"

inductive worker_step :: "('x, 'c, 'm) worker_manager_scheme \<Rightarrow> ('x, 'c, 'm) worker_manager_scheme \<Rightarrow> bool" where
  registered: "worker_step s (snd (register_worker name c s))"
| started: "worker_step s (snd (start_worker name s))"
| stopped: "worker_step s (snd (stop_worker name s))"
| paused: "worker_step s (snd (pause_worker name s))"
| resumed: "worker_step s (snd (resume_worker name s))"
| errored: "worker_step s (snd (mark_error name e s))"
| elapsed: "worker_step s (s\<lparr>clock := t\<rparr>)"

lemma worker_ok_idle: "worker_ok \<lparr>wk_name = name, wk_state = ''idle'', wk_started_at = None,
    wk_stopped_at = None, wk_error_count = 0, wk_last_error = None\<rparr>"
  by (simp add: worker_ok_def worker_states_def)

lemma worker_ok_changes:
  assumes "worker_ok w"
  shows "worker_ok (w\<lparr>wk_state := ''running'', wk_started_at := Some t, wk_stopped_at := None,
      wk_error_count := 0, wk_last_error := None\<rparr>)"
    "worker_ok (w\<lparr>wk_state := ''stopped'', wk_stopped_at := Some t\<rparr>)"
    "wk_state w = ''running'' \<Longrightarrow> worker_ok (w\<lparr>wk_state := ''paused''\<rparr>)"
    "wk_state w = ''paused'' \<Longrightarrow> worker_ok (w\<lparr>wk_state := ''running''\<rparr>)"
    "worker_ok (w\<lparr>wk_state := ''error'', wk_error_count := wk_error_count w + 1, wk_last_error := Some e\<rparr>)"
  using assms by (simp_all add: worker_ok_def worker_states_def)

lemma on_worker_keeps:
  assumes "\<And>w s. worker_ok w \<Longrightarrow> wk_name w = name \<Longrightarrow> dget (wm_workers s) name = Some w \<Longrightarrow>
    workers_ok s \<Longrightarrow> workers_ok (snd (f w s))"
    and ok: "workers_ok s"
  shows "workers_ok (snd (on_worker name missing f s))"
proof (cases "dget (wm_workers s) name")
  case (Some w)
  then have "worker_ok w" "wk_name w = name" using ok by (auto simp: workers_ok_def)
  from assms(1) [OF this Some ok] Some show ?thesis by (simp add: on_worker_def reading_def)
qed (use ok in \<open>simp add: on_worker_def reading_def ret_def\<close>)

lemma wm_set_keeps:
  assumes "workers_ok s" and "dget (wm_workers s) name = Some w" and "worker_ok w'" and "wk_name w' = name"
  shows "workers_ok (snd (seq (wm_set name w') (wm_count g) s))"
    "workers_ok (snd (seq (wm_set name w') (seq (wm_count g) (ret r)) s))"
  using assms by (auto simp: workers_ok_def wm_set_def wm_count_def py_simps)

lemma snd_ret: "snd (ret a s) = s"
  by (simp add: ret_def)

lemma worker_operations_keep:
  assumes ok: "workers_ok s"
  shows "workers_ok (snd (start_worker name s))" "workers_ok (snd (stop_worker name s))"
    "workers_ok (snd (pause_worker name s))" "workers_ok (snd (resume_worker name s))"
    "workers_ok (snd (mark_error name e s))"
  unfolding start_worker_def stop_worker_def pause_worker_def resume_worker_def mark_error_def
  by (rule on_worker_keeps [OF _ ok], simp add: now_def bind_gets wm_set_keeps worker_ok_changes snd_ret)+

lemma worker_step_ok: "worker_step s t \<Longrightarrow> workers_ok s \<Longrightarrow> workers_ok t"
proof (induction rule: worker_step.induct)
  case (registered s name c)
  then show ?case
    using worker_ok_idle [of name] by (auto simp: register_worker_def wm_set_def py_simps workers_ok_def)
next
  case (elapsed s t)
  then show ?case by (simp add: workers_ok_def)
qed (simp_all add: worker_operations_keep)

lemma worker_history_ok: "worker_step\<^sup>*\<^sup>* s t \<Longrightarrow> workers_ok s \<Longrightarrow> workers_ok t"
  by (induction rule: rtranclp_induct) (auto intro: worker_step_ok)

section \<open>Property\<close>

text \<open>
  C29. The state of a worker is well typed. From a manager without workers, any history of
  registrations, starts, stops, pauses, resumptions and reported errors leaves every worker in one
  of the five documented states, stored under its own name with its coroutine, and with fields that
  agree with the state: a running or paused worker has been started, has no error and no stop time;
  a worker in error has counted one and keeps its text; a stopped one has its stop time.
\<close>

theorem worker_states_typed:
  assumes "worker_step\<^sup>*\<^sup>* s t" and "wm_workers s = []" and "dget (wm_workers t) name = Some w"
  shows "wk_state w \<in> {''idle'', ''running'', ''paused'', ''stopped'', ''error''} \<and>
    wk_name w = name \<and> dget (wm_coroutines t) name \<noteq> None \<and>
    (wk_state w \<in> {''running'', ''paused''} \<longrightarrow>
       wk_started_at w \<noteq> None \<and> wk_stopped_at w = None \<and> wk_error_count w = 0) \<and>
    (wk_state w = ''error'' \<longrightarrow> 0 < wk_error_count w \<and> wk_last_error w \<noteq> None) \<and>
    (wk_state w = ''stopped'' \<longrightarrow> wk_stopped_at w \<noteq> None)"
proof -
  have "workers_ok s" using assms(2) by (simp add: workers_ok_def dict_ok_def)
  with assms(1) have "workers_ok t" by (rule worker_history_ok)
  with assms(3) have "worker_ok w" "wk_name w = name" "dget (wm_coroutines t) name \<noteq> None"
    by (auto simp: workers_ok_def)
  then show ?thesis by (auto simp: worker_ok_def worker_states_def)
qed

definition no_workers :: "(unit, string) worker_manager" where
  "no_workers = \<lparr>clock = 0, uuid_next = 0, sleeps = [], exch = (), wm_workers = [], wm_coroutines = [],
     wm_metrics = \<lparr>workers_started = 0, workers_stopped = 0, workers_paused = 0, workers_resumed = 0,
       workers_errored = 0\<rparr>\<rparr>"

theorem worker_states_typed_witness:
  "\<exists>w. dget (wm_workers (snd (mark_error ''sync'' ''boom'' (snd (register_worker ''sync'' ''f'' no_workers))))) ''sync'' =
     Some w \<and> wk_state w = ''error'' \<and> 0 < wk_error_count w"
proof -
  let ?s1 = "snd (register_worker ''sync'' ''f'' no_workers)"
  have path: "worker_step\<^sup>*\<^sup>* no_workers (snd (mark_error ''sync'' ''boom'' ?s1))"
    by (rule converse_rtranclp_into_rtranclp, rule worker_step.registered,
        rule r_into_rtranclp, rule worker_step.errored)
  obtain w where w: "dget (wm_workers (snd (mark_error ''sync'' ''boom'' ?s1))) ''sync'' = Some w"
    and st: "wk_state w = ''error''"
    by (simp add: mark_error_def on_worker_def register_worker_def wm_set_def wm_count_def py_simps)
  have "wm_workers no_workers = []" by (simp add: no_workers_def)
  from worker_states_typed [OF path this w] st w show ?thesis by blast
qed

end
