(* ===== verification/HeartbeatMonitor.thy ===== *)
theory HeartbeatMonitor
  imports DomainTypes
begin

text \<open>
  \<^verbatim>\<open>engine/scheduler/heartbeat.py\<close>: health checks of the system's components. A check function is a
  name of arbitrary type \<open>'c\<close>; \<open>call\<close>, an argument of the operations, is what calling it does to the
  whole state and what it answers. The measured response time is left out.
\<close>

section \<open>State\<close>

text \<open>What a check answers: a value by its truth, the empty tuple, or a tuple by the truth of its first
  component and its second one.\<close>

datatype check_answer = ANSWER bool | ANSWER_EMPTY | ANSWER_TUPLE bool "string option"

record health_result =
  hc_component :: string
  hc_healthy :: bool
  hc_last_check :: datetime
  hc_error :: "string option"

record heartbeat_metrics =
  checks_registered :: int
  checks_run :: int
  checks_healthy :: int
  checks_unhealthy :: int

record ('x, 'c) heartbeat_monitor = "'x world" +
  hb_checks :: "(string, 'c) dict"
  hb_results :: "(string, health_result) dict"
  hb_metrics :: heartbeat_metrics

type_synonym ('x, 'c, 'm, 'a) hb = "(('x, 'c, 'm) heartbeat_monitor_scheme, 'a) py"

section \<open>Operations\<close>

definition hb_count :: "(heartbeat_metrics \<Rightarrow> heartbeat_metrics) \<Rightarrow> ('x, 'c, 'm, unit) hb" where
  "hb_count f = modify (\<lambda>s. s\<lparr>hb_metrics := f (hb_metrics s)\<rparr>)"

definition hb_register :: "string \<Rightarrow> 'c \<Rightarrow> ('x, 'c, 'm, unit) hb" where
  "hb_register component check_fn =
     seq (modify (\<lambda>s. s\<lparr>hb_checks := dput component check_fn (hb_checks s)\<rparr>))
       (hb_count (\<lambda>m. m\<lparr>checks_registered := checks_registered m + 1\<rparr>))"

definition hb_unregister :: "string \<Rightarrow> ('x, 'c, 'm, bool) hb" where
  "hb_unregister component = reading (\<lambda>s. if dget (hb_checks s) component = None then ret False
     else seq (modify (\<lambda>s. s\<lparr>hb_checks := ddel component (hb_checks s),
            hb_results := ddel component (hb_results s)\<rparr>)) (ret True))"

definition answer_healthy :: "check_answer \<Rightarrow> (bool \<times> string option) res" where
  "answer_healthy a = (case a of ANSWER b \<Rightarrow> Ok (b, None) | ANSWER_EMPTY \<Rightarrow> Raise (Exn PyIndexError [])
     | ANSWER_TUPLE b e \<Rightarrow> Ok (b, e))"

definition hb_record :: "string \<Rightarrow> bool \<Rightarrow> string option \<Rightarrow> ('x, 'c, 'm, health_result) hb" where
  "hb_record component healthy error = bind now (\<lambda>t.
     let r = \<lparr>hc_component = component, hc_healthy = healthy, hc_last_check = t, hc_error = error\<rparr> in
     seq (modify (\<lambda>s. s\<lparr>hb_results := dput component r (hb_results s)\<rparr>))
     (seq (hb_count (\<lambda>m. if healthy then m\<lparr>checks_healthy := checks_healthy m + 1\<rparr>
            else m\<lparr>checks_unhealthy := checks_unhealthy m + 1\<rparr>)) (ret r)))"

definition hb_check :: "('c \<Rightarrow> ('x, 'c, 'm, check_answer) hb) \<Rightarrow> (exn \<Rightarrow> string) \<Rightarrow> string \<Rightarrow>
    ('x, 'c, 'm, health_result) hb" where
  "hb_check call str component = reading (\<lambda>s. case dget (hb_checks s) component of
      None \<Rightarrow> ret \<lparr>hc_component = component, hc_healthy = False, hc_last_check = clock s,
                 hc_error = Some ''Component not registered''\<rparr>
    | Some f \<Rightarrow> seq (hb_count (\<lambda>m. m\<lparr>checks_run := checks_run m + 1\<rparr>))
        (try_catch
          (bind (call f) (\<lambda>a. bind (lift_res (answer_healthy a)) (\<lambda>(healthy, error).
             hb_record component healthy error)))
          (\<lambda>e. hb_record component False (Some (str e)))))"

definition hb_check_all :: "('c \<Rightarrow> ('x, 'c, 'm, check_answer) hb) \<Rightarrow> (exn \<Rightarrow> string) \<Rightarrow>
    ('x, 'c, 'm, health_result list) hb" where
  "hb_check_all call str = reading (\<lambda>s.
     collect (\<lambda>c. bind (hb_check call str c) (\<lambda>r. ret [r])) (map fst (hb_checks s)))"

definition hb_get_unhealthy :: "('x, 'c, 'm, health_result list) hb" where
  "hb_get_unhealthy = gets (\<lambda>s. filter (\<lambda>r. \<not> hc_healthy r) (map snd (hb_results s)))"

definition hb_get_healthy :: "('x, 'c, 'm, health_result list) hb" where
  "hb_get_healthy = gets (\<lambda>s. filter hc_healthy (map snd (hb_results s)))"

definition hb_get_result :: "string \<Rightarrow> ('x, 'c, 'm, health_result option) hb" where
  "hb_get_result component = gets (\<lambda>s. dget (hb_results s) component)"

definition hb_get_registered :: "('x, 'c, 'm, string list) hb" where
  "hb_get_registered = gets (\<lambda>s. map fst (hb_checks s))"

section \<open>One check\<close>

text \<open>Checks that leave the monitor alone.\<close>

definition quiet_checks :: "('c \<Rightarrow> ('x, 'c, 'm, check_answer) hb) \<Rightarrow> bool" where
  "quiet_checks call \<longleftrightarrow> (\<forall>f. obeys (same (\<lambda>s. (hb_checks s, hb_results s, hb_metrics s))) (call f))"

text \<open>Whether an outcome of a check counts as healthy.\<close>

definition outcome_healthy :: "check_answer res \<Rightarrow> bool" where
  "outcome_healthy r \<longleftrightarrow> r = Ok (ANSWER True) \<or> (\<exists>e. r = Ok (ANSWER_TUPLE True e))"

lemma hb_record_eq: "hb_record c h e s =
    (let r = \<lparr>hc_component = c, hc_healthy = h, hc_last_check = clock s, hc_error = e\<rparr> in
     (Ok r, s\<lparr>hb_results := dput c r (hb_results s), hb_metrics := (if h
        then (hb_metrics s)\<lparr>checks_healthy := checks_healthy (hb_metrics s) + 1\<rparr>
        else (hb_metrics s)\<lparr>checks_unhealthy := checks_unhealthy (hb_metrics s) + 1\<rparr>)\<rparr>))"
  by (simp add: hb_record_def hb_count_def py_simps Let_def)

text \<open>The counters balance: every check that was run was healthy or unhealthy.\<close>

definition checks_balance :: "('x, 'c, 'm) heartbeat_monitor_scheme \<Rightarrow> bool" where
  "checks_balance s \<longleftrightarrow>
     checks_run (hb_metrics s) = checks_healthy (hb_metrics s) + checks_unhealthy (hb_metrics s)"

lemma hb_check_registered:
  assumes "quiet_checks call" and f: "dget (hb_checks s) c = Some f"
  defines "s1 \<equiv> s\<lparr>hb_metrics := (hb_metrics s)\<lparr>checks_run := checks_run (hb_metrics s) + 1\<rparr>\<rparr>"
  shows "\<exists>r t. hb_check call str c s = (Ok r, t) \<and> hc_component r = c \<and>
    hc_healthy r = outcome_healthy (fst (call f s1)) \<and>
    hb_results t = dput c r (hb_results s) \<and> hb_checks t = hb_checks s \<and>
    (checks_balance s \<longrightarrow> checks_balance t)"
proof -
  obtain a u where call: "call f s1 = (a, u)" by (cases "call f s1")
  have "obeys (same (\<lambda>s. (hb_checks s, hb_results s, hb_metrics s))) (call f)"
    using assms(1) by (simp add: quiet_checks_def)
  from sameD [OF this, of s1] call have u: "hb_checks u = hb_checks s" "hb_results u = hb_results s"
    "hb_metrics u = (hb_metrics s)\<lparr>checks_run := checks_run (hb_metrics s) + 1\<rparr>"
    by (simp_all add: s1_def)
  define run where "run = (bind (call f) (\<lambda>a. bind (lift_res (answer_healthy a)) (\<lambda>(healthy, error).
             hb_record c healthy error)))"
  have body: "hb_check call str c s = try_catch run (\<lambda>e. hb_record c False (Some (str e))) s1"
    using f by (simp add: hb_check_def reading_def seq_def bind_def hb_count_def modify_def s1_def run_def)
  have "\<exists>h e. hb_check call str c s = hb_record c h e u \<and> h = outcome_healthy a"
  proof (cases a)
    case (Raise e)
    then show ?thesis
      by (simp add: body run_def try_catch_def bind_Raise call outcome_healthy_def) blast
  next
    case (Ok x)
    then show ?thesis
      by (cases x) (auto simp: body run_def try_catch_def bind_Ok call bind_lift_res answer_healthy_def
          outcome_healthy_def throw_def hb_record_eq Let_def)
  qed
  then show ?thesis
    using call u by (auto simp: hb_record_eq Let_def checks_balance_def)
qed

lemma check_each:
  assumes "quiet_checks call" and outcome: "\<And>f s. fst (call f s) = outcome f"
    and "set cs \<subseteq> dom (dget (hb_checks s))" and "distinct cs"
  shows "\<exists>rs t. collect (\<lambda>c. bind (hb_check call str c) (\<lambda>r. ret [r])) cs s = (Ok rs, t) \<and>
    map hc_component rs = cs \<and> hb_checks t = hb_checks s \<and> (checks_balance s \<longrightarrow> checks_balance t) \<and>
    (\<forall>r \<in> set rs. dget (hb_results t) (hc_component r) = Some r \<and>
       hc_healthy r = outcome_healthy (outcome (the (dget (hb_checks s) (hc_component r))))) \<and>
    (\<forall>c. c \<notin> set cs \<longrightarrow> dget (hb_results t) c = dget (hb_results s) c)"
  using assms(3,4)
proof (induction cs arbitrary: s)
  case Nil
  show ?case by (simp add: ret_def)
next
  case (Cons c cs)
  then obtain f where f: "dget (hb_checks s) c = Some f" by auto
  obtain r s1 where 1: "hb_check call str c s = (Ok r, s1)" "hc_component r = c"
    "hc_healthy r = outcome_healthy (outcome f)" "hb_results s1 = dput c r (hb_results s)"
    "hb_checks s1 = hb_checks s" "checks_balance s \<longrightarrow> checks_balance s1"
    using hb_check_registered [OF assms(1) f, of str] outcome by auto
  from Cons.IH [of s1] Cons.prems 1(5) obtain rs t where
    2: "collect (\<lambda>c. bind (hb_check call str c) (\<lambda>r. ret [r])) cs s1 = (Ok rs, t)"
      "map hc_component rs = cs" "hb_checks t = hb_checks s1" "checks_balance s1 \<longrightarrow> checks_balance t"
      "\<forall>r \<in> set rs. dget (hb_results t) (hc_component r) = Some r \<and>
         hc_healthy r = outcome_healthy (outcome (the (dget (hb_checks s1) (hc_component r))))"
      "\<forall>c. c \<notin> set cs \<longrightarrow> dget (hb_results t) c = dget (hb_results s1) c"
    by auto
  have "bind (hb_check call str c) (\<lambda>r. ret [r]) s = (Ok [r], s1)"
    using 1(1) by (simp add: bind_Ok ret_def)
  from collect_Ok [OF this 2(1)]
  have "collect (\<lambda>c. bind (hb_check call str c) (\<lambda>r. ret [r])) (c # cs) s = (Ok (r # rs), t)" by simp
  moreover have "dget (hb_results t) c = Some r" using 2(6) Cons.prems(2) 1(4) by simp
  ultimately show ?case using 1 2 f by auto
qed

section \<open>Property\<close>

text \<open>
  A round of health checks. When the checks leave the monitor alone and keep their outcome
  during the round, \<^verbatim>\<open>check_all\<close> returns whatever they raise, with one report per registered
  component in order of registration; a component is reported, and recorded, healthy exactly when
  its check answered a true value (a tuple by its first component), and a check that raises is
  unhealthy; results of other components stay, and every check run is counted healthy or unhealthy.
\<close>

theorem check_all_reports:
  assumes "quiet_checks call" and "\<And>f s. fst (call f s) = outcome f"
    and "dict_ok (hb_checks s)" and "checks_balance s"
  shows "\<exists>rs t. hb_check_all call str s = (Ok rs, t) \<and> map hc_component rs = map fst (hb_checks s) \<and>
    checks_balance t \<and>
    (\<forall>c f. dget (hb_checks s) c = Some f \<longrightarrow> (\<exists>r. dget (hb_results t) c = Some r \<and>
       (hc_healthy r \<longleftrightarrow> outcome_healthy (outcome f)))) \<and>
    (\<forall>c. dget (hb_checks s) c = None \<longrightarrow> dget (hb_results t) c = dget (hb_results s) c)"
proof -
  have dom: "set (map fst (hb_checks s)) = dom (dget (hb_checks s))" by (simp add: dom_map_of_conv_image_fst)
  obtain rs t where run: "hb_check_all call str s = (Ok rs, t)" "map hc_component rs = map fst (hb_checks s)"
    "checks_balance s \<longrightarrow> checks_balance t"
    and each: "\<forall>r \<in> set rs. dget (hb_results t) (hc_component r) = Some r \<and>
       hc_healthy r = outcome_healthy (outcome (the (dget (hb_checks s) (hc_component r))))"
    and rest: "\<forall>c. c \<notin> set (map fst (hb_checks s)) \<longrightarrow> dget (hb_results t) c = dget (hb_results s) c"
    using check_each [OF assms(1,2), of "map fst (hb_checks s)" s str] dom assms(3)
    by (auto simp: hb_check_all_def reading_def dict_ok_def)
  have "\<exists>r. dget (hb_results t) c = Some r \<and> (hc_healthy r \<longleftrightarrow> outcome_healthy (outcome f))"
    if f: "dget (hb_checks s) c = Some f" for c f
  proof -
    have "c \<in> set (map hc_component rs)" using f dom run(2) by auto
    then obtain r where "r \<in> set rs" "hc_component r = c" by auto
    with each f show ?thesis by fastforce
  qed
  moreover have "dget (hb_results t) c = dget (hb_results s) c" if "dget (hb_checks s) c = None" for c
  proof -
    have "c \<notin> set (map fst (hb_checks s))" using that dom by auto
    then show ?thesis using rest by blast
  qed
  ultimately show ?thesis using run assms(4) by blast
qed

definition sample_monitor :: "(unit, string) heartbeat_monitor" where
  "sample_monitor = \<lparr>clock = 0, uuid_next = 0, sleeps = [], exch = (), hb_checks = [(''db'', ''f''), (''bus'', ''g'')],
     hb_results = [], hb_metrics = \<lparr>checks_registered = 2, checks_run = 0, checks_healthy = 0,
       checks_unhealthy = 0\<rparr>\<rparr>"

theorem check_all_reports_witness:
  "\<exists>rs t r. hb_check_all (\<lambda>f. if f = ''f'' then throw (Exn OtherException []) else ret (ANSWER True))
      (\<lambda>_. ''down'') sample_monitor = (Ok rs, t) \<and> dget (hb_results t) ''db'' = Some r \<and> \<not> hc_healthy r"
proof -
  let ?call = "\<lambda>f. if f = ''f'' then throw (Exn OtherException []) else
      (ret (ANSWER True) :: (unit, string, unit, check_answer) hb)"
  let ?outcome = "\<lambda>f. if f = ''f'' then Raise (Exn OtherException []) else Ok (ANSWER True)"
  have quiet: "quiet_checks ?call" unfolding quiet_checks_def by (auto intro!: resp_intros)
  have outcome: "fst (?call f s) = ?outcome f" for f s by (simp add: throw_def ret_def)
  have "dict_ok (hb_checks sample_monitor)" "checks_balance sample_monitor"
    "dget (hb_checks sample_monitor) ''db'' = Some ''f''"
    by (simp_all add: sample_monitor_def dict_ok_def checks_balance_def)
  with check_all_reports [where call = ?call and outcome = ?outcome and s = sample_monitor and
      str = "\<lambda>_. ''down''", OF quiet outcome]
  show ?thesis by (fastforce simp: outcome_healthy_def)
qed

end
