(* ===== verification/Portfolio.thy ===== *)
theory Portfolio
  imports DomainTypes
begin

text \<open>
  \<^verbatim>\<open>engine/risk/portfolio.py\<close>: the positions of the running instances, keyed by instance. The type
  hints of the code name the fill side \<^verbatim>\<open>str\<close>, as here.
\<close>

section \<open>State\<close>

record position =
  ps_instance_id :: string
  ps_account_id :: string
  ps_exchange :: string
  ps_symbol :: string
  ps_side :: string
  ps_entry_price :: decimal
  ps_quantity :: decimal
  ps_realized_pnl :: decimal
  ps_opened_at :: datetime
  ps_closed :: bool
  ps_closed_at :: "datetime option"

record 'x portfolio = "'x world" +
  pf_positions :: "(string, position) dict"
  pf_closed :: "position list"

type_synonym ('x, 'm, 'a) pf = "(('x, 'm) portfolio_scheme, 'a) py"

definition portfolio_error :: "string \<Rightarrow> exn" where
  "portfolio_error i = Exn PortfolioError [i]"

section \<open>Operations\<close>

definition new_position :: "string \<Rightarrow> string \<Rightarrow> string \<Rightarrow> string \<Rightarrow> string \<Rightarrow> decimal \<Rightarrow> decimal \<Rightarrow> datetime \<Rightarrow>
    position" where
  "new_position i account exchange symbol side entry_price quantity t =
     \<lparr>ps_instance_id = i, ps_account_id = account, ps_exchange = exchange, ps_symbol = symbol,
      ps_side = side, ps_entry_price = entry_price, ps_quantity = quantity, ps_realized_pnl = 0,
      ps_opened_at = t, ps_closed = False, ps_closed_at = None\<rparr>"

definition pf_set :: "string \<Rightarrow> position \<Rightarrow> ('x, 'm, unit) pf" where
  "pf_set i p = modify (\<lambda>s. s\<lparr>pf_positions := dput i p (pf_positions s)\<rparr>)"

definition register_position :: "string \<Rightarrow> string \<Rightarrow> string \<Rightarrow> string \<Rightarrow> string \<Rightarrow> decimal \<Rightarrow> decimal \<Rightarrow>
    ('x, 'm, position) pf" where
  "register_position i account exchange symbol side entry_price quantity = reading (\<lambda>s.
     if dget (pf_positions s) i \<noteq> None then throw (portfolio_error i)
     else if side \<notin> {''long'', ''short''} then throw (Exn ValidationError [])
     else if entry_price \<le> 0 then throw (Exn ValidationError [])
     else if quantity \<le> 0 then throw (Exn ValidationError [])
     else
       let p = new_position i account exchange symbol side entry_price quantity (clock s)
       in seq (pf_set i p) (ret p))"

definition is_opening :: "position \<Rightarrow> string \<Rightarrow> bool" where
  "is_opening p side \<longleftrightarrow> ps_side p = ''long'' \<and> side = ''buy'' \<or> ps_side p = ''short'' \<and> side = ''sell''"

text \<open>A fill that adds to the position: the entry price becomes the average.\<close>

definition opening_fill :: "decimal \<Rightarrow> decimal \<Rightarrow> position \<Rightarrow> position res" where
  "opening_fill fill_price fill_quantity p =
     (let total_cost = dadd (dmul (ps_entry_price p) (ps_quantity p)) (dmul fill_price fill_quantity);
          total_qty = dadd (ps_quantity p) fill_quantity
      in case py_div total_cost total_qty of
           Raise e \<Rightarrow> Raise e
         | Ok avg \<Rightarrow> Ok (p\<lparr>ps_entry_price := avg, ps_quantity := total_qty\<rparr>))"

text \<open>A fill that takes from it: the profit is realised, and at zero the position is closed.\<close>

definition closing_fill :: "datetime \<Rightarrow> decimal \<Rightarrow> decimal \<Rightarrow> position \<Rightarrow> position res" where
  "closing_fill t fill_price fill_quantity p =
     (if ps_quantity p < fill_quantity then Raise (portfolio_error (ps_instance_id p))
      else
        let pnl = (if ps_side p = ''long'' then dmul (dsub fill_price (ps_entry_price p)) fill_quantity
                   else dmul (dsub (ps_entry_price p) fill_price) fill_quantity);
            rest = dsub (ps_quantity p) fill_quantity
        in Ok (p\<lparr>ps_realized_pnl := dadd (ps_realized_pnl p) pnl, ps_quantity := rest,
                 ps_closed := ps_closed p \<or> rest = 0,
                 ps_closed_at := (if rest = 0 then Some t else ps_closed_at p)\<rparr>))"

definition update_position :: "string \<Rightarrow> decimal \<Rightarrow> decimal \<Rightarrow> string \<Rightarrow> ('x, 'm, position) pf" where
  "update_position i fill_price fill_quantity side = reading (\<lambda>s.
     case dget (pf_positions s) i of
       None \<Rightarrow> throw (portfolio_error i)
     | Some p \<Rightarrow>
         if ps_closed p then throw (portfolio_error i)
         else bind (lift_res (if is_opening p side then opening_fill fill_price fill_quantity p
                              else closing_fill (clock s) fill_price fill_quantity p))
           (\<lambda>q. seq (pf_set i q) (ret q)))"

definition close_position :: "string \<Rightarrow> ('x, 'm, position) pf" where
  "close_position i = reading (\<lambda>s. case dget (pf_positions s) i of
      None \<Rightarrow> throw (portfolio_error i)
    | Some p \<Rightarrow>
        let q = p\<lparr>ps_closed := True, ps_closed_at := Some (clock s)\<rparr>
        in seq (modify (\<lambda>s. s\<lparr>pf_positions := ddel i (pf_positions s), pf_closed := pf_closed s @ [q]\<rparr>))
          (ret q))"

definition get_position :: "string \<Rightarrow> ('x, 'm) portfolio_scheme \<Rightarrow> position option" where
  "get_position i s = dget (pf_positions s) i"

text \<open>The filters apply when they are given and not empty.\<close>

definition filtered :: "(position \<Rightarrow> string) \<Rightarrow> string option \<Rightarrow> position list \<Rightarrow> position list" where
  "filtered f wanted ps = (if truthy wanted then filter (\<lambda>p. Some (f p) = wanted) ps else ps)"

definition get_positions :: "string option \<Rightarrow> string option \<Rightarrow> string option \<Rightarrow> string option \<Rightarrow>
    ('x, 'm) portfolio_scheme \<Rightarrow> position list" where
  "get_positions i account exchange symbol s =
     filtered ps_symbol symbol (filtered ps_exchange exchange (filtered ps_account_id account
       (filtered ps_instance_id i (map snd (pf_positions s)))))"

definition get_closed_positions :: "('x, 'm, position list) pf" where
  "get_closed_positions = gets pf_closed"

definition get_open_position_count :: "('x, 'm) portfolio_scheme \<Rightarrow> nat" where
  "get_open_position_count s = length (pf_positions s)"

definition remove_position :: "string \<Rightarrow> ('x, 'm, position option) pf" where
  "remove_position i = reading (\<lambda>s.
     seq (modify (\<lambda>s. s\<lparr>pf_positions := ddel i (pf_positions s)\<rparr>)) (ret (dget (pf_positions s) i)))"

definition pf_clear :: "('x, 'm, unit) pf" where
  "pf_clear = modify (\<lambda>s. s\<lparr>pf_positions := [], pf_closed := []\<rparr>)"

section \<open>The invariant\<close>

definition position_ok :: "position \<Rightarrow> bool" where
  "position_ok p \<longleftrightarrow> ps_side p \<in> {''long'', ''short''} \<and> 0 < ps_entry_price p \<and> 0 \<le> ps_quantity p \<and>
     (ps_closed p \<longleftrightarrow> ps_quantity p = 0) \<and> (ps_closed p \<longleftrightarrow> ps_closed_at p \<noteq> None)"

definition portfolio_ok :: "('x, 'm) portfolio_scheme \<Rightarrow> bool" where
  "portfolio_ok s \<longleftrightarrow> dict_ok (pf_positions s) \<and>
     (\<forall>i p. dget (pf_positions s) i = Some p \<longrightarrow> ps_instance_id p = i \<and> position_ok p) \<and>
     (\<forall>p \<in> set (pf_closed s). ps_closed p \<and> ps_closed_at p \<noteq> None)"

text \<open>What a trading process does to the portfolio; fills have a positive price and quantity.\<close>

inductive portfolio_step :: "('x, 'm) portfolio_scheme \<Rightarrow> ('x, 'm) portfolio_scheme \<Rightarrow> bool" where
  registered: "portfolio_step s (snd (register_position i a e y side p q s))"
| updated: "0 < fp \<Longrightarrow> 0 < fq \<Longrightarrow> portfolio_step s (snd (update_position i fp fq side s))"
| closed: "portfolio_step s (snd (close_position i s))"
| removed: "portfolio_step s (snd (remove_position i s))"
| cleared: "portfolio_step s (snd (pf_clear s))"
| elapsed: "portfolio_step s (s\<lparr>clock := t\<rparr>)"

lemma pf_set_ok:
  "portfolio_ok s \<Longrightarrow> position_ok p \<Longrightarrow> ps_instance_id p = i \<Longrightarrow> portfolio_ok (snd (seq (pf_set i p) (ret p) s))"
  by (auto simp: portfolio_ok_def pf_set_def py_simps)

lemma new_position_ok:
  "side \<in> {''long'', ''short''} \<Longrightarrow> 0 < entry \<Longrightarrow> 0 < qty \<Longrightarrow> position_ok (new_position i a e y side entry qty t)"
  by (simp add: position_ok_def new_position_def)

lemma opening_fill_ok:
  assumes "opening_fill fp fq p = Ok q" and "position_ok p" and "\<not> ps_closed p" and "0 < fp" and "0 < fq"
  shows "position_ok q \<and> \<not> ps_closed q"
proof -
  let ?cost = "dadd (dmul (ps_entry_price p) (ps_quantity p)) (dmul fp fq)" and ?qty = "dadd (ps_quantity p) fq"
  have pos: "0 < ps_quantity p" "0 < ps_entry_price p" using assms(2,3) by (auto simp: position_ok_def)
  then have "0 < ?cost" "0 < ?qty"
    using assms(4,5) dmul_pos [of "ps_entry_price p" "ps_quantity p"] dmul_pos [of fp fq]
    by (simp_all add: dadd_def add_pos_pos)
  moreover then have "q = p\<lparr>ps_entry_price := ddiv ?cost ?qty, ps_quantity := ?qty\<rparr>"
    using assms(1) by (auto simp: opening_fill_def py_div_def Let_def)
  moreover have "0 < ddiv ?cost ?qty" using calculation(1,2) by (rule ddiv_pos)
  ultimately show ?thesis using assms(2,3) by (simp add: position_ok_def)
qed

lemma closing_fill_ok:
  assumes "closing_fill t fp fq p = Ok q" and "position_ok p" and "\<not> ps_closed p"
  shows "position_ok q" and "ps_closed q \<longleftrightarrow> fq = ps_quantity p"
  using assms by (auto simp: closing_fill_def Let_def position_ok_def not_less split: if_splits)

lemma fill_instance:
  "opening_fill fp fq p = Ok q \<Longrightarrow> ps_instance_id q = ps_instance_id p"
  "closing_fill t fp fq p = Ok q \<Longrightarrow> ps_instance_id q = ps_instance_id p"
  by (auto simp: opening_fill_def closing_fill_def Let_def split: if_splits res.splits)

lemma update_position_ok:
  assumes ok: "portfolio_ok s" and fill: "0 < fp" "0 < fq"
  shows "portfolio_ok (snd (update_position i fp fq side s))"
proof (cases "dget (pf_positions s) i")
  case None
  then show ?thesis using ok by (simp add: update_position_def reading_def throw_def)
next
  case (Some p)
  then have p: "position_ok p" "ps_instance_id p = i" using ok by (auto simp: portfolio_ok_def)
  let ?fill = "if is_opening p side then opening_fill fp fq p else closing_fill (clock s) fp fq p"
  show ?thesis
  proof (cases "ps_closed p \<or> (\<exists>e. ?fill = Raise e)")
    case True
    then show ?thesis using ok Some
      by (auto simp: update_position_def reading_def throw_def bind_lift_res)
  next
    case False
    then obtain q where q: "?fill = Ok q" and op: "\<not> ps_closed p" by (cases ?fill) auto
    then have "position_ok q" "ps_instance_id q = i"
      using opening_fill_ok closing_fill_ok(1) fill_instance p fill by (metis (full_types))+
    moreover have "update_position i fp fq side s = seq (pf_set i q) (ret q) s"
      using Some op q by (simp add: update_position_def reading_def bind_lift_res)
    ultimately show ?thesis using pf_set_ok [OF ok] by simp
  qed
qed

lemma portfolio_step_ok: "portfolio_step s t \<Longrightarrow> portfolio_ok s \<Longrightarrow> portfolio_ok t"
proof (induction rule: portfolio_step.induct)
  case (registered s i a e y side p q)
  show ?case
  proof (cases "dget (pf_positions s) i = None \<and> side \<in> {''long'', ''short''} \<and> 0 < p \<and> 0 < q")
    case True
    then have "register_position i a e y side p q s =
        seq (pf_set i (new_position i a e y side p q (clock s))) (ret (new_position i a e y side p q (clock s))) s"
      by (auto simp: register_position_def reading_def Let_def)
    moreover have "position_ok (new_position i a e y side p q (clock s))"
      using True by (intro new_position_ok) auto
    ultimately show ?thesis using pf_set_ok [OF registered] by (simp add: new_position_def)
  next
    case False
    then show ?thesis using registered
      by (auto simp: register_position_def reading_def throw_def not_less)
  qed
next
  case (closed s i)
  show ?case
  proof (cases "dget (pf_positions s) i")
    case (Some p)
    with closed show ?thesis
      by (auto simp: close_position_def py_simps Let_def portfolio_ok_def)
  qed (use closed in \<open>simp add: close_position_def py_simps\<close>)
next
  case (updated fp fq s i side)
  then show ?case by (intro update_position_ok)
qed (auto simp: remove_position_def pf_clear_def py_simps portfolio_ok_def)

lemma portfolio_history_ok: "portfolio_step\<^sup>*\<^sup>* s t \<Longrightarrow> portfolio_ok s \<Longrightarrow> portfolio_ok t"
  by (induction rule: rtranclp_induct) (auto intro: portfolio_step_ok)

section \<open>Properties\<close>

text \<open>
  C23. The portfolio stays consistent. From an empty portfolio, any history of registrations, fills of
  positive price and quantity, closings and removals leaves each position stored under its own
  instance, long or short, with a positive entry price and a quantity that is not negative, closed
  exactly when the quantity is zero, and with a closing time exactly when it is closed.
\<close>

theorem portfolio_positions_consistent:
  assumes "portfolio_step\<^sup>*\<^sup>* s t" and "pf_positions s = []" and "pf_closed s = []"
    and "dget (pf_positions t) i = Some p"
  shows "ps_instance_id p = i \<and> ps_side p \<in> {''long'', ''short''} \<and> 0 < ps_entry_price p \<and>
    0 \<le> ps_quantity p \<and> (ps_closed p \<longleftrightarrow> ps_quantity p = 0) \<and> (ps_closed p \<longleftrightarrow> ps_closed_at p \<noteq> None)"
proof -
  have "portfolio_ok s" using assms(2,3) by (simp add: portfolio_ok_def dict_ok_def)
  with assms(1) have "portfolio_ok t" by (rule portfolio_history_ok)
  with assms(4) show ?thesis unfolding portfolio_ok_def position_ok_def by blast
qed

definition empty_portfolio :: "unit portfolio" where
  "empty_portfolio = \<lparr>clock = 0, uuid_next = 0, sleeps = [], exch = (), pf_positions = [], pf_closed = []\<rparr>"

definition one_position :: "unit portfolio" where
  "one_position = snd (register_position ''i'' ''a'' ''okx'' ''BTC'' ''long'' 100 2 empty_portfolio)"

lemma one_position_simps:
  "pf_positions one_position = [(''i'', new_position ''i'' ''a'' ''okx'' ''BTC'' ''long'' 100 2 0)]"
  "pf_closed one_position = []"
  by (simp_all add: one_position_def register_position_def empty_portfolio_def pf_set_def py_simps Let_def)

theorem portfolio_positions_consistent_witness:
  "\<exists>p. dget (pf_positions (snd (update_position ''i'' 110 1 ''sell'' one_position))) ''i'' = Some p \<and>
     0 \<le> ps_quantity p"
proof -
  let ?t = "snd (update_position ''i'' 110 1 ''sell'' one_position)"
  have "portfolio_step empty_portfolio one_position"
    unfolding one_position_def by (rule portfolio_step.registered)
  moreover have "portfolio_step one_position ?t" by (rule portfolio_step.updated) simp_all
  ultimately have path: "portfolio_step\<^sup>*\<^sup>* empty_portfolio ?t"
    by (meson converse_rtranclp_into_rtranclp r_into_rtranclp)
  obtain p where p: "dget (pf_positions ?t) ''i'' = Some p"
    by (simp add: update_position_def one_position_simps closing_fill_def is_opening_def new_position_def
        pf_set_def py_simps Let_def)
  have "pf_positions empty_portfolio = []" "pf_closed empty_portfolio = []"
    by (simp_all add: empty_portfolio_def)
  from portfolio_positions_consistent [OF path this p] p show ?thesis by blast
qed

text \<open>
  A position that its last fill closes blocks its instance. After a fill that takes all of an open
  position's quantity, the position is closed but still registered: it still counts as open, it is
  not among the closed positions (so their realised profit misses it), every later fill of the
  instance raises, and so does every attempt to register a new position for it.
\<close>

theorem closing_fill_blocks_instance:
  assumes "dget (pf_positions s) i = Some p" and "\<not> ps_closed p" and "\<not> is_opening p side"
    and "update_position i fill_price (ps_quantity p) side s = (r, t)"
  shows "\<exists>q. r = Ok q \<and> ps_closed q \<and> ps_quantity q = 0 \<and>
    get_position i t = Some q \<and> get_open_position_count t = get_open_position_count s \<and>
    pf_closed t = pf_closed s \<and>
    (\<forall>fp fq side. update_position i fp fq side t = (Raise (portfolio_error i), t)) \<and>
    (\<forall>a e y side ep n. register_position i a e y side ep n t = (Raise (portfolio_error i), t))"
proof -
  obtain q where q: "closing_fill (clock s) fill_price (ps_quantity p) p = Ok q" "ps_closed q" "ps_quantity q = 0"
    by (simp add: closing_fill_def Let_def)
  have run: "update_position i fill_price (ps_quantity p) side s =
      (Ok q, s\<lparr>pf_positions := dput i q (pf_positions s)\<rparr>)"
    using assms(1-3) q by (simp add: update_position_def pf_set_def py_simps)
  then have t: "r = Ok q" "t = s\<lparr>pf_positions := dput i q (pf_positions s)\<rparr>" using assms(4) by simp_all
  have "update_position i fp fq side t = (Raise (portfolio_error i), t)" for fp fq side
    using t q(2) by (simp add: update_position_def py_simps)
  moreover have "register_position i a e y side ep n t = (Raise (portfolio_error i), t)" for a e y side ep n
    using t by (simp add: register_position_def py_simps)
  ultimately show ?thesis
    using t q assms(1) by (simp add: get_position_def get_open_position_count_def length_dput)
qed

theorem closing_fill_blocks_instance_witness:
  "\<exists>q t. update_position ''i'' 110 2 ''sell'' one_position = (Ok q, t) \<and> ps_closed q \<and>
     get_open_position_count t = 1"
proof -
  let ?p = "new_position ''i'' ''a'' ''okx'' ''BTC'' ''long'' 100 2 0"
  have p: "dget (pf_positions one_position) ''i'' = Some ?p" by (simp add: one_position_simps)
  have fields: "\<not> ps_closed ?p" "\<not> is_opening ?p ''sell''" "ps_quantity ?p = 2"
    by (simp_all add: new_position_def is_opening_def)
  obtain r t where run: "update_position ''i'' 110 2 ''sell'' one_position = (r, t)"
    by (cases "update_position ''i'' 110 2 ''sell'' one_position")
  with fields(3) have "update_position ''i'' 110 (ps_quantity ?p) ''sell'' one_position = (r, t)" by simp
  from closing_fill_blocks_instance [OF p fields(1,2) this] run show ?thesis
    by (auto simp: get_open_position_count_def one_position_simps)
qed

end
