(* ===== verification/PortfolioReports.thy ===== *)
theory PortfolioReports
  imports Portfolio
begin

text \<open>
  The reports on positions: \<^verbatim>\<open>engine/risk/exposure.py\<close>, \<^verbatim>\<open>aggregator.py\<close> and \<^verbatim>\<open>metrics.py\<close>. Each
  is a pass over the open positions; decimal additions round, so the order of the pass matters and
  is kept.
\<close>

section \<open>Exposure\<close>

type_synonym prices = "(string, decimal) dict"

definition notional :: "prices \<Rightarrow> position \<Rightarrow> decimal" where
  "notional prices p =
     dmul (case dget prices (ps_symbol p) of None \<Rightarrow> ps_entry_price p | Some x \<Rightarrow> x) (ps_quantity p)"

text \<open>The three breakdowns differ in the key only.\<close>

fun exposure_by :: "(position \<Rightarrow> string) \<Rightarrow> prices \<Rightarrow> position list \<Rightarrow> (string, decimal) dict \<Rightarrow>
    (string, decimal) dict" where
  "exposure_by key prices [] acc = acc"
| "exposure_by key prices (p # ps) acc =
     exposure_by key prices ps
       (if ps_closed p then acc
        else dput (key p) (dadd (case dget acc (key p) of None \<Rightarrow> 0 | Some x \<Rightarrow> x) (notional prices p)) acc)"

definition get_exposure_by_exchange :: "position list \<Rightarrow> prices \<Rightarrow> (string, decimal) dict" where
  "get_exposure_by_exchange ps prices = exposure_by ps_exchange prices ps []"

definition get_exposure_by_account :: "position list \<Rightarrow> prices \<Rightarrow> (string, decimal) dict" where
  "get_exposure_by_account ps prices = exposure_by ps_account_id prices ps []"

definition get_exposure_by_symbol :: "position list \<Rightarrow> prices \<Rightarrow> (string, decimal) dict" where
  "get_exposure_by_symbol ps prices = exposure_by ps_symbol prices ps []"

fun net_exposure :: "prices \<Rightarrow> position list \<Rightarrow> decimal \<Rightarrow> decimal" where
  "net_exposure prices [] net = net"
| "net_exposure prices (p # ps) net =
     net_exposure prices ps
       (if ps_closed p then net
        else if ps_side p = ''long'' then dadd net (notional prices p) else dsub net (notional prices p))"

definition get_net_exposure :: "position list \<Rightarrow> prices \<Rightarrow> decimal" where
  "get_net_exposure ps prices = net_exposure prices ps 0"

record exposure_report =
  er_total_exposure :: decimal
  er_long_exposure :: decimal
  er_short_exposure :: decimal
  er_net_exposure :: decimal
  er_by_exchange :: "(string, decimal) dict"
  er_by_account :: "(string, decimal) dict"
  er_by_symbol :: "(string, decimal) dict"

fun side_exposures :: "prices \<Rightarrow> position list \<Rightarrow> decimal \<times> decimal \<Rightarrow> decimal \<times> decimal" where
  "side_exposures prices [] acc = acc"
| "side_exposures prices (p # ps) (long, short) =
     side_exposures prices ps
       (if ps_closed p then (long, short)
        else if ps_side p = ''long'' then (dadd long (notional prices p), short)
        else (long, dadd short (notional prices p)))"

definition calculate_exposure :: "position list \<Rightarrow> prices \<Rightarrow> exposure_report" where
  "calculate_exposure ps prices =
     (case side_exposures prices ps (0, 0) of (long, short) \<Rightarrow>
       \<lparr>er_total_exposure = dadd long short, er_long_exposure = long, er_short_exposure = short,
        er_net_exposure = dsub long short, er_by_exchange = get_exposure_by_exchange ps prices,
        er_by_account = get_exposure_by_account ps prices,
        er_by_symbol = get_exposure_by_symbol ps prices\<rparr>)"

section \<open>Aggregation\<close>

record aggregated =
  ag_key :: string
  ag_total_long_quantity :: decimal
  ag_total_short_quantity :: decimal
  ag_net_quantity :: decimal
  ag_weighted_avg_entry_price :: decimal
  ag_position_count :: int

text \<open>The sums of one group: long, short, cost and quantity.\<close>

record group_sums =
  gs_long :: decimal
  gs_short :: decimal
  gs_cost :: decimal
  gs_quantity :: decimal

definition add_position :: "group_sums \<Rightarrow> position \<Rightarrow> group_sums" where
  "add_position g p = g
     \<lparr>gs_long := (if ps_side p = ''long'' then dadd (gs_long g) (ps_quantity p) else gs_long g),
      gs_short := (if ps_side p = ''long'' then gs_short g else dadd (gs_short g) (ps_quantity p)),
      gs_cost := dadd (gs_cost g) (dmul (ps_entry_price p) (ps_quantity p)),
      gs_quantity := dadd (gs_quantity g) (ps_quantity p)\<rparr>"

definition no_sums :: group_sums where
  "no_sums = \<lparr>gs_long = 0, gs_short = 0, gs_cost = 0, gs_quantity = 0\<rparr>"

definition aggregated_from :: "string \<Rightarrow> group_sums \<Rightarrow> int \<Rightarrow> aggregated" where
  "aggregated_from key g n =
     \<lparr>ag_key = key, ag_total_long_quantity = gs_long g, ag_total_short_quantity = gs_short g,
      ag_net_quantity = dsub (gs_long g) (gs_short g),
      ag_weighted_avg_entry_price = (if 0 < gs_quantity g then ddiv (gs_cost g) (gs_quantity g) else 0),
      ag_position_count = n\<rparr>"

text \<open>\<^verbatim>\<open>groups.setdefault(key, []).append(pos)\<close> over the open positions.\<close>

fun group_positions :: "(position \<Rightarrow> string) \<Rightarrow> position list \<Rightarrow> (string, position list) dict \<Rightarrow>
    (string, position list) dict" where
  "group_positions key [] acc = acc"
| "group_positions key (p # ps) acc =
     group_positions key ps
       (if ps_closed p then acc
        else dput (key p) ((case dget acc (key p) of None \<Rightarrow> [] | Some g \<Rightarrow> g) @ [p]) acc)"

definition aggregate :: "(position \<Rightarrow> string) \<Rightarrow> position list \<Rightarrow> (string, aggregated) dict" where
  "aggregate key ps = map (\<lambda>(k, g). (k, aggregated_from k (foldl add_position no_sums g) (int (length g))))
     (group_positions key ps [])"

definition aggregate_by_symbol :: "position list \<Rightarrow> (string, aggregated) dict" where
  "aggregate_by_symbol = aggregate ps_symbol"

definition aggregate_by_exchange :: "position list \<Rightarrow> (string, aggregated) dict" where
  "aggregate_by_exchange = aggregate ps_exchange"

definition aggregate_by_account :: "position list \<Rightarrow> (string, aggregated) dict" where
  "aggregate_by_account = aggregate ps_account_id"

text \<open>The single pass of \<^verbatim>\<open>get_net_position\<close>, with its count.\<close>

fun net_pass :: "position list \<Rightarrow> group_sums \<times> int \<Rightarrow> group_sums \<times> int" where
  "net_pass [] acc = acc"
| "net_pass (p # ps) (g, n) = net_pass ps (if ps_closed p then (g, n) else (add_position g p, n + 1))"

definition get_net_position :: "position list \<Rightarrow> aggregated" where
  "get_net_position ps = (case net_pass ps (no_sums, 0) of (g, n) \<Rightarrow> aggregated_from ''net'' g n)"

section \<open>Metrics\<close>

fun unrealized_pass :: "prices \<Rightarrow> position list \<Rightarrow> decimal \<Rightarrow> decimal" where
  "unrealized_pass prices [] acc = acc"
| "unrealized_pass prices (p # ps) acc =
     unrealized_pass prices ps
       (if ps_closed p then acc
        else case dget prices (ps_symbol p) of
          None \<Rightarrow> acc
        | Some x \<Rightarrow> dadd acc (dmul (if ps_side p = ''long'' then dsub x (ps_entry_price p)
                                   else dsub (ps_entry_price p) x) (ps_quantity p)))"

definition calculate_unrealized_pnl :: "position list \<Rightarrow> prices \<Rightarrow> decimal" where
  "calculate_unrealized_pnl ps prices = unrealized_pass prices ps 0"

definition calculate_realized_pnl :: "position list \<Rightarrow> decimal" where
  "calculate_realized_pnl ps = foldl dadd 0 (map ps_realized_pnl ps)"

fun total_pass :: "prices \<Rightarrow> position list \<Rightarrow> decimal \<Rightarrow> decimal" where
  "total_pass prices [] acc = acc"
| "total_pass prices (p # ps) acc =
     total_pass prices ps (if ps_closed p then acc else dadd acc (notional prices p))"

definition calculate_total_exposure :: "position list \<Rightarrow> prices \<Rightarrow> decimal" where
  "calculate_total_exposure ps prices = total_pass prices ps 0"

text \<open>The loop of \<^verbatim>\<open>calculate_drawdown\<close>, with the peak so far and the deepest decline so far.\<close>

fun drawdown_pass :: "decimal list \<Rightarrow> decimal \<Rightarrow> decimal \<Rightarrow> decimal" where
  "drawdown_pass [] peak max_dd = max_dd"
| "drawdown_pass (v # vs) peak max_dd =
     (let peak' = (if peak < v then v else peak);
          dd = dsub peak' v
      in drawdown_pass vs peak' (if max_dd < dd then dd else max_dd))"

definition calculate_drawdown :: "decimal list \<Rightarrow> decimal" where
  "calculate_drawdown history = (case history of [] \<Rightarrow> 0 | v # _ \<Rightarrow> drawdown_pass history v 0)"

definition calculate_margin_usage :: "position list \<Rightarrow> prices \<Rightarrow> decimal \<Rightarrow> decimal" where
  "calculate_margin_usage ps prices account_balance =
     (if account_balance \<le> 0 then 0
      else dmul (ddiv (calculate_total_exposure ps prices) account_balance) 100)"

record portfolio_report =
  pr_unrealized_pnl :: decimal
  pr_realized_pnl :: decimal
  pr_total_pnl :: decimal
  pr_total_exposure :: decimal
  pr_drawdown :: decimal
  pr_margin_usage :: decimal
  pr_position_count :: int
  pr_timestamp :: datetime

definition generate_report :: "position list \<Rightarrow> prices \<Rightarrow> position list \<Rightarrow> decimal list \<Rightarrow> decimal \<Rightarrow> datetime \<Rightarrow>
    portfolio_report" where
  "generate_report ps prices closed_positions pnl_history account_balance t =
     (let unrealized = calculate_unrealized_pnl ps prices;
          realized = calculate_realized_pnl closed_positions
      in \<lparr>pr_unrealized_pnl = unrealized, pr_realized_pnl = realized,
          pr_total_pnl = dadd unrealized realized,
          pr_total_exposure = calculate_total_exposure ps prices,
          pr_drawdown = calculate_drawdown pnl_history,
          pr_margin_usage = calculate_margin_usage ps prices account_balance,
          pr_position_count = int (length (filter (\<lambda>p. \<not> ps_closed p) ps)),
          pr_timestamp = t\<rparr>)"

section \<open>Groups\<close>

text \<open>The open positions with a key, in order.\<close>

definition group_of :: "(position \<Rightarrow> string) \<Rightarrow> string \<Rightarrow> position list \<Rightarrow> position list" where
  "group_of key k ps = filter (\<lambda>p. \<not> ps_closed p \<and> key p = k) ps"

text \<open>The exposure of a group, by its own pass.\<close>

definition group_exposure :: "(position \<Rightarrow> string) \<Rightarrow> string \<Rightarrow> prices \<Rightarrow> position list \<Rightarrow> decimal" where
  "group_exposure key k prices ps = foldl (\<lambda>x p. dadd x (notional prices p)) 0 (group_of key k ps)"

lemma group_of_simps [simp]:
  "group_of key k [] = []"
  "group_of key k (p # ps) = (if \<not> ps_closed p \<and> key p = k then p # group_of key k ps else group_of key k ps)"
  by (simp_all add: group_of_def)

lemma exposure_by_lookup:
  "dget (exposure_by key prices ps acc) k =
     (if group_of key k ps = [] then dget acc k
      else Some (foldl (\<lambda>x p. dadd x (notional prices p))
        (case dget acc k of None \<Rightarrow> 0 | Some x \<Rightarrow> x) (group_of key k ps)))"
  by (induction ps arbitrary: acc) auto

text \<open>The lookup with the default zero, as the risk checks make it.\<close>

lemma exposure_by_default:
  "(case dget (exposure_by key prices ps []) k of None \<Rightarrow> 0 | Some x \<Rightarrow> x) = group_exposure key k prices ps"
  by (simp add: exposure_by_lookup group_exposure_def)

lemma group_positions_lookup:
  "dget (group_positions key ps acc) k =
     (if group_of key k ps = [] then dget acc k
      else Some ((case dget acc k of None \<Rightarrow> [] | Some g \<Rightarrow> g) @ group_of key k ps))"
  by (induction ps arbitrary: acc) auto

lemma map_of_keyed: "dget (map (\<lambda>(k, g). (k, f k g)) d) k = map_option (f k) (dget d k)"
  by (induction d) auto

lemma net_pass_eq:
  "net_pass ps (g, n) = (foldl add_position g (filter (\<lambda>p. \<not> ps_closed p) ps),
     n + int (length (filter (\<lambda>p. \<not> ps_closed p) ps)))"
  by (induction ps arbitrary: g n) auto

lemma group_of_open: "filter (\<lambda>p. \<not> ps_closed p) (group_of key k ps) = group_of key k ps"
  by (auto simp: group_of_def intro: filter_cong)

section \<open>Drawdown\<close>

lemma drawdown_pass_spec:
  "max_dd \<le> drawdown_pass vs peak max_dd \<and>
   (\<forall>j < length vs. dsub peak (vs ! j) \<le> drawdown_pass vs peak max_dd) \<and>
   (\<forall>i j. i \<le> j \<longrightarrow> j < length vs \<longrightarrow> dsub (vs ! i) (vs ! j) \<le> drawdown_pass vs peak max_dd) \<and>
   (drawdown_pass vs peak max_dd = max_dd \<or>
    (\<exists>j < length vs. drawdown_pass vs peak max_dd = dsub peak (vs ! j)) \<or>
    (\<exists>i j. i \<le> j \<and> j < length vs \<and> drawdown_pass vs peak max_dd = dsub (vs ! i) (vs ! j)))"
proof (induction vs arbitrary: peak max_dd)
  case Nil
  show ?case by simp
next
  case (Cons v vs)
  define peak' where "peak' = (if peak < v then v else peak)"
  define dd' where "dd' = (if max_dd < dsub peak' v then dsub peak' v else max_dd)"
  define r where "r = drawdown_pass vs peak' dd'"
  have run: "drawdown_pass (v # vs) peak max_dd = r"
    by (simp add: Let_def peak'_def dd'_def r_def)
  note IH = Cons.IH [of dd' peak', folded r_def]
  have peak: "peak \<le> peak'" "v \<le> peak'" by (simp_all add: peak'_def)
  have dd: "max_dd \<le> dd'" "dsub peak' v \<le> dd'" by (simp_all add: dd'_def)
  have first: "dsub peak x \<le> dsub peak' x" "dsub v x \<le> dsub peak' x" for x
    using peak by (simp_all add: dsub_mono)
  have "dsub peak ((v # vs) ! j) \<le> r \<and> dsub v ((v # vs) ! j) \<le> r" if "j < length (v # vs)" for j
  proof (cases j)
    case 0
    have "dd' \<le> r" using IH by blast
    with dd(2) have "dsub peak' v \<le> r" by (rule order_trans)
    with first [of v] show ?thesis using 0 by (metis nth_Cons_0 order_trans)
  next
    case (Suc k)
    then have "dsub peak' (vs ! k) \<le> r" using IH that by simp
    then show ?thesis using Suc first [of "vs ! k"] by (auto intro: order_trans)
  qed
  moreover have "dsub ((v # vs) ! i) ((v # vs) ! j) \<le> r" if "i \<le> j" "j < length (v # vs)" for i j
  proof (cases i)
    case 0
    with calculation that show ?thesis by simp
  next
    case (Suc k)
    have "j \<noteq> 0" using that(1) Suc by auto
    then obtain l where "j = Suc l" by (cases j) auto
    with Suc that IH show ?thesis by simp
  qed
  moreover have "r = max_dd \<or> (\<exists>j < length (v # vs). r = dsub peak ((v # vs) ! j)) \<or>
      (\<exists>i j. i \<le> j \<and> j < length (v # vs) \<and> r = dsub ((v # vs) ! i) ((v # vs) ! j))"
  proof -
    have origin: "(\<exists>j < length (v # vs). r = dsub peak ((v # vs) ! j)) \<or>
        (\<exists>i j. i \<le> j \<and> j < length (v # vs) \<and> r = dsub ((v # vs) ! i) ((v # vs) ! j))"
      if "r = dsub peak' ((v # vs) ! j)" "j < length (v # vs)" for j
    proof (cases "peak < v")
      case True
      then have "r = dsub ((v # vs) ! 0) ((v # vs) ! j)" using that by (simp add: peak'_def)
      with that(2) show ?thesis by blast
    next
      case False
      with that show ?thesis by (auto simp: peak'_def)
    qed
    consider "r = dd'" | j where "j < length vs" "r = dsub peak' (vs ! j)"
      | i j where "i \<le> j" "j < length vs" "r = dsub (vs ! i) (vs ! j)"
      using IH by blast
    then show ?thesis
    proof cases
      case 1
      then show ?thesis using origin [of 0] by (cases "max_dd < dsub peak' v") (auto simp: dd'_def)
    next
      case 2
      then show ?thesis using origin [of "Suc j"] by simp
    next
      case 3
      then have "Suc i \<le> Suc j" "Suc j < length (v # vs)" "r = dsub ((v # vs) ! Suc i) ((v # vs) ! Suc j)"
        by simp_all
      then show ?thesis by blast
    qed
  qed
  moreover have "max_dd \<le> r" using IH dd(1) by (auto intro: order_trans)
  ultimately show ?case unfolding run by blast
qed

section \<open>Properties\<close>

text \<open>
  Grouping agrees with netting. The aggregated position under a key exists exactly when an open
  position has that key, and it is what \<^verbatim>\<open>get_net_position\<close> computes for the open positions with
  that key alone, under its own name; the exposure of a key is the sum over just those positions.
\<close>

theorem groups_agree_with_net_position:
  "dget (aggregate key ps) k =
     (if group_of key k ps = [] then None
      else Some ((get_net_position (group_of key k ps))\<lparr>ag_key := k\<rparr>)) \<and>
   dget (exposure_by key prices ps []) k =
     (if group_of key k ps = [] then None else Some (group_exposure key k prices ps))"
  by (simp add: aggregate_def map_of_keyed group_positions_lookup get_net_position_def net_pass_eq
      group_of_open aggregated_from_def exposure_by_lookup group_exposure_def)

text \<open>
  The drawdown is the deepest decline. For a profit history that is not empty, the single pass
  returns the greatest difference between a value and a value at the same or a later place: no pair
  of places has a deeper one, and some pair has exactly this one.
\<close>

theorem drawdown_is_deepest_decline:
  assumes "history \<noteq> []"
  shows "(\<forall>i j. i \<le> j \<longrightarrow> j < length history \<longrightarrow> dsub (history ! i) (history ! j) \<le> calculate_drawdown history) \<and>
    (\<exists>i j. i \<le> j \<and> j < length history \<and> calculate_drawdown history = dsub (history ! i) (history ! j))"
proof -
  obtain v vs where h: "history = v # vs" using assms by (cases history) auto
  have run: "calculate_drawdown history = drawdown_pass history v 0" by (simp add: calculate_drawdown_def h)
  note spec = drawdown_pass_spec [of 0 history v, folded run]
  have zero: "dsub (history ! 0) (history ! 0) = 0" "history ! 0 = v" using h by simp_all
  from spec consider "calculate_drawdown history = 0"
    | j where "j < length history" "calculate_drawdown history = dsub v (history ! j)"
    | i j where "i \<le> j" "j < length history" "calculate_drawdown history = dsub (history ! i) (history ! j)"
    by blast
  then have "\<exists>i j. i \<le> j \<and> j < length history \<and> calculate_drawdown history = dsub (history ! i) (history ! j)"
  proof cases
    case 1
    with zero(1) assms show ?thesis by (intro exI [of _ 0]) simp
  next
    case 2
    with zero(2) show ?thesis by (intro exI [of _ 0] exI [of _ j]) simp
  qed blast
  with spec show ?thesis by blast
qed

theorem drawdown_is_deepest_decline_witness:
  "\<exists>i j. i \<le> j \<and> j < (3 :: nat) \<and> calculate_drawdown [5, 1, 3] = dsub ([5, 1, 3] ! i) ([5, 1, 3] ! j)"
proof -
  have "[5, 1, 3 :: decimal] \<noteq> []" and len: "length [5, 1, 3 :: decimal] = 3" by simp_all
  from drawdown_is_deepest_decline [OF this(1)] show ?thesis unfolding len by blast
qed

end
