(* ===== verification/RiskManager.thy ===== *)
theory RiskManager
  imports PortfolioReports
begin

text \<open>
  \<^verbatim>\<open>engine/risk/manager.py\<close>: the gatekeeper in front of the execution engine. Its state extends the
  portfolio by limits, latest prices, allocated capital and counters. The reason of a refusal is the
  rule that refused. The comparison with \<^verbatim>\<open>max_open_positions * 0.8\<close>, a float, is made exactly.
\<close>

section \<open>State\<close>

record risk_limits =
  rl_max_exposure_per_symbol :: decimal
  rl_max_exposure_per_exchange :: decimal
  rl_max_open_positions :: int
  rl_max_position_size :: decimal
  rl_max_capital_per_instance :: decimal

definition default_limits :: risk_limits where
  "default_limits = \<lparr>rl_max_exposure_per_symbol = 100000, rl_max_exposure_per_exchange = 500000,
     rl_max_open_positions = 20, rl_max_position_size = 50000, rl_max_capital_per_instance = 100000\<rparr>"

record risk_metrics =
  orders_checked :: int
  orders_allowed :: int
  orders_denied :: int
  price_updates :: int

definition no_checks :: risk_metrics where
  "no_checks = \<lparr>orders_checked = 0, orders_allowed = 0, orders_denied = 0, price_updates = 0\<rparr>"

record 'x risk_manager = "'x portfolio" +
  rm_limits :: "(string, risk_limits) dict"
  rm_prices :: "(string, decimal) dict"
  rm_instance_capital :: "(string, decimal) dict"
  rm_metrics :: "(string, risk_metrics) dict"

type_synonym ('x, 'm, 'a) rm = "(('x, 'm) risk_manager_scheme, 'a) py"

datatype risk_rule = MAX_POSITION_SIZE | MAX_CAPITAL_PER_INSTANCE | MAX_EXPOSURE_PER_SYMBOL
  | MAX_EXPOSURE_PER_EXCHANGE | MAX_OPEN_POSITIONS

record risk_check =
  rc_allowed :: bool
  rc_reason :: "risk_rule option"
  rc_current_exposure :: decimal
  rc_max_exposure :: decimal

section \<open>Operations\<close>

definition rm_setdefault :: "string \<Rightarrow> ('x, 'm, unit) rm" where
  "rm_setdefault user = modify (\<lambda>s. if dget (rm_metrics s) user = None
     then s\<lparr>rm_metrics := dput user no_checks (rm_metrics s)\<rparr> else s)"

definition rm_count :: "string \<Rightarrow> (risk_metrics \<Rightarrow> risk_metrics) \<Rightarrow> ('x, 'm, unit) rm" where
  "rm_count user f = modify (\<lambda>s. case dget (rm_metrics s) user of None \<Rightarrow> s
     | Some m \<Rightarrow> s\<lparr>rm_metrics := dput user (f m) (rm_metrics s)\<rparr>)"

definition set_risk_parameters :: "string \<Rightarrow> risk_limits \<Rightarrow> ('x, 'm, unit) rm" where
  "set_risk_parameters user limits =
     seq (modify (\<lambda>s. s\<lparr>rm_limits := dput user limits (rm_limits s)\<rparr>)) (rm_setdefault user)"

definition get_risk_parameters :: "string \<Rightarrow> ('x, 'm) risk_manager_scheme \<Rightarrow> risk_limits" where
  "get_risk_parameters user s = (case dget (rm_limits s) user of None \<Rightarrow> default_limits | Some l \<Rightarrow> l)"

definition set_instance_capital :: "string \<Rightarrow> decimal \<Rightarrow> ('x, 'm, unit) rm" where
  "set_instance_capital i capital =
     modify (\<lambda>s. s\<lparr>rm_instance_capital := dput i capital (rm_instance_capital s)\<rparr>)"

definition get_instance_capital :: "string \<Rightarrow> ('x, 'm) risk_manager_scheme \<Rightarrow> decimal" where
  "get_instance_capital i s = (case dget (rm_instance_capital s) i of None \<Rightarrow> 0 | Some c \<Rightarrow> c)"

definition rm_on_price_update :: "string \<Rightarrow> string \<Rightarrow> decimal \<Rightarrow> ('x, 'm, unit) rm" where
  "rm_on_price_update user symbol price =
     seq (modify (\<lambda>s. s\<lparr>rm_prices := dput symbol price (rm_prices s)\<rparr>))
       (rm_count user (\<lambda>m. m\<lparr>price_updates := price_updates m + 1\<rparr>))"

definition denied :: "string \<Rightarrow> risk_rule \<Rightarrow> decimal \<Rightarrow> decimal \<Rightarrow> ('x, 'm, risk_check) rm" where
  "denied user rule current maximum =
     seq (rm_count user (\<lambda>m. m\<lparr>orders_denied := orders_denied m + 1\<rparr>))
       (ret \<lparr>rc_allowed = False, rc_reason = Some rule, rc_current_exposure = current,
             rc_max_exposure = maximum\<rparr>)"

text \<open>The five rules in order: the first one broken, or none, and the exposure and limit reported.\<close>

definition risk_decision :: "string \<Rightarrow> string \<Rightarrow> string \<Rightarrow> decimal \<Rightarrow> decimal \<Rightarrow> risk_limits \<Rightarrow>
    ('x, 'm) risk_manager_scheme \<Rightarrow> risk_rule option \<times> decimal \<times> decimal" where
  "risk_decision i exchange symbol quantity price limits s =
     (let order_notional = dmul quantity price;
          capital = get_instance_capital i s;
          all_positions = get_positions None None None None s;
          current_prices = dput symbol price (rm_prices s);
          new_symbol_exposure = dadd (case dget (get_exposure_by_symbol all_positions current_prices) symbol of
             None \<Rightarrow> 0 | Some x \<Rightarrow> x) order_notional;
          new_exchange_exposure = dadd (case dget (get_exposure_by_exchange all_positions current_prices) exchange of
             None \<Rightarrow> 0 | Some x \<Rightarrow> x) order_notional;
          open_count = int (get_open_position_count s)
      in
      if rl_max_position_size limits < order_notional
      then (Some MAX_POSITION_SIZE, order_notional, rl_max_position_size limits)
      else if 0 < capital \<and> rl_max_capital_per_instance limits < capital
      then (Some MAX_CAPITAL_PER_INSTANCE, capital, rl_max_capital_per_instance limits)
      else if rl_max_exposure_per_symbol limits < new_symbol_exposure
      then (Some MAX_EXPOSURE_PER_SYMBOL, new_symbol_exposure, rl_max_exposure_per_symbol limits)
      else if rl_max_exposure_per_exchange limits < new_exchange_exposure
      then (Some MAX_EXPOSURE_PER_EXCHANGE, new_exchange_exposure, rl_max_exposure_per_exchange limits)
      else if get_position i s = None \<and> rl_max_open_positions limits \<le> open_count
      then (Some MAX_OPEN_POSITIONS, of_int open_count, of_int (rl_max_open_positions limits))
      else (None, new_symbol_exposure, rl_max_exposure_per_symbol limits))"

definition check_order_risk :: "string \<Rightarrow> string \<Rightarrow> string \<Rightarrow> string \<Rightarrow> string \<Rightarrow> decimal \<Rightarrow> decimal \<Rightarrow> string \<Rightarrow>
    ('x, 'm, risk_check) rm" where
  "check_order_risk i account exchange symbol side quantity price user =
     seq (rm_setdefault user)
     (seq (rm_count user (\<lambda>m. m\<lparr>orders_checked := orders_checked m + 1\<rparr>))
     (reading (\<lambda>s.
       case risk_decision i exchange symbol quantity price (get_risk_parameters user s) s of
         (Some rule, current, maximum) \<Rightarrow> denied user rule current maximum
       | (None, current, maximum) \<Rightarrow>
           seq (rm_count user (\<lambda>m. m\<lparr>orders_allowed := orders_allowed m + 1\<rparr>))
             (ret \<lparr>rc_allowed = True, rc_reason = None, rc_current_exposure = current,
                   rc_max_exposure = maximum\<rparr>))))"

datatype recommendation = REDUCE_POSITION_SIZES | APPROACHING_MAX_OPEN_POSITIONS

record risk_assessment =
  ra_risk_level :: risk_level
  ra_total_exposure :: decimal
  ra_max_drawdown :: decimal
  ra_recommendations :: "recommendation list"

definition check_portfolio_risk :: "string \<Rightarrow> ('x, 'm) risk_manager_scheme \<Rightarrow> risk_assessment" where
  "check_portfolio_risk user s =
     (let limits = get_risk_parameters user s;
          total = er_total_exposure (calculate_exposure (get_positions None None None None s) (rm_prices s));
          level = (if rl_max_exposure_per_exchange limits < total then RISK_HIGH
                   else if dmul (rl_max_exposure_per_exchange limits) (7 / 10) < total then RISK_MEDIUM
                   else RISK_LOW)
      in \<lparr>ra_risk_level = level, ra_total_exposure = total, ra_max_drawdown = 0,
          ra_recommendations = (if level = RISK_HIGH then [REDUCE_POSITION_SIZES] else []) @
            (if of_int (rl_max_open_positions limits) * (4 / 5) < (of_nat (get_open_position_count s) :: rat)
             then [APPROACHING_MAX_OPEN_POSITIONS] else [])\<rparr>)"

definition rm_get_metrics :: "string \<Rightarrow> ('x, 'm) risk_manager_scheme \<Rightarrow> risk_metrics" where
  "rm_get_metrics user s = (case dget (rm_metrics s) user of None \<Rightarrow> no_checks | Some m \<Rightarrow> m)"

section \<open>The rules\<close>

text \<open>The rules as conditions on the state, each with its sums over the open positions concerned.\<close>

definition rule_ok :: "risk_rule \<Rightarrow> string \<Rightarrow> string \<Rightarrow> string \<Rightarrow> decimal \<Rightarrow> decimal \<Rightarrow> string \<Rightarrow>
    ('x, 'm) risk_manager_scheme \<Rightarrow> bool" where
  "rule_ok rule i exchange symbol quantity price user s =
     (let limits = get_risk_parameters user s;
          order_notional = dmul quantity price;
          positions = map snd (pf_positions s);
          prices = dput symbol price (rm_prices s)
      in case rule of
        MAX_POSITION_SIZE \<Rightarrow> order_notional \<le> rl_max_position_size limits
      | MAX_CAPITAL_PER_INSTANCE \<Rightarrow> get_instance_capital i s \<le> 0 \<or>
          get_instance_capital i s \<le> rl_max_capital_per_instance limits
      | MAX_EXPOSURE_PER_SYMBOL \<Rightarrow>
          dadd (group_exposure ps_symbol symbol prices positions) order_notional \<le> rl_max_exposure_per_symbol limits
      | MAX_EXPOSURE_PER_EXCHANGE \<Rightarrow>
          dadd (group_exposure ps_exchange exchange prices positions) order_notional \<le> rl_max_exposure_per_exchange limits
      | MAX_OPEN_POSITIONS \<Rightarrow> dget (pf_positions s) i \<noteq> None \<or>
          int (length (pf_positions s)) < rl_max_open_positions limits)"

definition rules :: "risk_rule list" where
  "rules = [MAX_POSITION_SIZE, MAX_CAPITAL_PER_INSTANCE, MAX_EXPOSURE_PER_SYMBOL,
     MAX_EXPOSURE_PER_EXCHANGE, MAX_OPEN_POSITIONS]"

text \<open>Everything but the counters.\<close>

definition risk_view :: "('x, 'm) risk_manager_scheme \<Rightarrow> _" where
  "risk_view s = (pf_positions s, pf_closed s, rm_limits s, rm_prices s, rm_instance_capital s, clock s)"

lemma rm_setdefault_eq: "rm_setdefault user s = (Ok (), s\<lparr>rm_metrics :=
    (if dget (rm_metrics s) user = None then dput user no_checks (rm_metrics s) else rm_metrics s)\<rparr>)"
  by (simp add: rm_setdefault_def modify_def)

lemma rm_count_eq: "dget (rm_metrics s) user = Some m \<Longrightarrow>
    rm_count user f s = (Ok (), s\<lparr>rm_metrics := dput user (f m) (rm_metrics s)\<rparr>)"
  by (simp add: rm_count_def modify_def)

lemma get_positions_all: "get_positions None None None None s = map snd (pf_positions s)"
  by (simp add: get_positions_def filtered_def truthy_def)

lemma counted_check:
  "seq (rm_setdefault user) (seq (rm_count user f) m) s =
   m (s\<lparr>rm_metrics := dput user (f (rm_get_metrics user s)) (rm_metrics s)\<rparr>)"
proof (cases "dget (rm_metrics s) user")
  case None
  then show ?thesis
    by (simp add: seq_Ok rm_setdefault_eq rm_count_eq [where m = no_checks] rm_get_metrics_def)
next
  case (Some m')
  then show ?thesis
    by (simp add: seq_Ok rm_setdefault_eq rm_count_eq [where m = m'] rm_get_metrics_def)
qed

text \<open>The decision does not see the counters.\<close>

lemma risk_decision_metrics [simp]:
  "risk_decision i exchange symbol quantity price limits (s\<lparr>rm_metrics := d\<rparr>) =
   risk_decision i exchange symbol quantity price limits s"
  "get_risk_parameters user (s\<lparr>rm_metrics := d\<rparr>) = get_risk_parameters user s"
  unfolding risk_decision_def get_instance_capital_def get_positions_all get_position_def
    get_open_position_count_def get_risk_parameters_def
  by (simp_all add: Let_def cong: if_cong)

lemma check_order_risk_eq:
  assumes "risk_decision i exchange symbol quantity price (get_risk_parameters user s) s = (rule, current, maximum)"
  defines "m \<equiv> rm_get_metrics user s"
  shows "check_order_risk i account exchange symbol side quantity price user s =
    (Ok \<lparr>rc_allowed = (rule = None), rc_reason = rule, rc_current_exposure = current, rc_max_exposure = maximum\<rparr>,
     s\<lparr>rm_metrics := dput user
       (m\<lparr>orders_checked := orders_checked m + 1,
          orders_allowed := orders_allowed m + (if rule = None then 1 else 0),
          orders_denied := orders_denied m + (if rule = None then 0 else 1)\<rparr>) (rm_metrics s)\<rparr>)"
  using assms(1)
  by (cases rule) (simp_all add: check_order_risk_def counted_check reading_def denied_def seq_Ok m_def ret_def
      rm_count_eq [where m = "(rm_get_metrics user s)\<lparr>orders_checked := orders_checked (rm_get_metrics user s) + 1\<rparr>"])

lemma risk_decision_rule:
  "fst (risk_decision i exchange symbol quantity price (get_risk_parameters user s) s) =
   find (\<lambda>rule. \<not> rule_ok rule i exchange symbol quantity price user s) rules"
  by (simp add: risk_decision_def rules_def rule_ok_def Let_def get_positions_all get_exposure_by_symbol_def
      get_exposure_by_exchange_def exposure_by_default get_position_def get_open_position_count_def not_le not_less)

lemma all_risk_rule: "(\<forall>rule. P rule) \<longleftrightarrow> P MAX_POSITION_SIZE \<and> P MAX_CAPITAL_PER_INSTANCE \<and>
    P MAX_EXPOSURE_PER_SYMBOL \<and> P MAX_EXPOSURE_PER_EXCHANGE \<and> P MAX_OPEN_POSITIONS"
  by (metis risk_rule.exhaust)

section \<open>Property\<close>

text \<open>
  C22. The risk gate. A check never raises and changes only the user's counters: one more check, and
  one more allowed or denied. The order is allowed exactly when all five rules hold: the order's
  notional, the allocated capital, the exposures that the order's symbol and exchange would have
  (every registered open position valued at the latest price plus the order, whatever its side),
  and, for an instance without a position, the number of registered positions. A refused order names
  the first rule it breaks.
\<close>

theorem risk_gate_exact:
  "\<exists>r t. check_order_risk i account exchange symbol side quantity price user s = (Ok r, t) \<and>
    risk_view t = risk_view s \<and>
    (rc_allowed r \<longleftrightarrow> (\<forall>rule. rule_ok rule i exchange symbol quantity price user s)) \<and>
    rc_reason r = find (\<lambda>rule. \<not> rule_ok rule i exchange symbol quantity price user s) rules \<and>
    orders_checked (rm_get_metrics user t) = orders_checked (rm_get_metrics user s) + 1 \<and>
    orders_allowed (rm_get_metrics user t) =
      orders_allowed (rm_get_metrics user s) + (if rc_allowed r then 1 else 0) \<and>
    orders_denied (rm_get_metrics user t) =
      orders_denied (rm_get_metrics user s) + (if rc_allowed r then 0 else 1)"
proof -
  let ?ok = "\<lambda>rule. rule_ok rule i exchange symbol quantity price user s"
  have all: "(\<forall>rule. ?ok rule) \<longleftrightarrow> find (\<lambda>rule. \<not> ?ok rule) rules = None"
    unfolding rules_def by (auto simp: all_risk_rule split: if_splits)
  obtain rule current maximum where
    d: "risk_decision i exchange symbol quantity price (get_risk_parameters user s) s = (rule, current, maximum)"
    by (metis prod_cases3)
  have rule: "rule = find (\<lambda>rule. \<not> ?ok rule) rules"
    using risk_decision_rule [of i exchange symbol quantity price user s] d by simp
  show ?thesis
    unfolding all check_order_risk_eq [OF d] rule [symmetric]
    by (simp add: risk_view_def rm_get_metrics_def)
qed

end
