(* ===== verification/Reconciler.thy ===== *)
theory Reconciler
  imports Portfolio GridModel
begin

text \<open>
  \<^verbatim>\<open>engine/recovery/reconciler.py\<close>: the recovered local state against what the exchange reports. The
  grid is the object passed in, so its reconciliation returns it changed; positions are changed in
  the reconciler's portfolio. The texts of the details are constructors.
\<close>

section \<open>State\<close>

record reconciler_metrics =
  grid_reconciliations :: int
  portfolio_reconciliations :: int
  missing_orders_found :: int
  orphan_orders_found :: int
  positions_added :: int
  positions_closed :: int
  reconciliation_failures :: int

record 'x reconciler = "'x portfolio" +
  rr_metrics :: reconciler_metrics

type_synonym ('x, 'm, 'a) rr = "(('x, 'm) reconciler_scheme, 'a) py"

record position_entry =
  pe_symbol :: string
  pe_side :: string
  pe_quantity :: decimal
  pe_entry_price :: decimal

datatype detail = BUY_FILLED int | BUY_CANCELLED int | SELL_FILLED int | SELL_CANCELLED int
  | MISSING_ORDER int | ORPHAN_ORDER string | POSITION_ADDED string | ADD_FAILED string exn
  | POSITION_CLOSED string | CLOSE_FAILED string exn

datatype rec_component = REC_GRID | REC_PORTFOLIO

datatype rec_action = RESTORED | SKIPPED

record reconciliation =
  rn_component :: rec_component
  rn_action :: rec_action
  rn_count :: int
  rn_details :: "detail list"

definition rr_count :: "(reconciler_metrics \<Rightarrow> reconciler_metrics) \<Rightarrow> ('x, 'm, unit) rr" where
  "rr_count f = modify (\<lambda>s. s\<lparr>rr_metrics := f (rr_metrics s)\<rparr>)"

section \<open>Orders\<close>

definition is_live :: "order_result \<Rightarrow> bool" where
  "is_live r \<longleftrightarrow> r_status r \<notin> {order_status_value O_FILLED, order_status_value O_CANCELLED}"

text \<open>Whether an order id is set and not among those given.\<close>

definition absent :: "string option \<Rightarrow> string set \<Rightarrow> bool" where
  "absent oid ids \<longleftrightarrow> truthy oid \<and> the oid \<notin> ids"

definition missing_levels :: "grid_level list \<Rightarrow> order_result list \<Rightarrow> grid_level list" where
  "missing_levels lvs live_orders =
     (let ids = set (map r_exchange_order_id (filter is_live live_orders))
      in filter (\<lambda>lv. lv_status lv = L_OPEN \<and>
           (absent (lv_buy_order_id lv) ids \<or> absent (lv_sell_order_id lv) ids)) lvs)"

definition find_missing_orders :: "grid_level list \<Rightarrow> order_result list \<Rightarrow> ('x, 'm, grid_level list) rr" where
  "find_missing_orders lvs live_orders =
     (let missing = missing_levels lvs live_orders
      in seq (rr_count (\<lambda>m. m\<lparr>missing_orders_found := missing_orders_found m + int (length missing)\<rparr>))
           (ret missing))"

definition local_ids :: "grid_level list \<Rightarrow> string set" where
  "local_ids lvs = set (concat (map (\<lambda>lv.
     (if truthy (lv_buy_order_id lv) then [the (lv_buy_order_id lv)] else []) @
     (if truthy (lv_sell_order_id lv) then [the (lv_sell_order_id lv)] else [])) lvs))"

definition orphan_orders :: "grid_level list \<Rightarrow> order_result list \<Rightarrow> order_result list" where
  "orphan_orders lvs live_orders =
     filter (\<lambda>r. is_live r \<and> r_exchange_order_id r \<notin> local_ids lvs) live_orders"

definition find_orphan_orders :: "grid_level list \<Rightarrow> order_result list \<Rightarrow> ('x, 'm, order_result list) rr" where
  "find_orphan_orders lvs live_orders =
     (let orphans = orphan_orders lvs live_orders
      in seq (rr_count (\<lambda>m. m\<lparr>orphan_orders_found := orphan_orders_found m + int (length orphans)\<rparr>))
           (ret orphans))"

section \<open>Grid\<close>

text \<open>\<^verbatim>\<open>{o.exchange_order_id: o for o in live_orders}\<close>\<close>

definition order_map :: "order_result list \<Rightarrow> (string, order_result) dict" where
  "order_map live_orders = foldl (\<lambda>d r. dput (r_exchange_order_id r) r d) [] live_orders"

definition lookup_order :: "string option \<Rightarrow> (string, order_result) dict \<Rightarrow> order_result option" where
  "lookup_order oid d = (if truthy oid then dget d (the oid) else None)"

definition reconcile_buy :: "(string, order_result) dict \<Rightarrow> grid_level \<Rightarrow> grid_level \<times> detail list" where
  "reconcile_buy d lv = (case lookup_order (lv_buy_order_id lv) d of
      None \<Rightarrow> (lv, [])
    | Some r \<Rightarrow>
        if r_status r = order_status_value O_FILLED then
          (if lv_status lv \<noteq> L_FILLED then (lv\<lparr>lv_status := L_FILLED\<rparr>, [BUY_FILLED (lv_level lv)]) else (lv, []))
        else if r_status r = order_status_value O_CANCELLED \<and> lv_status lv = L_OPEN then
          (lv\<lparr>lv_status := L_WAITING, lv_buy_order_id := None\<rparr>, [BUY_CANCELLED (lv_level lv)])
        else (lv, []))"

definition reconcile_sell :: "(string, order_result) dict \<Rightarrow> grid_level \<Rightarrow> grid_level \<times> detail list" where
  "reconcile_sell d lv = (case lookup_order (lv_sell_order_id lv) d of
      None \<Rightarrow> (lv, [])
    | Some r \<Rightarrow>
        if r_status r = order_status_value O_FILLED then
          (if lv_status lv \<noteq> L_TP_HIT then (lv\<lparr>lv_status := L_TP_HIT\<rparr>, [SELL_FILLED (lv_level lv)]) else (lv, []))
        else if r_status r = order_status_value O_CANCELLED \<and> lv_status lv = L_OPEN then
          (lv\<lparr>lv_sell_order_id := None\<rparr>, [SELL_CANCELLED (lv_level lv)])
        else (lv, []))"

definition reconcile_level :: "(string, order_result) dict \<Rightarrow> grid_level \<Rightarrow> grid_level \<times> detail list" where
  "reconcile_level d lv =
     (case reconcile_buy d lv of (lv1, ds) \<Rightarrow>
       (case reconcile_sell d lv1 of (lv2, es) \<Rightarrow> (lv2, ds @ es)))"

definition reconcile_grid :: "grid_state \<Rightarrow> order_result list \<Rightarrow> ('x, 'm, grid_state \<times> reconciliation) rr" where
  "reconcile_grid g live_orders =
     seq (rr_count (\<lambda>m. m\<lparr>grid_reconciliations := grid_reconciliations m + 1\<rparr>))
     (let out = map (reconcile_level (order_map live_orders)) (g_levels g);
          lvs = map fst out;
          changes = concat (map snd out)
      in bind (find_missing_orders lvs live_orders) (\<lambda>missing.
         bind (find_orphan_orders lvs live_orders) (\<lambda>orphans.
           ret (g\<lparr>g_levels := lvs\<rparr>,
             \<lparr>rn_component = REC_GRID, rn_action = (if changes \<noteq> [] then RESTORED else SKIPPED),
              rn_count = int (length changes + length missing + length orphans),
              rn_details = changes @ map (\<lambda>lv. MISSING_ORDER (lv_level lv)) missing @
                map (\<lambda>r. ORPHAN_ORDER (r_exchange_order_id r)) orphans\<rparr>))))"

section \<open>Portfolio\<close>

text \<open>One step of a phase: what is attempted, and the entries for its success and its failure.\<close>

definition attempt :: "('x, 'm, 'a) rr \<Rightarrow> (reconciler_metrics \<Rightarrow> reconciler_metrics) \<Rightarrow> detail \<Rightarrow>
    (exn \<Rightarrow> detail) \<Rightarrow> ('x, 'm, (bool \<times> detail) list) rr" where
  "attempt m count good bad = try_catch
     (seq m (seq (rr_count count) (ret [(True, good)])))
     (\<lambda>e. ret [(False, bad e)])"

definition reconciled_id :: "string \<Rightarrow> string \<Rightarrow> string" where
  "reconciled_id i symbol = i @ ''-reconciled-'' @ symbol"

definition add_missing :: "string \<Rightarrow> string set \<Rightarrow> position_entry \<Rightarrow> ('x, 'm, (bool \<times> detail) list) rr" where
  "add_missing i missing_on_local ep =
     (if pe_symbol ep \<in> missing_on_local then
        attempt (register_position (reconciled_id i (pe_symbol ep)) (''reconciled-'' @ i) ''reconciled''
            (pe_symbol ep) (pe_side ep) (pe_entry_price ep) (pe_quantity ep))
          (\<lambda>m. m\<lparr>positions_added := positions_added m + 1\<rparr>)
          (POSITION_ADDED (pe_symbol ep)) (ADD_FAILED (pe_symbol ep))
      else ret [])"

definition close_stale :: "string set \<Rightarrow> position \<Rightarrow> ('x, 'm, (bool \<times> detail) list) rr" where
  "close_stale stale p =
     (if \<not> ps_closed p \<and> ps_symbol p \<in> stale then
        attempt (close_position (ps_instance_id p))
          (\<lambda>m. m\<lparr>positions_closed := positions_closed m + 1\<rparr>)
          (POSITION_CLOSED (ps_symbol p)) (CLOSE_FAILED (ps_symbol p))
      else ret [])"

definition open_symbols :: "position list \<Rightarrow> string set" where
  "open_symbols ps = set (map ps_symbol (filter (\<lambda>p. \<not> ps_closed p) ps))"

definition reconcile_portfolio :: "string \<Rightarrow> position list \<Rightarrow> position_entry list \<Rightarrow>
    ('x, 'm, reconciliation) rr" where
  "reconcile_portfolio i local_positions exchange_positions =
     seq (rr_count (\<lambda>m. m\<lparr>portfolio_reconciliations := portfolio_reconciliations m + 1\<rparr>))
     (let local_symbols = open_symbols local_positions;
          exchange_symbols = set (map pe_symbol exchange_positions)
      in bind (collect (add_missing i (exchange_symbols - local_symbols)) exchange_positions) (\<lambda>added.
         bind (collect (close_stale (local_symbols - exchange_symbols)) local_positions) (\<lambda>closed.
           let n = length (filter fst (added @ closed))
           in ret \<lparr>rn_component = REC_PORTFOLIO, rn_action = (if 0 < n then RESTORED else SKIPPED),
                   rn_count = int n, rn_details = map snd (added @ closed)\<rparr>)))"

section \<open>Levels\<close>

text \<open>A reconciled level keeps its place in the grid.\<close>

lemma reconcile_level_frame:
  assumes "reconcile_level d lv = (lv', ds)"
  shows "lv_level lv' = lv_level lv" "lv_buy_price lv' = lv_buy_price lv"
    "lv_sell_price lv' = lv_sell_price lv" "lv_quantity lv' = lv_quantity lv"
  using assms by (auto simp: reconcile_level_def reconcile_buy_def reconcile_sell_def
      split: option.splits prod.splits if_splits)

lemma reconcile_grid_eq:
  "\<exists>r t. reconcile_grid g live s = (Ok (g\<lparr>g_levels := map (fst \<circ> reconcile_level (order_map live)) (g_levels g)\<rparr>, r), t) \<and>
     portfolio.truncate t = portfolio.truncate s"
  by (simp add: reconcile_grid_def find_missing_orders_def find_orphan_orders_def rr_count_def py_simps Let_def
      portfolio.defs)

lemma order_map_single: "r_exchange_order_id r = oid \<Longrightarrow> dget (order_map [r]) oid = Some r"
  by (simp add: order_map_def)

lemma lookup_orderD: "lookup_order oid d = Some r \<Longrightarrow> truthy oid"
  by (auto simp: lookup_order_def split: if_splits)

lemma reconcile_cancelled_sale:
  assumes "lv_status lv = L_OPEN" and "\<not> truthy (lv_buy_order_id lv)"
    and "lookup_order (lv_sell_order_id lv) d = Some r" and "r_status r = order_status_value O_CANCELLED"
  shows "fst (reconcile_level d lv) = lv\<lparr>lv_sell_order_id := None\<rparr>"
proof -
  have "lookup_order (lv_buy_order_id lv) d = None" using assms(2) by (simp add: lookup_order_def)
  then show ?thesis using assms by (simp add: reconcile_level_def reconcile_buy_def reconcile_sell_def)
qed

section \<open>Closing what the exchange does not report\<close>

definition is_stale :: "string set \<Rightarrow> position \<Rightarrow> bool" where
  "is_stale stale p \<longleftrightarrow> \<not> ps_closed p \<and> ps_symbol p \<in> stale"

lemma close_stale_eq:
  assumes "dget (pf_positions s) (ps_instance_id p) = Some p"
  shows "\<exists>out t. close_stale stale p s = (Ok out, t) \<and>
    (if is_stale stale p
     then length (filter fst out) = 1 \<and> pf_positions t = ddel (ps_instance_id p) (pf_positions s)
     else out = [] \<and> t = s)"
  using assms by (auto simp: close_stale_def is_stale_def attempt_def close_position_def rr_count_def py_simps Let_def)

lemma close_all_stale:
  assumes "distinct (map ps_instance_id ps)"
    and "\<And>p. p \<in> set ps \<Longrightarrow> dget (pf_positions s) (ps_instance_id p) = Some p"
  shows "\<exists>out t. collect (close_stale stale) ps s = (Ok out, t) \<and>
    length (filter fst out) = length (filter (is_stale stale) ps) \<and>
    (\<forall>j. dget (pf_positions t) j =
       (if \<exists>p \<in> set ps. ps_instance_id p = j \<and> is_stale stale p then None else dget (pf_positions s) j))"
  using assms
proof (induction ps arbitrary: s)
  case Nil
  show ?case by (simp add: ret_def)
next
  case (Cons p ps)
  have "dget (pf_positions s) (ps_instance_id p) = Some p" using Cons.prems(2) by simp
  then obtain out s1 where 1: "close_stale stale p s = (Ok out, s1)"
    and eff: "if is_stale stale p
     then length (filter fst out) = 1 \<and> pf_positions s1 = ddel (ps_instance_id p) (pf_positions s)
     else out = [] \<and> s1 = s"
    using close_stale_eq by blast
  have kept: "dget (pf_positions s1) j = (if j = ps_instance_id p \<and> is_stale stale p then None
      else dget (pf_positions s) j)" for j
    using eff by (cases "is_stale stale p") auto
  have dist: "distinct (map ps_instance_id ps)" "ps_instance_id p \<notin> ps_instance_id ` set ps"
    using Cons.prems(1) by auto
  have "q \<in> set ps \<Longrightarrow> dget (pf_positions s1) (ps_instance_id q) = Some q" for q
  proof -
    assume q: "q \<in> set ps"
    then have "ps_instance_id q \<noteq> ps_instance_id p" using dist(2) by (metis image_eqI)
    with kept [of "ps_instance_id q"] Cons.prems(2) [of q] q show ?thesis by simp
  qed
  with Cons.IH [OF dist(1), of s1] obtain rest t where
    2: "collect (close_stale stale) ps s1 = (Ok rest, t)"
      "length (filter fst rest) = length (filter (is_stale stale) ps)"
      "\<forall>j. dget (pf_positions t) j =
         (if \<exists>p \<in> set ps. ps_instance_id p = j \<and> is_stale stale p then None else dget (pf_positions s1) j)"
    by blast
  have "length (filter fst (out @ rest)) = length (filter (is_stale stale) (p # ps))"
    using eff 2(2) by (cases "is_stale stale p") auto
  moreover have "dget (pf_positions t) j = (if \<exists>q \<in> set (p # ps). ps_instance_id q = j \<and> is_stale stale q
      then None else dget (pf_positions s) j)" for j
    using 2(3) kept [of j] by auto
  ultimately show ?case using collect_Ok [OF 1 2(1)] by blast
qed

lemma portfolio_entries:
  assumes "portfolio_ok s"
  shows "distinct (map ps_instance_id (map snd (pf_positions s)))"
    and "p \<in> set (map snd (pf_positions s)) \<Longrightarrow> dget (pf_positions s) (ps_instance_id p) = Some p"
proof -
  have d: "dict_ok (pf_positions s)" using assms by (simp add: portfolio_ok_def)
  have id: "(j, q) \<in> set (pf_positions s) \<Longrightarrow> ps_instance_id q = j" for j q
    using assms dget_Some_iff [OF d] by (auto simp: portfolio_ok_def)
  then have "map ps_instance_id (map snd (pf_positions s)) = map fst (pf_positions s)"
    using id by (simp add: map_eq_conv split_beta)
  then show "distinct (map ps_instance_id (map snd (pf_positions s)))" using d unfolding dict_ok_def by metis
  show "p \<in> set (map snd (pf_positions s)) \<Longrightarrow> dget (pf_positions s) (ps_instance_id p) = Some p"
    using id dget_Some_iff [OF d] by auto
qed

section \<open>Properties\<close>

text \<open>
  A sale cancelled at the exchange strands its level. When the reconciliation of a grid finds that
  the sell order of an open level (with no buy order) is cancelled at the exchange, it clears the
  order's id and leaves the level open: the level is then not reported as missing an order, no price
  makes the planner act on it, and cancelling all orders passes over it.
\<close>

theorem cancelled_sale_strands_level:
  assumes "lv \<in> set (g_levels g)" and "lv_status lv = L_OPEN" and "\<not> truthy (lv_buy_order_id lv)"
    and "lookup_order (lv_sell_order_id lv) (order_map live) = Some r"
    and "r_status r = order_status_value O_CANCELLED"
  shows "\<exists>h rec t lv'. reconcile_grid g live s = (Ok (h, rec), t) \<and>
    lv' = lv\<lparr>lv_sell_order_id := None\<rparr> \<and> lv' \<in> set (g_levels h) \<and> lv_status lv' = L_OPEN \<and>
    lv' \<notin> set (missing_levels (g_levels h) live) \<and> (\<forall>p. plan_level lv' p = None) \<and> cancel_action lv' = None"
proof -
  let ?h = "g\<lparr>g_levels := map (fst \<circ> reconcile_level (order_map live)) (g_levels g)\<rparr>"
  let ?lv = "lv\<lparr>lv_sell_order_id := None\<rparr>"
  obtain rec t where run: "reconcile_grid g live s = (Ok (?h, rec), t)"
    using reconcile_grid_eq [of g live s] by blast
  have "fst (reconcile_level (order_map live) lv) = ?lv"
    using assms(2-5) by (rule reconcile_cancelled_sale)
  then have "?lv \<in> set (g_levels ?h)" using assms(1) by (auto simp: image_iff intro!: bexI [of _ lv])
  moreover have "?lv \<notin> set (missing_levels (g_levels ?h) live)"
    using assms(3) by (auto simp: missing_levels_def Let_def absent_def truthy_def)
  moreover have "plan_level ?lv p = None" for p using assms(2) by (simp add: plan_level_def)
  moreover have "cancel_action ?lv = None"
    using assms(2,3) by (auto simp: cancel_action_def py_or_def truthy_def)
  ultimately show ?thesis using run assms(2) by (intro exI conjI) auto
qed

definition no_reconciliations :: "unit reconciler" where
  "no_reconciliations = portfolio.extend one_position \<lparr>rr_metrics = \<lparr>grid_reconciliations = 0,
     portfolio_reconciliations = 0, missing_orders_found = 0, orphan_orders_found = 0,
     positions_added = 0, positions_closed = 0, reconciliation_failures = 0\<rparr>\<rparr>"

definition selling_level :: grid_level where
  "selling_level = \<lparr>lv_level = 0, lv_buy_price = 100, lv_sell_price = 110, lv_quantity = 1,
     lv_buy_order_id = None, lv_sell_order_id = Some ''x'', lv_status = L_OPEN\<rparr>"

definition cancelled_sale :: order_result where
  "cancelled_sale = \<lparr>r_order_id = ''x'', r_exchange_order_id = ''x'', r_symbol = ''BTC'', r_side = ''sell'',
     r_order_type = ''limit'', r_quantity = 1, r_price = Some 110, r_filled_quantity = 0,
     r_average_fill_price = None, r_status = ''cancelled'', r_created_at = 0, r_updated_at = 0,
     r_error_message = None\<rparr>"

theorem cancelled_sale_strands_level_witness:
  "\<exists>g h rec t lv'. reconcile_grid g [cancelled_sale] no_reconciliations = (Ok (h, rec), t) \<and>
     lv' \<in> set (g_levels h) \<and> lv_status lv' = L_OPEN \<and> (\<forall>p. plan_level lv' p = None)"
proof -
  obtain g :: grid_state where "g_levels g = [selling_level]" by (meson grid_state.select_convs(8))
  then have mem: "selling_level \<in> set (g_levels g)" by simp
  have "lv_status selling_level = L_OPEN" "\<not> truthy (lv_buy_order_id selling_level)"
    "lookup_order (lv_sell_order_id selling_level) (order_map [cancelled_sale]) = Some cancelled_sale"
    "r_status cancelled_sale = order_status_value O_CANCELLED"
    by (simp_all add: selling_level_def cancelled_sale_def truthy_def lookup_order_def order_map_def)
  from cancelled_sale_strands_level [OF mem this, of no_reconciliations] show ?thesis by blast
qed

text \<open>
  C28. Reconciling with an empty report closes everything. When the exchange reports no position, as
  in the call the recovery coordinator makes, reconciling a consistent portfolio with its own
  positions closes every open one, whatever instance it belongs to: afterwards no registered
  position is open, and the count is the number of positions that were open.
\<close>

theorem empty_report_closes_every_position:
  assumes "portfolio_ok s"
  shows "\<exists>r t. reconcile_portfolio i (get_positions None None None None s) [] s = (Ok r, t) \<and>
    (\<forall>j p. dget (pf_positions t) j = Some p \<longrightarrow> ps_closed p) \<and>
    rn_count r = int (length (filter (\<lambda>p. \<not> ps_closed p) (map snd (pf_positions s))))"
proof -
  let ?ps = "map snd (pf_positions s)"
  let ?s1 = "s\<lparr>rr_metrics := (rr_metrics s)\<lparr>portfolio_reconciliations := portfolio_reconciliations (rr_metrics s) + 1\<rparr>\<rparr>"
  have all: "get_positions None None None None s = ?ps"
    by (simp add: get_positions_def filtered_def truthy_def)
  have stale: "p \<in> set ?ps \<Longrightarrow> is_stale (open_symbols ?ps) p \<longleftrightarrow> \<not> ps_closed p" for p
    by (auto simp: is_stale_def open_symbols_def)
  have stored: "p \<in> set ?ps \<Longrightarrow> dget (pf_positions ?s1) (ps_instance_id p) = Some p" for p
    using portfolio_entries(2) [OF assms] by simp
  obtain out t where 1: "collect (close_stale (open_symbols ?ps)) ?ps ?s1 = (Ok out, t)"
    and n: "length (filter fst out) = length (filter (is_stale (open_symbols ?ps)) ?ps)"
    and gone: "\<forall>j. dget (pf_positions t) j =
       (if \<exists>p \<in> set ?ps. ps_instance_id p = j \<and> is_stale (open_symbols ?ps) p then None
        else dget (pf_positions ?s1) j)"
    using close_all_stale [OF portfolio_entries(1) [OF assms] stored] by blast
  let ?n = "length (filter fst out)"
  have "reconcile_portfolio i ?ps [] s = (Ok \<lparr>rn_component = REC_PORTFOLIO,
      rn_action = (if 0 < ?n then RESTORED else SKIPPED), rn_count = int ?n, rn_details = map snd out\<rparr>, t)"
    using 1 by (simp add: reconcile_portfolio_def rr_count_def Let_def seq_Ok modify_def bind_Ok ret_def)
  moreover have "ps_closed p" if "dget (pf_positions t) j = Some p" for j p
  proof (rule ccontr)
    assume "\<not> ps_closed p"
    have "dget (pf_positions s) j = Some p" using that gone by (simp split: if_splits)
    then have "p \<in> set ?ps" "ps_instance_id p = j"
      using assms by (auto simp: portfolio_ok_def dest: map_of_SomeD intro!: image_eqI [of _ snd "(j, p)"])
    with \<open>\<not> ps_closed p\<close> gone that stale show False by (metis option.discI)
  qed
  moreover have "filter (is_stale (open_symbols ?ps)) ?ps = filter (\<lambda>p. \<not> ps_closed p) ?ps"
    by (rule filter_cong) (simp_all only: stale)
  ultimately show ?thesis using n all by auto
qed

theorem empty_report_closes_every_position_witness:
  "\<exists>r t. reconcile_portfolio ''other'' (get_positions None None None None no_reconciliations) []
      no_reconciliations = (Ok r, t) \<and> rn_count r = 1 \<and> (\<forall>j p. dget (pf_positions t) j = Some p \<longrightarrow> ps_closed p)"
proof -
  have ok: "portfolio_ok no_reconciliations"
    by (simp add: no_reconciliations_def portfolio.defs one_position_simps portfolio_ok_def dict_ok_def
        new_position_def position_ok_def)
  have "pf_positions no_reconciliations = pf_positions one_position"
    by (simp add: no_reconciliations_def portfolio.defs)
  with empty_report_closes_every_position [OF ok, of "''other''"] show ?thesis
    by (auto simp: one_position_simps new_position_def)
qed

end
