(* ===== verification/DecimalText.thy ===== *)
theory DecimalText
  imports Decimal
begin

text \<open>
  Decimals as text: \<^verbatim>\<open>str(d)\<close> and \<^verbatim>\<open>Decimal(s)\<close>, as the snapshots of the program use them. The
  model keeps the value of a decimal and not its exponent, so the text it writes is always in
  scientific notation with a full coefficient; it denotes the same number as Python's. Reading
  accepts a sign, digits with an optional point, and an optional exponent.
\<close>

section \<open>Writing\<close>

definition exponent :: "decimal \<Rightarrow> int" where
  "exponent x = adjusted x - (prec - 1)"

definition coefficient :: "decimal \<Rightarrow> int" where
  "coefficient x = \<lfloor>x / pow10 (exponent x)\<rfloor>"

definition str_decimal :: "decimal \<Rightarrow> string" where
  "str_decimal x = (if x = 0 then ''0''
     else show_int (coefficient x) @ CHR ''E'' # show_int (exponent x))"

section \<open>Reading\<close>

definition is_digit :: "char \<Rightarrow> bool" where
  "is_digit c \<longleftrightarrow> 48 \<le> (of_char c :: nat) \<and> (of_char c :: nat) \<le> 57"

definition read_nat :: "string \<Rightarrow> nat option" where
  "read_nat s = (if s \<noteq> [] \<and> list_all is_digit s then Some (read_digits s) else None)"

definition read_int :: "string \<Rightarrow> int option" where
  "read_int s = (case s of
      [] \<Rightarrow> None
    | c # t \<Rightarrow> if c = CHR ''-'' then map_option (\<lambda>n. - int n) (read_nat t)
        else if c = CHR ''+'' then map_option int (read_nat t)
        else map_option int (read_nat s))"

definition read_mantissa :: "string \<Rightarrow> rat option" where
  "read_mantissa m =
     (let whole = takeWhile (\<lambda>c. c \<noteq> CHR ''.'') m;
          fraction = drop 1 (dropWhile (\<lambda>c. c \<noteq> CHR ''.'') m)
      in map_option (\<lambda>n. of_int n / 10 ^ length fraction) (read_int (whole @ fraction)))"

definition is_exponent_mark :: "char \<Rightarrow> bool" where
  "is_exponent_mark c \<longleftrightarrow> c = CHR ''E'' \<or> c = CHR ''e''"

definition read_decimal :: "string \<Rightarrow> decimal res" where
  "read_decimal s =
     (let m = takeWhile (\<lambda>c. \<not> is_exponent_mark c) s;
          rest = dropWhile (\<lambda>c. \<not> is_exponent_mark c) s
      in case (read_mantissa m, if rest = [] then Some 0 else read_int (tl rest)) of
           (Some x, Some e) \<Rightarrow> Ok (x * pow10 e)
         | _ \<Rightarrow> Raise (Exn PyDecimalException [s]))"

section \<open>Round trip\<close>

lemma show_nat_nonempty: "show_nat n \<noteq> []"
  by (cases "n < 10") (simp_all add: show_nat.simps [of n])

lemma show_nat_digits: "list_all is_digit (show_nat n)"
  by (auto simp: list_all_iff is_digit_def dest!: show_nat_chars)

lemma is_digit_not_sign: "is_digit c \<Longrightarrow> c \<noteq> CHR ''-'' \<and> c \<noteq> CHR ''+'' \<and> c \<noteq> CHR ''.'' \<and> \<not> is_exponent_mark c"
  by (auto simp: is_digit_def is_exponent_mark_def)

lemma read_show_int [simp]: "read_int (show_int n) = Some n"
proof (cases "n < 0")
  case True
  then show ?thesis by (simp add: show_int_def read_int_def read_nat_def show_nat_nonempty show_nat_digits)
next
  case False
  obtain c t where ct: "show_nat (nat n) = c # t" using show_nat_nonempty by (cases "show_nat (nat n)") auto
  then have "is_digit c" using show_nat_digits [of "nat n"] by simp
  moreover have "read_nat (c # t) = Some (nat n)"
    using show_nat_nonempty [of "nat n"] show_nat_digits [of "nat n"] read_show_nat [of "nat n"]
    unfolding ct by (simp add: read_nat_def)
  ultimately show ?thesis using False is_digit_not_sign [of c] by (simp add: show_int_def read_int_def ct)
qed

lemma show_int_plain:
  "c \<in> set (show_int n) \<Longrightarrow> c \<noteq> CHR ''.'' \<and> \<not> is_exponent_mark c"
  using show_nat_digits is_digit_not_sign
  by (auto simp: show_int_def list_all_iff is_exponent_mark_def split: if_splits)

lemma read_mantissa_show_int: "read_mantissa (show_int n) = Some (of_int n)"
proof -
  have parts: "takeWhile (\<lambda>c. c \<noteq> CHR ''.'') (show_int n) = show_int n"
    "dropWhile (\<lambda>c. c \<noteq> CHR ''.'') (show_int n) = []"
    using show_int_plain by (auto simp: takeWhile_eq_all_conv dropWhile_eq_Nil_conv)
  show ?thesis unfolding read_mantissa_def Let_def parts by simp
qed

lemma read_scientific: "read_decimal (show_int c @ CHR ''E'' # show_int e) = Ok (of_int c * pow10 e)"
proof -
  have "takeWhile (\<lambda>c. \<not> is_exponent_mark c) (show_int c @ CHR ''E'' # show_int e) = show_int c"
    "dropWhile (\<lambda>c. \<not> is_exponent_mark c) (show_int c @ CHR ''E'' # show_int e) = CHR ''E'' # show_int e"
    using show_int_plain by (auto simp: takeWhile_append2 dropWhile_append2 is_exponent_mark_def)
  then show ?thesis by (simp add: read_decimal_def read_mantissa_show_int)
qed

lemma read_zero: "read_decimal ''0'' = Ok 0"
proof -
  have zero: "''0'' = show_int 0" by (simp add: show_int_def show_nat.simps digit_chars)
  have parts: "takeWhile (\<lambda>c. \<not> is_exponent_mark c) (show_int 0) = show_int 0"
    "dropWhile (\<lambda>c. \<not> is_exponent_mark c) (show_int 0) = []"
    using show_int_plain by (auto simp: takeWhile_eq_all_conv dropWhile_eq_Nil_conv)
  show ?thesis unfolding zero read_decimal_def Let_def parts by (simp add: read_mantissa_show_int)
qed

lemma rep_split:
  assumes "rep x"
  shows "x = of_int (coefficient x) * pow10 (exponent x)"
proof (cases "x = 0")
  case True
  then show ?thesis by (simp add: coefficient_def)
next
  case False
  then have "x = of_int (round_half_even (x / pow10 (exponent x))) * pow10 (exponent x)"
    using assms dfix_nonzero [of x] by (simp add: rep_def exponent_def)
  then have "x / pow10 (exponent x) = of_int (round_half_even (x / pow10 (exponent x)))"
    by (metis nonzero_mult_div_cancel_right pow10_nonzero)
  then show ?thesis unfolding coefficient_def
    by (metis floor_of_int nonzero_eq_divide_eq pow10_nonzero)
qed

lemma read_str_decimal [simp]: "rep x \<Longrightarrow> read_decimal (str_decimal x) = Ok x"
  using rep_split [of x] by (auto simp: str_decimal_def read_zero read_scientific)

lemma str_decimal_nonempty [simp]: "str_decimal x \<noteq> []"
  by (simp add: str_decimal_def)

end
