(* ===== verification/JsonValues.thy ===== *)
theory JsonValues
  imports DecimalText
begin

text \<open>
  The values of the library \<^verbatim>\<open>json\<close>, and the ways in which the program reads them. A field that is
  missing raises as \<^verbatim>\<open>data["..."]\<close> does; a field of another type than the reader expects raises
  \<^verbatim>\<open>TypeError\<close> in the model, where Python would sometimes carry the value on.
\<close>

section \<open>JSON values\<close>

text \<open>\<open>JFloat\<close> holds the exact value of the double.\<close>

datatype json = JNull | JBool bool | JInt int | JFloat rat | JStr string | JList "json list"
  | JObj "(string, json) dict"

lemma rmap_inverse: "(\<And>x. x \<in> set xs \<Longrightarrow> f (g x) = Ok x) \<Longrightarrow> rmap f (map g xs) = Ok xs"
  by (induction xs) auto

definition type_error :: exn where
  "type_error = Exn PyTypeError []"

definition as_str :: "json \<Rightarrow> string res" where
  "as_str j = (case j of JStr s \<Rightarrow> Ok s | _ \<Rightarrow> Raise type_error)"

definition as_int :: "json \<Rightarrow> int res" where
  "as_int j = (case j of JInt n \<Rightarrow> Ok n | _ \<Rightarrow> Raise type_error)"

definition as_bool :: "json \<Rightarrow> bool res" where
  "as_bool j = (case j of JBool b \<Rightarrow> Ok b | _ \<Rightarrow> Raise type_error)"

text \<open>\<^verbatim>\<open>Decimal(x)\<close>\<close>

definition as_decimal :: "json \<Rightarrow> decimal res" where
  "as_decimal j = (case j of JStr s \<Rightarrow> read_decimal s | JInt n \<Rightarrow> Ok (of_int n)
     | JFloat r \<Rightarrow> Ok r | _ \<Rightarrow> Raise type_error)"

definition as_str_option :: "json \<Rightarrow> string option res" where
  "as_str_option j = (case j of JNull \<Rightarrow> Ok None | JStr s \<Rightarrow> Ok (Some s) | _ \<Rightarrow> Raise type_error)"

definition as_list :: "json \<Rightarrow> json list res" where
  "as_list j = (case j of JList js \<Rightarrow> Ok js | _ \<Rightarrow> Raise type_error)"

definition json_truthy :: "json \<Rightarrow> bool" where
  "json_truthy j = (case j of JNull \<Rightarrow> False | JBool b \<Rightarrow> b | JInt n \<Rightarrow> n \<noteq> 0 | JFloat r \<Rightarrow> r \<noteq> 0 | JStr s \<Rightarrow> s \<noteq> []
     | JList js \<Rightarrow> js \<noteq> [] | JObj d \<Rightarrow> d \<noteq> [])"

text \<open>\<^verbatim>\<open>data["k"]\<close>, and \<^verbatim>\<open>data.get("k", default)\<close>\<close>

definition item :: "json \<Rightarrow> string \<Rightarrow> json res" where
  "item j k = (case j of JObj d \<Rightarrow> (case dget d k of None \<Rightarrow> Raise (Exn PyKeyError [k]) | Some v \<Rightarrow> Ok v)
     | _ \<Rightarrow> Raise type_error)"

definition item_or :: "json \<Rightarrow> string \<Rightarrow> json \<Rightarrow> json res" where
  "item_or j k d = (case j of JObj o' \<Rightarrow> Ok (case dget o' k of None \<Rightarrow> d | Some v \<Rightarrow> v)
     | _ \<Rightarrow> Raise (Exn PyAttributeError []))"

end
