(* ===== verification/Persistence.thy ===== *)
theory Persistence
  imports JsonValues ProfitLockModel GridModel
begin

text \<open>
  \<^verbatim>\<open>engine/grid/persistence.py\<close> and \<^verbatim>\<open>engine/profit_lock/persistence.py\<close>: grid and profit lock states
  as snapshots and back. A snapshot is the JSON value; the text that \<^verbatim>\<open>json.dumps\<close> writes and
  \<^verbatim>\<open>json.loads\<close> reads is identified with the value it denotes. A field that is missing raises as
  \<^verbatim>\<open>data["..."]\<close> does; a field of another type than \<^verbatim>\<open>serialize\<close> writes raises \<^verbatim>\<open>TypeError\<close> in
  the model, where Python would carry the value on.
\<close>

section \<open>Optional fields\<close>

text \<open>\<^verbatim>\<open>str(x) if x else None\<close> for a decimal, and the inverse on a field.\<close>

definition str_or_null :: "decimal option \<Rightarrow> json" where
  "str_or_null x = (case x of None \<Rightarrow> JNull | Some d \<Rightarrow> if d = 0 then JNull else JStr (str_decimal d))"

definition decimal_or_none :: "json \<Rightarrow> decimal option res" where
  "decimal_or_none j = (if json_truthy j then rbind (as_decimal j) (\<lambda>d. Ok (Some d)) else Ok None)"

definition json_option :: "string option \<Rightarrow> json" where
  "json_option x = (case x of None \<Rightarrow> JNull | Some s \<Rightarrow> JStr s)"

text \<open>The text of an identifier.\<close>

definition str_uuid :: "uuid \<Rightarrow> string" where
  "str_uuid = show_nat"

section \<open>Grids\<close>

definition serialize_level :: "grid_level \<Rightarrow> json" where
  "serialize_level lv = JObj
     [(''level'', JInt (lv_level lv)), (''buy_price'', JStr (str_decimal (lv_buy_price lv))),
      (''sell_price'', JStr (str_decimal (lv_sell_price lv))),
      (''quantity'', JStr (str_decimal (lv_quantity lv))),
      (''buy_order_id'', json_option (lv_buy_order_id lv)),
      (''sell_order_id'', json_option (lv_sell_order_id lv)),
      (''status'', JStr (level_status_value (lv_status lv)))]"

definition serialize_grid :: "grid_state \<Rightarrow> json" where
  "serialize_grid g = JObj
     [(''instance_id'', JStr (g_instance_id g)), (''status'', JStr (g_status g)),
      (''upper_price'', JStr (str_decimal (g_upper_price g))),
      (''lower_price'', JStr (str_decimal (g_lower_price g))), (''grid_count'', JInt (g_grid_count g)),
      (''grid_spacing'', JStr (str_decimal (g_grid_spacing g))),
      (''investment_per_grid'', JStr (str_decimal (g_investment_per_grid g))),
      (''total_cycles'', JInt (g_total_cycles g)),
      (''total_profit'', JStr (str_decimal (g_total_profit g))), (''symbol'', JStr (g_symbol g)),
      (''current_price'', str_or_null (g_current_price g)),
      (''exchange_account_id'', json_option (map_option str_uuid (g_exchange_account_id g))),
      (''levels'', JList (map serialize_level (g_levels g)))]"

text \<open>\<^verbatim>\<open>GridLevelStatus(text)\<close>, with the fallback of the code.\<close>

definition level_status_of :: "string \<Rightarrow> level_status" where
  "level_status_of s = (case find (\<lambda>st. level_status_value st = s) [L_WAITING, L_OPEN, L_FILLED, L_CANCELLED, L_TP_HIT] of
     None \<Rightarrow> L_WAITING | Some st \<Rightarrow> st)"

definition deserialize_level :: "json \<Rightarrow> grid_level res" where
  "deserialize_level j =
     rbind (rbind (item j ''status'') as_str) (\<lambda>st.
     rbind (rbind (item j ''level'') as_int) (\<lambda>n.
     rbind (rbind (item j ''buy_price'') as_decimal) (\<lambda>buy.
     rbind (rbind (item j ''sell_price'') as_decimal) (\<lambda>sell.
     rbind (rbind (item j ''quantity'') as_decimal) (\<lambda>qty.
     rbind (rbind (item_or j ''buy_order_id'' JNull) as_str_option) (\<lambda>buy_id.
     rbind (rbind (item_or j ''sell_order_id'' JNull) as_str_option) (\<lambda>sell_id.
       Ok \<lparr>lv_level = n, lv_buy_price = buy, lv_sell_price = sell, lv_quantity = qty,
           lv_buy_order_id = buy_id, lv_sell_order_id = sell_id, lv_status = level_status_of st\<rparr>)))))))"

text \<open>
  The restored grid. Its \<^verbatim>\<open>exchange_account_id\<close> is the text of the snapshot, not an identifier: it
  is the field \<open>g_account_text\<close>, and the field of the identifier is empty.
\<close>

record restored_grid = grid_state +
  g_account_text :: "string option"

definition deserialize_grid :: "json \<Rightarrow> restored_grid res" where
  "deserialize_grid j =
     rbind (rbind (item_or j ''levels'' (JList [])) as_list) (\<lambda>ls.
     rbind (rmap deserialize_level ls) (\<lambda>levels.
     rbind (rbind (item j ''instance_id'') as_str) (\<lambda>i.
     rbind (rbind (item j ''status'') as_str) (\<lambda>st.
     rbind (rbind (item j ''upper_price'') as_decimal) (\<lambda>up.
     rbind (rbind (item j ''lower_price'') as_decimal) (\<lambda>lo.
     rbind (rbind (item j ''grid_count'') as_int) (\<lambda>n.
     rbind (rbind (item j ''grid_spacing'') as_decimal) (\<lambda>spacing.
     rbind (rbind (item j ''investment_per_grid'') as_decimal) (\<lambda>investment.
     rbind (rbind (item_or j ''total_cycles'' (JInt 0)) as_int) (\<lambda>cycles.
     rbind (rbind (item_or j ''total_profit'' (JStr ''0'')) as_decimal) (\<lambda>profit.
     rbind (rbind (item_or j ''symbol'' (JStr [])) as_str) (\<lambda>symbol.
     rbind (rbind (item_or j ''current_price'' JNull) decimal_or_none) (\<lambda>current.
     rbind (rbind (item_or j ''exchange_account_id'' JNull) as_str_option) (\<lambda>account.
       Ok \<lparr>g_instance_id = i, g_status = st, g_upper_price = up, g_lower_price = lo,
           g_grid_count = n, g_grid_spacing = spacing, g_investment_per_grid = investment,
           g_levels = levels, g_total_cycles = cycles, g_total_profit = profit,
           g_exchange_account_id = None, g_symbol = symbol, g_current_price = current,
           g_account_text = account\<rparr>))))))))))))))"

section \<open>Profit locks\<close>

definition serialize_lock :: "plock_state \<Rightarrow> json" where
  "serialize_lock p = JObj
     [(''instance_id'', JStr (pl_instance_id p)), (''status'', JStr (plock_status_value (pl_status p))),
      (''enabled'', JBool (pl_enabled p)),
      (''trigger_percentage'', JStr (str_decimal (pl_trigger_percentage p))),
      (''trail_percentage'', JStr (str_decimal (pl_trail_percentage p))),
      (''entry_price'', JStr (str_decimal (pl_entry_price p))),
      (''quantity'', JStr (str_decimal (pl_quantity p))), (''side'', JStr (pl_side p)),
      (''highest_price'', str_or_null (pl_highest_price p)),
      (''lock_price'', str_or_null (pl_lock_price p)),
      (''is_triggered'', JBool (pl_is_triggered p)), (''is_executed'', JBool (pl_is_executed p)),
      (''lock_order_id'', json_option (pl_lock_order_id p)),
      (''exchange_account_id'', json_option (map_option str_uuid (pl_exchange_account_id p))),
      (''symbol'', JStr (pl_symbol p))]"

text \<open>The status is a string of the snapshot; the model keeps the ones that name a status.\<close>

definition plock_status_of :: "string \<Rightarrow> plock_status res" where
  "plock_status_of s = (case find (\<lambda>st. plock_status_value st = s)
       [P_DISABLED, P_MONITORING, P_TRIGGERED, P_EXECUTING, P_LOCKED, P_CANCELLED, P_ERROR] of
     None \<Rightarrow> Raise type_error | Some st \<Rightarrow> Ok st)"

text \<open>\<^verbatim>\<open>uuid.UUID(text) if text else None\<close>\<close>

definition uuid_or_none :: "json \<Rightarrow> uuid option res" where
  "uuid_or_none j = (if json_truthy j
     then rbind (as_str j) (\<lambda>s. case read_nat s of None \<Rightarrow> Raise (Exn PyValueError [s]) | Some n \<Rightarrow> Ok (Some n))
     else Ok None)"

definition deserialize_lock :: "json \<Rightarrow> plock_state res" where
  "deserialize_lock j =
     rbind (rbind (item j ''instance_id'') as_str) (\<lambda>i.
     rbind (rbind (rbind (item_or j ''status'' (JStr ''disabled'')) as_str) plock_status_of) (\<lambda>st.
     rbind (rbind (item_or j ''enabled'' (JBool False)) as_bool) (\<lambda>enabled.
     rbind (rbind (item_or j ''trigger_percentage'' (JStr ''0'')) as_decimal) (\<lambda>trig.
     rbind (rbind (item_or j ''trail_percentage'' (JStr ''0'')) as_decimal) (\<lambda>trail.
     rbind (rbind (item_or j ''entry_price'' (JStr ''0'')) as_decimal) (\<lambda>entry.
     rbind (rbind (item_or j ''quantity'' (JStr ''0'')) as_decimal) (\<lambda>qty.
     rbind (rbind (item_or j ''side'' (JStr ''long'')) as_str) (\<lambda>side.
     rbind (rbind (item_or j ''highest_price'' JNull) decimal_or_none) (\<lambda>highest.
     rbind (rbind (item_or j ''lock_price'' JNull) decimal_or_none) (\<lambda>lock.
     rbind (rbind (item_or j ''is_triggered'' (JBool False)) as_bool) (\<lambda>triggered.
     rbind (rbind (item_or j ''is_executed'' (JBool False)) as_bool) (\<lambda>executed.
     rbind (rbind (item_or j ''lock_order_id'' JNull) as_str_option) (\<lambda>order_id.
     rbind (rbind (item_or j ''exchange_account_id'' JNull) uuid_or_none) (\<lambda>account.
     rbind (rbind (item_or j ''symbol'' (JStr [])) as_str) (\<lambda>symbol.
       Ok \<lparr>pl_instance_id = i, pl_status = st, pl_enabled = enabled, pl_trigger_percentage = trig,
           pl_trail_percentage = trail, pl_max_profit_percentage = 0, pl_entry_price = entry,
           pl_quantity = qty, pl_side = side, pl_highest_price = highest, pl_lock_price = lock,
           pl_is_triggered = triggered, pl_is_executed = executed, pl_lock_order_id = order_id,
           pl_exchange_account_id = account, pl_symbol = symbol\<rparr>)))))))))))))))"

section \<open>Fields\<close>

lemma item_simps [simp]:
  "item (JObj ((k, v) # d)) k' = (if k = k' then Ok v else item (JObj d) k')"
  "item_or (JObj ((k, v) # d)) k' w = (if k = k' then Ok v else item_or (JObj d) k' w)"
  by (simp_all add: item_def item_or_def)

lemma reader_simps [simp]:
  "as_str (JStr s) = Ok s" "as_int (JInt n) = Ok n" "as_bool (JBool b) = Ok b" "as_list (JList js) = Ok js"
  "as_decimal (JStr s) = read_decimal s"
  by (simp_all add: as_str_def as_int_def as_bool_def as_list_def as_decimal_def)

lemma option_readers [simp]: "as_str_option (json_option x) = Ok x"
  by (simp add: as_str_option_def json_option_def split: option.splits)

text \<open>A zero is lost: it is written as null.\<close>

definition non_zero :: "decimal option \<Rightarrow> decimal option" where
  "non_zero x = (if x = Some 0 then None else x)"

lemma decimal_or_none_str [simp]:
  "(\<And>d. x = Some d \<Longrightarrow> rep d) \<Longrightarrow> decimal_or_none (str_or_null x) = Ok (non_zero x)"
  by (cases x) (auto simp: decimal_or_none_def str_or_null_def json_truthy_def non_zero_def)

lemma uuid_round_trip [simp]: "uuid_or_none (json_option (map_option str_uuid x)) = Ok x"
proof (cases x)
  case (Some n)
  have "read_nat (show_nat n) = Some n"
    using show_nat_nonempty [of n] show_nat_digits [of n] by (simp add: read_nat_def)
  with Some show ?thesis using show_nat_nonempty [of n]
    by (simp add: uuid_or_none_def json_option_def json_truthy_def str_uuid_def)
qed (simp add: uuid_or_none_def json_option_def json_truthy_def)

lemma status_round_trips [simp]:
  "level_status_of (level_status_value st) = st" "plock_status_of (plock_status_value ps) = Ok ps"
  by (cases st; simp add: level_status_of_def) (cases ps; simp add: plock_status_of_def)

section \<open>Properties\<close>

text \<open>Every decimal of a state is one the program can hold.\<close>

definition level_rep :: "grid_level \<Rightarrow> bool" where
  "level_rep lv \<longleftrightarrow> rep (lv_buy_price lv) \<and> rep (lv_sell_price lv) \<and> rep (lv_quantity lv)"

definition grid_rep :: "grid_state \<Rightarrow> bool" where
  "grid_rep g \<longleftrightarrow> rep (g_upper_price g) \<and> rep (g_lower_price g) \<and> rep (g_grid_spacing g) \<and>
     rep (g_investment_per_grid g) \<and> rep (g_total_profit g) \<and>
     (\<forall>d. g_current_price g = Some d \<longrightarrow> rep d) \<and> (\<forall>lv \<in> set (g_levels g). level_rep lv)"

definition lock_rep :: "plock_state \<Rightarrow> bool" where
  "lock_rep p \<longleftrightarrow> rep (pl_trigger_percentage p) \<and> rep (pl_trail_percentage p) \<and> rep (pl_entry_price p) \<and>
     rep (pl_quantity p) \<and> (\<forall>d. pl_highest_price p = Some d \<longrightarrow> rep d) \<and>
     (\<forall>d. pl_lock_price p = Some d \<longrightarrow> rep d)"

lemma level_round_trip: "level_rep lv \<Longrightarrow> deserialize_level (serialize_level lv) = Ok lv"
  by (simp add: deserialize_level_def serialize_level_def level_rep_def)

text \<open>
  C25. Grid snapshots. Restoring a grid from its own snapshot succeeds and gives back every field and
  every level, with two differences: a current price of zero comes back as no price, and the
  exchange account comes back as the text of the identifier instead of the identifier (so the
  restored grid names no account under which an adapter is registered).
\<close>

theorem grid_snapshot_roundtrip:
  assumes "grid_rep g"
  shows "\<exists>h. deserialize_grid (serialize_grid g) = Ok h \<and>
    grid_state.truncate h = g\<lparr>g_current_price := non_zero (g_current_price g), g_exchange_account_id := None\<rparr> \<and>
    g_account_text h = map_option str_uuid (g_exchange_account_id g)"
proof -
  have levels: "rmap deserialize_level (map serialize_level (g_levels g)) = Ok (g_levels g)"
    using assms level_round_trip by (intro rmap_inverse) (simp add: grid_rep_def)
  have current: "decimal_or_none (str_or_null (g_current_price g)) = Ok (non_zero (g_current_price g))"
    using assms by (simp add: grid_rep_def)
  have decimals: "rep (g_upper_price g)" "rep (g_lower_price g)" "rep (g_grid_spacing g)"
    "rep (g_investment_per_grid g)" "rep (g_total_profit g)"
    using assms by (simp_all add: grid_rep_def)
  show ?thesis
    by (simp add: deserialize_grid_def serialize_grid_def levels current decimals grid_state.defs)
qed

definition sample_grid :: grid_state where
  "sample_grid = \<lparr>g_instance_id = ''g'', g_status = G_ACTIVE, g_upper_price = 200, g_lower_price = 100,
     g_grid_count = 1, g_grid_spacing = 100, g_investment_per_grid = 50,
     g_levels = [\<lparr>lv_level = 0, lv_buy_price = 100, lv_sell_price = 200, lv_quantity = 1,
       lv_buy_order_id = Some ''x'', lv_sell_order_id = None, lv_status = L_OPEN\<rparr>],
     g_total_cycles = 3, g_total_profit = 7, g_exchange_account_id = Some 7, g_symbol = ''BTC'',
     g_current_price = Some 0\<rparr>"

theorem grid_snapshot_roundtrip_witness:
  "\<exists>h. deserialize_grid (serialize_grid sample_grid) = Ok h \<and> g_current_price h = None \<and>
     g_levels h = g_levels sample_grid"
proof -
  have "grid_rep sample_grid" by (simp add: grid_rep_def level_rep_def sample_grid_def rep_numeral)
  from grid_snapshot_roundtrip [OF this] obtain h where h: "deserialize_grid (serialize_grid sample_grid) = Ok h"
    "grid_state.truncate h = sample_grid\<lparr>g_current_price := non_zero (g_current_price sample_grid), g_exchange_account_id := None\<rparr>"
    by blast
  have "g_current_price h = g_current_price (grid_state.truncate h)" "g_levels h = g_levels (grid_state.truncate h)"
    by (simp_all add: grid_state.defs)
  with h show ?thesis by (simp add: non_zero_def) (simp add: sample_grid_def)
qed

text \<open>
  Profit lock snapshots. Restoring a lock from its own snapshot succeeds and gives back every
  field, the account included, with two differences: the profit cap is not part of the snapshot and
  comes back as zero, which switches it off, and a highest or lock price of zero comes back as none.
\<close>

theorem lock_snapshot_roundtrip:
  assumes "lock_rep p"
  shows "deserialize_lock (serialize_lock p) = Ok (p\<lparr>pl_max_profit_percentage := 0,
    pl_highest_price := non_zero (pl_highest_price p), pl_lock_price := non_zero (pl_lock_price p)\<rparr>)"
proof -
  have prices: "decimal_or_none (str_or_null (pl_highest_price p)) = Ok (non_zero (pl_highest_price p))"
    "decimal_or_none (str_or_null (pl_lock_price p)) = Ok (non_zero (pl_lock_price p))"
    using assms by (simp_all add: lock_rep_def)
  have decimals: "rep (pl_trigger_percentage p)" "rep (pl_trail_percentage p)" "rep (pl_entry_price p)"
    "rep (pl_quantity p)"
    using assms by (simp_all add: lock_rep_def)
  show ?thesis
    by (simp add: deserialize_lock_def serialize_lock_def prices decimals)
qed

definition sample_lock :: plock_state where
  "sample_lock = \<lparr>pl_instance_id = ''g:level:0'', pl_status = P_MONITORING, pl_enabled = True,
     pl_trigger_percentage = 5, pl_trail_percentage = 1, pl_max_profit_percentage = 20,
     pl_entry_price = 100, pl_quantity = 2, pl_side = ''long'', pl_highest_price = Some 104,
     pl_lock_price = None, pl_is_triggered = False, pl_is_executed = False, pl_lock_order_id = None,
     pl_exchange_account_id = Some 7, pl_symbol = ''BTC''\<rparr>"

theorem lock_snapshot_roundtrip_witness:
  "\<exists>q. deserialize_lock (serialize_lock sample_lock) = Ok q \<and> pl_max_profit_percentage q = 0 \<and>
     pl_exchange_account_id q = Some 7"
proof -
  have "lock_rep sample_lock" by (simp add: lock_rep_def sample_lock_def rep_numeral)
  from lock_snapshot_roundtrip [OF this] show ?thesis by (simp add: sample_lock_def)
qed

end
