(* ===== verification/StateRecovery.thy ===== *)
theory StateRecovery
  imports Reconciler Persistence
begin

text \<open>
  \<^verbatim>\<open>engine/recovery/state.py\<close>: the in-memory state rebuilt from storage. The state layer and the
  reconciler are wired to one portfolio manager here, so this state extends the reconciler's. The
  optional loaders of the constructor are a record of routines on the whole state; a snapshot is its
  JSON value, and of a loaded instance only its presence matters.
\<close>

section \<open>State\<close>

record recovery_metrics =
  processes_recovered :: int
  grids_recovered :: int
  profit_locks_recovered :: int
  portfolios_recovered :: int
  recovery_failures :: int

record 'x state_recovery = "'x reconciler" +
  sr_recovered_instances :: "string list"
  sr_metrics :: recovery_metrics

type_synonym ('x, 'm, 'a) sr = "(('x, 'm) state_recovery_scheme, 'a) py"

record 's recovery_calls =
  load_instance_fn :: "(string \<Rightarrow> ('s, bool) py) option"
  load_grid_snapshot_fn :: "(string \<Rightarrow> ('s, json option) py) option"
  load_profit_lock_snapshot_fn :: "(string \<Rightarrow> ('s, json option) py) option"
  fetch_exchange_positions_fn :: "(string \<Rightarrow> ('s, position_entry list) py) option"

section \<open>Operations\<close>

definition sr_count :: "(recovery_metrics \<Rightarrow> recovery_metrics) \<Rightarrow> ('x, 'm, unit) sr" where
  "sr_count f = modify (\<lambda>s. s\<lparr>sr_metrics := f (sr_metrics s)\<rparr>)"

text \<open>The failure is counted, and the answer is the given one.\<close>

definition failing :: "'a \<Rightarrow> ('x, 'm, 'a) sr" where
  "failing a = seq (sr_count (\<lambda>m. m\<lparr>recovery_failures := recovery_failures m + 1\<rparr>)) (ret a)"

definition recover_trading_process :: "('x, 'm) state_recovery_scheme recovery_calls \<Rightarrow> string \<Rightarrow>
    ('x, 'm, bool) sr" where
  "recover_trading_process calls i = (case load_instance_fn calls of
      None \<Rightarrow> ret True
    | Some f \<Rightarrow> try_catch
        (bind (f i) (\<lambda>found. if \<not> found then failing False
           else seq (modify (\<lambda>s. s\<lparr>sr_recovered_instances := List.insert i (sr_recovered_instances s)\<rparr>))
             (seq (sr_count (\<lambda>m. m\<lparr>processes_recovered := processes_recovered m + 1\<rparr>)) (ret True))))
        (\<lambda>_. failing False))"

definition recover_grid :: "('x, 'm) state_recovery_scheme recovery_calls \<Rightarrow> string \<Rightarrow>
    ('x, 'm, restored_grid option) sr" where
  "recover_grid calls i = (case load_grid_snapshot_fn calls of
      None \<Rightarrow> ret None
    | Some f \<Rightarrow> try_catch
        (bind (f i) (\<lambda>snapshot. case snapshot of
            None \<Rightarrow> ret None
          | Some j \<Rightarrow> bind (lift_res (deserialize_grid j)) (\<lambda>g.
              seq (sr_count (\<lambda>m. m\<lparr>grids_recovered := grids_recovered m + 1\<rparr>)) (ret (Some g)))))
        (\<lambda>_. failing None))"

definition recover_profit_lock :: "('x, 'm) state_recovery_scheme recovery_calls \<Rightarrow> string \<Rightarrow>
    ('x, 'm, plock_state option) sr" where
  "recover_profit_lock calls i = (case load_profit_lock_snapshot_fn calls of
      None \<Rightarrow> ret None
    | Some f \<Rightarrow> try_catch
        (bind (f i) (\<lambda>snapshot. case snapshot of
            None \<Rightarrow> ret None
          | Some j \<Rightarrow> bind (lift_res (deserialize_lock j)) (\<lambda>p.
              seq (sr_count (\<lambda>m. m\<lparr>profit_locks_recovered := profit_locks_recovered m + 1\<rparr>)) (ret (Some p)))))
        (\<lambda>_. failing None))"

definition recovered_account :: "string \<Rightarrow> string" where
  "recovered_account i = ''recovered-'' @ i"

definition rebuild_position :: "string \<Rightarrow> position_entry \<Rightarrow> ('x, 'm, position list) sr" where
  "rebuild_position i ep = bind (register_position i (recovered_account i) ''recovered'' (pe_symbol ep)
     (pe_side ep) (pe_entry_price ep) (pe_quantity ep)) (\<lambda>p. ret [p])"

definition recover_portfolio :: "('x, 'm) state_recovery_scheme recovery_calls \<Rightarrow> string \<Rightarrow>
    ('x, 'm, position list) sr" where
  "recover_portfolio calls i = (case fetch_exchange_positions_fn calls of
      None \<Rightarrow> ret []
    | Some f \<Rightarrow> try_catch
        (bind (f i) (\<lambda>eps. bind (collect (rebuild_position i) eps) (\<lambda>rebuilt.
           seq (sr_count (\<lambda>m. m\<lparr>portfolios_recovered := portfolios_recovered m + 1\<rparr>)) (ret rebuilt))))
        (\<lambda>_. failing []))"

section \<open>Property\<close>

lemma register_position_taken:
  "dget (pf_positions s) i \<noteq> None \<Longrightarrow> register_position i a e y side p q s = (Raise (portfolio_error i), s)"
  by (simp add: register_position_def py_simps)

lemma register_position_new:
  "dget (pf_positions s) i = None \<Longrightarrow> side \<in> {''long'', ''short''} \<Longrightarrow> 0 < p \<Longrightarrow> 0 < q \<Longrightarrow>
   register_position i a e y side p q s = (Ok (new_position i a e y side p q (clock s)),
     s\<lparr>pf_positions := dput i (new_position i a e y side p q (clock s)) (pf_positions s)\<rparr>)"
  by (auto simp: register_position_def pf_set_def py_simps Let_def)

text \<open>
  The portfolio of an instance with two positions cannot be recovered. Every reported position is
  registered under the instance itself, so when the exchange reports a second one its registration
  raises: the recovery counts a failure and answers that nothing was recovered, although the first
  position stays registered; the further positions are missing.
\<close>

theorem second_position_fails_recovery:
  assumes "fetch_exchange_positions_fn calls = Some f" and "f i s = (Ok (ep # ep' # eps), s1)"
    and "dget (pf_positions s1) i = None" and "pe_side ep \<in> {''long'', ''short''}"
    and "0 < pe_entry_price ep" and "0 < pe_quantity ep"
  shows "\<exists>t p. recover_portfolio calls i s = (Ok [], t) \<and>
    dget (pf_positions t) i = Some p \<and> ps_symbol p = pe_symbol ep \<and> ps_quantity p = pe_quantity ep \<and>
    length (pf_positions t) = length (pf_positions s1) + 1 \<and>
    sr_metrics t = (sr_metrics s1)\<lparr>recovery_failures := recovery_failures (sr_metrics s1) + 1\<rparr>"
proof -
  let ?p = "new_position i (recovered_account i) ''recovered'' (pe_symbol ep) (pe_side ep)
    (pe_entry_price ep) (pe_quantity ep) (clock s1)"
  let ?s2 = "s1\<lparr>pf_positions := dput i ?p (pf_positions s1)\<rparr>"
  have first: "rebuild_position i ep s1 = (Ok [?p], ?s2)"
    using assms(3-6) by (simp add: rebuild_position_def bind_Ok register_position_new ret_def)
  have second: "rebuild_position i ep' ?s2 = (Raise (portfolio_error i), ?s2)"
    by (simp add: rebuild_position_def bind_Raise register_position_taken)
  have "collect (rebuild_position i) (ep # ep' # eps) s1 = (Raise (portfolio_error i), ?s2)"
    by (rule collect_Raise(2), rule first, rule collect_Raise(1), rule second)
  then have "recover_portfolio calls i s = failing [] ?s2"
    using assms(1,2) by (simp add: recover_portfolio_def try_catch_def bind_Ok bind_Raise)
  then show ?thesis
    using assms(3) by (simp add: failing_def sr_count_def seq_Ok modify_def ret_def new_position_def length_dput)
qed

definition fresh_recovery :: "unit state_recovery" where
  "fresh_recovery = reconciler.extend (no_reconciliations\<lparr>pf_positions := []\<rparr>)
     (state_recovery.fields [] \<lparr>processes_recovered = 0, grids_recovered = 0, profit_locks_recovered = 0,
       portfolios_recovered = 0, recovery_failures = 0\<rparr>)"

definition entry_of :: "string \<Rightarrow> position_entry" where
  "entry_of symbol = \<lparr>pe_symbol = symbol, pe_side = ''long'', pe_quantity = 1, pe_entry_price = 100\<rparr>"

definition two_positions :: "unit state_recovery recovery_calls" where
  "two_positions = \<lparr>load_instance_fn = None, load_grid_snapshot_fn = None, load_profit_lock_snapshot_fn = None,
     fetch_exchange_positions_fn = Some (\<lambda>_. ret [entry_of ''BTC'', entry_of ''ETH''])\<rparr>"

theorem second_position_fails_recovery_witness:
  "\<exists>t p. recover_portfolio two_positions ''i'' fresh_recovery = (Ok [], t) \<and>
     dget (pf_positions t) ''i'' = Some p \<and> ps_symbol p = ''BTC''"
proof -
  have fetch: "fetch_exchange_positions_fn two_positions = Some (\<lambda>_. ret [entry_of ''BTC'', entry_of ''ETH''])"
    by (simp add: two_positions_def)
  have answer: "ret [entry_of ''BTC'', entry_of ''ETH''] fresh_recovery =
      (Ok [entry_of ''BTC'', entry_of ''ETH''], fresh_recovery)"
    by (simp add: ret_def)
  have "dget (pf_positions fresh_recovery) ''i'' = None"
    by (simp add: fresh_recovery_def reconciler.defs state_recovery.defs)
  from second_position_fails_recovery [OF fetch answer this] show ?thesis
    by (simp add: entry_of_def) blast
qed

end
