(* ===== verification/ConnectionRecovery.thy ===== *)
theory ConnectionRecovery
  imports DomainTypes
begin

text \<open>
  \<^verbatim>\<open>engine/recovery/connection.py\<close>: the connection layer of recovery, with the queue of orders kept
  during a disconnect. The optional callbacks of the constructor are a record of routines on the
  whole state, an argument of the operations that call them; a placed order's result has an
  arbitrary type \<open>'r\<close>. Two wordings of the code are one here: a callback that is not set, and \<open>None\<close>.
\<close>

section \<open>State\<close>

record queued_order =
  qo_instance_id :: string
  qo_account_id :: string
  qo_exchange :: string
  qo_symbol :: string
  qo_side :: string
  qo_quantity :: decimal
  qo_price :: decimal
  qo_queued_at :: datetime

record connection_metrics =
  redis_recoveries :: int
  postgres_recoveries :: int
  exchange_reconnects :: int
  orders_queued :: int
  orders_replayed :: int
  orders_replayed_failed :: int

record 'x connection_recovery = "'x world" +
  cr_redis_connected :: bool
  cr_postgres_connected :: bool
  cr_exchange_connected :: "(string, bool) dict"
  cr_subscribed_symbols :: "(string, string list) dict"
  cr_order_queue :: "queued_order list"
  cr_reconnect_attempts :: "(string, int) dict"
  cr_metrics :: connection_metrics

type_synonym ('x, 'm, 'a) cr = "(('x, 'm) connection_recovery_scheme, 'a) py"

record ('s, 'r) connection_calls =
  redis_health :: "('s, bool) py option"
  postgres_health :: "('s, bool) py option"
  resubscribe_fn :: "(string \<Rightarrow> string list \<Rightarrow> ('s, bool) py) option"
  resync_prices_fn :: "(string list \<Rightarrow> ('s, (string, decimal) dict) py) option"
  place_order_fn :: "(queued_order \<Rightarrow> ('s, 'r) py) option"

section \<open>Operations\<close>

definition cr_count :: "(connection_metrics \<Rightarrow> connection_metrics) \<Rightarrow> ('x, 'm, unit) cr" where
  "cr_count f = modify (\<lambda>s. s\<lparr>cr_metrics := f (cr_metrics s)\<rparr>)"

definition register_subscriptions :: "string \<Rightarrow> string list \<Rightarrow> ('x, 'm, unit) cr" where
  "register_subscriptions account symbols =
     modify (\<lambda>s. s\<lparr>cr_subscribed_symbols := dput account symbols (cr_subscribed_symbols s)\<rparr>)"

text \<open>A health check: no check counts as healthy, a check that raises as unhealthy.\<close>

definition healthy :: "('s, bool) py option \<Rightarrow> ('s, bool) py" where
  "healthy check = (case check of None \<Rightarrow> ret True | Some f \<Rightarrow> try_catch f (\<lambda>_. ret False))"

definition recover_redis :: "(('x, 'm) connection_recovery_scheme, 'r) connection_calls \<Rightarrow> ('x, 'm, bool) cr" where
  "recover_redis calls =
     seq (cr_count (\<lambda>m. m\<lparr>redis_recoveries := redis_recoveries m + 1\<rparr>))
     (bind (healthy (redis_health calls)) (\<lambda>b.
       seq (modify (\<lambda>s. s\<lparr>cr_redis_connected := b\<rparr>)) (ret b)))"

definition recover_postgres :: "(('x, 'm) connection_recovery_scheme, 'r) connection_calls \<Rightarrow> ('x, 'm, bool) cr" where
  "recover_postgres calls =
     seq (cr_count (\<lambda>m. m\<lparr>postgres_recoveries := postgres_recoveries m + 1\<rparr>))
     (bind (healthy (postgres_health calls)) (\<lambda>b.
       seq (modify (\<lambda>s. s\<lparr>cr_postgres_connected := b\<rparr>)) (ret b)))"

definition set_exchange_connected :: "bool \<Rightarrow> string \<Rightarrow> ('x, 'm, unit) cr" where
  "set_exchange_connected b exchange = modify (\<lambda>s. s
     \<lparr>cr_exchange_connected := dput exchange b (cr_exchange_connected s),
      cr_reconnect_attempts := dput exchange 0 (cr_reconnect_attempts s)\<rparr>)"

definition on_exchange_disconnect :: "string \<Rightarrow> string \<Rightarrow> ('x, 'm, unit) cr" where
  "on_exchange_disconnect exchange account = set_exchange_connected False exchange"

definition resubscribe_all :: "(('x, 'm) connection_recovery_scheme, 'r) connection_calls \<Rightarrow> string \<Rightarrow>
    string list \<Rightarrow> ('x, 'm, bool) cr" where
  "resubscribe_all calls account symbols = (case resubscribe_fn calls of
      None \<Rightarrow> seq (register_subscriptions account symbols) (ret True)
    | Some f \<Rightarrow> try_catch (f account symbols) (\<lambda>_. ret False))"

definition resync_prices :: "(('x, 'm) connection_recovery_scheme, 'r) connection_calls \<Rightarrow> string list \<Rightarrow>
    ('x, 'm, (string, decimal) dict) cr" where
  "resync_prices calls symbols = (case resync_prices_fn calls of
      None \<Rightarrow> ret []
    | Some f \<Rightarrow> try_catch (f symbols) (\<lambda>_. ret []))"

definition queue_order :: "queued_order \<Rightarrow> ('x, 'm, unit) cr" where
  "queue_order q = seq (modify (\<lambda>s. s\<lparr>cr_order_queue := cr_order_queue s @ [q]\<rparr>))
     (cr_count (\<lambda>m. m\<lparr>orders_queued := orders_queued m + 1\<rparr>))"

text \<open>One queued order; without a callback it is skipped, and what the callback raises is counted.\<close>

definition replay_order :: "(('x, 'm) connection_recovery_scheme, 'r) connection_calls \<Rightarrow> queued_order \<Rightarrow>
    ('x, 'm, 'r list) cr" where
  "replay_order calls q = (case place_order_fn calls of
      None \<Rightarrow> ret []
    | Some f \<Rightarrow> try_catch
        (bind (f q) (\<lambda>r. seq (cr_count (\<lambda>m. m\<lparr>orders_replayed := orders_replayed m + 1\<rparr>)) (ret [r])))
        (\<lambda>_. seq (cr_count (\<lambda>m. m\<lparr>orders_replayed_failed := orders_replayed_failed m + 1\<rparr>)) (ret [])))"

definition replay_queued_orders :: "(('x, 'm) connection_recovery_scheme, 'r) connection_calls \<Rightarrow>
    ('x, 'm, 'r list) cr" where
  "replay_queued_orders calls = reading (\<lambda>s.
     if cr_order_queue s = [] then ret []
     else seq (modify (\<lambda>s. s\<lparr>cr_order_queue := []\<rparr>)) (collect (replay_order calls) (cr_order_queue s)))"

definition on_exchange_reconnect :: "(('x, 'm) connection_recovery_scheme, 'r) connection_calls \<Rightarrow> string \<Rightarrow>
    string \<Rightarrow> ('x, 'm, bool) cr" where
  "on_exchange_reconnect calls exchange account =
     seq (cr_count (\<lambda>m. m\<lparr>exchange_reconnects := exchange_reconnects m + 1\<rparr>))
     (seq (set_exchange_connected True exchange)
     (seq (reading (\<lambda>s. case dget (cr_subscribed_symbols s) account of
         None \<Rightarrow> ret ()
       | Some symbols \<Rightarrow> if symbols = [] then ret ()
           else seq (resubscribe_all calls account symbols) (seq (resync_prices calls symbols) (ret ()))))
     (seq (replay_queued_orders calls) (ret True))))"

definition is_exchange_connected :: "string \<Rightarrow> ('x, 'm) connection_recovery_scheme \<Rightarrow> bool" where
  "is_exchange_connected exchange s = (case dget (cr_exchange_connected s) exchange of None \<Rightarrow> True | Some b \<Rightarrow> b)"

definition cr_queue_size :: "('x, 'm) connection_recovery_scheme \<Rightarrow> nat" where
  "cr_queue_size s = length (cr_order_queue s)"

section \<open>Replay\<close>

text \<open>A placement callback that leaves the queue and its counters alone.\<close>

definition quiet_placement :: "(queued_order \<Rightarrow> ('x, 'm, 'r) cr) \<Rightarrow> bool" where
  "quiet_placement f \<longleftrightarrow> (\<forall>q. obeys (same (\<lambda>s. (cr_order_queue s, cr_metrics s))) (f q))"

text \<open>The placements, in order: the orders, and the outcomes in the states in which they are made.\<close>

lemma replay_order_effect:
  assumes "quiet_placement f" and "place_order_fn calls = Some f"
  shows "\<exists>rs t. replay_order calls q s = (Ok rs, t) \<and> cr_order_queue t = cr_order_queue s \<and>
    length rs \<le> 1 \<and>
    cr_metrics t = (if rs = []
      then (cr_metrics s)\<lparr>orders_replayed_failed := orders_replayed_failed (cr_metrics s) + 1\<rparr>
      else (cr_metrics s)\<lparr>orders_replayed := orders_replayed (cr_metrics s) + 1\<rparr>)"
proof -
  obtain r t where f: "f q s = (r, t)" by (cases "f q s")
  have "obeys (same (\<lambda>s. (cr_order_queue s, cr_metrics s))) (f q)" using assms(1) by (simp add: quiet_placement_def)
  from sameD [OF this, of s] f assms(2) show ?thesis
    by (cases r) (auto simp: replay_order_def try_catch_def bind_def seq_def cr_count_def modify_def ret_def)
qed

lemma replay_all:
  assumes "quiet_placement f" and "place_order_fn calls = Some f"
  shows "\<exists>rs t. collect (replay_order calls) qs s = (Ok rs, t) \<and> cr_order_queue t = cr_order_queue s \<and>
    length rs \<le> length qs \<and>
    cr_metrics t = (cr_metrics s)\<lparr>orders_replayed := orders_replayed (cr_metrics s) + int (length rs),
      orders_replayed_failed := orders_replayed_failed (cr_metrics s) + int (length qs - length rs)\<rparr>"
proof (induction qs arbitrary: s)
  case Nil
  show ?case by (simp add: ret_def)
next
  case (Cons q qs)
  obtain r s1 where 1: "replay_order calls q s = (Ok r, s1)" "cr_order_queue s1 = cr_order_queue s" "length r \<le> 1"
    "cr_metrics s1 = (if r = []
      then (cr_metrics s)\<lparr>orders_replayed_failed := orders_replayed_failed (cr_metrics s) + 1\<rparr>
      else (cr_metrics s)\<lparr>orders_replayed := orders_replayed (cr_metrics s) + 1\<rparr>)"
    using replay_order_effect [OF assms] by blast
  obtain rs t where 2: "collect (replay_order calls) qs s1 = (Ok rs, t)" "cr_order_queue t = cr_order_queue s1"
    "length rs \<le> length qs"
    "cr_metrics t = (cr_metrics s1)\<lparr>orders_replayed := orders_replayed (cr_metrics s1) + int (length rs),
      orders_replayed_failed := orders_replayed_failed (cr_metrics s1) + int (length qs - length rs)\<rparr>"
    using Cons.IH by blast
  from collect_Ok [OF 1(1) 2(1)] have run: "collect (replay_order calls) (q # qs) s = (Ok (r @ rs), t)" .
  show ?case
  proof (cases "r = []")
    case True
    with run 1 2 show ?thesis by (simp add: Suc_diff_le)
  next
    case False
    then have "length r = 1" using 1(3) by (cases r) auto
    with run 1 2 False show ?thesis by simp
  qed
qed

section \<open>Property\<close>

text \<open>
  Replaying the queue after a reconnect. With a placement callback that leaves the queue alone,
  the replay never raises and always empties the queue: every queued order is handed to the callback
  once, and is counted as replayed or as failed. An order whose placement raises is not queued again
  (it is lost), and without a callback every queued order is dropped without being counted at all.
\<close>

theorem replay_empties_queue:
  assumes "\<And>f. place_order_fn calls = Some f \<Longrightarrow> quiet_placement f"
  shows "\<exists>rs t. replay_queued_orders calls s = (Ok rs, t) \<and> cr_order_queue t = [] \<and>
    (if place_order_fn calls = None then rs = [] \<and> cr_metrics t = cr_metrics s
     else length rs \<le> length (cr_order_queue s) \<and>
       orders_replayed (cr_metrics t) = orders_replayed (cr_metrics s) + int (length rs) \<and>
       orders_replayed_failed (cr_metrics t) = orders_replayed_failed (cr_metrics s) +
         int (length (cr_order_queue s) - length rs))"
proof (cases "cr_order_queue s = []")
  case True
  then show ?thesis by (simp add: replay_queued_orders_def reading_def ret_def)
next
  case False
  let ?s1 = "s\<lparr>cr_order_queue := []\<rparr>"
  have run: "replay_queued_orders calls s = collect (replay_order calls) (cr_order_queue s) ?s1"
    using False by (simp add: replay_queued_orders_def reading_def seq_Ok modify_def)
  show ?thesis
  proof (cases "place_order_fn calls")
    case None
    have "collect (replay_order calls) qs t = (Ok [], t)" for qs t
      by (induction qs) (simp_all add: replay_order_def None ret_def bind_def)
    then show ?thesis using None by (simp add: run)
  next
    case (Some f)
    from replay_all [OF assms [OF Some] Some, of "cr_order_queue s" ?s1] Some show ?thesis
      by (auto simp: run)
  qed
qed

definition queued_connection :: "unit connection_recovery" where
  "queued_connection = \<lparr>clock = 0, uuid_next = 0, sleeps = [], exch = (), cr_redis_connected = True,
     cr_postgres_connected = True, cr_exchange_connected = [], cr_subscribed_symbols = [],
     cr_order_queue = [\<lparr>qo_instance_id = ''i'', qo_account_id = ''a'', qo_exchange = ''okx'', qo_symbol = ''BTC'',
       qo_side = ''buy'', qo_quantity = 1, qo_price = 100, qo_queued_at = 0\<rparr>],
     cr_reconnect_attempts = [], cr_metrics = \<lparr>redis_recoveries = 0, postgres_recoveries = 0,
       exchange_reconnects = 0, orders_queued = 1, orders_replayed = 0, orders_replayed_failed = 0\<rparr>\<rparr>"

definition failing_calls :: "(unit connection_recovery, unit) connection_calls" where
  "failing_calls = \<lparr>redis_health = None, postgres_health = None, resubscribe_fn = None,
     resync_prices_fn = None, place_order_fn = Some (\<lambda>_. throw (Exn ExchangeConnectionError []))\<rparr>"

theorem replay_empties_queue_witness:
  "\<exists>rs t. replay_queued_orders failing_calls queued_connection = (Ok rs, t) \<and> cr_order_queue t = []"
proof -
  have "place_order_fn failing_calls = Some f \<Longrightarrow> quiet_placement f" for f
    by (auto simp: failing_calls_def quiet_placement_def intro!: resp_intros)
  from replay_empties_queue [of failing_calls, OF this, of queued_connection] show ?thesis by blast
qed

end
