(* ===== verification/RecoveryCoordinator.thy ===== *)
theory RecoveryCoordinator
  imports StateRecovery ConnectionRecovery
begin

text \<open>
  \<^verbatim>\<open>engine/recovery/coordinator.py\<close> and \<^verbatim>\<open>persistence.py\<close>: the recovery of an instance, layer by
  layer, and the checkpoints it leaves. The connection layer is an object of its own inside the
  state; the report being filled is a field of the state, as the layers mutate it. Checkpoint data
  and the text form of checkpoints are not modelled.
\<close>

section \<open>State\<close>

datatype recovery_phase = PHASE_CONNECTION | PHASE_STATE | PHASE_RECONCILIATION

record checkpoint =
  cp_instance_id :: string
  cp_created_at :: datetime
  cp_phase :: recovery_phase

record checkpoint_metrics =
  checkpoints_saved :: int
  checkpoints_loaded :: int
  checkpoints_cleared :: int

record instance_context =
  ic_instance_id :: string
  ic_account_id :: string
  ic_exchange :: string
  ic_symbol :: string
  ic_has_grid :: bool
  ic_has_profit_lock :: bool

datatype layer_error = CONNECTION_PARTIAL bool bool | CONNECTION_FAILED exn | PROCESS_FAILED
  | STATE_FAILED exn | RECONCILIATION_FAILED exn

record recovery_report =
  rp_instance_id :: string
  rp_started_at :: datetime
  rp_completed_at :: "datetime option"
  rp_connection_ok :: bool
  rp_state_ok :: bool
  rp_reconciliation_ok :: bool
  rp_errors :: "layer_error list"
  rp_results :: "reconciliation list"

datatype recovery_state = REC_IDLE | REC_RECOVERING | REC_COMPLETED | REC_FAILED

record recovery_status =
  rs_instance_id :: string
  rs_state :: recovery_state
  rs_started_at :: "datetime option"
  rs_completed_at :: "datetime option"
  rs_last_error :: "layer_error option"

record coordinator_metrics =
  recoveries_started :: int
  recoveries_completed :: int
  recoveries_failed :: int
  instances_registered :: int

record 'x recovery_coordinator = "'x state_recovery" +
  rv_connection :: "'x connection_recovery"
  rv_checkpoints :: "(string, checkpoint) dict"
  rv_checkpoint_metrics :: checkpoint_metrics
  rv_instances :: "(string, instance_context) dict"
  rv_statuses :: "(string, recovery_status) dict"
  rv_metrics :: coordinator_metrics
  rv_report :: recovery_report

type_synonym ('x, 'm, 'a) rv = "(('x, 'm) recovery_coordinator_scheme, 'a) py"

text \<open>An operation of the connection layer's object.\<close>

definition on_connection :: "('x connection_recovery, 'a) py \<Rightarrow> ('x, 'm, 'a) rv" where
  "on_connection m = (\<lambda>s. case m (rv_connection s) of (r, c) \<Rightarrow> (r, s\<lparr>rv_connection := c\<rparr>))"

section \<open>Checkpoints\<close>

definition cp_count :: "(checkpoint_metrics \<Rightarrow> checkpoint_metrics) \<Rightarrow> ('x, 'm, unit) rv" where
  "cp_count f = modify (\<lambda>s. s\<lparr>rv_checkpoint_metrics := f (rv_checkpoint_metrics s)\<rparr>)"

definition save_checkpoint :: "string \<Rightarrow> checkpoint \<Rightarrow> ('x, 'm, unit) rv" where
  "save_checkpoint i c =
     (if cp_instance_id c \<noteq> i then throw (Exn CheckpointError [cp_instance_id c, i])
      else seq (modify (\<lambda>s. s\<lparr>rv_checkpoints := dput i c (rv_checkpoints s)\<rparr>))
        (cp_count (\<lambda>m. m\<lparr>checkpoints_saved := checkpoints_saved m + 1\<rparr>)))"

definition load_checkpoint :: "string \<Rightarrow> ('x, 'm, checkpoint option) rv" where
  "load_checkpoint i = reading (\<lambda>s. case dget (rv_checkpoints s) i of
      None \<Rightarrow> ret None
    | Some c \<Rightarrow> seq (cp_count (\<lambda>m. m\<lparr>checkpoints_loaded := checkpoints_loaded m + 1\<rparr>)) (ret (Some c)))"

definition clear_checkpoint :: "string \<Rightarrow> ('x, 'm, unit) rv" where
  "clear_checkpoint i = reading (\<lambda>s. if dget (rv_checkpoints s) i = None then ret ()
     else seq (modify (\<lambda>s. s\<lparr>rv_checkpoints := ddel i (rv_checkpoints s)\<rparr>))
       (cp_count (\<lambda>m. m\<lparr>checkpoints_cleared := checkpoints_cleared m + 1\<rparr>)))"

definition list_checkpoints :: "('x, 'm) recovery_coordinator_scheme \<Rightarrow> string list" where
  "list_checkpoints s = map fst (rv_checkpoints s)"

definition has_checkpoint :: "string \<Rightarrow> ('x, 'm) recovery_coordinator_scheme \<Rightarrow> bool" where
  "has_checkpoint i s \<longleftrightarrow> dget (rv_checkpoints s) i \<noteq> None"

definition checkpoint_now :: "string \<Rightarrow> recovery_phase \<Rightarrow> ('x, 'm, unit) rv" where
  "checkpoint_now i phase = bind now (\<lambda>t.
     save_checkpoint i \<lparr>cp_instance_id = i, cp_created_at = t, cp_phase = phase\<rparr>)"

section \<open>Operations\<close>

definition rv_count :: "(coordinator_metrics \<Rightarrow> coordinator_metrics) \<Rightarrow> ('x, 'm, unit) rv" where
  "rv_count f = modify (\<lambda>s. s\<lparr>rv_metrics := f (rv_metrics s)\<rparr>)"

definition set_recovery_status :: "string \<Rightarrow> recovery_status \<Rightarrow> ('x, 'm, unit) rv" where
  "set_recovery_status i st = modify (\<lambda>s. s\<lparr>rv_statuses := dput i st (rv_statuses s)\<rparr>)"

definition register_instance :: "string \<Rightarrow> instance_context \<Rightarrow> ('x, 'm, unit) rv" where
  "register_instance i context =
     seq (modify (\<lambda>s. s\<lparr>rv_instances := dput i context (rv_instances s)\<rparr>))
     (seq (set_recovery_status i \<lparr>rs_instance_id = i, rs_state = REC_IDLE, rs_started_at = None,
             rs_completed_at = None, rs_last_error = None\<rparr>)
       (rv_count (\<lambda>m. m\<lparr>instances_registered := instances_registered m + 1\<rparr>)))"

definition set_report :: "(recovery_report \<Rightarrow> recovery_report) \<Rightarrow> ('x, 'm, unit) rv" where
  "set_report f = modify (\<lambda>s. s\<lparr>rv_report := f (rv_report s)\<rparr>)"

definition add_error :: "layer_error \<Rightarrow> ('x, 'm, unit) rv" where
  "add_error e = set_report (\<lambda>r. r\<lparr>rp_errors := rp_errors r @ [e]\<rparr>)"

definition connection_layer :: "('x connection_recovery, 'r) connection_calls \<Rightarrow> string \<Rightarrow> ('x, 'm, unit) rv" where
  "connection_layer ccalls i = try_catch
     (bind (on_connection (recover_redis ccalls)) (\<lambda>redis_ok.
      bind (on_connection (recover_postgres ccalls)) (\<lambda>postgres_ok.
        let ok = redis_ok \<and> postgres_ok in
        seq (set_report (\<lambda>r. r\<lparr>rp_connection_ok := ok\<rparr>))
        (seq (if ok then ret () else add_error (CONNECTION_PARTIAL redis_ok postgres_ok))
          (checkpoint_now i PHASE_CONNECTION)))))
     (\<lambda>e. add_error (CONNECTION_FAILED e))"

definition state_layer :: "('x, 'm) recovery_coordinator_scheme recovery_calls \<Rightarrow> string \<Rightarrow> instance_context \<Rightarrow>
    ('x, 'm, unit) rv" where
  "state_layer scalls i context = try_catch
     (bind (recover_trading_process scalls i) (\<lambda>process_ok.
      bind (if ic_has_grid context then recover_grid scalls i else ret None) (\<lambda>_.
      bind (if ic_has_profit_lock context then recover_profit_lock scalls i else ret None) (\<lambda>_.
      bind (recover_portfolio scalls i) (\<lambda>_.
        seq (set_report (\<lambda>r. r\<lparr>rp_state_ok := process_ok\<rparr>))
        (seq (if process_ok then ret () else add_error PROCESS_FAILED)
          (checkpoint_now i PHASE_STATE)))))))
     (\<lambda>e. add_error (STATE_FAILED e))"

definition add_result :: "reconciliation \<Rightarrow> ('x, 'm, unit) rv" where
  "add_result r = set_report (\<lambda>R. R\<lparr>rp_results := rp_results R @ [r]\<rparr>)"

text \<open>The grid's part of the last layer: the grid is recovered again, and reconciled with no orders.\<close>

definition reconcile_recovered_grid :: "('x, 'm) recovery_coordinator_scheme recovery_calls \<Rightarrow> string \<Rightarrow>
    instance_context \<Rightarrow> ('x, 'm, unit) rv" where
  "reconcile_recovered_grid scalls i context =
     (if ic_has_grid context then
        bind (recover_grid scalls i) (\<lambda>g. case g of
            None \<Rightarrow> ret ()
          | Some h \<Rightarrow> bind (reconcile_grid (grid_state.truncate h) []) (\<lambda>(h', r). add_result r))
      else ret ())"

text \<open>No result of the reconciler has the action \<^verbatim>\<open>"failed"\<close>, so the layer is always in order.\<close>

definition reconciliation_layer :: "('x, 'm) recovery_coordinator_scheme recovery_calls \<Rightarrow> string \<Rightarrow>
    instance_context \<Rightarrow> ('x, 'm, unit) rv" where
  "reconciliation_layer scalls i context = try_catch
     (seq (reconcile_recovered_grid scalls i context)
     (bind (gets (get_positions None None None None)) (\<lambda>local_positions.
      bind (reconcile_portfolio i local_positions []) (\<lambda>r.
        seq (add_result r)
        (seq (set_report (\<lambda>R. R\<lparr>rp_reconciliation_ok :=
            list_all (\<lambda>r. rn_action r \<in> {RESTORED, SKIPPED}) (rp_results R)\<rparr>))
          (checkpoint_now i PHASE_RECONCILIATION))))))
     (\<lambda>e. add_error (RECONCILIATION_FAILED e))"

definition finalize :: "string \<Rightarrow> datetime \<Rightarrow> ('x, 'm, recovery_report) rv" where
  "finalize i started_at = bind now (\<lambda>t.
     seq (set_report (\<lambda>r. r\<lparr>rp_completed_at := Some t\<rparr>))
     (reading (\<lambda>s.
       let errors = rp_errors (rv_report s);
           status = (\<lambda>state e. \<lparr>rs_instance_id = i, rs_state = state, rs_started_at = Some started_at,
              rs_completed_at = Some t, rs_last_error = e\<rparr>)
       in seq (if errors = [] then
                 seq (set_recovery_status i (status REC_COMPLETED None))
                 (seq (rv_count (\<lambda>m. m\<lparr>recoveries_completed := recoveries_completed m + 1\<rparr>))
                   (clear_checkpoint i))
               else if 2 < length errors then
                 seq (set_recovery_status i (status REC_FAILED (Some (hd errors))))
                   (rv_count (\<lambda>m. m\<lparr>recoveries_failed := recoveries_failed m + 1\<rparr>))
               else
                 seq (set_recovery_status i (status REC_COMPLETED (Some (hd errors))))
                   (rv_count (\<lambda>m. m\<lparr>recoveries_completed := recoveries_completed m + 1\<rparr>)))
            (gets rv_report))))"

definition recover_instance :: "('x connection_recovery, 'r) connection_calls \<Rightarrow>
    ('x, 'm) recovery_coordinator_scheme recovery_calls \<Rightarrow> string \<Rightarrow> ('x, 'm, recovery_report) rv" where
  "recover_instance ccalls scalls i = reading (\<lambda>s. case dget (rv_instances s) i of
      None \<Rightarrow> throw (Exn RecoveryError [i])
    | Some context \<Rightarrow> bind now (\<lambda>started_at.
        seq (rv_count (\<lambda>m. m\<lparr>recoveries_started := recoveries_started m + 1\<rparr>))
        (seq (set_recovery_status i \<lparr>rs_instance_id = i, rs_state = REC_RECOVERING,
                rs_started_at = Some started_at, rs_completed_at = None, rs_last_error = None\<rparr>)
        (seq (set_report (\<lambda>_. \<lparr>rp_instance_id = i, rp_started_at = started_at, rp_completed_at = None,
                rp_connection_ok = False, rp_state_ok = False, rp_reconciliation_ok = False,
                rp_errors = [], rp_results = []\<rparr>))
        (seq (connection_layer ccalls i)
        (seq (state_layer scalls i context)
        (seq (reconciliation_layer scalls i context)
          (finalize i started_at))))))))"

definition recover_all :: "('x connection_recovery, 'r) connection_calls \<Rightarrow>
    ('x, 'm) recovery_coordinator_scheme recovery_calls \<Rightarrow> ('x, 'm, (string \<times> recovery_report) list) rv" where
  "recover_all ccalls scalls = reading (\<lambda>s.
     collect (\<lambda>i. bind (recover_instance ccalls scalls i) (\<lambda>r. ret [(i, r)])) (map fst (rv_instances s)))"

definition get_recovery_status :: "string \<Rightarrow> ('x, 'm) recovery_coordinator_scheme \<Rightarrow> recovery_status" where
  "get_recovery_status i s = (case dget (rv_statuses s) i of
      None \<Rightarrow> \<lparr>rs_instance_id = i, rs_state = REC_IDLE, rs_started_at = None, rs_completed_at = None,
               rs_last_error = None\<rparr>
    | Some st \<Rightarrow> st)"

section \<open>The layers never raise\<close>

lemma total_failing [total_intros]: "total (failing a)"
  unfolding failing_def sr_count_def by (intro total_intros)

lemma total_recoveries [total_intros]:
  "total (recover_trading_process scalls i)" "total (recover_grid scalls i)"
  "total (recover_profit_lock scalls i)" "total (recover_portfolio scalls i)"
  unfolding recover_trading_process_def recover_grid_def recover_profit_lock_def recover_portfolio_def
  by (intro total_intros)+

lemma total_healthy [total_intros]: "total (healthy check)"
  unfolding healthy_def by (intro total_intros)

lemma total_connection [total_intros]: "total (recover_redis ccalls)" "total (recover_postgres ccalls)"
  unfolding recover_redis_def recover_postgres_def cr_count_def by (intro total_intros)+

lemma total_on_connection [total_intros]: "total m \<Longrightarrow> total (on_connection m)"
  by (auto simp: total_def on_connection_def split: prod.splits) (metis prod.inject)

lemma total_reconciler [total_intros]: "total (reconcile_grid g live)" "total (reconcile_portfolio i ps eps)"
  unfolding reconcile_grid_def find_missing_orders_def find_orphan_orders_def reconcile_portfolio_def
    add_missing_def close_stale_def attempt_def rr_count_def
  by (intro total_intros)+

lemma total_pair [total_intros]: "(\<And>a b. total (f a b)) \<Longrightarrow> total (case p of (a, b) \<Rightarrow> f a b)"
  by (cases p) simp

lemma total_report [total_intros]: "total (set_report f)" "total (add_error e)" "total (add_result r)"
  unfolding add_error_def add_result_def set_report_def by (intro total_intros)+

lemma total_checkpoint_now [total_intros]: "total (checkpoint_now i phase)"
  unfolding checkpoint_now_def save_checkpoint_def now_def cp_count_def
  by (simp del: seq_def) (intro total_intros)

section \<open>What the layers leave alone\<close>

text \<open>Loaders that leave the coordinator's own fields alone.\<close>

definition quiet_loaders :: "('x, 'm) recovery_coordinator_scheme recovery_calls \<Rightarrow> bool" where
  "quiet_loaders calls \<longleftrightarrow>
     (\<forall>f i. load_instance_fn calls = Some f \<longrightarrow> obeys (same state_recovery.more) (f i)) \<and>
     (\<forall>f i. load_grid_snapshot_fn calls = Some f \<longrightarrow> obeys (same state_recovery.more) (f i)) \<and>
     (\<forall>f i. load_profit_lock_snapshot_fn calls = Some f \<longrightarrow> obeys (same state_recovery.more) (f i)) \<and>
     (\<forall>f i. fetch_exchange_positions_fn calls = Some f \<longrightarrow> obeys (same state_recovery.more) (f i))"

abbreviation below_coordinator :: "('x, 'm, 'a) rv \<Rightarrow> bool" where
  "below_coordinator m \<equiv> obeys (same state_recovery.more) m"

lemma sr_count_below [resp_intros]: "below_coordinator (sr_count f)" "below_coordinator (failing a)"
  unfolding failing_def sr_count_def by (intro resp_intros, simp)+

lemma portfolio_below [resp_intros]:
  "below_coordinator (register_position i a e y side p q)" "below_coordinator (close_position i)"
  "below_coordinator (rebuild_position i ep)"
  unfolding rebuild_position_def register_position_def close_position_def pf_set_def
  by (intro resp_intros, simp)+

lemma reconciler_below [resp_intros]:
  "below_coordinator (reconcile_grid g live)" "below_coordinator (reconcile_portfolio i ps eps)"
  unfolding reconcile_grid_def find_missing_orders_def find_orphan_orders_def reconcile_portfolio_def
    add_missing_def close_stale_def attempt_def rr_count_def Let_def
  by (intro resp_intros; simp)+

lemma recoveries_below:
  assumes "quiet_loaders scalls"
  shows "below_coordinator (recover_trading_process scalls i)" "below_coordinator (recover_grid scalls i)"
    "below_coordinator (recover_profit_lock scalls i)" "below_coordinator (recover_portfolio scalls i)"
  unfolding recover_trading_process_def recover_grid_def recover_profit_lock_def recover_portfolio_def
  by (intro resp_intros; (use assms in \<open>simp add: quiet_loaders_def\<close>)?)+

section \<open>Errors\<close>

definition coordinator_view :: "('x, 'm) recovery_coordinator_scheme \<Rightarrow>
    (string, instance_context) dict \<times> (string, recovery_status) dict \<times> coordinator_metrics" where
  "coordinator_view s = (rv_instances s, rv_statuses s, rv_metrics s)"

definition errors_of :: "('x, 'm) recovery_coordinator_scheme \<Rightarrow> layer_error list" where
  "errors_of s = rp_errors (rv_report s)"

text \<open>At most \<open>n\<close> errors are added, and statuses and counters are left alone.\<close>

definition adds :: "nat \<Rightarrow> ('x, 'm) recovery_coordinator_scheme \<Rightarrow> ('x, 'm) recovery_coordinator_scheme \<Rightarrow> bool" where
  "adds n s t \<longleftrightarrow> coordinator_view t = coordinator_view s \<and>
     length (errors_of s) \<le> length (errors_of t) \<and> length (errors_of t) \<le> length (errors_of s) + n"

lemma adds_refl: "adds 0 s s"
  by (simp add: adds_def)

lemma adds_trans: "adds m s t \<Longrightarrow> adds n t u \<Longrightarrow> adds (m + n) s u"
  by (auto simp: adds_def)

lemma adds_below:
  assumes "below_coordinator m"
  shows "obeys (adds 0) m"
proof -
  have "adds 0 s t" if "state_recovery.more t = state_recovery.more s" for s t :: "('a, 'b) recovery_coordinator_scheme"
    using that by (cases s; cases t) (simp add: adds_def coordinator_view_def errors_of_def)
  then show ?thesis using assms by (simp add: obeys_def same_def)
qed

lemma adds_bind:
  assumes "obeys (adds m) f" and "\<And>a. obeys (adds n) (g a)" and "total f"
  shows "obeys (adds (m + n)) (bind f g)"
  unfolding obeys_def
proof
  fix s
  obtain a t where f: "f s = (Ok a, t)" using assms(3) by (rule totalE)
  have "adds m s t" using obeysD [OF assms(1), of s] f by simp
  moreover have "adds n t (snd (g a t))" using assms(2) by (rule obeysD)
  ultimately have "adds (m + n) s (snd (g a t))" by (rule adds_trans)
  then show "adds (m + n) s (snd (bind f g s))" using f by (simp add: bind_Ok)
qed

lemma adds_seq: "obeys (adds m) f \<Longrightarrow> obeys (adds n) g \<Longrightarrow> total f \<Longrightarrow> obeys (adds (m + n)) (seq f g)"
  unfolding seq_def by (rule adds_bind)

lemma adds_free_bind: "obeys (adds 0) f \<Longrightarrow> (\<And>a. obeys (adds n) (g a)) \<Longrightarrow> total f \<Longrightarrow> obeys (adds n) (bind f g)"
  using adds_bind [of 0 f n g] by simp

lemma adds_free_seq: "obeys (adds 0) f \<Longrightarrow> obeys (adds n) g \<Longrightarrow> total f \<Longrightarrow> obeys (adds n) (seq f g)"
  using adds_seq [of 0 f n g] by simp

lemma adds_steps:
  "obeys (adds 0) (ret a)" "obeys (adds 0) (gets h)"
  "obeys (adds 0) (checkpoint_now i phase)" "obeys (adds 0) (add_result r)"
  "(\<And>R. rp_errors (f R) = rp_errors R) \<Longrightarrow> obeys (adds 0) (set_report f)"
  "obeys (adds 1) (add_error e)" "obeys (adds 0) (on_connection m)"
  by (simp_all add: obeys_def adds_def coordinator_view_def errors_of_def checkpoint_now_def save_checkpoint_def
      cp_count_def add_result_def add_error_def set_report_def on_connection_def py_simps split: prod.splits)

lemma adds_more: "obeys (adds 0) m \<Longrightarrow> obeys (adds 1) m"
  unfolding obeys_def adds_def by (metis add.right_neutral le_add1 order_trans)

lemma error_unless: "obeys (adds 1) (if b then ret () else add_error e)"
  by (rule obeys_if) (rule adds_more adds_steps)+

lemma total_unless [total_intros]: "total (if b then ret () else add_error e)"
  by (intro total_intros)

text \<open>The end of a layer: its flag, its error, its checkpoint.\<close>

lemma layer_end_adds:
  assumes "\<And>R. rp_errors (f R) = rp_errors R"
  shows "obeys (adds 1) (seq (set_report f) (seq (if b then ret () else add_error e) (checkpoint_now i phase)))"
proof -
  have "obeys (adds (1 + 0)) (seq (if b then ret () else add_error e) (checkpoint_now i phase))"
    by (rule adds_seq error_unless adds_steps total_unless)+
  then show ?thesis
    by (intro adds_free_seq [OF adds_steps(5) _ total_report(1)] assms) simp
qed

lemma layer_end_total:
  "total (seq (set_report f) (seq (if b then ret () else add_error e) (checkpoint_now i phase)))"
  by (intro total_intros)

lemma connection_layer_adds: "total (connection_layer ccalls i)" "obeys (adds 1) (connection_layer ccalls i)"
proof -
  show "total (connection_layer ccalls i)"
    unfolding connection_layer_def by (intro total_intros)
  show "obeys (adds 1) (connection_layer ccalls i)"
    unfolding connection_layer_def Let_def
    by (subst try_catch_total, intro total_intros)
      (intro adds_free_bind layer_end_adds adds_steps total_intros; simp)
qed

lemma state_layer_adds:
  assumes "quiet_loaders scalls"
  shows "total (state_layer scalls i context)" "obeys (adds 1) (state_layer scalls i context)"
proof -
  show "total (state_layer scalls i context)"
    unfolding state_layer_def by (intro total_intros)
  show "obeys (adds 1) (state_layer scalls i context)"
    unfolding state_layer_def
    by (subst try_catch_total, intro total_intros)
      (intro adds_free_bind layer_end_adds obeys_if adds_below recoveries_below assms adds_steps total_intros; simp)
qed

lemma reconciliation_layer_adds:
  assumes "quiet_loaders scalls"
  shows "total (reconciliation_layer scalls i context)" "obeys (adds 0) (reconciliation_layer scalls i context)"
proof -
  show "total (reconciliation_layer scalls i context)"
    unfolding reconciliation_layer_def reconcile_recovered_grid_def by (intro total_intros)
  show "obeys (adds 0) (reconciliation_layer scalls i context)"
    unfolding reconciliation_layer_def reconcile_recovered_grid_def
    by (subst try_catch_total, intro total_intros)
      (intro adds_free_bind adds_free_seq obeys_if obeys_option obeys_pair adds_below reconciler_below
        recoveries_below assms adds_steps total_intros; simp)
qed

text \<open>The last step writes the status; with at most two errors it is always \<^const>\<open>REC_COMPLETED\<close>.\<close>

lemma clear_checkpoint_frame:
  obtains t where "clear_checkpoint i s = (Ok (), t)" "coordinator_view t = coordinator_view s"
    "rv_report t = rv_report s"
  by (cases "dget (rv_checkpoints s) i")
    (auto simp: clear_checkpoint_def cp_count_def coordinator_view_def py_simps)

lemma finalize_outcome:
  assumes "length (errors_of s) \<le> 2"
  shows "\<exists>R t. finalize i started_at s = (Ok R, t) \<and> rp_errors R = errors_of s \<and>
    rs_state (get_recovery_status i t) = REC_COMPLETED \<and>
    recoveries_failed (rv_metrics t) = recoveries_failed (rv_metrics s) \<and>
    recoveries_completed (rv_metrics t) = recoveries_completed (rv_metrics s) + 1"
proof (cases "errors_of s = []")
  case True
  show ?thesis
    using True
    by (auto simp: finalize_def errors_of_def now_def set_recovery_status_def rv_count_def set_report_def
        clear_checkpoint_def cp_count_def get_recovery_status_def py_simps split: option.splits)
next
  case False
  then show ?thesis
    using assms
    by (simp add: finalize_def errors_of_def now_def set_recovery_status_def rv_count_def set_report_def
        get_recovery_status_def py_simps)
qed

lemma adds_run:
  assumes "total m" and "obeys (adds n) m"
  obtains a t where "m s = (Ok a, t)" "adds n s t"
proof -
  obtain a t where "m s = (Ok a, t)" using assms(1) by (rule totalE)
  moreover have "adds n s t" using obeysD [OF assms(2), of s] calculation by simp
  ultimately show thesis by (rule that)
qed

text \<open>
  A recovery is never reported as failed: for a registered instance, with loaders that leave the
  coordinator alone, it always returns a report, with at most two errors, and always ends in the
  state \<open>completed\<close> and counted as completed, even when neither the connections nor the state came
  back. The code reserves \<open>failed\<close> for more than two errors, which no run collects.
\<close>

theorem recovery_never_reported_failed:
  assumes quiet: "quiet_loaders scalls" and registered: "dget (rv_instances s) i = Some context"
  shows "\<exists>R t. recover_instance ccalls scalls i s = (Ok R, t) \<and> length (rp_errors R) \<le> 2 \<and>
    rs_state (get_recovery_status i t) = REC_COMPLETED \<and>
    recoveries_failed (rv_metrics t) = recoveries_failed (rv_metrics s) \<and>
    recoveries_completed (rv_metrics t) = recoveries_completed (rv_metrics s) + 1"
proof -
  obtain s1 where start: "recover_instance ccalls scalls i s =
      seq (connection_layer ccalls i) (seq (state_layer scalls i context)
        (seq (reconciliation_layer scalls i context) (finalize i (clock s)))) s1"
    and s1: "errors_of s1 = []" "recoveries_failed (rv_metrics s1) = recoveries_failed (rv_metrics s)"
      "recoveries_completed (rv_metrics s1) = recoveries_completed (rv_metrics s)"
    using registered
    by (simp add: recover_instance_def now_def rv_count_def set_recovery_status_def set_report_def errors_of_def
        reading_def gets_def modify_def bind_Ok seq_Ok)
  obtain a2 s2 where s2: "connection_layer ccalls i s1 = (Ok a2, s2)" "adds 1 s1 s2"
    by (rule adds_run [OF connection_layer_adds])
  obtain a3 s3 where s3: "state_layer scalls i context s2 = (Ok a3, s3)" "adds 1 s2 s3"
    by (rule adds_run [OF state_layer_adds [OF quiet]])
  obtain a4 s4 where s4: "reconciliation_layer scalls i context s3 = (Ok a4, s4)" "adds 0 s3 s4"
    by (rule adds_run [OF reconciliation_layer_adds [OF quiet]])
  have few: "length (errors_of s4) \<le> 2" and same: "rv_metrics s4 = rv_metrics s1"
    using s1(1) s2(2) s3(2) s4(2) by (auto simp: adds_def coordinator_view_def)
  show ?thesis
    using finalize_outcome [OF few, of i "clock s"] few same s1(2,3)
    unfolding start by (auto simp: seq_Ok s2(1) s3(1) s4(1))
qed


definition down :: "('s, bool) py" where
  "down = throw (Exn ExchangeConnectionError [])"

definition connections_down :: "(unit connection_recovery, unit) connection_calls" where
  "connections_down = \<lparr>redis_health = Some down, postgres_health = Some down, resubscribe_fn = None,
     resync_prices_fn = None, place_order_fn = None\<rparr>"

definition storage_down :: "(unit, unit) recovery_coordinator_scheme recovery_calls" where
  "storage_down = \<lparr>load_instance_fn = Some (\<lambda>_. down), load_grid_snapshot_fn = None,
     load_profit_lock_snapshot_fn = None, fetch_exchange_positions_fn = None\<rparr>"

definition one_instance :: "unit recovery_coordinator" where
  "one_instance = state_recovery.extend fresh_recovery (recovery_coordinator.fields queued_connection []
     \<lparr>checkpoints_saved = 0, checkpoints_loaded = 0, checkpoints_cleared = 0\<rparr>
     [(''i'', \<lparr>ic_instance_id = ''i'', ic_account_id = ''a'', ic_exchange = ''okx'', ic_symbol = ''BTC'',
        ic_has_grid = False, ic_has_profit_lock = False\<rparr>)] []
     \<lparr>recoveries_started = 0, recoveries_completed = 0, recoveries_failed = 0, instances_registered = 1\<rparr>
     \<lparr>rp_instance_id = ''i'', rp_started_at = 0, rp_completed_at = None, rp_connection_ok = False,
        rp_state_ok = False, rp_reconciliation_ok = False, rp_errors = [], rp_results = []\<rparr>)"

theorem recovery_never_reported_failed_witness:
  "\<exists>R t. recover_instance connections_down storage_down ''i'' one_instance = (Ok R, t) \<and>
     rs_state (get_recovery_status ''i'' t) = REC_COMPLETED \<and> recoveries_failed (rv_metrics t) = 0"
proof -
  have quiet: "quiet_loaders storage_down"
    by (simp add: quiet_loaders_def storage_down_def down_def obeys_def same_def throw_def)
  have metrics: "recoveries_failed (rv_metrics one_instance) = 0"
    by (simp add: one_instance_def state_recovery.defs recovery_coordinator.defs)
  have "dget (rv_instances one_instance) ''i'' = Some \<lparr>ic_instance_id = ''i'', ic_account_id = ''a'',
      ic_exchange = ''okx'', ic_symbol = ''BTC'', ic_has_grid = False, ic_has_profit_lock = False\<rparr>"
    by (simp add: one_instance_def state_recovery.defs recovery_coordinator.defs)
  from recovery_never_reported_failed [OF quiet this, of connections_down] show ?thesis
    unfolding metrics by blast
qed

end
