(* ===== verification/TradingProcess.thy ===== *)
theory TradingProcess
  imports GridEngine Persistence
begin

text \<open>
  \<^verbatim>\<open>engine/trading/process_manager.py\<close>, \<^verbatim>\<open>process.py\<close> and \<^verbatim>\<open>state_machine.py\<close>: the lifecycle of
  trading instances. The manager's state extends the grid engine's, which it drives, by the tables
  of the database that it reads and writes and by the in-process registry. Redis, the exchange
  clients, the decryption of credentials and the market hub are
  a record of routines on the whole state. Of a process memory the manager itself touches the
  instance id, the status and the time of the last update; the other fields are carried along
  (\<open>None\<close>: all at their defaults), and so is the text form of memories and snapshots. The rows of
  the database are the objects a handler holds. Lock values hold the time in seconds.
\<close>

section \<open>State machine\<close>

fun process_transitions :: "instance_status \<Rightarrow> instance_status list" where
  "process_transitions T_CREATED = [T_READY]"
| "process_transitions T_READY = [T_RUNNING]"
| "process_transitions T_RUNNING = [T_PAUSED, T_STOPPING, T_RECOVERING, T_ERROR]"
| "process_transitions T_PAUSED = [T_RUNNING, T_RECOVERING, T_ERROR]"
| "process_transitions T_STOPPING = [T_STOPPED, T_ERROR]"
| "process_transitions T_STOPPED = []"
| "process_transitions T_ERROR = []"
| "process_transitions T_RECOVERING = [T_RECOVERED, T_ERROR]"
| "process_transitions T_RECOVERED = [T_RUNNING, T_PAUSED, T_ERROR]"

definition refused_transition :: "instance_status \<Rightarrow> instance_status \<Rightarrow> exn" where
  "refused_transition current target =
     Exn InvalidStateTransition [instance_status_value current, instance_status_value target]"

definition validate_process_transition :: "instance_status \<Rightarrow> instance_status \<Rightarrow> unit res" where
  "validate_process_transition current target =
     (if current = target then Raise (refused_transition current target)
      else if target \<notin> set (process_transitions current) then Raise (refused_transition current target)
      else Ok ())"

definition can_transition :: "instance_status \<Rightarrow> instance_status \<Rightarrow> bool" where
  "can_transition current target \<longleftrightarrow> current \<noteq> target \<and> target \<in> set (process_transitions current)"

interpretation process_sm: validated_machine process_transitions validate_process_transition
proof
  fix a b
  show "validate_process_transition a b = Ok () \<longleftrightarrow> b \<in> set (process_transitions a)"
    by (cases a; cases b) (simp_all add: validate_process_transition_def)
qed

section \<open>Data\<close>

record 'r process_memory =
  mem_instance_id :: string
  mem_status :: string
  mem_last_updated :: datetime
  mem_rest :: "'r option"

record 'r trading_instance =
  ti_id :: uuid
  ti_user_id :: uuid
  ti_exchange_account_id :: uuid
  ti_strategy_id :: uuid
  ti_grid_profile_id :: uuid
  ti_symbol :: string
  ti_status :: instance_status
  ti_start_price :: decimal
  ti_total_investment :: decimal
  ti_base_currency :: string
  ti_quote_currency :: string
  ti_strategy_mode :: "string option"
  ti_selected_coins :: "string list option"
  ti_continuation_rate :: "decimal option"
  ti_breaker_enabled :: bool
  ti_worker_id :: "string option"
  ti_memory_snapshot :: "'r process_memory option"
  ti_memory_version :: int
  ti_error_message :: "exn option"
  ti_started_at :: "datetime option"
  ti_stopped_at :: "datetime option"
  ti_deleted_at :: "datetime option"

record exchange_account =
  ea_user_id :: uuid
  ea_exchange_name :: string
  ea_is_active :: bool
  ea_api_key_encrypted :: string
  ea_api_secret_encrypted :: string
  ea_is_testnet :: bool

record grid_profile =
  gp_user_id :: uuid
  gp_investment_per_grid :: decimal

record 'r trading_process =
  tp_instance_id :: uuid
  tp_user_id :: uuid
  tp_exchange_account_id :: uuid
  tp_strategy_id :: uuid
  tp_symbol :: string
  tp_exchange_name :: string
  tp_status :: instance_status
  tp_memory :: "'r process_memory"
  tp_worker_id :: string
  tp_lock_value :: string
  tp_subscription_id :: "string option"

record ('x, 'f, 'r) process_manager = "('x, 'f) grid_engine" +
  ti_rows :: "(uuid, 'r trading_instance) dict"
  account_rows :: "(uuid, exchange_account) dict"
  strategy_rows :: "(uuid, bool) dict"
  profile_rows :: "(uuid, grid_profile) dict"
  averaging_rows :: "(uuid, averaging_step list) dict"
  process_registry :: "(uuid, 'r trading_process) dict"
  pm_worker_id :: string

type_synonym ('x, 'f, 'r, 'm, 'a) pm = "(('x, 'f, 'r, 'm) process_manager_scheme, 'a) py"

text \<open>What is stored in Redis under the state key of an instance.\<close>

datatype 'r stored_state = PROCESS_STATE "'r trading_process" | STOPPED_STATE uuid string datetime

text \<open>\<open>rd_set key value nx xx ttl\<close> answers whether the value was set.\<close>

record ('s, 'r) redis_client =
  rd_get :: "string \<Rightarrow> ('s, string option) py"
  rd_set :: "string \<Rightarrow> string \<Rightarrow> bool \<Rightarrow> bool \<Rightarrow> int \<Rightarrow> ('s, bool) py"
  rd_delete :: "string \<Rightarrow> ('s, unit) py"
  rd_get_state :: "string \<Rightarrow> ('s, 'r stored_state option) py"
  rd_set_state :: "string \<Rightarrow> 'r stored_state \<Rightarrow> ('s, unit) py"

record 's market_hub =
  hub_get_price :: "string \<Rightarrow> string \<Rightarrow> ('s, decimal) py"
  hub_subscribe :: "string \<Rightarrow> string \<Rightarrow> string \<Rightarrow> ('s, string) py"
  hub_unsubscribe :: "string \<Rightarrow> ('s, unit) py"

record ('s, 'r) process_calls =
  pc_redis :: "('s, 'r) redis_client option"
  pc_is_registered :: "string \<Rightarrow> bool"
  pc_decrypt :: "string \<Rightarrow> string res"
  pc_initialize :: "string \<Rightarrow> bool \<Rightarrow> ('s, unit) py"
  pc_authenticate :: "string \<Rightarrow> string \<Rightarrow> string \<Rightarrow> ('s, bool) py"
  pc_supported_symbols :: "string \<Rightarrow> ('s, string list) py"
  pc_health_check :: "string \<Rightarrow> ('s, bool) py"
  pc_disconnect :: "string \<Rightarrow> ('s, unit) py"
  pc_market_hub :: "'s market_hub option"
  pc_grid_engine :: bool

type_synonym ('x, 'f, 'r, 'm) pcalls = "(('x, 'f, 'r, 'm) process_manager_scheme, 'r) process_calls"

section \<open>The state store\<close>

definition state_key :: "uuid \<Rightarrow> string" where
  "state_key i = ''process:'' @ str_uuid i @ '':state''"

definition process_lock_key :: "uuid \<Rightarrow> string" where
  "process_lock_key i = ''process:'' @ str_uuid i @ '':lock''"

definition lock_prefix :: "string \<Rightarrow> string" where
  "lock_prefix worker_id = worker_id @ '':''"

definition process_lock_value :: "string \<Rightarrow> datetime \<Rightarrow> string" where
  "process_lock_value worker_id t = lock_prefix worker_id @ show_int t"

definition starts_with :: "string \<Rightarrow> string \<Rightarrow> bool" where
  "starts_with p s \<longleftrightarrow> take (length p) s = p"

text \<open>An operation of the store: an answer without Redis, and one when Redis raises.\<close>

definition with_redis :: "('x, 'f, 'r, 'm) pcalls \<Rightarrow> 'a \<Rightarrow>
    ((('x, 'f, 'r, 'm) process_manager_scheme, 'r) redis_client \<Rightarrow> ('x, 'f, 'r, 'm, 'a) pm) \<Rightarrow>
    ('x, 'f, 'r, 'm, 'a) pm" where
  "with_redis calls fallback f = (case pc_redis calls of
      None \<Rightarrow> ret fallback
    | Some rd \<Rightarrow> try_catch (f rd) (\<lambda>_. ret fallback))"

definition get_state :: "('x, 'f, 'r, 'm) pcalls \<Rightarrow> uuid \<Rightarrow> ('x, 'f, 'r, 'm, 'r stored_state option) pm" where
  "get_state calls i = with_redis calls None (\<lambda>rd. rd_get_state rd (state_key i))"

definition set_state :: "('x, 'f, 'r, 'm) pcalls \<Rightarrow> uuid \<Rightarrow> 'r stored_state \<Rightarrow> ('x, 'f, 'r, 'm, bool) pm" where
  "set_state calls i st = with_redis calls False (\<lambda>rd. seq (rd_set_state rd (state_key i) st) (ret True))"

definition acquire_lock :: "('x, 'f, 'r, 'm) pcalls \<Rightarrow> uuid \<Rightarrow> string \<Rightarrow> int \<Rightarrow> ('x, 'f, 'r, 'm, bool) pm" where
  "acquire_lock calls i worker_id ttl = with_redis calls True (\<lambda>rd.
     bind now (\<lambda>t. rd_set rd (process_lock_key i) (process_lock_value worker_id t) True False ttl))"

definition release_process_lock :: "('x, 'f, 'r, 'm) pcalls \<Rightarrow> uuid \<Rightarrow> ('x, 'f, 'r, 'm, bool) pm" where
  "release_process_lock calls i = with_redis calls True (\<lambda>rd. seq (rd_delete rd (process_lock_key i)) (ret True))"

definition refresh_lock :: "('x, 'f, 'r, 'm) pcalls \<Rightarrow> uuid \<Rightarrow> string \<Rightarrow> int \<Rightarrow> ('x, 'f, 'r, 'm, bool) pm" where
  "refresh_lock calls i worker_id ttl = with_redis calls True (\<lambda>rd.
     bind (rd_get rd (process_lock_key i)) (\<lambda>v. case v of
         None \<Rightarrow> acquire_lock calls i worker_id ttl
       | Some value \<Rightarrow>
           if starts_with (lock_prefix worker_id) value
           then seq (rd_set rd (process_lock_key i) value False True ttl) (ret True)
           else ret False))"

section \<open>Registry and database\<close>

definition get_process :: "uuid \<Rightarrow> ('x, 'f, 'r, 'm) process_manager_scheme \<Rightarrow> 'r trading_process option" where
  "get_process i s = dget (process_registry s) i"

definition register_process :: "'r trading_process \<Rightarrow> ('x, 'f, 'r, 'm, unit) pm" where
  "register_process p = modify (\<lambda>s. s\<lparr>process_registry := dput (tp_instance_id p) p (process_registry s)\<rparr>)"

definition unregister_process :: "uuid \<Rightarrow> ('x, 'f, 'r, 'm, unit) pm" where
  "unregister_process i = modify (\<lambda>s. s\<lparr>process_registry := ddel i (process_registry s)\<rparr>)"

definition list_processes :: "('x, 'f, 'r, 'm) process_manager_scheme \<Rightarrow> 'r trading_process list" where
  "list_processes s = map snd (process_registry s)"

text \<open>A change of the process object that the registry holds.\<close>

definition on_process :: "uuid \<Rightarrow> ('r trading_process \<Rightarrow> 'r trading_process) \<Rightarrow> ('x, 'f, 'r, 'm, unit) pm" where
  "on_process i f = modify (\<lambda>s. case dget (process_registry s) i of None \<Rightarrow> s
     | Some p \<Rightarrow> s\<lparr>process_registry := dput i (f p) (process_registry s)\<rparr>)"

definition with_status :: "instance_status \<Rightarrow> datetime \<Rightarrow> 'r trading_process \<Rightarrow> 'r trading_process" where
  "with_status st t p = p\<lparr>tp_status := st,
     tp_memory := (tp_memory p)\<lparr>mem_status := instance_status_value st, mem_last_updated := t\<rparr>\<rparr>"

definition set_process_status :: "uuid \<Rightarrow> instance_status \<Rightarrow> ('x, 'f, 'r, 'm, unit) pm" where
  "set_process_status i st = bind now (\<lambda>t. on_process i (with_status st t))"

definition get_instance :: "uuid \<Rightarrow> ('x, 'f, 'r, 'm, 'r trading_instance) pm" where
  "get_instance i = reading (\<lambda>s. case dget (ti_rows s) i of
      None \<Rightarrow> throw (Exn TradingInstanceNotFound [str_uuid i]) | Some r \<Rightarrow> ret r)"

definition persist_instance :: "uuid \<Rightarrow> ('r trading_instance \<Rightarrow> 'r trading_instance) \<Rightarrow>
    ('x, 'f, 'r, 'm, unit) pm" where
  "persist_instance i f = modify (\<lambda>s. case dget (ti_rows s) i of None \<Rightarrow> s
     | Some r \<Rightarrow> s\<lparr>ti_rows := dput i (f r) (ti_rows s)\<rparr>)"

definition get_by_status :: "instance_status \<Rightarrow> ('x, 'f, 'r, 'm) process_manager_scheme \<Rightarrow>
    'r trading_instance list" where
  "get_by_status st s = filter (\<lambda>r. ti_status r = st) (map snd (ti_rows s))"

definition get_by_user_id :: "uuid \<Rightarrow> ('x, 'f, 'r, 'm) process_manager_scheme \<Rightarrow> 'r trading_instance list" where
  "get_by_user_id user s = filter (\<lambda>r. ti_user_id r = user) (map snd (ti_rows s))"

definition get_active_by_symbol_and_account :: "string \<Rightarrow> uuid \<Rightarrow>
    ('x, 'f, 'r, 'm) process_manager_scheme \<Rightarrow> 'r trading_instance list" where
  "get_active_by_symbol_and_account symbol acct s =
     filter (\<lambda>r. ti_symbol r = py_upper symbol \<and> ti_exchange_account_id r = acct \<and>
       ti_status r \<in> set [T_RUNNING, T_PAUSED, T_RECOVERING, T_STOPPING] \<and> ti_deleted_at r = None)
     (map snd (ti_rows s))"

definition persist_state :: "('x, 'f, 'r, 'm) pcalls \<Rightarrow> uuid \<Rightarrow> ('x, 'f, 'r, 'm, unit) pm" where
  "persist_state calls i = reading (\<lambda>s. case get_process i s of
      None \<Rightarrow> ret () | Some p \<Rightarrow> seq (set_state calls i (PROCESS_STATE p)) (ret ()))"

section \<open>Validation\<close>

definition validate_ownership :: "'r trading_instance \<Rightarrow> uuid \<Rightarrow> unit res" where
  "validate_ownership r user = (if ti_user_id r \<noteq> user then Raise (Exn AuthenticationError []) else Ok ())"

definition validate_account :: "('s, 'r) process_calls \<Rightarrow> exchange_account \<Rightarrow> unit res" where
  "validate_account calls a =
     (if \<not> ea_is_active a then Raise (Exn ValidationError [])
      else if \<not> pc_is_registered calls (ea_exchange_name a)
      then Raise (Exn ConfigurationError [ea_exchange_name a]) else Ok ())"

definition validate_symbol :: "('s, 'r) process_calls \<Rightarrow> string \<Rightarrow> string \<Rightarrow> ('s, unit) py" where
  "validate_symbol calls exchange symbol = bind (pc_supported_symbols calls exchange) (\<lambda>symbols.
     if py_upper symbol \<notin> set (map py_upper symbols)
     then throw (Exn SymbolNotSupported [symbol, exchange]) else ret ())"

text \<open>\<^verbatim>\<open>except AuthenticationError\<close> around the two decryptions; both raise the same class.\<close>

definition decrypt_credentials :: "('s, 'r) process_calls \<Rightarrow> exchange_account \<Rightarrow> (string \<times> string) res" where
  "decrypt_credentials calls a =
     (case rbind (pc_decrypt calls (ea_api_key_encrypted a)) (\<lambda>key.
        rbind (pc_decrypt calls (ea_api_secret_encrypted a)) (\<lambda>secret. Ok (key, secret))) of
        Ok ks \<Rightarrow> Ok ks
      | Raise e \<Rightarrow> if isinstance e [AuthenticationError] then Raise (Exn AuthenticationError []) else Raise e)"

definition authenticate_adapter :: "('s, 'r) process_calls \<Rightarrow> exchange_account \<Rightarrow> ('s, unit) py" where
  "authenticate_adapter calls a = bind (lift_res (decrypt_credentials calls a)) (\<lambda>(key, secret).
     seq (pc_initialize calls (ea_exchange_name a) (ea_is_testnet a))
     (bind (pc_authenticate calls (ea_exchange_name a) key secret) (\<lambda>ok.
       if ok then ret () else throw (Exn AuthenticationError []))))"

definition same_market :: "'r trading_instance \<Rightarrow> 'r trading_instance \<Rightarrow> bool" where
  "same_market a b \<longleftrightarrow> py_upper (ti_symbol a) = py_upper (ti_symbol b) \<and>
     ti_exchange_account_id a = ti_exchange_account_id b \<and> ti_strategy_id a = ti_strategy_id b"

definition check_duplicate_running :: "'r trading_instance \<Rightarrow> ('x, 'f, 'r, 'm, unit) pm" where
  "check_duplicate_running r = reading (\<lambda>s.
     if list_ex (\<lambda>other. ti_id other \<noteq> ti_id r \<and> same_market other r) (get_by_status T_RUNNING s)
     then throw (Exn ValidationError []) else ret ())"

definition initial_memory :: "'r trading_instance \<Rightarrow> datetime \<Rightarrow> 'r process_memory" where
  "initial_memory r t = (case ti_memory_snapshot r of
      Some m \<Rightarrow> m
    | None \<Rightarrow> \<lparr>mem_instance_id = str_uuid (ti_id r), mem_status = instance_status_value (ti_status r),
               mem_last_updated = t, mem_rest = None\<rparr>)"

definition build_process :: "('x, 'f, 'r, 'm) pcalls \<Rightarrow> 'r trading_instance \<Rightarrow>
    ('x, 'f, 'r, 'm, 'r trading_process) pm" where
  "build_process calls r = reading (\<lambda>s. case dget (account_rows s) (ti_exchange_account_id r) of
      None \<Rightarrow> throw (Exn ExchangeAccountNotFound [str_uuid (ti_exchange_account_id r)])
    | Some a \<Rightarrow>
        seq (lift_res (validate_account calls a))
        (seq (authenticate_adapter calls a)
        (bind now (\<lambda>t. ret
          \<lparr>tp_instance_id = ti_id r, tp_user_id = ti_user_id r,
           tp_exchange_account_id = ti_exchange_account_id r, tp_strategy_id = ti_strategy_id r,
           tp_symbol = ti_symbol r, tp_exchange_name = ea_exchange_name a, tp_status = ti_status r,
           tp_memory = initial_memory r t, tp_worker_id = pm_worker_id s,
           tp_lock_value = process_lock_value (pm_worker_id s) t, tp_subscription_id = None\<rparr>))))"

section \<open>Creating and preparing\<close>

text \<open>
  \<^verbatim>\<open>create_process\<close>; \<open>x or ""\<close> and \<open>x or 0.0\<close> are applied to the arguments. The database refuses
  a second row with the same primary key.
\<close>

definition create_process :: "('x, 'f, 'r, 'm) pcalls \<Rightarrow> uuid \<Rightarrow> uuid \<Rightarrow> uuid \<Rightarrow> uuid \<Rightarrow> string \<Rightarrow>
    decimal option \<Rightarrow> decimal \<Rightarrow> string \<Rightarrow> string \<Rightarrow> string option \<Rightarrow> string list option \<Rightarrow>
    decimal option \<Rightarrow> bool \<Rightarrow> ('x, 'f, 'r, 'm, 'r trading_instance) pm" where
  "create_process calls user acct strategy profile symbol start_price investment base quote mode coins
     continuation breaker_enabled = reading (\<lambda>s.
     case dget (account_rows s) acct of
       None \<Rightarrow> throw (Exn ExchangeAccountNotFound [str_uuid acct])
     | Some a \<Rightarrow>
         if ea_user_id a \<noteq> user then throw (Exn ExchangeAccountNotFound [str_uuid acct])
         else if dget (strategy_rows s) strategy = None then throw (Exn StrategyError [])
         else (case dget (profile_rows s) profile of
             None \<Rightarrow> throw (Exn ValidationError [])
           | Some gp \<Rightarrow>
               if gp_user_id gp \<noteq> user then throw (Exn ValidationError [])
               else if \<not> pc_is_registered calls (ea_exchange_name a)
               then throw (Exn ConfigurationError [ea_exchange_name a])
               else if get_active_by_symbol_and_account symbol acct s \<noteq> []
               then throw (Exn ValidationError [])
               else bind uuid4 (\<lambda>i.
                 let r = \<lparr>ti_id = i, ti_user_id = user, ti_exchange_account_id = acct,
                   ti_strategy_id = strategy, ti_grid_profile_id = profile, ti_symbol = py_upper symbol,
                   ti_status = T_CREATED,
                   ti_start_price = (case start_price of None \<Rightarrow> 0 | Some x \<Rightarrow> x),
                   ti_total_investment = investment, ti_base_currency = py_upper base,
                   ti_quote_currency = py_upper quote, ti_strategy_mode = mode, ti_selected_coins = coins,
                   ti_continuation_rate = continuation, ti_breaker_enabled = breaker_enabled,
                   ti_worker_id = None, ti_memory_snapshot = None, ti_memory_version = 0,
                   ti_error_message = None, ti_started_at = None, ti_stopped_at = None,
                   ti_deleted_at = None\<rparr>
                 in if dget (ti_rows s) i \<noteq> None then throw (Exn OtherException [])
                   else seq (modify (\<lambda>s. s\<lparr>ti_rows := dput i r (ti_rows s)\<rparr>)) (ret r))))"

definition prepare_process :: "('x, 'f, 'r, 'm) pcalls \<Rightarrow> uuid \<Rightarrow> uuid \<Rightarrow>
    ('x, 'f, 'r, 'm, 'r trading_instance) pm" where
  "prepare_process calls i user = bind (get_instance i) (\<lambda>r.
     seq (lift_res (validate_ownership r user))
     (seq (lift_res (validate_process_transition (ti_status r) T_READY))
     (seq (reading (\<lambda>s. case dget (account_rows s) (ti_exchange_account_id r) of
          None \<Rightarrow> throw (Exn ExchangeAccountNotFound [str_uuid (ti_exchange_account_id r)])
        | Some a \<Rightarrow>
            if dget (strategy_rows s) (ti_strategy_id r) \<noteq> Some True then throw (Exn StrategyError [])
            else seq (lift_res (validate_account calls a))
              (seq (authenticate_adapter calls a)
                (validate_symbol calls (ea_exchange_name a) (ti_symbol r)))))
     (seq (persist_instance i (\<lambda>r. r\<lparr>ti_status := T_READY\<rparr>))
       (get_instance i)))))"

section \<open>Starting\<close>

definition default_drop_rates :: "decimal list" where
  "default_drop_rates = map (\<lambda>n. of_int n / 10) [6, 12, 11, 10, 20, 8, 15, 13, 11, 25, 10, 18, 15, 12, 30,
     12, 20, 18, 15, 35, 15, 25, 20, 18, 40, 18, 30, 25, 20, 45, 20, 35, 30, 25, 50]"

definition default_take_profits :: "decimal list" where
  "default_take_profits = map (\<lambda>n. of_int n / 10) [15, 15, 15, 15, 20, 15, 15, 20, 20, 20, 20, 20, 25, 25, 25,
     25, 25, 30, 30, 30, 30, 30, 35, 35, 35, 35, 40, 40, 40, 45, 45, 50, 50, 55, 60]"

definition default_multipliers :: "decimal list" where
  "default_multipliers = map (\<lambda>n. of_int n / 10) [10, 10, 10, 10, 10, 15, 15, 15, 15, 15, 15, 15, 15, 15, 15,
     20, 20, 20, 20, 20, 20, 20, 20, 20, 20, 20, 20, 20, 20, 20, 25, 25, 25, 25, 30]"

definition default_averaging_template :: "averaging_step list" where
  "default_averaging_template = map (\<lambda>i. \<lparr>st_step_number = int i, st_drop_rate = default_drop_rates ! i,
     st_multiple_buy_amount = Some (default_multipliers ! i), st_take_profit = default_take_profits ! i\<rparr>) [0..<35]"

text \<open>
  The block inside the \<^verbatim>\<open>try\<close>: the grid, its breaker and the subscription to prices. The breaker
  is set up through \<^verbatim>\<open>BreakerScreeningStore()\<close>, whose constructor requires a market hub: the call
  raises \<^verbatim>\<open>TypeError\<close>.
\<close>

definition wire_steps :: "(('x, 'f, 'r, 'm) process_manager_scheme) market_hub \<Rightarrow>
    'r trading_instance \<Rightarrow> string \<Rightarrow> decimal \<Rightarrow> averaging_step list \<Rightarrow> ('x, 'f, 'r, 'm, unit) pm" where
  "wire_steps hub r exchange investment steps =
     (let key = str_uuid (ti_id r) in
      bind (hub_get_price hub exchange (ti_symbol r)) (\<lambda>price.
      seq (initialize_grid key (Some (ti_exchange_account_id r)) (ti_symbol r) price 0
             (int (length steps)) investment (Some steps))
      (seq (activate_grid key price)
      (seq (if ti_breaker_enabled r \<and> ti_continuation_rate r \<noteq> None then throw (Exn PyTypeError []) else ret ())
      (bind (hub_subscribe hub exchange (ti_symbol r) key) (\<lambda>sub.
        on_process (ti_id r) (\<lambda>p. p\<lparr>tp_subscription_id := Some sub\<rparr>)))))))"

definition wire_grid_and_market :: "('x, 'f, 'r, 'm) pcalls \<Rightarrow> 'r trading_instance \<Rightarrow> string \<Rightarrow>
    ('x, 'f, 'r, 'm, unit) pm" where
  "wire_grid_and_market calls r exchange = (case pc_market_hub calls of
      None \<Rightarrow> ret ()
    | Some hub \<Rightarrow>
        if \<not> pc_grid_engine calls then ret ()
        else reading (\<lambda>s. case dget (profile_rows s) (ti_grid_profile_id r) of
            None \<Rightarrow> ret ()
          | Some gp \<Rightarrow>
              let rows = (case dget (averaging_rows s) (ti_id r) of None \<Rightarrow> [] | Some rs \<Rightarrow> rs);
                  steps = (if rows = [] then default_averaging_template else rows)
              in try_catch (wire_steps hub r exchange (gp_investment_per_grid gp) steps)
                   (\<lambda>_. ret ())))"

definition locked_elsewhere :: "'r trading_instance \<Rightarrow> exn" where
  "locked_elsewhere r = Exn InvalidStateTransition
     [instance_status_value (ti_status r), instance_status_value T_RUNNING]"

text \<open>The memory of the registered process, for the row.\<close>

definition memory_of :: "uuid \<Rightarrow> ('x, 'f, 'r, 'm) process_manager_scheme \<Rightarrow> 'r process_memory option" where
  "memory_of i s = map_option tp_memory (get_process i s)"

definition snapshot_of :: "uuid \<Rightarrow> ('x, 'f, 'r, 'm) process_manager_scheme \<Rightarrow> 'r trading_instance \<Rightarrow>
    'r process_memory option" where
  "snapshot_of i s r = (case memory_of i s of None \<Rightarrow> ti_memory_snapshot r | Some m \<Rightarrow> Some m)"

text \<open>What a start records once the process is wired\<close>

definition record_started :: "('x, 'f, 'r, 'm) pcalls \<Rightarrow> uuid \<Rightarrow> ('x, 'f, 'r, 'm, 'r trading_instance) pm" where
  "record_started calls i = bind now (\<lambda>t.
     seq (reading (\<lambda>s. persist_instance i (\<lambda>r. r\<lparr>ti_status := T_RUNNING, ti_started_at := Some t,
            ti_worker_id := Some (pm_worker_id s), ti_memory_snapshot := snapshot_of i s r,
            ti_memory_version := 1\<rparr>)))
     (seq (persist_state calls i) (get_instance i)))"

definition start_process :: "('x, 'f, 'r, 'm) pcalls \<Rightarrow> uuid \<Rightarrow> uuid \<Rightarrow>
    ('x, 'f, 'r, 'm, 'r trading_instance) pm" where
  "start_process calls i user = bind (get_instance i) (\<lambda>r.
     seq (lift_res (validate_ownership r user))
     (seq (lift_res (validate_process_transition (ti_status r) T_RUNNING))
     (seq (check_duplicate_running r)
     (bind (reading (\<lambda>s. acquire_lock calls i (pm_worker_id s) 60)) (\<lambda>acquired.
       if \<not> acquired then throw (locked_elsewhere r)
       else bind (build_process calls r) (\<lambda>p.
         bind now (\<lambda>t.
         seq (register_process (with_status T_RUNNING t p))
         (seq (wire_grid_and_market calls r (tp_exchange_name p))
           (record_started calls i)))))))))"

section \<open>Pausing, resuming, stopping\<close>

definition unwire_grid_and_market :: "('x, 'f, 'r, 'm) pcalls \<Rightarrow> uuid \<Rightarrow> ('x, 'f, 'r, 'm, unit) pm" where
  "unwire_grid_and_market calls i =
     seq (reading (\<lambda>s. case get_process i s of
         None \<Rightarrow> ret ()
       | Some p \<Rightarrow> (case tp_subscription_id p of
             None \<Rightarrow> ret ()
           | Some sub \<Rightarrow>
               seq (case pc_market_hub calls of
                      None \<Rightarrow> ret ()
                    | Some hub \<Rightarrow> try_catch (hub_unsubscribe hub sub) (\<lambda>_. ret ()))
                 (on_process i (\<lambda>p. p\<lparr>tp_subscription_id := None\<rparr>)))))
     (if pc_grid_engine calls then try_catch (seq (pause_grid (str_uuid i)) (ret ())) (\<lambda>_. ret ())
      else ret ())"

text \<open>The registered process, or a new one that is registered.\<close>

definition ensure_process :: "('x, 'f, 'r, 'm) pcalls \<Rightarrow> 'r trading_instance \<Rightarrow> ('x, 'f, 'r, 'm, unit) pm" where
  "ensure_process calls r = reading (\<lambda>s.
     if get_process (ti_id r) s \<noteq> None then ret ()
     else bind (build_process calls r) register_process)"

definition pause_process :: "('x, 'f, 'r, 'm) pcalls \<Rightarrow> uuid \<Rightarrow> uuid \<Rightarrow>
    ('x, 'f, 'r, 'm, 'r trading_instance) pm" where
  "pause_process calls i user = bind (get_instance i) (\<lambda>r.
     seq (lift_res (validate_ownership r user))
     (seq (lift_res (validate_process_transition (ti_status r) T_PAUSED))
     (seq (ensure_process calls r)
     (seq (unwire_grid_and_market calls i)
     (seq (set_process_status i T_PAUSED)
     (seq (reading (\<lambda>s. persist_instance i (\<lambda>r. r\<lparr>ti_status := T_PAUSED, ti_memory_snapshot := snapshot_of i s r\<rparr>)))
     (seq (persist_state calls i)
     (seq (release_process_lock calls i)
       (get_instance i)))))))))"

definition resume_process :: "('x, 'f, 'r, 'm) pcalls \<Rightarrow> uuid \<Rightarrow> uuid \<Rightarrow>
    ('x, 'f, 'r, 'm, 'r trading_instance) pm" where
  "resume_process calls i user = bind (get_instance i) (\<lambda>r.
     seq (lift_res (validate_ownership r user))
     (seq (lift_res (validate_process_transition (ti_status r) T_RUNNING))
     (seq (release_process_lock calls i)
     (bind (reading (\<lambda>s. acquire_lock calls i (pm_worker_id s) 60)) (\<lambda>acquired.
       if \<not> acquired then throw (locked_elsewhere r)
       else
         seq (ensure_process calls r)
         (seq (set_process_status i T_RUNNING)
         (seq (reading (\<lambda>s. persist_instance i (\<lambda>r. r\<lparr>ti_status := T_RUNNING, ti_memory_snapshot := snapshot_of i s r\<rparr>)))
         (seq (persist_state calls i)
           (get_instance i)))))))))"

definition stop_process :: "('x, 'f, 'r, 'm) pcalls \<Rightarrow> uuid \<Rightarrow> uuid \<Rightarrow>
    ('x, 'f, 'r, 'm, 'r trading_instance) pm" where
  "stop_process calls i user = bind (get_instance i) (\<lambda>r.
     seq (lift_res (validate_ownership r user))
     (seq (lift_res (validate_process_transition (ti_status r) T_STOPPING))
     (seq (persist_instance i (\<lambda>r. r\<lparr>ti_status := T_STOPPING\<rparr>))
     (seq (reading (\<lambda>s. case get_process i s of
         None \<Rightarrow> ret ()
       | Some p \<Rightarrow>
           seq (set_process_status i T_STOPPING)
           (seq (unwire_grid_and_market calls i)
             (try_catch (pc_disconnect calls (tp_exchange_name p)) (\<lambda>_. ret ())))))
     (bind (gets (memory_of i)) (\<lambda>memory.
     seq (release_process_lock calls i)
     (seq (unregister_process i)
     (bind now (\<lambda>t.
     seq (persist_instance i (\<lambda>r. r\<lparr>ti_status := T_STOPPED, ti_stopped_at := Some t,
            ti_memory_snapshot := (case memory of None \<Rightarrow> ti_memory_snapshot r | Some m \<Rightarrow> Some m)\<rparr>))
     (bind now (\<lambda>t.
     seq (reading (\<lambda>s. set_state calls i (STOPPED_STATE i (pm_worker_id s) t)))
       (get_instance i))))))))))))"

section \<open>Recovering\<close>

definition fail_instance :: "uuid \<Rightarrow> exn \<Rightarrow> ('x, 'f, 'r, 'm, unit) pm" where
  "fail_instance i e = persist_instance i (\<lambda>r. r\<lparr>ti_status := T_ERROR, ti_error_message := Some e\<rparr>)"

text \<open>
  A lock that is taken is read again. Its value is a \<^verbatim>\<open>str\<close> (the client decodes responses) and is
  compared with a \<^verbatim>\<open>bytes\<close> prefix, which raises \<^verbatim>\<open>TypeError\<close>.
\<close>

definition check_lock_holder :: "('x, 'f, 'r, 'm) pcalls \<Rightarrow> uuid \<Rightarrow> bool \<Rightarrow> ('x, 'f, 'r, 'm, unit) pm" where
  "check_lock_holder calls i acquired = (case pc_redis calls of
      None \<Rightarrow> ret ()
    | Some rd \<Rightarrow>
        if acquired then ret ()
        else bind (rd_get rd (process_lock_key i)) (\<lambda>v.
          if truthy v then throw (Exn PyTypeError []) else ret ()))"

definition symbol_supported :: "('s, 'r) process_calls \<Rightarrow> string \<Rightarrow> string \<Rightarrow> ('s, bool) py" where
  "symbol_supported calls exchange symbol =
     try_catch (seq (validate_symbol calls exchange symbol) (ret True))
       (\<lambda>e. if isinstance e [SymbolNotSupported] then ret False else throw e)"

definition recover_process :: "('x, 'f, 'r, 'm) pcalls \<Rightarrow> 'r trading_instance \<Rightarrow> ('x, 'f, 'r, 'm, unit) pm" where
  "recover_process calls r =
     (let i = ti_id r;
          final_status = (if ti_status r \<in> set [T_RUNNING, T_RECOVERING] then T_RUNNING else T_PAUSED)
      in
      seq (lift_res (validate_process_transition (ti_status r) T_RECOVERING))
      (seq (bind (reading (\<lambda>s. acquire_lock calls i (pm_worker_id s) 60)) (check_lock_holder calls i))
      (bind (build_process calls r) (\<lambda>p.
      bind (pc_health_check calls (tp_exchange_name p)) (\<lambda>healthy.
      if \<not> healthy then fail_instance i (Exn OtherException [])
      else bind (symbol_supported calls (tp_exchange_name p) (ti_symbol r)) (\<lambda>supported.
      if \<not> supported then fail_instance i (Exn SymbolNotSupported [ti_symbol r, tp_exchange_name p])
      else bind now (\<lambda>t1.
        let p1 = with_status T_RECOVERING t1 p in
        seq (reading (\<lambda>s. persist_instance i (\<lambda>r. r\<lparr>ti_status := T_RECOVERING,
               ti_worker_id := Some (pm_worker_id s), ti_memory_snapshot := Some (tp_memory p1)\<rparr>)))
        (bind now (\<lambda>t2.
        let p2 = with_status final_status t2 p1 in
        seq (persist_instance i (\<lambda>r. r\<lparr>ti_status := final_status, ti_memory_snapshot := Some (tp_memory p2)\<rparr>))
        (seq (set_state calls i (PROCESS_STATE p2))
          (register_process p2)))))))))))"

definition recover_or_fail :: "('x, 'f, 'r, 'm) pcalls \<Rightarrow> 'r trading_instance \<Rightarrow>
    ('x, 'f, 'r, 'm, uuid list) pm" where
  "recover_or_fail calls r =
     try_catch (seq (recover_process calls r) (ret [ti_id r]))
       (\<lambda>e. seq (fail_instance (ti_id r) e) (ret []))"

definition recover_status :: "('x, 'f, 'r, 'm) pcalls \<Rightarrow> instance_status \<Rightarrow> ('x, 'f, 'r, 'm, uuid list) pm" where
  "recover_status calls st = reading (\<lambda>s. collect (recover_or_fail calls) (get_by_status st s))"

definition recover_processes :: "('x, 'f, 'r, 'm) pcalls \<Rightarrow> ('x, 'f, 'r, 'm, uuid list) pm" where
  "recover_processes calls = collect (recover_status calls) [T_RUNNING, T_PAUSED, T_RECOVERING]"

section \<open>Queries\<close>

definition get_process_status :: "uuid \<Rightarrow> uuid \<Rightarrow> ('x, 'f, 'r, 'm, 'r trading_instance) pm" where
  "get_process_status i user = bind (get_instance i) (\<lambda>r.
     seq (lift_res (validate_ownership r user)) (ret r))"

end
