(* ===== verification/ProcessLifecycle.thy ===== *)
theory ProcessLifecycle
  imports TradingProcess
begin

text \<open>
  The correctness of the process manager: the life of a trading instance over any history of
  manager operations, and what starting and resuming really set in motion in the engines below.
\<close>

section \<open>Frames\<close>

abbreviation below_manager :: "('x, 'f, 'm, 'a) xg \<Rightarrow> bool" where
  "below_manager m \<equiv> obeys (same grid_engine.more) m"

lemma plock_more_manager:
  fixes s t :: "('x, 'f, 'm) grid_engine_scheme"
  assumes "plock_engine.more t = plock_engine.more s"
  shows "grid_engine.more t = grid_engine.more s"
  using assms by (cases s; cases t) simp

lemma grid_below_manager: "below_grid m \<Longrightarrow> below_manager m"
  unfolding obeys_def same_def using plock_more_manager by blast

lemma world_below_manager: "obeys (same world.more) (m :: ('x, 'f, 'm, 'a) xg) \<Longrightarrow> below_manager m"
  by (rule grid_below_manager, rule exec_frames_plock(3), rule world_frame_exec(4))

lemma grid_store_below_manager [resp_intros]:
  "below_manager (grid_set i f)" "below_manager (grid_put i g)"
  "below_manager (configure_circuit_breaker fl i th rate mode rec wid dayo configs)"
  by (auto simp: obeys_def same_def grid_set_def grid_put_def configure_circuit_breaker_def modify_def
      split: option.splits)

lemma exec_below_manager [resp_intros]:
  "below_manager (place_order q)" "below_manager (cancel_order acct oid)"
  "below_manager uuid4" "below_manager now"
  by (rule grid_below_manager, rule exec_below_grid world_below_grid)+

lemma with_grid_below_manager [resp_intros]: "(\<And>g. below_manager (f g)) \<Longrightarrow> below_manager (with_grid i f)"
  unfolding with_grid_def by (intro resp_intros)

lemma levels_below_manager [resp_intros]:
  "below_manager (transition_grid i st)" "below_manager (transition_level i n lst)"
  "below_manager (update_level i n h)"
  unfolding transition_grid_def transition_level_def update_level_def
  by (intro resp_intros)+

lemma grid_orders_below_manager [resp_intros]:
  "below_manager (grid_place i a)" "below_manager (grid_cancel i a)" "below_manager (grid_place_each i as)"
  unfolding grid_place_def grid_cancel_def grid_place_each_def
  by (intro resp_intros)+

lemma grid_lifecycle_below_manager [resp_intros]:
  "below_manager (initialize_grid i acct symbol up lo n amount steps)"
  "below_manager (activate_grid i p)" "below_manager (pause_grid i)"
  unfolding initialize_grid_def activate_grid_def pause_grid_def Let_def
  by (intro resp_intros)+

section \<open>Calls that leave the engines alone\<close>

text \<open>Redis, exchange clients, market hub and threshold database change nothing but the outside world.\<close>

abbreviation outside :: "(('x, 'm) world_scheme, 'a) py \<Rightarrow> bool" where
  "outside m \<equiv> obeys (same world.more) m"

definition quiet_redis :: "(('x, 'm) world_scheme, 'r) redis_client \<Rightarrow> bool" where
  "quiet_redis rd \<longleftrightarrow> (\<forall>k. outside (rd_get rd k)) \<and> (\<forall>k v nx xx e. outside (rd_set rd k v nx xx e)) \<and>
     (\<forall>k. outside (rd_delete rd k)) \<and> (\<forall>k. outside (rd_get_state rd k)) \<and>
     (\<forall>k st. outside (rd_set_state rd k st))"

definition quiet_hub :: "('x, 'm) world_scheme market_hub \<Rightarrow> bool" where
  "quiet_hub hub \<longleftrightarrow> (\<forall>e y. outside (hub_get_price hub e y)) \<and> (\<forall>e y k. outside (hub_subscribe hub e y k)) \<and>
     (\<forall>k. outside (hub_unsubscribe hub k))"

definition quiet_process_calls :: "('x, 'f, 'r, 'm) pcalls \<Rightarrow> bool" where
  "quiet_process_calls calls \<longleftrightarrow>
     (\<forall>rd. pc_redis calls = Some rd \<longrightarrow> quiet_redis rd) \<and>
     (\<forall>hub. pc_market_hub calls = Some hub \<longrightarrow> quiet_hub hub) \<and>
     (\<forall>e b. outside (pc_initialize calls e b)) \<and> (\<forall>e k p. outside (pc_authenticate calls e k p)) \<and>
     (\<forall>e. outside (pc_supported_symbols calls e)) \<and> (\<forall>e. outside (pc_health_check calls e)) \<and>
     (\<forall>e. outside (pc_disconnect calls e))"

named_theorems quiet_intros \<open>routines of the manager that stay outside the engines\<close>

lemma outside_now: "outside now"
  by (rule world_frames)

lemma quiet_callsD:
  assumes "quiet_process_calls calls"
  shows "pc_redis calls = Some rd \<Longrightarrow> outside (rd_get rd k)"
    "pc_redis calls = Some rd \<Longrightarrow> outside (rd_set rd k v nx xx e)"
    "pc_redis calls = Some rd \<Longrightarrow> outside (rd_delete rd k)"
    "pc_redis calls = Some rd \<Longrightarrow> outside (rd_set_state rd k st)"
    "pc_market_hub calls = Some hub \<Longrightarrow> outside (hub_get_price hub x y)"
    "pc_market_hub calls = Some hub \<Longrightarrow> outside (hub_subscribe hub x y z)"
    "pc_market_hub calls = Some hub \<Longrightarrow> outside (hub_unsubscribe hub k)"
    "outside (pc_initialize calls x b)" "outside (pc_authenticate calls x y z)"
    "outside (pc_supported_symbols calls x)" "outside (pc_health_check calls x)"
    "outside (pc_disconnect calls x)"
  using assms by (simp_all add: quiet_process_calls_def quiet_redis_def quiet_hub_def)

lemma with_redis_outside:
  assumes "\<And>rd. pc_redis calls = Some rd \<Longrightarrow> outside (f rd)"
  shows "outside (with_redis calls a f)"
  unfolding with_redis_def using assms by (intro resp_intros)

lemma store_outside:
  assumes "quiet_process_calls calls"
  shows "outside (acquire_lock calls i w ttl)" "outside (release_process_lock calls i)"
    "outside (set_state calls i st)" "outside (check_lock_holder calls i b)"
proof -
  note calls = quiet_callsD [OF assms]
  show "outside (acquire_lock calls i w ttl)" "outside (release_process_lock calls i)"
    "outside (set_state calls i st)"
    unfolding acquire_lock_def release_process_lock_def set_state_def
    by (rule with_redis_outside, intro resp_intros calls, assumption)+
  show "outside (check_lock_holder calls i b)"
    unfolding check_lock_holder_def by (intro resp_intros calls)
qed

lemma persist_state_outside: "quiet_process_calls calls \<Longrightarrow> outside (persist_state calls i)"
  unfolding persist_state_def by (intro resp_intros store_outside)

lemma queries_outside:
  "outside (get_instance i)" "outside (check_duplicate_running r)"
  unfolding get_instance_def check_duplicate_running_def by (intro resp_intros)+

lemma clients_outside:
  assumes "quiet_process_calls calls"
  shows "outside (authenticate_adapter calls a)" "outside (validate_symbol calls e y)"
    "outside (symbol_supported calls e y)" "outside (build_process calls r)"
proof -
  show auth: "outside (authenticate_adapter calls a)" for a
    unfolding authenticate_adapter_def by (intro resp_intros quiet_callsD assms)
  show symbol: "outside (validate_symbol calls e y)"
    unfolding validate_symbol_def by (intro resp_intros quiet_callsD assms)
  show "outside (symbol_supported calls e y)"
    unfolding symbol_supported_def by (intro resp_intros symbol)
  show "outside (build_process calls r)"
    unfolding build_process_def by (intro resp_intros auth)
qed

section \<open>Rows\<close>

lemma manager_more:
  fixes s t :: "('x, 'f, 'r, 'm) process_manager_scheme"
  assumes "grid_engine.more t = grid_engine.more s"
  shows "ti_rows t = ti_rows s" "process_registry t = process_registry s" "pm_worker_id t = pm_worker_id s"
    "profile_rows t = profile_rows s" "averaging_rows t = averaging_rows s" "account_rows t = account_rows s"
  using assms by (cases s; cases t; simp)+

lemma below_manager_frames:
  assumes "below_manager (m :: ('x, 'f, 'r, 'm, 'a) pm)"
  shows "obeys (same ti_rows) m" "obeys (same process_registry) m"
  unfolding obeys_def same_def using manager_more [OF sameD [OF assms]] by simp_all

lemma outside_frames:
  assumes "outside (m :: ('x, 'f, 'r, 'm, 'a) pm)"
  shows "obeys (same ti_rows) m" "obeys (same process_registry) m"
  by (rule below_manager_frames, rule world_below_manager, rule assms)+

lemma registry_keeps_rows:
  "obeys (same ti_rows) (register_process p)" "obeys (same ti_rows) (unregister_process i)"
  "obeys (same ti_rows) (on_process i f)" "obeys (same ti_rows) (set_process_status i st)"
  by (auto simp: obeys_def same_def register_process_def unregister_process_def on_process_def
      set_process_status_def now_def py_simps split: option.splits)

lemma wiring_keeps_rows:
  assumes "quiet_process_calls calls"
  shows "obeys (same ti_rows) (wire_grid_and_market calls r e)"
    "obeys (same ti_rows) (unwire_grid_and_market calls i)"
    "obeys (same ti_rows) (ensure_process calls r)"
proof -
  note calls = quiet_callsD [OF assms, THEN outside_frames(1)]
  have steps: "obeys (same ti_rows) (wire_steps hub r e inv steps)"
    if "pc_market_hub calls = Some hub" for hub inv steps
    unfolding wire_steps_def Let_def
    by (intro resp_intros registry_keeps_rows calls that
        below_manager_frames(1) [OF grid_lifecycle_below_manager(1)]
        below_manager_frames(1) [OF grid_lifecycle_below_manager(2)])
  show "obeys (same ti_rows) (wire_grid_and_market calls r e)"
    unfolding wire_grid_and_market_def Let_def by (intro resp_intros steps)
  show "obeys (same ti_rows) (unwire_grid_and_market calls i)"
    unfolding unwire_grid_and_market_def
    by (intro resp_intros registry_keeps_rows calls
        below_manager_frames(1) [OF grid_lifecycle_below_manager(3)])
  show "obeys (same ti_rows) (ensure_process calls r)"
    unfolding ensure_process_def
    by (intro resp_intros registry_keeps_rows clients_outside [OF assms, THEN outside_frames(1)])
qed

section \<open>The life of an instance\<close>

text \<open>The phases of a life; the transition table and the recoveries of the code only go forward.\<close>

fun life_phase :: "instance_status \<Rightarrow> nat" where
  "life_phase T_CREATED = 0"
| "life_phase T_READY = 1"
| "life_phase T_RUNNING = 2"
| "life_phase T_PAUSED = 2"
| "life_phase T_RECOVERING = 2"
| "life_phase T_RECOVERED = 2"
| "life_phase T_STOPPING = 3"
| "life_phase T_STOPPED = 4"
| "life_phase T_ERROR = 4"

definition ages :: "instance_status \<Rightarrow> instance_status \<Rightarrow> bool" where
  "ages a b \<longleftrightarrow> life_phase a \<le> life_phase b \<and> (life_phase a = 4 \<longrightarrow> b = a)"

lemma ages_refl [simp]: "ages a a"
  by (simp add: ages_def)

lemma ages_trans: "ages a b \<Longrightarrow> ages b c \<Longrightarrow> ages a c"
  by (auto simp: ages_def)

lemma transition_ages: "b \<in> set (process_transitions a) \<Longrightarrow> ages a b"
  by (cases a) (auto simp: ages_def)

text \<open>What an instance is does not change; only its status and its reporting fields do.\<close>

definition same_instance :: "'r trading_instance \<Rightarrow> 'r trading_instance \<Rightarrow> bool" where
  "same_instance r r' \<longleftrightarrow> ti_id r' = ti_id r \<and> ti_user_id r' = ti_user_id r \<and>
     ti_exchange_account_id r' = ti_exchange_account_id r \<and> ti_strategy_id r' = ti_strategy_id r \<and>
     ti_grid_profile_id r' = ti_grid_profile_id r \<and> ti_symbol r' = ti_symbol r"

definition row_ages :: "'r trading_instance \<Rightarrow> 'r trading_instance \<Rightarrow> bool" where
  "row_ages r r' \<longleftrightarrow> same_instance r r' \<and> ages (ti_status r) (ti_status r')"

definition rows_age :: "('x, 'f, 'r, 'm) process_manager_scheme \<Rightarrow>
    ('x, 'f, 'r, 'm) process_manager_scheme \<Rightarrow> bool" where
  "rows_age s t \<longleftrightarrow> (\<forall>i r. dget (ti_rows s) i = Some r \<longrightarrow>
     (\<exists>r'. dget (ti_rows t) i = Some r' \<and> row_ages r r'))"

lemma row_ages_refl [simp]: "row_ages r r"
  by (simp add: row_ages_def same_instance_def)

lemma row_ages_trans: "row_ages a b \<Longrightarrow> row_ages b c \<Longrightarrow> row_ages a c"
  by (auto simp: row_ages_def same_instance_def intro: ages_trans)

lemma rows_age_refl: "rows_age s s"
  by (simp add: rows_age_def)

lemma rows_age_trans: "rows_age s t \<Longrightarrow> rows_age t u \<Longrightarrow> rows_age s u"
  unfolding rows_age_def by (meson row_ages_trans)

interpretation aging: step_contract rows_age
  by unfold_locales (rule rows_age_refl, erule rows_age_trans)

lemma rows_kept_age: "obeys (same ti_rows) m \<Longrightarrow> obeys rows_age m"
  by (simp add: obeys_def same_def rows_age_def)

text \<open>A routine that lets rows age when it starts from a known row.\<close>

definition ages_from :: "uuid \<Rightarrow> 'r trading_instance \<Rightarrow> ('x, 'f, 'r, 'm, 'a) pm \<Rightarrow> bool" where
  "ages_from i r m \<longleftrightarrow> (\<forall>s. dget (ti_rows s) i = Some r \<longrightarrow> rows_age s (snd (m s)))"

named_theorems aging_intros \<open>rules for routines that let rows age\<close>

lemma from_obeys [aging_intros]: "obeys (same ti_rows) m \<Longrightarrow> ages_from i r m"
  by (simp add: ages_from_def obeys_def same_def rows_age_def)

lemma from_bind [aging_intros]:
  fixes m :: "('x, 'f, 'r, 'm, 'a) pm"
  assumes "obeys (same ti_rows) m" and "\<And>a. ages_from i r (f a)"
  shows "ages_from i r (bind m f)"
  unfolding ages_from_def
proof (intro allI impI)
  fix s :: "('x, 'f, 'r, 'm) process_manager_scheme"
  assume row: "dget (ti_rows s) i = Some r"
  obtain x t where m: "m s = (x, t)" by (cases "m s")
  have same: "ti_rows t = ti_rows s" using sameD [OF assms(1), of s] m by simp
  show "rows_age s (snd (bind m f s))"
  proof (cases x)
    case (Ok a)
    have "rows_age t (snd (f a t))" using assms(2) [of a] row same by (simp add: ages_from_def)
    then show ?thesis using same Ok m by (simp add: bind_Ok rows_age_def)
  next
    case (Raise e)
    then show ?thesis using same m by (simp add: bind_Raise rows_age_def)
  qed
qed

lemma from_seq [aging_intros]:
  "obeys (same ti_rows) m \<Longrightarrow> ages_from i r n \<Longrightarrow> ages_from i r (seq m n)"
  unfolding seq_def by (rule from_bind)

lemma from_check [aging_intros]:
  "(b \<in> set (process_transitions a) \<Longrightarrow> ages_from i r n) \<Longrightarrow>
   ages_from i r (seq (lift_res (validate_process_transition a b)) n)"
  unfolding ages_from_def
  by (auto simp: validate_process_transition_def seq_def bind_def lift_res_def rows_age_refl)

lemma from_if [aging_intros]:
  "(b \<Longrightarrow> ages_from i r m) \<Longrightarrow> (\<not> b \<Longrightarrow> ages_from i r n) \<Longrightarrow> ages_from i r (if b then m else n)"
  by simp

lemma persist_eq:
  "dget (ti_rows s) i = Some r \<Longrightarrow> persist_instance i f s = (Ok (), s\<lparr>ti_rows := dput i (f r) (ti_rows s)\<rparr>)"
  by (simp add: persist_instance_def modify_def)

lemma from_persist:
  fixes n :: "('x, 'f, 'r, 'm, 'a) pm"
  assumes "\<And>s. row_ages r (g s r)" and "\<And>s. ages_from i (g s r) n"
  shows "ages_from i r (seq (reading (\<lambda>s. persist_instance i (g s))) n)"
  unfolding ages_from_def
proof (intro allI impI)
  fix s :: "('x, 'f, 'r, 'm) process_manager_scheme"
  assume row: "dget (ti_rows s) i = Some r"
  let ?t = "s\<lparr>ti_rows := dput i (g s r) (ti_rows s)\<rparr>"
  have "rows_age s ?t" using assms(1) [of s] row by (simp add: rows_age_def)
  moreover have "rows_age ?t (snd (n ?t))" using assms(2) [of s] by (simp add: ages_from_def)
  ultimately show "rows_age s (snd (seq (reading (\<lambda>s. persist_instance i (g s))) n s))"
    using row by (simp add: seq_def bind_def reading_def persist_eq rows_age_trans)
qed

lemma from_persist_plain:
  "row_ages r (f r) \<Longrightarrow> ages_from i (f r) n \<Longrightarrow> ages_from i r (seq (persist_instance i f) n)"
  using from_persist [of r "\<lambda>_. f" i n] by (simp add: reading_def)

lemma from_last_persist: "row_ages r (f r) \<Longrightarrow> ages_from i r (persist_instance i f)"
  by (simp add: ages_from_def rows_age_def persist_eq)

lemma from_instance:
  assumes "\<And>r. ages_from i r (f r)"
  shows "obeys rows_age (bind (get_instance i) f)"
  unfolding obeys_def
proof
  fix s
  show "rows_age s (snd (bind (get_instance i) f s))"
    using assms by (cases "dget (ti_rows s) i")
      (auto simp: get_instance_def reading_def bind_def ret_def throw_def ages_from_def rows_age_refl)
qed

lemma row_ages_status: "ages (ti_status r) st \<Longrightarrow> row_ages r (r\<lparr>ti_status := st\<rparr>)"
  by (simp add: row_ages_def same_instance_def)

lemma from_ownership [aging_intros]:
  "ages_from i r n \<Longrightarrow> ages_from i r (seq (lift_res (validate_ownership r u)) n)"
  by (rule from_seq) (rule resp_intros)

lemmas aging_rules = from_instance from_ownership from_check from_persist from_persist_plain
  from_last_persist from_if from_seq from_bind from_obeys

text \<open>What the handlers do besides persisting leaves the rows alone.\<close>

lemma quiet_rows:
  assumes "quiet_process_calls calls"
  shows "obeys (same ti_rows) (authenticate_adapter calls a)" "obeys (same ti_rows) (validate_symbol calls e y)"
    "obeys (same ti_rows) (symbol_supported calls e y)" "obeys (same ti_rows) (build_process calls r)"
    "obeys (same ti_rows) (acquire_lock calls i w ttl)" "obeys (same ti_rows) (release_process_lock calls i)"
    "obeys (same ti_rows) (set_state calls i st)" "obeys (same ti_rows) (check_lock_holder calls i b)"
    "obeys (same ti_rows) (persist_state calls i)" "obeys (same ti_rows) (pc_health_check calls e)"
    "obeys (same ti_rows) (pc_disconnect calls e)"
    "obeys (same ti_rows) (wire_grid_and_market calls r e)"
    "obeys (same ti_rows) (unwire_grid_and_market calls i)" "obeys (same ti_rows) (ensure_process calls r)"
    "obeys (same ti_rows) (get_instance i)" "obeys (same ti_rows) (check_duplicate_running r)"
    "obeys (same ti_rows) now"
  by (rule wiring_keeps_rows [OF assms] | rule outside_frames(1),
      rule clients_outside [OF assms] store_outside [OF assms] persist_state_outside [OF assms]
        quiet_callsD(11,12) [OF assms] queries_outside outside_now)+

lemma handlers_age:
  assumes "quiet_process_calls calls"
  shows "obeys rows_age (prepare_process calls i user)" "obeys rows_age (start_process calls i user)"
    "obeys rows_age (pause_process calls i user)" "obeys rows_age (resume_process calls i user)"
    "obeys rows_age (stop_process calls i user)"
  unfolding prepare_process_def start_process_def record_started_def pause_process_def resume_process_def stop_process_def
  by (intro aging_rules resp_intros quiet_rows [OF assms] registry_keeps_rows;
      (frule transition_ages)?; simp add: row_ages_def same_instance_def ages_def)+

section \<open>Recovery\<close>

lemma recover_process_ages:
  assumes "quiet_process_calls calls"
  shows "ages_from (ti_id r) r (recover_process calls r)"
  unfolding recover_process_def fail_instance_def Let_def
  by (intro aging_rules resp_intros quiet_rows [OF assms] registry_keeps_rows;
      (frule transition_ages)?; auto simp: row_ages_def same_instance_def ages_def split: if_splits)

text \<open>While one instance is recovered, its own row stays in the statuses that a recovery knows.\<close>

definition recovery_statuses :: "instance_status set" where
  "recovery_statuses = {T_RUNNING, T_PAUSED, T_RECOVERING, T_ERROR}"

definition row_in :: "instance_status set \<Rightarrow> uuid \<Rightarrow> ('x, 'f, 'r, 'm) process_manager_scheme \<Rightarrow> bool" where
  "row_in A i s \<longleftrightarrow> (\<forall>r. dget (ti_rows s) i = Some r \<longrightarrow> ti_status r \<in> A)"

lemma persist_row_in:
  "(\<And>s r. ti_status (f s r) \<in> A) \<Longrightarrow> obeys (keeps (row_in A i)) (reading (\<lambda>s. persist_instance i (f s)))"
  "(\<And>r. ti_status (g r) \<in> A) \<Longrightarrow> obeys (keeps (row_in A i)) (persist_instance i g)"
  by (auto simp: obeys_def keeps_def row_in_def reading_def persist_instance_def modify_def split: option.splits)

lemma rows_keep: "obeys (same ti_rows) m \<Longrightarrow> obeys (keeps (row_in A i)) m"
  by (simp add: obeys_def same_def keeps_def row_in_def)

lemma recover_process_row_in:
  assumes "quiet_process_calls calls"
  shows "obeys (keeps (row_in recovery_statuses (ti_id r))) (recover_process calls r)"
proof -
  note calls = quiet_rows [OF assms, THEN rows_keep] registry_keeps_rows [THEN rows_keep]
  have lock: "obeys (keeps (row_in recovery_statuses (ti_id r)))
      (bind (reading (\<lambda>s. acquire_lock calls (ti_id r) (pm_worker_id s) 60)) (check_lock_holder calls (ti_id r)))"
    by (intro inv_rules obeys_reading calls)
  show ?thesis
    unfolding recover_process_def fail_instance_def Let_def
    by (intro lock persist_row_in inv.seq inv.bind inv.lift_res obeys_if calls; simp add: recovery_statuses_def)
qed

definition other_row :: "uuid \<Rightarrow> ('x, 'f, 'r, 'm) process_manager_scheme \<Rightarrow> 'r trading_instance option" where
  "other_row j s = dget (ti_rows s) j"

lemma persist_other_row: "i \<noteq> j \<Longrightarrow> obeys (same (other_row j)) (persist_instance i f)"
  by (auto simp: obeys_def same_def other_row_def persist_instance_def modify_def split: option.splits)

lemma rows_same_other: "obeys (same ti_rows) m \<Longrightarrow> obeys (same (other_row j)) m"
  by (simp add: obeys_def same_def other_row_def)

lemma recover_or_fail_other_row:
  assumes "quiet_process_calls calls" and "ti_id r \<noteq> j"
  shows "obeys (same (other_row j)) (recover_or_fail calls r)"
  unfolding recover_or_fail_def recover_process_def fail_instance_def Let_def
  by (intro resp_intros quiet_rows [OF assms(1), THEN rows_same_other]
      registry_keeps_rows [THEN rows_same_other] persist_other_row assms(2))

lemma recover_or_fail_ages:
  assumes quiet: "quiet_process_calls calls" and row: "dget (ti_rows s) (ti_id r) = Some r"
    and status: "ti_status r \<in> recovery_statuses"
  shows "rows_age s (snd (recover_or_fail calls r s))"
proof -
  obtain x t where m: "recover_process calls r s = (x, t)" by (cases "recover_process calls r s")
  have st: "rows_age s t" using recover_process_ages [OF quiet, of r] row m by (metis ages_from_def snd_conv)
  show ?thesis
  proof (cases x)
    case (Ok a)
    then show ?thesis using st m by (simp add: recover_or_fail_def try_catch_def seq_Ok ret_def)
  next
    case (Raise e)
    obtain r' where r': "dget (ti_rows t) (ti_id r) = Some r'" using st row by (auto simp: rows_age_def)
    have "row_in recovery_statuses (ti_id r) s" using row status by (simp add: row_in_def)
    then have "row_in recovery_statuses (ti_id r) t"
      using keepsD [OF recover_process_row_in [OF quiet, of r], of s] m by simp
    then have "row_ages r' (r'\<lparr>ti_status := T_ERROR, ti_error_message := Some e\<rparr>)"
      using r' by (auto simp: row_in_def recovery_statuses_def row_ages_def same_instance_def ages_def)
    then have "rows_age t (t\<lparr>ti_rows := dput (ti_id r) (r'\<lparr>ti_status := T_ERROR, ti_error_message := Some e\<rparr>) (ti_rows t)\<rparr>)"
      using r' by (simp add: rows_age_def)
    from rows_age_trans [OF st this] show ?thesis
      using m Raise r' by (simp add: recover_or_fail_def try_catch_def seq_def bind_def fail_instance_def persist_eq ret_def)
  qed
qed

section \<open>Histories\<close>

definition rows_ok :: "('x, 'f, 'r, 'm) process_manager_scheme \<Rightarrow> bool" where
  "rows_ok s \<longleftrightarrow> dict_ok (ti_rows s) \<and> (\<forall>i r. dget (ti_rows s) i = Some r \<longrightarrow> ti_id r = i)"

lemma persist_rows_ok:
  "(\<And>s r. ti_id (f s r) = ti_id r) \<Longrightarrow> obeys (keeps rows_ok) (reading (\<lambda>s. persist_instance i (f s)))"
  "(\<And>r. ti_id (g r) = ti_id r) \<Longrightarrow> obeys (keeps rows_ok) (persist_instance i g)"
  by (auto simp: obeys_def keeps_def rows_ok_def reading_def persist_instance_def modify_def split: option.splits)

lemma rows_keep_ok: "obeys (same ti_rows) m \<Longrightarrow> obeys (keeps rows_ok) m"
  by (simp add: obeys_def same_def keeps_def rows_ok_def)

lemma handlers_rows_ok:
  assumes "quiet_process_calls calls"
  shows "obeys (keeps rows_ok) (prepare_process calls i user)"
    "obeys (keeps rows_ok) (start_process calls i user)"
    "obeys (keeps rows_ok) (pause_process calls i user)" "obeys (keeps rows_ok) (resume_process calls i user)"
    "obeys (keeps rows_ok) (stop_process calls i user)" "obeys (keeps rows_ok) (recover_or_fail calls r)"
  unfolding prepare_process_def start_process_def record_started_def pause_process_def resume_process_def stop_process_def
    recover_or_fail_def recover_process_def fail_instance_def Let_def
  by (intro persist_rows_ok resp_intros quiet_rows [OF assms, THEN rows_keep_ok]
      registry_keeps_rows [THEN rows_keep_ok]; simp)+

lemma recover_all_rows:
  assumes quiet: "quiet_process_calls calls" and "distinct (map ti_id rs)" and "rows_ok s"
    and "\<And>r. r \<in> set rs \<Longrightarrow> dget (ti_rows s) (ti_id r) = Some r \<and> ti_status r \<in> recovery_statuses"
  shows "rows_age s (snd (collect (recover_or_fail calls) rs s)) \<and>
    rows_ok (snd (collect (recover_or_fail calls) rs s))"
  using assms(2-4)
proof (induction rs arbitrary: s)
  case Nil
  then show ?case by (simp add: ret_def rows_age_refl)
next
  case (Cons r rs)
  obtain x t where m: "recover_or_fail calls r s = (x, t)" by (cases "recover_or_fail calls r s")
  have st: "rows_age s t"
    using recover_or_fail_ages [OF quiet, of s r] Cons.prems(3) [of r] m by simp
  have ok: "rows_ok t" using keepsD [OF handlers_rows_ok(6) [OF quiet], of s r] Cons.prems(2) m by simp
  have later: "dget (ti_rows t) (ti_id q) = Some q \<and> ti_status q \<in> recovery_statuses" if "q \<in> set rs" for q
  proof -
    have "ti_id r \<noteq> ti_id q" using Cons.prems(1) that by auto
    from sameD [OF recover_or_fail_other_row [OF quiet this], of s] m Cons.prems(3) [of q] that
    show ?thesis by (simp add: other_row_def)
  qed
  show ?case
  proof (cases x)
    case (Ok ys)
    have rest: "rows_age t (snd (collect (recover_or_fail calls) rs t)) \<and>
        rows_ok (snd (collect (recover_or_fail calls) rs t))"
      using Cons.prems(1) ok later by (intro Cons.IH) auto
    have "snd (collect (recover_or_fail calls) (r # rs) s) = snd (collect (recover_or_fail calls) rs t)"
      using m Ok by (simp add: bind_def ret_def split: prod.splits res.splits)
    then show ?thesis using rest rows_age_trans [OF st] by simp
  next
    case (Raise e)
    then show ?thesis using m st ok by (simp add: bind_Raise)
  qed
qed

lemma get_by_status_rows:
  assumes "rows_ok s"
  shows "distinct (map ti_id (get_by_status st s))"
    "r \<in> set (get_by_status st s) \<Longrightarrow> dget (ti_rows s) (ti_id r) = Some r \<and> ti_status r = st"
proof -
  have ids: "map ti_id (map snd (ti_rows s)) = map fst (ti_rows s)"
    using assms by (auto simp: rows_ok_def dict_ok_def)
  have "distinct (map ti_id (map snd (ti_rows s)))"
    using assms unfolding ids by (simp add: rows_ok_def dict_ok_def)
  then show "distinct (map ti_id (get_by_status st s))"
    unfolding get_by_status_def by (simp only: distinct_map_filter)
  assume "r \<in> set (get_by_status st s)"
  then show "dget (ti_rows s) (ti_id r) = Some r \<and> ti_status r = st"
    using assms by (auto simp: get_by_status_def rows_ok_def dict_ok_def)
qed

lemma recover_status_ages:
  assumes quiet: "quiet_process_calls calls" and ok: "rows_ok s" and "st \<in> {T_RUNNING, T_PAUSED, T_RECOVERING}"
  shows "rows_age s (snd (recover_status calls st s)) \<and> rows_ok (snd (recover_status calls st s))"
  unfolding recover_status_def reading_def
  by (rule recover_all_rows [OF quiet get_by_status_rows(1) [OF ok] ok])
    (use get_by_status_rows(2) [OF ok] assms(3) in \<open>auto simp: recovery_statuses_def\<close>)

text \<open>One operation of the manager, by any user, or something that leaves the instances alone.\<close>

inductive manager_step :: "('x, 'f, 'r, 'm) pcalls \<Rightarrow> ('x, 'f, 'r, 'm) process_manager_scheme \<Rightarrow>
    ('x, 'f, 'r, 'm) process_manager_scheme \<Rightarrow> bool" for calls where
  created: "manager_step calls s (snd (create_process calls u a st gp y sp amount bc qc md cs cr be s))"
| prepared: "manager_step calls s (snd (prepare_process calls i u s))"
| started: "manager_step calls s (snd (start_process calls i u s))"
| paused: "manager_step calls s (snd (pause_process calls i u s))"
| resumed: "manager_step calls s (snd (resume_process calls i u s))"
| stopped: "manager_step calls s (snd (stop_process calls i u s))"
| recovered: "manager_step calls s (snd (recover_processes calls s))"
| elsewhere: "ti_rows t = ti_rows s \<Longrightarrow> manager_step calls s t"

lemma create_ages: "rows_age s (snd (create_process calls u a st gp y sp amount bc qc md cs cr be s))"
  by (auto simp: create_process_def rows_age_def py_simps Let_def split: option.splits)

lemma create_rows_ok: "rows_ok s \<Longrightarrow> rows_ok (snd (create_process calls u a st gp y sp amount bc qc md cs cr be s))"
  by (auto simp: create_process_def rows_ok_def py_simps Let_def split: option.splits)

lemma recover_statuses_age:
  assumes quiet: "quiet_process_calls calls" and "rows_ok s" and "set sts \<subseteq> {T_RUNNING, T_PAUSED, T_RECOVERING}"
  shows "rows_age s (snd (collect (recover_status calls) sts s)) \<and> rows_ok (snd (collect (recover_status calls) sts s))"
  using assms(2,3)
proof (induction sts arbitrary: s)
  case Nil
  then show ?case by (simp add: ret_def rows_age_refl)
next
  case (Cons st sts)
  obtain x t where m: "recover_status calls st s = (x, t)" by (cases "recover_status calls st s")
  have t: "rows_age s t" "rows_ok t"
    using recover_status_ages [OF quiet Cons.prems(1), of st] Cons.prems(2) m by simp_all
  have rest: "rows_age t (snd (collect (recover_status calls) sts t)) \<and>
      rows_ok (snd (collect (recover_status calls) sts t))"
    using Cons.prems(2) by (intro Cons.IH t) simp
  show ?case
    using m t rest rows_age_trans [OF t(1)]
    by (cases x) (auto simp: bind_def ret_def split: prod.splits res.splits)
qed

lemma manager_step_ages:
  assumes quiet: "quiet_process_calls calls" and "rows_ok s" and "manager_step calls s t"
  shows "rows_age s t \<and> rows_ok t"
  using assms(3,2)
proof cases
  case elsewhere
  then show ?thesis using assms(2) by (simp add: rows_age_def rows_ok_def)
qed (use recover_statuses_age [OF quiet, of s "[T_RUNNING, T_PAUSED, T_RECOVERING]"]
      handlers_age [OF quiet, THEN obeysD] handlers_rows_ok [OF quiet, THEN keepsD]
    in \<open>simp_all add: create_ages create_rows_ok recover_processes_def\<close>)

lemma manager_history_ages:
  assumes quiet: "quiet_process_calls calls" and "rows_ok s" and "(manager_step calls)\<^sup>*\<^sup>* s t"
  shows "rows_age s t \<and> rows_ok t"
  using assms(3,2)
proof (induction rule: rtranclp_induct)
  case base
  then show ?case by (simp add: rows_age_refl)
next
  case (step t u)
  then show ?case using manager_step_ages [OF quiet _ step.hyps(2)] rows_age_trans by blast
qed

text \<open>
  C21. The life of a trading instance only goes forward. Over any history of creations, preparations,
  starts, pauses, resumptions, stops and recoveries (with calls to the outside that leave the rows
  alone), an instance stays in the table with its owner, account, strategy and symbol; it never goes
  back from running to ready or from stopping to running; and once it is stopped or in error it
  keeps that status for good, recoveries after a restart included.
\<close>

theorem instance_life_goes_forward:
  assumes "quiet_process_calls calls" and "rows_ok s" and "(manager_step calls)\<^sup>*\<^sup>* s t"
    and "dget (ti_rows s) i = Some r"
  shows "\<exists>r'. dget (ti_rows t) i = Some r' \<and> same_instance r r' \<and>
    life_phase (ti_status r) \<le> life_phase (ti_status r') \<and>
    (ti_status r \<in> {T_STOPPED, T_ERROR} \<longrightarrow> ti_status r' = ti_status r)"
proof -
  obtain r' where r': "dget (ti_rows t) i = Some r'" "row_ages r r'"
    using manager_history_ages [OF assms(1-3)] assms(4) by (auto simp: rows_age_def)
  then have "ages (ti_status r) (ti_status r')" "same_instance r r'" by (simp_all add: row_ages_def)
  with r'(1) show ?thesis by (auto simp: ages_def)
qed

section \<open>Subscriptions\<close>

text \<open>The process of an instance, if it has one, gets no prices.\<close>

definition unsubscribed :: "uuid \<Rightarrow> ('x, 'f, 'r, 'm) process_manager_scheme \<Rightarrow> bool" where
  "unsubscribed i s \<longleftrightarrow> (\<forall>p. get_process i s = Some p \<longrightarrow> tp_subscription_id p = None)"

text \<open>What the manager does outside the registry leaves the process of the instance as it is.\<close>

lemma registry_kept:
  "obeys (same process_registry) m \<Longrightarrow> obeys (same (get_process i)) m"
  by (simp add: obeys_def same_def get_process_def)

lemma persist_registry: "obeys (same process_registry) (persist_instance i f)"
  by (auto simp: obeys_def same_def persist_instance_def modify_def split: option.splits)

lemma quiet_registry:
  assumes "quiet_process_calls calls"
  shows "obeys (same process_registry) (build_process calls r)"
    "obeys (same process_registry) (acquire_lock calls i w ttl)"
    "obeys (same process_registry) (release_process_lock calls i)"
    "obeys (same process_registry) (set_state calls i st)" "obeys (same process_registry) (persist_state calls i)"
    "obeys (same process_registry) (get_instance i)" "obeys (same process_registry) (check_duplicate_running r)"
    "obeys (same process_registry) now"
  by (rule outside_frames(2), rule clients_outside [OF assms] store_outside [OF assms]
      persist_state_outside [OF assms] queries_outside outside_now)+

lemma on_process_eq:
  "on_process i f s = (Ok (), case get_process i s of None \<Rightarrow> s
     | Some p \<Rightarrow> s\<lparr>process_registry := dput i (f p) (process_registry s)\<rparr>)"
  by (simp add: on_process_def get_process_def modify_def split: option.split)

lemma set_process_status_eq:
  "set_process_status i st s = on_process i (with_status st (clock s)) s"
  by (simp add: set_process_status_def now_def bind_gets)

lemma unwire_unsubscribes:
  assumes quiet: "quiet_process_calls calls"
  shows "unsubscribed i (snd (unwire_grid_and_market calls i s))"
proof -
  let ?first = "reading (\<lambda>s. case get_process i s of None \<Rightarrow> ret () | Some p \<Rightarrow>
      (case tp_subscription_id p of None \<Rightarrow> ret () | Some sub \<Rightarrow>
        seq (case pc_market_hub calls of None \<Rightarrow> ret ()
             | Some hub \<Rightarrow> try_catch (hub_unsubscribe hub sub) (\<lambda>_. ret ()))
          (on_process i (\<lambda>p. p\<lparr>tp_subscription_id := None\<rparr>))))"
  let ?second = "if pc_grid_engine calls then try_catch (seq (pause_grid (str_uuid i)) (ret ())) (\<lambda>_. ret ())
      else ret ()"
  have hub: "total (case pc_market_hub calls of None \<Rightarrow> ret ()
      | Some hub \<Rightarrow> try_catch (hub_unsubscribe hub sub) (\<lambda>_. ret ()))" for sub
    by (intro total_intros)
  have first: "\<exists>t. ?first s = (Ok (), t) \<and> unsubscribed i t"
  proof (cases "get_process i s")
    case (Some p)
    show ?thesis
    proof (cases "tp_subscription_id p")
      case (Some sub)
      obtain a t where t: "(case pc_market_hub calls of None \<Rightarrow> ret ()
          | Some hub \<Rightarrow> try_catch (hub_unsubscribe hub sub) (\<lambda>_. ret ())) s = (Ok a, t)"
        using hub by (rule totalE)
      then show ?thesis
        using \<open>get_process i s = Some p\<close> Some
        by (auto simp: reading_def seq_Ok on_process_eq unsubscribed_def get_process_def split: option.splits)
    qed (use Some in \<open>simp add: reading_def ret_def unsubscribed_def\<close>)
  qed (simp add: reading_def ret_def unsubscribed_def)
  then obtain t where t: "?first s = (Ok (), t)" "unsubscribed i t" by blast
  have "obeys (same process_registry) ?second"
    by (intro resp_intros below_manager_frames(2) [OF grid_lifecycle_below_manager(3)])
  then have "get_process i (snd (?second t)) = get_process i t"
    by (rule sameD [OF registry_kept])
  then have "unsubscribed i (snd (?second t))"
    using t(2) by (simp add: unsubscribed_def)
  moreover have "unwire_grid_and_market calls i s = ?second t"
    unfolding unwire_grid_and_market_def by (rule seq_Ok, rule t(1))
  ultimately show ?thesis by simp
qed

lemma unsubscribed_kept: "obeys (same process_registry) m \<Longrightarrow> obeys (keeps (unsubscribed i)) m"
  by (simp add: obeys_def same_def keeps_def unsubscribed_def get_process_def)

lemma set_status_unsubscribed: "obeys (keeps (unsubscribed i)) (set_process_status j st)"
  by (auto simp: obeys_def keeps_def unsubscribed_def set_process_status_eq on_process_eq get_process_def
      with_status_def split: option.splits)

lemma pause_unsubscribes:
  assumes quiet: "quiet_process_calls calls" and run: "pause_process calls i user s = (Ok a, t)"
  shows "unsubscribed i t"
proof -
  define rest where "rest = seq (set_process_status i T_PAUSED)
     (seq (reading (\<lambda>s. persist_instance i (\<lambda>r. r\<lparr>ti_status := T_PAUSED, ti_memory_snapshot := snapshot_of i s r\<rparr>)))
     (seq (persist_state calls i) (seq (release_process_lock calls i) (get_instance i))))"
  obtain r s1 where "seq (lift_res (validate_ownership r user))
      (seq (lift_res (validate_process_transition (ti_status r) T_PAUSED))
        (seq (ensure_process calls r) (seq (unwire_grid_and_market calls i) rest))) s1 = (Ok a, t)"
    using run unfolding pause_process_def rest_def by (elim bind_OkE)
  then obtain s2 u where u: "unwire_grid_and_market calls i s2 = (Ok (), u)" "rest u = (Ok a, t)"
    by (auto elim!: seq_OkE)
  have "obeys (keeps (unsubscribed i)) rest"
    unfolding rest_def
    by (intro inv_rules set_status_unsubscribed unsubscribed_kept quiet_registry [OF quiet] obeys_reading persist_registry)
  then have "unsubscribed i u \<Longrightarrow> unsubscribed i t" using keepsD [of "unsubscribed i" rest u] u(2) by simp
  then show ?thesis
    using unwire_unsubscribes [OF quiet, of i s2] u(1) by simp
qed

text \<open>The part of the engines that resuming would have to touch to trade again.\<close>

definition engine_view :: "('x, 'f, 'r, 'm) process_manager_scheme \<Rightarrow>
    (string, grid_state) dict \<times> tracker \<times> (string, plock_state) dict" where
  "engine_view s = (grids s, trk s, pl_states s)"

lemma plock_more_grids:
  fixes s t :: "('x, 'f, 'm) grid_engine_scheme"
  assumes "plock_engine.more t = plock_engine.more s"
  shows "grids t = grids s"
  using assms by (cases s; cases t) simp

lemma outside_engine_view:
  assumes "outside (m :: ('x, 'f, 'r, 'm, 'a) pm)"
  shows "obeys (same engine_view) m"
proof -
  note exec = world_frame_exec [OF assms]
  have "obeys (same grids) m"
    unfolding obeys_def same_def using plock_more_grids [OF sameD [OF exec_frames_plock(3) [OF exec(4)]]] by simp
  then show ?thesis
    using exec(1) exec_frames_plock(1) [OF exec(4)] by (simp add: obeys_def same_def engine_view_def)
qed

lemma manager_engine_view:
  "obeys (same engine_view) (register_process p)" "obeys (same engine_view) (on_process i f)"
  "obeys (same engine_view) (persist_instance i g)"
  by (auto simp: obeys_def same_def engine_view_def register_process_def on_process_def persist_instance_def
      modify_def split: option.splits)

lemma resume_engine_view:
  assumes quiet: "quiet_process_calls calls"
  shows "obeys (same engine_view) (resume_process calls i user)"
proof -
  note calls = store_outside [OF quiet] clients_outside [OF quiet] persist_state_outside [OF quiet]
    queries_outside outside_now
  show ?thesis
    unfolding resume_process_def ensure_process_def set_process_status_def
    by (intro resp_intros manager_engine_view calls [THEN outside_engine_view])
qed

lemma ensure_registers:
  assumes quiet: "quiet_process_calls calls" and "ensure_process calls r s = (Ok (), t)"
  shows "get_process (ti_id r) t \<noteq> None" "unsubscribed (ti_id r) s \<Longrightarrow> unsubscribed (ti_id r) t"
proof -
  have build: "tp_instance_id p = ti_id r \<and> tp_subscription_id p = None"
    if "build_process calls r s = (Ok p, u)" for p u
    using that by (auto simp: build_process_def reading_def ret_def throw_def lift_res_def now_def gets_def
        split: option.splits elim!: seq_OkE bind_OkE)
  show "get_process (ti_id r) t \<noteq> None" "unsubscribed (ti_id r) s \<Longrightarrow> unsubscribed (ti_id r) t"
    using assms(2) build
    by (auto simp: ensure_process_def reading_def ret_def get_process_def register_process_def modify_def
        unsubscribed_def split: if_splits elim!: bind_OkE)
qed

lemma get_instance_OkE:
  assumes "get_instance i s = (Ok r, t)"
  shows "t = s" "dget (ti_rows s) i = Some r"
  using assms by (auto simp: get_instance_def reading_def ret_def throw_def split: option.splits)

lemma persisted_status:
  assumes "persist_instance i f s = (x, t)" and "dget (ti_rows t) i = Some b" and "\<And>r. ti_status (f r) = st"
  shows "ti_status b = st"
  using assms by (auto simp: persist_instance_def modify_def split: option.splits)

lemma resume_tail:
  assumes quiet: "quiet_process_calls calls" and process: "get_process i s \<noteq> None" "unsubscribed i s"
    and run: "seq (set_process_status i T_RUNNING)
      (seq (reading (\<lambda>s. persist_instance i (\<lambda>r. r\<lparr>ti_status := T_RUNNING, ti_memory_snapshot := snapshot_of i s r\<rparr>)))
      (seq (persist_state calls i) (get_instance i))) s = (Ok b, u)"
  shows "dget (ti_rows u) i = Some b \<and> ti_status b = T_RUNNING \<and>
    (\<exists>p. get_process i u = Some p \<and> tp_status p = T_RUNNING \<and> tp_subscription_id p = None)"
proof -
  obtain s1 where s1: "set_process_status i T_RUNNING s = (Ok (), s1)"
    and "seq (reading (\<lambda>s. persist_instance i (\<lambda>r. r\<lparr>ti_status := T_RUNNING, ti_memory_snapshot := snapshot_of i s r\<rparr>)))
      (seq (persist_state calls i) (get_instance i)) s1 = (Ok b, u)"
    using run by (rule seq_OkE) auto
  from this(2) obtain s2 where
    s2: "reading (\<lambda>s. persist_instance i (\<lambda>r. r\<lparr>ti_status := T_RUNNING, ti_memory_snapshot := snapshot_of i s r\<rparr>)) s1 = (Ok (), s2)"
    and "seq (persist_state calls i) (get_instance i) s2 = (Ok b, u)"
    by (rule seq_OkE) auto
  from this(2) obtain s3 where s3: "persist_state calls i s2 = (Ok (), s3)" and "get_instance i s3 = (Ok b, u)"
    by (rule seq_OkE) auto
  note u = get_instance_OkE [OF this(2)]
  have rows: "ti_rows s3 = ti_rows s2" using sameD [OF quiet_rows(9) [OF quiet], of i s2] s3 by simp
  have "get_process i (snd (persist_state calls i s2)) = get_process i s2"
    by (rule sameD [OF registry_kept [OF quiet_registry(5) [OF quiet]]])
  then have "get_process i s3 = get_process i s2" using s3 by simp
  moreover have "get_process i (snd (reading (\<lambda>s. persist_instance i
      (\<lambda>r. r\<lparr>ti_status := T_RUNNING, ti_memory_snapshot := snapshot_of i s r\<rparr>)) s1)) = get_process i s1"
    by (rule sameD [OF registry_kept [OF obeys_reading [OF persist_registry]]])
  then have "get_process i s2 = get_process i s1" using s2 by simp
  moreover have "\<exists>p. get_process i s1 = Some p \<and> tp_status p = T_RUNNING \<and> tp_subscription_id p = None"
    using s1 process by (auto simp: set_process_status_eq on_process_eq get_process_def with_status_def unsubscribed_def)
  ultimately show ?thesis
    using u rows persisted_status [OF s2 [unfolded reading_def], of b T_RUNNING] by simp
qed

lemma seq_lift_OkD: "seq (lift_res c) n s = (Ok b, t) \<Longrightarrow> n s = (Ok b, t)"
  by (auto simp: lift_res_def elim!: seq_OkE)

lemma resume_prefix:
  assumes run: "resume_process calls i user t = (Ok b, u)"
  obtains r s1 s2 s3 where "dget (ti_rows t) i = Some r" and "release_process_lock calls i t = (Ok s1, s2)"
    and "acquire_lock calls i (pm_worker_id s2) 60 s2 = (Ok True, s3)"
    and "seq (ensure_process calls r) (seq (set_process_status i T_RUNNING)
      (seq (reading (\<lambda>s. persist_instance i (\<lambda>r. r\<lparr>ti_status := T_RUNNING, ti_memory_snapshot := snapshot_of i s r\<rparr>)))
      (seq (persist_state calls i) (get_instance i)))) s3 = (Ok b, u)"
proof -
  define rest where "rest r = seq (ensure_process calls r) (seq (set_process_status i T_RUNNING)
      (seq (reading (\<lambda>s. persist_instance i (\<lambda>r. r\<lparr>ti_status := T_RUNNING, ti_memory_snapshot := snapshot_of i s r\<rparr>)))
      (seq (persist_state calls i) (get_instance i))))" for r
  from run obtain r t0 where r: "get_instance i t = (Ok r, t0)"
    and "seq (lift_res (validate_ownership r user))
     (seq (lift_res (validate_process_transition (ti_status r) T_RUNNING))
     (seq (release_process_lock calls i)
     (bind (reading (\<lambda>s. acquire_lock calls i (pm_worker_id s) 60)) (\<lambda>acquired.
       if \<not> acquired then throw (locked_elsewhere r) else rest r)))) t0 = (Ok b, u)"
    unfolding resume_process_def rest_def by (rule bind_OkE)
  from this(2) have "seq (release_process_lock calls i)
     (bind (reading (\<lambda>s. acquire_lock calls i (pm_worker_id s) 60)) (\<lambda>acquired.
       if \<not> acquired then throw (locked_elsewhere r) else rest r)) t0 = (Ok b, u)"
    by (rule seq_lift_OkD [THEN seq_lift_OkD])
  then obtain x s2 where rel: "release_process_lock calls i t0 = (Ok x, s2)"
    and "bind (reading (\<lambda>s. acquire_lock calls i (pm_worker_id s) 60)) (\<lambda>acquired.
       if \<not> acquired then throw (locked_elsewhere r) else rest r) s2 = (Ok b, u)"
    by (rule seq_OkE)
  from this(2) obtain acquired s3 where "reading (\<lambda>s. acquire_lock calls i (pm_worker_id s) 60) s2 = (Ok acquired, s3)"
    and "(if \<not> acquired then throw (locked_elsewhere r) else rest r) s3 = (Ok b, u)"
    by (rule bind_OkE)
  then have "acquire_lock calls i (pm_worker_id s2) 60 s2 = (Ok True, s3)" "rest r s3 = (Ok b, u)"
    by (auto simp: throw_def reading_def split: if_splits)
  then show thesis using that [of r x s2 s3] get_instance_OkE [OF r] rel by (simp add: rest_def)
qed

lemma pause_keeps_rows_ok:
  assumes "quiet_process_calls calls" and "rows_ok s" and "pause_process calls i user s = (Ok a, t)"
  shows "rows_ok t"
  using keepsD [OF handlers_rows_ok(3) [OF assms(1)], of s i user] assms(2,3) by simp

text \<open>
  A resumed instance gets no prices and its grid stays paused. Once an instance has been paused,
  resuming it puts the row and the registered process back to RUNNING, but the process has no price
  subscription, and the grids, the tracked orders and the profit locks are exactly those that the
  pause left: nothing that the pause took down is set up again.
\<close>

theorem resumed_instance_gets_no_prices:
  assumes quiet: "quiet_process_calls calls" and ok: "rows_ok s"
    and pause: "pause_process calls i user s = (Ok a, t)"
    and resume: "resume_process calls i user' t = (Ok b, u)"
  shows "dget (ti_rows u) i = Some b \<and> ti_status b = T_RUNNING \<and>
    (\<exists>p. get_process i u = Some p \<and> tp_status p = T_RUNNING \<and> tp_subscription_id p = None) \<and>
    grids u = grids t \<and> trk u = trk t \<and> pl_states u = pl_states t"
proof -
  obtain r x s2 s3 where r: "dget (ti_rows t) i = Some r" and s2: "release_process_lock calls i t = (Ok x, s2)"
    and s3: "acquire_lock calls i (pm_worker_id s2) 60 s2 = (Ok True, s3)"
    and "seq (ensure_process calls r) (seq (set_process_status i T_RUNNING)
      (seq (reading (\<lambda>s. persist_instance i (\<lambda>r. r\<lparr>ti_status := T_RUNNING, ti_memory_snapshot := snapshot_of i s r\<rparr>)))
      (seq (persist_state calls i) (get_instance i)))) s3 = (Ok b, u)"
    using resume by (rule resume_prefix)
  from this(4) obtain s4 where s4: "ensure_process calls r s3 = (Ok (), s4)"
    and rest: "seq (set_process_status i T_RUNNING)
      (seq (reading (\<lambda>s. persist_instance i (\<lambda>r. r\<lparr>ti_status := T_RUNNING, ti_memory_snapshot := snapshot_of i s r\<rparr>)))
      (seq (persist_state calls i) (get_instance i))) s4 = (Ok b, u)"
    by (rule seq_OkE) auto
  have id: "ti_id r = i" using pause_keeps_rows_ok [OF quiet ok pause] r by (simp add: rows_ok_def)
  have "unsubscribed i s2"
    using keepsD [OF unsubscribed_kept [OF quiet_registry(3) [OF quiet]], of i t i]
      pause_unsubscribes [OF quiet pause] s2 by simp
  then have "unsubscribed i s3"
    using keepsD [OF unsubscribed_kept [OF quiet_registry(2) [OF quiet]], of i s2 i "pm_worker_id s2" 60] s3 by simp
  then have "get_process i s4 \<noteq> None" "unsubscribed i s4"
    using ensure_registers [OF quiet s4] id by simp_all
  from resume_tail [OF quiet this rest] show ?thesis
    using sameD [OF resume_engine_view [OF quiet], of i user' t] resume by (simp add: engine_view_def)
qed

section \<open>Starting with a breaker\<close>

text \<open>The process of an instance runs without a price subscription.\<close>

definition runs_unsubscribed :: "uuid \<Rightarrow> ('x, 'f, 'r, 'm) process_manager_scheme \<Rightarrow> bool" where
  "runs_unsubscribed i s \<longleftrightarrow>
     (\<exists>p. get_process i s = Some p \<and> tp_status p = T_RUNNING \<and> tp_subscription_id p = None)"

lemma runs_unsubscribed_kept: "obeys (same process_registry) m \<Longrightarrow> obeys (keeps (runs_unsubscribed i)) m"
  by (simp add: obeys_def same_def keeps_def runs_unsubscribed_def get_process_def)

lemma wiring_with_breaker:
  assumes quiet: "quiet_process_calls calls" and "ti_breaker_enabled r" and "ti_continuation_rate r \<noteq> None"
  shows "obeys (same process_registry) (wire_grid_and_market calls r e)"
proof -
  have steps: "obeys (same process_registry) (wire_steps hub r e inv steps)"
    if "pc_market_hub calls = Some hub" for hub inv steps
    unfolding wire_steps_def Let_def using assms(2,3)
    by (simp, intro resp_intros quiet_callsD [OF quiet, THEN outside_frames(2)] that
        below_manager_frames(2) [OF grid_lifecycle_below_manager(1)]
        below_manager_frames(2) [OF grid_lifecycle_below_manager(2)])
  show ?thesis unfolding wire_grid_and_market_def Let_def by (intro resp_intros steps)
qed

lemma build_process_fields:
  "build_process calls r s = (Ok p, t) \<Longrightarrow> tp_instance_id p = ti_id r \<and> tp_subscription_id p = None"
  by (auto simp: build_process_def reading_def ret_def throw_def lift_res_def now_def gets_def
      split: option.splits elim!: seq_OkE bind_OkE)

lemma registered_runs_unsubscribed:
  assumes "tp_instance_id p = i" and "tp_subscription_id p = None"
  shows "runs_unsubscribed i (snd (register_process (with_status T_RUNNING c p) s))"
  using assms by (simp add: runs_unsubscribed_def register_process_def modify_def with_status_def get_process_def)

lemma start_tail:
  assumes quiet: "quiet_process_calls calls"
    and run: "record_started calls i s = (Ok a, t)"
  shows "ti_status a = T_RUNNING"
proof -
  obtain c s1 where "seq (reading (\<lambda>s. persist_instance i (\<lambda>r. r\<lparr>ti_status := T_RUNNING, ti_started_at := Some c,
                ti_worker_id := Some (pm_worker_id s), ti_memory_snapshot := snapshot_of i s r,
                ti_memory_version := 1\<rparr>))) (seq (persist_state calls i) (get_instance i)) s1 = (Ok a, t)"
    using run unfolding record_started_def by (rule bind_OkE)
  then obtain x s2 where p: "persist_instance i (\<lambda>r. r\<lparr>ti_status := T_RUNNING, ti_started_at := Some c,
                ti_worker_id := Some (pm_worker_id s1), ti_memory_snapshot := snapshot_of i s1 r,
                ti_memory_version := 1\<rparr>) s1 = (Ok x, s2)"
    and "seq (persist_state calls i) (get_instance i) s2 = (Ok a, t)"
    by (rule seq_OkE) (simp add: reading_def)
  from this(2) obtain y s3 where s3: "persist_state calls i s2 = (Ok y, s3)" "get_instance i s3 = (Ok a, t)"
    by (rule seq_OkE)
  have "ti_rows s3 = ti_rows s2" using sameD [OF quiet_rows(9) [OF quiet], of i s2] s3(1) by simp
  then show ?thesis
    using get_instance_OkE [OF s3(2)] persisted_status [OF p, of a T_RUNNING] by simp
qed

lemma start_prefix:
  assumes "start_process calls i user s = (Ok a, t)"
  obtains r s1 p c s2 where "dget (ti_rows s) i = Some r" and "build_process calls r s1 = (Ok p, s2)"
    and "seq (register_process (with_status T_RUNNING c p)) (seq (wire_grid_and_market calls r (tp_exchange_name p))
         (record_started calls i)) s2 = (Ok a, t)"
proof -
  obtain r s0 where r: "get_instance i s = (Ok r, s0)" and
    "seq (lift_res (validate_ownership r user)) (seq (lift_res (validate_process_transition (ti_status r) T_RUNNING))
     (seq (check_duplicate_running r) (bind (reading (\<lambda>s. acquire_lock calls i (pm_worker_id s) 60)) (\<lambda>acquired.
       if \<not> acquired then throw (locked_elsewhere r) else bind (build_process calls r) (\<lambda>p. bind now (\<lambda>t.
         seq (register_process (with_status T_RUNNING t p)) (seq (wire_grid_and_market calls r (tp_exchange_name p)) (record_started calls i)))))))) s0 = (Ok a, t)"
    using assms unfolding start_process_def by (rule bind_OkE)
  from seq_lift_OkD [OF seq_lift_OkD [OF this(2)]] obtain x s1 where
    "bind (reading (\<lambda>s. acquire_lock calls i (pm_worker_id s) 60)) (\<lambda>acquired.
       if \<not> acquired then throw (locked_elsewhere r) else bind (build_process calls r) (\<lambda>p. bind now (\<lambda>t.
         seq (register_process (with_status T_RUNNING t p)) (seq (wire_grid_and_market calls r (tp_exchange_name p)) (record_started calls i))))) s1 = (Ok a, t)"
    by (rule seq_OkE)
  then obtain acquired s2 where "(if \<not> acquired then throw (locked_elsewhere r)
       else bind (build_process calls r) (\<lambda>p. bind now (\<lambda>t.
         seq (register_process (with_status T_RUNNING t p)) (seq (wire_grid_and_market calls r (tp_exchange_name p)) (record_started calls i))))) s2 = (Ok a, t)"
    by (rule bind_OkE)
  then have "bind (build_process calls r) (\<lambda>p. bind now (\<lambda>t.
         seq (register_process (with_status T_RUNNING t p)) (seq (wire_grid_and_market calls r (tp_exchange_name p)) (record_started calls i)))) s2 = (Ok a, t)"
    by (auto simp: throw_def split: if_splits)
  then obtain p s3 where "build_process calls r s2 = (Ok p, s3)" and "bind now (\<lambda>t.
         seq (register_process (with_status T_RUNNING t p)) (seq (wire_grid_and_market calls r (tp_exchange_name p)) (record_started calls i))) s3 = (Ok a, t)"
    by (rule bind_OkE)
  then show thesis
    using that [of r s2 p s3] get_instance_OkE [OF r] by (simp add: now_def bind_gets)
qed

text \<open>
  An instance with a circuit breaker starts without prices. When an instance has its breaker
  enabled and a continuation rate, a start that succeeds leaves the row and the registered process
  RUNNING, but without a subscription to prices: setting up the breaker raises inside the wiring,
  before the subscription, and the wiring drops what it raises.
\<close>

theorem breaker_instance_starts_without_prices:
  assumes quiet: "quiet_process_calls calls" and ok: "rows_ok s"
    and row: "dget (ti_rows s) i = Some r" "ti_breaker_enabled r" "ti_continuation_rate r \<noteq> None"
    and run: "start_process calls i user s = (Ok a, t)"
  shows "ti_status a = T_RUNNING \<and> runs_unsubscribed i t"
proof -
  obtain r' s1 p c s2 where r': "dget (ti_rows s) i = Some r'" and p: "build_process calls r' s1 = (Ok p, s2)"
    and "seq (register_process (with_status T_RUNNING c p)) (seq (wire_grid_and_market calls r' (tp_exchange_name p))
         (record_started calls i)) s2 = (Ok a, t)"
    using run by (rule start_prefix)
  from this(3) obtain x s3 where s3: "register_process (with_status T_RUNNING c p) s2 = (Ok x, s3)"
    and "seq (wire_grid_and_market calls r' (tp_exchange_name p)) (record_started calls i) s3 = (Ok a, t)"
    by (rule seq_OkE)
  moreover have r: "r' = r" using r' row(1) by simp
  ultimately have "seq (wire_grid_and_market calls r (tp_exchange_name p)) (record_started calls i) s3 = (Ok a, t)" by simp
  then obtain y s4 where s4: "wire_grid_and_market calls r (tp_exchange_name p) s3 = (Ok y, s4)"
    and tail: "record_started calls i s4 = (Ok a, t)"
    by (rule seq_OkE)
  have "ti_id r = i" using ok row(1) by (simp add: rows_ok_def)
  then have "runs_unsubscribed i s3"
    using registered_runs_unsubscribed [of p i c s2] build_process_fields [OF p] s3 r by simp
  then have "runs_unsubscribed i s4"
    using keepsD [OF runs_unsubscribed_kept [OF wiring_with_breaker [OF quiet row(2,3)]], of i s3] s4
    by (metis snd_conv)
  moreover have "obeys (keeps (runs_unsubscribed i)) (record_started calls i)"
    unfolding record_started_def
    by (intro inv_rules runs_unsubscribed_kept quiet_registry [OF quiet] obeys_reading persist_registry)
  ultimately have "runs_unsubscribed i t" using keepsD [of "runs_unsubscribed i" "record_started calls i" s4] tail by simp
  then show ?thesis using start_tail [OF quiet tail] by simp
qed

section \<open>Concrete runs\<close>

definition price_hub :: "'s market_hub" where
  "price_hub = \<lparr>hub_get_price = (\<lambda>_ _. ret 100), hub_subscribe = (\<lambda>_ _ k. ret k), hub_unsubscribe = (\<lambda>_. ret ())\<rparr>"

definition sample_calls :: "('s, 'r) process_calls" where
  "sample_calls = \<lparr>pc_redis = None, pc_is_registered = (\<lambda>_. True), pc_decrypt = Ok,
     pc_initialize = (\<lambda>_ _. ret ()), pc_authenticate = (\<lambda>_ _ _. ret True),
     pc_supported_symbols = (\<lambda>_. ret [''BTCUSDT'']), pc_health_check = (\<lambda>_. ret True),
     pc_disconnect = (\<lambda>_. ret ()), pc_market_hub = Some price_hub, pc_grid_engine = True\<rparr>"

definition sample_row :: "unit trading_instance" where
  "sample_row = \<lparr>ti_id = 1, ti_user_id = 7, ti_exchange_account_id = 2, ti_strategy_id = 3,
     ti_grid_profile_id = 4, ti_symbol = ''BTCUSDT'', ti_status = T_RUNNING, ti_start_price = 100,
     ti_total_investment = 1000, ti_base_currency = ''BTC'', ti_quote_currency = ''USDT'',
     ti_strategy_mode = None, ti_selected_coins = None, ti_continuation_rate = None,
     ti_breaker_enabled = False, ti_worker_id = None, ti_memory_snapshot = None, ti_memory_version = 1,
     ti_error_message = None, ti_started_at = None, ti_stopped_at = None, ti_deleted_at = None\<rparr>"

definition sample_process :: "unit trading_process" where
  "sample_process = \<lparr>tp_instance_id = 1, tp_user_id = 7, tp_exchange_account_id = 2, tp_strategy_id = 3,
     tp_symbol = ''BTCUSDT'', tp_exchange_name = ''okx'', tp_status = T_RUNNING,
     tp_memory = initial_memory sample_row 0, tp_worker_id = ''w'', tp_lock_value = ''w:0'',
     tp_subscription_id = Some ''sub''\<rparr>"

definition sample_grid :: grid_state where
  "sample_grid = \<lparr>g_instance_id = str_uuid 1, g_status = G_ACTIVE, g_upper_price = 100, g_lower_price = 0,
     g_grid_count = 0, g_grid_spacing = 1, g_investment_per_grid = 100, g_levels = [], g_total_cycles = 0,
     g_total_profit = 0, g_exchange_account_id = Some 2, g_symbol = ''BTCUSDT'', g_current_price = Some 100\<rparr>"

definition running_manager :: "(unit, unit, unit) process_manager" where
  "running_manager = \<lparr>clock = 0, uuid_next = 9, sleeps = [], exch = (), trk = empty_tracker, adapters = [],
     executor_config = default_executor, pl_states = [], pl_metrics = [], grids = [(str_uuid 1, sample_grid)], trailing_config = [],
     ta_configs = [], ta_candles = [], breakers = [], ta_candles_15m = [], has_profit_lock = False,
     ti_rows = [(1, sample_row)], account_rows = [], strategy_rows = [], profile_rows = [],
     averaging_rows = [], process_registry = [(1, sample_process)], pm_worker_id = ''w''\<rparr>"

lemma sample_calls_quiet: "quiet_process_calls sample_calls"
  unfolding quiet_process_calls_def quiet_hub_def
  by (simp add: sample_calls_def price_hub_def) (intro conjI allI resp_intros)

lemma running_rows_ok: "rows_ok running_manager"
  by (simp add: rows_ok_def running_manager_def sample_row_def dict_ok_def)

lemmas sample_defs = running_manager_def sample_calls_def price_hub_def sample_row_def sample_process_def
  sample_grid_def

lemmas sample_run = get_instance_def validate_ownership_def validate_process_transition_def ensure_process_def
  unwire_grid_and_market_def pause_grid_def with_grid_def grid_get_def list_levels_def plan_cancel_all_def
  transition_grid_def grid_set_def set_process_status_def on_process_def with_status_def get_process_def
  persist_instance_def snapshot_of_def memory_of_def persist_state_def set_state_def with_redis_def
  acquire_lock_def release_process_lock_def unregister_process_def now_def py_simps

lemma active_pauses: "validate_grid_transition G_ACTIVE G_PAUSED = Ok ()"
  by code_simp

lemma sample_pause_resume:
  "case pause_process sample_calls 1 7 running_manager of (x, t) \<Rightarrow>
     (\<exists>a. x = Ok a) \<and> (\<exists>b. fst (resume_process sample_calls 1 7 t) = Ok b)"
  by (simp add: pause_process_def resume_process_def sample_defs sample_run active_pauses)

theorem resumed_instance_gets_no_prices_witness:
  "case pause_process sample_calls 1 7 running_manager of (x, t) \<Rightarrow>
     case resume_process sample_calls 1 7 t of (y, u) \<Rightarrow>
       (\<exists>b. y = Ok b \<and> dget (ti_rows u) 1 = Some b \<and> ti_status b = T_RUNNING) \<and>
       (\<exists>p. get_process 1 u = Some p \<and> tp_subscription_id p = None) \<and> grids u = grids t"
proof -
  obtain a t where p: "pause_process sample_calls 1 7 running_manager = (Ok a, t)"
    using sample_pause_resume by (auto split: prod.splits)
  then obtain b u where r: "resume_process sample_calls 1 7 t = (Ok b, u)"
    using sample_pause_resume by (cases "resume_process sample_calls 1 7 t") auto
  from resumed_instance_gets_no_prices [OF sample_calls_quiet running_rows_ok p r]
  show ?thesis using p r by auto
qed

theorem instance_life_goes_forward_witness:
  "\<exists>r. dget (ti_rows (snd (stop_process sample_calls 1 7 running_manager))) 1 = Some r \<and>
     same_instance sample_row r \<and> 2 \<le> life_phase (ti_status r)"
proof -
  let ?t = "snd (stop_process sample_calls 1 7 running_manager)"
  have "(manager_step sample_calls)\<^sup>*\<^sup>* running_manager ?t"
    by (rule r_into_rtranclp) (rule stopped)
  moreover have "dget (ti_rows running_manager) 1 = Some sample_row"
    by (simp add: running_manager_def)
  ultimately obtain r where "dget (ti_rows ?t) 1 = Some r \<and> same_instance sample_row r \<and>
      life_phase (ti_status sample_row) \<le> life_phase (ti_status r)"
    using instance_life_goes_forward [OF sample_calls_quiet running_rows_ok, of ?t 1 sample_row] by blast
  then show ?thesis by (auto simp: sample_row_def)
qed

text \<open>A manager with one instance that has a breaker and is ready to start.\<close>

definition breaker_row :: "unit trading_instance" where
  "breaker_row = sample_row\<lparr>ti_status := T_READY, ti_breaker_enabled := True, ti_continuation_rate := Some (8 / 10)\<rparr>"

definition breaker_manager :: "(unit, unit, unit) process_manager" where
  "breaker_manager = running_manager\<lparr>grids := [], process_registry := [], ti_rows := [(1, breaker_row)],
     account_rows := [(2, \<lparr>ea_user_id = 7, ea_exchange_name = ''okx'', ea_is_active = True,
       ea_api_key_encrypted = ''k'', ea_api_secret_encrypted = ''s'', ea_is_testnet = False\<rparr>)],
     profile_rows := [(4, \<lparr>gp_user_id = 7, gp_investment_per_grid = 100\<rparr>)]\<rparr>"

lemma record_started_returns:
  assumes "dget (ti_rows s) i = Some r" and "ti_deleted_at r = None"
  shows "\<exists>a. fst (record_started sample_calls i s) = Ok a"
  using assms
  by (cases "get_process i s") (simp_all add: record_started_def sample_calls_def sample_run)

lemma wiring_returns: "fst (wire_grid_and_market calls r e s) = Ok ()"
  by (auto simp: wire_grid_and_market_def reading_def ret_def try_catch_def Let_def
      split: option.splits prod.splits res.splits)

lemma start_steps:
  "get_instance 1 breaker_manager = (Ok breaker_row, breaker_manager)"
  "validate_ownership breaker_row 7 = Ok ()"
  "validate_process_transition (ti_status breaker_row) T_RUNNING = Ok ()"
  "check_duplicate_running breaker_row breaker_manager = (Ok (), breaker_manager)"
  "acquire_lock sample_calls 1 w 60 breaker_manager = (Ok True, breaker_manager)"
  "clock breaker_manager = 0"
  by (simp_all add: breaker_manager_def breaker_row_def sample_defs sample_run check_duplicate_running_def get_by_status_def)

lemma sample_start: "\<exists>a. fst (start_process sample_calls 1 7 breaker_manager) = Ok a"
proof -
  obtain q :: "unit trading_process" where p: "build_process sample_calls breaker_row breaker_manager = (Ok q, breaker_manager)"
    by (simp add: build_process_def validate_account_def authenticate_adapter_def decrypt_credentials_def breaker_manager_def
        breaker_row_def sample_defs sample_run)
  obtain s1 where reg: "register_process (with_status T_RUNNING 0 q) breaker_manager = (Ok (), s1)"
    and "ti_rows s1 = ti_rows breaker_manager"
    by (simp add: register_process_def modify_def)
  obtain s2 where wired: "wire_grid_and_market sample_calls breaker_row (tp_exchange_name q) s1 = (Ok (), s2)"
    using wiring_returns by (metis prod.collapse)
  then have "ti_rows s2 = ti_rows s1"
    using sameD [OF quiet_rows(12) [OF sample_calls_quiet]] by (metis snd_conv)
  with \<open>ti_rows s1 = ti_rows breaker_manager\<close> have "dget (ti_rows s2) 1 = Some breaker_row" "ti_deleted_at breaker_row = None"
    by (simp_all add: breaker_manager_def breaker_row_def sample_row_def)
  from record_started_returns [OF this] obtain a u where "record_started sample_calls 1 s2 = (Ok a, u)"
    by (metis prod.collapse)
  with p reg wired show ?thesis by (simp add: start_process_def start_steps now_def py_simps del: One_nat_def)
qed

theorem breaker_instance_starts_without_prices_witness:
  "case start_process sample_calls 1 7 breaker_manager of (x, t) \<Rightarrow>
     (\<exists>a. x = Ok a \<and> ti_status a = T_RUNNING) \<and> runs_unsubscribed 1 t"
proof -
  obtain a t where s: "start_process sample_calls 1 7 breaker_manager = (Ok a, t)"
    using sample_start by (metis prod.collapse)
  have "rows_ok breaker_manager" and "dget (ti_rows breaker_manager) 1 = Some breaker_row"
    and "ti_breaker_enabled breaker_row" and "ti_continuation_rate breaker_row \<noteq> None"
    by (simp_all add: rows_ok_def breaker_manager_def breaker_row_def running_manager_def sample_row_def dict_ok_def)
  from breaker_instance_starts_without_prices [OF sample_calls_quiet this s] show ?thesis using s by auto
qed

end
