(* ===== verification/Notifications.thy ===== *)
theory Notifications
  imports DecimalText DomainTypes
begin

text \<open>
  \<^verbatim>\<open>engine/notification\<close>: templates (\<^verbatim>\<open>template.py\<close>), the queue with retries
  (\<^verbatim>\<open>queue.py\<close>), the channels (\<^verbatim>\<open>channels.py\<close>), the service that ties them together
  (\<^verbatim>\<open>service.py\<close>) and the automation rules (\<^verbatim>\<open>automation.py\<close>). The values of a context are the
  strings that \<^verbatim>\<open>str\<close> makes of them. What a channel calls to send, and the callback of the dead
  letter queue, are routines on the whole state. A character outside ASCII stands for its UTF-8 bytes.
\<close>

section \<open>Templates\<close>

type_synonym notification_context = "(string, string) dict"

record notification_template =
  nt_name :: string
  nt_title_template :: string
  nt_message_template :: string
  nt_channel_format :: "(string, string) dict"

record notification_message =
  nm_title :: string
  nm_message :: string
  nm_channel :: string

text \<open>
  \<^verbatim>\<open>str.format(**context)\<close>. Doubled braces stand for themselves; \<open>{name}\<close> is looked up, an empty
  or numeric name is a position and there are no positional arguments. From a field with an attribute,
  an index, a conversion or a format specification on, the text is left to \<open>special\<close>.
\<close>

definition plain_char :: "char \<Rightarrow> bool" where
  "plain_char c \<longleftrightarrow> c \<notin> {CHR ''{'', CHR ''}'', CHR '':'', CHR ''!'', CHR ''['', CHR ''.''}"

definition format_field :: "notification_context \<Rightarrow> string \<Rightarrow> string res" where
  "format_field ctx name =
     (if list_all is_digit name then Raise (Exn PyIndexError [name])
      else (case dget ctx name of None \<Rightarrow> Raise (Exn PyKeyError [name]) | Some v \<Rightarrow> Ok v))"

type_synonym formatter = "string \<Rightarrow> notification_context \<Rightarrow> string res"

lemma dropWhile_shorter: "dropWhile P xs = y # ys \<Longrightarrow> length ys < length xs"
  using length_dropWhile_le [of P xs] by simp

function (sequential) py_format :: "formatter \<Rightarrow> notification_context \<Rightarrow> string \<Rightarrow> string res" where
  "py_format special ctx [] = Ok []"
| "py_format special ctx (c # cs) =
     (if c = CHR ''{'' then
        (if cs \<noteq> [] \<and> hd cs = CHR ''{''
         then rbind (py_format special ctx (tl cs)) (\<lambda>r. Ok (CHR ''{'' # r))
         else (case dropWhile plain_char cs of
             [] \<Rightarrow> Raise (Exn PyValueError [])
           | d # rest \<Rightarrow>
               if d = CHR ''}'' then
                 rbind (format_field ctx (takeWhile plain_char cs)) (\<lambda>v.
                   rbind (py_format special ctx rest) (\<lambda>r. Ok (v @ r)))
               else if d = CHR ''{'' then Raise (Exn PyValueError [])
               else special (CHR ''{'' # cs) ctx))
      else if c = CHR ''}'' then
        (if cs \<noteq> [] \<and> hd cs = CHR ''}''
         then rbind (py_format special ctx (tl cs)) (\<lambda>r. Ok (CHR ''}'' # r))
         else Raise (Exn PyValueError []))
      else rbind (py_format special ctx cs) (\<lambda>r. Ok (c # r)))"
  by pat_completeness auto

termination py_format
  by (relation "measure (\<lambda>(_, _, s). length s)") (auto dest: dropWhile_shorter)

definition safe_format :: "formatter \<Rightarrow> string \<Rightarrow> notification_context \<Rightarrow> string res" where
  "safe_format special template ctx = (case py_format special ctx template of
      Ok r \<Rightarrow> Ok r
    | Raise e \<Rightarrow> if isinstance e [PyKeyError] then Raise (Exn NotificationError (exn_args e)) else Raise e)"

definition render :: "formatter \<Rightarrow> (string, notification_template) dict \<Rightarrow> string \<Rightarrow> notification_context \<Rightarrow>
    string \<Rightarrow> notification_message res" where
  "render special templates template_name ctx channel = (case dget templates template_name of
      None \<Rightarrow> Raise (Exn NotificationError [template_name])
    | Some t \<Rightarrow>
        rbind (safe_format special (nt_title_template t) ctx) (\<lambda>title.
        rbind (safe_format special (nt_message_template t) ctx) (\<lambda>message.
        rbind (case dget (nt_channel_format t) channel of
            None \<Rightarrow> Ok message | Some f \<Rightarrow> safe_format special f ctx) (\<lambda>message.
        Ok \<lparr>nm_title = title, nm_message = message, nm_channel = channel\<rparr>))))"

definition list_templates :: "(string, notification_template) dict \<Rightarrow> string list" where
  "list_templates templates = map fst templates"

subsection \<open>The default templates\<close>

definition bytes :: "nat list \<Rightarrow> string" where
  "bytes = map char_of"

definition newline :: string where
  "newline = bytes [10]"

definition telegram :: "nat list \<Rightarrow> string \<Rightarrow> string list \<Rightarrow> (string, string) dict" where
  "telegram icon title rows =
     [(''telegram'', bytes icon @ '' *'' @ title @ ''*'' @ concat (map (\<lambda>r. newline @ r) rows))]"

definition default_templates :: "notification_template list" where
  "default_templates =
    [\<lparr>nt_name = ''order_filled'', nt_title_template = ''Order Filled: {symbol}'',
      nt_message_template = ''Your {side} order for {quantity} {symbol} '' @ ''has been filled at {price}.'',
      nt_channel_format = telegram [226, 156, 133] ''Order Filled''
        [''Symbol: {symbol}'', ''Side: {side}'', ''Quantity: {quantity}'', ''Price: {price}'']\<rparr>,
     \<lparr>nt_name = ''order_failed'', nt_title_template = ''Order Failed: {symbol}'',
      nt_message_template = ''Your {side} order for {quantity} {symbol} '' @ ''failed. Reason: {reason}.'',
      nt_channel_format = telegram [226, 157, 140] ''Order Failed''
        [''Symbol: {symbol}'', ''Side: {side}'', ''Reason: {reason}'']\<rparr>,
     \<lparr>nt_name = ''grid_completed'', nt_title_template = ''Grid Completed: {instance_id}'',
      nt_message_template = ''Grid trading for instance {instance_id} '' @ ''has completed. Total profit: {profit}.'',
      nt_channel_format = telegram [240, 159, 142, 175] ''Grid Completed''
        [''Instance: {instance_id}'', ''Total Profit: {profit}'']\<rparr>,
     \<lparr>nt_name = ''profit_lock_triggered'', nt_title_template = ''Profit Lock Triggered: {instance_id}'',
      nt_message_template = ''Profit lock triggered for instance {instance_id} '' @
        ''at price {price}. Lock price: {lock_price}.'',
      nt_channel_format = telegram [240, 159, 148, 146] ''Profit Lock Triggered''
        [''Instance: {instance_id}'', ''Price: {price}'', ''Lock Price: {lock_price}'']\<rparr>,
     \<lparr>nt_name = ''recovery_failed'', nt_title_template = ''Recovery Failed: {instance_id}'',
      nt_message_template = ''Recovery failed for instance {instance_id}. '' @
        ''Error: {error}. Manual intervention required.'',
      nt_channel_format = telegram [226, 154, 160, 239, 184, 143] ''Recovery Failed''
        [''Instance: {instance_id}'', ''Error: {error}'']\<rparr>,
     \<lparr>nt_name = ''risk_rejected'', nt_title_template = ''Risk Rejected: {symbol}'',
      nt_message_template = ''Order for {symbol} rejected by risk manager. '' @
        ''Reason: {reason}. Current exposure: {exposure}.'',
      nt_channel_format = telegram [240, 159, 154, 171] ''Risk Rejected''
        [''Symbol: {symbol}'', ''Reason: {reason}'', ''Exposure: {exposure}'']\<rparr>]"

definition register_defaults :: "(string, notification_template) dict" where
  "register_defaults = fold (\<lambda>t. dput (nt_name t) t) default_templates []"

section \<open>Queue\<close>

record queued_notification =
  qn_id :: string
  qn_user_id :: string
  qn_channel :: string
  qn_recipient :: string
  qn_title :: string
  qn_message :: string
  qn_data :: notification_context
  qn_retry_count :: int
  qn_max_retries :: int
  qn_created_at :: datetime

record notification_result =
  nr_notification_id :: string
  nr_channel :: string
  nr_status :: string
  nr_error :: "exn option"
  nr_sent_at :: "datetime option"

record queue_metrics =
  qm_enqueued :: int
  qm_sent :: int
  qm_retried :: int
  qm_failed :: int
  qm_moved_to_dlq :: int

record 'x notification_queue = "'x world" +
  nq_max_retries :: int
  nq_queue :: "queued_notification list"
  nq_metrics :: queue_metrics

type_synonym ('x, 'm, 'a) nq = "(('x, 'm) notification_queue_scheme, 'a) py"

text \<open>The send function of a queue, which answers whether it sent.\<close>

type_synonym ('x, 'm) nsend = "(queued_notification \<Rightarrow> ('x, 'm, bool) nq) option"

type_synonym ('x, 'm) ndlq = "(queued_notification \<Rightarrow> exn \<Rightarrow> ('x, 'm, unit) nq) option"

definition nq_count :: "(queue_metrics \<Rightarrow> queue_metrics) \<Rightarrow> ('x, 'm, unit) nq" where
  "nq_count f = modify (\<lambda>s. s\<lparr>nq_metrics := f (nq_metrics s)\<rparr>)"

definition nq_append :: "queued_notification \<Rightarrow> ('x, 'm, unit) nq" where
  "nq_append n = modify (\<lambda>s. s\<lparr>nq_queue := nq_queue s @ [n]\<rparr>)"

definition nq_enqueue :: "queued_notification \<Rightarrow> ('x, 'm, string) nq" where
  "nq_enqueue n = seq (nq_append n)
     (seq (nq_count (\<lambda>m. m\<lparr>qm_enqueued := qm_enqueued m + 1\<rparr>)) (ret (qn_id n)))"

definition create_and_enqueue :: "string \<Rightarrow> string \<Rightarrow> string \<Rightarrow> string \<Rightarrow> string \<Rightarrow> notification_context option \<Rightarrow>
    ('x, 'm, string) nq" where
  "create_and_enqueue user channel recipient title message data = bind uuid4 (\<lambda>u. bind now (\<lambda>t. reading (\<lambda>s.
     nq_enqueue \<lparr>qn_id = show_nat u, qn_user_id = user, qn_channel = channel, qn_recipient = recipient,
       qn_title = title, qn_message = message, qn_data = (case data of None \<Rightarrow> [] | Some d \<Rightarrow> d),
       qn_retry_count = 0, qn_max_retries = nq_max_retries s, qn_created_at = t\<rparr>)))"

definition answer_for :: "queued_notification \<Rightarrow> string \<Rightarrow> exn option \<Rightarrow> datetime option \<Rightarrow> notification_result" where
  "answer_for n status e t = \<lparr>nr_notification_id = qn_id n, nr_channel = qn_channel n, nr_status = status,
     nr_error = e, nr_sent_at = t\<rparr>"

text \<open>The \<^verbatim>\<open>try\<close> block: what the send function answers \<^verbatim>\<open>False\<close> on is an exception, too.\<close>

definition send_one :: "(queued_notification \<Rightarrow> ('x, 'm, bool) nq) \<Rightarrow> queued_notification \<Rightarrow>
    ('x, 'm, notification_result) nq" where
  "send_one send n = bind (send n) (\<lambda>success.
     if success
     then seq (nq_count (\<lambda>m. m\<lparr>qm_sent := qm_sent m + 1\<rparr>))
       (bind now (\<lambda>t. ret (answer_for n ''success'' None (Some t))))
     else throw (Exn PyRuntimeError []))"

definition retried_notification :: "queued_notification \<Rightarrow> queued_notification" where
  "retried_notification n = n\<lparr>qn_retry_count := qn_retry_count n + 1\<rparr>"

definition send_failed :: "('x, 'm) ndlq \<Rightarrow> queued_notification \<Rightarrow> exn \<Rightarrow> ('x, 'm, notification_result) nq" where
  "send_failed dlq n0 e =
     (let n = retried_notification n0 in
      if qn_retry_count n < qn_max_retries n
      then seq (nq_append n)
        (seq (nq_count (\<lambda>m. m\<lparr>qm_retried := qm_retried m + 1\<rparr>)) (ret (answer_for n ''retry'' (Some e) None)))
      else seq (nq_count (\<lambda>m. m\<lparr>qm_failed := qm_failed m + 1, qm_moved_to_dlq := qm_moved_to_dlq m + 1\<rparr>))
        (seq (case dlq of None \<Rightarrow> ret () | Some f \<Rightarrow> try_catch (f n e) (\<lambda>_. ret ()))
          (ret (answer_for n ''failed'' (Some e) None))))"

definition process_one :: "('x, 'm) nsend \<Rightarrow> ('x, 'm) ndlq \<Rightarrow> queued_notification \<Rightarrow>
    ('x, 'm, notification_result) nq" where
  "process_one send dlq n = (case send of
      None \<Rightarrow> ret (answer_for n ''failed'' (Some (Exn OtherException [])) None)
    | Some f \<Rightarrow> try_catch (send_one f n) (send_failed dlq n))"

definition nq_process :: "('x, 'm) nsend \<Rightarrow> ('x, 'm) ndlq \<Rightarrow> ('x, 'm, notification_result list) nq" where
  "nq_process send dlq = reading (\<lambda>s.
     seq (modify (\<lambda>s. s\<lparr>nq_queue := []\<rparr>))
       (collect (\<lambda>n. bind (process_one send dlq n) (\<lambda>r. ret [r])) (nq_queue s)))"

definition get_pending_count :: "('x, 'm) notification_queue_scheme \<Rightarrow> nat" where
  "get_pending_count s = length (nq_queue s)"

section \<open>Channels and service\<close>

text \<open>
  The four channel classes differ in their name alone. A channel without a send function is a stub
  that always succeeds; \<open>'h\<close> names send functions, \<open>call\<close> runs them.
\<close>

record 'h channel =
  ch_name :: string
  ch_send_fn :: "'h option"
  ch_sent :: int
  ch_failed :: int

definition channel_names :: "string list" where
  "channel_names = [''email'', ''telegram'', ''discord'', ''webhook'']"

definition new_channel :: "string \<Rightarrow> 'h option \<Rightarrow> 'h channel" where
  "new_channel name send_fn = \<lparr>ch_name = name, ch_send_fn = send_fn, ch_sent = 0, ch_failed = 0\<rparr>"

record service_metrics =
  sm_requested :: int
  sm_sent :: int
  sm_failed :: int

record ('x, 'h) notification_service = "'x notification_queue" +
  ns_templates :: "(string, notification_template) dict"
  ns_channels :: "(string, 'h channel) dict"
  ns_recipients :: "(string, string) dict"
  ns_metrics :: service_metrics

type_synonym ('x, 'h, 'm, 'a) ns = "(('x, 'h, 'm) notification_service_scheme, 'a) py"

type_synonym ('x, 'h, 'm) transport =
  "'h \<Rightarrow> string \<Rightarrow> string \<Rightarrow> string \<Rightarrow> notification_context \<Rightarrow> ('x, 'h, 'm, bool) ns"

text \<open>A new service: the default templates, no channel, at most three attempts.\<close>

definition new_service :: "'x \<Rightarrow> ('x, 'h) notification_service" where
  "new_service x = \<lparr>clock = 0, uuid_next = 0, sleeps = [], exch = x, nq_max_retries = 3, nq_queue = [],
     nq_metrics = \<lparr>qm_enqueued = 0, qm_sent = 0, qm_retried = 0, qm_failed = 0, qm_moved_to_dlq = 0\<rparr>,
     ns_templates = register_defaults, ns_channels = [], ns_recipients = [],
     ns_metrics = \<lparr>sm_requested = 0, sm_sent = 0, sm_failed = 0\<rparr>\<rparr>"

definition on_channel :: "string \<Rightarrow> ('h channel \<Rightarrow> 'h channel) \<Rightarrow> ('x, 'h, 'm, unit) ns" where
  "on_channel name f = modify (\<lambda>s. case dget (ns_channels s) name of None \<Rightarrow> s
     | Some c \<Rightarrow> s\<lparr>ns_channels := dput name (f c) (ns_channels s)\<rparr>)"

definition channel_send :: "('x, 'h, 'm) transport \<Rightarrow> 'h channel \<Rightarrow> string \<Rightarrow> string \<Rightarrow> string \<Rightarrow>
    notification_context \<Rightarrow> ('x, 'h, 'm, bool) ns" where
  "channel_send call c recipient title message data = (case ch_send_fn c of
      None \<Rightarrow> seq (on_channel (ch_name c) (\<lambda>c. c\<lparr>ch_sent := ch_sent c + 1\<rparr>)) (ret True)
    | Some h \<Rightarrow> try_catch
        (bind (call h recipient title message data) (\<lambda>result.
          seq (on_channel (ch_name c) (\<lambda>c. c\<lparr>ch_sent := ch_sent c + 1\<rparr>)) (ret result)))
        (\<lambda>_. seq (on_channel (ch_name c) (\<lambda>c. c\<lparr>ch_failed := ch_failed c + 1\<rparr>)) (ret False)))"

definition register_channel :: "'h channel \<Rightarrow> ('x, 'h, 'm, unit) ns" where
  "register_channel c = modify (\<lambda>s. s\<lparr>ns_channels := dput (ch_name c) c (ns_channels s)\<rparr>)"

definition register_template :: "string \<Rightarrow> string \<Rightarrow> string \<Rightarrow> ('x, 'h, 'm, unit) ns" where
  "register_template name title message = modify (\<lambda>s. s\<lparr>ns_templates := dput name
     \<lparr>nt_name = name, nt_title_template = title, nt_message_template = message, nt_channel_format = []\<rparr>
     (ns_templates s)\<rparr>)"

definition recipient_key :: "string \<Rightarrow> string \<Rightarrow> string" where
  "recipient_key user channel = user @ '':'' @ channel"

definition set_recipient :: "string \<Rightarrow> string \<Rightarrow> string \<Rightarrow> ('x, 'h, 'm, unit) ns" where
  "set_recipient user channel recipient = modify (\<lambda>s. s\<lparr>ns_recipients :=
     dput (recipient_key user channel) recipient (ns_recipients s)\<rparr>)"

definition get_recipient :: "string \<Rightarrow> string \<Rightarrow> ('x, 'h, 'm) notification_service_scheme \<Rightarrow> string" where
  "get_recipient user channel s =
     (case dget (ns_recipients s) (recipient_key user channel) of None \<Rightarrow> user | Some r \<Rightarrow> r)"

definition ns_count :: "(service_metrics \<Rightarrow> service_metrics) \<Rightarrow> ('x, 'h, 'm, unit) ns" where
  "ns_count f = modify (\<lambda>s. s\<lparr>ns_metrics := f (ns_metrics s)\<rparr>)"

definition notify :: "formatter \<Rightarrow> string \<Rightarrow> string \<Rightarrow> string \<Rightarrow> notification_context \<Rightarrow>
    ('x, 'h, 'm, string) ns" where
  "notify special user template_name channel ctx =
     seq (ns_count (\<lambda>m. m\<lparr>sm_requested := sm_requested m + 1\<rparr>))
     (reading (\<lambda>s.
       if dget (ns_channels s) channel = None then throw (Exn NotificationError [channel])
       else bind (lift_res (render special (ns_templates s) template_name ctx channel)) (\<lambda>r.
         create_and_enqueue user channel (get_recipient user channel s) (nm_title r) (nm_message r) (Some ctx))))"

definition notify_multi :: "formatter \<Rightarrow> string \<Rightarrow> string \<Rightarrow> string list \<Rightarrow> notification_context \<Rightarrow>
    ('x, 'h, 'm, string list) ns" where
  "notify_multi special user template_name channels ctx = collect (\<lambda>channel.
     try_catch (bind (notify special user template_name channel ctx) (\<lambda>i. ret [i]))
       (\<lambda>e. if isinstance e [NotificationError] then ret [] else throw e)) channels"

definition dispatch :: "('x, 'h, 'm) transport \<Rightarrow> queued_notification \<Rightarrow> ('x, 'h, 'm, bool) ns" where
  "dispatch call n = reading (\<lambda>s. case dget (ns_channels s) (qn_channel n) of
      None \<Rightarrow> ret False
    | Some c \<Rightarrow> channel_send call c (qn_recipient n) (qn_title n) (qn_message n) (qn_data n))"

definition count_result :: "notification_result \<Rightarrow> ('x, 'h, 'm, unit) ns" where
  "count_result r =
     (if nr_status r = ''success'' then ns_count (\<lambda>m. m\<lparr>sm_sent := sm_sent m + 1\<rparr>)
      else if nr_status r = ''failed'' then ns_count (\<lambda>m. m\<lparr>sm_failed := sm_failed m + 1\<rparr>)
      else ret ())"

definition process_notifications :: "('x, 'h, 'm) transport \<Rightarrow> ('x, 'h, 'm, notification_result list) ns" where
  "process_notifications call = bind (nq_process (Some (dispatch call)) None) (\<lambda>rs.
     seq (for_each count_result rs) (ret rs))"

section \<open>Automation rules\<close>

text \<open>A condition is a function of the event's data that may raise.\<close>

record automation_rule =
  ar_id :: string
  ar_name :: string
  ar_event_type :: string
  ar_condition :: "notification_context \<Rightarrow> bool res"
  ar_channel :: string
  ar_template :: string
  ar_user_id :: string
  ar_enabled :: bool
  ar_trigger_count :: int

record automation_action =
  aa_rule_id :: string
  aa_user_id :: string
  aa_channel :: string
  aa_template :: string
  aa_context :: notification_context

record automation_metrics =
  am_added :: int
  am_removed :: int
  am_triggered :: int
  am_evaluated :: int

record 'x automation = "'x world" +
  au_rules :: "(string, automation_rule) dict"
  au_metrics :: automation_metrics

type_synonym ('x, 'm, 'a) au = "(('x, 'm) automation_scheme, 'a) py"

definition au_count :: "(automation_metrics \<Rightarrow> automation_metrics) \<Rightarrow> ('x, 'm, unit) au" where
  "au_count f = modify (\<lambda>s. s\<lparr>au_metrics := f (au_metrics s)\<rparr>)"

definition add_rule :: "string \<Rightarrow> string \<Rightarrow> (notification_context \<Rightarrow> bool res) \<Rightarrow> string \<Rightarrow> string \<Rightarrow> string \<Rightarrow> bool \<Rightarrow>
    ('x, 'm, string) au" where
  "add_rule name event_type cond channel template user enabled = bind uuid4 (\<lambda>u.
     let i = show_nat u;
         rule = \<lparr>ar_id = i, ar_name = name, ar_event_type = event_type, ar_condition = cond, ar_channel = channel,
           ar_template = template, ar_user_id = user, ar_enabled = enabled, ar_trigger_count = 0\<rparr>
     in seq (modify (\<lambda>s. s\<lparr>au_rules := dput i rule (au_rules s)\<rparr>))
       (seq (au_count (\<lambda>m. m\<lparr>am_added := am_added m + 1\<rparr>)) (ret i)))"

definition remove_rule :: "string \<Rightarrow> ('x, 'm, bool) au" where
  "remove_rule i = reading (\<lambda>s. if dget (au_rules s) i = None then ret False
     else seq (modify (\<lambda>s. s\<lparr>au_rules := ddel i (au_rules s)\<rparr>))
       (seq (au_count (\<lambda>m. m\<lparr>am_removed := am_removed m + 1\<rparr>)) (ret True)))"

definition on_rule :: "string \<Rightarrow> (automation_rule \<Rightarrow> automation_rule) \<Rightarrow> ('x, 'm, unit) au" where
  "on_rule i f = modify (\<lambda>s. case dget (au_rules s) i of None \<Rightarrow> s
     | Some r \<Rightarrow> s\<lparr>au_rules := dput i (f r) (au_rules s)\<rparr>)"

definition switch_rule :: "bool \<Rightarrow> string \<Rightarrow> ('x, 'm, bool) au" where
  "switch_rule on i = reading (\<lambda>s. if dget (au_rules s) i = None then ret False
     else seq (on_rule i (\<lambda>r. r\<lparr>ar_enabled := on\<rparr>)) (ret True))"

definition enable_rule :: "string \<Rightarrow> ('x, 'm, bool) au" where
  "enable_rule = switch_rule True"

definition disable_rule :: "string \<Rightarrow> ('x, 'm, bool) au" where
  "disable_rule = switch_rule False"

definition action_of :: "automation_rule \<Rightarrow> notification_context \<Rightarrow> automation_action" where
  "action_of r data = \<lparr>aa_rule_id = ar_id r, aa_user_id = ar_user_id r, aa_channel = ar_channel r,
     aa_template = ar_template r, aa_context = data\<rparr>"

definition evaluate_rule :: "string \<Rightarrow> notification_context \<Rightarrow> automation_rule \<Rightarrow>
    ('x, 'm, automation_action list) au" where
  "evaluate_rule event_type data r =
     (if \<not> ar_enabled r \<or> ar_event_type r \<noteq> event_type then ret []
      else seq (au_count (\<lambda>m. m\<lparr>am_evaluated := am_evaluated m + 1\<rparr>))
        (try_catch (bind (lift_res (ar_condition r data)) (\<lambda>holds.
            if holds
            then seq (on_rule (ar_id r) (\<lambda>r. r\<lparr>ar_trigger_count := ar_trigger_count r + 1\<rparr>))
              (seq (au_count (\<lambda>m. m\<lparr>am_triggered := am_triggered m + 1\<rparr>)) (ret [action_of r data]))
            else ret []))
          (\<lambda>_. ret [])))"

definition evaluate_rules :: "string \<Rightarrow> notification_context \<Rightarrow> ('x, 'm, automation_action list) au" where
  "evaluate_rules event_type data =
     reading (\<lambda>s. collect (evaluate_rule event_type data) (map snd (au_rules s)))"

definition get_rules_for_event :: "string \<Rightarrow> ('x, 'm) automation_scheme \<Rightarrow> automation_rule list" where
  "get_rules_for_event event_type s =
     filter (\<lambda>r. ar_event_type r = event_type \<and> ar_enabled r) (map snd (au_rules s))"

end
