(* ===== verification/NotificationDelivery.thy ===== *)
theory NotificationDelivery
  imports Notifications RetryRounds
begin

text \<open>
  The correctness of the notification engine: rendering is substitution, every accepted notification
  is sent or given up within the configured attempts, and automation answers exactly the rules that
  hold.
\<close>

section \<open>Rendering is substitution\<close>

text \<open>The abstract form of a template: text and variables; \<open>template_text\<close> writes it down.\<close>

datatype piece = Text string | Variable string

definition escape :: "string \<Rightarrow> string" where
  "escape s = concat (map (\<lambda>c. if c = CHR ''{'' \<or> c = CHR ''}'' then [c, c] else [c]) s)"

fun piece_text :: "piece \<Rightarrow> string" where
  "piece_text (Text s) = escape s"
| "piece_text (Variable x) = CHR ''{'' # x @ ''}''"

definition template_text :: "piece list \<Rightarrow> string" where
  "template_text ps = concat (map piece_text ps)"

text \<open>A variable name: plain characters, not empty and not a number.\<close>

definition variable_name :: "string \<Rightarrow> bool" where
  "variable_name x \<longleftrightarrow> list_all plain_char x \<and> \<not> list_all is_digit x"

fun well_named :: "piece \<Rightarrow> bool" where
  "well_named (Text s) \<longleftrightarrow> True"
| "well_named (Variable x) \<longleftrightarrow> variable_name x"

fun substitute :: "notification_context \<Rightarrow> piece \<Rightarrow> string res" where
  "substitute ctx (Text s) = Ok s"
| "substitute ctx (Variable x) = (case dget ctx x of None \<Rightarrow> Raise (Exn PyKeyError [x]) | Some v \<Rightarrow> Ok v)"

lemma format_escaped:
  "py_format special ctx (escape s @ rest) = rbind (py_format special ctx rest) (\<lambda>r. Ok (s @ r))"
proof (induction s)
  case Nil
  show ?case by (cases "py_format special ctx rest") (simp_all add: escape_def)
next
  case (Cons c s)
  have "escape (c # s) @ rest = (if c = CHR ''{'' \<or> c = CHR ''}'' then [c, c] else [c]) @ escape s @ rest"
    by (simp add: escape_def)
  then show ?case using Cons by (cases "py_format special ctx rest") auto
qed

lemma plain_name_split:
  assumes "list_all plain_char x"
  shows "takeWhile plain_char (x @ CHR ''}'' # rest) = x"
    "dropWhile plain_char (x @ CHR ''}'' # rest) = CHR ''}'' # rest"
  using assms by (simp_all add: takeWhile_append dropWhile_append list_all_iff plain_char_def)

lemma format_variable:
  assumes "variable_name x"
  shows "py_format special ctx (CHR ''{'' # x @ CHR ''}'' # rest) =
    rbind (substitute ctx (Variable x)) (\<lambda>v. rbind (py_format special ctx rest) (\<lambda>r. Ok (v @ r)))"
proof -
  have x: "x \<noteq> []" "list_all plain_char x" "\<not> list_all is_digit x"
    using assms by (auto simp: variable_name_def)
  then have "hd (x @ CHR ''}'' # rest) \<noteq> CHR ''{''"
    by (cases x) (auto simp: plain_char_def)
  then show ?thesis
    using x plain_name_split [OF x(2), of rest] by (simp add: format_field_def)
qed

declare py_format.simps(2) [simp del]

lemma format_pieces:
  assumes "list_all well_named ps"
  shows "py_format special ctx (template_text ps) = rbind (rmap (substitute ctx) ps) (\<lambda>vs. Ok (concat vs))"
  using assms
proof (induction ps)
  case Nil
  show ?case by (simp add: template_text_def)
next
  case (Cons p ps)
  then have IH: "py_format special ctx (template_text ps) = rbind (rmap (substitute ctx) ps) (\<lambda>vs. Ok (concat vs))"
    by simp
  have "template_text (p # ps) = piece_text p @ template_text ps" by (simp add: template_text_def)
  then show ?case
    using Cons.prems IH
    by (cases p; cases "rmap (substitute ctx) ps")
      (simp_all add: format_escaped format_variable split: option.splits)
qed

fun variables :: "piece list \<Rightarrow> string list" where
  "variables [] = []"
| "variables (Text s # ps) = variables ps"
| "variables (Variable x # ps) = x # variables ps"

text \<open>The message: the values in their places.\<close>

fun filled :: "notification_context \<Rightarrow> piece list \<Rightarrow> string" where
  "filled ctx [] = []"
| "filled ctx (Text s # ps) = s @ filled ctx ps"
| "filled ctx (Variable x # ps) = the (dget ctx x) @ filled ctx ps"

lemma substitute_all:
  "rbind (rmap (substitute ctx) ps) (\<lambda>vs. Ok (concat vs)) =
     (case find (\<lambda>x. dget ctx x = None) (variables ps) of
        None \<Rightarrow> Ok (filled ctx ps) | Some x \<Rightarrow> Raise (Exn PyKeyError [x]))"
proof (induction ps rule: variables.induct)
  case (2 s ps)
  then show ?case
    by (cases "rmap (substitute ctx) ps") (auto split: option.splits)
next
  case (3 x ps)
  then show ?case
    by (cases "rmap (substitute ctx) ps") (auto split: option.splits)
qed simp

text \<open>
  Rendering substitutes exactly. Any text (braces doubled) and any variables can be written as a
  template; rendering it returns the text with the values of the context in the places of the
  variables, and if a variable has no value it raises a notification error that names the first one
  missing. Nothing in the text or in the values is interpreted.
\<close>

theorem rendering_substitutes:
  assumes "list_all well_named ps"
  shows "safe_format special (template_text ps) ctx =
    (case find (\<lambda>x. dget ctx x = None) (variables ps) of
       None \<Rightarrow> Ok (filled ctx ps) | Some x \<Rightarrow> Raise (Exn NotificationError [x]))"
  using format_pieces [OF assms, of special ctx]
  by (simp add: safe_format_def substitute_all isinstance_def split: option.splits)

theorem rendering_substitutes_witness:
  "safe_format (\<lambda>_ _. Raise (Exn OtherException [])) ''{{Order}} {symbol}: {side}''
     [(''symbol'', ''BTC{x}''), (''side'', ''buy'')] = Ok ''{Order} BTC{x}: buy''"
proof -
  let ?ps = "[Text ''{Order} '', Variable ''symbol'', Text '': '', Variable ''side'']"
  have written: "template_text ?ps = ''{{Order}} {symbol}: {side}''" by (simp add: template_text_def escape_def)
  have "list_all well_named ?ps"
    by (simp add: variable_name_def plain_char_def is_digit_def)
  from rendering_substitutes [OF this, of "\<lambda>_ _. Raise (Exn OtherException [])"
      "[(''symbol'', ''BTC{x}''), (''side'', ''buy'')]"]
  show ?thesis by (simp add: written)
qed

section \<open>One notification\<close>

text \<open>What the queue owns; send functions and callbacks that leave it alone are \<open>quiet\<close>.\<close>

definition nq_books :: "('x, 'm) notification_queue_scheme \<Rightarrow> int \<times> queued_notification list \<times> queue_metrics" where
  "nq_books s = (nq_max_retries s, nq_queue s, nq_metrics s)"

text \<open>The three ways a notification can go.\<close>

definition handled :: "queued_notification \<Rightarrow> notification_result \<Rightarrow> ('x, 'm) notification_queue_scheme \<Rightarrow>
    ('x, 'm) notification_queue_scheme \<Rightarrow> bool" where
  "handled n r s t \<longleftrightarrow> nq_max_retries t = nq_max_retries s \<and>
    (nr_status r = ''success'' \<and> nq_queue t = nq_queue s \<and>
       nq_metrics t = (nq_metrics s)\<lparr>qm_sent := qm_sent (nq_metrics s) + 1\<rparr> \<or>
     nr_status r = ''retry'' \<and> qn_retry_count n + 1 < qn_max_retries n \<and>
       nq_queue t = nq_queue s @ [retried_notification n] \<and>
       nq_metrics t = (nq_metrics s)\<lparr>qm_retried := qm_retried (nq_metrics s) + 1\<rparr> \<or>
     nr_status r = ''failed'' \<and> nq_queue t = nq_queue s \<and>
       nq_metrics t = (nq_metrics s)\<lparr>qm_failed := qm_failed (nq_metrics s) + 1,
         qm_moved_to_dlq := qm_moved_to_dlq (nq_metrics s) + 1\<rparr>)"

lemma handled_books: "nq_books s' = nq_books s \<Longrightarrow> handled n r s' t \<Longrightarrow> handled n r s t"
  by (simp add: handled_def nq_books_def)

lemma send_failed_effect:
  assumes "\<And>f n e. dlq = Some f \<Longrightarrow> obeys (same nq_books) (f n e)"
  shows "\<exists>r t. send_failed dlq n e s = (Ok r, t) \<and> handled n r s t"
proof (cases "qn_retry_count n + 1 < qn_max_retries n")
  case True
  then show ?thesis
    by (simp add: send_failed_def nq_append_def nq_count_def py_simps handled_def retried_notification_def answer_for_def)
next
  case False
  let ?s = "s\<lparr>nq_metrics := (nq_metrics s)\<lparr>qm_failed := qm_failed (nq_metrics s) + 1,
       qm_moved_to_dlq := qm_moved_to_dlq (nq_metrics s) + 1\<rparr>\<rparr>"
  let ?last = "case dlq of None \<Rightarrow> ret () | Some f \<Rightarrow> try_catch (f (retried_notification n) e) (\<lambda>_. ret ())"
  have "total ?last" by (intro total_intros)
  then obtain a t where t: "?last ?s = (Ok a, t)" by (rule totalE)
  have "obeys (same nq_books) ?last" by (intro resp_intros assms)
  from sameD [OF this, of ?s] t have "nq_books t = nq_books ?s" by simp
  with t False show ?thesis
    by (simp add: send_failed_def nq_count_def seq_Ok modify_def ret_def handled_def answer_for_def nq_books_def
        Let_def) (simp add: retried_notification_def)
qed

lemma process_one_effect:
  assumes send: "obeys (same nq_books) (send n)"
    and dlq: "\<And>f n e. dlq = Some f \<Longrightarrow> obeys (same nq_books) (f n e)"
  shows "\<exists>r t. process_one (Some send) dlq n s = (Ok r, t) \<and> handled n r s t"
proof -
  obtain x s1 where x: "send n s = (x, s1)" by (cases "send n s")
  have s1: "nq_books s1 = nq_books s" using sameD [OF send, of s] x by simp
  show ?thesis
  proof (cases "x = Ok True")
    case True
    with x s1 show ?thesis
      by (simp add: process_one_def send_one_def nq_count_def now_def try_catch_def bind_Ok py_simps
          handled_def answer_for_def nq_books_def)
  next
    case False
    then obtain e where e: "send_one send n s = (Raise e, s1)"
      using x by (cases x) (auto simp: send_one_def bind_Ok bind_Raise throw_def)
    obtain r t where "send_failed dlq n e s1 = (Ok r, t)" "handled n r s1 t"
      using send_failed_effect [of dlq n e s1] dlq by blast
    with e handled_books [OF s1] show ?thesis by (auto simp: process_one_def try_catch_def)
  qed
qed

section \<open>Rounds of the queue\<close>

definition attempts :: "queued_notification \<Rightarrow> int" where
  "attempts n = qn_max_retries n - qn_retry_count n"

text \<open>Every notification accepted was sent, given up, or is pending.\<close>

definition nq_balance :: "int \<Rightarrow> ('x, 'm) notification_queue_scheme \<Rightarrow> bool" where
  "nq_balance pending s \<longleftrightarrow> qm_enqueued (nq_metrics s) =
     qm_sent (nq_metrics s) + qm_failed (nq_metrics s) + int (length (nq_queue s)) + pending"

lemma handled_balance: "handled n r s t \<Longrightarrow> nq_balance (1 + k) s \<Longrightarrow> nq_balance k t"
  by (auto simp: handled_def nq_balance_def)

interpretation nq: retry_queue nq_queue "\<lambda>s. s\<lparr>nq_queue := []\<rparr>" attempts "process_one (Some send) dlq"
    "\<lambda>k s. (\<forall>n. obeys (same nq_books) (send n)) \<and>
       (\<forall>f n e. dlq = Some f \<longrightarrow> obeys (same nq_books) (f n e)) \<and> nq_balance k s"
  for send :: "queued_notification \<Rightarrow> ('x, 'm, bool) nq" and dlq
proof
  fix k n and s :: "('x, 'm) notification_queue_scheme"
  assume ok: "(\<forall>n. obeys (same nq_books) (send n)) \<and>
       (\<forall>f n e. dlq = Some f \<longrightarrow> obeys (same nq_books) (f n e)) \<and> nq_balance (1 + k) s"
  obtain r t where p: "process_one (Some send) dlq n s = (Ok r, t)" "handled n r s t"
    using process_one_effect [of send n dlq s] ok by blast
  then have "\<exists>ks. nq_queue t = nq_queue s @ ks \<and>
      (\<forall>k \<in> set ks. attempts k = attempts n - 1 \<and> 0 < attempts k)"
    by (auto simp: handled_def attempts_def retried_notification_def)
  with p ok handled_balance [of n r s t k]
  show "\<exists>r t ks. process_one (Some send) dlq n s = (Ok r, t) \<and>
      ((\<forall>n. obeys (same nq_books) (send n)) \<and>
       (\<forall>f n e. dlq = Some f \<longrightarrow> obeys (same nq_books) (f n e)) \<and> nq_balance k t) \<and>
      nq_queue t = nq_queue s @ ks \<and> (\<forall>k \<in> set ks. attempts k = attempts n - 1 \<and> 0 < attempts k)"
    by blast
qed (auto simp: nq_balance_def)

lemma nq_process_round:
  "nq_process send dlq = queue_round nq_queue (\<lambda>s. s\<lparr>nq_queue := []\<rparr>) (process_one send dlq)"
  by (simp add: nq_process_def queue_round_def)

section \<open>The service\<close>

text \<open>A transport that leaves the books of the queue and of the service alone.\<close>

definition quiet_transport :: "('x, 'h, 'm) transport \<Rightarrow> bool" where
  "quiet_transport call \<longleftrightarrow> (\<forall>h r t m d. obeys (same nq_books) (call h r t m d) \<and>
     obeys (same ns_metrics) (call h r t m d))"

lemma on_channel_books:
  "obeys (same nq_books) (on_channel c f)" "obeys (same ns_metrics) (on_channel c f)"
  by (auto simp: obeys_def same_def on_channel_def nq_books_def modify_def split: option.splits)

lemma dispatch_books:
  assumes "quiet_transport call"
  shows "obeys (same nq_books) (dispatch call n)" "obeys (same ns_metrics) (dispatch call n)"
  using assms unfolding dispatch_def channel_send_def quiet_transport_def
  by (intro resp_intros on_channel_books; simp)+

lemma process_one_metrics:
  assumes "obeys (same ns_metrics) (send n)"
  shows "obeys (same ns_metrics) (process_one (Some send) None n)"
  unfolding process_one_def send_one_def send_failed_def nq_append_def nq_count_def now_def Let_def
  by (simp only: option.case, intro resp_intros assms; simp)

definition results_with :: "string \<Rightarrow> notification_result list \<Rightarrow> int" where
  "results_with st rs = int (length (filter (\<lambda>r. nr_status r = st) rs))"

lemma results_with_simps [simp]:
  "results_with st [] = 0"
  "results_with st (r # rs) = (if nr_status r = st then 1 else 0) + results_with st rs"
  by (simp_all add: results_with_def)

lemma handled_counts:
  "handled n r s t \<Longrightarrow> qm_sent (nq_metrics t) = qm_sent (nq_metrics s) + (if nr_status r = ''success'' then 1 else 0) \<and>
    qm_failed (nq_metrics t) = qm_failed (nq_metrics s) + (if nr_status r = ''failed'' then 1 else 0) \<and>
    nq_max_retries t = nq_max_retries s \<and> qm_enqueued (nq_metrics t) = qm_enqueued (nq_metrics s)"
  by (auto simp: handled_def)

lemma collect_counts:
  assumes "quiet_transport call"
    and "collect (\<lambda>n. bind (process_one (Some (dispatch call)) None n) (\<lambda>r. ret [r])) ns s = (Ok rs, t)"
  shows "qm_sent (nq_metrics t) = qm_sent (nq_metrics s) + results_with ''success'' rs \<and>
    qm_failed (nq_metrics t) = qm_failed (nq_metrics s) + results_with ''failed'' rs \<and>
    nq_max_retries t = nq_max_retries s \<and> qm_enqueued (nq_metrics t) = qm_enqueued (nq_metrics s) \<and>
    ns_metrics t = ns_metrics s"
  using assms(2)
proof (induction ns arbitrary: s rs)
  case Nil
  then show ?case by (simp add: ret_def)
next
  case (Cons n ns)
  obtain r s1 where 1: "process_one (Some (dispatch call)) None n s = (Ok r, s1)" "handled n r s s1"
    using process_one_effect [of "dispatch call" n None s] dispatch_books(1) [OF assms(1)] by auto
  have "ns_metrics (snd (process_one (Some (dispatch call)) None n s)) = ns_metrics s"
    by (rule sameD [OF process_one_metrics [OF dispatch_books(2) [OF assms(1)]]])
  then have same: "ns_metrics s1 = ns_metrics s" using 1(1) by simp
  obtain rs' where "rs = r # rs'"
    "collect (\<lambda>n. bind (process_one (Some (dispatch call)) None n) (\<lambda>r. ret [r])) ns s1 = (Ok rs', t)"
    using Cons.prems 1(1) by (auto simp: bind_Ok ret_def elim!: bind_OkE)
  with Cons.IH [of s1 rs'] handled_counts [OF 1(2)] same show ?case by simp
qed

lemma count_results:
  "\<exists>t. for_each count_result rs s = (Ok (), t) \<and> nq_books t = nq_books s \<and>
    sm_sent (ns_metrics t) = sm_sent (ns_metrics s) + results_with ''success'' rs \<and>
    sm_failed (ns_metrics t) = sm_failed (ns_metrics s) + results_with ''failed'' rs"
proof (induction rs arbitrary: s)
  case Nil
  show ?case by (simp add: ret_def)
next
  case (Cons r rs)
  have "\<exists>s1. count_result r s = (Ok (), s1) \<and> nq_books s1 = nq_books s \<and>
    sm_sent (ns_metrics s1) = sm_sent (ns_metrics s) + (if nr_status r = ''success'' then 1 else 0) \<and>
    sm_failed (ns_metrics s1) = sm_failed (ns_metrics s) + (if nr_status r = ''failed'' then 1 else 0)"
    by (cases "nr_status r = ''success''"; cases "nr_status r = ''failed''")
      (simp_all add: count_result_def ns_count_def modify_def ret_def nq_books_def)
  then obtain s1 where 1: "count_result r s = (Ok (), s1)" "nq_books s1 = nq_books s"
    "sm_sent (ns_metrics s1) = sm_sent (ns_metrics s) + (if nr_status r = ''success'' then 1 else 0)"
    "sm_failed (ns_metrics s1) = sm_failed (ns_metrics s) + (if nr_status r = ''failed'' then 1 else 0)"
    by blast
  with Cons.IH [of s1] show ?case by (auto simp: seq_Ok)
qed

text \<open>The consistency of a service in use.\<close>

definition service_ok :: "('x, 'h, 'm) notification_service_scheme \<Rightarrow> bool" where
  "service_ok s \<longleftrightarrow> nq_max_retries s = 3 \<and>
     (\<forall>n \<in> set (nq_queue s). attempts n \<le> 3) \<and> nq_balance 0 s \<and>
     sm_sent (ns_metrics s) = qm_sent (nq_metrics s) \<and> sm_failed (ns_metrics s) = qm_failed (nq_metrics s)"

lemma service_round:
  assumes "quiet_transport call" and "service_ok s"
  shows "\<exists>rs t. process_notifications call s = (Ok rs, t) \<and> service_ok t \<and>
    qm_enqueued (nq_metrics t) = qm_enqueued (nq_metrics s) \<and>
    (\<forall>k \<in> set (nq_queue t). \<exists>j \<in> set (nq_queue s). attempts k = attempts j - 1 \<and> 0 < attempts k)"
proof -
  have "nq_balance 0 s" using assms(2) by (simp add: service_ok_def)
  then obtain rs u where u: "nq_process (Some (dispatch call)) None s = (Ok rs, u)" "nq_balance 0 u"
    "\<forall>k \<in> set (nq_queue u). \<exists>j \<in> set (nq_queue s). attempts k = attempts j - 1 \<and> 0 < attempts k"
    using nq.round_effect [of "dispatch call" None s] dispatch_books(1) [OF assms(1)]
    by (auto simp: nq_process_round)
  have "collect (\<lambda>n. bind (process_one (Some (dispatch call)) None n) (\<lambda>r. ret [r])) (nq_queue s)
      (s\<lparr>nq_queue := []\<rparr>) = (Ok rs, u)"
    using u(1) by (simp add: nq_process_def reading_def seq_Ok modify_def)
  note counts = collect_counts [OF assms(1) this]
  obtain t where t: "for_each count_result rs u = (Ok (), t)" "nq_books t = nq_books u"
    "sm_sent (ns_metrics t) = sm_sent (ns_metrics u) + results_with ''success'' rs"
    "sm_failed (ns_metrics t) = sm_failed (ns_metrics u) + results_with ''failed'' rs"
    using count_results by blast
  have "process_notifications call s = (Ok rs, t)"
    using u(1) t(1) by (simp add: process_notifications_def bind_Ok seq_Ok ret_def)
  moreover have "\<forall>n \<in> set (nq_queue u). attempts n \<le> 3"
    using u(3) assms(2) by (fastforce simp: service_ok_def)
  ultimately show ?thesis
    using counts t u(2,3) assms(2) by (simp add: service_ok_def nq_books_def nq_balance_def)
qed

interpretation service: retry_rounds nq_queue attempts "process_notifications call"
    "\<lambda>s. quiet_transport call \<and> service_ok s \<and> qm_enqueued (nq_metrics s) = k" for call k
  by unfold_locales (use service_round in blast)

lemma notify_keeps:
  "obeys (keeps service_ok) (create_and_enqueue user c r title message d)"
  "obeys (keeps service_ok) (notify special user name c ctx)"
proof -
  show create: "obeys (keeps service_ok) (create_and_enqueue user c r title message d)" for user c r title message d
    by (auto simp: obeys_def keeps_def create_and_enqueue_def nq_enqueue_def nq_append_def nq_count_def uuid4_def
        now_def py_simps service_ok_def nq_balance_def attempts_def)
  show "obeys (keeps service_ok) (notify special user name c ctx)"
    unfolding notify_def ns_count_def
    by (intro resp_intros create; simp add: service_ok_def nq_balance_def)
qed

lemma notify_multi_keeps: "obeys (keeps service_ok) (notify_multi special user name cs ctx)"
  unfolding notify_multi_def by (intro resp_intros notify_keeps)

text \<open>What can happen to a service: calls of its operations, and anything that leaves its books alone.\<close>

inductive service_step :: "formatter \<Rightarrow> ('x, 'h, 'm) transport \<Rightarrow> ('x, 'h, 'm) notification_service_scheme \<Rightarrow>
    ('x, 'h, 'm) notification_service_scheme \<Rightarrow> bool" for special call where
  notified: "service_step special call s (snd (notify special user name c ctx s))"
| notified_all: "service_step special call s (snd (notify_multi special user name cs ctx s))"
| processed: "service_step special call s (snd (process_notifications call s))"
| outside: "nq_books t = nq_books s \<Longrightarrow> ns_metrics t = ns_metrics s \<Longrightarrow> service_step special call s t"

lemma service_step_ok:
  assumes "quiet_transport call" and "service_step special call s t" and "service_ok s"
  shows "service_ok t"
  using assms(2,3)
proof cases
  case processed
  then show ?thesis using service_round [OF assms(1,3)] by auto
next
  case outside
  then show ?thesis using assms(3) by (simp add: service_ok_def nq_books_def nq_balance_def)
qed (simp_all add: keepsD [OF notify_keeps(2)] keepsD [OF notify_multi_keeps])

lemma service_history_ok:
  assumes "quiet_transport call" and "(service_step special call)\<^sup>*\<^sup>* (new_service x) s"
  shows "service_ok s"
  using assms(2)
proof (induction rule: rtranclp_induct)
  case base
  show ?case by (simp add: service_ok_def new_service_def nq_balance_def)
next
  case (step t u)
  then show ?case using service_step_ok [OF assms(1)] by blast
qed

text \<open>
  No notification is lost. After any history of a notification service (whatever its channels
  raise or answer), three rounds of \<^verbatim>\<open>process_queue\<close> return without an exception and leave the
  queue empty, and every notification that was ever accepted is by then counted either as sent or as
  failed, exactly once.
\<close>

theorem notifications_drain:
  assumes "quiet_transport call" and "(service_step special call)\<^sup>*\<^sup>* (new_service x) s"
  shows "\<exists>t. repeat 3 (process_notifications call) s = (Ok (), t) \<and> nq_queue t = [] \<and>
    sm_sent (ns_metrics t) + sm_failed (ns_metrics t) = qm_enqueued (nq_metrics s)"
proof -
  have ok: "service_ok s" by (rule service_history_ok [OF assms])
  then obtain t where "repeat 3 (process_notifications call) s = (Ok (), t)" "nq_queue t = []"
    "service_ok t" "qm_enqueued (nq_metrics t) = qm_enqueued (nq_metrics s)"
    using service.rounds_drain [of call s "qm_enqueued (nq_metrics s)" 3] assms(1)
    by (auto simp: service_ok_def)
  then show ?thesis by (auto simp: service_ok_def nq_balance_def)
qed

text \<open>A channel whose transport always raises, and one that is a stub.\<close>

definition sample_service :: "(unit, unit) notification_service" where
  "sample_service = (new_service ())\<lparr>ns_channels :=
     [(''email'', new_channel ''email'' None), (''telegram'', new_channel ''telegram'' (Some ()))]\<rparr>"

definition failing_transport :: "(unit, unit, unit) transport" where
  "failing_transport h r t m d = throw (Exn OtherException [])"

definition sample_context :: notification_context where
  "sample_context = [(''instance_id'', ''i''), (''error'', ''e'')]"

theorem notifications_drain_witness:
  "\<exists>t. repeat 3 (process_notifications failing_transport)
      (snd (notify_multi (\<lambda>_ _. Raise (Exn OtherException [])) ''u'' ''recovery_failed'' [''telegram'', ''email'', ''fax'']
        sample_context sample_service)) = (Ok (), t) \<and> nq_queue t = []"
proof -
  let ?special = "\<lambda>_ _. Raise (Exn OtherException [])"
  let ?s = "snd (notify_multi ?special ''u'' ''recovery_failed'' [''telegram'', ''email'', ''fax''] sample_context sample_service)"
  have quiet: "quiet_transport failing_transport"
    unfolding quiet_transport_def failing_transport_def by (intro allI conjI resp_intros)
  have "service_step ?special failing_transport (new_service ()) sample_service"
    by (rule service_step.outside) (simp_all add: sample_service_def nq_books_def)
  moreover have "service_step ?special failing_transport sample_service ?s"
    by (rule service_step.notified_all)
  ultimately have "(service_step ?special failing_transport)\<^sup>*\<^sup>* (new_service ()) ?s"
    by (rule converse_rtranclp_into_rtranclp [OF _ r_into_rtranclp])
  from notifications_drain [OF quiet this] show ?thesis by blast
qed

section \<open>Automation\<close>

definition fires :: "string \<Rightarrow> notification_context \<Rightarrow> automation_rule \<Rightarrow> bool" where
  "fires event_type data r \<longleftrightarrow> ar_enabled r \<and> ar_event_type r = event_type \<and> ar_condition r data = Ok True"

definition eligible :: "string \<Rightarrow> automation_rule \<Rightarrow> bool" where
  "eligible event_type r \<longleftrightarrow> ar_enabled r \<and> ar_event_type r = event_type"

definition triggered :: "string \<Rightarrow> notification_context \<Rightarrow> automation_rule \<Rightarrow> automation_rule" where
  "triggered event_type data r =
     (if fires event_type data r then r\<lparr>ar_trigger_count := ar_trigger_count r + 1\<rparr> else r)"

lemma evaluate_rule_effect:
  "\<exists>t. evaluate_rule event_type data r s = (Ok (if fires event_type data r then [action_of r data] else []), t) \<and>
    am_evaluated (au_metrics t) = am_evaluated (au_metrics s) + (if eligible event_type r then 1 else 0) \<and>
    am_triggered (au_metrics t) = am_triggered (au_metrics s) + (if fires event_type data r then 1 else 0) \<and>
    am_added (au_metrics t) = am_added (au_metrics s) \<and> am_removed (au_metrics t) = am_removed (au_metrics s) \<and>
    au_rules t = (if fires event_type data r then (case dget (au_rules s) (ar_id r) of None \<Rightarrow> au_rules s
      | Some q \<Rightarrow> dput (ar_id r) (q\<lparr>ar_trigger_count := ar_trigger_count q + 1\<rparr>) (au_rules s)) else au_rules s)"
  by (cases "ar_condition r data")
    (auto simp: evaluate_rule_def fires_def eligible_def au_count_def on_rule_def py_simps split: option.splits)

lemma collect_rules:
  "\<exists>t. collect (evaluate_rule event_type data) rs s =
      (Ok (map (\<lambda>r. action_of r data) (filter (fires event_type data) rs)), t) \<and>
    am_evaluated (au_metrics t) = am_evaluated (au_metrics s) + int (length (filter (eligible event_type) rs)) \<and>
    am_triggered (au_metrics t) = am_triggered (au_metrics s) + int (length (filter (fires event_type data) rs))"
proof (induction rs arbitrary: s)
  case Nil
  show ?case by (simp add: ret_def)
next
  case (Cons r rs)
  obtain s1 where 1: "evaluate_rule event_type data r s = (Ok (if fires event_type data r then [action_of r data] else []), s1)"
    "am_evaluated (au_metrics s1) = am_evaluated (au_metrics s) + (if eligible event_type r then 1 else 0)"
    "am_triggered (au_metrics s1) = am_triggered (au_metrics s) + (if fires event_type data r then 1 else 0)"
    using evaluate_rule_effect by blast
  obtain t where t: "collect (evaluate_rule event_type data) rs s1 =
      (Ok (map (\<lambda>r. action_of r data) (filter (fires event_type data) rs)), t)"
    "am_evaluated (au_metrics t) = am_evaluated (au_metrics s1) + int (length (filter (eligible event_type) rs))"
    "am_triggered (au_metrics t) = am_triggered (au_metrics s1) + int (length (filter (fires event_type data) rs))"
    using Cons.IH [of s1] by blast
  have "collect (evaluate_rule event_type data) (r # rs) s =
      (Ok (map (\<lambda>r. action_of r data) (filter (fires event_type data) (r # rs))), t)"
    using collect_Ok [OF 1(1) t(1)] by simp
  with 1 t show ?case by simp
qed

text \<open>
  Evaluating an event answers exactly the actions of the enabled rules of its type whose condition
  holds, in the order the rules were added; a condition that raises fires nothing and stops nothing.
\<close>

theorem automation_exact:
  "\<exists>t. evaluate_rules event_type data s =
      (Ok (map (\<lambda>r. action_of r data) (filter (fires event_type data) (map snd (au_rules s)))), t) \<and>
    am_evaluated (au_metrics t) = am_evaluated (au_metrics s) + int (length (get_rules_for_event event_type s)) \<and>
    am_triggered (au_metrics t) = am_triggered (au_metrics s) +
      int (length (filter (fires event_type data) (map snd (au_rules s))))"
proof -
  have "get_rules_for_event event_type s = filter (eligible event_type) (map snd (au_rules s))"
    by (auto simp: get_rules_for_event_def eligible_def intro: filter_cong)
  then show ?thesis
    using collect_rules [of event_type data "map snd (au_rules s)" s]
    by (simp add: evaluate_rules_def reading_def)
qed

end
