(* ===== verification/MoneyManagement.thy ===== *)
theory MoneyManagement
  imports DomainTypes
begin

text \<open>
  \<^verbatim>\<open>services/mm_calculator.py\<close>: how the capital of a strategy is spread over the coins and the
  averaging steps of each. An invalid request is a value of the result type.
\<close>

section \<open>Presets\<close>

definition min_buy_amount :: decimal where
  "min_buy_amount = 15"

record mm_preset =
  mp_name :: string
  mp_steps :: int
  mp_min_capital :: decimal
  mp_max_capital :: "decimal option"
  mp_allowed_coin_groups :: "string list"

definition builtin_presets :: "(string, mm_preset) dict" where
  "builtin_presets =
    [(''mm30'', \<lparr>mp_name = ''MM30'', mp_steps = 30, mp_min_capital = 1350, mp_max_capital = None,
        mp_allowed_coin_groups = [''Top 3'', ''Top 5'']\<rparr>),
     (''mm50'', \<lparr>mp_name = ''MM50'', mp_steps = 50, mp_min_capital = 7500, mp_max_capital = None,
        mp_allowed_coin_groups = []\<rparr>),
     (''mm70'', \<lparr>mp_name = ''MM70'', mp_steps = 70, mp_min_capital = 21000, mp_max_capital = None,
        mp_allowed_coin_groups = []\<rparr>)]"

definition get_builtin_presets :: "(string \<times> mm_preset) list" where
  "get_builtin_presets = builtin_presets"

record mm_result =
  mr_buy_amount :: decimal
  mr_max_coins :: int
  mr_steps :: int
  mr_capital :: decimal
  mr_preset_type :: string
  mr_min_volume_filter :: decimal

section \<open>Calculation\<close>

definition mm_invalid :: exn where
  "mm_invalid = Exn ValidationError []"

text \<open>The steps and the minimum capital of the preset, before the adjustment to the coins.\<close>

definition preset_terms :: "string \<Rightarrow> string option \<Rightarrow> int option \<Rightarrow> (int \<times> decimal) res" where
  "preset_terms preset_type grp custom_steps =
     (if preset_type = ''custom'' then
        (case custom_steps of
           None \<Rightarrow> Raise mm_invalid
         | Some n \<Rightarrow> if n < 1 then Raise mm_invalid
             else if 200 < n then Raise mm_invalid else Ok (n, 100))
      else (case dget builtin_presets preset_type of
          None \<Rightarrow> Raise mm_invalid
        | Some p \<Rightarrow>
            if truthy grp \<and> mp_allowed_coin_groups p \<noteq> [] \<and> the grp \<notin> set (mp_allowed_coin_groups p)
            then Raise mm_invalid else Ok (mp_steps p, mp_min_capital p)))"

text \<open>\<^verbatim>\<open>quantize\<close> raises when the result needs more digits than the context has.\<close>

definition py_quantize2_down :: "decimal \<Rightarrow> decimal res" where
  "py_quantize2_down x = (let q = quantize2_down x in
     if 10 ^ 26 \<le> \<bar>q\<bar> then Raise (Exn PyDecimalException []) else Ok q)"

definition effective_coin_count :: "int option \<Rightarrow> int \<Rightarrow> int" where
  "effective_coin_count num_coins group_max =
     (case num_coins of None \<Rightarrow> group_max | Some n \<Rightarrow> if n \<noteq> 0 \<and> 1 \<le> n then n else group_max)"

definition mm_calculate :: "string \<Rightarrow> decimal \<Rightarrow> string option \<Rightarrow> int option \<Rightarrow> int option \<Rightarrow> int option \<Rightarrow>
    mm_result res" where
  "mm_calculate preset capital grp group_max_coins custom_steps num_coins =
     (let preset_type = py_lower preset in
      case group_max_coins of
        None \<Rightarrow> Raise mm_invalid
      | Some group_max \<Rightarrow>
          if group_max < 1 then Raise mm_invalid
          else let coins = effective_coin_count num_coins group_max in
            rbind (preset_terms preset_type grp custom_steps) (\<lambda>(steps, preset_min).
            let fewer = (case num_coins of None \<Rightarrow> False | Some n \<Rightarrow> n \<noteq> 0 \<and> 1 \<le> n \<and> n < group_max);
                min_capital = (if fewer
                  then dmul (dmul min_buy_amount (of_int steps)) (of_int coins) else preset_min)
            in if capital < min_capital then Raise mm_invalid
               else rbind (py_div capital (dmul (of_int steps) (of_int coins))) (\<lambda>q.
                 rbind (py_quantize2_down q) (\<lambda>buy.
                 let min_volume = dmul buy 10 in
                 if buy < min_buy_amount then Raise mm_invalid
                 else Ok \<lparr>mr_buy_amount = buy, mr_max_coins = coins, mr_steps = steps, mr_capital = capital,
                     mr_preset_type = preset_type, mr_min_volume_filter = min_volume\<rparr>))))"

section \<open>Correctness\<close>

lemma preset_terms_Ok:
  "preset_terms p g c = Ok (steps, mn) \<Longrightarrow> 1 \<le> steps \<and> steps \<le> 200 \<and> 100 \<le> mn"
  by (auto simp: preset_terms_def builtin_presets_def split: option.splits if_splits)

lemma effective_positive: "1 \<le> m \<Longrightarrow> 1 \<le> effective_coin_count n m"
  by (auto simp: effective_coin_count_def split: option.splits)

lemma quantize2_down_bounds: "0 \<le> x \<Longrightarrow> quantize2_down x \<le> x \<and> x < quantize2_down x + 1 / 100"
proof -
  assume "0 \<le> x"
  have "of_int \<lfloor>x * 100\<rfloor> \<le> x * 100" "x * 100 < of_int \<lfloor>x * 100\<rfloor> + 1" by linarith+
  with \<open>0 \<le> x\<close> show ?thesis by (simp add: quantize2_down_def)
qed

lemma quantize2_down_ge: "15 \<le> x \<Longrightarrow> 15 \<le> quantize2_down x"
proof -
  assume x: "15 \<le> x"
  then have "(1500 :: int) \<le> \<lfloor>x * 100\<rfloor>" by (simp add: le_floor_iff)
  then have "(1500 :: rat) \<le> of_int \<lfloor>x * 100\<rfloor>" by (metis of_int_le_iff of_int_numeral)
  with x show ?thesis by (simp add: quantize2_down_def)
qed

text \<open>The number of layers is small, so its product is exact.\<close>

definition layers :: "int \<Rightarrow> int \<Rightarrow> rat" where
  "layers steps coins = of_int (steps * coins)"

lemma layers_exact:
  "1 \<le> steps \<Longrightarrow> steps \<le> 200 \<Longrightarrow> 1 \<le> coins \<Longrightarrow> coins \<le> 10 ^ 20 \<Longrightarrow>
   dmul (of_int steps) (of_int coins) = layers steps coins"
  "1 \<le> steps \<Longrightarrow> steps \<le> 200 \<Longrightarrow> 1 \<le> coins \<Longrightarrow> coins \<le> 10 ^ 20 \<Longrightarrow>
   dmul (dmul min_buy_amount (of_int steps)) (of_int coins) = 15 * layers steps coins"
proof -
  assume b: "1 \<le> steps" "steps \<le> 200" "1 \<le> coins" "coins \<le> 10 ^ 20"
  define p where "p = steps * coins"
  have "p \<le> 200 * 10 ^ 20" unfolding p_def using b by (intro mult_mono) auto
  moreover have "0 \<le> p" unfolding p_def using b by (intro mult_nonneg_nonneg) auto
  ultimately have small: "\<bar>steps * coins\<bar> \<le> 10 ^ 28" "\<bar>15 * (steps * coins)\<bar> \<le> 10 ^ 28" "\<bar>15 * steps\<bar> \<le> 10 ^ 28"
    unfolding p_def [symmetric] using b by auto
  show "dmul (of_int steps) (of_int coins) = layers steps coins"
    using rep_int [OF small(1)] by (simp add: dmul_def layers_def)
  have "dmul min_buy_amount (of_int steps) = of_int (15 * steps)"
    using rep_int [OF small(3)] by (simp add: dmul_def min_buy_amount_def)
  then show "dmul (dmul min_buy_amount (of_int steps)) (of_int coins) = 15 * layers steps coins"
    using rep_int [OF small(2)] by (simp add: dmul_def layers_def mult.assoc)
qed

text \<open>The minimum capital after the adjustment, and a request that selects fewer coins than the group has.\<close>

definition required_capital :: "decimal \<Rightarrow> int \<Rightarrow> int \<Rightarrow> int option \<Rightarrow> int \<Rightarrow> decimal" where
  "required_capital preset_min steps group_max num_coins coins =
     (if (\<exists>n. num_coins = Some n \<and> 1 \<le> n \<and> n < group_max) then 15 * layers steps coins else preset_min)"

lemma mm_calculate_unfold:
  assumes terms: "preset_terms (py_lower preset) grp custom = Ok (steps, preset_min)" and "1 \<le> m"
    and coins: "coins = effective_coin_count num_coins m" and "coins \<le> 10 ^ 20"
  shows "mm_calculate preset capital grp (Some m) custom num_coins =
    (if capital < required_capital preset_min steps m num_coins coins then Raise mm_invalid
     else rbind (py_quantize2_down (ddiv capital (layers steps coins))) (\<lambda>buy.
       if buy < 15 then Raise mm_invalid
       else Ok \<lparr>mr_buy_amount = buy, mr_max_coins = coins, mr_steps = steps, mr_capital = capital,
         mr_preset_type = py_lower preset, mr_min_volume_filter = dmul buy 10\<rparr>))"
proof -
  note steps = preset_terms_Ok [OF terms]
  have "1 \<le> coins" using assms(2) coins effective_positive by simp
  note exact = layers_exact [of steps coins, OF _ _ this assms(4)]
  have "layers steps coins \<noteq> 0" using steps \<open>1 \<le> coins\<close> by (simp add: layers_def)
  then have quot: "py_div capital (dmul (of_int steps) (of_int coins)) = Ok (ddiv capital (layers steps coins))"
    using exact(1) steps by (simp add: py_div_def)
  have fewer: "(case num_coins of None \<Rightarrow> False | Some n \<Rightarrow> n \<noteq> 0 \<and> 1 \<le> n \<and> n < m) \<longleftrightarrow>
      (\<exists>n. num_coins = Some n \<and> 1 \<le> n \<and> n < m)"
    by (auto split: option.splits)
  have minimum: "dmul (dmul min_buy_amount (of_int steps)) (of_int coins) = 15 * layers steps coins"
    using exact(2) steps by simp
  have "\<not> m < 1" using assms(2) by simp
  then show ?thesis
    unfolding mm_calculate_def Let_def option.case coins [symmetric] terms rbind_simps prod.case fewer quot minimum
      required_capital_def
    by (simp add: min_buy_amount_def)
qed

lemma quotient_bounds:
  assumes "0 < L" and "0 \<le> c"
  shows "ddiv c L * L \<le> c * (1 + 1 / (2 * 10 ^ 27))" "c * (1 - 1 / (2 * 10 ^ 27)) \<le> ddiv c L * L"
proof -
  have "\<bar>ddiv c L - c / L\<bar> \<le> (c / L) / (2 * 10 ^ 27)"
    using dfix_error [of "c / L"] assms by (simp add: ddiv_def)
  then have up: "ddiv c L \<le> c / L + (c / L) / (2 * 10 ^ 27)" and low: "c / L - (c / L) / (2 * 10 ^ 27) \<le> ddiv c L"
    by linarith+
  have "ddiv c L * L \<le> (c / L + (c / L) / (2 * 10 ^ 27)) * L" using up assms(1) by (intro mult_right_mono) auto
  then show "ddiv c L * L \<le> c * (1 + 1 / (2 * 10 ^ 27))" using assms(1) by (simp add: field_simps)
  have "(c / L - (c / L) / (2 * 10 ^ 27)) * L \<le> ddiv c L * L" using low assms(1) by (intro mult_right_mono) auto
  then show "c * (1 - 1 / (2 * 10 ^ 27)) \<le> ddiv c L * L" using assms(1) by (simp add: field_simps)
qed

lemma layers_positive:
  "preset_terms p grp custom = Ok (steps, preset_min) \<Longrightarrow> 1 \<le> m \<Longrightarrow>
   1 \<le> layers steps (effective_coin_count num_coins m)"
proof -
  assume "preset_terms p grp custom = Ok (steps, preset_min)" "1 \<le> m"
  then have "1 \<le> steps" "1 \<le> effective_coin_count num_coins m"
    using preset_terms_Ok effective_positive by blast+
  then have "0 < steps * effective_coin_count num_coins m"
    by (intro mult_pos_pos) auto
  then have "1 \<le> steps * effective_coin_count num_coins m" by simp
  then show ?thesis unfolding layers_def by (simp only: of_int_1_le_iff)
qed

lemma allocation_sound:
  assumes terms: "preset_terms (py_lower preset) grp custom = Ok (steps, preset_min)" and "1 \<le> m"
    and coins: "coins = effective_coin_count num_coins m" and "coins \<le> 10 ^ 20"
    and run: "mm_calculate preset capital grp (Some m) custom num_coins = Ok r"
  shows "15 \<le> mr_buy_amount r \<and> mr_steps r = steps \<and> mr_max_coins r = coins \<and>
    mr_buy_amount r * layers steps coins \<le> capital * (1 + 1 / (2 * 10 ^ 27))"
proof -
  define L where "L = layers steps coins"
  have L: "1 \<le> L" using layers_positive [OF terms assms(2), of num_coins] coins by (simp add: L_def)
  let ?q = "ddiv capital L"
  have buy: "mr_buy_amount r = quantize2_down ?q" "15 \<le> mr_buy_amount r" "mr_steps r = steps" "mr_max_coins r = coins"
    using run unfolding mm_calculate_unfold [OF assms(1-4)] L_def [symmetric]
    by (auto simp: py_quantize2_down_def Let_def split: if_splits)
  have "0 \<le> ?q"
  proof (rule ccontr)
    assume neg: "\<not> 0 \<le> ?q"
    then have "\<lceil>?q * 100\<rceil> \<le> 0" by (simp add: ceiling_le_iff)
    then have "(of_int \<lceil>?q * 100\<rceil> :: rat) \<le> 0" by simp
    with neg buy show False by (simp add: quantize2_down_def)
  qed
  then have "0 \<le> capital" using L by (simp add: ddiv_def zero_le_divide_iff)
  have "mr_buy_amount r * L \<le> ?q * L"
    using quantize2_down_bounds [OF \<open>0 \<le> ?q\<close>] buy(1) L by (intro mult_right_mono) auto
  also have "\<dots> \<le> capital * (1 + 1 / (2 * 10 ^ 27))"
    using quotient_bounds(1) [of L capital] L \<open>0 \<le> capital\<close> by simp
  finally show ?thesis using buy by (simp add: L_def)
qed

lemma allocation_complete:
  assumes terms: "preset_terms (py_lower preset) grp custom = Ok (steps, preset_min)" and "1 \<le> m"
    and coins: "coins = effective_coin_count num_coins m" and "coins \<le> 10 ^ 20"
    and enough: "required_capital preset_min steps m num_coins coins \<le> capital" "15 * layers steps coins \<le> capital"
      "capital < 10 ^ 25"
  shows "\<exists>r. mm_calculate preset capital grp (Some m) custom num_coins = Ok r \<and>
    capital * (1 - 1 / (2 * 10 ^ 27)) < (mr_buy_amount r + 1 / 100) * layers steps coins"
proof -
  define L where "L = layers steps coins"
  have L: "1 \<le> L" using layers_positive [OF terms assms(2), of num_coins] coins by (simp add: L_def)
  let ?q = "ddiv capital L"
  have cap: "15 * L \<le> capital" "0 \<le> capital" using L enough(2) by (simp_all add: L_def)
  then have "15 \<le> capital / L" using L by (simp add: field_simps)
  then have q: "15 \<le> ?q" unfolding ddiv_def by (rule rep_le_dfix) (rule rep_numeral, simp)
  note bounds = quantize2_down_bounds [of ?q] quotient_bounds [of L capital]
  have "?q \<le> ?q * L" using q L by (simp add: mult_le_cancel_left1)
  also have "\<dots> \<le> capital * (1 + 1 / (2 * 10 ^ 27))" using bounds L cap by simp
  also have "\<dots> \<le> capital * 2" using cap by (intro mult_left_mono) auto
  finally have "quantize2_down ?q < 10 ^ 26" using bounds(1) q enough by simp
  then have quant: "py_quantize2_down ?q = Ok (quantize2_down ?q)" "\<not> quantize2_down ?q < 15"
    using quantize2_down_ge [OF q] by (simp_all add: py_quantize2_down_def)
  have "capital * (1 - 1 / (2 * 10 ^ 27)) \<le> ?q * L" using bounds L cap by simp
  also have "\<dots> < (quantize2_down ?q + 1 / 100) * L" using bounds(1) q L by simp
  finally show ?thesis
    using enough quant unfolding mm_calculate_unfold [OF assms(1-4)] L_def [symmetric] by simp
qed

text \<open>
  Which coin groups a preset takes. The table of the code names groups for MM30 alone; the docstring of
  the module, the migration 0011 and the unit tests give MM50 (Top 10, Top 20) and MM70 (Top 20, Top
  50, All) groups of their own, which the code does not ask for.
\<close>

lemma mm30_groups:
  "preset_terms ''mm30'' (Some g) custom = Ok x \<Longrightarrow> g \<noteq> [] \<Longrightarrow> g \<in> {''Top 3'', ''Top 5''}"
  by (auto simp: preset_terms_def builtin_presets_def truthy_def split: if_splits)

lemma larger_presets_take_any_group:
  "kind \<in> {''mm50'', ''mm70''} \<Longrightarrow> preset_terms kind grp custom = preset_terms kind grp' custom'"
  by (auto simp: preset_terms_def builtin_presets_def)

text \<open>
  C24. The capital is never over-allocated and enough capital is never refused. For a valid preset and
  group, whatever the calculation returns buys at least 15 per layer, and all layers of all coins
  together stay within the capital (up to the rounding of one division in the 28th digit); and
  whenever the capital reaches the minimum and 15 for every layer, it returns an amount less than
  a cent (and that rounding) under the even share. A named group is asked for with MM30 only: MM50 and
  MM70 calculate the same for every group, although the documentation, a migration and the tests restrict
  them to groups of their own.
\<close>

theorem capital_allocation:
  assumes terms: "preset_terms (py_lower preset) grp custom = Ok (steps, preset_min)" and "1 \<le> m"
    and coins: "coins = effective_coin_count num_coins m" and "coins \<le> 10 ^ 20"
  shows "(\<forall>r. mm_calculate preset capital grp (Some m) custom num_coins = Ok r \<longrightarrow>
       15 \<le> mr_buy_amount r \<and> mr_steps r = steps \<and> mr_max_coins r = coins \<and>
       mr_buy_amount r * layers steps coins \<le> capital * (1 + 1 / (2 * 10 ^ 27))) \<and>
    (required_capital preset_min steps m num_coins coins \<le> capital \<and> 15 * layers steps coins \<le> capital \<and>
       capital < 10 ^ 25 \<longrightarrow>
     (\<exists>r. mm_calculate preset capital grp (Some m) custom num_coins = Ok r \<and>
       capital * (1 - 1 / (2 * 10 ^ 27)) < (mr_buy_amount r + 1 / 100) * layers steps coins)) \<and>
    (\<forall>g. py_lower preset = ''mm30'' \<and> grp = Some g \<and> g \<noteq> [] \<longrightarrow> g \<in> {''Top 3'', ''Top 5''}) \<and>
    (\<forall>grp'. py_lower preset \<in> {''mm50'', ''mm70''} \<longrightarrow>
       mm_calculate preset capital grp' (Some m) custom num_coins = mm_calculate preset capital grp (Some m) custom num_coins)"
proof -
  have "\<forall>g. py_lower preset = ''mm30'' \<and> grp = Some g \<and> g \<noteq> [] \<longrightarrow> g \<in> {''Top 3'', ''Top 5''}"
    using terms mm30_groups by metis
  moreover have "mm_calculate preset capital grp' (Some m) custom num_coins = mm_calculate preset capital grp (Some m) custom num_coins"
    if "py_lower preset \<in> {''mm50'', ''mm70''}" for grp'
    using larger_presets_take_any_group [OF that, of grp' custom grp custom] unfolding mm_calculate_def Let_def by simp
  ultimately show ?thesis using allocation_sound [OF assms] allocation_complete [OF assms] by blast
qed

theorem capital_allocation_witness:
  "(\<exists>r. mm_calculate ''MM30'' 1400 (Some ''Top 3'') (Some 3) None None = Ok r \<and> 15 \<le> mr_buy_amount r) \<and>
   mm_calculate ''mm50'' 8000 (Some ''Top 3'') (Some 3) None None = mm_calculate ''mm50'' 8000 (Some ''Top 10'') (Some 3) None None"
proof -
  have "preset_terms (py_lower ''MM30'') (Some ''Top 3'') None = Ok (30, 1350)"
    by code_simp
  from capital_allocation [OF this, of 3 3 None 1400] have "\<exists>r. mm_calculate ''MM30'' 1400 (Some ''Top 3'') (Some 3) None None = Ok r \<and>
      15 \<le> mr_buy_amount r"
    by (auto simp: effective_coin_count_def required_capital_def layers_def)
  moreover have "preset_terms (py_lower ''mm50'') (Some ''Top 10'') None = Ok (50, 7500)" and "py_lower ''mm50'' = ''mm50''"
    by code_simp+
  then have "mm_calculate ''mm50'' 8000 (Some ''Top 3'') (Some 3) None None = mm_calculate ''mm50'' 8000 (Some ''Top 10'') (Some 3) None None"
    using capital_allocation [of "''mm50''" "Some ''Top 10''" None 50 7500 3 3 None 8000]
    by (simp add: effective_coin_count_def)
  ultimately show ?thesis by blast
qed

end
