(* ===== verification/BreakerScreening.thy ===== *)
theory BreakerScreening
  imports TradingProcess
begin

text \<open>
  The screening of critical drops: \<^verbatim>\<open>services/daily_drop_analyzer.py\<close>,
  \<^verbatim>\<open>services/circuit_breaker_screener.py\<close>, \<^verbatim>\<open>services/breaker_screening_store.py\<close> and
  \<^verbatim>\<open>repositories/breaker_threshold_repository.py\<close>. The screener fetches candles through a routine
  of the market hub; it runs the symbols one after the other (the tasks share nothing but the hub). The
  table of thresholds is a dictionary under its natural key; rates and percentages stored as floats
  are identified with the decimals they come from.
\<close>

section \<open>The drop analyzer\<close>

definition candidate_thresholds :: "decimal list" where
  "candidate_thresholds = map (\<lambda>n. of_int n / 10) [10, 15, 20, 25, 30, 35, 40, 45, 50, 55, 60, 65, 70, 75,
     80, 85, 90, 95, 100, 110, 120, 130, 140, 150]"

definition fallback_thresholds :: "(decimal, decimal) dict" where
  "fallback_thresholds = [(7 / 10, 3), (8 / 10, 4), (9 / 10, 5)]"

definition tier_configs :: "(decimal, nat \<times> decimal) dict" where
  "tier_configs = [(7 / 10, (5, 9)), (8 / 10, (10, 12)), (9 / 10, (30, 15))]"

definition default_lookback_days :: int where
  "default_lookback_days = 365"

definition default_continuation_window :: nat where
  "default_continuation_window = 5"

definition default_min_future_drop :: decimal where
  "default_min_future_drop = 9"

definition default_min_continuation_rate :: decimal where
  "default_min_continuation_rate = 8 / 10"

definition default_min_samples :: nat where
  "default_min_samples = 3"

record analysis_result =
  an_threshold_pct :: decimal
  an_used_fallback :: bool
  an_drop_events :: nat
  an_continued_events :: nat
  an_continuation_rate :: decimal

definition fallback_threshold :: "decimal \<Rightarrow> decimal" where
  "fallback_threshold rate = (case dget fallback_thresholds rate of None \<Rightarrow> 4 | Some t \<Rightarrow> t)"

definition fallback_result :: "decimal \<Rightarrow> analysis_result" where
  "fallback_result rate = \<lparr>an_threshold_pct = fallback_threshold rate, an_used_fallback = True,
     an_drop_events = 0, an_continued_events = 0, an_continuation_rate = 0\<rparr>"

text \<open>A day's change in percent, the close after the window, and the close of the day.\<close>

type_synonym drop_event = "decimal \<times> decimal \<times> decimal"

definition event_at :: "decimal list \<Rightarrow> nat \<Rightarrow> nat \<Rightarrow> drop_event list" where
  "event_at cl window i =
     (let prev_close = cl ! (i - 1); curr_close = cl ! i; future_close = cl ! (i + window) in
      if prev_close \<le> 0 \<or> curr_close \<le> 0 then []
      else [(dmul (ddiv (dsub curr_close prev_close) prev_close) 100, future_close, curr_close)])"

definition drop_events :: "decimal list \<Rightarrow> nat \<Rightarrow> drop_event list" where
  "drop_events cl window = concat (map (event_at cl window) [1..<length cl - window])"

definition at_threshold :: "decimal \<Rightarrow> drop_event list \<Rightarrow> drop_event list" where
  "at_threshold threshold drops = filter (\<lambda>d. fst d \<le> - threshold) drops"

definition continues :: "decimal \<Rightarrow> drop_event \<Rightarrow> bool" where
  "continues factor d \<longleftrightarrow> fst (snd d) \<le> dmul (snd (snd d)) factor"

fun scan_thresholds :: "decimal list \<Rightarrow> drop_event list \<Rightarrow> nat \<Rightarrow> decimal \<Rightarrow> decimal \<Rightarrow> analysis_result res" where
  "scan_thresholds [] drops min_samples factor rate = Ok (fallback_result rate)"
| "scan_thresholds (threshold # ts) drops min_samples factor rate =
     (let subset = at_threshold threshold drops in
      if length subset < min_samples then scan_thresholds ts drops min_samples factor rate
      else let continued = length (filter (continues factor) subset) in
        rbind (py_div (of_nat continued) (of_nat (length subset))) (\<lambda>r.
          if rate \<le> r
          then Ok \<lparr>an_threshold_pct = threshold, an_used_fallback = False, an_drop_events = length subset,
                an_continued_events = continued, an_continuation_rate = r\<rparr>
          else scan_thresholds ts drops min_samples factor rate))"

text \<open>The window is a natural number here; the code raises it to at least one.\<close>

definition analyze_detailed :: "market_candle list \<Rightarrow> decimal \<Rightarrow> nat \<Rightarrow> nat \<Rightarrow> decimal \<Rightarrow> analysis_result res" where
  "analyze_detailed candles rate min_samples window0 min_future_drop =
     (let window = (if window0 < 1 then 1 else window0) in
      if length candles < window + 2 then Ok (fallback_result rate)
      else let drops = drop_events (map mc_close candles) window in
        if length drops < min_samples then Ok (fallback_result rate)
        else scan_thresholds candidate_thresholds drops min_samples (dsub 1 (ddiv min_future_drop 100)) rate)"

definition analyze :: "market_candle list \<Rightarrow> decimal \<Rightarrow> nat \<Rightarrow> nat \<Rightarrow> decimal \<Rightarrow> decimal res" where
  "analyze candles rate min_samples window min_future_drop =
     rbind (analyze_detailed candles rate min_samples window min_future_drop) (\<lambda>r. Ok (an_threshold_pct r))"

section \<open>The screener\<close>

record screening_result =
  sr_symbol :: string
  sr_exchange :: string
  sr_threshold_pct :: decimal
  sr_min_continuation_rate :: decimal
  sr_continuation_window :: nat
  sr_min_future_drop_pct :: decimal
  sr_candle_count :: nat
  sr_used_fallback :: bool

record screener_config =
  sc_exchange :: string
  sc_interval :: string
  sc_lookback_days :: int
  sc_min_continuation_rate :: decimal
  sc_min_samples :: nat
  sc_continuation_window :: nat
  sc_min_future_drop_pct :: decimal
  sc_max_concurrency :: int

definition default_screener_config :: screener_config where
  "default_screener_config = \<lparr>sc_exchange = ''binance'', sc_interval = ''1d'',
     sc_lookback_days = default_lookback_days, sc_min_continuation_rate = default_min_continuation_rate,
     sc_min_samples = default_min_samples, sc_continuation_window = default_continuation_window,
     sc_min_future_drop_pct = default_min_future_drop, sc_max_concurrency = 5\<rparr>"

definition tier_of :: "decimal \<Rightarrow> nat \<times> decimal \<Rightarrow> nat \<times> decimal" where
  "tier_of rate dflt = (case dget tier_configs rate of None \<Rightarrow> dflt | Some t \<Rightarrow> t)"

text \<open>\<^verbatim>\<open>ScreenerConfig.for_tier(rate)\<close> without overrides\<close>

definition for_tier :: "decimal \<Rightarrow> screener_config" where
  "for_tier rate = (let t = tier_of rate (default_continuation_window, default_min_future_drop) in
     default_screener_config\<lparr>sc_min_continuation_rate := rate, sc_continuation_window := fst t,
       sc_min_future_drop_pct := snd t\<rparr>)"

text \<open>\<^verbatim>\<open>xs[-n:]\<close>\<close>

definition from_end :: "int \<Rightarrow> 'a list \<Rightarrow> 'a list" where
  "from_end n xs = (if n = 0 then xs else if 0 < n then drop (length xs - nat n) xs else drop (nat (- n)) xs)"

type_synonym 's candle_source = "string \<Rightarrow> string \<Rightarrow> string \<Rightarrow> ('s, market_candle list) py"

definition screened :: "string \<Rightarrow> screener_config \<Rightarrow> decimal \<Rightarrow> nat \<Rightarrow> bool \<Rightarrow> screening_result" where
  "screened symbol cfg threshold n fallback = \<lparr>sr_symbol = py_upper symbol, sr_exchange = sc_exchange cfg,
     sr_threshold_pct = threshold, sr_min_continuation_rate = sc_min_continuation_rate cfg,
     sr_continuation_window = sc_continuation_window cfg, sr_min_future_drop_pct = sc_min_future_drop_pct cfg,
     sr_candle_count = n, sr_used_fallback = fallback\<rparr>"

definition screen_symbol :: "'s candle_source \<Rightarrow> screener_config \<Rightarrow> string \<Rightarrow> ('s, screening_result) py" where
  "screen_symbol hub cfg symbol =
     bind (try_catch (hub (sc_exchange cfg) (py_upper symbol) (sc_interval cfg)) (\<lambda>_. ret [])) (\<lambda>candles.
       if candles = []
       then ret (screened symbol cfg (fallback_threshold (sc_min_continuation_rate cfg)) 0 True)
       else let candles = (if sc_lookback_days cfg < int (length candles)
              then from_end (sc_lookback_days cfg) candles else candles)
         in bind (lift_res (analyze_detailed candles (sc_min_continuation_rate cfg) (sc_min_samples cfg)
                (sc_continuation_window cfg) (sc_min_future_drop_pct cfg))) (\<lambda>r.
           ret (screened symbol cfg (an_threshold_pct r) (length candles) (an_used_fallback r))))"

definition screen :: "'s candle_source \<Rightarrow> string list \<Rightarrow> screener_config \<Rightarrow>
    ('s, (string, screening_result) dict) py" where
  "screen hub symbols cfg =
     bind (collect (\<lambda>symbol. bind (screen_symbol hub cfg symbol) (\<lambda>r. ret [(symbol, r)])) symbols) (\<lambda>pairs.
       ret (fold (\<lambda>(k, v). dput k v) pairs []))"

definition screen_one :: "'s candle_source \<Rightarrow> string \<Rightarrow> screener_config \<Rightarrow> ('s, screening_result) py" where
  "screen_one hub symbol cfg = screen_symbol hub cfg symbol"

section \<open>The table of thresholds\<close>

record threshold_row =
  bt_threshold_pct :: decimal
  bt_continuation_window :: nat
  bt_min_future_drop_pct :: decimal
  bt_lookback_days :: int
  bt_candle_count :: nat
  bt_used_fallback :: bool
  bt_resume_mode :: string
  bt_recovery_pct :: decimal
  bt_widen_multiplier :: decimal
  bt_note :: "string option"
  bt_screened_at :: datetime
  bt_updated_at :: datetime

text \<open>Exchange, symbol and continuation rate are the unique key of a row.\<close>

type_synonym threshold_key = "string \<times> string \<times> decimal"
type_synonym threshold_table = "(threshold_key, threshold_row) dict"

definition tier_resume_defaults :: "(decimal, string \<times> decimal \<times> decimal) dict" where
  "tier_resume_defaults = [(7 / 10, (''trailing_buy'', 5, 2)), (8 / 10, (''ta_confirm'', 5, 2)),
     (9 / 10, (''widen_step'', 5, 2))]"

definition resume_defaults_for_rate :: "decimal \<Rightarrow> string \<times> decimal \<times> decimal" where
  "resume_defaults_for_rate rate =
     (case dget tier_resume_defaults rate of None \<Rightarrow> (''ta_confirm'', 5, 2) | Some d \<Rightarrow> d)"

definition threshold_key_of :: "string \<Rightarrow> string \<Rightarrow> decimal \<Rightarrow> threshold_key" where
  "threshold_key_of exchange symbol rate = (py_lower exchange, py_upper symbol, rate)"

definition find_threshold :: "threshold_table \<Rightarrow> string \<Rightarrow> string \<Rightarrow> decimal \<Rightarrow> threshold_row option" where
  "find_threshold db exchange symbol rate = dget db (threshold_key_of exchange symbol rate)"

definition get_all_for_rate :: "threshold_table \<Rightarrow> decimal \<Rightarrow> string option \<Rightarrow> (threshold_key \<times> threshold_row) list" where
  "get_all_for_rate db rate exchange = filter (\<lambda>((e, y, r), row).
     r = rate \<and> (case exchange of None \<Rightarrow> True | Some x \<Rightarrow> e = py_lower x)) db"

text \<open>
  The dialect's own upsert and the manual one write the same fields, those of the resumption
  included. A row that is replaced keeps no field but its key and its creation time, which no code reads.
\<close>

definition upsert :: "datetime \<Rightarrow> string \<Rightarrow> string \<Rightarrow> decimal \<Rightarrow> decimal \<Rightarrow> nat \<Rightarrow> decimal \<Rightarrow> int \<Rightarrow> nat \<Rightarrow> bool \<Rightarrow>
    string option \<Rightarrow> decimal option \<Rightarrow> decimal option \<Rightarrow> string option \<Rightarrow> threshold_table \<Rightarrow> threshold_table" where
  "upsert t exchange symbol rate threshold window future_drop lookback n fallback mode recovery widen note db =
     (let (mode0, recovery0, widen0) = resume_defaults_for_rate rate in
      dput (threshold_key_of exchange symbol rate)
        \<lparr>bt_threshold_pct = threshold, bt_continuation_window = window, bt_min_future_drop_pct = future_drop,
         bt_lookback_days = lookback, bt_candle_count = n, bt_used_fallback = fallback,
         bt_resume_mode = default mode0 mode, bt_recovery_pct = default recovery0 recovery,
         bt_widen_multiplier = default widen0 widen, bt_note = note,
         bt_screened_at = t, bt_updated_at = t\<rparr> db)"

definition update_resume_config :: "datetime \<Rightarrow> string \<Rightarrow> string \<Rightarrow> decimal \<Rightarrow> string option \<Rightarrow> decimal option \<Rightarrow>
    decimal option \<Rightarrow> threshold_table \<Rightarrow> threshold_row option \<times> threshold_table" where
  "update_resume_config t exchange symbol rate mode recovery widen db =
     (case find_threshold db exchange symbol rate of
        None \<Rightarrow> (None, db)
      | Some row \<Rightarrow>
          let row' = row\<lparr>bt_resume_mode := default (bt_resume_mode row) mode,
                bt_recovery_pct := default (bt_recovery_pct row) recovery,
                bt_widen_multiplier := default (bt_widen_multiplier row) widen, bt_updated_at := t\<rparr>
          in (Some row', dput (threshold_key_of exchange symbol rate) row' db))"

section \<open>The store\<close>

definition store_result :: "datetime \<Rightarrow> screener_config \<Rightarrow> screening_result \<Rightarrow> threshold_table \<Rightarrow> threshold_table" where
  "store_result t cfg r = upsert t (sr_exchange r) (sr_symbol r) (sr_min_continuation_rate r) (sr_threshold_pct r)
     (sr_continuation_window r) (sr_min_future_drop_pct r) (sc_lookback_days cfg) (sr_candle_count r)
     (sr_used_fallback r) None None None None"

definition rescreen_all :: "'s candle_source \<Rightarrow> datetime \<Rightarrow> string list \<Rightarrow> screener_config \<Rightarrow> threshold_table \<Rightarrow>
    ('s, (string, screening_result) dict \<times> threshold_table) py" where
  "rescreen_all hub t symbols cfg db = bind (screen hub symbols cfg) (\<lambda>results.
     ret (results, fold (store_result t cfg) (map snd results) db))"

definition rate_config :: "screener_config \<Rightarrow> decimal \<Rightarrow> screener_config" where
  "rate_config base rate = (let tier = tier_of rate (sc_continuation_window base, sc_min_future_drop_pct base) in
     base\<lparr>sc_min_continuation_rate := rate, sc_continuation_window := fst tier, sc_min_future_drop_pct := snd tier\<rparr>)"

fun rescreen_for_rates :: "'s candle_source \<Rightarrow> datetime \<Rightarrow> string list \<Rightarrow> decimal list \<Rightarrow> screener_config \<Rightarrow> threshold_table \<Rightarrow>
    (decimal, (string, screening_result) dict) dict \<Rightarrow>
    ('s, (decimal, (string, screening_result) dict) dict \<times> threshold_table) py" where
  "rescreen_for_rates hub t symbols [] base db all_results = ret (all_results, db)"
| "rescreen_for_rates hub t symbols (rate # rates) base db all_results =
     bind (rescreen_all hub t symbols (rate_config base rate) db) (\<lambda>(results, db').
       rescreen_for_rates hub t symbols rates base db' (dput rate results all_results))"

definition get_threshold :: "threshold_table \<Rightarrow> string \<Rightarrow> decimal \<Rightarrow> string \<Rightarrow> decimal" where
  "get_threshold db symbol rate exchange = (case find_threshold db exchange symbol rate of
      Some row \<Rightarrow> bt_threshold_pct row
    | None \<Rightarrow> fallback_threshold rate)"

definition get_all_thresholds :: "threshold_table \<Rightarrow> decimal \<Rightarrow> string option \<Rightarrow> (string, decimal) dict" where
  "get_all_thresholds db rate exchange =
     fold (\<lambda>((e, y, r), row). dput y (bt_threshold_pct row)) (get_all_for_rate db rate exchange) []"

record breaker_config =
  bc_critical_threshold :: decimal
  bc_resume_mode :: resume_mode
  bc_recovery_pct :: decimal
  bc_widen_multiplier :: decimal
  bc_min_continuation_rate :: decimal
  bc_used_fallback :: bool

definition parse_resume_mode :: "string \<Rightarrow> resume_mode" where
  "parse_resume_mode m = (if m = ''widen_step'' then WIDEN_STEP
     else if m = ''trailing_buy'' then TRAILING_BUY else TA_CONFIRM)"

definition get_breaker_config :: "threshold_table \<Rightarrow> string \<Rightarrow> decimal \<Rightarrow> string \<Rightarrow> breaker_config" where
  "get_breaker_config db symbol rate exchange = (case find_threshold db exchange symbol rate of
      Some row \<Rightarrow> \<lparr>bc_critical_threshold = bt_threshold_pct row, bc_resume_mode = parse_resume_mode (bt_resume_mode row),
        bc_recovery_pct = bt_recovery_pct row, bc_widen_multiplier = bt_widen_multiplier row,
        bc_min_continuation_rate = rate, bc_used_fallback = bt_used_fallback row\<rparr>
    | None \<Rightarrow> \<lparr>bc_critical_threshold = fallback_threshold rate, bc_resume_mode = TA_CONFIRM,
        bc_recovery_pct = default_recovery_pct, bc_widen_multiplier = default_widen_multiplier,
        bc_min_continuation_rate = rate, bc_used_fallback = True\<rparr>)"

definition setup_breaker_for_instance :: "'f fl_ops \<Rightarrow> threshold_table \<Rightarrow> string \<Rightarrow> string \<Rightarrow> decimal \<Rightarrow> string \<Rightarrow>
    decimal option \<Rightarrow> ('x, 'f, 'm, breaker_config) xg" where
  "setup_breaker_for_instance fl db i symbol rate exchange day_open =
     (let cfg = get_breaker_config db symbol rate exchange in
      seq (configure_circuit_breaker fl i (bc_critical_threshold cfg) (bc_min_continuation_rate cfg)
             (bc_resume_mode cfg) (Some (bc_recovery_pct cfg)) (Some (bc_widen_multiplier cfg)) day_open [])
          (ret cfg))"

end
