(* ===== verification/BreakerThresholds.thy ===== *)
theory BreakerThresholds
  imports BreakerScreening
begin

text \<open>
  What the screening of critical drops promises: the analyzer returns the least candidate threshold
  that the history of closes supports, every table that screening and administration can build holds
  thresholds between 1 and 15 percent, and a breaker set up from such a table triggers on every drop
  of 15 percent.
\<close>

section \<open>The reference: days of a history\<close>

text \<open>The days with a drop of at least \<open>t\<close> percent whose window lies within the history.\<close>

definition day_change :: "decimal list \<Rightarrow> nat \<Rightarrow> decimal" where
  "day_change cl i = dmul (ddiv (dsub (cl ! i) (cl ! (i - 1))) (cl ! (i - 1))) 100"

definition drop_days :: "decimal list \<Rightarrow> nat \<Rightarrow> decimal \<Rightarrow> nat list" where
  "drop_days cl window t = filter (\<lambda>i. 0 < cl ! (i - 1) \<and> 0 < cl ! i \<and> day_change cl i \<le> - t) [1..<length cl - window]"

definition continued_days :: "decimal list \<Rightarrow> nat \<Rightarrow> decimal \<Rightarrow> decimal \<Rightarrow> nat list" where
  "continued_days cl window factor t = filter (\<lambda>i. cl ! (i + window) \<le> dmul (cl ! i) factor) (drop_days cl window t)"

text \<open>A threshold is supported: enough such days, and a large enough share of them goes on falling.\<close>

definition supported :: "decimal list \<Rightarrow> nat \<Rightarrow> nat \<Rightarrow> decimal \<Rightarrow> decimal \<Rightarrow> decimal \<Rightarrow> bool" where
  "supported cl window min_samples factor rate t \<longleftrightarrow> min_samples \<le> length (drop_days cl window t) \<and>
     rate \<le> ddiv (of_nat (length (continued_days cl window factor t))) (of_nat (length (drop_days cl window t)))"

section \<open>The scan\<close>

lemma events_of_days:
  "at_threshold t (drop_events cl window) =
   map (\<lambda>i. (day_change cl i, cl ! (i + window), cl ! i)) (drop_days cl window t)"
proof -
  have "at_threshold t (concat (map (event_at cl window) is)) =
      map (\<lambda>i. (day_change cl i, cl ! (i + window), cl ! i))
        (filter (\<lambda>i. 0 < cl ! (i - 1) \<and> 0 < cl ! i \<and> day_change cl i \<le> - t) is)" for "is"
    by (induction "is") (auto simp: at_threshold_def event_at_def Let_def day_change_def)
  then show ?thesis by (simp add: drop_events_def drop_days_def)
qed

lemma counted_events: "length (at_threshold t (drop_events cl window)) = length (drop_days cl window t)"
  by (simp add: events_of_days)

lemma continuing_events:
  "length (filter (continues factor) (at_threshold t (drop_events cl window))) =
   length (continued_days cl window factor t)"
  by (simp add: events_of_days continued_days_def filter_map comp_def continues_def)

definition found :: "decimal list \<Rightarrow> nat \<Rightarrow> decimal \<Rightarrow> decimal \<Rightarrow> analysis_result" where
  "found cl window factor t = \<lparr>an_threshold_pct = t, an_used_fallback = False,
     an_drop_events = length (drop_days cl window t),
     an_continued_events = length (continued_days cl window factor t),
     an_continuation_rate = ddiv (of_nat (length (continued_days cl window factor t)))
       (of_nat (length (drop_days cl window t)))\<rparr>"

text \<open>The result of a scan: the first supported candidate, or the fallback.\<close>

definition first_supported :: "decimal list \<Rightarrow> nat \<Rightarrow> nat \<Rightarrow> decimal \<Rightarrow> decimal \<Rightarrow> decimal list \<Rightarrow> analysis_result" where
  "first_supported cl window min_samples factor rate ts =
     (case find (supported cl window min_samples factor rate) ts of
        None \<Rightarrow> fallback_result rate
      | Some t \<Rightarrow> found cl window factor t)"

lemma scan_finds:
  assumes "0 < min_samples"
  shows "scan_thresholds ts (drop_events cl window) min_samples factor rate =
    Ok (first_supported cl window min_samples factor rate ts)"
proof (induction ts)
  case (Cons t ts)
  let ?drops = "length (drop_days cl window t)"
  show ?case
  proof (cases "?drops < min_samples")
    case False
    then have "0 < ?drops" using assms by linarith
    then have "drop_days cl window t \<noteq> []" by simp
    then show ?thesis
      using False Cons by (simp add: first_supported_def continuing_events counted_events supported_def found_def py_div_def Let_def)
  qed (use Cons in \<open>simp add: first_supported_def counted_events supported_def\<close>)
qed (simp add: first_supported_def)

lemma too_few_days:
  assumes "length (drop_events cl window) < min_samples"
  shows "first_supported cl window min_samples factor rate ts = fallback_result rate"
proof -
  have "length (drop_days cl window t) \<le> length (drop_events cl window)" for t
    unfolding counted_events [symmetric] by (simp add: at_threshold_def)
  then have "\<not> supported cl window min_samples factor rate t" for t
    using assms by (auto simp: supported_def not_le dest: le_less_trans)
  then show ?thesis by (induction ts) (simp_all add: first_supported_def)
qed

lemma short_history: "length cl < window + 2 \<Longrightarrow> drop_events cl window = []"
  by (simp add: drop_events_def)

lemma analysis_reference:
  assumes "0 < min_samples" and "0 < window"
  shows "analyze_detailed candles rate min_samples window future_drop =
    Ok (first_supported (map mc_close candles) window min_samples (dsub 1 (ddiv future_drop 100)) rate candidate_thresholds)"
proof (cases "length (drop_events (map mc_close candles) window) < min_samples")
  case True
  then show ?thesis
    using assms(2) by (simp add: analyze_detailed_def Let_def too_few_days [OF True])
next
  case False
  then have "window + 2 \<le> length candles"
    using short_history [of "map mc_close candles" window] assms(1) by (cases "length candles < window + 2") auto
  then show ?thesis using assms False by (simp add: analyze_detailed_def Let_def scan_finds)
qed

lemma candidates_ascend: "sorted_wrt (<) candidate_thresholds"
  by (simp add: candidate_thresholds_def)

lemma find_least:
  assumes "sorted_wrt (<) ts" and "find P ts = Some t"
  shows "t \<in> set ts \<and> P t \<and> (\<forall>u \<in> set ts. P u \<longrightarrow> t \<le> (u :: decimal))"
  using assms by (induction ts) (auto split: if_splits intro: less_imp_le)

text \<open>
  C14. The screened threshold is the least one the history supports. For every history of candles, at
  least one sample and a window of at least a day, the analysis never raises. It returns the least
  candidate percentage for which enough days of the history dropped by that much and, of those days,
  a share of at least the continuation rate fell further within the window, with the counts and
  the share; when no candidate has that, the fallback of the tier.
\<close>

theorem threshold_least_supported:
  fixes candles :: "market_candle list" and rate future_drop :: decimal and min_samples window :: nat
  assumes "0 < min_samples" and "0 < window"
  defines "ok \<equiv> supported (map mc_close candles) window min_samples (dsub 1 (ddiv future_drop 100)) rate"
  shows "case analyze_detailed candles rate min_samples window future_drop of
      Raise _ \<Rightarrow> False
    | Ok r \<Rightarrow>
        if an_used_fallback r
        then an_threshold_pct r = fallback_threshold rate \<and> (\<forall>t \<in> set candidate_thresholds. \<not> ok t)
        else an_threshold_pct r \<in> set candidate_thresholds \<and> ok (an_threshold_pct r) \<and>
          (\<forall>t \<in> set candidate_thresholds. ok t \<longrightarrow> an_threshold_pct r \<le> t) \<and>
          an_drop_events r = length (drop_days (map mc_close candles) window (an_threshold_pct r)) \<and>
          rate \<le> an_continuation_rate r"
proof (cases "find ok candidate_thresholds")
  case None
  then have "\<forall>t \<in> set candidate_thresholds. \<not> ok t" by (simp add: find_None_iff)
  then show ?thesis
    unfolding analysis_reference [OF assms(1,2)] first_supported_def
    using None by (simp add: ok_def fallback_result_def)
next
  case (Some t)
  from find_least [OF candidates_ascend this] have t: "t \<in> set candidate_thresholds" "ok t"
    and least: "\<forall>u \<in> set candidate_thresholds. ok u \<longrightarrow> t \<le> u" by simp_all
  from t(2) have "rate \<le> an_continuation_rate (found (map mc_close candles) window (dsub 1 (ddiv future_drop 100)) t)"
    by (simp add: ok_def supported_def found_def)
  then show ?thesis
    unfolding analysis_reference [OF assms(1,2)] first_supported_def
    using Some t least by (simp add: ok_def found_def)
qed

section \<open>The table\<close>

text \<open>
  Rescreening resets what an administrator set. A row whose resumption has been changed by
  \<^verbatim>\<open>update_resume_config\<close> has the defaults of its tier again after its symbol has been screened once
  more, whatever the screening found.
\<close>

theorem rescreening_resets_overrides:
  assumes changed: "update_resume_config t exchange symbol rate mode recovery widen db = (Some row, db')"
    and same: "threshold_key_of (sr_exchange r) (sr_symbol r) (sr_min_continuation_rate r) =
      threshold_key_of exchange symbol rate"
  shows "\<exists>row'. find_threshold (store_result u cfg r db') exchange symbol rate = Some row' \<and>
    (bt_resume_mode row', bt_recovery_pct row', bt_widen_multiplier row') = resume_defaults_for_rate rate"
  using same by (auto simp: store_result_def upsert_def find_threshold_def threshold_key_of_def split: prod.splits)

section \<open>No instance without protection\<close>

definition thresholds_within :: "threshold_table \<Rightarrow> bool" where
  "thresholds_within db \<longleftrightarrow> (\<forall>k row. dget db k = Some row \<longrightarrow> 1 \<le> bt_threshold_pct row \<and> bt_threshold_pct row \<le> 15)"

lemma thresholds_withinD:
  "thresholds_within db \<Longrightarrow> dget db k = Some row \<Longrightarrow> 1 \<le> bt_threshold_pct row \<and> bt_threshold_pct row \<le> 15"
  unfolding thresholds_within_def by blast

lemma thresholds_within_dput:
  assumes "thresholds_within db" and "1 \<le> bt_threshold_pct row \<and> bt_threshold_pct row \<le> 15"
  shows "thresholds_within (dput k row db)"
  unfolding thresholds_within_def using assms by (auto split: if_splits dest: thresholds_withinD)

text \<open>The tables that screenings and the administrator's changes build, from an empty one.\<close>

inductive screened_table :: "'s candle_source \<Rightarrow> threshold_table \<Rightarrow> bool" for hub where
  fresh: "screened_table hub []"
| rescreened: "screened_table hub db \<Longrightarrow> 0 < sc_min_samples cfg \<Longrightarrow> 0 < sc_continuation_window cfg \<Longrightarrow>
    rescreen_all hub t symbols cfg db s = (Ok (results, db'), s') \<Longrightarrow> screened_table hub db'"
| administered: "screened_table hub db \<Longrightarrow>
    screened_table hub (snd (update_resume_config t exchange symbol rate mode recovery widen db))"

lemma fallback_within: "1 \<le> fallback_threshold rate \<and> fallback_threshold rate \<le> 15"
  by (simp add: fallback_threshold_def fallback_thresholds_def)

lemma candidates_within: "t \<in> set candidate_thresholds \<Longrightarrow> 1 \<le> t \<and> t \<le> 15"
  by (auto simp: candidate_thresholds_def)


lemma analysis_within:
  assumes "0 < k" and "0 < w" and "analyze_detailed candles rate k w f = Ok r"
  shows "1 \<le> an_threshold_pct r \<and> an_threshold_pct r \<le> 15"
  using assms(3) fallback_within [of rate] find_least [OF candidates_ascend] candidates_within
  unfolding analysis_reference [OF assms(1,2)] first_supported_def
  by (fastforce simp: fallback_result_def found_def split: option.splits)

definition screening_within :: "screening_result \<Rightarrow> bool" where
  "screening_within r \<longleftrightarrow> 1 \<le> sr_threshold_pct r \<and> sr_threshold_pct r \<le> 15"

lemma screen_symbol_within:
  assumes "0 < sc_min_samples cfg" and "0 < sc_continuation_window cfg"
    and "screen_symbol hub cfg symbol s = (Ok r, s')"
  shows "screening_within r"
  using assms(3) fallback_within [of "sc_min_continuation_rate cfg"] analysis_within [OF assms(1,2)]
  unfolding screen_symbol_def Let_def
  by (elim bind_OkE) (fastforce simp: screening_within_def screened_def ret_def lift_res_def
      split: if_splits elim!: bind_OkE)

lemma screen_pairs_within:
  assumes "0 < sc_min_samples cfg" and "0 < sc_continuation_window cfg"
    and "collect (\<lambda>symbol. bind (screen_symbol hub cfg symbol) (\<lambda>r. ret [(symbol, r)])) symbols s = (Ok pairs, s')"
  shows "\<forall>p \<in> set pairs. screening_within (snd p)"
  using assms(3)
proof (induction symbols arbitrary: s s' pairs)
  case Nil
  then show ?case by (simp add: ret_def)
next
  case (Cons y ys)
  then show ?case by (fastforce simp: ret_def elim!: bind_OkE dest: screen_symbol_within [OF assms(1,2)])
qed

lemma fold_dput_values: "p \<in> set (fold (\<lambda>(k, v). dput k v) ps d) \<Longrightarrow> p \<in> set ps \<or> p \<in> set d"
  by (induction ps arbitrary: d) (auto dest: in_dput)

lemma store_results_within:
  "(\<forall>r \<in> set rs. screening_within r) \<Longrightarrow> thresholds_within db \<Longrightarrow> thresholds_within (fold (store_result t cfg) rs db)"
proof (induction rs arbitrary: db)
  case (Cons r rs)
  then have "thresholds_within (store_result t cfg r db)"
    by (simp add: store_result_def upsert_def screening_within_def thresholds_within_dput split: prod.splits)
  then show ?case using Cons by simp
qed simp

lemma rescreen_within:
  assumes "0 < sc_min_samples cfg" and "0 < sc_continuation_window cfg" and "thresholds_within db"
    and "rescreen_all hub t symbols cfg db s = (Ok (results, db'), s')"
  shows "thresholds_within db'"
proof -
  obtain s1 where "screen hub symbols cfg s = (Ok results, s1)"
    and db': "db' = fold (store_result t cfg) (map snd results) db"
    using assms(4) by (auto simp: rescreen_all_def ret_def elim!: bind_OkE)
  then obtain pairs s2 where
    "collect (\<lambda>symbol. bind (screen_symbol hub cfg symbol) (\<lambda>r. ret [(symbol, r)])) symbols s = (Ok pairs, s2)"
    and "results = fold (\<lambda>(k, v). dput k v) pairs []"
    by (auto simp: screen_def ret_def elim!: bind_OkE)
  then have "\<forall>p \<in> set results. screening_within (snd p)"
    using screen_pairs_within [OF assms(1,2)] fold_dput_values [of _ pairs "[]"] by fastforce
  then show ?thesis using store_results_within assms(3) by (auto simp: db')
qed

lemma screened_within: "screened_table hub db \<Longrightarrow> thresholds_within db"
proof (induction rule: screened_table.induct)
  case (administered db t exchange symbol rate mode recovery widen)
  then show ?case
    by (auto simp: update_resume_config_def find_threshold_def Let_def thresholds_withinD
        intro!: thresholds_within_dput split: option.splits)
next
  case (rescreened db cfg t symbols s results db' s')
  then show ?case by (blast intro: rescreen_within)
qed (simp add: thresholds_within_def)

lemma config_within:
  "thresholds_within db \<Longrightarrow> 1 \<le> bc_critical_threshold (get_breaker_config db symbol rate exchange) \<and>
     bc_critical_threshold (get_breaker_config db symbol rate exchange) \<le> 15"
  using fallback_within [of rate]
  by (auto dest: thresholds_withinD simp: get_breaker_config_def find_threshold_def split: option.splits)

lemma dneg_between: "1 \<le> c \<Longrightarrow> c \<le> 15 \<Longrightarrow> -15 \<le> dneg c \<and> dneg c \<le> -1"
proof -
  have "dfix (-15) = -15" by code_simp
  then show "1 \<le> c \<Longrightarrow> c \<le> 15 \<Longrightarrow> -15 \<le> dneg c \<and> dneg c \<le> -1"
    using dfix_mono [of "-15" "-c"] dfix_mono [of "-c" "-1"] by (simp add: dneg_def)
qed

text \<open>
  C15. No breaker is set up without protection. Whatever screenings and administrative changes the
  table has been through, for every symbol, rate and exchange, screened or not, the breaker that is
  set up triggers at each price with an intraday drop of 15 percent or more, and at none with a drop
  of less than one percent.
\<close>

theorem screened_breaker_protects:
  assumes "screened_table hub db"
  shows "\<exists>b. dget (breakers (snd (setup_breaker_for_instance fl db i symbol rate exchange day_open s))) i = Some b \<and>
    (\<forall>p. intraday_drop_pct p b \<le> -15 \<longrightarrow> should_trigger p b) \<and>
    (\<forall>p. -1 < intraday_drop_pct p b \<longrightarrow> \<not> should_trigger p b)"
proof -
  have "-15 \<le> dneg (bc_critical_threshold (get_breaker_config db symbol rate exchange)) \<and>
      dneg (bc_critical_threshold (get_breaker_config db symbol rate exchange)) \<le> -1"
    using config_within [OF screened_within [OF assms]] dneg_between by blast
  then show ?thesis
    by (auto simp: setup_breaker_for_instance_def Let_def configure_circuit_breaker_def new_breaker_def
        should_trigger_def py_simps)
qed

section \<open>Concrete screenings\<close>

definition falling :: "market_candle list" where
  "falling = map (\<lambda>c. \<lparr>mc_symbol = ''BTCUSDT'', mc_interval = ''1d'', mc_open = c, mc_high = c, mc_low = c,
     mc_close = c, mc_volume = 1, mc_timestamp = 0\<rparr>) [100, 90, 50]"

definition falling_hub :: "unit candle_source" where
  "falling_hub exchange symbol interval = ret falling"

theorem threshold_least_supported_witness:
  "\<exists>r. analyze_detailed falling (8 / 10) 1 1 9 = Ok r \<and> \<not> an_used_fallback r \<and> an_threshold_pct r = 1 \<and>
     supported [100, 90, 50] 1 1 (dsub 1 (ddiv 9 100)) (8 / 10) 1"
proof -
  have "analyze_detailed falling (8 / 10) 1 1 9 = Ok \<lparr>an_threshold_pct = 1, an_used_fallback = False,
      an_drop_events = 1, an_continued_events = 1, an_continuation_rate = 1\<rparr>"
    by code_simp
  with threshold_least_supported [where candles = falling and min_samples = 1 and window = 1 and rate = "8 / 10"
      and future_drop = 9] show ?thesis
    by (simp add: falling_def)
qed

definition overridden :: "threshold_row option \<times> threshold_table" where
  "overridden = update_resume_config 5 ''binance'' ''btcusdt'' (9 / 10) (Some ''trailing_buy'') (Some 8) None
     (store_result 0 (for_tier (9 / 10)) (screened ''BTCUSDT'' (for_tier (9 / 10)) 5 0 True) [])"

theorem rescreening_resets_overrides_witness:
  "\<exists>row'. find_threshold (store_result 9 (for_tier (9 / 10)) (screened ''BTCUSDT'' (for_tier (9 / 10)) 4 100 False)
       (snd overridden)) ''binance'' ''btcusdt'' (9 / 10) = Some row' \<and>
     (bt_resume_mode row', bt_recovery_pct row', bt_widen_multiplier row') = (''widen_step'', 5, 2) \<and>
     map_option bt_resume_mode (fst overridden) = Some ''trailing_buy''"
proof -
  have m: "map_option bt_resume_mode (fst overridden) = Some ''trailing_buy''" by code_simp
  then obtain row where "overridden = (Some row, snd overridden)"
    by (cases "fst overridden") (auto simp: prod_eq_iff)
  moreover have "threshold_key_of (sr_exchange (screened ''BTCUSDT'' (for_tier (9 / 10)) 4 100 False))
      (sr_symbol (screened ''BTCUSDT'' (for_tier (9 / 10)) 4 100 False))
      (sr_min_continuation_rate (screened ''BTCUSDT'' (for_tier (9 / 10)) 4 100 False)) =
      threshold_key_of ''binance'' ''btcusdt'' (9 / 10)"
    by code_simp
  moreover have "resume_defaults_for_rate (9 / 10) = (''widen_step'', 5, 2)" by code_simp
  ultimately show ?thesis
    using rescreening_resets_overrides [of 5 "''binance''" "''btcusdt''" "9 / 10" "Some ''trailing_buy''" "Some 8" None
        "store_result 0 (for_tier (9 / 10)) (screened ''BTCUSDT'' (for_tier (9 / 10)) 5 0 True) []" row "snd overridden"
        "screened ''BTCUSDT'' (for_tier (9 / 10)) 4 100 False" 9 "for_tier (9 / 10)"] m
    by (simp add: overridden_def)
qed

theorem screened_breaker_protects_witness:
  "\<forall>(fl :: 'f fl_ops) (s :: ('x, 'f, 'm) grid_engine_scheme). \<exists>db. db \<noteq> [] \<and> (\<exists>b. dget (breakers (snd (setup_breaker_for_instance fl db ''i'' ''BTCUSDT'' (9 / 10) ''binance'' None
     s))) ''i'' = Some b \<and> (\<forall>p. intraday_drop_pct p b \<le> -15 \<longrightarrow> should_trigger p b))"
proof (intro allI)
  fix fl :: "'f fl_ops" and s :: "('x, 'f, 'm) grid_engine_scheme"
  let ?run = "rescreen_all falling_hub 0 [''BTCUSDT''] (for_tier (9 / 10)) [] ()"
  have "case fst ?run of Raise _ \<Rightarrow> False | Ok (results, db) \<Rightarrow> length db = 1" by code_simp
  then obtain results db where run: "?run = (Ok (results, db), snd ?run)" and "length db = 1"
    by (cases ?run) (auto split: res.splits)
  have cfg: "0 < sc_min_samples (for_tier (9 / 10))" "0 < sc_continuation_window (for_tier (9 / 10))"
    by code_simp+
  have "screened_table falling_hub db"
    by (rule screened_table.rescreened [OF screened_table.fresh cfg run])
  moreover have "db \<noteq> []" using \<open>length db = 1\<close> by auto
  ultimately show "\<exists>db. db \<noteq> [] \<and> (\<exists>b. dget (breakers (snd (setup_breaker_for_instance fl db ''i'' ''BTCUSDT'' (9 / 10)
      ''binance'' None s))) ''i'' = Some b \<and> (\<forall>p. intraday_drop_pct p b \<le> -15 \<longrightarrow> should_trigger p b))"
    using screened_breaker_protects [of falling_hub db fl "''i''" "''BTCUSDT''" "9 / 10" "''binance''" None s] by blast
qed

end
