(* ===== verification/MarketData.thy ===== *)
theory MarketData
  imports DomainTypes "HOL-Library.List_Lexorder" "HOL-Library.Char_ord"
begin

text \<open>
  \<^verbatim>\<open>market/\<close>: the cache, the symbol registry, the connectors, the subscription manager and the hub
  that holds them. A consumer's callback is a value of an arbitrary type; running it on a list of
  arguments is a parameter of the routines that do so. The exchange adapter (\<^verbatim>\<open>adapters/base.py\<close>) is
  a record of routines on the exchanges' own state. Rates and latencies, floats in the code, are
  exact rationals: nothing but their sign is compared. \<^verbatim>\<open>_tasks\<close> stays empty and is left out.
\<close>

section \<open>Messages and status\<close>

datatype market_status = M_CONNECTED | M_CONNECTING | M_STALE | M_RECONNECTING | M_DISCONNECTED

datatype market_data = Ticker ticker_data | Book order_book | OneCandle market_candle
  | Candles "market_candle list" | OtherData

datatype argument = Str string | Data market_data

record market_metrics =
  mm_exchange :: string
  mm_symbol :: string
  mm_last_update :: "datetime option"
  mm_latency_ms :: rat
  mm_reconnect_count :: nat
  mm_dropped_messages :: nat
  mm_message_rate :: rat
  mm_status :: market_status

definition keep_last :: "nat \<Rightarrow> 'a list \<Rightarrow> 'a list" where
  "keep_last n xs = drop (length xs - n) xs"

definition rate_of :: "datetime list \<Rightarrow> rat" where
  "rate_of ts = (let span = last ts - hd ts in
     if 0 < span then of_nat (length ts) / of_int span else 0)"

section \<open>The cache\<close>

record cache_entry =
  ce_symbol :: string
  ce_exchange :: string
  ce_ticker :: "ticker_data option"
  ce_orderbook :: "order_book option"
  ce_candles :: "(string, market_candle list) dict"
  ce_price :: "decimal option"
  ce_last_update :: "datetime option"
  ce_message_count :: nat
  ce_message_times :: "datetime list"
  ce_last_sequence :: "int option"

record market_cache =
  mc_data :: "(string \<times> string, cache_entry) dict"
  mc_stale_threshold :: rat

definition fresh_entry :: "string \<Rightarrow> string \<Rightarrow> cache_entry" where
  "fresh_entry exchange symbol = \<lparr>ce_symbol = py_upper symbol, ce_exchange = py_lower exchange, ce_ticker = None,
     ce_orderbook = None, ce_candles = [], ce_price = None, ce_last_update = None, ce_message_count = 0,
     ce_message_times = [], ce_last_sequence = None\<rparr>"

definition update_timestamp :: "datetime \<Rightarrow> cache_entry \<Rightarrow> cache_entry" where
  "update_timestamp t e = e\<lparr>ce_last_update := Some t, ce_message_times := keep_last 100 (ce_message_times e @ [t]),
     ce_message_count := ce_message_count e + 1\<rparr>"

definition entry_message_rate :: "cache_entry \<Rightarrow> rat" where
  "entry_message_rate e = (if length (ce_message_times e) < 2 then 0 else rate_of (ce_message_times e))"

definition cache_key :: "string \<Rightarrow> string \<Rightarrow> string \<times> string" where
  "cache_key exchange symbol = (py_lower exchange, py_upper symbol)"

definition cache_find :: "string \<Rightarrow> string \<Rightarrow> market_cache \<Rightarrow> cache_entry option" where
  "cache_find exchange symbol c = dget (mc_data c) (cache_key exchange symbol)"

text \<open>The entry, created when there is none, changed in place.\<close>

definition on_entry :: "string \<Rightarrow> string \<Rightarrow> (cache_entry \<Rightarrow> cache_entry) \<Rightarrow> market_cache \<Rightarrow> market_cache" where
  "on_entry exchange symbol f c =
     (let e = (case cache_find exchange symbol c of None \<Rightarrow> fresh_entry exchange symbol | Some e \<Rightarrow> e)
      in c\<lparr>mc_data := dput (cache_key exchange symbol) (f e) (mc_data c)\<rparr>)"

definition update_ticker :: "datetime \<Rightarrow> string \<Rightarrow> string \<Rightarrow> ticker_data \<Rightarrow> market_cache \<Rightarrow> market_cache" where
  "update_ticker t exchange symbol ticker = on_entry exchange symbol (\<lambda>e.
     update_timestamp t (e\<lparr>ce_ticker := Some ticker, ce_price := Some (td_last ticker)\<rparr>))"

definition update_orderbook :: "datetime \<Rightarrow> string \<Rightarrow> string \<Rightarrow> order_book \<Rightarrow> market_cache \<Rightarrow> market_cache" where
  "update_orderbook t exchange symbol book = on_entry exchange symbol (\<lambda>e.
     update_timestamp t (e\<lparr>ce_orderbook := Some book\<rparr>))"

definition update_candles :: "datetime \<Rightarrow> string \<Rightarrow> string \<Rightarrow> string \<Rightarrow> market_candle list \<Rightarrow> market_cache \<Rightarrow> market_cache" where
  "update_candles t exchange symbol interval candles = on_entry exchange symbol (\<lambda>e.
     update_timestamp t (e\<lparr>ce_candles := dput interval candles (ce_candles e)\<rparr>))"

definition cached_price :: "string \<Rightarrow> string \<Rightarrow> market_cache \<Rightarrow> decimal option" where
  "cached_price exchange symbol c = Option.bind (cache_find exchange symbol c) ce_price"

definition cached_ticker :: "string \<Rightarrow> string \<Rightarrow> market_cache \<Rightarrow> ticker_data option" where
  "cached_ticker exchange symbol c = Option.bind (cache_find exchange symbol c) ce_ticker"

definition cached_orderbook :: "string \<Rightarrow> string \<Rightarrow> market_cache \<Rightarrow> order_book option" where
  "cached_orderbook exchange symbol c = Option.bind (cache_find exchange symbol c) ce_orderbook"

definition cached_candles :: "string \<Rightarrow> string \<Rightarrow> string \<Rightarrow> market_cache \<Rightarrow> market_candle list option" where
  "cached_candles exchange symbol interval c =
     Option.bind (cache_find exchange symbol c) (\<lambda>e. dget (ce_candles e) interval)"

definition get_last_update :: "string \<Rightarrow> string \<Rightarrow> market_cache \<Rightarrow> datetime option" where
  "get_last_update exchange symbol c = Option.bind (cache_find exchange symbol c) ce_last_update"

definition get_message_count :: "string \<Rightarrow> string \<Rightarrow> market_cache \<Rightarrow> nat" where
  "get_message_count exchange symbol c =
     (case cache_find exchange symbol c of None \<Rightarrow> 0 | Some e \<Rightarrow> ce_message_count e)"

definition get_message_rate :: "string \<Rightarrow> string \<Rightarrow> market_cache \<Rightarrow> rat" where
  "get_message_rate exchange symbol c =
     (case cache_find exchange symbol c of None \<Rightarrow> 0 | Some e \<Rightarrow> entry_message_rate e)"

definition is_fresh :: "datetime \<Rightarrow> string \<Rightarrow> string \<Rightarrow> market_cache \<Rightarrow> bool" where
  "is_fresh t exchange symbol c = (case get_last_update exchange symbol c of
      None \<Rightarrow> False
    | Some u \<Rightarrow> of_int (t - u) < mc_stale_threshold c)"

definition cache_clear :: "string option \<Rightarrow> string option \<Rightarrow> market_cache \<Rightarrow> market_cache" where
  "cache_clear exchange symbol c =
     (if exchange = None \<and> symbol = None then c\<lparr>mc_data := []\<rparr>
      else let x = (case exchange of None \<Rightarrow> [] | Some e \<Rightarrow> py_lower e);
               y = (case symbol of None \<Rightarrow> [] | Some s \<Rightarrow> py_upper s)
        in c\<lparr>mc_data := filter (\<lambda>((e, s), _). \<not> ((x = [] \<or> e = x) \<and> (y = [] \<or> s = y))) (mc_data c)\<rparr>)"

definition cached_symbols :: "string option \<Rightarrow> market_cache \<Rightarrow> string list" where
  "cached_symbols exchange c = sort (remdups (map (snd \<circ> fst) (filter (\<lambda>((e, s), _).
     exchange = None \<or> exchange \<noteq> None \<and> e = py_lower (the exchange)) (mc_data c))))"

definition cached_exchanges :: "market_cache \<Rightarrow> string list" where
  "cached_exchanges c = sort (remdups (map (fst \<circ> fst) (mc_data c)))"

definition entry_count :: "market_cache \<Rightarrow> nat" where
  "entry_count c = length (mc_data c)"

section \<open>The symbol registry\<close>

definition py_strip :: "string \<Rightarrow> string" where
  "py_strip s = rev (dropWhile is_space (rev (dropWhile is_space s)))"

definition normalize_symbol :: "string \<Rightarrow> string" where
  "normalize_symbol s = py_upper (py_strip s)"

definition normalize_exchange :: "string \<Rightarrow> string" where
  "normalize_exchange s = py_lower (py_strip s)"

text \<open>A set of symbols is a list without repetition; every reading of it sorts or tests it.\<close>

type_synonym symbol_registry = "(string, string list) dict"

definition register_symbols :: "string \<Rightarrow> string list \<Rightarrow> symbol_registry \<Rightarrow> symbol_registry" where
  "register_symbols exchange symbols reg =
     (let key = normalize_exchange exchange; old = (case dget reg key of None \<Rightarrow> [] | Some xs \<Rightarrow> xs)
      in dput key (fold List.insert (map normalize_symbol symbols) old) reg)"

definition is_supported :: "string \<Rightarrow> string \<Rightarrow> symbol_registry \<Rightarrow> bool" where
  "is_supported exchange symbol reg = (case dget reg (normalize_exchange exchange) of
      None \<Rightarrow> False
    | Some xs \<Rightarrow> (normalize_symbol symbol) \<in> set xs)"

definition validate_supported :: "string \<Rightarrow> string \<Rightarrow> symbol_registry \<Rightarrow> string res" where
  "validate_supported exchange symbol reg =
     (if is_supported exchange symbol reg then Ok (normalize_symbol symbol)
      else Raise (Exn SymbolNotSupported [normalize_symbol symbol, normalize_exchange exchange]))"

definition get_symbols :: "string \<Rightarrow> symbol_registry \<Rightarrow> string list" where
  "get_symbols exchange reg = (case dget reg (normalize_exchange exchange) of None \<Rightarrow> [] | Some xs \<Rightarrow> sort xs)"

definition get_exchanges :: "symbol_registry \<Rightarrow> string list" where
  "get_exchanges reg = sort (map fst reg)"

definition unregister_symbols :: "string \<Rightarrow> symbol_registry \<Rightarrow> symbol_registry" where
  "unregister_symbols exchange reg = ddel (normalize_exchange exchange) reg"

section \<open>Connectors\<close>

record connector_metrics =
  cm_status :: market_status
  cm_last_update :: "datetime option"
  cm_latency_ms :: rat
  cm_reconnect_count :: nat
  cm_dropped_messages :: nat
  cm_message_rate :: rat
  cm_message_times :: "datetime list"

definition fresh_metrics :: connector_metrics where
  "fresh_metrics = \<lparr>cm_status = M_DISCONNECTED, cm_last_update = None, cm_latency_ms = 0, cm_reconnect_count = 0,
     cm_dropped_messages = 0, cm_message_rate = 0, cm_message_times = []\<rparr>"

definition record_message :: "datetime \<Rightarrow> connector_metrics \<Rightarrow> connector_metrics" where
  "record_message t m = (let ts = keep_last 100 (cm_message_times m @ [t]) in
     m\<lparr>cm_message_times := ts,
       cm_message_rate := (if 2 \<le> length ts then rate_of ts else cm_message_rate m)\<rparr>)"

definition record_latency :: "datetime \<Rightarrow> datetime \<Rightarrow> connector_metrics \<Rightarrow> connector_metrics" where
  "record_latency t u m = m\<lparr>cm_latency_ms := of_int (u - t) * 1000\<rparr>"

definition record_reconnect :: "connector_metrics \<Rightarrow> connector_metrics" where
  "record_reconnect m = m\<lparr>cm_reconnect_count := cm_reconnect_count m + 1\<rparr>"

definition record_dropped :: "connector_metrics \<Rightarrow> connector_metrics" where
  "record_dropped m = m\<lparr>cm_dropped_messages := cm_dropped_messages m + 1\<rparr>"

definition to_market_metrics :: "string \<Rightarrow> string \<Rightarrow> connector_metrics \<Rightarrow> market_metrics" where
  "to_market_metrics exchange symbol m = \<lparr>mm_exchange = exchange, mm_symbol = symbol,
     mm_last_update = cm_last_update m, mm_latency_ms = cm_latency_ms m,
     mm_reconnect_count = cm_reconnect_count m, mm_dropped_messages = cm_dropped_messages m,
     mm_message_rate = cm_message_rate m, mm_status = cm_status m\<rparr>"

record 'x market_adapter =
  ma_connect_market :: "('x, bool) py"
  ma_disconnect :: "('x, unit) py"
  ma_subscribe_market :: "string \<Rightarrow> string \<Rightarrow> ('x, string) py"
  ma_unsubscribe_market :: "string \<Rightarrow> ('x, unit) py"
  ma_get_ticker :: "string \<Rightarrow> ('x, ticker_data) py"
  ma_get_tickers :: "('x, ticker_data list) py"
  ma_get_order_book :: "string \<Rightarrow> ('x, order_book) py"
  ma_get_candles :: "string \<Rightarrow> string \<Rightarrow> ('x, market_candle list) py"

record 'x connector =
  cn_exchange :: string
  cn_adapter :: "'x market_adapter"
  cn_reconnect_backoff :: "rat list"
  cn_stale_threshold :: rat
  cn_running :: bool
  cn_metrics :: "(string, connector_metrics) dict"
  cn_sub_map :: "(string, string \<times> string) dict"

definition new_connector :: "string \<Rightarrow> 'x market_adapter \<Rightarrow> 'x connector" where
  "new_connector exchange adapter = \<lparr>cn_exchange = py_lower exchange, cn_adapter = adapter,
     cn_reconnect_backoff = [1, 2, 5, 10], cn_stale_threshold = 30, cn_running = False, cn_metrics = [],
     cn_sub_map = []\<rparr>"

section \<open>Streams and consumers\<close>

type_synonym stream_key = "string \<times> string \<times> string"

record 'cb logical_stream =
  ls_ws_sub_id :: string
  ls_refcount :: int
  ls_exchange :: string
  ls_symbol :: string
  ls_channel :: string
  ls_callbacks :: "(string, 'cb) dict"

record 'cb subscription_manager =
  sm_logical :: "(stream_key, 'cb logical_stream) dict"
  sm_consumer_map :: "(string, stream_key) dict"

definition new_manager :: "'cb subscription_manager" where
  "new_manager = \<lparr>sm_logical = [], sm_consumer_map = []\<rparr>"

definition logical_key :: "string \<Rightarrow> string \<Rightarrow> string \<Rightarrow> stream_key" where
  "logical_key exchange symbol channel = (py_lower exchange, py_upper symbol, py_lower channel)"

text \<open>
  \<^verbatim>\<open>SubscriptionManager.subscribe\<close> up to the \<^verbatim>\<open>await\<close> (the consumer is registered, and joins the
  stream when there is one) and after it.
\<close>

definition join_stream :: "stream_key \<Rightarrow> string \<Rightarrow> 'cb \<Rightarrow> 'cb subscription_manager \<Rightarrow> 'cb subscription_manager" where
  "join_stream key consumer callback sm = (case dget (sm_logical sm) key of
      None \<Rightarrow> sm
    | Some st \<Rightarrow> sm\<lparr>sm_logical := dput key (st\<lparr>ls_refcount := ls_refcount st + 1,
        ls_callbacks := dput consumer callback (ls_callbacks st)\<rparr>) (sm_logical sm)\<rparr>)"

definition begin_subscribe :: "stream_key \<Rightarrow> string \<Rightarrow> 'cb \<Rightarrow> 'cb subscription_manager \<Rightarrow>
    bool \<times> 'cb subscription_manager" where
  "begin_subscribe key consumer callback sm =
     (let sm = sm\<lparr>sm_consumer_map := dput consumer key (sm_consumer_map sm)\<rparr>
      in (dget (sm_logical sm) key \<noteq> None, join_stream key consumer callback sm))"

definition open_stream :: "stream_key \<Rightarrow> string \<Rightarrow> string \<Rightarrow> 'cb \<Rightarrow> 'cb subscription_manager \<Rightarrow>
    'cb subscription_manager" where
  "open_stream key ws_sub_id consumer callback sm = sm\<lparr>sm_logical := dput key
     \<lparr>ls_ws_sub_id = ws_sub_id, ls_refcount = 1, ls_exchange = fst key, ls_symbol = fst (snd key),
      ls_channel = snd (snd key), ls_callbacks = [(consumer, callback)]\<rparr> (sm_logical sm)\<rparr>"

text \<open>
  \<^verbatim>\<open>SubscriptionManager.unsubscribe\<close> up to its \<^verbatim>\<open>await\<close>: the identifier of the stream to close, if any.
\<close>

definition leave_stream :: "string \<Rightarrow> 'cb subscription_manager \<Rightarrow> string option \<times> 'cb subscription_manager" where
  "leave_stream consumer sm = (case dget (sm_consumer_map sm) consumer of
      None \<Rightarrow> (None, sm)
    | Some key \<Rightarrow>
        let sm = sm\<lparr>sm_consumer_map := ddel consumer (sm_consumer_map sm)\<rparr> in
        (case dget (sm_logical sm) key of
           None \<Rightarrow> (None, sm)
         | Some st \<Rightarrow>
             let st' = st\<lparr>ls_callbacks := ddel consumer (ls_callbacks st), ls_refcount := ls_refcount st - 1\<rparr>
             in if ls_refcount st' \<le> 0
                then (Some (ls_ws_sub_id st), sm\<lparr>sm_logical := ddel key (sm_logical sm)\<rparr>)
                else (None, sm\<lparr>sm_logical := dput key st' (sm_logical sm)\<rparr>)))"

definition active_count :: "string option \<Rightarrow> string option \<Rightarrow> 'cb subscription_manager \<Rightarrow> nat" where
  "active_count exchange symbol sm =
     length (filter (\<lambda>((e, s, c), _). (\<not> truthy exchange \<or> e = py_lower (the exchange)) \<and>
        (\<not> truthy symbol \<or> s = py_upper (the symbol))) (sm_logical sm))"

definition consumer_count :: "'cb subscription_manager \<Rightarrow> int" where
  "consumer_count sm = sum_list (map (ls_refcount \<circ> snd) (sm_logical sm))"

definition stream_active :: "string \<Rightarrow> string \<Rightarrow> string \<Rightarrow> 'cb subscription_manager \<Rightarrow> bool" where
  "stream_active exchange symbol channel sm \<longleftrightarrow> dget (sm_logical sm) (logical_key exchange symbol channel) \<noteq> None"

section \<open>The hub\<close>

record ('x, 'cb) hub_state = "'x world" +
  mh_cache :: market_cache
  mh_symbols :: symbol_registry
  mh_connectors :: "(string, 'x connector) dict"
  mh_subscriptions :: "'cb subscription_manager option"
  mh_running :: bool

type_synonym ('x, 'cb, 'm, 'a) mk = "(('x, 'cb, 'm) hub_state_scheme, 'a) py"

definition on_cache :: "(market_cache \<Rightarrow> market_cache) \<Rightarrow> ('x, 'cb, 'm, unit) mk" where
  "on_cache f = modify (\<lambda>s. s\<lparr>mh_cache := f (mh_cache s)\<rparr>)"

definition on_manager :: "('cb subscription_manager \<Rightarrow> 'cb subscription_manager) \<Rightarrow> ('x, 'cb, 'm, unit) mk" where
  "on_manager f = modify (\<lambda>s. s\<lparr>mh_subscriptions := map_option f (mh_subscriptions s)\<rparr>)"

text \<open>A registered connector, changed in place.\<close>

definition on_connector :: "string \<Rightarrow> ('x connector \<Rightarrow> 'x connector) \<Rightarrow> ('x, 'cb, 'm, unit) mk" where
  "on_connector e f = modify (\<lambda>s. case dget (mh_connectors s) e of
      None \<Rightarrow> s
    | Some c \<Rightarrow> s\<lparr>mh_connectors := dput e (f c) (mh_connectors s)\<rparr>)"

definition metrics_of :: "string \<Rightarrow> 'x connector \<Rightarrow> connector_metrics" where
  "metrics_of symbol c = (case dget (cn_metrics c) (py_upper symbol) of None \<Rightarrow> fresh_metrics | Some m \<Rightarrow> m)"

definition put_metrics :: "string \<Rightarrow> (connector_metrics \<Rightarrow> connector_metrics) \<Rightarrow> 'x connector \<Rightarrow> 'x connector" where
  "put_metrics symbol f c = c\<lparr>cn_metrics := dput (py_upper symbol) (f (metrics_of symbol c)) (cn_metrics c)\<rparr>"

definition all_metrics :: "(connector_metrics \<Rightarrow> connector_metrics) \<Rightarrow> 'x connector \<Rightarrow> 'x connector" where
  "all_metrics f c = c\<lparr>cn_metrics := map (\<lambda>(k, m). (k, f m)) (cn_metrics c)\<rparr>"

definition with_market_status :: "market_status \<Rightarrow> connector_metrics \<Rightarrow> connector_metrics" where
  "with_market_status st m = m\<lparr>cm_status := st\<rparr>"

end
