(* ===== verification/MarketHub.thy ===== *)
theory MarketHub
  imports MarketData
begin

text \<open>
  The routines of \<^verbatim>\<open>market/connector/exchange_connector.py\<close> and \<^verbatim>\<open>market/hub/market_hub.py\<close>: a
  connector is named by its exchange in the hub that holds it. \<open>call\<close> runs a consumer's callback on a
  list of arguments. \<^verbatim>\<open>asyncio.gather\<close> stops the connectors in their order.
\<close>

section \<open>Connectors\<close>

text \<open>A routine that reads the connector of an exchange (connectors are never removed).\<close>

definition with_connector :: "string \<Rightarrow> ('x connector \<Rightarrow> ('x, 'cb, 'm, 'a) mk) \<Rightarrow> ('x, 'cb, 'm, 'a) mk" where
  "with_connector e f = reading (\<lambda>s. case dget (mh_connectors s) e of
      None \<Rightarrow> throw (Exn PyKeyError [e])
    | Some c \<Rightarrow> f c)"

definition connector_start :: "string \<Rightarrow> ('x, 'cb, 'm, unit) mk" where
  "connector_start e = with_connector e (\<lambda>c.
     if cn_running c then ret ()
     else seq (on_connector e (\<lambda>c. all_metrics (\<lambda>m. if cm_status m = M_DISCONNECTED
            then with_market_status M_CONNECTING m else m) (c\<lparr>cn_running := True\<rparr>)))
       (try_catch
         (bind (call_adapter (ma_connect_market (cn_adapter c))) (\<lambda>ok.
           if ok then on_connector e (all_metrics (with_market_status M_CONNECTED))
           else seq (on_connector e (all_metrics (with_market_status M_DISCONNECTED)))
             (throw (Exn ExchangeConnectionError [cn_exchange c]))))
         (\<lambda>exc. seq (on_connector e (all_metrics (with_market_status M_DISCONNECTED))) (throw exc))))"

definition connector_stop :: "string \<Rightarrow> ('x, 'cb, 'm, unit) mk" where
  "connector_stop e = with_connector e (\<lambda>c.
     seq (on_connector e (\<lambda>c. c\<lparr>cn_running := False\<rparr>))
     (seq (try_catch (call_adapter (ma_disconnect (cn_adapter c))) (\<lambda>_. ret ()))
       (on_connector e (all_metrics (with_market_status M_DISCONNECTED)))))"

definition connector_subscribe :: "string \<Rightarrow> string \<Rightarrow> string \<Rightarrow> ('x, 'cb, 'm, string) mk" where
  "connector_subscribe e symbol channel = with_connector e (\<lambda>c.
     seq (on_connector e (put_metrics symbol (\<lambda>m. if cm_status m = M_DISCONNECTED
            then with_market_status M_CONNECTING m else m)))
     (bind now (\<lambda>start.
       try_catch
         (bind (call_adapter (ma_subscribe_market (cn_adapter c) (py_upper symbol) (py_lower channel))) (\<lambda>sub.
           bind now (\<lambda>t.
           seq (on_connector e (\<lambda>c. put_metrics symbol (\<lambda>m. (record_latency start t
                  (with_market_status M_CONNECTED m))\<lparr>cm_last_update := Some t\<rparr>)
                  (c\<lparr>cn_sub_map := dput sub (py_upper symbol, py_lower channel) (cn_sub_map c)\<rparr>)))
             (ret sub))))
         (\<lambda>exc. seq (on_connector e (put_metrics symbol (with_market_status M_DISCONNECTED)))
           (if isinstance exc [SymbolNotSupported] then throw exc
            else throw (Exn ExchangeConnectionError [cn_exchange c]))))))"

definition connector_unsubscribe :: "string \<Rightarrow> string \<Rightarrow> ('x, 'cb, 'm, unit) mk" where
  "connector_unsubscribe e sub = with_connector e (\<lambda>c.
     seq (try_catch (call_adapter (ma_unsubscribe_market (cn_adapter c) sub)) (\<lambda>_. ret ()))
       (on_connector e (\<lambda>c. c\<lparr>cn_sub_map := ddel sub (cn_sub_map c)\<rparr>)))"

text \<open>Staleness is noticed, and recorded, when the status is read.\<close>

definition stale :: "datetime \<Rightarrow> 'x connector \<Rightarrow> connector_metrics \<Rightarrow> bool" where
  "stale t c m \<longleftrightarrow> (case cm_last_update m of None \<Rightarrow> False | Some u \<Rightarrow> cn_stale_threshold c < of_int (t - u))"

definition connector_is_alive :: "string \<Rightarrow> string \<Rightarrow> ('x, 'cb, 'm, bool) mk" where
  "connector_is_alive e symbol = with_connector e (\<lambda>c.
     case dget (cn_metrics c) (py_upper symbol) of
       None \<Rightarrow> ret False
     | Some m \<Rightarrow>
         if cm_status m \<noteq> M_CONNECTED then ret False
         else if cm_last_update m = None then ret False
         else bind now (\<lambda>t.
           if stale t c m
           then seq (on_connector e (put_metrics symbol (with_market_status M_STALE))) (ret False)
           else ret True))"

definition connector_get_status :: "string \<Rightarrow> string \<Rightarrow> ('x, 'cb, 'm, market_status) mk" where
  "connector_get_status e symbol = with_connector e (\<lambda>c.
     case dget (cn_metrics c) (py_upper symbol) of
       None \<Rightarrow> ret M_DISCONNECTED
     | Some m \<Rightarrow> bind now (\<lambda>t.
         if cm_status m = M_CONNECTED \<and> stale t c m
         then seq (on_connector e (put_metrics symbol (with_market_status M_STALE))) (ret M_STALE)
         else ret (cm_status m)))"

definition connector_get_metrics :: "string \<Rightarrow> string \<Rightarrow> ('x, 'cb, 'm, market_metrics) mk" where
  "connector_get_metrics e symbol = seq (on_connector e (put_metrics symbol id)) (with_connector e (\<lambda>c.
     ret (to_market_metrics (cn_exchange c) (py_upper symbol) (metrics_of symbol c))))"

definition mark_reconnecting :: "string \<Rightarrow> string \<Rightarrow> ('x, 'cb, 'm, unit) mk" where
  "mark_reconnecting e symbol =
     on_connector e (put_metrics symbol (record_reconnect \<circ> with_market_status M_RECONNECTING))"

definition connector_record_dropped :: "string \<Rightarrow> string \<Rightarrow> ('x, 'cb, 'm, unit) mk" where
  "connector_record_dropped e symbol = on_connector e (put_metrics symbol record_dropped)"

fun try_reconnect :: "string \<Rightarrow> 'x connector \<Rightarrow> rat list \<Rightarrow> ('x, 'cb, 'm, unit) mk" where
  "try_reconnect e c [] = seq (on_connector e (all_metrics (with_market_status M_DISCONNECTED)))
     (throw (Exn ExchangeConnectionError [cn_exchange c]))"
| "try_reconnect e c (delay # delays) = bind
     (try_catch
       (seq (call_adapter (ma_connect_market (cn_adapter c)))
       (bind now (\<lambda>t.
       seq (on_connector e (all_metrics (\<lambda>m. with_market_status M_CONNECTED m\<lparr>cm_last_update := Some t\<rparr>)))
         (ret True))))
       (\<lambda>_. seq (sleep delay) (ret False)))
     (\<lambda>connected. if connected then ret () else try_reconnect e c delays)"

definition connector_reconnect :: "string \<Rightarrow> ('x, 'cb, 'm, unit) mk" where
  "connector_reconnect e = with_connector e (\<lambda>c.
     seq (on_connector e (all_metrics (record_reconnect \<circ> with_market_status M_RECONNECTING)))
       (try_reconnect e c (cn_reconnect_backoff c)))"

section \<open>Delivering data\<close>

text \<open>\<^verbatim>\<open>fan_out\<close>: every callback of the stream is called with the data alone; what it raises is dropped.\<close>

definition stream_callbacks :: "stream_key \<Rightarrow> 'cb subscription_manager \<Rightarrow> 'cb list" where
  "stream_callbacks key sm = (case dget (sm_logical sm) key of None \<Rightarrow> [] | Some st \<Rightarrow> map snd (ls_callbacks st))"

definition fan_out :: "('cb \<Rightarrow> argument list \<Rightarrow> ('x, 'cb, 'm, unit) mk) \<Rightarrow> string \<Rightarrow> string \<Rightarrow> string \<Rightarrow>
    market_data \<Rightarrow> 'cb subscription_manager \<Rightarrow> ('x, 'cb, 'm, unit) mk" where
  "fan_out call exchange symbol channel data sm =
     for_each (\<lambda>callback. try_catch (call callback [Data data]) (\<lambda>_. ret ()))
       (stream_callbacks (logical_key exchange symbol channel) sm)"

definition store_data :: "datetime \<Rightarrow> string \<Rightarrow> string \<Rightarrow> string \<Rightarrow> market_data \<Rightarrow> market_cache \<Rightarrow> market_cache" where
  "store_data t exchange symbol channel data c =
     (if channel = ''ticker'' then (case data of Ticker d \<Rightarrow> update_ticker t exchange symbol d c | _ \<Rightarrow> c)
      else if channel = ''orderbook'' then (case data of Book b \<Rightarrow> update_orderbook t exchange symbol b c | _ \<Rightarrow> c)
      else if channel = ''candle'' then (case data of
          Candles cs \<Rightarrow> update_candles t exchange symbol ''1m'' cs c
        | OneCandle k \<Rightarrow> update_candles t exchange symbol (mc_interval k) [k] c
        | _ \<Rightarrow> c)
      else c)"

definition hub_on_market_data :: "('cb \<Rightarrow> argument list \<Rightarrow> ('x, 'cb, 'm, unit) mk) \<Rightarrow> string \<Rightarrow> string \<Rightarrow>
    string \<Rightarrow> market_data \<Rightarrow> ('x, 'cb, 'm, unit) mk" where
  "hub_on_market_data call exchange symbol channel data =
     bind now (\<lambda>t. seq (on_cache (store_data t exchange symbol channel data))
       (reading (\<lambda>s. case mh_subscriptions s of
           None \<Rightarrow> ret ()
         | Some sm \<Rightarrow> fan_out call exchange symbol channel data sm)))"

text \<open>What the callback that a connector gave to its adapter does with a message.\<close>

definition connector_on_market_data :: "('cb \<Rightarrow> argument list \<Rightarrow> ('x, 'cb, 'm, unit) mk) \<Rightarrow> string \<Rightarrow> string \<Rightarrow>
    string \<Rightarrow> market_data \<Rightarrow> ('x, 'cb, 'm, unit) mk" where
  "connector_on_market_data call e symbol channel data = with_connector e (\<lambda>c.
     bind now (\<lambda>t.
     seq (on_connector e (put_metrics symbol (\<lambda>m. with_market_status M_CONNECTED
            ((record_message t m)\<lparr>cm_last_update := Some t\<rparr>))))
       (hub_on_market_data call (cn_exchange c) (py_upper symbol) (py_lower channel) data)))"

section \<open>The hub's lifecycle\<close>

definition hub_register_adapter :: "string \<Rightarrow> 'x market_adapter \<Rightarrow> ('x, 'cb, 'm, unit) mk" where
  "hub_register_adapter exchange adapter = modify (\<lambda>s.
     if dget (mh_connectors s) (py_lower exchange) \<noteq> None then s
     else s\<lparr>mh_connectors := dput (py_lower exchange) (new_connector (py_lower exchange) adapter) (mh_connectors s)\<rparr>)"

definition hub_start :: "('x, 'cb, 'm, unit) mk" where
  "hub_start = modify (\<lambda>s. s\<lparr>mh_subscriptions := Some new_manager, mh_running := True\<rparr>)"

definition hub_stop :: "('x, 'cb, 'm, unit) mk" where
  "hub_stop = seq (modify (\<lambda>s. s\<lparr>mh_running := False, mh_subscriptions := None\<rparr>))
     (seq (reading (\<lambda>s. for_each (\<lambda>e. try_catch (connector_stop e) (\<lambda>_. ret ())) (map fst (mh_connectors s))))
       (on_cache (cache_clear None None)))"

section \<open>Consumers\<close>

definition subscribe_logical :: "string \<Rightarrow> string \<Rightarrow> string \<Rightarrow> ('x, 'cb, 'm, string) mk" where
  "subscribe_logical exchange symbol channel = reading (\<lambda>s.
     case dget (mh_connectors s) (py_lower exchange) of
       None \<Rightarrow> throw (Exn SymbolNotSupported [symbol, exchange])
     | Some c \<Rightarrow>
         seq (if cn_running c then ret () else try_catch (connector_start (py_lower exchange)) (\<lambda>_. ret ()))
           (connector_subscribe (py_lower exchange) symbol channel))"

definition unsubscribe_logical :: "string \<Rightarrow> ('x, 'cb, 'm, unit) mk" where
  "unsubscribe_logical sub = reading (\<lambda>s.
     case find (\<lambda>(e, c). dget (cn_sub_map c) sub \<noteq> None) (mh_connectors s) of
       None \<Rightarrow> ret ()
     | Some (e, c) \<Rightarrow> connector_unsubscribe e sub)"

text \<open>The text of a \<^verbatim>\<open>uuid4()\<close>.\<close>

definition consumer_id :: "uuid \<Rightarrow> string" where
  "consumer_id u = show_nat u"

definition market_subscribe :: "string \<Rightarrow> string \<Rightarrow> string \<Rightarrow> 'cb \<Rightarrow> ('x, 'cb, 'm, string) mk" where
  "market_subscribe exchange symbol channel callback = reading (\<lambda>s.
     case mh_subscriptions s of
       None \<Rightarrow> throw (Exn PyRuntimeError [])
     | Some sm \<Rightarrow>
         bind (lift_res (validate_supported exchange symbol (mh_symbols s))) (\<lambda>_.
         bind uuid4 (\<lambda>u.
         let key = logical_key exchange symbol channel; consumer = consumer_id u in
         seq (on_manager (snd \<circ> begin_subscribe key consumer callback))
           (if fst (begin_subscribe key consumer callback sm) then ret consumer
            else bind (subscribe_logical exchange symbol channel) (\<lambda>ws.
              seq (on_manager (open_stream key ws consumer callback)) (ret consumer))))))"

definition market_unsubscribe :: "string \<Rightarrow> ('x, 'cb, 'm, unit) mk" where
  "market_unsubscribe consumer = reading (\<lambda>s.
     case mh_subscriptions s of
       None \<Rightarrow> ret ()
     | Some sm \<Rightarrow>
         seq (on_manager (snd \<circ> leave_stream consumer))
           (case fst (leave_stream consumer sm) of None \<Rightarrow> ret () | Some ws \<Rightarrow> unsubscribe_logical ws))"

section \<open>Queries\<close>

text \<open>A fetch through the adapter of an exchange, stored in the cache; none without a connector.\<close>

definition fetch_and_cache :: "string \<Rightarrow> ('x market_adapter \<Rightarrow> ('x, 'd) py) \<Rightarrow>
    (datetime \<Rightarrow> 'd \<Rightarrow> market_cache \<Rightarrow> market_cache) \<Rightarrow> ('x, 'cb, 'm, unit) mk" where
  "fetch_and_cache exchange fetch store = reading (\<lambda>s.
     case dget (mh_connectors s) (py_lower exchange) of
       None \<Rightarrow> ret ()
     | Some c \<Rightarrow> bind (call_adapter (fetch (cn_adapter c))) (\<lambda>d. bind now (\<lambda>t. on_cache (store t d))))"

text \<open>A cached value, fetched when the cache has none.\<close>

definition cached_or_fetched :: "string \<Rightarrow> string \<Rightarrow> (market_cache \<Rightarrow> 'd option) \<Rightarrow> ('x, 'cb, 'm, unit) mk \<Rightarrow>
    ('x, 'cb, 'm, 'd) mk" where
  "cached_or_fetched exchange symbol query fetch = bind (gets (query \<circ> mh_cache)) (\<lambda>d.
     case d of
       Some x \<Rightarrow> ret x
     | None \<Rightarrow> seq fetch (bind (gets (query \<circ> mh_cache)) (\<lambda>d.
         case d of Some x \<Rightarrow> ret x | None \<Rightarrow> throw (Exn SymbolNotSupported [symbol, exchange]))))"

definition fetch_ticker :: "string \<Rightarrow> string \<Rightarrow> ('x, 'cb, 'm, unit) mk" where
  "fetch_ticker exchange symbol = fetch_and_cache exchange (\<lambda>a. ma_get_ticker a (py_upper symbol))
     (\<lambda>t. update_ticker t exchange symbol)"

definition market_price :: "string \<Rightarrow> string \<Rightarrow> ('x, 'cb, 'm, decimal) mk" where
  "market_price exchange symbol =
     cached_or_fetched exchange symbol (cached_price exchange symbol) (fetch_ticker exchange symbol)"

definition market_ticker :: "string \<Rightarrow> string \<Rightarrow> ('x, 'cb, 'm, ticker_data) mk" where
  "market_ticker exchange symbol =
     cached_or_fetched exchange symbol (cached_ticker exchange symbol) (fetch_ticker exchange symbol)"

definition market_tickers :: "string \<Rightarrow> ('x, 'cb, 'm, ticker_data list) mk" where
  "market_tickers exchange = reading (\<lambda>s. case dget (mh_connectors s) (py_lower exchange) of
      None \<Rightarrow> throw (Exn SymbolNotSupported [''ALL'', exchange])
    | Some c \<Rightarrow> call_adapter (ma_get_tickers (cn_adapter c)))"

definition market_orderbook :: "string \<Rightarrow> string \<Rightarrow> ('x, 'cb, 'm, order_book) mk" where
  "market_orderbook exchange symbol =
     cached_or_fetched exchange symbol (cached_orderbook exchange symbol)
       (fetch_and_cache exchange (\<lambda>a. ma_get_order_book a (py_upper symbol))
         (\<lambda>t. update_orderbook t exchange symbol))"

definition market_candles :: "string \<Rightarrow> string \<Rightarrow> string \<Rightarrow> ('x, 'cb, 'm, market_candle list) mk" where
  "market_candles exchange symbol interval =
     cached_or_fetched exchange symbol (cached_candles exchange symbol interval)
       (fetch_and_cache exchange (\<lambda>a. ma_get_candles a (py_upper symbol) interval)
         (\<lambda>t. update_candles t exchange symbol interval))"

definition market_is_alive :: "string \<Rightarrow> string \<Rightarrow> ('x, 'cb, 'm, bool) mk" where
  "market_is_alive exchange symbol = reading (\<lambda>s.
     if dget (mh_connectors s) (py_lower exchange) = None
     then bind now (\<lambda>t. gets (\<lambda>s. is_fresh t exchange symbol (mh_cache s)))
     else bind (connector_is_alive (py_lower exchange) symbol) (\<lambda>alive.
       if \<not> alive then ret False
       else bind now (\<lambda>t. gets (\<lambda>s. is_fresh t exchange symbol (mh_cache s)))))"

definition market_get_status :: "string \<Rightarrow> string \<Rightarrow> ('x, 'cb, 'm, market_status) mk" where
  "market_get_status exchange symbol = reading (\<lambda>s.
     if dget (mh_connectors s) (py_lower exchange) = None then ret M_DISCONNECTED
     else connector_get_status (py_lower exchange) symbol)"

definition market_get_metrics :: "string \<Rightarrow> string \<Rightarrow> ('x, 'cb, 'm, market_metrics) mk" where
  "market_get_metrics exchange symbol = reading (\<lambda>s.
     if dget (mh_connectors s) (py_lower exchange) = None
     then ret (to_market_metrics (py_lower exchange) (py_upper symbol) fresh_metrics)
     else connector_get_metrics (py_lower exchange) symbol)"

section \<open>Introspection\<close>

definition active_subscriptions :: "string option \<Rightarrow> ('x, 'cb, 'm) hub_state_scheme \<Rightarrow> nat" where
  "active_subscriptions exchange s =
     (case mh_subscriptions s of None \<Rightarrow> 0 | Some sm \<Rightarrow> active_count exchange None sm)"

definition active_websocket_subscriptions :: "('x, 'cb, 'm) hub_state_scheme \<Rightarrow> nat" where
  "active_websocket_subscriptions s = sum_list (map (\<lambda>(e, c). length (cn_sub_map c)) (mh_connectors s))"

definition hub_consumer_count :: "('x, 'cb, 'm) hub_state_scheme \<Rightarrow> int" where
  "hub_consumer_count s = (case mh_subscriptions s of None \<Rightarrow> 0 | Some sm \<Rightarrow> consumer_count sm)"

definition average_update_latency_ms :: "string option \<Rightarrow> ('x, 'cb, 'm) hub_state_scheme \<Rightarrow> rat" where
  "average_update_latency_ms exchange s =
     (let values = concat (map (\<lambda>(e, c). if exchange \<noteq> None \<and> e \<noteq> py_lower (the exchange) then []
          else filter (\<lambda>v. 0 < v) (map (cm_latency_ms \<circ> snd) (cn_metrics c))) (mh_connectors s))
      in if values = [] then 0 else sum_list values / of_nat (length values))"

definition hub_exchanges :: "('x, 'cb, 'm) hub_state_scheme \<Rightarrow> string list" where
  "hub_exchanges s = sort (map fst (mh_connectors s))"

end
