(* ===== verification/MarketStreams.thy ===== *)
theory MarketStreams
  imports MarketHub
begin

text \<open>
  What the market hub promises its consumers: the streams that are open, their reference counts and
  their callbacks are those of the consumers that hold a subscription, through every history of
  calls that run one after the other; what two overlapping first subscriptions break; and that the
  cache serves the last price delivered.
\<close>

section \<open>Streams and the consumers that hold them\<close>

text \<open>
  The specification of the subscription manager is the dictionary of the consumers that hold a
  subscription, with the stream and the callback of each.
\<close>

type_synonym 'cb holders = "(string, stream_key \<times> 'cb) dict"

definition stream_ok :: "'cb holders \<Rightarrow> stream_key \<Rightarrow> 'cb logical_stream \<Rightarrow> bool" where
  "stream_ok held k st \<longleftrightarrow> dict_ok (ls_callbacks st) \<and> ls_callbacks st \<noteq> [] \<and>
     ls_refcount st = int (length (ls_callbacks st)) \<and>
     (\<forall>i cb. dget (ls_callbacks st) i = Some cb \<longleftrightarrow> dget held i = Some (k, cb))"

definition streams_ok :: "'cb subscription_manager \<Rightarrow> 'cb holders \<Rightarrow> bool" where
  "streams_ok sm held \<longleftrightarrow>
     (\<forall>i k cb. dget held i = Some (k, cb) \<longrightarrow>
        dget (sm_consumer_map sm) i = Some k \<and> dget (sm_logical sm) k \<noteq> None) \<and>
     (\<forall>k st. dget (sm_logical sm) k = Some st \<longrightarrow> stream_ok held k st)"

lemma streams_okD:
  assumes "streams_ok sm held"
  shows "dget held i = Some (k, cb) \<Longrightarrow> dget (sm_consumer_map sm) i = Some k"
    and "dget held i = Some (k, cb) \<Longrightarrow> \<exists>st. dget (sm_logical sm) k = Some st"
    and "dget (sm_logical sm) k = Some st \<Longrightarrow> stream_ok held k st"
  using assms unfolding streams_ok_def by blast+

lemma streams_okI:
  assumes "\<And>i k cb. dget held i = Some (k, cb) \<Longrightarrow> dget (sm_consumer_map sm) i = Some k"
    and "\<And>i k cb. dget held i = Some (k, cb) \<Longrightarrow> dget (sm_logical sm) k \<noteq> None"
    and "\<And>k st. dget (sm_logical sm) k = Some st \<Longrightarrow> stream_ok held k st"
  shows "streams_ok sm held"
  using assms unfolding streams_ok_def by blast

lemma fresh_not_held: "streams_ok sm held \<Longrightarrow> dget (sm_consumer_map sm) i = None \<Longrightarrow> dget held i = None"
  using streams_okD(1) by (cases "dget held i") fastforce+

lemma stream_ok_other:
  "stream_ok held k st \<Longrightarrow> dget held i = None \<Longrightarrow> j \<noteq> k \<Longrightarrow> stream_ok (dput i (j, cb) held) k st"
  unfolding stream_ok_def by auto

lemma new_manager_ok: "streams_ok new_manager []"
  by (simp add: streams_ok_def new_manager_def)

lemma begin_joins:
  assumes "streams_ok sm held" and "dget (sm_consumer_map sm) i = None" and "fst (begin_subscribe k i cb sm)"
  shows "streams_ok (snd (begin_subscribe k i cb sm)) (dput i (k, cb) held)"
proof -
  have free: "dget held i = None" using assms(1,2) by (rule fresh_not_held)
  obtain st where st: "dget (sm_logical sm) k = Some st" using assms(3) by (auto simp: begin_subscribe_def)
  have ok: "stream_ok held k st" using assms(1) st by (rule streams_okD(3))
  then have none: "dget (ls_callbacks st) i = None"
    using free by (cases "dget (ls_callbacks st) i") (auto simp: stream_ok_def)
  have joined: "stream_ok (dput i (k, cb) held) k (st\<lparr>ls_refcount := ls_refcount st + 1,
      ls_callbacks := dput i cb (ls_callbacks st)\<rparr>)"
    using ok free none unfolding stream_ok_def by (auto simp: length_dput)
  show ?thesis
    using streams_okD [OF assms(1)] joined free st
    by (intro streams_okI) (auto simp: begin_subscribe_def join_stream_def stream_ok_other split: if_splits)
qed

lemma begin_opens:
  assumes "streams_ok sm held" and "dget (sm_consumer_map sm) i = None" and "\<not> fst (begin_subscribe k i cb sm)"
  shows "streams_ok (snd (begin_subscribe k i cb sm)) held" (is ?refused)
    and "streams_ok (open_stream k ws i cb (snd (begin_subscribe k i cb sm))) (dput i (k, cb) held)" (is ?opened)
proof -
  have free: "dget held i = None" using assms(1,2) by (rule fresh_not_held)
  have closed: "dget (sm_logical sm) k = None" using assms(3) by (simp add: begin_subscribe_def)
  then have unheld: "\<And>j cb. dget held j \<noteq> Some (k, cb)" using streams_okD(2) [OF assms(1)] by fastforce
  show ?refused
    using streams_okD [OF assms(1)] free closed
    by (intro streams_okI) (auto simp: begin_subscribe_def join_stream_def)
  have opened: "stream_ok (dput i (k, cb) held) k \<lparr>ls_ws_sub_id = ws, ls_refcount = 1, ls_exchange = fst k,
      ls_symbol = fst (snd k), ls_channel = snd (snd k), ls_callbacks = [(i, cb)]\<rparr>"
    using unheld by (auto simp: stream_ok_def dict_ok_def)
  show ?opened
    using streams_okD [OF assms(1)] opened free closed
    by (intro streams_okI) (auto simp: begin_subscribe_def join_stream_def open_stream_def stream_ok_other
        split: if_splits)
qed

lemma leave_ok:
  assumes ok: "streams_ok sm held" and held: "dget held i = Some (k, cb)"
  shows "streams_ok (snd (leave_stream i sm)) (ddel i held)"
proof -
  obtain st where st: "dget (sm_logical sm) k = Some st" using streams_okD(2) [OF ok held] by blast
  note sok = streams_okD(3) [OF ok st]
  have key: "dget (sm_consumer_map sm) i = Some k" using ok held by (rule streams_okD(1))
  have other: "stream_ok (ddel i held) j su" if "dget (sm_logical sm) j = Some su" "j \<noteq> k" for j su
    using streams_okD(3) [OF ok that(1)] held that(2) by (auto simp: stream_ok_def)
  show ?thesis
  proof (cases "ls_refcount st - 1 \<le> 0")
    case True
    then have "length (ls_callbacks st) \<le> 1" using sok by (simp add: stream_ok_def)
    moreover have "dget (ls_callbacks st) i = Some cb" using sok held by (simp add: stream_ok_def)
    ultimately have "ls_callbacks st = [(i, cb)]"
      by (cases "ls_callbacks st") (auto split: if_splits)
    then have only: "j = i" if "dget held j = Some (k, c)" for j c
      using sok that unfolding stream_ok_def by (metis map_of.simps(1) map_of_Cons_code(2) option.distinct(1))
    then have "dget (ddel i held) j \<noteq> Some (k, c)" for j c
      by (cases "j = i") auto
    then show ?thesis
      using streams_okD(1,2) [OF ok] other key st True
      by (intro streams_okI) (fastforce simp: leave_stream_def Let_def split: if_splits)+
  next
    case False
    have shorter: "length (ddel i (ls_callbacks st)) = length (ls_callbacks st) - 1"
    proof -
      have "dget (ls_callbacks st) i = Some cb" and "dict_ok (ls_callbacks st)"
        using sok held unfolding stream_ok_def by blast+
      then show ?thesis by (simp add: length_ddel)
    qed
    have "stream_ok (ddel i held) k (st\<lparr>ls_callbacks := ddel i (ls_callbacks st), ls_refcount := ls_refcount st - 1\<rparr>)"
      using shorter sok held False by (auto simp: stream_ok_def)
    then show ?thesis
      using streams_okD(1,2) [OF ok] other key st False
      by (intro streams_okI) (fastforce simp: leave_stream_def Let_def split: if_splits)+
  qed
qed

section \<open>Histories of the hub\<close>

definition hub_ok :: "('x, 'cb, 'm) hub_state_scheme \<Rightarrow> 'cb holders \<Rightarrow> bool" where
  "hub_ok s held \<longleftrightarrow> (\<exists>sm. mh_subscriptions s = Some sm \<and> streams_ok sm held \<and>
     (\<forall>i k. dget (sm_consumer_map sm) i = Some k \<longrightarrow> (\<exists>n < uuid_next s. i = consumer_id n)))"

text \<open>
  A history since the hub was started: consumers subscribe, with success or not, those that hold a
  subscription give it up, and everything else in the program happens, which leaves the subscription
  manager alone and uses up identifiers.
\<close>

inductive hub_history :: "('x, 'cb, 'm) hub_state_scheme \<Rightarrow> 'cb holders \<Rightarrow> bool" where
  started: "hub_history (snd (hub_start s)) []"
| subscribed: "hub_history s held \<Longrightarrow> market_subscribe exchange symbol channel cb s = (Ok i, t) \<Longrightarrow>
    hub_history t (dput i (logical_key exchange symbol channel, cb) held)"
| refused: "hub_history s held \<Longrightarrow> market_subscribe exchange symbol channel cb s = (Raise e, t) \<Longrightarrow>
    hub_history t held"
| unsubscribed: "hub_history s held \<Longrightarrow> dget held i \<noteq> None \<Longrightarrow>
    hub_history (snd (market_unsubscribe i s)) (ddel i held)"
| elsewhere: "hub_history s held \<Longrightarrow> mh_subscriptions t = mh_subscriptions s \<Longrightarrow> uuid_next s \<le> uuid_next t \<Longrightarrow>
    hub_history t held"

text \<open>The connectors leave the subscription manager and the identifiers alone.\<close>

definition consumer_view :: "('x, 'cb, 'm) hub_state_scheme \<Rightarrow> 'cb subscription_manager option \<times> uuid" where
  "consumer_view s = (mh_subscriptions s, uuid_next s)"

lemma view_basic [resp_intros]:
  "obeys (same consumer_view) (on_connector e f)" "obeys (same consumer_view) (on_cache g)"
  "obeys (same consumer_view) (call_adapter m)" "obeys (same consumer_view) now"
  by (auto simp: obeys_def same_def consumer_view_def on_connector_def on_cache_def call_adapter_def now_def
      modify_def gets_def split: option.splits prod.splits)

lemma view_connectors [resp_intros]:
  "obeys (same consumer_view) (connector_start e)" "obeys (same consumer_view) (connector_subscribe e symbol channel)"
  "obeys (same consumer_view) (connector_unsubscribe e sub)"
  unfolding connector_start_def connector_subscribe_def connector_unsubscribe_def with_connector_def
  by (intro resp_intros)+

lemma view_logical [resp_intros]:
  "obeys (same consumer_view) (subscribe_logical exchange symbol channel)"
  "obeys (same consumer_view) (unsubscribe_logical sub)"
  unfolding subscribe_logical_def unsubscribe_logical_def by (intro resp_intros)+

lemma consumer_id_inj: "consumer_id m = consumer_id n \<longleftrightarrow> m = n"
  by (simp add: consumer_id_def show_nat_inj)

lemma hub_okI:
  assumes "mh_subscriptions s = Some sm" and "streams_ok sm held"
    and "\<And>i k. dget (sm_consumer_map sm) i = Some k \<Longrightarrow> \<exists>n < uuid_next s. i = consumer_id n"
  shows "hub_ok s held"
  using assms unfolding hub_ok_def by blast

lemma joining_ok:
  assumes "hub_ok s held"
  shows "case market_subscribe exchange symbol channel cb s of
      (Ok i, t) \<Rightarrow> hub_ok t (dput i (logical_key exchange symbol channel, cb) held)
    | (Raise e, t) \<Rightarrow> hub_ok t held"
proof -
  obtain sm where sm: "mh_subscriptions s = Some sm" and ok: "streams_ok sm held"
    and ids: "\<And>i k. dget (sm_consumer_map sm) i = Some k \<Longrightarrow> \<exists>n < uuid_next s. i = consumer_id n"
    using assms unfolding hub_ok_def by blast
  define u where "u = uuid_next s"
  define k where "k = logical_key exchange symbol channel"
  define sm1 where "sm1 = snd (begin_subscribe k (consumer_id u) cb sm)"
  define s1 where "s1 = s\<lparr>uuid_next := Suc u, mh_subscriptions := Some sm1\<rparr>"
  have fresh: "dget (sm_consumer_map sm) (consumer_id u) = None"
  proof (rule ccontr)
    assume "dget (sm_consumer_map sm) (consumer_id u) \<noteq> None"
    then obtain j where "dget (sm_consumer_map sm) (consumer_id u) = Some j" by blast
    then show False using ids by (metis consumer_id_inj less_irrefl u_def)
  qed
  have ids1: "\<exists>n < Suc u. i = consumer_id n" if "dget (sm_consumer_map sm1) i = Some j" for i j
    using that ids [of i] by (auto simp: sm1_def begin_subscribe_def join_stream_def Let_def u_def less_Suc_eq
        split: option.splits if_splits)
  show ?thesis
  proof (cases "validate_supported exchange symbol (mh_symbols s)")
    case (Raise e)
    then show ?thesis using assms sm by (simp add: market_subscribe_def reading_def bind_def lift_res_def)
  next
    case (Ok y)
    let ?open = "bind (subscribe_logical exchange symbol channel) (\<lambda>ws.
        seq (on_manager (open_stream k ws (consumer_id u) cb)) (ret (consumer_id u)))"
    have run: "market_subscribe exchange symbol channel cb s =
        (if fst (begin_subscribe k (consumer_id u) cb sm) then ret (consumer_id u) else ?open) s1"
      using sm Ok by (simp add: market_subscribe_def py_simps on_manager_def u_def k_def s1_def sm1_def Let_def)
    show ?thesis
    proof (cases "fst (begin_subscribe k (consumer_id u) cb sm)")
      case True
      then have "hub_ok s1 (dput (consumer_id u) (k, cb) held)"
        using begin_joins [OF ok fresh] ids1 by (intro hub_okI [of _ sm1]) (simp_all add: s1_def sm1_def)
      then show ?thesis using True run by (simp add: ret_def k_def)
    next
      case False
      note opens = begin_opens [OF ok fresh False, folded sm1_def]
      obtain r s2 where sub: "subscribe_logical exchange symbol channel s1 = (r, s2)" by fastforce
      have "consumer_view s2 = consumer_view s1"
        using sameD [OF view_logical(1), of exchange symbol channel s1] sub by simp
      then have s2: "mh_subscriptions s2 = Some sm1" "uuid_next s2 = Suc u" by (simp_all add: consumer_view_def s1_def)
      show ?thesis
      proof (cases r)
        case (Raise e)
        moreover have "hub_ok s2 held" using s2 opens(1) ids1 by (intro hub_okI [of _ sm1]) simp_all
        ultimately show ?thesis using False run sub by (simp add: bind_def)
      next
        case (Ok ws)
        have "hub_ok (s2\<lparr>mh_subscriptions := Some (open_stream k ws (consumer_id u) cb sm1)\<rparr>)
            (dput (consumer_id u) (k, cb) held)"
          using s2 opens(2) ids1 by (intro hub_okI [of _ "open_stream k ws (consumer_id u) cb sm1"])
            (simp_all add: open_stream_def)
        then show ?thesis using Ok False run sub s2
          by (simp add: bind_def seq_def on_manager_def modify_def ret_def k_def)
      qed
    qed
  qed
qed

lemma leaving_ok:
  assumes "hub_ok s held" and "dget held i \<noteq> None"
  shows "hub_ok (snd (market_unsubscribe i s)) (ddel i held)"
proof -
  obtain sm where sm: "mh_subscriptions s = Some sm" and ok: "streams_ok sm held"
    and ids: "\<And>i k. dget (sm_consumer_map sm) i = Some k \<Longrightarrow> \<exists>n < uuid_next s. i = consumer_id n"
    using assms unfolding hub_ok_def by blast
  obtain k cb where "dget held i = Some (k, cb)" using assms(2) by auto
  note left = leave_ok [OF ok this]
  have ids1: "\<exists>n < uuid_next s. j = consumer_id n" if "dget (sm_consumer_map (snd (leave_stream i sm))) j = Some l" for j l
    using that ids [of j] by (auto simp: leave_stream_def Let_def split: option.splits if_splits)
  define s1 where "s1 = s\<lparr>mh_subscriptions := Some (snd (leave_stream i sm))\<rparr>"
  have ok1: "hub_ok s1 (ddel i held)"
    using left ids1 by (intro hub_okI [of _ "snd (leave_stream i sm)"]) (simp_all add: s1_def)
  have "consumer_view (snd (case fst (leave_stream i sm) of None \<Rightarrow> ret () s1 | Some ws \<Rightarrow> unsubscribe_logical ws s1)) =
      consumer_view s1"
    using sameD [OF view_logical(2)] by (auto simp: ret_def split: option.splits)
  moreover have "market_unsubscribe i s =
      (case fst (leave_stream i sm) of None \<Rightarrow> ret () s1 | Some ws \<Rightarrow> unsubscribe_logical ws s1)"
    using sm by (auto simp: market_unsubscribe_def reading_def seq_def bind_def on_manager_def modify_def s1_def
        split: option.splits)
  ultimately show ?thesis using ok1 by (simp add: hub_ok_def consumer_view_def)
qed

lemma history_ok: "hub_history s held \<Longrightarrow> hub_ok s held"
proof (induction rule: hub_history.induct)
  case (started s)
  then show ?case by (intro hub_okI [of _ new_manager])
      (simp_all add: new_manager_ok hub_start_def modify_def, simp add: new_manager_def)
next
  case (subscribed s held exchange symbol channel cb i t)
  then show ?case using joining_ok [of s held exchange symbol channel cb] by simp
next
  case (refused s held exchange symbol channel cb e t)
  then show ?case using joining_ok [of s held exchange symbol channel cb] by simp
next
  case (unsubscribed s held i)
  then show ?case by (simp add: leaving_ok)
next
  case (elsewhere s held t)
  then obtain sm where "mh_subscriptions s = Some sm" and "streams_ok sm held"
    and "\<And>i k. dget (sm_consumer_map sm) i = Some k \<Longrightarrow> \<exists>n < uuid_next s. i = consumer_id n"
    unfolding hub_ok_def by blast
  then show ?case using elsewhere(2,3) by (intro hub_okI [of _ sm]) (simp, simp, meson order_less_le_trans)
qed

lemma card_dom: "dict_ok d \<Longrightarrow> card (dom (dget d)) = length d"
  unfolding dict_ok_def dom_map_of_conv_image_fst by (metis distinct_card length_map set_map)

text \<open>
  C19. A stream is open exactly while somebody holds it. In every history of subscriptions, refused
  subscriptions and unsubscriptions that run one after the other, a stream is open when and only when
  some consumer holds a subscription to it; its reference count is the number of those consumers, and
  the callbacks that a message reaches are theirs.
\<close>

theorem stream_open_while_held:
  assumes "hub_history s held"
  shows "\<exists>sm. mh_subscriptions s = Some sm \<and>
    (\<forall>k. (dget (sm_logical sm) k \<noteq> None \<longleftrightarrow> (\<exists>i cb. dget held i = Some (k, cb))) \<and>
      set (stream_callbacks k sm) = {cb. \<exists>i. dget held i = Some (k, cb)} \<and>
      (\<forall>st. dget (sm_logical sm) k = Some st \<longrightarrow> ls_refcount st = int (card {i. \<exists>cb. dget held i = Some (k, cb)})))"
proof -
  obtain sm where sm: "mh_subscriptions s = Some sm" and ok: "streams_ok sm held"
    using history_ok [OF assms] unfolding hub_ok_def by blast
  have holders: "{i. \<exists>cb. dget held i = Some (k, cb)} = dom (dget (ls_callbacks st))"
    if "dget (sm_logical sm) k = Some st" for k st
    using streams_okD(3) [OF ok that] unfolding stream_ok_def by auto
  have "dget (sm_logical sm) k \<noteq> None \<longleftrightarrow> (\<exists>i cb. dget held i = Some (k, cb))" for k
  proof
    assume "dget (sm_logical sm) k \<noteq> None"
    then obtain st where "dget (sm_logical sm) k = Some st" by blast
    then have "stream_ok held k st" using streams_okD(3) [OF ok] by blast
    moreover obtain i cb cbs where "ls_callbacks st = (i, cb) # cbs"
      using calculation unfolding stream_ok_def by (metis neq_Nil_conv surj_pair)
    ultimately have "dget held i = Some (k, cb)" unfolding stream_ok_def by (metis map_of_Cons_code(2))
    then show "\<exists>i cb. dget held i = Some (k, cb)" by blast
  qed (use streams_okD(2) [OF ok] in blast)
  moreover have "set (stream_callbacks k sm) = {cb. \<exists>i. dget held i = Some (k, cb)}" for k
  proof (cases "dget (sm_logical sm) k")
    case None
    then show ?thesis using streams_okD(2) [OF ok] by (fastforce simp: stream_callbacks_def)
  next
    case (Some st)
    note sok = streams_okD(3) [OF ok Some]
    then have "snd ` set (ls_callbacks st) = {cb. \<exists>i. dget (ls_callbacks st) i = Some cb}"
      unfolding stream_ok_def by (force simp: dget_Some_iff)
    then show ?thesis using sok Some by (simp add: stream_callbacks_def stream_ok_def)
  qed
  moreover have "ls_refcount st = int (card {i. \<exists>cb. dget held i = Some (k, cb)})"
    if "dget (sm_logical sm) k = Some st" for k st
    using streams_okD(3) [OF ok that] unfolding holders [OF that] stream_ok_def
    by (simp add: card_dom)
  ultimately show ?thesis using sm by blast
qed

section \<open>Two first subscriptions at once\<close>

text \<open>
  Between the two halves of a first subscription the hub awaits the adapter, so the halves of two
  consumers of one stream can overlap: both find the stream closed, and both open it.
\<close>

definition overlapping :: "stream_key \<Rightarrow> string \<times> string \<times> 'cb \<Rightarrow> string \<times> string \<times> 'cb \<Rightarrow> 'cb subscription_manager \<Rightarrow>
    'cb subscription_manager" where
  "overlapping k a b sm = (case (a, b) of ((i, v, f), (j, w, g)) \<Rightarrow>
     open_stream k w j g (open_stream k v i f (snd (begin_subscribe k j g (snd (begin_subscribe k i f sm))))))"

text \<open>
  C20. Overlapping first subscriptions lose a consumer. When two consumers subscribe to a closed stream
  and the second begins before the first has opened it, both hold a subscription in the end, but
  messages reach only the second one's callback, nothing in the manager names the first one's
  stream at the exchange any more, and when the first consumer leaves, the stream of the second is closed.
\<close>

theorem overlapping_subscriptions_lose_one:
  fixes i v j w :: string and f g :: 'cb
  assumes "dget (sm_logical sm) k = None" and "i \<noteq> j"
  defines "sm' \<equiv> overlapping k (i, v, f) (j, w, g) sm"
  shows "\<not> fst (begin_subscribe k j g (snd (begin_subscribe k i f sm))) \<and>
    dget (sm_consumer_map sm') i = Some k \<and> dget (sm_consumer_map sm') j = Some k \<and>
    stream_callbacks k sm' = [g] \<and>
    fst (leave_stream i sm') = Some w \<and> stream_callbacks k (snd (leave_stream i sm')) = [] \<and>
    dget (sm_consumer_map (snd (leave_stream i sm'))) j = Some k"
  using assms by (simp add: overlapping_def begin_subscribe_def join_stream_def open_stream_def Let_def
      stream_callbacks_def leave_stream_def)

section \<open>Prices on their way to the grids\<close>

text \<open>
  The callback of the process manager (\<^verbatim>\<open>_price_callback\<close> in \<^verbatim>\<open>engine/trading/process_manager.py\<close>)
  takes the exchange, the symbol, the channel and the data. \<open>update\<close> is the grid engine's
  \<^verbatim>\<open>on_price_update\<close> for the instance.
\<close>

definition ticker_attribute :: "string \<Rightarrow> ticker_data \<Rightarrow> decimal res" where
  "ticker_attribute name d =
     (if name = ''bid'' then Ok (td_bid d) else if name = ''ask'' then Ok (td_ask d)
      else if name = ''last'' then Ok (td_last d) else if name = ''volume'' then Ok (td_volume d)
      else Raise (Exn PyAttributeError [name]))"

definition price_callback :: "(string \<Rightarrow> decimal \<Rightarrow> ('s, unit) py) \<Rightarrow> string \<Rightarrow> argument list \<Rightarrow> ('s, unit) py" where
  "price_callback update i args = (case args of
      [exchange, symbol, channel, data] \<Rightarrow> (case data of
          Data (Ticker d) \<Rightarrow> bind (lift_res (ticker_attribute ''last_price'' d)) (update i)
        | _ \<Rightarrow> ret ())
    | _ \<Rightarrow> throw (Exn PyTypeError []))"

definition rest_of_program :: "('x, 'cb, 'm) hub_state_scheme \<Rightarrow> 'x \<times> 'm" where
  "rest_of_program s = (exch s, hub_state.more s)"

lemma price_callback_raises: "\<exists>e. price_callback update i [Data d] s = (Raise e, s)"
  by (simp add: price_callback_def throw_def)

lemma rest_basic [resp_intros]:
  "obeys (same rest_of_program) (on_connector e f)" "obeys (same rest_of_program) (on_cache g)"
  "obeys (same rest_of_program) now" "obeys (same rest_of_program) (price_callback update i [Data d])"
  by (auto simp: obeys_def same_def rest_of_program_def on_connector_def on_cache_def now_def price_callback_def
      throw_def modify_def gets_def split: option.splits prod.splits)

text \<open>
  No price reaches a grid. When the callbacks of the consumers are those that the process manager
  subscribes, no message on any stream changes anything outside the hub, the state of the grid
  engine and of the exchanges included, whatever the grid engine would do with a price: every callback
  is called with one argument instead of four and raises, and the hub drops what it raises.
\<close>

theorem prices_never_reach_grids:
  "rest_of_program (snd (connector_on_market_data (price_callback update) e symbol channel data s)) = rest_of_program s"
proof (rule sameD)
  show "obeys (same rest_of_program) (connector_on_market_data (price_callback update) e symbol channel data)"
    unfolding connector_on_market_data_def hub_on_market_data_def fan_out_def with_connector_def
    by (intro resp_intros)
qed

section \<open>The last price\<close>

text \<open>The messages of tickers for one market, in the order they are delivered.\<close>

type_synonym message = "string \<times> string \<times> string \<times> market_data"

definition ticker_of :: "string \<Rightarrow> string \<Rightarrow> message \<Rightarrow> ticker_data option" where
  "ticker_of exchange symbol m = (case m of (e, y, channel, data) \<Rightarrow>
     if cache_key e y = cache_key exchange symbol \<and> py_lower channel = ''ticker''
     then (case data of Ticker d \<Rightarrow> Some d | _ \<Rightarrow> None) else None)"

definition deliver_message :: "('cb \<Rightarrow> argument list \<Rightarrow> ('x, 'cb, 'm, unit) mk) \<Rightarrow> message \<Rightarrow> ('x, 'cb, 'm, unit) mk" where
  "deliver_message call m = (case m of (e, y, channel, data) \<Rightarrow> connector_on_market_data call (py_lower e) y channel data)"

definition last_price :: "decimal option \<Rightarrow> ticker_data list \<Rightarrow> decimal option" where
  "last_price p ds = (if ds = [] then p else Some (td_last (last ds)))"

lemma char_lower_idem: "char_lower (char_lower c) = char_lower c"
proof -
  have "of_char (char_of n :: char) = (n :: nat)" if "n < 256" for n
    using that by simp
  then show ?thesis by (auto simp: char_lower_def Let_def)
qed

lemma py_lower_idem [simp]: "py_lower (py_lower s) = py_lower s"
  by (simp add: py_lower_def char_lower_idem comp_def)

lemma cache_key_idem [simp]: "cache_key (py_lower e) (py_upper y) = cache_key e y"
  by (simp add: cache_key_def)

lemma cached_price_on_entry:
  "cached_price exchange symbol (on_entry e y f c) =
     (if cache_key e y = cache_key exchange symbol
      then ce_price (f (case cache_find e y c of None \<Rightarrow> fresh_entry e y | Some x \<Rightarrow> x))
      else cached_price exchange symbol c)"
  by (auto simp: cached_price_def on_entry_def cache_find_def Let_def)

lemma entry_price:
  "ce_price (case cache_find e y c of None \<Rightarrow> fresh_entry e y | Some x \<Rightarrow> x) = cached_price e y c"
  by (simp add: cached_price_def fresh_entry_def split: option.splits)

lemma cached_price_key:
  "cache_key e y = cache_key exchange symbol \<Longrightarrow> cached_price e y c = cached_price exchange symbol c"
  by (simp add: cached_price_def cache_find_def)

lemma stored_price:
  "cached_price exchange symbol (store_data t (py_lower e) (py_upper y) (py_lower channel) data c) =
     (case ticker_of exchange symbol (e, y, channel, data) of
        None \<Rightarrow> cached_price exchange symbol c
      | Some d \<Rightarrow> Some (td_last d))"
proof -
  have key: "cache_key (py_lower e) (py_upper y) = cache_key e y" by simp
  show ?thesis
    using cached_price_key [of "py_lower e" "py_upper y" exchange symbol c, unfolded key]
    by (cases data) (auto simp: store_data_def ticker_of_def update_ticker_def update_orderbook_def update_candles_def
        cached_price_on_entry update_timestamp_def entry_price)
qed

definition registered :: "string \<Rightarrow> ('x, 'cb, 'm) hub_state_scheme \<Rightarrow> bool" where
  "registered e s \<longleftrightarrow> map_option cn_exchange (dget (mh_connectors s) (py_lower e)) = Some (py_lower e)"

definition hub_view :: "('x, 'cb, 'm) hub_state_scheme \<Rightarrow> market_cache \<times> (string \<Rightarrow> string option)" where
  "hub_view s = (mh_cache s, \<lambda>e. map_option cn_exchange (dget (mh_connectors s) e))"

text \<open>Callbacks that leave the hub's cache and connectors alone.\<close>

definition quiet_callbacks :: "('cb \<Rightarrow> argument list \<Rightarrow> ('x, 'cb, 'm, unit) mk) \<Rightarrow> bool" where
  "quiet_callbacks call \<longleftrightarrow> (\<forall>cb args. obeys (same hub_view) (call cb args))"

lemma put_metrics_exchange [simp]: "cn_exchange (put_metrics symbol f c) = cn_exchange c"
  by (simp add: put_metrics_def)

lemma total_fan_out: "total (fan_out call e y channel data sm)"
  unfolding fan_out_def by (intro total_intros)

lemma deliver_step:
  assumes quiet: "quiet_callbacks call" and reg: "registered e s"
  shows "\<exists>t. deliver_message call (e, y, channel, data) s = (Ok (), t) \<and> snd (hub_view t) = snd (hub_view s) \<and>
    cached_price exchange symbol (mh_cache t) = (case ticker_of exchange symbol (e, y, channel, data) of
        None \<Rightarrow> cached_price exchange symbol (mh_cache s)
      | Some d \<Rightarrow> Some (td_last d))"
proof -
  obtain c where c: "dget (mh_connectors s) (py_lower e) = Some c" "cn_exchange c = py_lower e"
    using reg by (auto simp: registered_def)
  define c' where "c' = put_metrics y (\<lambda>m. with_market_status M_CONNECTED
            ((record_message (clock s) m)\<lparr>cm_last_update := Some (clock s)\<rparr>)) c"
  define s1 where "s1 = s\<lparr>mh_connectors := dput (py_lower e) c' (mh_connectors s),
      mh_cache := store_data (clock s) (py_lower e) (py_upper y) (py_lower channel) data (mh_cache s)\<rparr>"
  let ?fan = "case mh_subscriptions s of None \<Rightarrow> ret ()
      | Some sm \<Rightarrow> fan_out call (py_lower e) (py_upper y) (py_lower channel) data sm"
  have run: "deliver_message call (e, y, channel, data) s = ?fan s1"
    using c by (cases "mh_subscriptions s") (simp_all add: deliver_message_def connector_on_market_data_def
        hub_on_market_data_def with_connector_def on_connector_def on_cache_def py_simps s1_def c'_def)
  have "total ?fan" by (intro total_intros total_fan_out)
  then obtain t where t: "?fan s1 = (Ok (), t)" by (metis (full_types) old.unit.exhaust totalE)
  have "obeys (same hub_view) ?fan" unfolding fan_out_def by (intro resp_intros) (use quiet in \<open>simp add: quiet_callbacks_def\<close>)
  from sameD [OF this, of s1] have "hub_view t = hub_view s1" using t by simp
  then have "mh_cache t = mh_cache s1" "snd (hub_view t) = snd (hub_view s)"
    using c by (auto simp: hub_view_def s1_def c'_def fun_eq_iff)
  then show ?thesis using run t by (simp add: s1_def stored_price)
qed

lemma registered_view: "snd (hub_view t) = snd (hub_view s) \<Longrightarrow> registered e t \<longleftrightarrow> registered e s"
  by (simp add: registered_def hub_view_def fun_eq_iff)

lemma deliveries:
  assumes quiet: "quiet_callbacks call" and "\<forall>m \<in> set ms. registered (fst m) s"
  shows "\<exists>t. for_each (deliver_message call) ms s = (Ok (), t) \<and>
    cached_price exchange symbol (mh_cache t) =
      last_price (cached_price exchange symbol (mh_cache s)) (List.map_filter (ticker_of exchange symbol) ms)"
  using assms(2)
proof (induction ms arbitrary: s)
  case Nil
  then show ?case by (simp add: ret_def last_price_def List.map_filter_def)
next
  case (Cons m ms)
  obtain e y channel data where m: "m = (e, y, channel, data)" by (cases m)
  obtain t where t: "deliver_message call m s = (Ok (), t)" and view: "snd (hub_view t) = snd (hub_view s)"
    and price: "cached_price exchange symbol (mh_cache t) = (case ticker_of exchange symbol m of
        None \<Rightarrow> cached_price exchange symbol (mh_cache s) | Some d \<Rightarrow> Some (td_last d))"
    using deliver_step [OF quiet, of e s y channel data exchange symbol] Cons.prems m by auto
  have "\<forall>m \<in> set ms. registered (fst m) t" using Cons.prems registered_view [OF view] by simp
  from Cons.IH [OF this] show ?case
    using t price by (auto simp: seq_Ok last_price_def List.map_filter_def split: option.splits)
qed

text \<open>
  The hub serves the last price delivered. After any sequence of messages, of any exchanges,
  symbols and channels in any spelling, the price of a market is the last price of its last
  ticker message, and asking for it returns that price without a call to the exchange, if there was one.
\<close>

theorem last_price_served:
  fixes ms :: "message list" and exchange symbol :: string
  defines "tickers \<equiv> List.map_filter (ticker_of exchange symbol) ms"
  assumes quiet: "quiet_callbacks call" and "\<forall>m \<in> set ms. registered (fst m) s"
    and "tickers \<noteq> []"
  shows "\<exists>t. for_each (deliver_message call) ms s = (Ok (), t) \<and> market_price exchange symbol t = (Ok (td_last (last tickers)), t)"
proof -
  obtain t where t: "for_each (deliver_message call) ms s = (Ok (), t)"
    and "cached_price exchange symbol (mh_cache t) = Some (td_last (last tickers))"
    using deliveries [OF quiet assms(3), where exchange = exchange and symbol = symbol] assms(4) by (auto simp: last_price_def tickers_def)
  then show ?thesis by (simp add: market_price_def cached_or_fetched_def bind_gets ret_def)
qed

section \<open>Concrete hubs\<close>

definition quiet_adapter :: "unit market_adapter" where
  "quiet_adapter = \<lparr>ma_connect_market = ret True, ma_disconnect = ret (), ma_subscribe_market = (\<lambda>_ _. ret ''ws''),
     ma_unsubscribe_market = (\<lambda>_. ret ()), ma_get_ticker = (\<lambda>_. throw (Exn OtherException [])),
     ma_get_tickers = ret [], ma_get_order_book = (\<lambda>_. throw (Exn OtherException [])),
     ma_get_candles = (\<lambda>_ _. throw (Exn OtherException []))\<rparr>"

definition sample_hub :: "(unit, string) hub_state" where
  "sample_hub = \<lparr>clock = 0, uuid_next = 0, sleeps = [], exch = (),
     mh_cache = \<lparr>mc_data = [], mc_stale_threshold = 30\<rparr>, mh_symbols = [(''okx'', [''BTCUSDT''])],
     mh_connectors = [(''okx'', new_connector ''okx'' quiet_adapter)], mh_subscriptions = None, mh_running = False\<rparr>"

definition sample_ticker :: "decimal \<Rightarrow> ticker_data" where
  "sample_ticker p = \<lparr>td_symbol = ''BTCUSDT'', td_bid = p, td_ask = p, td_last = p, td_volume = 1, td_timestamp = 0\<rparr>"

lemmas sample_hub_run = sample_hub_def hub_start_def market_subscribe_def on_manager_def subscribe_logical_def
  connector_start_def connector_subscribe_def with_connector_def on_connector_def validate_supported_def
  is_supported_def normalize_symbol_def normalize_exchange_def py_strip_def new_manager_def new_connector_def
  quiet_adapter_def py_simps

lemma sample_subscription:
  "fst (market_subscribe ''okx'' ''btcusdt'' ''ticker'' ''i'' (snd (hub_start sample_hub))) = Ok (consumer_id 0)"
  by code_simp

theorem stream_open_while_held_witness:
  "\<exists>sm. mh_subscriptions (snd (market_subscribe ''okx'' ''btcusdt'' ''ticker'' ''i'' (snd (hub_start sample_hub)))) = Some sm \<and>
     dget (sm_logical sm) (logical_key ''okx'' ''btcusdt'' ''ticker'') \<noteq> None"
proof -
  let ?run = "market_subscribe ''okx'' ''btcusdt'' ''ticker'' ''i'' (snd (hub_start sample_hub))"
  have "?run = (Ok (consumer_id 0), snd ?run)" using sample_subscription by (metis prod.collapse)
  from stream_open_while_held [OF subscribed [OF started this]] show ?thesis by fastforce
qed

theorem overlapping_subscriptions_lose_one_witness:
  "stream_callbacks (''okx'', ''BTCUSDT'', ''ticker'')
     (overlapping (''okx'', ''BTCUSDT'', ''ticker'') (''1'', ''ws1'', ''i'') (''2'', ''ws2'', ''j'') new_manager) = [''j'']"
  using overlapping_subscriptions_lose_one [of new_manager "(''okx'', ''BTCUSDT'', ''ticker'')" "''1''" "''2''"
      "''j''" "''i''" "''ws1''" "''ws2''"]
  by (simp add: new_manager_def)

theorem last_price_served_witness:
  "\<exists>t. for_each (deliver_message (price_callback (\<lambda>_ _. ret ())))
      [(''okx'', ''BTCUSDT'', ''ticker'', Ticker (sample_ticker 7)), (''OKX'', ''btcusdt'', ''candle'', Candles []),
       (''OKX'', ''btcusdt'', ''Ticker'', Ticker (sample_ticker 8))] sample_hub = (Ok (), t) \<and>
     market_price ''Okx'' ''BtcUsdt'' t = (Ok 8, t)"
proof -
  let ?ms = "[(''okx'', ''BTCUSDT'', ''ticker'', Ticker (sample_ticker 7)), (''OKX'', ''btcusdt'', ''candle'', Candles []),
       (''OKX'', ''btcusdt'', ''Ticker'', Ticker (sample_ticker 8))]"
  have t: "List.map_filter (ticker_of ''Okx'' ''BtcUsdt'') ?ms = [sample_ticker 7, sample_ticker 8]"
    by code_simp
  have "quiet_callbacks (price_callback (\<lambda>_ _. ret ()) :: string \<Rightarrow> argument list \<Rightarrow> (unit, string, unit, unit) mk)"
    by (auto simp: quiet_callbacks_def price_callback_def obeys_def same_def ret_def throw_def bind_def lift_res_def
        ticker_attribute_def split: list.splits argument.splits market_data.splits)
  moreover have "\<forall>m \<in> set ?ms. registered (fst m) sample_hub"
    by (simp add: registered_def sample_hub_def new_connector_def) code_simp
  ultimately show ?thesis
    using last_price_served [of "price_callback (\<lambda>_ _. ret ())" ?ms sample_hub "''Okx''" "''BtcUsdt''"]
    unfolding t by (simp add: sample_ticker_def)
qed

end
