(* ===== verification/Entitlements.thy ===== *)
theory Entitlements
  imports DomainTypes "HOL-Library.List_Lexorder" "HOL-Library.Char_ord"
begin

text \<open>
  Who may do what: \<^verbatim>\<open>services/saas/rbac.py\<close> (roles and permissions),
  \<^verbatim>\<open>services/saas/license.py\<close> (limits and features of a plan) and
  \<^verbatim>\<open>services/saas/subscription.py\<close> (the plan of a user). A set is a list without repetition: every
  reading of one tests or sorts it. The resolvers of a licence manager are parameters; prices, floats in
  the code, are the rationals they denote.
\<close>

section \<open>Roles\<close>

record role =
  rl_name :: string
  rl_permissions :: "string list"
  rl_description :: string

record rbac_metrics =
  bm_roles_defined :: int
  bm_roles_assigned :: int
  bm_roles_revoked :: int
  bm_permission_checks :: int
  bm_permission_granted :: int
  bm_permission_denied :: int

record rbac =
  rb_roles :: "(string, role) dict"
  rb_user_roles :: "(string, string list) dict"
  rb_metrics :: rbac_metrics

definition default_roles :: "(string, string list) dict" where
  "default_roles =
    [(''user'', [''trade:read'', ''account:read'']),
     (''trader'', [''trade:create'', ''trade:read'', ''trade:delete'', ''grid:manage'', ''account:read'']),
     (''admin'', [''trade:create'', ''trade:read'', ''trade:delete'', ''grid:manage'', ''risk:manage'',
        ''account:read'', ''account:manage'', ''user:read'', ''billing:read'']),
     (''super_admin'', [''trade:create'', ''trade:read'', ''trade:delete'', ''grid:manage'', ''risk:manage'',
        ''account:read'', ''account:manage'', ''user:read'', ''user:manage'', ''billing:read'',
        ''billing:manage'', ''system:manage'', ''affiliate:manage''])]"

definition new_rbac :: rbac where
  "new_rbac = \<lparr>rb_roles = map (\<lambda>(n, ps). (n, \<lparr>rl_name = n, rl_permissions = ps, rl_description = []\<rparr>)) default_roles,
     rb_user_roles = [], rb_metrics = \<lparr>bm_roles_defined = 0, bm_roles_assigned = 0, bm_roles_revoked = 0,
     bm_permission_checks = 0, bm_permission_granted = 0, bm_permission_denied = 0\<rparr>\<rparr>"

definition rb_count :: "(rbac_metrics \<Rightarrow> rbac_metrics) \<Rightarrow> (rbac, unit) py" where
  "rb_count f = modify (\<lambda>s. s\<lparr>rb_metrics := f (rb_metrics s)\<rparr>)"

definition define_role :: "string \<Rightarrow> string list \<Rightarrow> string \<Rightarrow> (rbac, unit) py" where
  "define_role name permissions description =
     seq (modify (\<lambda>s. s\<lparr>rb_roles := dput name \<lparr>rl_name = name, rl_permissions = permissions,
            rl_description = description\<rparr> (rb_roles s)\<rparr>))
       (rb_count (\<lambda>m. m\<lparr>bm_roles_defined := bm_roles_defined m + 1\<rparr>))"

definition roles_of :: "string \<Rightarrow> rbac \<Rightarrow> string list" where
  "roles_of user s = (case dget (rb_user_roles s) user of None \<Rightarrow> [] | Some rs \<Rightarrow> rs)"

definition assign_role :: "string \<Rightarrow> string \<Rightarrow> (rbac, unit) py" where
  "assign_role user name = reading (\<lambda>s.
     if dget (rb_roles s) name = None then throw (Exn PyValueError [name])
     else seq (modify (\<lambda>s. s\<lparr>rb_user_roles := dput user (List.insert name (roles_of user s)) (rb_user_roles s)\<rparr>))
       (rb_count (\<lambda>m. m\<lparr>bm_roles_assigned := bm_roles_assigned m + 1\<rparr>)))"

definition revoke_role :: "string \<Rightarrow> string \<Rightarrow> (rbac, bool) py" where
  "revoke_role user name = reading (\<lambda>s.
     if name \<notin> set (roles_of user s) then ret False
     else seq (modify (\<lambda>s. s\<lparr>rb_user_roles := dput user (removeAll name (roles_of user s)) (rb_user_roles s)\<rparr>))
       (seq (rb_count (\<lambda>m. m\<lparr>bm_roles_revoked := bm_roles_revoked m + 1\<rparr>)) (ret True)))"

definition get_role_permissions :: "string \<Rightarrow> rbac \<Rightarrow> string list" where
  "get_role_permissions name s = (case dget (rb_roles s) name of None \<Rightarrow> [] | Some r \<Rightarrow> rl_permissions r)"

definition has_permission :: "string \<Rightarrow> string \<Rightarrow> (rbac, bool) py" where
  "has_permission user permission =
     seq (rb_count (\<lambda>m. m\<lparr>bm_permission_checks := bm_permission_checks m + 1\<rparr>))
     (reading (\<lambda>s.
       if list_ex (\<lambda>name. permission \<in> set (get_role_permissions name s)) (roles_of user s)
       then seq (rb_count (\<lambda>m. m\<lparr>bm_permission_granted := bm_permission_granted m + 1\<rparr>)) (ret True)
       else seq (rb_count (\<lambda>m. m\<lparr>bm_permission_denied := bm_permission_denied m + 1\<rparr>)) (ret False)))"

definition get_user_permissions :: "string \<Rightarrow> rbac \<Rightarrow> string list" where
  "get_user_permissions user s = sort (remdups (concat (map (\<lambda>name. get_role_permissions name s) (roles_of user s))))"

definition get_user_roles :: "string \<Rightarrow> rbac \<Rightarrow> string list" where
  "get_user_roles user s = sort (roles_of user s)"

definition get_all_roles :: "rbac \<Rightarrow> role list" where
  "get_all_roles s = map snd (rb_roles s)"

section \<open>Licences\<close>

record plan_limits =
  pl_tier :: string
  pl_max_instances :: int
  pl_max_exchange_accounts :: int
  pl_max_symbols :: int
  pl_max_workers :: int
  pl_max_coin_selection :: int
  pl_feature_flags :: "string list"

definition default_plan_limits :: "(string, plan_limits) dict" where
  "default_plan_limits =
    [(''free'', \<lparr>pl_tier = ''free'', pl_max_instances = 1, pl_max_exchange_accounts = 1, pl_max_symbols = 2,
        pl_max_workers = 1, pl_max_coin_selection = 2, pl_feature_flags = [''basic_grid'']\<rparr>),
     (''starter'', \<lparr>pl_tier = ''starter'', pl_max_instances = 3, pl_max_exchange_accounts = 2, pl_max_symbols = 10,
        pl_max_workers = 3, pl_max_coin_selection = 5,
        pl_feature_flags = [''basic_grid'', ''profit_lock'', ''trailing_profit'', ''notifications'']\<rparr>),
     (''pro'', \<lparr>pl_tier = ''pro'', pl_max_instances = 10, pl_max_exchange_accounts = 5, pl_max_symbols = 50,
        pl_max_workers = 10, pl_max_coin_selection = 15,
        pl_feature_flags = [''basic_grid'', ''profit_lock'', ''trailing_profit'', ''notifications'', ''automation'',
          ''advanced_risk'', ''priority_support'']\<rparr>),
     (''enterprise'', \<lparr>pl_tier = ''enterprise'', pl_max_instances = 100, pl_max_exchange_accounts = 20,
        pl_max_symbols = 500, pl_max_workers = 100, pl_max_coin_selection = 999,
        pl_feature_flags = [''basic_grid'', ''profit_lock'', ''trailing_profit'', ''notifications'', ''automation'',
          ''advanced_risk'', ''priority_support'', ''custom_strategies'', ''dedicated_support'', ''white_label'']\<rparr>)]"

definition addon_prices :: "(string, rat) dict" where
  "addon_prices = [(''trailing_profit'', 19)]"

record license_metrics =
  lm_checks_instance :: int
  lm_checks_exchange :: int
  lm_checks_symbol :: int
  lm_checks_worker :: int
  lm_checks_feature :: int
  lm_denied :: int

record license_manager =
  lc_limits :: "(string, plan_limits) dict"
  lc_tier_resolver :: "string \<Rightarrow> string"
  lc_addon_resolver :: "string \<Rightarrow> string list"
  lc_metrics :: license_metrics

definition new_license_manager :: "(string \<Rightarrow> string) option \<Rightarrow> (string \<Rightarrow> string list) option \<Rightarrow> license_manager" where
  "new_license_manager tier addons = \<lparr>lc_limits = default_plan_limits,
     lc_tier_resolver = (case tier of None \<Rightarrow> (\<lambda>_. ''free'') | Some f \<Rightarrow> f),
     lc_addon_resolver = (case addons of None \<Rightarrow> (\<lambda>_. []) | Some f \<Rightarrow> f),
     lc_metrics = \<lparr>lm_checks_instance = 0, lm_checks_exchange = 0, lm_checks_symbol = 0, lm_checks_worker = 0,
       lm_checks_feature = 0, lm_denied = 0\<rparr>\<rparr>"

type_synonym 'a lc = "(license_manager, 'a) py"

definition lc_count :: "(license_metrics \<Rightarrow> license_metrics) \<Rightarrow> unit lc" where
  "lc_count f = modify (\<lambda>s. s\<lparr>lc_metrics := f (lc_metrics s)\<rparr>)"

definition set_plan_limits :: "string \<Rightarrow> plan_limits \<Rightarrow> unit lc" where
  "set_plan_limits tier limits = modify (\<lambda>s. s\<lparr>lc_limits := dput (py_lower tier) limits (lc_limits s)\<rparr>)"

text \<open>An unknown tier has the limits of the free plan, which no operation removes.\<close>

definition get_plan_limits :: "string \<Rightarrow> license_manager \<Rightarrow> plan_limits" where
  "get_plan_limits tier s = (case dget (lc_limits s) (py_lower tier) of
      Some l \<Rightarrow> l
    | None \<Rightarrow> the (dget (lc_limits s) ''free''))"

definition set_tier_resolver :: "(string \<Rightarrow> string) \<Rightarrow> unit lc" where
  "set_tier_resolver f = modify (\<lambda>s. s\<lparr>lc_tier_resolver := f\<rparr>)"

definition limits_for :: "string \<Rightarrow> license_manager \<Rightarrow> plan_limits" where
  "limits_for user s = get_plan_limits (lc_tier_resolver s user) s"

text \<open>The four limit checks: counted, and denied at the limit.\<close>

definition check_limit :: "(license_metrics \<Rightarrow> license_metrics) \<Rightarrow> (plan_limits \<Rightarrow> int) \<Rightarrow> string \<Rightarrow> int \<Rightarrow> bool lc" where
  "check_limit tick limit user current = seq (lc_count tick) (reading (\<lambda>s.
     if limit (limits_for user s) \<le> current
     then seq (lc_count (\<lambda>m. m\<lparr>lm_denied := lm_denied m + 1\<rparr>)) (ret False)
     else ret True))"

definition check_instance_limit :: "string \<Rightarrow> int \<Rightarrow> bool lc" where
  "check_instance_limit = check_limit (\<lambda>m. m\<lparr>lm_checks_instance := lm_checks_instance m + 1\<rparr>) pl_max_instances"

definition check_exchange_account_limit :: "string \<Rightarrow> int \<Rightarrow> bool lc" where
  "check_exchange_account_limit =
     check_limit (\<lambda>m. m\<lparr>lm_checks_exchange := lm_checks_exchange m + 1\<rparr>) pl_max_exchange_accounts"

definition check_symbol_limit :: "string \<Rightarrow> int \<Rightarrow> bool lc" where
  "check_symbol_limit = check_limit (\<lambda>m. m\<lparr>lm_checks_symbol := lm_checks_symbol m + 1\<rparr>) pl_max_symbols"

definition check_worker_limit :: "string \<Rightarrow> int \<Rightarrow> bool lc" where
  "check_worker_limit = check_limit (\<lambda>m. m\<lparr>lm_checks_worker := lm_checks_worker m + 1\<rparr>) pl_max_workers"

definition has_addon :: "string \<Rightarrow> string \<Rightarrow> license_manager \<Rightarrow> bool" where
  "has_addon user key s \<longleftrightarrow> key \<in> set (lc_addon_resolver s user)"

definition has_feature :: "string \<Rightarrow> string \<Rightarrow> bool lc" where
  "has_feature user flag = seq (lc_count (\<lambda>m. m\<lparr>lm_checks_feature := lm_checks_feature m + 1\<rparr>))
     (gets (\<lambda>s. flag \<in> set (pl_feature_flags (limits_for user s)) \<or> has_addon user flag s))"

definition enforce_instance_limit :: "string \<Rightarrow> int \<Rightarrow> unit lc" where
  "enforce_instance_limit user current = bind (check_instance_limit user current) (\<lambda>ok.
     if ok then ret () else throw (Exn AuthorizationError []))"

definition enforce_feature :: "string \<Rightarrow> string \<Rightarrow> unit lc" where
  "enforce_feature user flag = bind (has_feature user flag) (\<lambda>ok.
     if ok then ret () else throw (Exn AuthorizationError [flag]))"

definition plan_hierarchy :: "string list" where
  "plan_hierarchy = [''free'', ''starter'', ''pro'', ''enterprise'']"

definition get_all_plans :: "license_manager \<Rightarrow> plan_limits list" where
  "get_all_plans s = map (\<lambda>t. the (dget (lc_limits s) t)) plan_hierarchy"

section \<open>Subscriptions\<close>

definition plan_prices :: "(string, rat) dict" where
  "plan_prices = [(''free'', 0), (''starter'', 29), (''pro'', 99), (''enterprise'', 499)]"

record subscription =
  su_id :: string
  su_user_id :: string
  su_tier :: string
  su_start_date :: datetime
  su_end_date :: datetime
  su_is_active :: bool
  su_auto_renew :: bool

record subscription_metrics =
  sx_created :: int
  sx_upgrades :: int
  sx_downgrades :: int
  sx_cancellations :: int
  sx_renewals :: int

record 'x subscriptions = "'x world" +
  su_subscriptions :: "(string, subscription) dict"
  su_metrics :: subscription_metrics

type_synonym ('x, 'm, 'a) su = "(('x, 'm) subscriptions_scheme, 'a) py"

definition su_count :: "(subscription_metrics \<Rightarrow> subscription_metrics) \<Rightarrow> ('x, 'm, unit) su" where
  "su_count f = modify (\<lambda>s. s\<lparr>su_metrics := f (su_metrics s)\<rparr>)"

definition su_put :: "string \<Rightarrow> subscription \<Rightarrow> ('x, 'm, unit) su" where
  "su_put user sub = modify (\<lambda>s. s\<lparr>su_subscriptions := dput user sub (su_subscriptions s)\<rparr>)"

definition days :: "int \<Rightarrow> datetime" where
  "days n = n * 86400"

definition create_subscription :: "string \<Rightarrow> string \<Rightarrow> int \<Rightarrow> bool \<Rightarrow> ('x, 'm, subscription) su" where
  "create_subscription user tier0 duration auto_renew =
     (let tier = py_lower tier0 in
      if tier \<notin> set plan_hierarchy then throw (Exn ValidationError [tier])
      else bind now (\<lambda>t. bind uuid4 (\<lambda>u.
        let sub = \<lparr>su_id = show_nat u, su_user_id = user, su_tier = tier, su_start_date = t,
              su_end_date = t + days duration, su_is_active = True, su_auto_renew = auto_renew\<rparr>
        in seq (su_put user sub)
          (seq (su_count (\<lambda>m. m\<lparr>sx_created := sx_created m + 1\<rparr>)) (ret sub)))))"

text \<open>\<^verbatim>\<open>PLAN_HIERARCHY.index(tier)\<close>\<close>

definition plan_rank :: "string \<Rightarrow> nat res" where
  "plan_rank tier = (let n = length (takeWhile (\<lambda>t. t \<noteq> tier) plan_hierarchy)
     in if n < length plan_hierarchy then Ok n else Raise (Exn PyValueError [tier]))"

text \<open>Upgrading and downgrading differ in the order they require and in what they count.\<close>

definition change_tier :: "(nat \<Rightarrow> nat \<Rightarrow> bool) \<Rightarrow> (subscription_metrics \<Rightarrow> subscription_metrics) \<Rightarrow> string \<Rightarrow>
    string \<Rightarrow> ('x, 'm, subscription) su" where
  "change_tier allowed tick user tier0 =
     (let tier = py_lower tier0 in
      if tier \<notin> set plan_hierarchy then throw (Exn ValidationError [tier])
      else reading (\<lambda>s. case dget (su_subscriptions s) user of
          None \<Rightarrow> throw (Exn ValidationError [])
        | Some current \<Rightarrow>
            bind (lift_res (plan_rank (su_tier current))) (\<lambda>i.
            bind (lift_res (plan_rank tier)) (\<lambda>j.
            if \<not> allowed i j then throw (Exn ValidationError [su_tier current])
            else let sub = current\<lparr>su_tier := tier\<rparr>
              in seq (su_put user sub) (seq (su_count tick) (ret sub))))))"

definition upgrade :: "string \<Rightarrow> string \<Rightarrow> ('x, 'm, subscription) su" where
  "upgrade = change_tier (<) (\<lambda>m. m\<lparr>sx_upgrades := sx_upgrades m + 1\<rparr>)"

definition downgrade :: "string \<Rightarrow> string \<Rightarrow> ('x, 'm, subscription) su" where
  "downgrade = change_tier (>) (\<lambda>m. m\<lparr>sx_downgrades := sx_downgrades m + 1\<rparr>)"

definition cancel_subscription :: "string \<Rightarrow> ('x, 'm, bool) su" where
  "cancel_subscription user = reading (\<lambda>s. case dget (su_subscriptions s) user of
      None \<Rightarrow> ret False
    | Some sub \<Rightarrow>
        seq (su_put user (sub\<lparr>su_is_active := False, su_auto_renew := False\<rparr>))
        (seq (su_count (\<lambda>m. m\<lparr>sx_cancellations := sx_cancellations m + 1\<rparr>)) (ret True)))"

definition get_subscription :: "string \<Rightarrow> ('x, 'm) subscriptions_scheme \<Rightarrow> subscription option" where
  "get_subscription user s = dget (su_subscriptions s) user"

definition check_active :: "string \<Rightarrow> ('x, 'm, bool) su" where
  "check_active user = reading (\<lambda>s. case dget (su_subscriptions s) user of
      None \<Rightarrow> ret False
    | Some sub \<Rightarrow>
        if \<not> su_is_active sub then ret False
        else bind now (\<lambda>t.
          if su_end_date sub < t then seq (su_put user (sub\<lparr>su_is_active := False\<rparr>)) (ret False)
          else ret True))"

definition renew :: "string \<Rightarrow> int \<Rightarrow> ('x, 'm, subscription) su" where
  "renew user duration = reading (\<lambda>s. case dget (su_subscriptions s) user of
      None \<Rightarrow> throw (Exn ValidationError [])
    | Some sub \<Rightarrow> bind now (\<lambda>t.
        let sub' = sub\<lparr>su_end_date := max (su_end_date sub) t + days duration, su_is_active := True\<rparr>
        in seq (su_put user sub')
          (seq (su_count (\<lambda>m. m\<lparr>sx_renewals := sx_renewals m + 1\<rparr>)) (ret sub'))))"

definition get_plan_price :: "string \<Rightarrow> rat" where
  "get_plan_price tier = (case dget plan_prices (py_lower tier) of None \<Rightarrow> 0 | Some p \<Rightarrow> p)"

end
