(* ===== verification/EntitlementLaws.thy ===== *)
theory EntitlementLaws
  imports Entitlements
begin

text \<open>
  What roles, licences and subscriptions promise: permissions are exactly those of the roles a user
  holds, over any history, and an upgrade of the plan takes nothing away.
\<close>

section \<open>Permissions\<close>

text \<open>
  The specification: which permissions a role grants, where it is defined, and who holds which role.
\<close>

type_synonym access_policy = "(string \<Rightarrow> string set option) \<times> (string \<times> string) set"

datatype rbac_call = Define string "string list" string | Assign string string | Revoke string string | Ask string string

definition run_call :: "rbac_call \<Rightarrow> rbac \<Rightarrow> rbac" where
  "run_call c s = (case c of
      Define name permissions description \<Rightarrow> snd (define_role name permissions description s)
    | Assign user name \<Rightarrow> snd (assign_role user name s)
    | Revoke user name \<Rightarrow> snd (revoke_role user name s)
    | Ask user permission \<Rightarrow> snd (has_permission user permission s))"

definition policy_step :: "rbac_call \<Rightarrow> access_policy \<Rightarrow> access_policy" where
  "policy_step c p = (case p of (grants, held) \<Rightarrow> (case c of
      Define name permissions _ \<Rightarrow> (grants(name \<mapsto> set permissions), held)
    | Assign user name \<Rightarrow> (grants, if grants name = None then held else insert (user, name) held)
    | Revoke user name \<Rightarrow> (grants, held - {(user, name)})
    | Ask _ _ \<Rightarrow> p))"

definition policy_of :: "rbac \<Rightarrow> access_policy" where
  "policy_of s = (\<lambda>name. map_option (set \<circ> rl_permissions) (dget (rb_roles s) name),
     {(user, name). name \<in> set (roles_of user s)})"

definition permitted :: "access_policy \<Rightarrow> string \<Rightarrow> string \<Rightarrow> bool" where
  "permitted p user permission \<longleftrightarrow> (\<exists>name ps. (user, name) \<in> snd p \<and> fst p name = Some ps \<and> permission \<in> ps)"

lemma roles_of_assigned:
  "roles_of u (s\<lparr>rb_user_roles := dput v rs (rb_user_roles s)\<rparr>) = (if u = v then rs else roles_of u s)"
  by (simp add: roles_of_def)

lemma roles_of_frames [simp]:
  "roles_of u (s\<lparr>rb_metrics := m\<rparr>) = roles_of u s" "roles_of u (s\<lparr>rb_roles := d\<rparr>) = roles_of u s"
  by (simp_all add: roles_of_def)

lemma policy_of_metrics [simp]: "policy_of (s\<lparr>rb_metrics := m\<rparr>) = policy_of s"
  by (simp add: policy_of_def)

lemma refines_assign: "policy_of (snd (assign_role user name s)) = policy_step (Assign user name) (policy_of s)"
  by (auto simp: assign_role_def rb_count_def py_simps policy_step_def policy_of_def roles_of_assigned
      split: if_splits)

lemma refines_revoke: "policy_of (snd (revoke_role user name s)) = policy_step (Revoke user name) (policy_of s)"
  by (auto simp: revoke_role_def rb_count_def py_simps policy_step_def policy_of_def roles_of_assigned
      split: if_splits)

lemma refines_define:
  "policy_of (snd (define_role name ps d s)) = policy_step (Define name ps d) (policy_of s)"
  by (auto simp: define_role_def rb_count_def py_simps policy_step_def policy_of_def fun_eq_iff)

lemma refines_ask: "policy_of (snd (has_permission user permission s)) = policy_of s"
  by (simp add: has_permission_def rb_count_def py_simps)

lemma refines_call: "policy_of (run_call c s) = policy_step c (policy_of s)"
  by (cases c) (simp_all add: run_call_def refines_assign refines_revoke refines_define refines_ask policy_step_def
      split: prod.split)

lemma refines_history: "policy_of (fold run_call cs s) = fold policy_step cs (policy_of s)"
  by (induction cs arbitrary: s) (simp_all add: refines_call)

lemma granted_permission:
  "list_ex (\<lambda>name. permission \<in> set (get_role_permissions name s)) (roles_of user s) \<longleftrightarrow>
   permitted (policy_of s) user permission"
  by (auto simp: list_ex_iff permitted_def policy_of_def get_role_permissions_def
      split: option.splits) (metis empty_iff empty_set option.exhaust)+

lemma asked_permission: "fst (has_permission user permission s) = Ok (permitted (policy_of s) user permission)"
  by (simp add: has_permission_def rb_count_def py_simps granted_permission [symmetric] get_role_permissions_def)

definition counted_checks :: "rbac \<Rightarrow> bool" where
  "counted_checks s \<longleftrightarrow> bm_permission_granted (rb_metrics s) + bm_permission_denied (rb_metrics s) =
     bm_permission_checks (rb_metrics s)"

lemma counted_call: "counted_checks s \<Longrightarrow> counted_checks (run_call c s)"
  by (cases c) (simp_all add: run_call_def counted_checks_def define_role_def assign_role_def revoke_role_def
      has_permission_def rb_count_def py_simps)

lemma counted_history: "counted_checks s \<Longrightarrow> counted_checks (fold run_call cs s)"
  by (induction cs arbitrary: s) (simp_all add: counted_call)

text \<open>
  C30. Permissions refine the policy. After any history of definitions of roles, assignments,
  revocations and checks, a check answers, without raising, whether some role that the user holds
  under the policy is defined and grants the permission; the list of a user's permissions is exactly
  what checks would grant; and every check has been counted once, as granted or as denied.
\<close>

theorem permissions_refine_policy:
  fixes cs :: "rbac_call list"
  defines "s \<equiv> fold run_call cs new_rbac" and "p \<equiv> fold policy_step cs (policy_of new_rbac)"
  shows "fst (has_permission user permission s) = Ok (permitted p user permission) \<and>
    set (get_user_permissions user s) = {permission. permitted p user permission} \<and>
    bm_permission_granted (rb_metrics s) + bm_permission_denied (rb_metrics s) = bm_permission_checks (rb_metrics s)"
proof -
  have p: "policy_of s = p" by (simp add: s_def p_def refines_history)
  have "set (get_user_permissions user s) = {permission. permitted p user permission}"
    unfolding p [symmetric] granted_permission [symmetric]
    by (auto simp: get_user_permissions_def list_ex_iff)
  moreover have "counted_checks s" unfolding s_def
    by (rule counted_history) (simp add: counted_checks_def new_rbac_def)
  ultimately show ?thesis using asked_permission [of user permission s] p by (simp add: counted_checks_def)
qed

section \<open>Plans\<close>

definition within_plan :: "plan_limits \<Rightarrow> plan_limits \<Rightarrow> bool" where
  "within_plan a b \<longleftrightarrow> pl_max_instances a \<le> pl_max_instances b \<and> pl_max_exchange_accounts a \<le> pl_max_exchange_accounts b \<and>
     pl_max_symbols a \<le> pl_max_symbols b \<and> pl_max_workers a \<le> pl_max_workers b \<and>
     pl_max_coin_selection a \<le> pl_max_coin_selection b \<and> set (pl_feature_flags a) \<subseteq> set (pl_feature_flags b)"

text \<open>A licence manager that resolves the tier of a user from the subscriptions.\<close>

definition subscribed_tier :: "('x, 'm) subscriptions_scheme \<Rightarrow> string \<Rightarrow> string" where
  "subscribed_tier s user = (case dget (su_subscriptions s) user of None \<Rightarrow> ''free'' | Some sub \<Rightarrow> su_tier sub)"

definition licence_of :: "(string \<Rightarrow> string list) \<Rightarrow> ('x, 'm) subscriptions_scheme \<Rightarrow> license_manager" where
  "licence_of addons s = new_license_manager (Some (subscribed_tier s)) (Some addons)"

definition plan_ranks :: "(string \<times> nat) list" where
  "plan_ranks = [(''free'', 0), (''starter'', 1), (''pro'', 2), (''enterprise'', 3)]"

lemma plan_rank_cases: "plan_rank t = Ok i \<Longrightarrow> (t, i) \<in> set plan_ranks"
  by (auto simp: plan_rank_def plan_hierarchy_def plan_ranks_def Let_def split: if_splits)

definition plan_above :: "string \<Rightarrow> string \<Rightarrow> bool" where
  "plan_above a b \<longleftrightarrow> (case (dget default_plan_limits a, dget default_plan_limits b) of
      (Some la, Some lb) \<Rightarrow> within_plan la lb \<and> pl_max_instances la < pl_max_instances lb \<and> py_lower a = a \<and> py_lower b = b
    | _ \<Rightarrow> False)"

lemma plans_ascend: "\<forall>(a, i) \<in> set plan_ranks. \<forall>(b, j) \<in> set plan_ranks. i < j \<longrightarrow> plan_above a b"
  by code_simp

lemma plans_ordered:
  assumes "i < j" and "plan_rank a = Ok i" and "plan_rank b = Ok j"
  shows "\<exists>la lb. dget default_plan_limits a = Some la \<and> dget default_plan_limits b = Some lb \<and> within_plan la lb \<and>
    pl_max_instances la < pl_max_instances lb \<and> py_lower a = a \<and> py_lower b = b"
proof -
  have "plan_above a b" using plans_ascend plan_rank_cases [OF assms(2)] plan_rank_cases [OF assms(3)] assms(1) by blast
  then show ?thesis by (auto simp: plan_above_def split: option.splits)
qed

lemma change_tier_Ok:
  assumes "change_tier allowed tick user tier s = (Ok sub, t)"
  shows "\<exists>current i j. dget (su_subscriptions s) user = Some current \<and> plan_rank (su_tier current) = Ok i \<and>
    plan_rank (su_tier sub) = Ok j \<and> allowed i j \<and> sub = current\<lparr>su_tier := py_lower tier\<rparr> \<and>
    su_subscriptions t = dput user sub (su_subscriptions s)"
  using assms by (auto simp: change_tier_def Let_def su_put_def su_count_def py_simps split: if_splits option.splits res.splits)

lemma limits_of_licence:
  "limits_for user (licence_of addons s) = get_plan_limits (subscribed_tier s user) (licence_of addons s)"
  by (simp add: limits_for_def licence_of_def new_license_manager_def)

lemma plan_limits_of_licence:
  "py_lower a = a \<Longrightarrow> dget default_plan_limits a = Some l \<Longrightarrow> get_plan_limits a (licence_of addons s) = l"
  by (auto simp: get_plan_limits_def licence_of_def new_license_manager_def)

lemma limits_for_metrics [simp]: "limits_for user (s\<lparr>lc_metrics := m\<rparr>) = limits_for user s"
  by (simp add: limits_for_def get_plan_limits_def split: option.split)

lemma has_feature_answer:
  "fst (has_feature user flag s) =
     Ok (flag \<in> set (pl_feature_flags (limits_for user s)) \<or> flag \<in> set (lc_addon_resolver s user))"
  by (simp add: has_feature_def lc_count_def py_simps has_addon_def)

text \<open>
  An upgrade takes nothing away. When a licence manager with the default plans reads the tiers
  from the subscriptions, a successful upgrade of a user leaves every limit of the user at least as
  high, the number of instances strictly higher, keeps every feature the user had, and changes
  nothing for any other user.
\<close>

theorem upgrade_takes_nothing_away:
  assumes "upgrade user tier s = (Ok sub, t)"
  shows "within_plan (limits_for user (licence_of addons s)) (limits_for user (licence_of addons t)) \<and>
    pl_max_instances (limits_for user (licence_of addons s)) < pl_max_instances (limits_for user (licence_of addons t)) \<and>
    (\<forall>flag. fst (has_feature user flag (licence_of addons s)) = Ok True \<longrightarrow>
      fst (has_feature user flag (licence_of addons t)) = Ok True) \<and>
    (\<forall>other. other \<noteq> user \<longrightarrow> subscribed_tier t other = subscribed_tier s other)"
proof -
  obtain current i j where c: "dget (su_subscriptions s) user = Some current" "plan_rank (su_tier current) = Ok i"
      "plan_rank (su_tier sub) = Ok j" "i < j" and t: "su_subscriptions t = dput user sub (su_subscriptions s)"
    using change_tier_Ok [OF assms [unfolded upgrade_def]] by blast
  obtain la lb where plans: "dget default_plan_limits (su_tier current) = Some la"
      "dget default_plan_limits (su_tier sub) = Some lb" "py_lower (su_tier current) = su_tier current"
      "py_lower (su_tier sub) = su_tier sub" and grows: "within_plan la lb" "pl_max_instances la < pl_max_instances lb"
    using plans_ordered [OF c(4,2,3)] by blast
  have "limits_for user (licence_of addons s) = la"
    using plans c(1) by (simp add: limits_of_licence plan_limits_of_licence subscribed_tier_def)
  moreover have "limits_for user (licence_of addons t) = lb"
    using plans t by (simp add: limits_of_licence plan_limits_of_licence subscribed_tier_def)
  moreover have "fst (has_feature user flag (licence_of addons r)) =
      Ok (flag \<in> set (pl_feature_flags (limits_for user (licence_of addons r))) \<or> flag \<in> set (addons user))"
    for flag and r :: "('a, 'b) subscriptions_scheme"
    by (simp add: has_feature_answer licence_of_def new_license_manager_def)
  ultimately show ?thesis
    using grows t by (auto simp: within_plan_def subscribed_tier_def)
qed

section \<open>Concrete plans\<close>

definition one_subscription :: "unit subscriptions" where
  "one_subscription = \<lparr>clock = 0, uuid_next = 1, sleeps = [], exch = (),
     su_subscriptions = [(''u'', \<lparr>su_id = ''0'', su_user_id = ''u'', su_tier = ''starter'', su_start_date = 0,
       su_end_date = 2592000, su_is_active = True, su_auto_renew = False\<rparr>)],
     su_metrics = \<lparr>sx_created = 1, sx_upgrades = 0, sx_downgrades = 0, sx_cancellations = 0, sx_renewals = 0\<rparr>\<rparr>"

theorem upgrade_takes_nothing_away_witness:
  "\<exists>sub t. upgrade ''u'' ''Pro'' one_subscription = (Ok sub, t) \<and>
     pl_max_instances (limits_for ''u'' (licence_of (\<lambda>_. []) one_subscription)) <
     pl_max_instances (limits_for ''u'' (licence_of (\<lambda>_. []) t))"
proof -
  have "case fst (upgrade ''u'' ''Pro'' one_subscription) of Ok sub \<Rightarrow> True | Raise _ \<Rightarrow> False" by code_simp
  then obtain sub where "fst (upgrade ''u'' ''Pro'' one_subscription) = Ok sub" by (auto split: res.splits)
  then have "upgrade ''u'' ''Pro'' one_subscription = (Ok sub, snd (upgrade ''u'' ''Pro'' one_subscription))"
    by (metis prod.collapse)
  from this upgrade_takes_nothing_away [OF this, of "\<lambda>_. []"] show ?thesis by blast
qed

end
