(* ===== verification/Billing.thy ===== *)
theory Billing
  imports DomainTypes
begin

text \<open>
  \<^verbatim>\<open>services/saas/billing.py\<close> (invoices and payment providers) and
  \<^verbatim>\<open>services/saas/affiliate.py\<close> (referrals and commissions). A provider beyond the four that are built
  in is a routine on the state of the outside world. The four hexadecimal digits that end a referral
  code, the first of a \<^verbatim>\<open>uuid4()\<close>, are an argument; commission rates, floats in the code, are the
  decimals they print as.
\<close>

section \<open>Invoices\<close>

record invoice =
  in_id :: string
  in_user_id :: string
  in_amount :: decimal
  in_currency :: string
  in_plan :: string
  in_status :: string
  in_provider :: "string option"
  in_transaction_id :: "string option"
  in_created_at :: datetime
  in_paid_at :: "datetime option"
  in_metadata :: "(string, string) dict"

record payment_result =
  pr_invoice_id :: string
  pr_status :: string
  pr_transaction_id :: "string option"
  pr_error :: "string option"

datatype 'x provider = Manual | Stripe "string option" | Midtrans "string option" | Xendit "string option"
  | Registered string "decimal \<Rightarrow> string \<Rightarrow> (string, string) dict \<Rightarrow> ('x, payment_result) py"

fun provider_name :: "'x provider \<Rightarrow> string" where
  "provider_name Manual = ''manual''"
| "provider_name (Stripe _) = ''stripe''"
| "provider_name (Midtrans _) = ''midtrans''"
| "provider_name (Xendit _) = ''xendit''"
| "provider_name (Registered name _) = name"

record billing_metrics =
  bl_invoices_created :: int
  bl_payments_succeeded :: int
  bl_payments_failed :: int

record 'x billing = "'x world" +
  bl_providers :: "(string, 'x provider) dict"
  bl_invoices :: "(string, invoice) dict"
  bl_metrics :: billing_metrics

type_synonym ('x, 'm, 'a) bl = "(('x, 'm) billing_scheme, 'a) py"

definition default_providers :: "(string, 'x provider) dict" where
  "default_providers = [(''manual'', Manual), (''stripe'', Stripe None), (''midtrans'', Midtrans None), (''xendit'', Xendit None)]"

definition new_billing :: "'x \<Rightarrow> 'x billing" where
  "new_billing x = \<lparr>clock = 0, uuid_next = 0, sleeps = [], exch = x, bl_providers = default_providers,
     bl_invoices = [], bl_metrics = \<lparr>bl_invoices_created = 0, bl_payments_succeeded = 0, bl_payments_failed = 0\<rparr>\<rparr>"

definition bl_count :: "(billing_metrics \<Rightarrow> billing_metrics) \<Rightarrow> ('x, 'm, unit) bl" where
  "bl_count f = modify (\<lambda>s. s\<lparr>bl_metrics := f (bl_metrics s)\<rparr>)"

definition on_invoice :: "string \<Rightarrow> (invoice \<Rightarrow> invoice) \<Rightarrow> ('x, 'm, unit) bl" where
  "on_invoice i f = modify (\<lambda>s. case dget (bl_invoices s) i of None \<Rightarrow> s
     | Some v \<Rightarrow> s\<lparr>bl_invoices := dput i (f v) (bl_invoices s)\<rparr>)"

text \<open>
  The charge of a built-in provider; the default of the lookup in the metadata is computed, and uses
  up an identifier, whether or not it is needed.
\<close>

definition accept_charge :: "string \<Rightarrow> string \<Rightarrow> ('x, 'm, payment_result) bl" where
  "accept_charge prefix i = bind uuid4 (\<lambda>u. ret \<lparr>pr_invoice_id = i, pr_status = ''success'',
     pr_transaction_id = Some (prefix @ show_nat u), pr_error = None\<rparr>)"

definition keyed_charge :: "string option \<Rightarrow> string \<Rightarrow> string \<Rightarrow> string \<Rightarrow> ('x, 'm, payment_result) bl" where
  "keyed_charge key prefix missing i = (case key of
      None \<Rightarrow> ret \<lparr>pr_invoice_id = i, pr_status = ''failed'', pr_transaction_id = None, pr_error = Some missing\<rparr>
    | Some _ \<Rightarrow> accept_charge prefix i)"

definition charge :: "'x provider \<Rightarrow> decimal \<Rightarrow> string \<Rightarrow> (string, string) dict \<Rightarrow> ('x, 'm, payment_result) bl" where
  "charge p amount currency metadata = (case p of
      Registered _ f \<Rightarrow> call_adapter (f amount currency metadata)
    | _ \<Rightarrow> bind uuid4 (\<lambda>u.
        let i = (case dget metadata ''invoice_id'' of None \<Rightarrow> show_nat u | Some i \<Rightarrow> i) in
        (case p of
           Stripe key \<Rightarrow> keyed_charge key ''stripe-'' ''Stripe API key not configured'' i
         | Midtrans key \<Rightarrow> keyed_charge key ''midtrans-'' ''Midtrans server key not configured'' i
         | Xendit key \<Rightarrow> keyed_charge key ''xendit-'' ''Xendit API key not configured'' i
         | _ \<Rightarrow> accept_charge ''manual-'' i)))"

definition register_provider :: "'x provider \<Rightarrow> ('x, 'm, unit) bl" where
  "register_provider p = modify (\<lambda>s. s\<lparr>bl_providers := dput (provider_name p) p (bl_providers s)\<rparr>)"

definition create_invoice :: "string \<Rightarrow> decimal \<Rightarrow> string \<Rightarrow> string \<Rightarrow> (string, string) dict option \<Rightarrow>
    ('x, 'm, invoice) bl" where
  "create_invoice user amount currency plan metadata =
     (if amount \<le> 0 then throw (Exn ValidationError [])
      else bind uuid4 (\<lambda>u. bind now (\<lambda>t.
        let v = \<lparr>in_id = show_nat u, in_user_id = user, in_amount = amount, in_currency = py_upper currency,
              in_plan = plan, in_status = ''pending'', in_provider = None, in_transaction_id = None,
              in_created_at = t, in_paid_at = None,
              in_metadata = (case metadata of None \<Rightarrow> [] | Some d \<Rightarrow> d)\<rparr>
        in seq (modify (\<lambda>s. s\<lparr>bl_invoices := dput (in_id v) v (bl_invoices s)\<rparr>))
          (seq (bl_count (\<lambda>m. m\<lparr>bl_invoices_created := bl_invoices_created m + 1\<rparr>)) (ret v)))))"

definition settle :: "string \<Rightarrow> string \<Rightarrow> payment_result \<Rightarrow> ('x, 'm, unit) bl" where
  "settle i name r =
     (if pr_status r = ''success''
      then bind now (\<lambda>t.
        seq (on_invoice i (\<lambda>v. v\<lparr>in_status := ''paid'', in_provider := Some name,
               in_transaction_id := pr_transaction_id r, in_paid_at := Some t\<rparr>))
          (bl_count (\<lambda>m. m\<lparr>bl_payments_succeeded := bl_payments_succeeded m + 1\<rparr>)))
      else seq (on_invoice i (\<lambda>v. v\<lparr>in_status := ''failed'', in_provider := Some name\<rparr>))
        (bl_count (\<lambda>m. m\<lparr>bl_payments_failed := bl_payments_failed m + 1\<rparr>)))"

definition process_payment :: "string \<Rightarrow> string \<Rightarrow> ('x, 'm, payment_result) bl" where
  "process_payment i name = reading (\<lambda>s. case dget (bl_invoices s) i of
      None \<Rightarrow> throw (Exn ValidationError [i])
    | Some v \<Rightarrow> (case dget (bl_providers s) name of
          None \<Rightarrow> throw (Exn ValidationError [name])
        | Some p \<Rightarrow>
            bind (charge p (in_amount v) (in_currency v) (dput ''invoice_id'' i (in_metadata v))) (\<lambda>r.
              seq (settle i name r) (ret r))))"

definition get_invoice :: "string \<Rightarrow> ('x, 'm) billing_scheme \<Rightarrow> invoice option" where
  "get_invoice i s = dget (bl_invoices s) i"

definition list_invoices :: "string \<Rightarrow> ('x, 'm) billing_scheme \<Rightarrow> invoice list" where
  "list_invoices user s = filter (\<lambda>v. in_user_id v = user) (map snd (bl_invoices s))"

definition cancel_invoice :: "string \<Rightarrow> ('x, 'm, bool) bl" where
  "cancel_invoice i = reading (\<lambda>s. case dget (bl_invoices s) i of
      None \<Rightarrow> ret False
    | Some v \<Rightarrow>
        if in_status v \<noteq> ''pending'' then ret False
        else seq (on_invoice i (\<lambda>v. v\<lparr>in_status := ''cancelled''\<rparr>)) (ret True))"

definition get_providers :: "('x, 'm) billing_scheme \<Rightarrow> string list" where
  "get_providers s = map fst (bl_providers s)"

section \<open>Affiliates\<close>

record affiliate =
  af_id :: string
  af_user_id :: string
  af_commission_rate :: decimal
  af_total_earnings :: decimal
  af_total_referrals :: int
  af_active_referrals :: int
  af_is_active :: bool
  af_referral_code :: string
  af_created_at :: datetime

record commission =
  co_id :: string
  co_affiliate_id :: string
  co_amount :: decimal
  co_source :: string
  co_created_at :: datetime

record affiliate_metrics =
  ax_registered :: int
  ax_referrals :: int
  ax_commissions :: int

record 'x affiliates = "'x world" +
  af_affiliates :: "(string, affiliate) dict"
  af_commissions :: "commission list"
  af_referral_map :: "(string, string) dict"
  af_referred_by :: "(string, string) dict"
  af_metrics :: affiliate_metrics

type_synonym ('x, 'm, 'a) af = "(('x, 'm) affiliates_scheme, 'a) py"

definition af_count :: "(affiliate_metrics \<Rightarrow> affiliate_metrics) \<Rightarrow> ('x, 'm, unit) af" where
  "af_count f = modify (\<lambda>s. s\<lparr>af_metrics := f (af_metrics s)\<rparr>)"

definition referral_code :: "string \<Rightarrow> string \<Rightarrow> string" where
  "referral_code user suffix = py_upper (take 8 user) @ py_upper suffix"

definition register_affiliate :: "string \<Rightarrow> decimal \<Rightarrow> string \<Rightarrow> ('x, 'm, affiliate) af" where
  "register_affiliate user rate suffix = reading (\<lambda>s.
     if rate < 0 \<or> 100 < rate then throw (Exn ValidationError [])
     else if dget (af_affiliates s) user \<noteq> None then throw (Exn ValidationError [user])
     else bind uuid4 (\<lambda>u. bind now (\<lambda>t.
       let a = \<lparr>af_id = show_nat u, af_user_id = user, af_commission_rate = rate, af_total_earnings = 0,
             af_total_referrals = 0, af_active_referrals = 0, af_is_active = True,
             af_referral_code = referral_code user suffix, af_created_at = t\<rparr>
       in seq (modify (\<lambda>s. s\<lparr>af_affiliates := dput user a (af_affiliates s),
              af_referral_map := dput (af_referral_code a) (af_id a) (af_referral_map s)\<rparr>))
         (seq (af_count (\<lambda>m. m\<lparr>ax_registered := ax_registered m + 1\<rparr>)) (ret a)))))"

definition generate_referral_link :: "string \<Rightarrow> string \<Rightarrow> ('x, 'm) affiliates_scheme \<Rightarrow> string res" where
  "generate_referral_link user base_url s = (case dget (af_affiliates s) user of
      None \<Rightarrow> Raise (Exn ValidationError [user])
    | Some a \<Rightarrow> Ok (base_url @ ''/register?ref='' @ af_referral_code a))"

definition find_affiliate_by_id :: "string \<Rightarrow> ('x, 'm) affiliates_scheme \<Rightarrow> affiliate option" where
  "find_affiliate_by_id i s = find (\<lambda>a. af_id a = i) (map snd (af_affiliates s))"

text \<open>The first affiliate with the identifier, changed in place.\<close>

fun change_affiliate :: "string \<Rightarrow> (affiliate \<Rightarrow> affiliate) \<Rightarrow> (string, affiliate) dict \<Rightarrow> (string, affiliate) dict" where
  "change_affiliate i f [] = []"
| "change_affiliate i f ((k, a) # d) = (if af_id a = i then (k, f a) # d else (k, a) # change_affiliate i f d)"

definition on_affiliate :: "string \<Rightarrow> (affiliate \<Rightarrow> affiliate) \<Rightarrow> ('x, 'm, unit) af" where
  "on_affiliate i f = modify (\<lambda>s. s\<lparr>af_affiliates := change_affiliate i f (af_affiliates s)\<rparr>)"

definition track_referral :: "string \<Rightarrow> string \<Rightarrow> ('x, 'm, bool) af" where
  "track_referral code referred = reading (\<lambda>s. case dget (af_referral_map s) code of
      None \<Rightarrow> ret False
    | Some i \<Rightarrow>
        if dget (af_referred_by s) referred \<noteq> None then ret False
        else seq (modify (\<lambda>s. s\<lparr>af_referred_by := dput referred i (af_referred_by s)\<rparr>))
          (seq (on_affiliate i (\<lambda>a. a\<lparr>af_total_referrals := af_total_referrals a + 1,
                  af_active_referrals := af_active_referrals a + 1\<rparr>))
          (seq (af_count (\<lambda>m. m\<lparr>ax_referrals := ax_referrals m + 1\<rparr>)) (ret True))))"

text \<open>\<^verbatim>\<open>quantize(Decimal("0.00000001"))\<close>, which raises when the result needs more digits than there are.\<close>

definition py_quantize8 :: "decimal \<Rightarrow> decimal res" where
  "py_quantize8 x = (let n = round_half_even (x * 10 ^ 8) in
     if 10 ^ 28 \<le> \<bar>n\<bar> then Raise (Exn PyDecimalException []) else Ok (of_int n / 10 ^ 8))"

definition calculate_commission :: "string \<Rightarrow> decimal \<Rightarrow> ('x, 'm) affiliates_scheme \<Rightarrow> decimal res" where
  "calculate_commission i amount s = (case find_affiliate_by_id i s of
      None \<Rightarrow> Ok 0
    | Some a \<Rightarrow> py_quantize8 (ddiv (dmul amount (af_commission_rate a)) 100))"

definition record_commission :: "string \<Rightarrow> decimal \<Rightarrow> string \<Rightarrow> ('x, 'm, commission) af" where
  "record_commission i amount source = reading (\<lambda>s.
     bind (lift_res (calculate_commission i amount s)) (\<lambda>x.
     bind uuid4 (\<lambda>u. bind now (\<lambda>t.
       let c = \<lparr>co_id = show_nat u, co_affiliate_id = i, co_amount = x, co_source = source, co_created_at = t\<rparr>
       in seq (modify (\<lambda>s. s\<lparr>af_commissions := af_commissions s @ [c]\<rparr>))
         (seq (on_affiliate i (\<lambda>a. a\<lparr>af_total_earnings := dadd (af_total_earnings a) x\<rparr>))
         (seq (af_count (\<lambda>m. m\<lparr>ax_commissions := ax_commissions m + 1\<rparr>)) (ret c)))))))"

definition get_downline :: "string \<Rightarrow> ('x, 'm) affiliates_scheme \<Rightarrow> string list" where
  "get_downline user s = (case dget (af_affiliates s) user of
      None \<Rightarrow> []
    | Some a \<Rightarrow> map fst (filter (\<lambda>(_, i). i = af_id a) (af_referred_by s)))"

definition get_affiliate_stats :: "string \<Rightarrow> ('x, 'm) affiliates_scheme \<Rightarrow> (int \<times> decimal \<times> int \<times> decimal) option" where
  "get_affiliate_stats user s = map_option (\<lambda>a. (af_total_referrals a, af_total_earnings a, af_active_referrals a,
     af_commission_rate a)) (dget (af_affiliates s) user)"

definition deactivate_affiliate :: "string \<Rightarrow> ('x, 'm, bool) af" where
  "deactivate_affiliate user = reading (\<lambda>s. case dget (af_affiliates s) user of
      None \<Rightarrow> ret False
    | Some a \<Rightarrow> seq (modify (\<lambda>s. s\<lparr>af_affiliates := dput user (a\<lparr>af_is_active := False\<rparr>) (af_affiliates s)\<rparr>)) (ret True))"

definition get_commissions :: "string \<Rightarrow> ('x, 'm) affiliates_scheme \<Rightarrow> commission list" where
  "get_commissions i s = filter (\<lambda>c. co_affiliate_id c = i) (af_commissions s)"

end
