(* ===== verification/BillingLaws.thy ===== *)
theory BillingLaws
  imports Billing
begin

text \<open>
  The books of the billing and of the affiliate service: what holds of every invoice and of every
  affiliate over any history of the services.
\<close>

section \<open>Invoices\<close>

definition invoice_ok :: "string \<Rightarrow> invoice \<Rightarrow> bool" where
  "invoice_ok i v \<longleftrightarrow> in_id v = i \<and> 0 < in_amount v \<and> py_upper (in_currency v) = in_currency v \<and>
     in_status v \<in> {''pending'', ''paid'', ''failed'', ''cancelled''} \<and>
     (in_status v \<in> {''pending'', ''cancelled''} \<longrightarrow>
        in_provider v = None \<and> in_transaction_id v = None \<and> in_paid_at v = None) \<and>
     (in_status v = ''paid'' \<longrightarrow> in_provider v \<noteq> None \<and> in_paid_at v \<noteq> None)"

definition billing_ok :: "('x, 'm) billing_scheme \<Rightarrow> bool" where
  "billing_ok s \<longleftrightarrow>
     (\<forall>i v. dget (bl_invoices s) i = Some v \<longrightarrow> invoice_ok i v \<and> (\<exists>n < uuid_next s. i = show_nat n)) \<and>
     bl_invoices_created (bl_metrics s) = int (length (bl_invoices s))"

lemma billing_okI:
  assumes "\<And>i v. dget (bl_invoices s) i = Some v \<Longrightarrow> invoice_ok i v \<and> (\<exists>n < uuid_next s. i = show_nat n)"
    and "bl_invoices_created (bl_metrics s) = int (length (bl_invoices s))"
  shows "billing_ok s"
  using assms unfolding billing_ok_def by blast

lemma billing_okD:
  assumes "billing_ok s"
  shows "dget (bl_invoices s) i = Some v \<Longrightarrow> invoice_ok i v"
    and "dget (bl_invoices s) i = Some v \<Longrightarrow> \<exists>n < uuid_next s. i = show_nat n"
    and "bl_invoices_created (bl_metrics s) = int (length (bl_invoices s))"
  using assms unfolding billing_ok_def by blast+

text \<open>Whatever leaves the books alone and only uses up identifiers.\<close>

definition aside :: "('x, 'm) billing_scheme \<Rightarrow> ('x, 'm) billing_scheme \<Rightarrow> bool" where
  "aside s t \<longleftrightarrow> bl_invoices t = bl_invoices s \<and> bl_metrics t = bl_metrics s \<and> uuid_next s \<le> uuid_next t"

interpretation aside: step_contract aside
  by unfold_locales (auto simp: aside_def)

lemma aside_ok:
  assumes "aside s t" and ok: "billing_ok s"
  shows "billing_ok t"
proof (rule billing_okI)
  fix i v
  assume "dget (bl_invoices t) i = Some v"
  then have "dget (bl_invoices s) i = Some v" using assms(1) by (simp add: aside_def)
  then show "invoice_ok i v \<and> (\<exists>n < uuid_next t. i = show_nat n)"
    using billing_okD(1,2) [OF ok] assms(1) unfolding aside_def by (meson order_less_le_trans)
qed (use assms(1) billing_okD(3) [OF ok] in \<open>simp add: aside_def\<close>)

lemma aside_keeps: "obeys aside m \<Longrightarrow> obeys (keeps billing_ok) m"
  unfolding obeys_def keeps_def by (blast intro: aside_ok)

lemma aside_charge: "obeys aside (charge p amount currency metadata)"
proof -
  have u: "obeys aside uuid4" and a: "\<And>f. obeys aside (call_adapter f)"
    by (auto simp: obeys_def aside_def uuid4_def call_adapter_def split: prod.splits)
  have acc: "obeys aside (accept_charge prefix i)" for prefix i
    unfolding accept_charge_def by (intro aside.contract_rules u)
  have key: "obeys aside (keyed_charge k prefix missing i)" for k prefix missing i
    unfolding keyed_charge_def by (intro obeys_option aside.contract_rules acc)
  show ?thesis
    by (cases p) (auto simp: charge_def Let_def intro!: aside.contract_rules u a acc key)
qed

lemma keeps_on_invoice:
  assumes "\<And>v. invoice_ok i v \<Longrightarrow> invoice_ok i (f v)"
  shows "obeys (keeps billing_ok) (on_invoice i f)"
  unfolding on_invoice_def
proof (rule obeys_keeps_modify)
  fix s :: "('a, 'b) billing_scheme"
  assume ok: "billing_ok s"
  show "billing_ok (case dget (bl_invoices s) i of None \<Rightarrow> s | Some v \<Rightarrow> s\<lparr>bl_invoices := dput i (f v) (bl_invoices s)\<rparr>)"
  proof (cases "dget (bl_invoices s) i")
    case (Some v)
    then show ?thesis
      using billing_okD [OF ok] assms by (auto intro!: billing_okI simp: length_dput split: if_splits)
  qed (simp add: ok)
qed

lemma keeps_counts:
  "(\<And>m. bl_invoices_created (f m) = bl_invoices_created m) \<Longrightarrow> obeys (keeps billing_ok) (bl_count f)"
  unfolding bl_count_def by (rule obeys_keeps_modify) (simp add: billing_ok_def)

lemma keeps_settle: "obeys (keeps billing_ok) (settle i name r)"
  unfolding settle_def
  by (intro obeys_if inv_rules keeps_on_invoice keeps_counts)
    (auto simp: invoice_ok_def obeys_def keeps_def now_def gets_def)

lemma keeps_payment: "obeys (keeps billing_ok) (process_payment i name)"
  unfolding process_payment_def by (intro resp_intros keeps_settle aside_keeps [OF aside_charge])

lemma keeps_create: "obeys (keeps billing_ok) (create_invoice user amount currency plan metadata)"
proof -
  have "billing_ok (snd (create_invoice user amount currency plan metadata s))" if ok: "billing_ok s"
    for s :: "('a, 'b) billing_scheme"
  proof (cases "amount \<le> 0")
    case False
    let ?i = "show_nat (uuid_next s)"
    have fresh: "dget (bl_invoices s) ?i = None"
    proof (rule ccontr)
      assume "dget (bl_invoices s) ?i \<noteq> None"
      then obtain v where "dget (bl_invoices s) ?i = Some v" by blast
      from billing_okD(2) [OF ok this] show False by (auto simp: show_nat_inj)
    qed
    have "\<exists>n < Suc (uuid_next s). i = show_nat n" if "dget (bl_invoices s) i = Some v" for i v
      using billing_okD(2) [OF ok that] less_Suc_eq by blast
    then show ?thesis
      using False fresh billing_okD(1,3) [OF ok]
      by (auto intro!: billing_okI simp: create_invoice_def bl_count_def py_simps Let_def length_dput invoice_ok_def
          split: if_splits)
  qed (simp add: create_invoice_def throw_def ok)
  then show ?thesis by (simp add: obeys_def keeps_def)
qed

lemma keeps_cancel: "obeys (keeps billing_ok) (cancel_invoice i)"
proof -
  have "billing_ok (snd (cancel_invoice i s))" if ok: "billing_ok s" for s :: "('a, 'b) billing_scheme"
  proof (cases "dget (bl_invoices s) i")
    case (Some v)
    then show ?thesis
      using ok billing_okD [OF ok]
      by (auto intro!: billing_okI simp: cancel_invoice_def on_invoice_def py_simps length_dput invoice_ok_def
          split: if_splits)
  qed (simp add: cancel_invoice_def py_simps ok)
  then show ?thesis by (simp add: obeys_def keeps_def)
qed

inductive billing_history :: "('x, 'm) billing_scheme \<Rightarrow> ('x, 'm) billing_scheme \<Rightarrow> bool" for s0 where
  opened: "billing_history s0 s0"
| created: "billing_history s0 s \<Longrightarrow> billing_history s0 (snd (create_invoice user amount currency plan metadata s))"
| processed: "billing_history s0 s \<Longrightarrow> billing_history s0 (snd (process_payment i name s))"
| cancelled: "billing_history s0 s \<Longrightarrow> billing_history s0 (snd (cancel_invoice i s))"
| provided: "billing_history s0 s \<Longrightarrow> billing_history s0 (snd (register_provider p s))"
| besides: "billing_history s0 s \<Longrightarrow> aside s t \<Longrightarrow> billing_history s0 t"

lemma history_billing_ok: "billing_history s0 s \<Longrightarrow> billing_ok s0 \<Longrightarrow> billing_ok s"
proof (induction rule: billing_history.induct)
  case (provided s p)
  have "obeys aside (register_provider p)"
    by (auto simp: obeys_def aside_def register_provider_def modify_def)
  from keepsD [OF aside_keeps [OF this]] provided show ?case by blast
next
  case (besides s t)
  then show ?case by (blast intro: aside_ok)
next
  case (created s user amount currency plan metadata)
  then show ?case by (blast intro: keepsD [OF keeps_create])
next
  case (processed s i name)
  then show ?case by (blast intro: keepsD [OF keeps_payment])
next
  case (cancelled s i)
  then show ?case by (blast intro: keepsD [OF keeps_cancel])
qed

text \<open>
  C40. The invoices are consistent. Over any history of invoices, payments through any providers and
  cancellations, every invoice is filed under its own identifier, with a positive amount and a
  currency in capitals; it is pending, paid, failed or cancelled; one that is pending or cancelled
  names no provider, transaction or date of payment, and one that is paid names its provider and
  date; and the invoices created are all there.
\<close>

theorem invoices_consistent:
  assumes "billing_history (new_billing x) s"
  shows "(\<forall>i v. dget (bl_invoices s) i = Some v \<longrightarrow> invoice_ok i v) \<and>
    bl_invoices_created (bl_metrics s) = int (length (bl_invoices s))"
proof -
  have "billing_ok (new_billing x)" by (simp add: billing_ok_def new_billing_def)
  from history_billing_ok [OF assms this] show ?thesis unfolding billing_ok_def by blast
qed

text \<open>
  Settled invoices are charged again. Processing a payment does not look at the status of the
  invoice: an invoice that is paid or cancelled already is charged in full once more, and is paid by
  another transaction; through a provider without a key it fails, and a paid invoice is no longer paid.
\<close>

theorem settled_invoices_charged_again:
  assumes v: "dget (bl_invoices s) i = Some v" and "in_status v \<in> {''paid'', ''cancelled''}"
    and "dget (bl_providers s) ''manual'' = Some Manual" and "dget (bl_providers s) ''stripe'' = Some (Stripe None)"
  shows "(case process_payment i ''manual'' s of
      (Ok r, t) \<Rightarrow> pr_status r = ''success'' \<and> map_option in_status (get_invoice i t) = Some ''paid'' \<and>
        map_option in_transaction_id (get_invoice i t) = Some (Some (''manual-'' @ show_nat (uuid_next s + 1))) \<and>
        bl_payments_succeeded (bl_metrics t) = bl_payments_succeeded (bl_metrics s) + 1
    | _ \<Rightarrow> False) \<and>
   (case process_payment i ''stripe'' s of
      (Ok r, t) \<Rightarrow> pr_status r = ''failed'' \<and> map_option in_status (get_invoice i t) = Some ''failed'' \<and>
        map_option in_transaction_id (get_invoice i t) = Some (in_transaction_id v)
    | _ \<Rightarrow> False)"
  using assms by (simp add: process_payment_def charge_def accept_charge_def keyed_charge_def settle_def on_invoice_def
      bl_count_def get_invoice_def py_simps)

section \<open>Affiliates\<close>

definition affiliate_ids :: "('x, 'm) affiliates_scheme \<Rightarrow> string set" where
  "affiliate_ids s = set (map (af_id \<circ> snd) (af_affiliates s))"

definition referred_to :: "string \<Rightarrow> ('x, 'm) affiliates_scheme \<Rightarrow> string list" where
  "referred_to i s = map fst (filter (\<lambda>(_, j). j = i) (af_referred_by s))"

definition earned :: "string \<Rightarrow> ('x, 'm) affiliates_scheme \<Rightarrow> decimal" where
  "earned i s = foldl dadd 0 (map co_amount (get_commissions i s))"

definition account_ok :: "('x, 'm) affiliates_scheme \<Rightarrow> string \<Rightarrow> affiliate \<Rightarrow> bool" where
  "account_ok s user a \<longleftrightarrow> af_user_id a = user \<and> 0 \<le> af_commission_rate a \<and> af_commission_rate a \<le> 100 \<and>
     af_total_referrals a = int (length (referred_to (af_id a) s)) \<and>
     af_active_referrals a = af_total_referrals a \<and> af_total_earnings a = earned (af_id a) s"

definition affiliates_ok :: "('x, 'm) affiliates_scheme \<Rightarrow> bool" where
  "affiliates_ok s \<longleftrightarrow>
     distinct (map (af_id \<circ> snd) (af_affiliates s)) \<and> dict_ok (af_affiliates s) \<and>
     (\<forall>i \<in> affiliate_ids s. \<exists>n < uuid_next s. i = show_nat n) \<and>
     (\<forall>code i. dget (af_referral_map s) code = Some i \<longrightarrow> i \<in> affiliate_ids s) \<and>
     (\<forall>i \<in> snd ` set (af_referred_by s). i \<in> affiliate_ids s) \<and>
     (\<forall>c \<in> set (af_commissions s). co_affiliate_id c \<in> affiliate_ids s \<or> co_amount c = 0) \<and>
     (\<forall>user a. dget (af_affiliates s) user = Some a \<longrightarrow> account_ok s user a)"

lemma change_affiliate_keys: "map fst (change_affiliate i f d) = map fst d"
  by (induction i f d rule: change_affiliate.induct) auto

lemma change_affiliate_ids:
  "(\<And>a. af_id (f a) = af_id a) \<Longrightarrow> map (af_id \<circ> snd) (change_affiliate i f d) = map (af_id \<circ> snd) d"
  by (induction i f d rule: change_affiliate.induct) auto

lemma change_affiliate_get:
  assumes "distinct (map (af_id \<circ> snd) d)"
  shows "dget (change_affiliate i f d) u = map_option (\<lambda>a. if af_id a = i then f a else a) (dget d u)"
  using assms
proof (induction i f d rule: change_affiliate.induct)
  case (2 i f k a d)
  have "map_option (\<lambda>b. if af_id b = i then f b else b) (dget d u) = dget d u" if "af_id a = i"
    using 2(2) that by (cases "dget d u") (auto dest!: map_of_SomeD, force)
  then show ?case using 2 by auto
qed simp

lemma ids_change:
  "(\<And>a. af_id (f a) = af_id a) \<Longrightarrow>
   affiliate_ids (s\<lparr>af_affiliates := change_affiliate i f (af_affiliates s)\<rparr>) = affiliate_ids s"
  unfolding affiliate_ids_def by (simp add: change_affiliate_ids del: map_map)

lemma same_ids: "dict_ok d \<Longrightarrow> dget d u = Some a \<Longrightarrow> af_id b = af_id a \<Longrightarrow> map (af_id \<circ> snd) (dput u b d) = map (af_id \<circ> snd) d"
  by (induction d) (auto simp: dict_ok_def)

lemma affiliates_okI:
  assumes "distinct (map (af_id \<circ> snd) (af_affiliates s))" "dict_ok (af_affiliates s)"
    and "\<And>i. i \<in> affiliate_ids s \<Longrightarrow> \<exists>n < uuid_next s. i = show_nat n"
    and "\<And>code i. dget (af_referral_map s) code = Some i \<Longrightarrow> i \<in> affiliate_ids s"
    and "\<And>r i. (r, i) \<in> set (af_referred_by s) \<Longrightarrow> i \<in> affiliate_ids s"
    and "\<And>c. c \<in> set (af_commissions s) \<Longrightarrow> co_affiliate_id c \<in> affiliate_ids s \<or> co_amount c = 0"
    and "\<And>user a. dget (af_affiliates s) user = Some a \<Longrightarrow> account_ok s user a"
  shows "affiliates_ok s"
  using assms unfolding affiliates_ok_def by (simp add: image_iff) fastforce

lemma affiliates_okD:
  assumes "affiliates_ok s"
  shows "distinct (map (af_id \<circ> snd) (af_affiliates s))" "dict_ok (af_affiliates s)"
    and "i \<in> affiliate_ids s \<Longrightarrow> \<exists>n < uuid_next s. i = show_nat n"
    and "dget (af_referral_map s) code = Some i \<Longrightarrow> i \<in> affiliate_ids s"
    and "(r, i) \<in> set (af_referred_by s) \<Longrightarrow> i \<in> affiliate_ids s"
    and "c \<in> set (af_commissions s) \<Longrightarrow> co_affiliate_id c \<in> affiliate_ids s \<or> co_amount c = 0"
    and "dget (af_affiliates s) user = Some a \<Longrightarrow> account_ok s user a"
  using assms unfolding affiliates_ok_def by (simp_all add: image_iff) fastforce+

lemma id_known: "dget (af_affiliates s) u = Some a \<Longrightarrow> af_id a \<in> affiliate_ids s"
  by (auto simp: affiliate_ids_def dest!: map_of_SomeD) force

lemma account_ok_frames [simp]:
  "account_ok (s\<lparr>af_affiliates := d\<rparr>) = account_ok s" "account_ok (s\<lparr>af_referral_map := m\<rparr>) = account_ok s"
  "account_ok (s\<lparr>uuid_next := n\<rparr>) = account_ok s" "account_ok (s\<lparr>af_metrics := x\<rparr>) = account_ok s"
  by (simp_all add: account_ok_def referred_to_def earned_def get_commissions_def fun_eq_iff)

lemma zeros_sum: "(\<forall>x \<in> set xs. x = 0) \<Longrightarrow> foldl dadd 0 xs = 0"
  by (induction xs) (auto simp: dadd_def dfix_def)

lemma register_ok:
  assumes ok: "affiliates_ok s"
  shows "affiliates_ok (snd (register_affiliate user rate suffix s))"
proof (cases "rate < 0 \<or> 100 < rate \<or> dget (af_affiliates s) user \<noteq> None")
  case True
  then show ?thesis using ok by (auto simp: register_affiliate_def reading_def throw_def)
next
  case False
  let ?i = "show_nat (uuid_next s)"
  define a where "a = \<lparr>af_id = ?i, af_user_id = user, af_commission_rate = rate, af_total_earnings = 0,
      af_total_referrals = 0, af_active_referrals = 0, af_is_active = True,
      af_referral_code = referral_code user suffix, af_created_at = clock s\<rparr>"
  define t where "t = snd (register_affiliate user rate suffix s)"
  have t: "af_affiliates t = af_affiliates s @ [(user, a)]" "uuid_next t = Suc (uuid_next s)"
    "af_referral_map t = dput (af_referral_code a) ?i (af_referral_map s)" "af_referred_by t = af_referred_by s"
    "af_commissions t = af_commissions s"
    using False by (simp_all add: t_def a_def register_affiliate_def af_count_def py_simps Let_def dput_new)
  have fresh: "?i \<notin> affiliate_ids s" using affiliates_okD(3) [OF ok, of ?i] by (auto simp: show_nat_inj)
  have ids: "affiliate_ids t = insert ?i (affiliate_ids s)" by (auto simp: affiliate_ids_def t a_def)
  have acc: "account_ok t = account_ok s"
    by (simp add: account_ok_def referred_to_def earned_def get_commissions_def t fun_eq_iff)
  have "referred_to ?i s = []"
    using affiliates_okD(5) [OF ok] fresh by (fastforce simp: referred_to_def filter_empty_conv)
  moreover have "earned ?i s = 0"
    unfolding earned_def using affiliates_okD(6) [OF ok] fresh
    by (intro zeros_sum) (fastforce simp: get_commissions_def)
  ultimately have new: "account_ok s user a" using False by (simp add: account_ok_def a_def)
  have "affiliates_ok t"
  proof (rule affiliates_okI)
    show "distinct (map (af_id \<circ> snd) (af_affiliates t))"
      using affiliates_okD(1) [OF ok] fresh by (auto simp: t affiliate_ids_def a_def)
    show "dict_ok (af_affiliates t)"
      using affiliates_okD(2) [OF ok] False by (auto simp: t dict_ok_def dest: map_of_eq_None_iff [THEN iffD1])
    show "\<exists>n < uuid_next t. i = show_nat n" if "i \<in> affiliate_ids t" for i
      using that affiliates_okD(3) [OF ok] less_Suc_eq by (auto simp: ids t)
    show "i \<in> affiliate_ids t" if "dget (af_referral_map t) code = Some i" for code i
      using that affiliates_okD(4) [OF ok] by (auto simp: ids t split: if_splits)
    show "i \<in> affiliate_ids t" if "(r, i) \<in> set (af_referred_by t)" for r i
      using that affiliates_okD(5) [OF ok] by (auto simp: ids t)
    show "co_affiliate_id c \<in> affiliate_ids t \<or> co_amount c = 0" if "c \<in> set (af_commissions t)" for c
      using that affiliates_okD(6) [OF ok] by (auto simp: ids t)
    show "account_ok t u b" if "dget (af_affiliates t) u = Some b" for u b
      using that affiliates_okD(7) [OF ok] new False unfolding acc
      by (auto simp: t map_add_Some_iff split: option.splits if_splits)
  qed
  then show ?thesis by (simp add: t_def)
qed

lemma referred_dput:
  "dget (af_referred_by s) r = None \<Longrightarrow> referred_to j (s\<lparr>af_referred_by := dput r i (af_referred_by s)\<rparr>) =
     referred_to j s @ (if i = j then [r] else [])"
  by (simp add: referred_to_def dput_new)

lemma track_ok:
  assumes ok: "affiliates_ok s"
  shows "affiliates_ok (snd (track_referral code referred s))"
proof (cases "dget (af_referral_map s) code")
  case None
  then show ?thesis using ok by (simp add: track_referral_def reading_def ret_def)
next
  case (Some i)
  show ?thesis
  proof (cases "dget (af_referred_by s) referred = None")
    case False
    then show ?thesis using ok Some by (auto simp: track_referral_def reading_def ret_def)
  next
    case True
    define f where "f a = a\<lparr>af_total_referrals := af_total_referrals a + 1, af_active_referrals := af_active_referrals a + 1\<rparr>"
      for a :: affiliate
    define t where "t = snd (track_referral code referred s)"
    have t: "af_affiliates t = change_affiliate i f (af_affiliates s)" "uuid_next t = uuid_next s"
      "af_referral_map t = af_referral_map s" "af_referred_by t = af_referred_by s @ [(referred, i)]"
      "af_commissions t = af_commissions s"
      using Some True by (simp_all add: t_def f_def [abs_def] track_referral_def on_affiliate_def af_count_def py_simps dput_new)
    have f_id: "af_id (f a) = af_id a" for a by (simp add: f_def)
    have ids: "affiliate_ids t = affiliate_ids s"
      unfolding affiliate_ids_def t change_affiliate_ids [OF f_id] by simp
    have refs: "referred_to j t = referred_to j s @ (if i = j then [referred] else [])" for j
      by (simp add: referred_to_def t)
    have "affiliates_ok t"
    proof (rule affiliates_okI)
      show "distinct (map (af_id \<circ> snd) (af_affiliates t))"
        unfolding t change_affiliate_ids [OF f_id] by (rule affiliates_okD(1) [OF ok])
      show "dict_ok (af_affiliates t)"
        using affiliates_okD(2) [OF ok] by (simp add: dict_ok_def t change_affiliate_keys)
      show "account_ok t u b" if b: "dget (af_affiliates t) u = Some b" for u b
      proof -
        obtain a where a: "dget (af_affiliates s) u = Some a" "b = (if af_id a = i then f a else a)"
          using b unfolding t change_affiliate_get [OF affiliates_okD(1) [OF ok]] by auto
        show ?thesis
          using affiliates_okD(7) [OF ok a(1)] a(2) refs
          by (auto simp: account_ok_def earned_def get_commissions_def t f_def)
      qed
    qed (use affiliates_okD(3-6) [OF ok] Some in \<open>auto simp: ids t\<close>)
    then show ?thesis by (simp add: t_def)
  qed
qed

lemma unknown_id: "find_affiliate_by_id i s = None \<longleftrightarrow> i \<notin> affiliate_ids s"
  by (auto simp: find_affiliate_by_id_def affiliate_ids_def find_None_iff)

lemma record_ok:
  assumes ok: "affiliates_ok s"
  shows "affiliates_ok (snd (record_commission i amount source s))"
proof (cases "calculate_commission i amount s")
  case (Raise e)
  then show ?thesis using ok by (simp add: record_commission_def py_simps)
next
  case (Ok x)
  define f where "f a = a\<lparr>af_total_earnings := dadd (af_total_earnings a) x\<rparr>" for a :: affiliate
  define c where "c = \<lparr>co_id = show_nat (uuid_next s), co_affiliate_id = i, co_amount = x, co_source = source,
      co_created_at = clock s\<rparr>"
  define t where "t = snd (record_commission i amount source s)"
  have t: "af_affiliates t = change_affiliate i f (af_affiliates s)" "uuid_next t = Suc (uuid_next s)"
    "af_referral_map t = af_referral_map s" "af_referred_by t = af_referred_by s"
    "af_commissions t = af_commissions s @ [c]"
    using Ok by (simp_all add: t_def f_def [abs_def] c_def record_commission_def on_affiliate_def af_count_def py_simps Let_def)
  have f_id: "af_id (f a) = af_id a" for a by (simp add: f_def)
  have ids: "affiliate_ids t = affiliate_ids s"
    unfolding affiliate_ids_def t change_affiliate_ids [OF f_id] by simp
  have sums: "earned j t = (if i = j then dadd (earned j s) x else earned j s)" for j
    by (simp add: earned_def get_commissions_def t c_def)
  have amount: "i \<in> affiliate_ids s \<or> x = 0"
    using Ok unknown_id [of i s] by (auto simp: calculate_commission_def split: option.splits)
  have "affiliates_ok t"
  proof (rule affiliates_okI)
    show "distinct (map (af_id \<circ> snd) (af_affiliates t))"
      unfolding t change_affiliate_ids [OF f_id] by (rule affiliates_okD(1) [OF ok])
    show "dict_ok (af_affiliates t)"
      using affiliates_okD(2) [OF ok] by (simp add: dict_ok_def t change_affiliate_keys)
    show "\<exists>n < uuid_next t. j = show_nat n" if "j \<in> affiliate_ids t" for j
      using that affiliates_okD(3) [OF ok] less_Suc_eq by (auto simp: ids t)
    show "co_affiliate_id k \<in> affiliate_ids t \<or> co_amount k = 0" if "k \<in> set (af_commissions t)" for k
      using that affiliates_okD(6) [OF ok] amount by (auto simp: ids t c_def)
    show "account_ok t u b" if b: "dget (af_affiliates t) u = Some b" for u b
    proof -
      obtain a where a: "dget (af_affiliates s) u = Some a" "b = (if af_id a = i then f a else a)"
        using b unfolding t change_affiliate_get [OF affiliates_okD(1) [OF ok]] by auto
      show ?thesis
        using affiliates_okD(7) [OF ok a(1)] a(2) sums
        by (auto simp: account_ok_def referred_to_def t f_def)
    qed
  qed (use affiliates_okD(4,5) [OF ok] in \<open>auto simp: ids t\<close>)
  then show ?thesis by (simp add: t_def)
qed

lemma deactivate_ok:
  assumes ok: "affiliates_ok s"
  shows "affiliates_ok (snd (deactivate_affiliate user s))"
proof (cases "dget (af_affiliates s) user")
  case None
  then show ?thesis using ok by (simp add: deactivate_affiliate_def reading_def ret_def)
next
  case (Some a)
  define b where "b = a\<lparr>af_is_active := False\<rparr>"
  define t where "t = s\<lparr>af_affiliates := dput user b (af_affiliates s)\<rparr>"
  have same: "map (af_id \<circ> snd) (dput user b (af_affiliates s)) = map (af_id \<circ> snd) (af_affiliates s)"
    using same_ids [OF affiliates_okD(2) [OF ok] Some] by (simp add: b_def)
  have ids: "affiliate_ids t = affiliate_ids s" unfolding affiliate_ids_def t_def using same by simp
  have "account_ok s user b" using affiliates_okD(7) [OF ok Some] by (simp add: account_ok_def b_def)
  then have "affiliates_ok t"
    using affiliates_okD [OF ok] same
    by (intro affiliates_okI; (unfold ids)?) (auto simp: t_def split: if_splits)
  then show ?thesis using Some by (simp add: deactivate_affiliate_def py_simps t_def b_def)
qed

definition no_affiliates :: "'x \<Rightarrow> 'x affiliates" where
  "no_affiliates x = \<lparr>clock = 0, uuid_next = 0, sleeps = [], exch = x, af_affiliates = [], af_commissions = [],
     af_referral_map = [], af_referred_by = [], af_metrics = \<lparr>ax_registered = 0, ax_referrals = 0, ax_commissions = 0\<rparr>\<rparr>"

text \<open>The program does other things in between, which use up identifiers and time.\<close>

definition elsewhere :: "nat \<Rightarrow> datetime \<Rightarrow> ('x, 'm) affiliates_scheme \<Rightarrow> ('x, 'm) affiliates_scheme" where
  "elsewhere n t s = s\<lparr>uuid_next := uuid_next s + n, clock := t\<rparr>"

inductive affiliate_history :: "('x, 'm) affiliates_scheme \<Rightarrow> ('x, 'm) affiliates_scheme \<Rightarrow> bool" for s0 where
  begun: "affiliate_history s0 s0"
| joined: "affiliate_history s0 s \<Longrightarrow> affiliate_history s0 (snd (register_affiliate user rate suffix s))"
| referred: "affiliate_history s0 s \<Longrightarrow> affiliate_history s0 (snd (track_referral code user s))"
| rewarded: "affiliate_history s0 s \<Longrightarrow> affiliate_history s0 (snd (record_commission i amount source s))"
| retired: "affiliate_history s0 s \<Longrightarrow> affiliate_history s0 (snd (deactivate_affiliate user s))"
| passed: "affiliate_history s0 s \<Longrightarrow> affiliate_history s0 (elsewhere n t s)"

lemma elsewhere_ok:
  assumes ok: "affiliates_ok s"
  shows "affiliates_ok (elsewhere n t s)"
proof -
  have frames: "affiliate_ids (elsewhere n t s) = affiliate_ids s" "account_ok (elsewhere n t s) = account_ok s"
    by (simp_all add: affiliate_ids_def elsewhere_def account_ok_def referred_to_def earned_def get_commissions_def fun_eq_iff)
  have "\<exists>m < uuid_next (elsewhere n t s). i = show_nat m" if "i \<in> affiliate_ids s" for i
    using affiliates_okD(3) [OF ok that] by (auto simp: elsewhere_def intro: trans_less_add1)
  then show ?thesis
    using affiliates_okD [OF ok] by (intro affiliates_okI; (unfold frames)?) (auto simp: elsewhere_def)
qed

lemma history_affiliates_ok: "affiliate_history s0 s \<Longrightarrow> affiliates_ok s0 \<Longrightarrow> affiliates_ok s"
  by (induction rule: affiliate_history.induct) (simp_all add: register_ok track_ok record_ok deactivate_ok elsewhere_ok)

text \<open>
  The affiliates' books balance. Over any history of the service, the referrals counted for an
  affiliate are exactly those of the downline, and all of them count as active, also after the
  affiliate has been deactivated; the earnings are the sum, in the order of recording, of the
  commissions recorded for the affiliate; and the rate is a percentage.
\<close>

theorem affiliate_books_balance:
  assumes "affiliate_history (no_affiliates x) s" and "dget (af_affiliates s) user = Some a"
  shows "af_total_referrals a = int (length (get_downline user s)) \<and> af_active_referrals a = af_total_referrals a \<and>
    af_total_earnings a = foldl dadd 0 (map co_amount (get_commissions (af_id a) s)) \<and>
    0 \<le> af_commission_rate a \<and> af_commission_rate a \<le> 100"
proof -
  have "affiliates_ok (no_affiliates x)" by (simp add: affiliates_ok_def no_affiliates_def affiliate_ids_def dict_ok_def)
  from affiliates_okD(7) [OF history_affiliates_ok [OF assms(1) this] assms(2)]
  show ?thesis using assms(2) by (simp add: account_ok_def referred_to_def earned_def get_downline_def)
qed

section \<open>Concrete histories\<close>

definition paid_once :: "unit billing" where
  "paid_once = snd (process_payment ''0'' ''manual'' (snd (create_invoice ''u'' 29 ''usd'' ''starter'' None (new_billing ()))))"

theorem invoices_consistent_witness:
  "\<exists>v. dget (bl_invoices paid_once) ''0'' = Some v \<and> invoice_ok ''0'' v \<and> in_status v = ''paid'' \<and>
   bl_invoices_created (bl_metrics paid_once) = 1"
proof -
  have "billing_history (new_billing ()) paid_once"
    unfolding paid_once_def by (rule processed [OF created [OF opened]])
  moreover have "map_option in_status (dget (bl_invoices paid_once) ''0'') = Some ''paid''" "length (bl_invoices paid_once) = 1"
    by code_simp+
  ultimately show ?thesis using invoices_consistent [of "()" paid_once] by auto
qed

theorem settled_invoices_charged_again_witness:
  "case process_payment ''0'' ''manual'' paid_once of
     (Ok r, t) \<Rightarrow> pr_status r = ''success'' \<and> bl_payments_succeeded (bl_metrics t) = 2 | _ \<Rightarrow> False"
proof -
  have "map_option in_status (dget (bl_invoices paid_once) ''0'') = Some ''paid''"
    and n: "bl_payments_succeeded (bl_metrics paid_once) = 1" by code_simp+
  then obtain v where "dget (bl_invoices paid_once) ''0'' = Some v" "in_status v \<in> {''paid'', ''cancelled''}" by auto
  moreover have "map_of (bl_providers paid_once) = map_of default_providers"
    by (simp add: paid_once_def process_payment_def create_invoice_def charge_def accept_charge_def settle_def on_invoice_def
        bl_count_def new_billing_def default_providers_def Let_def py_simps show_nat.simps digit_chars)
  ultimately show ?thesis
    using settled_invoices_charged_again [of paid_once "''0''" v] n
    by (auto simp: default_providers_def split: prod.splits res.splits)
qed

definition rewarded_affiliate :: "unit affiliates" where
  "rewarded_affiliate = snd (deactivate_affiliate ''alice'' (snd (record_commission ''0'' 50 ''subscription''
     (snd (track_referral ''ALICEBEEF'' ''bob'' (snd (register_affiliate ''alice'' 10 ''beef'' (no_affiliates ()))))))))"

theorem affiliate_books_balance_witness:
  "\<exists>a. dget (af_affiliates rewarded_affiliate) ''alice'' = Some a \<and> \<not> af_is_active a \<and>
     af_active_referrals a = int (length (get_downline ''alice'' rewarded_affiliate)) \<and>
     get_downline ''alice'' rewarded_affiliate = [''bob''] \<and> af_total_earnings a = 5"
proof -
  have "affiliate_history (no_affiliates ()) rewarded_affiliate"
    unfolding rewarded_affiliate_def by (intro affiliate_history.intros)
  moreover have "case dget (af_affiliates rewarded_affiliate) ''alice'' of None \<Rightarrow> False
      | Some a \<Rightarrow> \<not> af_is_active a \<and> af_total_earnings a = 5"
    and "get_downline ''alice'' rewarded_affiliate = [''bob'']" by code_simp+
  moreover obtain a where "dget (af_affiliates rewarded_affiliate) ''alice'' = Some a"
    using calculation(2) by (auto split: option.splits)
  ultimately show ?thesis using affiliate_books_balance [of "()" rewarded_affiliate "''alice''" a] by auto
qed

end
