(* ===== verification/Authentication.thy ===== *)
theory Authentication
  imports DomainTypes
begin

text \<open>
  \<^verbatim>\<open>core/security.py\<close> (passwords, tokens, input checks), \<^verbatim>\<open>services/saas/auth.py\<close>,
  \<^verbatim>\<open>repositories/user_repository.py\<close> and the columns of \<^verbatim>\<open>models/user.py\<close> they use. The libraries bcrypt
  and jwt are parameters; salts and random tokens come from the supply of fresh identifiers. Redis
  and the table of users are fields of the state that may be missing.
\<close>

section \<open>Libraries\<close>

datatype decode_error = ExpiredSignature | InvalidToken

record claims =
  cl_sub :: "string option"
  cl_email :: "string option"
  cl_type :: string
  cl_iat :: datetime
  cl_exp :: datetime
  cl_jti :: "string option"

record jwt =
  jw_encode :: "claims \<Rightarrow> string"
  jw_decode :: "datetime \<Rightarrow> string \<Rightarrow> decode_error + claims"

record bcrypt =
  bc_hashpw :: "string \<Rightarrow> uuid \<Rightarrow> string res"
  bc_checkpw :: "string \<Rightarrow> string \<Rightarrow> bool res"

record auth_config =
  ac_jwt :: jwt
  ac_bcrypt :: bcrypt
  ac_access_minutes :: int
  ac_refresh_days :: int
  ac_utc_offset :: int

section \<open>State\<close>

record user =
  us_id :: uuid
  us_email :: string
  us_password_hash :: string
  us_full_name :: "string option"
  us_is_active :: bool

record mfa_state =
  mf_enabled :: bool
  mf_secret :: "string option"
  mf_verified :: bool

record auth_metrics =
  at_registrations :: int
  at_logins :: int
  at_token_refreshes :: int
  at_password_resets :: int
  at_mfa_enables :: int

record 'x auth_state = "'x world" +
  at_users :: "(uuid, user) dict option"
  at_blocklist :: "(string, datetime) dict option"
  at_mfa :: "(string, mfa_state) dict"
  at_metrics :: auth_metrics

type_synonym ('x, 'm, 'a) auth = "(('x, 'm) auth_state_scheme, 'a) py"

abbreviation auth_error :: exn where
  "auth_error \<equiv> Exn AuthenticationError []"

definition at_count :: "(auth_metrics \<Rightarrow> auth_metrics) \<Rightarrow> ('x, 'm, unit) auth" where
  "at_count f = modify (\<lambda>s. s\<lparr>at_metrics := f (at_metrics s)\<rparr>)"

section \<open>Passwords and input\<close>

definition hash_password :: "auth_config \<Rightarrow> string \<Rightarrow> ('x, 'm, string) auth" where
  "hash_password cfg password = bind uuid4 (\<lambda>salt.
     case bc_hashpw (ac_bcrypt cfg) password salt of Ok h \<Rightarrow> ret h | Raise _ \<Rightarrow> throw auth_error)"

definition verify_password :: "auth_config \<Rightarrow> string \<Rightarrow> string \<Rightarrow> bool" where
  "verify_password cfg plain hashed =
     (case bc_checkpw (ac_bcrypt cfg) plain hashed of Ok b \<Rightarrow> b | Raise _ \<Rightarrow> False)"

definition sanitize_input :: "string \<Rightarrow> string" where
  "sanitize_input s = filter (\<lambda>c. c \<notin> set [CHR ''<'', CHR ''>'', CHR ''&'', CHR 0x22, CHR 0x27, CHR ''/'']) s"

text \<open>Every check that holds counts a point; the texts of the errors are the names of the checks. Characters are bytes.\<close>

definition char_code :: "char \<Rightarrow> nat" where
  "char_code c = of_char c"

definition special_chars :: string where
  "special_chars = ''!@#$%^&*()_+-=[]{}|;:,.<>?''"

definition password_checks :: "(string \<times> (string \<Rightarrow> bool)) list" where
  "password_checks =
    [(''length'', \<lambda>p. 8 \<le> length p),
     (''uppercase'', \<lambda>p. list_ex (\<lambda>c. 65 \<le> char_code c \<and> char_code c \<le> 90) p),
     (''lowercase'', \<lambda>p. list_ex (\<lambda>c. 97 \<le> char_code c \<and> char_code c \<le> 122) p),
     (''number'', \<lambda>p. list_ex (\<lambda>c. 48 \<le> char_code c \<and> char_code c \<le> 57) p),
     (''special'', \<lambda>p. list_ex (\<lambda>c. c \<in> set special_chars) p)]"

definition validate_password_strength :: "string \<Rightarrow> bool \<times> string list \<times> nat" where
  "validate_password_strength p =
     (let failed = map fst (filter (\<lambda>(_, ok). \<not> ok p) password_checks)
      in (failed = [], failed, length password_checks - length failed))"

section \<open>Tokens\<close>

definition create_access_token :: "auth_config \<Rightarrow> string \<Rightarrow> string option \<Rightarrow> int option \<Rightarrow> ('x, 'm, string) auth" where
  "create_access_token cfg sub email expires_delta = bind now (\<lambda>t. bind uuid4 (\<lambda>jti.
     ret (jw_encode (ac_jwt cfg) \<lparr>cl_sub = Some sub, cl_email = email, cl_type = ''access'', cl_iat = t,
       cl_exp = t + (case expires_delta of None \<Rightarrow> ac_access_minutes cfg * 60 | Some d \<Rightarrow> if d = 0 then ac_access_minutes cfg * 60 else d),
       cl_jti = Some (show_nat jti)\<rparr>)))"

definition create_refresh_token :: "auth_config \<Rightarrow> string \<Rightarrow> string option \<Rightarrow> int option \<Rightarrow> ('x, 'm, string) auth" where
  "create_refresh_token cfg sub email expires_delta = bind now (\<lambda>t.
     ret (jw_encode (ac_jwt cfg) \<lparr>cl_sub = Some sub, cl_email = email, cl_type = ''refresh'', cl_iat = t,
       cl_exp = t + (case expires_delta of None \<Rightarrow> ac_refresh_days cfg * 86400 | Some d \<Rightarrow> if d = 0 then ac_refresh_days cfg * 86400 else d),
       cl_jti = None\<rparr>))"

definition is_token_blacklisted :: "string \<Rightarrow> ('x, 'm, bool) auth" where
  "is_token_blacklisted jti = bind now (\<lambda>t. gets (\<lambda>s. case at_blocklist s of
      None \<Rightarrow> False
    | Some d \<Rightarrow> (case dget d jti of None \<Rightarrow> False | Some expiry \<Rightarrow> t < expiry)))"

text \<open>
  \<^verbatim>\<open>datetime.fromtimestamp(exp)\<close> is local time, \<^verbatim>\<open>utcnow()\<close> is not: they differ by the server's offset.
\<close>

definition verify_token :: "auth_config \<Rightarrow> string \<Rightarrow> string \<Rightarrow> ('x, 'm, claims) auth" where
  "verify_token cfg token token_type = bind now (\<lambda>t.
     case jw_decode (ac_jwt cfg) t token of
       Inl _ \<Rightarrow> throw auth_error
     | Inr c \<Rightarrow>
         if cl_type c \<noteq> token_type then throw auth_error
         else if cl_exp c + ac_utc_offset cfg < t then throw auth_error
         else if token_type = ''access'' \<and> truthy (cl_jti c)
         then bind (is_token_blacklisted (the (cl_jti c))) (\<lambda>listed.
           if listed then throw auth_error else ret c)
         else ret c)"

definition revoke_token :: "auth_config \<Rightarrow> string \<Rightarrow> ('x, 'm, unit) auth" where
  "revoke_token cfg token = reading (\<lambda>s. case at_blocklist s of
      None \<Rightarrow> ret ()
    | Some d \<Rightarrow> (case jw_decode (ac_jwt cfg) (clock s) token of
          Inl _ \<Rightarrow> ret ()
        | Inr c \<Rightarrow>
            if \<not> truthy (cl_jti c) \<or> cl_exp c = 0 then ret ()
            else if 0 < cl_exp c - clock s
            then modify (\<lambda>s. s\<lparr>at_blocklist := Some (dput (the (cl_jti c)) (cl_exp c) d)\<rparr>)
            else ret ()))"

definition create_email_token :: "auth_config \<Rightarrow> string \<Rightarrow> int \<Rightarrow> string \<Rightarrow> ('x, 'm, string) auth" where
  "create_email_token cfg kind seconds email = bind now (\<lambda>t.
     ret (jw_encode (ac_jwt cfg) \<lparr>cl_sub = None, cl_email = Some email, cl_type = kind, cl_iat = t,
       cl_exp = t + seconds, cl_jti = None\<rparr>))"

definition create_email_verification_token :: "auth_config \<Rightarrow> string \<Rightarrow> ('x, 'm, string) auth" where
  "create_email_verification_token cfg = create_email_token cfg ''email_verification'' 86400"

definition create_password_reset_token :: "auth_config \<Rightarrow> string \<Rightarrow> ('x, 'm, string) auth" where
  "create_password_reset_token cfg = create_email_token cfg ''password_reset'' 3600"

definition verify_email_kind :: "auth_config \<Rightarrow> string \<Rightarrow> string \<Rightarrow> ('x, 'm, string) auth" where
  "verify_email_kind cfg kind token = bind now (\<lambda>t.
     case jw_decode (ac_jwt cfg) t token of
       Inl _ \<Rightarrow> throw auth_error
     | Inr c \<Rightarrow>
         if cl_type c \<noteq> kind then throw auth_error
         else if \<not> truthy (cl_email c) then throw auth_error
         else ret (the (cl_email c)))"

definition verify_email_token :: "auth_config \<Rightarrow> string \<Rightarrow> ('x, 'm, string) auth" where
  "verify_email_token cfg = verify_email_kind cfg ''email_verification''"

definition verify_password_reset_token :: "auth_config \<Rightarrow> string \<Rightarrow> ('x, 'm, string) auth" where
  "verify_password_reset_token cfg = verify_email_kind cfg ''password_reset''"

section \<open>Users\<close>

definition get_by_email :: "string \<Rightarrow> (uuid, user) dict \<Rightarrow> user option" where
  "get_by_email email users = find (\<lambda>u. us_email u = py_lower email) (map snd users)"

definition exists_by_email :: "string \<Rightarrow> (uuid, user) dict \<Rightarrow> bool" where
  "exists_by_email email users \<longleftrightarrow> get_by_email email users \<noteq> None"

definition put_user :: "user \<Rightarrow> ('x, 'm, unit) auth" where
  "put_user u = modify (\<lambda>s. s\<lparr>at_users := map_option (dput (us_id u) u) (at_users s)\<rparr>)"

section \<open>The service\<close>

record registration =
  rg_id :: string
  rg_email :: string
  rg_full_name :: "string option"

definition register_user :: "auth_config \<Rightarrow> string \<Rightarrow> string \<Rightarrow> string option \<Rightarrow> ('x, 'm, registration) auth" where
  "register_user cfg email password full_name =
     (if email = [] \<or> CHR ''@'' \<notin> set email then throw (Exn ValidationError [])
      else if length password < 8 then throw (Exn ValidationError [])
      else reading (\<lambda>s. case at_users s of
          None \<Rightarrow>
            seq (at_count (\<lambda>m. m\<lparr>at_registrations := at_registrations m + 1\<rparr>))
            (bind uuid4 (\<lambda>u. ret \<lparr>rg_id = show_nat u, rg_email = py_lower email, rg_full_name = full_name\<rparr>))
        | Some users \<Rightarrow>
            if exists_by_email email users then throw auth_error
            else bind (hash_password cfg password) (\<lambda>h. bind uuid4 (\<lambda>i.
              seq (put_user \<lparr>us_id = i, us_email = py_lower email, us_password_hash = h, us_full_name = full_name,
                     us_is_active = True\<rparr>)
              (seq (at_count (\<lambda>m. m\<lparr>at_registrations := at_registrations m + 1\<rparr>))
                (ret \<lparr>rg_id = show_nat i, rg_email = py_lower email, rg_full_name = full_name\<rparr>))))))"

record token_pair =
  tk_access_token :: string
  tk_refresh_token :: string
  tk_expires_in :: int

definition issue_tokens :: "auth_config \<Rightarrow> string \<Rightarrow> string \<Rightarrow> ('x, 'm, token_pair) auth" where
  "issue_tokens cfg sub email =
     bind (create_access_token cfg sub (Some email) None) (\<lambda>access.
     bind (create_refresh_token cfg sub (Some email) None) (\<lambda>refresh.
     seq (at_count (\<lambda>m. m\<lparr>at_logins := at_logins m + 1\<rparr>))
       (ret \<lparr>tk_access_token = access, tk_refresh_token = refresh, tk_expires_in = ac_access_minutes cfg * 60\<rparr>)))"

definition login :: "auth_config \<Rightarrow> string \<Rightarrow> string \<Rightarrow> ('x, 'm, token_pair) auth" where
  "login cfg email password = reading (\<lambda>s. case at_users s of
      None \<Rightarrow> bind uuid4 (\<lambda>u. issue_tokens cfg (show_nat u) email)
    | Some users \<Rightarrow> (case get_by_email email users of
          None \<Rightarrow> throw auth_error
        | Some u \<Rightarrow>
            if \<not> verify_password cfg password (us_password_hash u) then throw auth_error
            else if \<not> us_is_active u then throw auth_error
            else issue_tokens cfg (show_nat (us_id u)) (us_email u)))"

definition refresh_access :: "auth_config \<Rightarrow> string \<Rightarrow> ('x, 'm, string) auth" where
  "refresh_access cfg token = bind (verify_token cfg token ''refresh'') (\<lambda>c.
     case cl_sub c of
       None \<Rightarrow> throw (Exn PyKeyError [''sub''])
     | Some sub \<Rightarrow> bind (create_access_token cfg sub (cl_email c) None) (\<lambda>access.
         seq (at_count (\<lambda>m. m\<lparr>at_token_refreshes := at_token_refreshes m + 1\<rparr>)) (ret access)))"

definition catch_auth :: "('x, 'm, 'a) auth \<Rightarrow> ('x, 'm, 'a option) auth" where
  "catch_auth m = try_catch (bind m (\<lambda>a. ret (Some a)))
     (\<lambda>e. if isinstance e [AuthenticationError] then ret None else throw e)"

definition verify_email :: "auth_config \<Rightarrow> string \<Rightarrow> ('x, 'm, bool) auth" where
  "verify_email cfg token = bind (catch_auth (verify_email_token cfg token)) (\<lambda>r. ret (r \<noteq> None))"

definition request_password_reset :: "auth_config \<Rightarrow> string \<Rightarrow> ('x, 'm, string) auth" where
  "request_password_reset cfg email = create_password_reset_token cfg email"

definition set_password :: "auth_config \<Rightarrow> user \<Rightarrow> string \<Rightarrow> ('x, 'm, unit) auth" where
  "set_password cfg u password = bind (hash_password cfg password) (\<lambda>h. put_user (u\<lparr>us_password_hash := h\<rparr>))"

definition reset_password :: "auth_config \<Rightarrow> string \<Rightarrow> string \<Rightarrow> ('x, 'm, bool) auth" where
  "reset_password cfg token password =
     (if length password < 8 then throw (Exn ValidationError [])
      else bind (catch_auth (verify_password_reset_token cfg token)) (\<lambda>r. case r of
          None \<Rightarrow> ret False
        | Some email \<Rightarrow>
            let done = seq (at_count (\<lambda>m. m\<lparr>at_password_resets := at_password_resets m + 1\<rparr>)) (ret True) in
            reading (\<lambda>s. case at_users s of
                None \<Rightarrow> done
              | Some users \<Rightarrow> (case get_by_email email users of
                    None \<Rightarrow> ret False
                  | Some u \<Rightarrow> seq (set_password cfg u password) done))))"

definition change_password :: "auth_config \<Rightarrow> uuid \<Rightarrow> string \<Rightarrow> string \<Rightarrow> ('x, 'm, bool) auth" where
  "change_password cfg user old_password new_password =
     (if length new_password < 8 then throw (Exn ValidationError [])
      else reading (\<lambda>s. case at_users s of
          None \<Rightarrow> ret True
        | Some users \<Rightarrow> (case dget users user of
              None \<Rightarrow> ret False
            | Some u \<Rightarrow>
                if \<not> verify_password cfg old_password (us_password_hash u) then ret False
                else seq (set_password cfg u new_password) (ret True))))"

section \<open>Second factor\<close>

definition enable_mfa :: "string \<Rightarrow> ('x, 'm, string) auth" where
  "enable_mfa user = bind uuid4 (\<lambda>u.
     seq (modify (\<lambda>s. s\<lparr>at_mfa := dput user \<lparr>mf_enabled = True, mf_secret = Some (show_nat u), mf_verified = False\<rparr> (at_mfa s)\<rparr>))
     (seq (at_count (\<lambda>m. m\<lparr>at_mfa_enables := at_mfa_enables m + 1\<rparr>)) (ret (show_nat u))))"

definition verify_mfa :: "string \<Rightarrow> string \<Rightarrow> ('x, 'm, bool) auth" where
  "verify_mfa user code = reading (\<lambda>s. case dget (at_mfa s) user of
      None \<Rightarrow> ret False
    | Some st \<Rightarrow>
        if \<not> mf_enabled st then ret False
        else if length code \<noteq> 6 then ret False
        else seq (modify (\<lambda>s. s\<lparr>at_mfa := dput user (st\<lparr>mf_verified := True\<rparr>) (at_mfa s)\<rparr>)) (ret True))"

definition disable_mfa :: "string \<Rightarrow> ('x, 'm, bool) auth" where
  "disable_mfa user = reading (\<lambda>s. if dget (at_mfa s) user = None then ret False
     else seq (modify (\<lambda>s. s\<lparr>at_mfa := ddel user (at_mfa s)\<rparr>)) (ret True))"

definition get_mfa_state :: "string \<Rightarrow> ('x, 'm) auth_state_scheme \<Rightarrow> mfa_state option" where
  "get_mfa_state user s = dget (at_mfa s) user"

end
