(* ===== verification/AuthenticationLaws.thy ===== *)
theory AuthenticationLaws
  imports Authentication "HOL-Library.Countable"
begin

text \<open>
  What authentication promises, with libraries that behave as documented: who registers can log in,
  and the access token says who it is; what revoking a token stops and what it does not; and two ways
  in which the checks do not check what they mean to.
\<close>

section \<open>The libraries\<close>

text \<open>
  A signed token decodes to its claims from the second it was issued until it expires (PyJWT raises
  \<^verbatim>\<open>ImmatureSignatureError\<close>, an \<^verbatim>\<open>InvalidTokenError\<close>, before); a password matches its own hash.
\<close>

definition jwt_ok :: "jwt \<Rightarrow> bool" where
  "jwt_ok j \<longleftrightarrow> (\<forall>t c. jw_decode j t (jw_encode j c) =
     (if t < cl_iat c then Inl InvalidToken else if t < cl_exp c then Inr c else Inl ExpiredSignature))"

definition bcrypt_ok :: "bcrypt \<Rightarrow> bool" where
  "bcrypt_ok b \<longleftrightarrow> (\<forall>p salt h. bc_hashpw b p salt = Ok h \<longrightarrow> bc_checkpw b p h = Ok True)"

text \<open>Only identifiers that have been given out are on the block list.\<close>

definition blocklist_ok :: "('x, 'm) auth_state_scheme \<Rightarrow> bool" where
  "blocklist_ok s \<longleftrightarrow> (\<forall>d j e. at_blocklist s = Some d \<longrightarrow> dget d j = Some e \<longrightarrow> (\<exists>n < uuid_next s. j = show_nat n))"

section \<open>Registering and logging in\<close>

lemma find_new_user:
  "find P (map snd users) = None \<Longrightarrow> P u \<Longrightarrow> find P (map snd (dput i u users)) = Some u"
  by (induction users) (auto split: if_splits)

lemma register_Ok:
  assumes "register_user cfg email password full_name s = (Ok r, t)" and "at_users s = Some users"
  shows "\<exists>h. bc_hashpw (ac_bcrypt cfg) password (uuid_next s) = Ok h \<and> get_by_email email users = None \<and>
    rg_id r = show_nat (Suc (uuid_next s)) \<and>
    at_users t = Some (dput (Suc (uuid_next s)) \<lparr>us_id = Suc (uuid_next s), us_email = py_lower email,
      us_password_hash = h, us_full_name = full_name, us_is_active = True\<rparr> users) \<and>
    uuid_next t = Suc (Suc (uuid_next s)) \<and> clock t = clock s \<and> at_blocklist t = at_blocklist s"
  using assms
  by (auto simp: register_user_def exists_by_email_def hash_password_def put_user_def at_count_def py_simps
      split: if_splits res.splits)

lemma issue_tokens_eq:
  "issue_tokens cfg sub email s =
     (Ok \<lparr>tk_access_token = jw_encode (ac_jwt cfg) \<lparr>cl_sub = Some sub, cl_email = Some email, cl_type = ''access'',
            cl_iat = clock s, cl_exp = clock s + ac_access_minutes cfg * 60, cl_jti = Some (show_nat (uuid_next s))\<rparr>,
          tk_refresh_token = jw_encode (ac_jwt cfg) \<lparr>cl_sub = Some sub, cl_email = Some email, cl_type = ''refresh'',
            cl_iat = clock s, cl_exp = clock s + ac_refresh_days cfg * 86400, cl_jti = None\<rparr>,
          tk_expires_in = ac_access_minutes cfg * 60\<rparr>,
      s\<lparr>uuid_next := Suc (uuid_next s), at_metrics := (at_metrics s)\<lparr>at_logins := at_logins (at_metrics s) + 1\<rparr>\<rparr>)"
  by (simp add: issue_tokens_def create_access_token_def create_refresh_token_def at_count_def py_simps)

text \<open>The seconds in which a token of an issuing and an expiring time is accepted, given the offset of local time.\<close>

definition accepted_at :: "auth_config \<Rightarrow> claims \<Rightarrow> datetime \<Rightarrow> bool" where
  "accepted_at cfg c t \<longleftrightarrow> cl_iat c \<le> t \<and> t < cl_exp c \<and> t \<le> cl_exp c + ac_utc_offset cfg"

lemma verify_encoded:
  assumes "jwt_ok (ac_jwt cfg)"
  shows "verify_token cfg (jw_encode (ac_jwt cfg) c) kind s =
    (if \<not> accepted_at cfg c (clock s) \<or> cl_type c \<noteq> kind then (Raise auth_error, s)
     else if kind = ''access'' \<and> truthy (cl_jti c) \<and>
        (case at_blocklist s of None \<Rightarrow> False
         | Some d \<Rightarrow> (case dget d (the (cl_jti c)) of None \<Rightarrow> False | Some e \<Rightarrow> clock s < e))
     then (Raise auth_error, s) else (Ok c, s))"
  using assms by (auto simp: accepted_at_def verify_token_def jwt_ok_def is_token_blacklisted_def py_simps)

text \<open>
  C31. Who registers can log in, and what the tokens are then good for. With PyJWT and bcrypt as
  documented, the store of users there and only identifiers already given out on the block list,
  after a registration logging in with the same password and the same address in any
  capitalisation succeeds, whatever the server's time zone. From then on, while nothing is revoked, the
  access token verifies, as the user who registered and as an access token only, exactly while it has not
  expired and the time is not past its expiry plus the offset of the server's local time (which the check
  adds by mistake: behind universal time tokens end early, and far enough behind none is ever accepted).
  The refresh token verifies in the same window of its own, as a refresh token only, revoked or not.
\<close>

theorem registered_user_logs_in:
  assumes libs: "jwt_ok (ac_jwt cfg)" "bcrypt_ok (ac_bcrypt cfg)"
    and fresh: "blocklist_ok s" and users: "at_users s \<noteq> None"
    and reg: "register_user cfg email password full_name s = (Ok r, t)" and same: "py_lower email' = py_lower email"
  shows "\<exists>p u. login cfg email' password t = (Ok p, u) \<and>
    (\<forall>v. at_blocklist v = at_blocklist u \<and> clock t \<le> clock v \<longrightarrow>
      (if clock v < clock t + ac_access_minutes cfg * 60 \<and>
          clock v \<le> clock t + ac_access_minutes cfg * 60 + ac_utc_offset cfg
       then \<exists>c. verify_token cfg (tk_access_token p) ''access'' v = (Ok c, v) \<and> cl_sub c = Some (rg_id r)
       else verify_token cfg (tk_access_token p) ''access'' v = (Raise auth_error, v)) \<and>
      verify_token cfg (tk_access_token p) ''refresh'' v = (Raise auth_error, v)) \<and>
    (\<forall>v. clock t \<le> clock v \<longrightarrow>
      (if clock v < clock t + ac_refresh_days cfg * 86400 \<and>
          clock v \<le> clock t + ac_refresh_days cfg * 86400 + ac_utc_offset cfg
       then \<exists>c. verify_token cfg (tk_refresh_token p) ''refresh'' v = (Ok c, v) \<and> cl_sub c = Some (rg_id r)
       else verify_token cfg (tk_refresh_token p) ''refresh'' v = (Raise auth_error, v)) \<and>
      verify_token cfg (tk_refresh_token p) ''access'' v = (Raise auth_error, v))"
proof -
  obtain us where us: "at_users s = Some us" using users by blast
  obtain h where h: "bc_hashpw (ac_bcrypt cfg) password (uuid_next s) = Ok h" "get_by_email email us = None"
    and r: "rg_id r = show_nat (Suc (uuid_next s))"
    and t: "at_users t = Some (dput (Suc (uuid_next s)) \<lparr>us_id = Suc (uuid_next s), us_email = py_lower email,
      us_password_hash = h, us_full_name = full_name, us_is_active = True\<rparr> us)"
      "uuid_next t = Suc (Suc (uuid_next s))" "clock t = clock s" "at_blocklist t = at_blocklist s"
    using register_Ok [OF reg us] by blast
  have found: "get_by_email email' (dput (Suc (uuid_next s)) \<lparr>us_id = Suc (uuid_next s), us_email = py_lower email,
      us_password_hash = h, us_full_name = full_name, us_is_active = True\<rparr> us) =
    Some \<lparr>us_id = Suc (uuid_next s), us_email = py_lower email, us_password_hash = h, us_full_name = full_name,
      us_is_active = True\<rparr>"
    using h(2) find_new_user unfolding get_by_email_def same by fastforce
  have "bc_checkpw (ac_bcrypt cfg) password h = Ok True" using libs(2) h(1) by (simp add: bcrypt_ok_def)
  then have run: "login cfg email' password t = issue_tokens cfg (rg_id r) (py_lower email) t"
    using found t(1) r by (simp add: login_def reading_def verify_password_def)
  have unlisted: "dget d (show_nat (uuid_next t)) = None" if "at_blocklist s = Some d" for d
  proof (rule ccontr)
    assume "dget d (show_nat (uuid_next t)) \<noteq> None"
    then obtain e where "dget d (show_nat (uuid_next t)) = Some e" by blast
    with fresh that obtain n where "n < uuid_next s" "show_nat (uuid_next t) = show_nat n"
      unfolding blocklist_ok_def by blast
    then show False using t(2) by (simp add: show_nat_inj)
  qed
  show ?thesis
    unfolding run issue_tokens_eq using unlisted t(4)
    by (auto simp: verify_encoded [OF libs(1)] accepted_at_def split: option.splits)
qed

section \<open>Revoking\<close>

text \<open>
  Revoking stops access tokens and nothing else. While Redis keeps the list, an access token that
  has been revoked is refused at every later time; but revoking a refresh token changes nothing, so
  that until it expires it still buys a new access token.
\<close>

theorem revoking_stops_access_only:
  fixes s :: "('x, 'm) auth_state_scheme"
  assumes libs: "jwt_ok (ac_jwt cfg)" and utc: "0 \<le> ac_utc_offset cfg"
    and redis: "at_blocklist s = Some d" and live: "clock s < cl_exp a" "clock s < cl_exp b" "cl_exp a \<noteq> 0"
      "cl_iat a \<le> clock s" "cl_iat b \<le> clock s"
    and access: "cl_type a = ''access''" "truthy (cl_jti a)"
    and refresh: "cl_type b = ''refresh''" "cl_jti b = None" "cl_sub b \<noteq> None"
  shows "(\<forall>v :: ('x, 'm) auth_state_scheme. at_blocklist v = at_blocklist (snd (revoke_token cfg (jw_encode (ac_jwt cfg) a) s)) \<longrightarrow>
      verify_token cfg (jw_encode (ac_jwt cfg) a) ''access'' v = (Raise auth_error, v)) \<and>
    snd (revoke_token cfg (jw_encode (ac_jwt cfg) b) s) = s \<and>
    (\<exists>tok t. refresh_access cfg (jw_encode (ac_jwt cfg) b) s = (Ok tok, t))"
proof -
  have "snd (revoke_token cfg (jw_encode (ac_jwt cfg) b) s) = s"
    using libs redis live(2) refresh(2) by (simp add: revoke_token_def jwt_ok_def truthy_def py_simps)
  moreover have "\<exists>tok t. refresh_access cfg (jw_encode (ac_jwt cfg) b) s = (Ok tok, t)"
    using live(2,5) utc refresh
    by (auto simp: refresh_access_def bind_def verify_encoded [OF libs] accepted_at_def create_access_token_def
        at_count_def py_simps)
  moreover have "verify_token cfg (jw_encode (ac_jwt cfg) a) ''access'' v = (Raise auth_error, v)"
    if v: "at_blocklist v = at_blocklist (snd (revoke_token cfg (jw_encode (ac_jwt cfg) a) s))"
    for v :: "('x, 'm) auth_state_scheme"
  proof -
    have "at_blocklist v = Some (dput (the (cl_jti a)) (cl_exp a) d)"
      using v libs redis live access by (simp add: revoke_token_def jwt_ok_def py_simps)
    then show ?thesis using access by (simp add: verify_encoded [OF libs] accepted_at_def)
  qed
  ultimately show ?thesis by blast
qed

section \<open>Checks that do not check\<close>

text \<open>
  West of Greenwich no token is accepted. Local time is compared with universal time: on a server
  whose clock is further behind universal time than an access token lives, every access token is
  refused from the moment it is issued.
\<close>

theorem tokens_refused_behind_utc:
  assumes "jwt_ok (ac_jwt cfg)" and "ac_utc_offset cfg < - (ac_access_minutes cfg * 60)"
    and "create_access_token cfg sub email None s = (Ok token, t)" and "clock t \<le> clock v"
  shows "verify_token cfg token ''access'' v = (Raise auth_error, v)"
  using assms by (auto simp: create_access_token_def verify_token_def jwt_ok_def py_simps)

text \<open>The second factor accepts any six characters.\<close>

lemma any_six_characters_pass: "fst (verify_mfa user code (snd (enable_mfa user s))) = Ok (length code = 6)"
  by (simp add: verify_mfa_def enable_mfa_def at_count_def py_simps)

text \<open>The points of a password are its checks that hold.\<close>

lemma password_strength:
  "validate_password_strength p = (ok, errors, score) \<Longrightarrow> (ok \<longleftrightarrow> errors = []) \<and> score + length errors = 5"
  by (auto simp: validate_password_strength_def password_checks_def Let_def)

section \<open>A concrete service\<close>

text \<open>Tokens that carry their claims in clear (as the length of the token), and hashes that are the password.\<close>

definition claims_number :: "claims \<Rightarrow> nat" where
  "claims_number c = to_nat (cl_sub c, cl_email c, cl_type c, cl_iat c, cl_exp c, cl_jti c)"

definition claims_of :: "nat \<Rightarrow> claims" where
  "claims_of n = (case from_nat n of (sub, email, kind, iat, expiry, jti) \<Rightarrow>
     \<lparr>cl_sub = sub, cl_email = email, cl_type = kind, cl_iat = iat, cl_exp = expiry, cl_jti = jti\<rparr>)"

definition plain_jwt :: jwt where
  "plain_jwt = \<lparr>jw_encode = (\<lambda>c. replicate (claims_number c) (CHR 0x2E)),
    jw_decode = (\<lambda>t s. if t < cl_iat (claims_of (length s)) then Inl InvalidToken
      else if t < cl_exp (claims_of (length s)) then Inr (claims_of (length s)) else Inl ExpiredSignature)\<rparr>"

definition plain_config :: "int \<Rightarrow> auth_config" where
  "plain_config offset = \<lparr>ac_jwt = plain_jwt,
    ac_bcrypt = \<lparr>bc_hashpw = (\<lambda>p _. Ok p), bc_checkpw = (\<lambda>p h. Ok (p = h))\<rparr>,
    ac_access_minutes = 30, ac_refresh_days = 7, ac_utc_offset = offset\<rparr>"

lemma plain_config_sel [simp]:
  "ac_jwt (plain_config z) = plain_jwt" "ac_access_minutes (plain_config z) = 30"
  "ac_refresh_days (plain_config z) = 7" "ac_utc_offset (plain_config z) = z"
  by (simp_all add: plain_config_def)

lemma plain_jwt_ok: "jwt_ok plain_jwt"
  by (simp add: jwt_ok_def plain_jwt_def claims_number_def claims_of_def)

lemma plain_bcrypt_ok: "bcrypt_ok (ac_bcrypt (plain_config z))"
  by (simp add: bcrypt_ok_def plain_config_def)

definition auth_start :: "(unit, unit) auth_state_scheme" where
  "auth_start = \<lparr>clock = 1000, uuid_next = 5, sleeps = [], exch = (), at_users = Some [], at_blocklist = Some [], at_mfa = [],
    at_metrics = \<lparr>at_registrations = 0, at_logins = 0, at_token_refreshes = 0, at_password_resets = 0, at_mfa_enables = 0\<rparr>, \<dots> = ()\<rparr>"

lemma auth_start_sel [simp]:
  "clock auth_start = 1000" "uuid_next auth_start = 5" "at_users auth_start = Some []" "at_blocklist auth_start = Some []"
  by (simp_all add: auth_start_def)

lemma auth_start_registers:
  "\<exists>t. register_user (plain_config 0) ''ada@x.org'' ''passw0rd'' None auth_start =
      (Ok \<lparr>rg_id = show_nat 6, rg_email = ''ada@x.org'', rg_full_name = None\<rparr>, t) \<and> clock t = 1000"
proof -
  have "py_lower ''ada@x.org'' = ''ada@x.org''" "CHR ''@'' \<in> set ''ada@x.org''" "length ''passw0rd'' = 8" by code_simp+
  then show ?thesis
    by (simp add: register_user_def auth_start_def plain_config_def exists_by_email_def get_by_email_def
        hash_password_def put_user_def at_count_def py_simps del: list.set)
qed

theorem registered_user_logs_in_witness:
  "\<exists>(t :: (unit, unit) auth_state_scheme) p v c. login (plain_config 0) ''Ada@x.org'' ''passw0rd'' t = (Ok p, v) \<and>
     fst (verify_token (plain_config 0) (tk_access_token p) ''access'' (v\<lparr>clock := 2799\<rparr>)) = Ok c \<and> cl_sub c = Some ''6''"
proof -
  obtain t where reg: "register_user (plain_config 0) ''ada@x.org'' ''passw0rd'' None auth_start =
      (Ok \<lparr>rg_id = show_nat 6, rg_email = ''ada@x.org'', rg_full_name = None\<rparr>, t)" and t: "clock t = 1000"
    using auth_start_registers by blast
  have same: "py_lower ''Ada@x.org'' = py_lower ''ada@x.org''" by code_simp
  have libs: "jwt_ok (ac_jwt (plain_config 0))" "blocklist_ok auth_start" "at_users auth_start \<noteq> None"
    using plain_jwt_ok by (simp_all add: blocklist_ok_def)
  obtain p u where pu: "login (plain_config 0) ''Ada@x.org'' ''passw0rd'' t = (Ok p, u)"
    and v: "\<And>v :: (unit, unit) auth_state_scheme. at_blocklist v = at_blocklist u \<Longrightarrow> 1000 \<le> clock v \<Longrightarrow> clock v < 1000 + 30 * 60 \<Longrightarrow>
      \<exists>c. verify_token (plain_config 0) (tk_access_token p) ''access'' v = (Ok c, v) \<and> cl_sub c = Some (show_nat 6)"
    using registered_user_logs_in [OF libs(1) plain_bcrypt_ok libs(2,3) reg same] t by fastforce
  from v [of "u\<lparr>clock := 2799\<rparr>"] obtain c where
    "verify_token (plain_config 0) (tk_access_token p) ''access'' (u\<lparr>clock := 2799\<rparr>) = (Ok c, u\<lparr>clock := 2799\<rparr>)"
    "cl_sub c = Some (show_nat 6)" by auto
  moreover have "show_nat 6 = ''6''" by code_simp
  ultimately have "fst (verify_token (plain_config 0) (tk_access_token p) ''access'' (u\<lparr>clock := 2799\<rparr>)) = Ok c \<and>
    cl_sub c = Some ''6''" by simp
  with pu show ?thesis by blast
qed

definition some_claims :: "string \<Rightarrow> string option \<Rightarrow> claims" where
  "some_claims kind jti = \<lparr>cl_sub = Some ''6'', cl_email = None, cl_type = kind, cl_iat = 1000, cl_exp = 2800, cl_jti = jti\<rparr>"

theorem revoking_stops_access_only_witness:
  "(\<exists>tok t. refresh_access (plain_config 0) (jw_encode plain_jwt (some_claims ''refresh'' None)) auth_start = (Ok tok, t)) \<and>
   (\<exists>v. v = snd (revoke_token (plain_config 0) (jw_encode plain_jwt (some_claims ''access'' (Some ''7''))) auth_start) \<and>
      verify_token (plain_config 0) (jw_encode plain_jwt (some_claims ''access'' (Some ''7''))) ''access'' v = (Raise auth_error, v))"
  using revoking_stops_access_only [of "plain_config 0" auth_start "[]" "some_claims ''access'' (Some ''7'')" "some_claims ''refresh'' None"]
    plain_jwt_ok by (simp add: some_claims_def truthy_def)

theorem tokens_refused_behind_utc_witness:
  "\<exists>token t. create_access_token (plain_config (-18000)) ''6'' None None auth_start = (Ok token, t) \<and>
     verify_token (plain_config (-18000)) token ''access'' t = (Raise auth_error, t)"
proof -
  obtain token t where "create_access_token (plain_config (-18000)) ''6'' None None auth_start = (Ok token, t)"
    by (simp add: create_access_token_def py_simps)
  then show ?thesis
    using tokens_refused_behind_utc [of "plain_config (-18000)" "''6''" None auth_start token t t] plain_jwt_ok by simp
qed

end
