(* ===== verification/ExchangeTransport.thy ===== *)
theory ExchangeTransport
  imports DomainTypes JsonValues
begin

text \<open>
  The transport under the exchange clients: \<^verbatim>\<open>exchanges/retry.py\<close>, \<^verbatim>\<open>exchanges/rate_limiter.py\<close>,
  \<^verbatim>\<open>exchanges/errors.py\<close>, \<^verbatim>\<open>exchanges/http_client.py\<close> and \<^verbatim>\<open>exchanges/factory.py\<close>. The library
  httpx is a parameter: a function from a request and the state of the other side to an outcome.
  The clock \<^verbatim>\<open>time.monotonic()\<close> is a field of the state; a sleep lasts as long as the state's
  \<open>tr_lasts\<close> says. Floats are rationals, without rounding.
\<close>

section \<open>Requests and outcomes\<close>

text \<open>Of a response the status code and the JSON value of its body, \<open>None\<close> when it is not JSON.\<close>

record http_response =
  rs_status :: int
  rs_body :: "json option"

text \<open>The body of a request: text, or a value that the library writes as JSON.\<close>

datatype http_content = NoContent | TextBody string | JsonBody json

record http_request =
  rq_method :: string
  rq_url :: string
  rq_params :: "(string, json) dict"
  rq_headers :: "(string, string) dict"
  rq_content :: http_content

datatype http_failure = TimeoutException | NetworkFailure

datatype http_outcome = Response http_response | Failed http_failure | Raised exn

section \<open>Retry policy\<close>

record retry_policy =
  rp_max_retries :: int
  rp_base_delay :: rat
  rp_max_delay :: rat
  rp_exponential_base :: rat
  rp_retryable :: "http_failure \<Rightarrow> bool"
  rp_status_codes :: "int list"

definition default_policy :: retry_policy where
  "default_policy = \<lparr>rp_max_retries = 3, rp_base_delay = 1, rp_max_delay = 60, rp_exponential_base = 2,
     rp_retryable = (\<lambda>_. True), rp_status_codes = [429, 500, 502, 503, 504]\<rparr>"

definition should_retry :: "retry_policy \<Rightarrow> int \<Rightarrow> http_failure option \<Rightarrow> bool" where
  "should_retry p attempt failure =
     (if rp_max_retries p \<le> attempt then False
      else (case failure of None \<Rightarrow> True | Some f \<Rightarrow> rp_retryable p f))"

definition should_retry_status :: "retry_policy \<Rightarrow> int \<Rightarrow> bool" where
  "should_retry_status p status \<longleftrightarrow> status \<in> set (rp_status_codes p)"

definition delay_for :: "retry_policy \<Rightarrow> int \<Rightarrow> rat" where
  "delay_for p attempt = min (rp_base_delay p * power_int (rp_exponential_base p) (attempt - 1)) (rp_max_delay p)"

definition with_overrides :: "retry_policy \<Rightarrow> int option \<Rightarrow> rat option \<Rightarrow> rat option \<Rightarrow> retry_policy" where
  "with_overrides p retries base cap = p
     \<lparr>rp_max_retries := (case retries of None \<Rightarrow> rp_max_retries p | Some n \<Rightarrow> if n = 0 then rp_max_retries p else n),
      rp_base_delay := (case base of None \<Rightarrow> rp_base_delay p | Some d \<Rightarrow> if d = 0 then rp_base_delay p else d),
      rp_max_delay := (case cap of None \<Rightarrow> rp_max_delay p | Some d \<Rightarrow> if d = 0 then rp_max_delay p else d)\<rparr>"

section \<open>Rate limiter\<close>

record rate_limit =
  rl_max_tokens :: rat
  rl_refill_rate :: rat

record rate_limiter =
  lm_default :: rate_limit
  lm_configs :: "(string, rate_limit) dict"
  lm_tokens :: "(string, rat) dict"
  lm_last_update :: "(string, rat) dict"

definition new_limiter :: "rate_limit option \<Rightarrow> rate_limiter" where
  "new_limiter d = \<lparr>lm_default = (case d of None \<Rightarrow> \<lparr>rl_max_tokens = 120, rl_refill_rate = 120\<rparr> | Some c \<Rightarrow> c),
     lm_configs = [], lm_tokens = [], lm_last_update = []\<rparr>"

definition configure_limit :: "string \<Rightarrow> rate_limit \<Rightarrow> rate_limiter \<Rightarrow> rate_limiter" where
  "configure_limit e c l = l\<lparr>lm_configs := dput e c (lm_configs l), lm_tokens := dput e (rl_max_tokens c) (lm_tokens l)\<rparr>"

definition limit_of :: "string \<Rightarrow> rate_limiter \<Rightarrow> rate_limit" where
  "limit_of e l = (case dget (lm_configs l) e of None \<Rightarrow> lm_default l | Some c \<Rightarrow> c)"

text \<open>The two dictionaries of the limiter have defaults: a full bucket of the default limit, and now.\<close>

definition tokens_of :: "string \<Rightarrow> rate_limiter \<Rightarrow> rat" where
  "tokens_of e l = (case dget (lm_tokens l) e of None \<Rightarrow> rl_max_tokens (lm_default l) | Some x \<Rightarrow> x)"

definition refill :: "rat \<Rightarrow> string \<Rightarrow> rate_limiter \<Rightarrow> rate_limiter" where
  "refill t e l =
     (let elapsed = t - (case dget (lm_last_update l) e of None \<Rightarrow> t | Some u \<Rightarrow> u);
          c = limit_of e l
      in l\<lparr>lm_last_update := dput e t (lm_last_update l),
           lm_tokens := dput e (min (rl_max_tokens c) (tokens_of e l + elapsed * rl_refill_rate c)) (lm_tokens l)\<rparr>)"

record 'x net = "'x world" +
  tr_mono :: rat
  tr_lasts :: "rat \<Rightarrow> rat"
  tr_limiter :: rate_limiter

type_synonym ('x, 'm, 'a) transporting = "(('x, 'm) net_scheme, 'a) py"

definition nap :: "rat \<Rightarrow> ('x, 'm, unit) transporting" where
  "nap d = seq (sleep d) (modify (\<lambda>s. s\<lparr>tr_mono := tr_mono s + tr_lasts s d\<rparr>))"

text \<open>
  The loop of \<^verbatim>\<open>acquire\<close> runs until the bucket holds enough tokens. The first argument bounds its
  rounds; \<^verbatim>\<open>TransportLaws\<close> shows that two are enough when sleeps last at least as long as asked.
\<close>

definition still_waiting :: exn where
  "still_waiting = Exn OtherException [''still waiting'']"

definition zero_division :: exn where
  "zero_division = Exn OtherException [''ZeroDivisionError'']"

fun acquire_loop :: "nat \<Rightarrow> string \<Rightarrow> rat \<Rightarrow> rat \<Rightarrow> ('x, 'm, rat) transporting" where
  "acquire_loop 0 e n waited = throw still_waiting"
| "acquire_loop (Suc k) e n waited =
     seq (modify (\<lambda>s. s\<lparr>tr_limiter := refill (tr_mono s) e (tr_limiter s)\<rparr>))
     (reading (\<lambda>s.
        if n \<le> tokens_of e (tr_limiter s)
        then seq (modify (\<lambda>s. s\<lparr>tr_limiter := (tr_limiter s)\<lparr>lm_tokens :=
                   dput e (tokens_of e (tr_limiter s) - n) (lm_tokens (tr_limiter s))\<rparr>\<rparr>))
               (ret waited)
        else let rate = rl_refill_rate (limit_of e (tr_limiter s)) in
          if rate = 0 then throw zero_division
          else let wait = (n - tokens_of e (tr_limiter s)) / rate in
            seq (nap wait) (acquire_loop k e n (waited + wait))))"

definition acquire :: "nat \<Rightarrow> string \<Rightarrow> rat \<Rightarrow> ('x, 'm, rat) transporting" where
  "acquire rounds e n = reading (\<lambda>s.
     if n \<le> 0 then ret 0
     else if rl_max_tokens (limit_of e (tr_limiter s)) < n then throw (Exn PyValueError [])
     else acquire_loop rounds e n 0)"

definition can_acquire :: "string \<Rightarrow> rat \<Rightarrow> ('x, 'm, bool) transporting" where
  "can_acquire e n =
     seq (modify (\<lambda>s. s\<lparr>tr_limiter := refill (tr_mono s) e (tr_limiter s)\<rparr>))
       (gets (\<lambda>s. n \<le> tokens_of e (tr_limiter s)))"

definition reset_limiter :: "string option \<Rightarrow> ('x, 'm, unit) transporting" where
  "reset_limiter endpoint = modify (\<lambda>s. s\<lparr>tr_limiter := (let l = tr_limiter s in case endpoint of
      None \<Rightarrow> l\<lparr>lm_tokens := [], lm_last_update := []\<rparr>
    | Some e \<Rightarrow> l\<lparr>lm_tokens := dput e (rl_max_tokens (limit_of e l)) (lm_tokens l),
                 lm_last_update := dput e (tr_mono s) (lm_last_update l)\<rparr>)\<rparr>)"

section \<open>Errors\<close>

text \<open>The arguments of the exception are the name of the exchange and the error code.\<close>

definition map_http_error :: "string \<Rightarrow> int \<Rightarrow> exn" where
  "map_http_error name status =
     (if status = 429 then Exn ExchangeRateLimitError [name, ''RATE_LIMIT'']
      else if 500 \<le> status \<or> status \<in> set [502, 503, 504] then Exn ExchangeConnectionError [name, ''SERVER_ERROR'']
      else if 400 \<le> status then Exn ExchangeError [name, ''HTTP_ERROR'']
      else Exn ExchangeError [name, ''UNKNOWN''])"

definition map_network_error :: "string \<Rightarrow> exn" where
  "map_network_error name = Exn ExchangeConnectionError [name, ''NETWORK_ERROR'']"

definition map_websocket_error :: "string \<Rightarrow> exn" where
  "map_websocket_error name = Exn ExchangeError [name, ''WEBSOCKET_ERROR'']"

section \<open>HTTP client\<close>

record 'x http_client =
  hc_base_url :: string
  hc_policy :: retry_policy
  hc_limited :: bool
  hc_exchange_name :: string
  hc_send :: "http_request \<Rightarrow> 'x \<Rightarrow> http_outcome \<times> 'x"

definition slash :: char where
  "slash = CHR ''/''"

definition strip_slashes :: "string \<Rightarrow> string" where
  "strip_slashes s = rev (dropWhile (\<lambda>c. c = slash) (rev s))"

definition http_url :: "'x http_client \<Rightarrow> string \<Rightarrow> string" where
  "http_url c path = hc_base_url c @ [slash] @ dropWhile (\<lambda>c. c = slash) path"

definition error_name :: "'x http_client \<Rightarrow> string" where
  "error_name c = (if hc_exchange_name c = [] then ''exchange'' else hc_exchange_name c)"

definition send_once :: "'x http_client \<Rightarrow> http_request \<Rightarrow> ('x, 'm, http_outcome) transporting" where
  "send_once c q = (\<lambda>s. case hc_send c q (exch s) of (r, x) \<Rightarrow> (Ok r, s\<lparr>exch := x\<rparr>))"

text \<open>
  The loop over the attempts. The first argument bounds the attempts that are left; it starts at
  \<^verbatim>\<open>max_retries\<close>, which is enough because \<^verbatim>\<open>should_retry\<close> is false from there on.
\<close>

definition timed_out :: exn where
  "timed_out = Exn TimeoutError []"

fun http_loop :: "nat \<Rightarrow> int \<Rightarrow> 'x http_client \<Rightarrow> http_request \<Rightarrow> ('x, 'm, http_response) transporting" where
  "http_loop k attempt c q =
     (let p = hc_policy c;
          again = (case k of 0 \<Rightarrow> throw still_waiting
             | Suc k' \<Rightarrow> seq (nap (delay_for p attempt)) (http_loop k' (attempt + 1) c q))
      in bind (send_once c q) (\<lambda>outcome. case outcome of
          Response r \<Rightarrow>
            if rs_status r < 500 then ret r
            else if \<not> should_retry_status p (rs_status r) then ret r
            else if \<not> should_retry p attempt None then ret r
            else again
        | Failed TimeoutException \<Rightarrow>
            if \<not> should_retry p attempt (Some TimeoutException) then throw timed_out else again
        | Failed NetworkFailure \<Rightarrow>
            if \<not> should_retry p attempt (Some NetworkFailure) then throw (map_network_error (error_name c))
            else again
        | Raised e \<Rightarrow> throw e))"

text \<open>The adapters pass neither \<^verbatim>\<open>endpoint_key\<close> nor \<^verbatim>\<open>rate_limit_tokens\<close>: one token of the bucket \<^verbatim>\<open>default\<close>.\<close>

definition perform_request :: "'x http_client \<Rightarrow> string \<Rightarrow> string \<Rightarrow> string \<Rightarrow> rat \<Rightarrow> (string, json) dict \<Rightarrow>
    (string, string) dict \<Rightarrow> http_content \<Rightarrow> ('x, 'm, http_response) transporting" where
  "perform_request c method path endpoint_key tokens params headers content =
     seq (if hc_limited c then bind (acquire 2 endpoint_key tokens) (\<lambda>_. ret ()) else ret ())
       (http_loop (nat (rp_max_retries (hc_policy c))) 1 c
          \<lparr>rq_method = py_upper method, rq_url = http_url c path, rq_params = params, rq_headers = headers,
           rq_content = content\<rparr>)"

definition http_get :: "'x http_client \<Rightarrow> string \<Rightarrow> (string, json) dict \<Rightarrow> (string, string) dict \<Rightarrow>
    ('x, 'm, http_response) transporting" where
  "http_get c path params headers = perform_request c ''GET'' path ''default'' 1 params headers NoContent"

definition http_post :: "'x http_client \<Rightarrow> string \<Rightarrow> http_content \<Rightarrow> (string, string) dict \<Rightarrow>
    ('x, 'm, http_response) transporting" where
  "http_post c path content headers = perform_request c ''POST'' path ''default'' 1 [] headers content"

definition http_put :: "'x http_client \<Rightarrow> string \<Rightarrow> (string, json) dict \<Rightarrow> (string, string) dict \<Rightarrow>
    ('x, 'm, http_response) transporting" where
  "http_put c path params headers = perform_request c ''PUT'' path ''default'' 1 params headers NoContent"

definition http_delete :: "'x http_client \<Rightarrow> string \<Rightarrow> (string, json) dict \<Rightarrow> (string, string) dict \<Rightarrow>
    ('x, 'm, http_response) transporting" where
  "http_delete c path params headers = perform_request c ''DELETE'' path ''default'' 1 params headers NoContent"

section \<open>Adapter factory and credentials\<close>

definition factory_register :: "string \<Rightarrow> 'c \<Rightarrow> (string, 'c) dict \<Rightarrow> (string, 'c) dict" where
  "factory_register name cls registry = dput (py_lower name) cls registry"

text \<open>The class to instantiate, and the name the instance gets.\<close>

definition factory_create :: "string \<Rightarrow> (string, 'c) dict \<Rightarrow> ('c \<times> string) res" where
  "factory_create name registry = (case dget registry (py_lower name) of
      None \<Rightarrow> Raise (Exn PyValueError [name]) | Some cls \<Rightarrow> Ok (cls, name))"

definition factory_is_registered :: "string \<Rightarrow> (string, 'c) dict \<Rightarrow> bool" where
  "factory_is_registered name registry \<longleftrightarrow> dget registry (py_lower name) \<noteq> None"

definition factory_exchanges :: "(string, 'c) dict \<Rightarrow> string list" where
  "factory_exchanges registry = map fst registry"

text \<open>The cipher is a parameter; an error of any kind becomes an authentication error.\<close>

definition encrypt_credential :: "(string \<Rightarrow> string res) \<Rightarrow> string \<Rightarrow> string res" where
  "encrypt_credential cipher s = (case cipher s of Ok c \<Rightarrow> Ok c | Raise _ \<Rightarrow> Raise (Exn AuthenticationError []))"

definition decrypt_credential :: "(string \<Rightarrow> string res) \<Rightarrow> string \<Rightarrow> string res" where
  "decrypt_credential cipher s = (case cipher s of Ok c \<Rightarrow> Ok c | Raise _ \<Rightarrow> Raise (Exn AuthenticationError []))"

definition mask_credential :: "string \<Rightarrow> int \<Rightarrow> string" where
  "mask_credential v visible =
     (if visible \<le> 0 then replicate (length v) (CHR ''*'')
      else if int (length v) \<le> visible then v
      else replicate (length v - nat visible) (CHR ''*'') @ drop (length v - nat visible) v)"

end
