(* ===== verification/TransportLaws.thy ===== *)
theory TransportLaws
  imports ExchangeTransport
begin

text \<open>
  What the transport promises: the rate limiter never grants more than the capacity of the bucket
  and what flowed in since, and always grants in the end; an HTTP request is repeated as often as
  the policy says, and its answer is that of the attempt that ended it.
\<close>

section \<open>The bucket\<close>

text \<open>The tokens an endpoint could be granted right now.\<close>

definition last_refill :: "string \<Rightarrow> ('x, 'm) net_scheme \<Rightarrow> rat" where
  "last_refill e s = (case dget (lm_last_update (tr_limiter s)) e of None \<Rightarrow> tr_mono s | Some u \<Rightarrow> u)"

definition available :: "string \<Rightarrow> ('x, 'm) net_scheme \<Rightarrow> rat" where
  "available e s = (let c = limit_of e (tr_limiter s) in
     min (rl_max_tokens c) (tokens_of e (tr_limiter s) + (tr_mono s - last_refill e s) * rl_refill_rate c))"

definition bucket_ok :: "string \<Rightarrow> rate_limit \<Rightarrow> ('x, 'm) net_scheme \<Rightarrow> bool" where
  "bucket_ok e c s \<longleftrightarrow> limit_of e (tr_limiter s) = c \<and> 0 \<le> rl_refill_rate c \<and> 0 \<le> rl_max_tokens c \<and>
     0 \<le> tokens_of e (tr_limiter s) \<and> last_refill e s \<le> tr_mono s \<and> (\<forall>d. 0 \<le> d \<longrightarrow> 0 \<le> tr_lasts s d)"

lemma bucket_okD:
  assumes "bucket_ok e c s"
  shows "limit_of e (tr_limiter s) = c" "0 \<le> rl_refill_rate c" "0 \<le> rl_max_tokens c"
    "0 \<le> tokens_of e (tr_limiter s)" "last_refill e s \<le> tr_mono s" "0 \<le> d \<Longrightarrow> 0 \<le> tr_lasts s d"
  using assms unfolding bucket_ok_def by blast+

lemma available_bounds: "bucket_ok e c s \<Longrightarrow> 0 \<le> available e s \<and> available e s \<le> rl_max_tokens c"
  by (simp add: bucket_ok_def available_def Let_def)

text \<open>The contract of everything that grants nothing: time passes, and no more flows in than the rate.\<close>

definition flows :: "string \<Rightarrow> rate_limit \<Rightarrow> ('x, 'm) net_scheme \<Rightarrow> ('x, 'm) net_scheme \<Rightarrow> bool" where
  "flows e c s t \<longleftrightarrow> (bucket_ok e c s \<longrightarrow> bucket_ok e c t \<and> tr_mono s \<le> tr_mono t \<and>
     available e t \<le> available e s + rl_refill_rate c * (tr_mono t - tr_mono s))"

interpretation flowing: step_contract "flows e c" for e c
  by unfold_locales (auto simp: flows_def algebra_simps)

definition pass_time :: "rat \<Rightarrow> ('x, 'm) net_scheme \<Rightarrow> ('x, 'm) net_scheme" where
  "pass_time d s = s\<lparr>tr_mono := tr_mono s + d\<rparr>"

lemma passed:
  "tr_limiter (pass_time d s) = tr_limiter s" "tr_mono (pass_time d s) = tr_mono s + d"
  "tr_lasts (pass_time d s) = tr_lasts s"
  "last_refill e (pass_time d s) =
     (if dget (lm_last_update (tr_limiter s)) e = None then tr_mono s + d else last_refill e s)"
  by (auto simp: pass_time_def last_refill_def split: option.splits)

lemma passed_available:
  assumes "bucket_ok e c s" and "0 \<le> d"
  shows "available e (pass_time d s) \<le> available e s + rl_refill_rate c * d"
proof -
  have r: "limit_of e (tr_limiter s) = c" and rd: "0 \<le> rl_refill_rate c * d" using bucket_okD(1,2) [OF assms(1)] assms(2) by simp_all
  show ?thesis
  proof (cases "dget (lm_last_update (tr_limiter s)) e")
    case None
    then have "last_refill e s = tr_mono s" by (simp add: last_refill_def)
    then show ?thesis using rd None by (simp add: available_def passed)
  next
    case (Some u)
    then show ?thesis using rd r
      by (simp add: available_def passed Let_def min_def algebra_simps)
  qed
qed

lemma time_flows: "0 \<le> d \<Longrightarrow> flows e c s (pass_time d s)"
  using passed_available [of e c s d] by (simp add: flows_def bucket_ok_def passed)

lemma nap_eq: "snd (nap d s) = pass_time (tr_lasts s d) (s\<lparr>sleeps := sleeps s @ [d]\<rparr>)"
  by (simp add: nap_def pass_time_def py_simps)

lemma sleeps_frame:
  "tr_limiter (s\<lparr>sleeps := ds\<rparr>) = tr_limiter s" "last_refill e (s\<lparr>sleeps := ds\<rparr>) = last_refill e s"
  by (simp_all add: last_refill_def cong: option.case_cong)

lemma nap_flows:
  assumes "0 \<le> d"
  shows "flows e c s (snd (nap d s))"
proof -
  have "flows e c s (s\<lparr>sleeps := sleeps s @ [d]\<rparr>)"
    by (simp add: flows_def bucket_ok_def available_def sleeps_frame)
  moreover have "flows e c (s\<lparr>sleeps := sleeps s @ [d]\<rparr>) (snd (nap d s))" if "bucket_ok e c s"
    unfolding nap_eq using bucket_okD(6) [OF that assms] by (rule time_flows)
  ultimately show ?thesis by (metis flowing.R_trans flows_def)
qed

lemma limit_of_refill [simp]: "limit_of e (refill t e' l) = limit_of e l"
  by (simp add: limit_of_def refill_def Let_def split: option.splits)

lemma refilled:
  "available e' (s\<lparr>tr_limiter := refill (tr_mono s) e (tr_limiter s)\<rparr>) = available e' s"
  "tokens_of e (refill (tr_mono s) e (tr_limiter s)) = available e s"
  "last_refill e (s\<lparr>tr_limiter := refill (tr_mono s) e (tr_limiter s)\<rparr>) = tr_mono s"
  by (auto simp: available_def refill_def tokens_of_def last_refill_def limit_of_def Let_def split: option.splits)

lemma refill_stamps [simp]: "dget (lm_last_update (refill t e l)) e = Some t"
  by (simp add: refill_def Let_def)

lemma refill_other:
  assumes "e' \<noteq> e"
  shows "tokens_of e' (refill t e l) = tokens_of e' l"
    "last_refill e' (s\<lparr>tr_limiter := refill t e (tr_limiter s)\<rparr>) = last_refill e' s"
  using assms by (simp_all add: tokens_of_def last_refill_def refill_def Let_def split: option.splits)

lemma refill_flows: "flows e c s (s\<lparr>tr_limiter := refill (tr_mono s) e' (tr_limiter s)\<rparr>)"
proof (cases "bucket_ok e c s")
  case True
  have "bucket_ok e c (s\<lparr>tr_limiter := refill (tr_mono s) e' (tr_limiter s)\<rparr>)"
  proof (cases "e' = e")
    case same: True
    show ?thesis using True available_bounds [OF True] by (simp add: bucket_ok_def same refilled)
  next
    case False
    then show ?thesis using True by (simp add: bucket_ok_def refill_other)
  qed
  then show ?thesis using True by (simp add: flows_def refilled)
qed (simp add: flows_def)

section \<open>Acquiring\<close>

definition take_tokens :: "string \<Rightarrow> rat \<Rightarrow> ('x, 'm) net_scheme \<Rightarrow> ('x, 'm) net_scheme" where
  "take_tokens e n s = s\<lparr>tr_limiter := (tr_limiter s)\<lparr>lm_tokens :=
     dput e (tokens_of e (tr_limiter s) - n) (lm_tokens (tr_limiter s))\<rparr>\<rparr>"

definition refilled_state :: "string \<Rightarrow> ('x, 'm) net_scheme \<Rightarrow> ('x, 'm) net_scheme" where
  "refilled_state e s = s\<lparr>tr_limiter := refill (tr_mono s) e (tr_limiter s)\<rparr>"

lemma acquire_loop_step:
  "acquire_loop (Suc k) e n waited s =
     (let s' = refilled_state e s; rate = rl_refill_rate (limit_of e (tr_limiter s)) in
      if n \<le> available e s then (Ok waited, take_tokens e n s')
      else if rate = 0 then (Raise zero_division, s')
      else let wait = (n - available e s) / rate in
        acquire_loop k e n (waited + wait) (snd (nap wait s')))"
  by (simp add: py_simps refilled_state_def take_tokens_def refilled Let_def nap_def)

declare acquire_loop.simps(2) [simp del]

text \<open>A grant takes what it grants out of the bucket, and nothing out of the others.\<close>

definition granted :: "string \<Rightarrow> string \<Rightarrow> rat \<Rightarrow> 'a res \<Rightarrow> rat" where
  "granted e e' n r = (case r of Ok _ \<Rightarrow> if e' = e \<and> 0 < n then n else 0 | Raise _ \<Rightarrow> 0)"

lemma taken:
  "limit_of e' (tr_limiter (take_tokens e n s)) = limit_of e' (tr_limiter s)"
  "last_refill e' (take_tokens e n s) = last_refill e' s"
  "tokens_of e' (tr_limiter (take_tokens e n s)) =
     (if e' = e then tokens_of e (tr_limiter s) - n else tokens_of e' (tr_limiter s))"
  "tr_mono (take_tokens e n s) = tr_mono s" "tr_lasts (take_tokens e n s) = tr_lasts s"
  by (simp_all add: take_tokens_def tokens_of_def last_refill_def limit_of_def split: option.splits)

lemma taken_own:
  assumes "bucket_ok e c s" and "n \<le> tokens_of e (tr_limiter s)" "0 \<le> n" and "last_refill e s = tr_mono s"
  shows "bucket_ok e c (take_tokens e n s) \<and> available e (take_tokens e n s) + n \<le> tokens_of e (tr_limiter s)"
  using assms by (simp add: bucket_ok_def available_def taken)

lemma taken_other: "e' \<noteq> e \<Longrightarrow> flows e c s (take_tokens e' n s)"
  by (simp add: flows_def bucket_ok_def available_def taken)

lemma acquire_loop_spends:
  assumes "bucket_ok e c s" and "bucket_ok e' c' s" and "0 < n"
    and "acquire_loop k e' n w s = (r, t)"
  shows "bucket_ok e c t \<and> bucket_ok e' c' t \<and> tr_mono s \<le> tr_mono t \<and>
    granted e e' n r + available e t \<le> available e s + rl_refill_rate c * (tr_mono t - tr_mono s)"
  using assms
proof (induction k arbitrary: s w)
  case 0
  then show ?case by (auto simp: throw_def granted_def)
next
  case (Suc k)
  let ?s = "refilled_state e' s"
  note ok = Suc.prems(1) and ok' = Suc.prems(2)
  have own: "bucket_ok e' c' ?s" and r: "bucket_ok e c ?s" "available e ?s = available e s" "tr_mono ?s = tr_mono s"
    using refill_flows [of e c s e'] refill_flows [of e' c' s e'] ok ok'
    by (simp_all add: flows_def refilled_state_def refilled)
  show ?case
  proof (cases "n \<le> available e' s")
    case True
    with Suc.prems(4) have rt: "r = Ok w" "t = take_tokens e' n ?s" by (simp_all add: acquire_loop_step Let_def)
    have tok: "tokens_of e' (tr_limiter ?s) = available e' s" "last_refill e' ?s = tr_mono ?s"
      by (simp_all add: refilled_state_def refilled)
    have mono: "tr_mono (take_tokens e' n ?s) = tr_mono s" by (simp add: take_tokens_def r)
    have mine: "bucket_ok e' c' (take_tokens e' n ?s) \<and> available e' (take_tokens e' n ?s) + n \<le> available e' s"
      using taken_own [OF own, of n] True Suc.prems(3) tok by simp
    show ?thesis
    proof (cases "e' = e")
      case same: True
      have "c' = c" using bucket_okD(1) [OF ok] bucket_okD(1) [OF ok'] same by simp
      then show ?thesis using mine rt mono same Suc.prems(3) by (simp add: granted_def)
    next
      case False
      then show ?thesis using taken_other [of e' e c ?s n] r mine rt mono by (simp add: flows_def granted_def)
    qed
  next
    case False
    let ?rate = "rl_refill_rate (limit_of e' (tr_limiter s))"
    show ?thesis
    proof (cases "?rate = 0")
      case True
      with False Suc.prems(4) show ?thesis using r own by (auto simp: acquire_loop_step Let_def granted_def)
    next
      case rate: False
      let ?wait = "(n - available e' s) / ?rate"
      have "0 \<le> ?wait" using False rate bucket_okD(1,2) [OF ok'] by (simp add: divide_nonneg_pos)
      then have n: "flows e c ?s (snd (nap ?wait ?s))" "flows e' c' ?s (snd (nap ?wait ?s))" by (rule nap_flows)+
      with r own have ok2: "bucket_ok e c (snd (nap ?wait ?s))" "bucket_ok e' c' (snd (nap ?wait ?s))"
        and m: "tr_mono s \<le> tr_mono (snd (nap ?wait ?s))"
        and a: "available e (snd (nap ?wait ?s)) \<le>
          available e s + rl_refill_rate c * (tr_mono (snd (nap ?wait ?s)) - tr_mono s)"
        by (simp_all add: flows_def)
      have "acquire_loop k e' n (w + ?wait) (snd (nap ?wait ?s)) = (r, t)"
        using Suc.prems(4) False rate by (simp add: acquire_loop_step Let_def)
      from Suc.IH [OF ok2 Suc.prems(3) this] m a show ?thesis by (auto simp: algebra_simps)
    qed
  qed
qed

text \<open>
  What can happen to a limiter once it is configured: time passes, and one endpoint or another
  acquires tokens or is asked whether it could. \<open>g\<close> adds up what the endpoint \<open>e\<close> was granted.
\<close>

inductive limiter_history :: "string \<Rightarrow> ('x, 'm) net_scheme \<Rightarrow> rat \<Rightarrow> ('x, 'm) net_scheme \<Rightarrow> bool"
  for e :: string and s :: "('x, 'm) net_scheme"
where
  opened: "limiter_history e s 0 s"
| waited: "limiter_history e s g t \<Longrightarrow> 0 \<le> d \<Longrightarrow> limiter_history e s g (pass_time d t)"
| acquired: "limiter_history e s g t \<Longrightarrow> acquire k e' n t = (r, u) \<Longrightarrow>
    limiter_history e s (g + granted e e' n r) u"
| asked: "limiter_history e s g t \<Longrightarrow> limiter_history e s g (snd (can_acquire e' n t))"

definition buckets_ok :: "('x, 'm) net_scheme \<Rightarrow> bool" where
  "buckets_ok s \<longleftrightarrow> (\<forall>e. bucket_ok e (limit_of e (tr_limiter s)) s)"

lemma can_acquire_eq: "snd (can_acquire e n s) = refilled_state e s"
  by (simp add: can_acquire_def refilled_state_def py_simps)

lemma flows_limits: "flows e (limit_of e (tr_limiter s)) s t \<Longrightarrow> bucket_ok e (limit_of e (tr_limiter s)) s \<Longrightarrow>
    limit_of e (tr_limiter t) = limit_of e (tr_limiter s)"
  by (auto simp: flows_def bucket_ok_def)

lemma history_spends:
  assumes "limiter_history e s g t" and "buckets_ok s" and "c = limit_of e (tr_limiter s)"
  shows "(\<forall>e'. bucket_ok e' (limit_of e' (tr_limiter s)) t) \<and>
    g + available e t \<le> available e s + rl_refill_rate c * (tr_mono t - tr_mono s)"
  using assms(1)
proof (induction rule: limiter_history.induct)
  case opened
  then show ?case using assms(2) by (simp add: buckets_ok_def)
next
  case (waited g t d)
  have "flows e' (limit_of e' (tr_limiter s)) t (pass_time d t)" for e' using waited.hyps by (intro time_flows)
  then have "bucket_ok e' (limit_of e' (tr_limiter s)) (pass_time d t)"
    and "available e (pass_time d t) \<le> available e t + rl_refill_rate c * (tr_mono (pass_time d t) - tr_mono t)" for e'
    using waited.IH assms(3) by (simp_all add: flows_def)
  then show ?case using waited.IH by (auto simp: algebra_simps)
next
  case (acquired g t k e' n r u)
  show ?case
  proof (cases "0 < n \<and> n \<le> rl_max_tokens (limit_of e' (tr_limiter t))")
    case True
    then have run: "acquire_loop k e' n 0 t = (r, u)" using acquired.hyps by (simp add: acquire_def py_simps)
    have spend: "bucket_ok x (limit_of x (tr_limiter s)) u \<and>
        granted x e' n r + available x u \<le> available x t + rl_refill_rate (limit_of x (tr_limiter s)) * (tr_mono u - tr_mono t)"
      for x using acquire_loop_spends [OF _ _ _ run] True acquired.IH by blast
    have "granted e e' n r + available e u \<le> available e t + rl_refill_rate c * (tr_mono u - tr_mono t)"
      using spend [of e] assms(3) by simp
    then have "g + granted e e' n r + available e u \<le> available e s + rl_refill_rate c * (tr_mono u - tr_mono s)"
      using acquired.IH by (simp add: algebra_simps)
    then show ?thesis using spend by blast
  next
    case False
    then have "u = t" "granted e e' n r = 0"
      using acquired.hyps by (auto simp: acquire_def granted_def py_simps split: if_splits res.splits)
    then show ?thesis using acquired.IH by simp
  qed
next
  case (asked g t e' n)
  have "flows x (limit_of x (tr_limiter s)) t (snd (can_acquire e' n t))" for x
    unfolding can_acquire_eq refilled_state_def by (rule refill_flows)
  then have "bucket_ok x (limit_of x (tr_limiter s)) (snd (can_acquire e' n t))" for x
    using asked.IH by (auto simp: flows_def)
  moreover have "tr_mono (snd (can_acquire e' n t)) = tr_mono t"
    "available e (snd (can_acquire e' n t)) = available e t"
    by (simp_all add: can_acquire_eq refilled_state_def refilled)
  ultimately show ?case using asked.IH by simp
qed

text \<open>
  C32. The limit is never exceeded. Over any history of a limiter, whatever other endpoints acquire
  meanwhile and however long sleeps last, an endpoint is granted no more tokens than the capacity of
  its bucket and what its rate let in over the time that passed.
\<close>

theorem rate_limit_respected:
  assumes "limiter_history e s g t" and "buckets_ok s"
  shows "g \<le> rl_max_tokens (limit_of e (tr_limiter s)) +
    rl_refill_rate (limit_of e (tr_limiter s)) * (tr_mono t - tr_mono s)"
proof -
  have "bucket_ok e (limit_of e (tr_limiter s)) t"
    "g + available e t \<le> available e s + rl_refill_rate (limit_of e (tr_limiter s)) * (tr_mono t - tr_mono s)"
    using history_spends [OF assms refl] by blast+
  moreover have "available e s \<le> rl_max_tokens (limit_of e (tr_limiter s))" by (simp add: available_def Let_def)
  ultimately show ?thesis using available_bounds by fastforce
qed

text \<open>When sleeps last at least as long as asked, the second round of the loop grants.\<close>

lemma acquire_returns:
  assumes ok: "bucket_ok e c s" and rate: "0 < rl_refill_rate c" and n: "n \<le> rl_max_tokens c"
    and honest: "\<And>d. 0 \<le> d \<Longrightarrow> d \<le> tr_lasts s d"
  shows "\<exists>w t. acquire (Suc (Suc k)) e n s = (Ok w, t) \<and> exch t = exch s \<and> (sleeps t = sleeps s \<or> sleeps t = sleeps s @ [w])"
proof (cases "n \<le> 0 \<or> n \<le> available e s")
  case True
  then show ?thesis using n bucket_okD(1) [OF ok]
    by (auto simp: acquire_def reading_def ret_def throw_def acquire_loop_step Let_def take_tokens_def refilled_state_def)
next
  case False
  let ?wait = "(n - available e s) / rl_refill_rate c" and ?s = "refilled_state e s"
  let ?t = "snd (nap ?wait ?s)"
  have c: "limit_of e (tr_limiter s) = c" using bucket_okD(1) [OF ok] .
  have w: "0 \<le> ?wait" "?wait \<le> tr_lasts s ?wait" using False rate honest by (simp_all add: divide_nonneg_pos)
  have t: "?t = pass_time (tr_lasts s ?wait) (?s\<lparr>sleeps := sleeps s @ [?wait]\<rparr>)"
    by (simp add: nap_eq refilled_state_def)
  have "n - available e s \<le> rl_refill_rate c * tr_lasts s ?wait"
    using w(2) rate by (simp add: pos_divide_le_eq mult.commute)
  then have "n \<le> available e s + rl_refill_rate c * tr_lasts s ?wait" by simp
  moreover have "available e ?t = min (rl_max_tokens c) (available e s + rl_refill_rate c * tr_lasts s ?wait)"
    unfolding t by (simp add: available_def passed sleeps_frame refilled_state_def refilled c mult.commute)
  ultimately have "n \<le> available e ?t" using n by simp
  then have "acquire_loop (Suc (Suc k)) e n 0 s = (Ok ?wait, take_tokens e n (refilled_state e ?t))"
    using False rate c by (simp add: acquire_loop_step Let_def)
  moreover have "exch (take_tokens e n (refilled_state e ?t)) = exch s"
    "sleeps (take_tokens e n (refilled_state e ?t)) = sleeps s @ [?wait]"
    unfolding t by (simp_all add: take_tokens_def refilled_state_def pass_time_def)
  ultimately show ?thesis using False n c by (auto simp: acquire_def reading_def)
qed

section \<open>Requests\<close>

text \<open>The outcomes after which a request is repeated, and what it ends with after any other.\<close>

definition repeatable :: "retry_policy \<Rightarrow> http_outcome \<Rightarrow> bool" where
  "repeatable p outcome = (case outcome of
      Response r \<Rightarrow> 500 \<le> rs_status r \<and> should_retry_status p (rs_status r)
    | Failed f \<Rightarrow> rp_retryable p f
    | Raised _ \<Rightarrow> False)"

definition answer_of :: "'x http_client \<Rightarrow> http_outcome \<Rightarrow> http_response res" where
  "answer_of c outcome = (case outcome of
      Response r \<Rightarrow> Ok r
    | Failed TimeoutException \<Rightarrow> Raise timed_out
    | Failed NetworkFailure \<Rightarrow> Raise (map_network_error (error_name c))
    | Raised e \<Rightarrow> Raise e)"

text \<open>The other side after \<open>k\<close> deliveries of the request, and the answer to the next one.\<close>

definition sent_so_far :: "'x http_client \<Rightarrow> http_request \<Rightarrow> nat \<Rightarrow> 'x \<Rightarrow> 'x" where
  "sent_so_far c q k = (\<lambda>x. snd (hc_send c q x)) ^^ k"

definition outcome_at :: "'x http_client \<Rightarrow> http_request \<Rightarrow> nat \<Rightarrow> 'x \<Rightarrow> http_outcome" where
  "outcome_at c q k x = fst (hc_send c q (sent_so_far c q k x))"

lemma sent_so_far_Suc: "sent_so_far c q (Suc k) x = sent_so_far c q k (snd (hc_send c q x))"
  by (simp add: sent_so_far_def funpow_Suc_right del: funpow.simps)

lemma outcome_Suc: "outcome_at c q (Suc k) x = outcome_at c q k (snd (hc_send c q x))"
  by (simp add: outcome_at_def sent_so_far_Suc)

declare http_loop.simps [simp del]

lemma http_loop_step:
  assumes "hc_send c q (exch s) = (outcome, x)"
  shows "http_loop k a c q s =
    (if repeatable (hc_policy c) outcome \<and> a < rp_max_retries (hc_policy c)
     then (case k of 0 \<Rightarrow> (Raise still_waiting, s\<lparr>exch := x\<rparr>)
       | Suc k' \<Rightarrow> http_loop k' (a + 1) c q (snd (nap (delay_for (hc_policy c) a) (s\<lparr>exch := x\<rparr>))))
     else (answer_of c outcome, s\<lparr>exch := x\<rparr>))"
  using assms unfolding http_loop.simps [of k]
  by (cases outcome; cases k)
    (auto simp: send_once_def repeatable_def answer_of_def should_retry_def nap_def Let_def py_simps
      split: http_failure.splits)

lemma http_loop_attempts:
  assumes "rp_max_retries (hc_policy c) \<le> a + int k"
  shows "\<exists>n. (0 < n \<longrightarrow> a + int n \<le> rp_max_retries (hc_policy c)) \<and> fst (http_loop k a c q s) = answer_of c (outcome_at c q n (exch s)) \<and>
    exch (snd (http_loop k a c q s)) = sent_so_far c q (Suc n) (exch s) \<and>
    sleeps (snd (http_loop k a c q s)) = sleeps s @ map (\<lambda>i. delay_for (hc_policy c) (a + int i)) [0..<n] \<and>
    (\<forall>i < n. repeatable (hc_policy c) (outcome_at c q i (exch s))) \<and>
    (repeatable (hc_policy c) (outcome_at c q n (exch s)) \<longrightarrow> rp_max_retries (hc_policy c) \<le> a + int n)"
  using assms
proof (induction k arbitrary: a s)
  case 0
  obtain outcome x where send: "hc_send c q (exch s) = (outcome, x)" by (cases "hc_send c q (exch s)")
  have "\<not> a < rp_max_retries (hc_policy c)" using 0 by auto
  then show ?case using send
    by (intro exI [of _ 0]) (simp add: http_loop_step [OF send] outcome_at_def sent_so_far_def)
next
  case (Suc k)
  let ?p = "hc_policy c"
  obtain outcome x where send: "hc_send c q (exch s) = (outcome, x)" by (cases "hc_send c q (exch s)")
  show ?case
  proof (cases "repeatable ?p outcome \<and> a < rp_max_retries ?p")
    case False
    then show ?thesis using send
      by (intro exI [of _ 0]) (auto simp: http_loop_step [OF send] outcome_at_def sent_so_far_def)
  next
    case True
    let ?s = "snd (nap (delay_for ?p a) (s\<lparr>exch := x\<rparr>))"
    have s: "exch ?s = x" "sleeps ?s = sleeps s @ [delay_for ?p a]" by (simp_all add: nap_eq pass_time_def)
    have "rp_max_retries ?p \<le> a + 1 + int k" using Suc.prems by simp
    from Suc.IH [OF this, of ?s] obtain n where n: "0 < n \<longrightarrow> a + 1 + int n \<le> rp_max_retries ?p"
      "fst (http_loop k (a + 1) c q ?s) = answer_of c (outcome_at c q n x)"
      "exch (snd (http_loop k (a + 1) c q ?s)) = sent_so_far c q (Suc n) x"
      "sleeps (snd (http_loop k (a + 1) c q ?s)) =
         sleeps s @ [delay_for ?p a] @ map (\<lambda>i. delay_for ?p (a + 1 + int i)) [0..<n]"
      "\<forall>i < n. repeatable ?p (outcome_at c q i x)"
      "repeatable ?p (outcome_at c q n x) \<longrightarrow> rp_max_retries ?p \<le> a + 1 + int n"
      by (auto simp: s)
    have shift: "outcome_at c q (Suc i) (exch s) = outcome_at c q i x"
      "sent_so_far c q (Suc i) (exch s) = sent_so_far c q i x" for i
      using send by (simp_all add: outcome_Suc sent_so_far_Suc)
    have first: "outcome_at c q 0 (exch s) = outcome" using send by (simp add: outcome_at_def sent_so_far_def)
    have delays: "map (\<lambda>i. delay_for ?p (a + int i)) [0..<Suc n] =
        delay_for ?p a # map (\<lambda>i. delay_for ?p (a + 1 + int i)) [0..<n]"
      by (simp add: upt_conv_Cons map_Suc_upt [symmetric] algebra_simps del: upt_Suc)
    have "\<forall>i < Suc n. repeatable ?p (outcome_at c q i (exch s))"
      using n(5) True first shift by (auto simp: less_Suc_eq_0_disj)
    then show ?thesis using n True delays shift
      by (intro exI [of _ "Suc n"]) (auto simp: http_loop_step [OF send])
  qed
qed

text \<open>
  C33. An HTTP request ends with the first answer that is not to be repeated. When sleeps last at least
  as long as asked, a request that is sent_so_far \<open>n + 1\<close> times, at most \<^verbatim>\<open>max_retries\<close> times and at
  least once, ends with the outcome of the last delivery: a response is returned, a timeout and a
  network failure raise. Every outcome before was one that the policy retries (of responses, only those
  from 500 on, whatever status codes it lists); the client slept the delays of the policy in
  between, after waiting for the rate limit once at most. No request waits for ever.
\<close>

theorem http_request_attempts:
  fixes s :: "('x, 'm) net_scheme" and verb route e :: string and n :: rat
    and params :: "(string, json) dict" and headers :: "(string, string) dict" and content :: http_content
  assumes limited: "hc_limited c \<Longrightarrow> bucket_ok e cap s \<and> 0 < rl_refill_rate cap \<and> n \<le> rl_max_tokens cap"
    and honest: "\<And>d. 0 \<le> d \<Longrightarrow> d \<le> tr_lasts s d"
  defines "q \<equiv> \<lparr>rq_method = py_upper verb, rq_url = http_url c route, rq_params = params, rq_headers = headers,
      rq_content = content\<rparr>"
    and "run \<equiv> perform_request c verb route e n params headers content s"
  shows "\<exists>k ws. int (Suc k) \<le> max 1 (rp_max_retries (hc_policy c)) \<and> length ws \<le> 1 \<and>
    fst run = answer_of c (outcome_at c q k (exch s)) \<and> exch (snd run) = sent_so_far c q (Suc k) (exch s) \<and>
    sleeps (snd run) = sleeps s @ ws @ map (\<lambda>i. delay_for (hc_policy c) (1 + int i)) [0..<k] \<and>
    (\<forall>i < k. repeatable (hc_policy c) (outcome_at c q i (exch s))) \<and>
    (repeatable (hc_policy c) (outcome_at c q k (exch s)) \<longrightarrow> rp_max_retries (hc_policy c) \<le> int (Suc k))"
proof -
  have "\<exists>ws u. length ws \<le> 1 \<and> exch u = exch s \<and> sleeps u = sleeps s @ ws \<and>
      run = http_loop (nat (rp_max_retries (hc_policy c))) 1 c q u"
  proof (cases "hc_limited c")
    case True
    then obtain w u where "acquire 2 e n s = (Ok w, u)" "exch u = exch s"
        "sleeps u = sleeps s \<or> sleeps u = sleeps s @ [w]"
      using acquire_returns [of e cap s n 0] limited honest by (auto simp: numeral_2_eq_2)
    then show ?thesis using True
      by (intro exI [of _ "if sleeps u = sleeps s then [] else [w]"] exI [of _ u])
        (auto simp: run_def perform_request_def q_def py_simps)
  next
    case False
    then show ?thesis by (intro exI [of _ "[]"] exI [of _ s]) (simp add: run_def perform_request_def q_def)
  qed
  then obtain ws u where u: "length ws \<le> 1" "exch u = exch s" "sleeps u = sleeps s @ ws"
    and run: "run = http_loop (nat (rp_max_retries (hc_policy c))) 1 c q u" by blast
  have "rp_max_retries (hc_policy c) \<le> 1 + int (nat (rp_max_retries (hc_policy c)))" by simp
  from http_loop_attempts [OF this, of q u] obtain k where
    k: "0 < k \<longrightarrow> 1 + int k \<le> rp_max_retries (hc_policy c)" "fst run = answer_of c (outcome_at c q k (exch s))"
      "exch (snd run) = sent_so_far c q (Suc k) (exch s)"
      "sleeps (snd run) = sleeps s @ ws @ map (\<lambda>i. delay_for (hc_policy c) (1 + int i)) [0..<k]"
      "\<forall>i < k. repeatable (hc_policy c) (outcome_at c q i (exch s))"
      "repeatable (hc_policy c) (outcome_at c q k (exch s)) \<longrightarrow> rp_max_retries (hc_policy c) \<le> 1 + int k"
    unfolding run u(2,3) by auto
  have "int (Suc k) \<le> max 1 (rp_max_retries (hc_policy c))" using k(1) by (cases k) auto
  then show ?thesis using k u(1) by (intro exI [of _ k] exI [of _ ws]) simp
qed

section \<open>A concrete client\<close>

definition idle_transport :: "'x \<Rightarrow> 'x net" where
  "idle_transport x = \<lparr>clock = 1000, uuid_next = 0, sleeps = [], exch = x, tr_mono = 0, tr_lasts = (\<lambda>d. d),
     tr_limiter = new_limiter (Some \<lparr>rl_max_tokens = 2, rl_refill_rate = 1\<rparr>)\<rparr>"

lemma quiet_bucket: "bucket_ok e \<lparr>rl_max_tokens = 2, rl_refill_rate = 1\<rparr> (idle_transport x)"
  by (simp add: bucket_ok_def idle_transport_def new_limiter_def limit_of_def tokens_of_def last_refill_def)

text \<open>Three tokens from a bucket of two: the second grant waits for a second.\<close>

definition drained :: "unit net" where
  "drained = snd (acquire 2 ''rest'' 2 (snd (acquire 2 ''rest'' 1 (idle_transport ()))))"

theorem rate_limit_respected_witness:
  "\<exists>t. limiter_history ''rest'' (idle_transport ()) 3 t \<and> sleeps t = [1] \<and> 3 \<le> 2 + (tr_mono t - 0)"
proof -
  obtain w1 t1 where 1: "acquire 2 ''rest'' 1 (idle_transport ()) = (Ok w1, t1)"
    using acquire_returns [OF quiet_bucket [of "''rest''" "()"], of 1 0]
    by (auto simp: idle_transport_def numeral_2_eq_2)
  have "fst (acquire 2 ''rest'' 2 (snd (acquire 2 ''rest'' 1 (idle_transport ())))) = Ok 1" by code_simp
  then have 2: "acquire 2 ''rest'' 2 t1 = (Ok 1, drained)" unfolding drained_def 1 by (simp add: prod_eq_iff)
  have h: "limiter_history ''rest'' (idle_transport ()) (0 + granted ''rest'' ''rest'' 1 (Ok w1) +
      granted ''rest'' ''rest'' 2 (Ok (1 :: rat))) drained"
    by (rule acquired [OF acquired [OF opened 1] 2])
  have "buckets_ok (idle_transport ())"
    unfolding buckets_ok_def bucket_okD(1) [OF quiet_bucket] by (intro allI quiet_bucket)
  from rate_limit_respected [OF h this] have "3 \<le> 2 + (tr_mono drained - 0)"
    using bucket_okD(1) [OF quiet_bucket, of "''rest''" "()"] by (simp add: granted_def idle_transport_def)
  moreover have "sleeps drained = [1]" by code_simp
  ultimately show ?thesis using h by (auto simp: granted_def)
qed

text \<open>A server that fails twice and then answers.\<close>

definition failing_twice :: "http_request \<Rightarrow> nat \<Rightarrow> http_outcome \<times> nat" where
  "failing_twice q n = (if n = 0 then Failed TimeoutException
     else Response \<lparr>rs_status = (if n = 1 then 503 else 200), rs_body = None\<rparr>, Suc n)"

definition patient_client :: "(http_request \<Rightarrow> 'x \<Rightarrow> http_outcome \<times> 'x) \<Rightarrow> 'x http_client" where
  "patient_client send = \<lparr>hc_base_url = ''https://api'', hc_policy = default_policy, hc_limited = True,
     hc_exchange_name = ''x'', hc_send = send\<rparr>"

theorem http_request_attempts_witness:
  "\<exists>k ws. int (Suc k) \<le> 3 \<and> length ws \<le> 1 \<and>
    exch (snd (http_get (patient_client failing_twice) ''/time'' [] [] (idle_transport 0))) = 0 + Suc k \<and>
    sleeps (snd (http_get (patient_client failing_twice) ''/time'' [] [] (idle_transport 0))) =
      [] @ ws @ map (\<lambda>i. delay_for default_policy (1 + int i)) [0..<k]"
proof -
  have c: "hc_policy (patient_client failing_twice) = default_policy" by (simp add: patient_client_def)
  have many: "sent_so_far (patient_client failing_twice) q k x = x + k" for q k x
    by (induction k arbitrary: x) (simp_all add: sent_so_far_Suc, simp_all add: sent_so_far_def patient_client_def failing_twice_def)
  have "\<And>d. 0 \<le> d \<Longrightarrow> d \<le> tr_lasts (idle_transport (0 :: nat)) d" by (simp add: idle_transport_def)
  from http_request_attempts [OF _ this, of "patient_client failing_twice" "''default''" "\<lparr>rl_max_tokens = 2, rl_refill_rate = 1\<rparr>" 1
      "''GET''" "''/time''" "[]" "[]" NoContent]
  show ?thesis unfolding http_get_def c many
    using quiet_bucket [of "''default''" "0 :: nat"] by (auto simp: idle_transport_def default_policy_def)
qed

end
