(* ===== verification/ExchangeStreams.thy ===== *)
theory ExchangeStreams
  imports ExchangeTransport "HOL-Library.List_Lexorder" "HOL-Library.Char_ord"
begin

text \<open>
  \<^verbatim>\<open>exchanges/websocket_manager.py\<close>: a connection with its subscriptions, which are sent again whenever
  it is opened. An adapter has two managers, for the market and for the account. The library
  websockets is a parameter; a message is the JSON value it denotes. The tasks in the background are
  events here: a message that arrives, and the connection that closes.
\<close>

section \<open>State\<close>

datatype socket = NoSocket | OpenSocket | ClosedSocket

record ws_manager =
  ws_url :: string
  ws_policy :: retry_policy
  ws_limited :: bool
  ws_jitter :: rat
  ws_socket :: socket
  ws_running :: bool
  ws_registered :: nat
  ws_subscriptions :: "(string, (json, json) dict) dict"

text \<open>\<open>ws_registered\<close> counts the callbacks: the program registers only the adapter's \<^verbatim>\<open>_dispatch\<close>.\<close>

definition new_ws :: "retry_policy \<Rightarrow> bool \<Rightarrow> ws_manager" where
  "new_ws p limited = \<lparr>ws_url = [], ws_policy = p, ws_limited = limited, ws_jitter = 1, ws_socket = NoSocket,
     ws_running = False, ws_registered = 0, ws_subscriptions = []\<rparr>"

datatype ws_kind = Market | Account

record 'x streams = "'x net" +
  st_market :: ws_manager
  st_account :: ws_manager

type_synonym ('x, 'm, 'a) streaming = "(('x, 'm) streams_scheme, 'a) py"

fun ws_of :: "ws_kind \<Rightarrow> ('x, 'm) streams_scheme \<Rightarrow> ws_manager" where
  "ws_of Market s = st_market s"
| "ws_of Account s = st_account s"

fun on_ws :: "ws_kind \<Rightarrow> (ws_manager \<Rightarrow> ws_manager) \<Rightarrow> ('x, 'm) streams_scheme \<Rightarrow> ('x, 'm) streams_scheme" where
  "on_ws Market f s = s\<lparr>st_market := f (st_market s)\<rparr>"
| "on_ws Account f s = s\<lparr>st_account := f (st_account s)\<rparr>"

text \<open>The library: opening a connection may raise, and so may sending over one.\<close>

record 'x ws_library =
  wl_connect :: "string \<Rightarrow> 'x \<Rightarrow> unit res \<times> 'x"
  wl_send :: "json \<Rightarrow> 'x \<Rightarrow> unit res \<times> 'x"

section \<open>Subscriptions\<close>

text \<open>Messages with a list of streams under \<^verbatim>\<open>params\<close> are told apart by the streams alone, which
  are strings in every message of the adapters.\<close>

definition all_text :: "json list \<Rightarrow> bool" where
  "all_text js = list_all (\<lambda>j. case j of JStr _ \<Rightarrow> True | _ \<Rightarrow> False) js"

definition text_of :: "json \<Rightarrow> string" where
  "text_of j = (case j of JStr s \<Rightarrow> s | _ \<Rightarrow> [])"

definition subscription_key :: "json \<Rightarrow> json res" where
  "subscription_key message = (case message of
      JObj d \<Rightarrow> (case dget d ''params'' of
          None \<Rightarrow> Ok message
        | Some (JList js) \<Rightarrow>
            if all_text js then Ok (JObj [(''params'', JList (sort_key text_of js))]) else Raise type_error
        | Some p \<Rightarrow> Ok (JObj [(''params'', p)]))
    | _ \<Rightarrow> Ok message)"

definition subscribed_messages :: "ws_manager \<Rightarrow> json list" where
  "subscribed_messages w = (case dget (ws_subscriptions w) (ws_url w) of None \<Rightarrow> [] | Some d \<Rightarrow> map snd d)"

definition ws_send :: "'x ws_library \<Rightarrow> ws_kind \<Rightarrow> json \<Rightarrow> ('x, 'm, unit) streaming" where
  "ws_send lib w message = reading (\<lambda>s.
     if ws_socket (ws_of w s) = NoSocket then throw (Exn PyRuntimeError [])
     else if ws_socket (ws_of w s) = ClosedSocket then throw (Exn OtherException [''ConnectionClosed''])
     else call_adapter (wl_send lib message))"

definition ws_subscribe :: "'x ws_library \<Rightarrow> ws_kind \<Rightarrow> json \<Rightarrow> ('x, 'm, unit) streaming" where
  "ws_subscribe lib w message = bind (lift_res (subscription_key message)) (\<lambda>k. reading (\<lambda>s.
     let m = ws_of w s;
         subs = (case dget (ws_subscriptions m) (ws_url m) of None \<Rightarrow> [] | Some d \<Rightarrow> d)
     in if dget subs k \<noteq> None
        then modify (on_ws w (\<lambda>m. m\<lparr>ws_subscriptions := dput (ws_url m) subs (ws_subscriptions m)\<rparr>))
        else seq (modify (on_ws w (\<lambda>m. m\<lparr>ws_subscriptions := dput (ws_url m) (dput k message subs) (ws_subscriptions m)\<rparr>)))
          (ws_send lib w message)))"

definition forget_subscription :: "json \<Rightarrow> ws_manager \<Rightarrow> ws_manager" where
  "forget_subscription k m = (case dget (ws_subscriptions m) (ws_url m) of
      None \<Rightarrow> m
    | Some subs \<Rightarrow>
        if dget subs k = None then m
        else if ddel k subs = [] then m\<lparr>ws_subscriptions := ddel (ws_url m) (ws_subscriptions m)\<rparr>
        else m\<lparr>ws_subscriptions := dput (ws_url m) (ddel k subs) (ws_subscriptions m)\<rparr>)"

definition ws_unsubscribe :: "'x ws_library \<Rightarrow> ws_kind \<Rightarrow> json \<Rightarrow> ('x, 'm, unit) streaming" where
  "ws_unsubscribe lib w message = bind (lift_res (subscription_key message)) (\<lambda>k.
     seq (modify (on_ws w (forget_subscription k))) (ws_send lib w message))"

section \<open>Connections\<close>

definition rat_mod :: "rat \<Rightarrow> rat \<Rightarrow> rat" where
  "rat_mod x y = x - y * of_int \<lfloor>x / y\<rfloor>"

definition ws_open :: "'x ws_library \<Rightarrow> ws_kind \<Rightarrow> string \<Rightarrow> ('x, 'm, unit) streaming" where
  "ws_open lib w url = reading (\<lambda>s.
     seq (if ws_limited (ws_of w s) then bind (acquire 2 ''websocket'' 1) (\<lambda>_. ret ()) else ret ())
     (seq (call_adapter (wl_connect lib url))
     (seq (modify (on_ws w (\<lambda>m. m\<lparr>ws_socket := OpenSocket\<rparr>)))
       (for_each (ws_send lib w)
         (case dget (ws_subscriptions (ws_of w s)) url of None \<Rightarrow> [] | Some d \<Rightarrow> map snd d)))))"

text \<open>\<^verbatim>\<open>for attempt in range(1, max_retries + 1)\<close>; the first argument counts the attempts left.\<close>

fun ws_attempts :: "nat \<Rightarrow> int \<Rightarrow> 'x ws_library \<Rightarrow> ws_kind \<Rightarrow> string \<Rightarrow> ('x, 'm, bool) streaming" where
  "ws_attempts 0 attempt lib w url = ret False"
| "ws_attempts (Suc k) attempt lib w url = reading (\<lambda>s. let m = ws_of w s in
     try_catch (seq (ws_open lib w url) (ret True))
       (\<lambda>e. if rp_max_retries (ws_policy m) \<le> attempt then ret False
            else reading (\<lambda>s. seq (nap (delay_for (ws_policy m) attempt +
                   (if ws_jitter m = 0 then 0 else rat_mod (tr_mono s) (ws_jitter m))))
                 (ws_attempts k (attempt + 1) lib w url))))"

definition ws_connect :: "'x ws_library \<Rightarrow> ws_kind \<Rightarrow> string \<Rightarrow> ('x, 'm, bool) streaming" where
  "ws_connect lib w url = reading (\<lambda>s.
     let target = (if url = [] then ws_url (ws_of w s) else url) in
     if target = [] then throw (Exn PyValueError [])
     else seq (modify (on_ws w (\<lambda>m. m\<lparr>ws_url := target, ws_running := True\<rparr>)))
       (ws_attempts (nat (rp_max_retries (ws_policy (ws_of w s)))) 1 lib w target))"

definition ws_is_connected :: "ws_kind \<Rightarrow> ('x, 'm) streams_scheme \<Rightarrow> bool" where
  "ws_is_connected w s \<longleftrightarrow> ws_socket (ws_of w s) = OpenSocket"

text \<open>The connection closes: the receiving task ends and, while the manager runs, opens it again.\<close>

definition ws_closed :: "'x ws_library \<Rightarrow> ws_kind \<Rightarrow> ('x, 'm, unit) streaming" where
  "ws_closed lib w =
     seq (modify (on_ws w (\<lambda>m. m\<lparr>ws_socket := ClosedSocket\<rparr>)))
     (reading (\<lambda>s. let m = ws_of w s in
        if \<not> ws_running m \<or> ws_url m = [] then ret ()
        else bind (ws_connect lib w (ws_url m)) (\<lambda>_. ret ())))"

text \<open>A message is handed to every callback, whatever they raise.\<close>

definition ws_message :: "(json option \<Rightarrow> ('x, 'm, unit) streaming) \<Rightarrow> ws_kind \<Rightarrow> json option \<Rightarrow> ('x, 'm, unit) streaming" where
  "ws_message callback w message = reading (\<lambda>s.
     if \<not> ws_running (ws_of w s) then ret ()
     else for_each (\<lambda>_. try_catch (callback message) (\<lambda>_. ret ())) (replicate (ws_registered (ws_of w s)) ()))"

definition ws_disconnect :: "ws_kind \<Rightarrow> ('x, 'm, unit) streaming" where
  "ws_disconnect w = modify (on_ws w (\<lambda>m. m\<lparr>ws_running := False,
     ws_subscriptions := ddel (ws_url m) (ws_subscriptions m), ws_socket := NoSocket\<rparr>))"

definition ws_register :: "ws_kind \<Rightarrow> ('x, 'm, unit) streaming" where
  "ws_register w = modify (on_ws w (\<lambda>m. m\<lparr>ws_registered := Suc (ws_registered m)\<rparr>))"

section \<open>What is sent again\<close>

text \<open>After unsubscribing, no message with the same key is remembered for the connection.\<close>

lemma forgotten:
  "dget (ws_subscriptions (forget_subscription k m)) (ws_url m) = Some subs \<Longrightarrow> dget subs k = None"
  by (auto simp: forget_subscription_def split: option.splits if_splits)

lemma forgotten_others:
  assumes "j \<noteq> k" and "dget (ws_subscriptions m) (ws_url m) = Some subs" and "dget subs j = Some v"
  shows "\<exists>subs'. dget (ws_subscriptions (forget_subscription k m)) (ws_url m) = Some subs' \<and> dget subs' j = Some v"
proof -
  have "dget (ddel k subs) j = Some v" using assms(1,3) by simp
  then have "ddel k subs \<noteq> []" by (metis map_of.simps(1) option.distinct(1))
  then show ?thesis using assms by (auto simp: forget_subscription_def)
qed

end
