(* ===== verification/ExchangeAdapter.thy ===== *)
theory ExchangeAdapter
  imports ExchangeStreams
begin

text \<open>
  What the exchange clients of \<^verbatim>\<open>exchanges/adapters\<close> share: the records of \<^verbatim>\<open>core/domain_types.py\<close>
  that they return, the state of a client, the readers of JSON answers, and the text that is signed.
  The cryptographic functions, and the text of floats, of composite values and of times, are a record
  of functions. Times are whole seconds.
\<close>

section \<open>Records\<close>

record balance_entry =
  be_currency :: string
  be_available :: decimal
  be_locked :: decimal
  be_total :: decimal

record position_report =
  pe_symbol :: string
  pe_side :: string
  pe_quantity :: decimal
  pe_entry_price :: decimal
  pe_unrealized_pnl :: decimal

record trade_entry =
  te_trade_id :: string
  te_order_id :: string
  te_symbol :: string
  te_side :: string
  te_quantity :: decimal
  te_price :: decimal
  te_fee :: decimal
  te_fee_currency :: string
  te_timestamp :: datetime

record exchange_info =
  ei_name :: string
  ei_supported_symbols :: "string list"
  ei_rate_limits :: json
  ei_server_time :: datetime

record exchange_credentials =
  ec_api_key :: string
  ec_api_secret :: string
  ec_passphrase :: "string option"

record adapter_config =
  ac_exchange_name :: string
  ac_is_testnet :: bool
  ac_market_stream_url :: "string option"
  ac_account_stream_url :: "string option"
  ac_rest_url :: "string option"
  ac_recv_window :: int

record 'x library =
  lb_hmac_hex :: "string \<Rightarrow> string \<Rightarrow> string"
  lb_hmac_base64 :: "string \<Rightarrow> string \<Rightarrow> string"
  lb_repr :: "json \<Rightarrow> string"
  lb_iso_time :: "datetime \<Rightarrow> string"
  lb_ws :: "'x ws_library"
  lb_send :: "http_request \<Rightarrow> 'x \<Rightarrow> http_outcome \<times> 'x"

section \<open>The state of a client\<close>

text \<open>
  The attributes of the five classes in one record; a class without an attribute leaves it alone.
  The HTTP client and the managers of the streams exist once \<^verbatim>\<open>initialize\<close> has run.
\<close>

record ('x, 'cb) exchange_client = "'x streams" +
  ea_name :: string
  ea_http :: "'x http_client option"
  ea_rest_url :: string
  ea_ws_url :: string
  ea_private_url :: string
  ea_recv_window :: int
  ea_api_key :: string
  ea_api_secret :: string
  ea_passphrase :: string
  ea_time_offset :: int
  ea_exchange_info :: "json option"
  ea_listen_key :: "string option"
  ea_wallet :: string
  ea_ticker_callbacks :: "(string, 'cb) dict"
  ea_orderbook_callbacks :: "(string, 'cb) dict"
  ea_user_callback :: "'cb option"
  ea_next_id :: int

type_synonym ('x, 'cb, 'm, 'a) client = "(('x, 'cb, 'm) exchange_client_scheme, 'a) py"

definition with_http :: "('x http_client \<Rightarrow> ('x, 'cb, 'm, 'a) client) \<Rightarrow> ('x, 'cb, 'm, 'a) client" where
  "with_http f = reading (\<lambda>s. case ea_http s of None \<Rightarrow> throw (Exn PyAttributeError []) | Some c \<Rightarrow> f c)"

definition millis :: "datetime \<Rightarrow> int" where
  "millis t = t * 1000"

section \<open>Reading answers\<close>

text \<open>\<^verbatim>\<open>str(x)\<close>\<close>

definition py_str :: "'x library \<Rightarrow> json \<Rightarrow> string" where
  "py_str lib j = (case j of JNull \<Rightarrow> ''None'' | JBool b \<Rightarrow> (if b then ''True'' else ''False'')
     | JInt n \<Rightarrow> show_int n | JStr s \<Rightarrow> s | _ \<Rightarrow> lb_repr lib j)"

text \<open>\<^verbatim>\<open>x.lower()\<close>, \<^verbatim>\<open>x.upper()\<close>\<close>

definition on_text :: "(string \<Rightarrow> 'a) \<Rightarrow> json \<Rightarrow> 'a res" where
  "on_text f j = (case j of JStr s \<Rightarrow> Ok (f s) | _ \<Rightarrow> Raise (Exn PyAttributeError []))"

text \<open>\<^verbatim>\<open>int(x)\<close>\<close>

definition py_int :: "json \<Rightarrow> int res" where
  "py_int j = (case j of JInt n \<Rightarrow> Ok n | JBool b \<Rightarrow> Ok (if b then 1 else 0)
     | JFloat r \<Rightarrow> Ok (if 0 \<le> r then \<lfloor>r\<rfloor> else \<lceil>r\<rceil>)
     | JStr s \<Rightarrow> (case read_int s of None \<Rightarrow> Raise (Exn PyValueError [s]) | Some n \<Rightarrow> Ok n)
     | _ \<Rightarrow> Raise type_error)"

text \<open>\<^verbatim>\<open>datetime.fromtimestamp(x / 1000, tz=UTC)\<close>\<close>

definition from_millis :: "json \<Rightarrow> datetime res" where
  "from_millis j = (case j of JInt n \<Rightarrow> Ok (n div 1000) | JBool b \<Rightarrow> Ok 0 | JFloat r \<Rightarrow> Ok \<lfloor>r / 1000\<rfloor>
     | _ \<Rightarrow> Raise type_error)"

definition int_millis :: "json \<Rightarrow> datetime res" where
  "int_millis j = rbind (py_int j) (\<lambda>n. Ok (n div 1000))"

text \<open>\<^verbatim>\<open>x == n\<close> for a number\<close>

definition json_is :: "int \<Rightarrow> json \<Rightarrow> bool" where
  "json_is n j = (case j of JInt m \<Rightarrow> m = n | JFloat r \<Rightarrow> r = of_int n | JBool b \<Rightarrow> (if b then 1 else 0) = n | _ \<Rightarrow> False)"

text \<open>\<^verbatim>\<open>x[k]\<close> for a list, and \<^verbatim>\<open>for y in x\<close>\<close>

definition nth_item :: "json \<Rightarrow> nat \<Rightarrow> json res" where
  "nth_item j k = (case j of
      JList js \<Rightarrow> (if k < length js then Ok (js ! k) else Raise (Exn PyIndexError []))
    | JStr s \<Rightarrow> (if k < length s then Ok (JStr [s ! k]) else Raise (Exn PyIndexError []))
    | JObj _ \<Rightarrow> Raise (Exn PyKeyError [show_nat k])
    | _ \<Rightarrow> Raise type_error)"

definition elements :: "json \<Rightarrow> json list res" where
  "elements j = (case j of JList js \<Rightarrow> Ok js | JObj d \<Rightarrow> Ok (map (\<lambda>(k, _). JStr k) d)
     | JStr s \<Rightarrow> Ok (map (\<lambda>c. JStr [c]) s) | _ \<Rightarrow> Raise type_error)"

text \<open>Fields read with a default: \<^verbatim>\<open>Decimal(x.get(k, "0"))\<close>, \<^verbatim>\<open>x.get(k, "")\<close>, \<^verbatim>\<open>x.get(k, [])\<close>.\<close>

definition get_decimal :: "json \<Rightarrow> string \<Rightarrow> decimal res" where
  "get_decimal j k = rbind (item_or j k (JStr ''0'')) as_decimal"

definition get_text :: "json \<Rightarrow> string \<Rightarrow> string res" where
  "get_text j k = rbind (item_or j k (JStr [])) as_str"

definition get_lower :: "json \<Rightarrow> string \<Rightarrow> string res" where
  "get_lower j k = rbind (item_or j k (JStr [])) (on_text py_lower)"

definition get_str :: "'x library \<Rightarrow> json \<Rightarrow> string \<Rightarrow> string res" where
  "get_str lib j k = rbind (item_or j k (JStr [])) (\<lambda>v. Ok (py_str lib v))"

definition get_elements :: "json \<Rightarrow> string \<Rightarrow> json list res" where
  "get_elements j k = rbind (item_or j k (JList [])) elements"

definition item_decimal :: "json \<Rightarrow> string \<Rightarrow> decimal res" where
  "item_decimal j k = rbind (item j k) as_decimal"

text \<open>\<^verbatim>\<open>Decimal(...) or None\<close>\<close>

definition or_none :: "decimal \<Rightarrow> decimal option" where
  "or_none x = (if x = 0 then None else Some x)"

text \<open>A pair of a price and a size, as the order books have them.\<close>

definition price_and_size :: "json \<Rightarrow> (decimal \<times> decimal) res" where
  "price_and_size j = rbind (rbind (nth_item j 0) as_decimal) (\<lambda>p.
     rbind (rbind (nth_item j 1) as_decimal) (\<lambda>q. Ok (p, q)))"

definition read_book :: "string \<Rightarrow> datetime \<Rightarrow> json \<Rightarrow> order_book res" where
  "read_book symbol t j =
     rbind (rbind (get_elements j ''bids'') (rmap price_and_size)) (\<lambda>bids.
     rbind (rbind (get_elements j ''asks'') (rmap price_and_size)) (\<lambda>asks.
       Ok \<lparr>ob_symbol = symbol, ob_bids = bids, ob_asks = asks, ob_timestamp = t\<rparr>))"

text \<open>A candle as a row: the time, then open, high, low, close and volume.\<close>

definition row_decimal :: "json \<Rightarrow> nat \<Rightarrow> decimal res" where
  "row_decimal j k = rbind (nth_item j k) as_decimal"

definition read_candle :: "(json \<Rightarrow> datetime res) \<Rightarrow> string \<Rightarrow> string \<Rightarrow> json \<Rightarrow> market_candle res" where
  "read_candle time symbol interval row =
     rbind (row_decimal row 1) (\<lambda>op. rbind (row_decimal row 2) (\<lambda>hi. rbind (row_decimal row 3) (\<lambda>lo.
     rbind (row_decimal row 4) (\<lambda>cl. rbind (row_decimal row 5) (\<lambda>vol. rbind (rbind (nth_item row 0) time) (\<lambda>t.
       Ok \<lparr>mc_symbol = symbol, mc_interval = interval, mc_open = op, mc_high = hi, mc_low = lo, mc_close = cl,
         mc_volume = vol, mc_timestamp = t\<rparr>))))))"

section \<open>Text to sign\<close>

text \<open>\<^verbatim>\<open>urllib.parse.urlencode(sorted(params.items()), doseq=True)\<close>; bytes that are not safe are escaped.\<close>

definition hex_digit :: "nat \<Rightarrow> char" where
  "hex_digit n = (if n < 10 then char_of (48 + n) else char_of (55 + n))"

definition url_safe :: "char \<Rightarrow> bool" where
  "url_safe c \<longleftrightarrow> (let n = (of_char c :: nat) in (48 \<le> n \<and> n \<le> 57) \<or> (65 \<le> n \<and> n \<le> 90) \<or> (97 \<le> n \<and> n \<le> 122)) \<or>
     c \<in> set ''_.-~''"

definition quote_char :: "char \<Rightarrow> string" where
  "quote_char c = (let n = (of_char c :: nat) in
     if url_safe c then [c] else if n = 32 then ''+'' else [CHR ''%'', hex_digit (n div 16), hex_digit (n mod 16)])"

definition quote_plus :: "string \<Rightarrow> string" where
  "quote_plus s = concat (map quote_char s)"

fun join :: "string \<Rightarrow> string list \<Rightarrow> string" where
  "join sep [] = []"
| "join sep [x] = x"
| "join sep (x # y # ys) = x @ sep @ join sep (y # ys)"

text \<open>The dictionaries of parameters have different keys, so that sorting never compares values.\<close>

definition sorted_items :: "(string, json) dict \<Rightarrow> (string, json) dict" where
  "sorted_items = sort_key fst"

definition urlencode :: "'x library \<Rightarrow> (string, json) dict \<Rightarrow> string" where
  "urlencode lib ps = join ''&'' (map (\<lambda>(k, v). quote_plus k @ ''='' @ quote_plus (py_str lib v)) ps)"

text \<open>\<^verbatim>\<open>"&".join(f"{k}={v}" for k, v in sorted(params.items()))\<close>\<close>

definition plain_query :: "'x library \<Rightarrow> (string, json) dict \<Rightarrow> string" where
  "plain_query lib ps = join ''&'' (map (\<lambda>(k, v). k @ ''='' @ py_str lib v) (sorted_items ps))"

text \<open>\<^verbatim>\<open>json.dumps(x, separators=(",", ":"))\<close>; characters are bytes, floats are left to the library.\<close>

definition quote_mark :: char where
  "quote_mark = CHR 0x22"

definition json_char :: "char \<Rightarrow> string" where
  "json_char c = (let n = (of_char c :: nat) in
     if c = quote_mark \<or> n = 92 then [CHR 0x5C, c]
     else if n = 10 then [CHR 0x5C, CHR ''n''] else if n = 13 then [CHR 0x5C, CHR ''r'']
     else if n = 9 then [CHR 0x5C, CHR ''t''] else if n = 8 then [CHR 0x5C, CHR ''b'']
     else if n = 12 then [CHR 0x5C, CHR ''f'']
     else if n < 32 \<or> 127 < n
     then [CHR 0x5C, CHR ''u'', CHR ''0'', CHR ''0'', hex_digit (n div 16), hex_digit (n mod 16)]
     else [c])"

definition json_string :: "string \<Rightarrow> string" where
  "json_string s = quote_mark # concat (map json_char s) @ [quote_mark]"

fun json_dumps :: "'x library \<Rightarrow> json \<Rightarrow> string" where
  "json_dumps lib JNull = ''null''"
| "json_dumps lib (JBool b) = (if b then ''true'' else ''false'')"
| "json_dumps lib (JInt n) = show_int n"
| "json_dumps lib (JFloat r) = lb_repr lib (JFloat r)"
| "json_dumps lib (JStr s) = json_string s"
| "json_dumps lib (JList js) = ''['' @ join '','' (map (json_dumps lib) js) @ '']''"
| "json_dumps lib (JObj d) = ''{'' @ join '','' (map (\<lambda>(k, v). json_string k @ '':'' @ json_dumps lib v) d) @ ''}''"

section \<open>What every client does\<close>

text \<open>\<^verbatim>\<open>a or b\<close> for an optional address, and \<^verbatim>\<open>.rstrip("/")\<close>\<close>

definition address :: "bool \<Rightarrow> string \<Rightarrow> string option \<Rightarrow> string \<Rightarrow> string" where
  "address testnet test configured main =
     strip_slashes (if testnet then test else if truthy configured then the configured else main)"

definition client_policy :: retry_policy where
  "client_policy = default_policy\<lparr>rp_base_delay := 1 / 2, rp_status_codes := [408, 429, 500, 502, 503, 504]\<rparr>"

definition stream_policy :: retry_policy where
  "stream_policy = default_policy\<lparr>rp_max_retries := 5\<rparr>"

text \<open>The limiter of a client: the buckets \<^verbatim>\<open>rest\<close> and \<^verbatim>\<open>websocket\<close>.\<close>

definition client_limiter :: "rate_limit \<Rightarrow> rate_limiter" where
  "client_limiter rest = configure_limit ''websocket'' \<lparr>rl_max_tokens = 5, rl_refill_rate = 5\<rparr>
     (configure_limit ''rest'' rest (new_limiter None))"

text \<open>
  The part of \<^verbatim>\<open>initialize\<close> that the clients share, for a client made without collaborators: the
  first time they are made, later the HTTP client is only pointed to the new address.
\<close>

definition initialize_client :: "'x library \<Rightarrow> rate_limit \<Rightarrow> adapter_config \<Rightarrow> string \<Rightarrow> string \<Rightarrow> string \<Rightarrow>
    ('x, 'cb, 'm, bool) client" where
  "initialize_client lib rest cfg rest_url url private_url =
     seq (modify (\<lambda>s. let name = (if ac_exchange_name cfg = [] then ea_name s else ac_exchange_name cfg);
         s' = s\<lparr>ea_name := name, ea_rest_url := rest_url, ea_ws_url := url, ea_private_url := private_url\<rparr>
       in case ea_http s of
         Some c \<Rightarrow> s'\<lparr>ea_http := Some (c\<lparr>hc_base_url := rest_url, hc_exchange_name := name\<rparr>)\<rparr>
       | None \<Rightarrow> s'\<lparr>tr_limiter := client_limiter rest,
           ea_http := Some \<lparr>hc_base_url = strip_slashes rest_url, hc_policy = client_policy, hc_limited = True,
             hc_exchange_name = name, hc_send = lb_send lib\<rparr>,
           st_market := new_ws stream_policy True, st_account := new_ws stream_policy True\<rparr>))
     (seq (ws_register Market) (seq (ws_register Account) (ret True)))"

definition disconnect_client :: "('x, 'cb, 'm, unit) client" where
  "disconnect_client =
     seq (modify (\<lambda>s. s\<lparr>ea_ticker_callbacks := [], ea_orderbook_callbacks := [], ea_user_callback := None\<rparr>))
     (seq (ws_disconnect Market) (ws_disconnect Account))"

text \<open>\<^verbatim>\<open>health_check\<close>: an error of any kind is a negative answer.\<close>

definition health_answer :: "('x, 'cb, 'm, unit) client \<Rightarrow> ('x, 'cb, 'm, bool) client" where
  "health_answer m = try_catch (seq m (ret True)) (\<lambda>_. ret False)"

definition ensure_authenticated :: "('x, 'cb, 'm, unit) client" where
  "ensure_authenticated = reading (\<lambda>s. if ea_api_key s = [] then throw (Exn AuthenticationError []) else ret ())"

text \<open>\<^verbatim>\<open>_parse_json\<close>: first the status, then the body.\<close>

definition parse_json :: "(http_response \<Rightarrow> unit res) \<Rightarrow> http_response \<Rightarrow> ('x, 'cb, 'm, json) client" where
  "parse_json raise_for_status r = reading (\<lambda>s. case raise_for_status r of
      Raise e \<Rightarrow> throw e
    | Ok _ \<Rightarrow> (case rs_body r of None \<Rightarrow> throw (Exn ExchangeError [ea_name s]) | Some j \<Rightarrow> ret j))"

text \<open>The body of an error, \<^verbatim>\<open>{}\<close> when it is not JSON.\<close>

definition error_body :: "http_response \<Rightarrow> json" where
  "error_body r = (case rs_body r of None \<Rightarrow> JObj [] | Some j \<Rightarrow> j)"

definition fetch :: "(http_response \<Rightarrow> unit res) \<Rightarrow> string \<Rightarrow> (string, json) dict \<Rightarrow> ('x, 'cb, 'm, json) client" where
  "fetch raise_for_status path params =
     bind (with_http (\<lambda>c. http_get c path params [])) (parse_json raise_for_status)"

definition load_exchange_info :: "('x, 'cb, 'm, json) client \<Rightarrow> ('x, 'cb, 'm, json) client" where
  "load_exchange_info load = reading (\<lambda>s. case ea_exchange_info s of
      Some j \<Rightarrow> ret j
    | None \<Rightarrow> bind load (\<lambda>j. seq (modify (\<lambda>s. s\<lparr>ea_exchange_info := (if j = JNull then None else Some j)\<rparr>)) (ret j)))"

text \<open>The first element of a list with a field of that value.\<close>

fun find_by :: "string \<Rightarrow> string \<Rightarrow> json list \<Rightarrow> json option res" where
  "find_by k v [] = Ok None"
| "find_by k v (j # js) = rbind (item_or j k JNull) (\<lambda>x. if x = JStr v then Ok (Some j) else find_by k v js)"

definition symbol_not_supported :: "string \<Rightarrow> exn" where
  "symbol_not_supported symbol = Exn SymbolNotSupported [symbol]"

text \<open>Callbacks of the streams of a channel.\<close>

definition put_callback :: "string \<Rightarrow> string \<Rightarrow> 'cb \<Rightarrow> ('x, 'cb, 'm, unit) client" where
  "put_callback channel symbol cb = modify (\<lambda>s.
     if channel = ''ticker'' then s\<lparr>ea_ticker_callbacks := dput symbol cb (ea_ticker_callbacks s)\<rparr>
     else if channel = ''orderbook'' then s\<lparr>ea_orderbook_callbacks := dput symbol cb (ea_orderbook_callbacks s)\<rparr>
     else s)"

definition drop_callback :: "string \<Rightarrow> string \<Rightarrow> ('x, 'cb, 'm, unit) client" where
  "drop_callback channel symbol = modify (\<lambda>s.
     if channel = ''ticker'' then s\<lparr>ea_ticker_callbacks := ddel symbol (ea_ticker_callbacks s)\<rparr>
     else if channel = ''orderbook'' then s\<lparr>ea_orderbook_callbacks := ddel symbol (ea_orderbook_callbacks s)\<rparr>
     else s)"

definition connect_if_closed :: "ws_kind \<Rightarrow> ('x, 'cb, 'm, bool) client \<Rightarrow> ('x, 'cb, 'm, unit) client" where
  "connect_if_closed w connect = reading (\<lambda>s. if ws_is_connected w s then ret () else bind connect (\<lambda>_. ret ()))"

definition set_user_callback :: "'cb option \<Rightarrow> ('x, 'cb, 'm, bool) client" where
  "set_user_callback cb = seq (modify (\<lambda>s. s\<lparr>ea_user_callback := cb\<rparr>)) (ret True)"

text \<open>A callback that may be there.\<close>

definition call_if :: "('cb \<Rightarrow> json \<Rightarrow> ('x, 'cb, 'm, unit) client) \<Rightarrow> 'cb option \<Rightarrow> json \<Rightarrow> ('x, 'cb, 'm, unit) client" where
  "call_if call cb data = (case cb of None \<Rightarrow> ret () | Some f \<Rightarrow> call f data)"

text \<open>\<^verbatim>\<open>sub in s\<close>\<close>

definition has_substring :: "string \<Rightarrow> string \<Rightarrow> bool" where
  "has_substring sub s = list_ex (\<lambda>k. take (length sub) (drop k s) = sub) [0..<Suc (length s)]"

definition concat_res :: "'a list list res \<Rightarrow> 'a list res" where
  "concat_res r = rbind r (\<lambda>xs. Ok (concat xs))"

definition symbol_params :: "string option \<Rightarrow> (string, json) dict" where
  "symbol_params symbol = (if truthy symbol then [(''symbol'', JStr (py_upper (the symbol)))] else [])"

text \<open>\<^verbatim>\<open>for o in (data or [])\<close>\<close>

definition or_empty :: "json \<Rightarrow> json list res" where
  "or_empty j = (if json_truthy j then elements j else Ok [])"

text \<open>What the clients of OKX and Hyperliquid report of a cancelled order.\<close>

definition cancel_report :: "string \<Rightarrow> string \<Rightarrow> datetime \<Rightarrow> order_result" where
  "cancel_report symbol i t = \<lparr>r_order_id = [], r_exchange_order_id = i, r_symbol = py_upper symbol, r_side = [],
     r_order_type = [], r_quantity = 0, r_price = None, r_filled_quantity = 0, r_average_fill_price = None,
     r_status = ''cancelled'', r_created_at = t, r_updated_at = t, r_error_message = None\<rparr>"

text \<open>The methods that signed requests know.\<close>

datatype signed_method = SignedGet | SignedPost | SignedDelete

end
