(* ===== verification/RequestLaws.thy ===== *)
theory RequestLaws
  imports TransportLaws ExchangeAdapter
begin

text \<open>
  What the laws of the exchange clients share: the requests an operation sends, the part of the state
  that a request leaves alone, and the answer of a server that answers at once.
\<close>

declare acquire_loop.simps(2) [simp del] http_loop.simps [simp del]

section \<open>Conversations\<close>

text \<open>The other side after it got some requests, and an operation that sends requests of one kind only.\<close>

definition told :: "'x http_client \<Rightarrow> http_request list \<Rightarrow> 'x \<Rightarrow> 'x" where
  "told c qs x = fold (\<lambda>q x. snd (hc_send c q x)) qs x"

definition only_sends :: "(http_request \<Rightarrow> bool) \<Rightarrow> 'x http_client \<Rightarrow> ('x, 'm) world_scheme \<Rightarrow> ('x, 'm) world_scheme \<Rightarrow> bool" where
  "only_sends P c s t \<longleftrightarrow> (\<exists>qs. list_all P qs \<and> exch t = told c qs (exch s))"

lemma told_simps [simp]:
  "told c [] x = x" "told c (q # qs) x = told c qs (snd (hc_send c q x))"
  "told c (qs @ rs) x = told c rs (told c qs x)"
  by (simp_all add: told_def)

interpretation sends: step_contract "only_sends P c" for P c
proof
  show "only_sends P c s s" for s
    by (auto simp: only_sends_def intro: exI [of _ "[]"])
  show "only_sends P c s u" if "only_sends P c s t" "only_sends P c t u" for s t u
  proof -
    from that obtain qs rs where "list_all P (qs @ rs)" "exch u = told c (qs @ rs) (exch s)"
      by (auto simp: only_sends_def)
    then show ?thesis unfolding only_sends_def by blast
  qed
qed

lemma quiet_sends: "exch t = exch s \<Longrightarrow> only_sends P c s t"
  by (auto simp: only_sends_def intro: exI [of _ "[]"])

lemma only_sendsI: "exch t = told c qs (exch s) \<Longrightarrow> list_all P qs \<Longrightarrow> only_sends P c s t"
  by (auto simp: only_sends_def)

lemma sends_modify: "(\<And>s. exch (f s) = exch s) \<Longrightarrow> obeys (only_sends P c) (modify f)"
  by (rule sends.modify) (simp add: quiet_sends)

lemma sends_once: "P q \<Longrightarrow> obeys (only_sends P c) (send_once c q)"
  by (auto simp: obeys_def send_once_def split: prod.splits intro!: only_sendsI [of _ _ "[q]"])

lemma sends_nap: "obeys (only_sends P c) (nap d)"
  by (simp add: obeys_def quiet_sends nap_def py_simps)

lemma sends_acquire_loop: "obeys (only_sends P c) (acquire_loop k e n w)"
proof (induction k arbitrary: w)
  case 0
  then show ?case by (simp add: sends.throw)
next
  case (Suc k)
  show ?case unfolding acquire_loop.simps(2) Let_def
    by (intro resp_intros sends.contract_rules sends_nap Suc sends_modify) simp_all
qed

lemma sends_acquire: "obeys (only_sends P c) (acquire k e n)"
  unfolding acquire_def by (intro resp_intros sends.contract_rules sends_acquire_loop)

lemma sends_http_loop:
  assumes "P q"
  shows "obeys (only_sends P c) (http_loop k a c q)"
proof (induction k arbitrary: a)
  case 0
  show ?case unfolding http_loop.simps [of 0] Let_def using sends_once [of P q, OF assms]
    by (intro sends.contract_rules) (auto split: http_outcome.split http_failure.split intro!: sends.contract_rules)
next
  case (Suc k)
  show ?case unfolding http_loop.simps [of "Suc k"] Let_def using sends_once [of P q, OF assms]
    by (intro sends.contract_rules)
      (auto split: http_outcome.split http_failure.split intro!: sends.contract_rules sends_nap Suc)
qed

text \<open>Whatever happens to a request, the other side has got that request, some number of times.\<close>

lemma sends_request:
  assumes "P \<lparr>rq_method = py_upper verb, rq_url = http_url c route, rq_params = params, rq_headers = headers,
      rq_content = content\<rparr>"
  shows "obeys (only_sends P c) (perform_request c verb route e n params headers content)"
  unfolding perform_request_def
  by (intro resp_intros sends.contract_rules sends_acquire sends_http_loop assms)

section \<open>What a request leaves alone\<close>

definition own_state :: "('x, 'm) net_scheme \<Rightarrow> datetime \<times> 'm" where
  "own_state s = (clock s, net.more s)"

lemma own_nap: "obeys (same own_state) (nap d)"
  by (simp add: obeys_def same_def own_state_def nap_def py_simps)

lemma own_acquire_loop: "obeys (same own_state) (acquire_loop k e n w)"
proof (induction k arbitrary: w)
  case 0
  then show ?case by (simp add: frame.throw)
next
  case (Suc k)
  show ?case unfolding acquire_loop.simps(2) Let_def
    by (intro resp_intros own_nap Suc) (simp_all add: own_state_def)
qed

lemma own_send: "obeys (same own_state) (send_once c q)"
  by (auto simp: obeys_def same_def own_state_def send_once_def split: prod.splits)

lemma own_http_loop: "obeys (same own_state) (http_loop k a c q)"
proof (induction k arbitrary: a)
  case 0
  show ?case unfolding http_loop.simps [of 0] Let_def
    by (intro frame_rules own_send) (auto split: http_outcome.split http_failure.split intro!: frame_rules)
next
  case (Suc k)
  show ?case unfolding http_loop.simps [of "Suc k"] Let_def
    by (intro frame_rules own_send) (auto split: http_outcome.split http_failure.split intro!: frame_rules own_nap Suc)
qed

lemma own_request: "obeys (same own_state) (perform_request c verb route e n params headers content)"
  unfolding perform_request_def acquire_def
  by (intro resp_intros own_acquire_loop own_http_loop)

lemma request_keeps_own: "own_state (snd (perform_request c verb route e n params headers content s)) = own_state s"
  by (rule sameD [OF own_request])

section \<open>Answers at once\<close>

text \<open>A bucket that refills, over a clock whose sleeps last at least as long as asked: every request gets through.\<close>

definition flowing_bucket :: "('x, 'm) net_scheme \<Rightarrow> bool" where
  "flowing_bucket s \<longleftrightarrow> (let c = limit_of ''default'' (tr_limiter s) in
     bucket_ok ''default'' c s \<and> 0 < rl_refill_rate c \<and> 1 \<le> rl_max_tokens c \<and> (\<forall>d. 0 \<le> d \<longrightarrow> d \<le> tr_lasts s d))"

lemma acquire_keeps_flowing:
  assumes "flowing_bucket s" and run: "acquire 2 ''default'' 1 s = (r, t)"
  shows "flowing_bucket t"
proof -
  let ?c = "limit_of ''default'' (tr_limiter s)"
  have ok: "bucket_ok ''default'' ?c s" and c: "0 < rl_refill_rate ?c" "1 \<le> rl_max_tokens ?c"
    and honest: "\<forall>d. 0 \<le> d \<longrightarrow> d \<le> tr_lasts s d"
    using assms(1) unfolding flowing_bucket_def Let_def by blast+
  have "acquire_loop 2 ''default'' 1 0 s = (r, t)"
    using run c(2) by (simp add: acquire_def reading_def)
  from acquire_loop_spends [OF ok ok _ this] have t: "bucket_ok ''default'' ?c t" by simp
  have "obeys (same tr_lasts) (acquire_loop k e n w)" for k e n w
  proof (induction k arbitrary: w)
    case (Suc k)
    show ?case unfolding acquire_loop.simps(2) Let_def nap_def sleep_def
      by (intro resp_intros Suc) simp_all
  qed (simp add: frame.throw)
  from sameD [OF this, of 2 "''default''" 1 0 s] have "tr_lasts t = tr_lasts s"
    using \<open>acquire_loop 2 _ 1 0 s = (r, t)\<close> by simp
  with t c honest bucket_okD(1) [OF t] show ?thesis by (simp add: flowing_bucket_def)
qed

lemma limited_request:
  assumes "flowing_bucket s"
  obtains u where "exch u = exch s" "flowing_bucket u"
    "perform_request c verb route ''default'' 1 params headers content s =
      http_loop (nat (rp_max_retries (hc_policy c))) 1 c \<lparr>rq_method = py_upper verb, rq_url = http_url c route,
        rq_params = params, rq_headers = headers, rq_content = content\<rparr> u"
proof -
  let ?c = "limit_of ''default'' (tr_limiter s)"
  have c: "bucket_ok ''default'' ?c s" "0 < rl_refill_rate ?c" "1 \<le> rl_max_tokens ?c"
    and honest: "0 \<le> d \<Longrightarrow> d \<le> tr_lasts s d" for d
    using assms unfolding flowing_bucket_def Let_def by blast+
  have "\<exists>u. (if hc_limited c then bind (acquire 2 ''default'' 1) (\<lambda>_. ret ()) else ret ()) s = (Ok (), u) \<and>
      exch u = exch s \<and> flowing_bucket u"
    using acquire_returns [OF c honest, of 0] acquire_keeps_flowing [OF assms] assms
    by (auto simp: py_simps numeral_2_eq_2)
  then obtain u where u: "(if hc_limited c then bind (acquire 2 ''default'' 1) (\<lambda>_. ret ()) else ret ()) s = (Ok (), u)"
    "exch u = exch s" "flowing_bucket u" by blast
  then show ?thesis by (intro that [of u]) (simp_all only: perform_request_def seq_def bind_def [of "if hc_limited c then _ else _"], simp)
qed

lemma answered_at_once:
  assumes "flowing_bucket s" and "hc_send c q (exch s) = (Response r, x)" and "rs_status r < 500"
    and "q = \<lparr>rq_method = py_upper verb, rq_url = http_url c route, rq_params = params, rq_headers = headers,
      rq_content = content\<rparr>"
  obtains t where "perform_request c verb route ''default'' 1 params headers content s = (Ok r, t)" "exch t = x"
    "own_state t = own_state s" "flowing_bucket t"
proof -
  let ?run = "perform_request c verb route ''default'' 1 params headers content s"
  obtain u where u: "exch u = exch s" "flowing_bucket u" "?run = http_loop (nat (rp_max_retries (hc_policy c))) 1 c q u"
    using limited_request [OF assms(1), of c verb route params headers content] assms(4) by metis
  have "hc_send c q (exch u) = (Response r, x)" using assms(2) u(1) by simp
  from http_loop_step [OF this, of "nat (rp_max_retries (hc_policy c))" 1] assms(3)
  have run: "?run = (Ok r, u\<lparr>exch := x\<rparr>)" by (simp add: u(3) repeatable_def answer_of_def)
  have "flowing_bucket (u\<lparr>exch := x\<rparr>)"
    using u(2) by (simp add: flowing_bucket_def bucket_ok_def last_refill_def cong: option.case_cong)
  with run request_keeps_own [of c verb route "''default''" 1 params headers content s] show ?thesis
    by (intro that) (simp_all only: snd_conv, simp)
qed

section \<open>A concrete client\<close>

text \<open>A library whose signatures are the texts themselves, and a client over a server given by a function.\<close>

definition sample_library :: "(http_request \<Rightarrow> 'x \<Rightarrow> http_outcome \<times> 'x) \<Rightarrow> 'x library" where
  "sample_library send = \<lparr>lb_hmac_hex = (\<lambda>secret t. t), lb_hmac_base64 = (\<lambda>secret t. t), lb_repr = (\<lambda>_. []),
     lb_iso_time = (\<lambda>_. ''2024''), lb_ws = \<lparr>wl_connect = (\<lambda>_ x. (Ok (), x)), wl_send = (\<lambda>_ x. (Ok (), x))\<rparr>,
     lb_send = send\<rparr>"

definition sample_http :: "(http_request \<Rightarrow> 'x \<Rightarrow> http_outcome \<times> 'x) \<Rightarrow> 'x http_client" where
  "sample_http send = \<lparr>hc_base_url = ''https://api'', hc_policy = client_policy, hc_limited = True,
     hc_exchange_name = ''x'', hc_send = send\<rparr>"

definition sample_client :: "(http_request \<Rightarrow> 'x \<Rightarrow> http_outcome \<times> 'x) \<Rightarrow> 'x \<Rightarrow> ('x, unit) exchange_client" where
  "sample_client send x = \<lparr>clock = 1, uuid_next = 0, sleeps = [], exch = x, tr_mono = 0, tr_lasts = (\<lambda>d. d),
     tr_limiter = new_limiter None, st_market = (new_ws stream_policy True)\<lparr>ws_url := ''wss://x'', ws_socket := OpenSocket,
       ws_subscriptions := [(''wss://x'', [(JObj [(''op'', JStr ''subscribe''), (''args'', JList [JStr ''tickers/BTC''])], JNull)])]\<rparr>,
     st_account = new_ws stream_policy True, ea_name = ''x'', ea_http = Some (sample_http send),
     ea_rest_url = ''https://api'', ea_ws_url = ''wss://x'', ea_private_url = ''wss://y'', ea_recv_window = 5000,
     ea_api_key = ''key'', ea_api_secret = ''secret'', ea_passphrase = [], ea_time_offset = 0, ea_exchange_info = None,
     ea_listen_key = None, ea_wallet = ''0x1'', ea_ticker_callbacks = [], ea_orderbook_callbacks = [],
     ea_user_callback = None, ea_next_id = 1\<rparr>"

lemma sample_flows: "flowing_bucket (sample_client send x)"
  by (simp add: flowing_bucket_def bucket_ok_def sample_client_def new_limiter_def limit_of_def tokens_of_def last_refill_def)

lemma sample_fields [simp]:
  "ea_http (sample_client send x) = Some (sample_http send)" "ea_api_key (sample_client send x) = ''key''"
  "ea_api_secret (sample_client send x) = ''secret''" "exch (sample_client send x) = x" "clock (sample_client send x) = 1"
  "hc_send (sample_http send) = send" "hc_policy (sample_http send) = client_policy"
  "hc_base_url (sample_http send) = ''https://api''"
  by (simp_all add: sample_client_def sample_http_def)

end
