(* ===== verification/BinanceAdapter.thy ===== *)
theory BinanceAdapter
  imports ExchangeAdapter
begin

text \<open>
  \<^verbatim>\<open>exchanges/adapters/binance.py\<close>: signed requests, account, market data, orders and streams of
  Binance Spot. The task that keeps the listen key alive is one round of its loop.
\<close>

section \<open>Signing\<close>

text \<open>\<^verbatim>\<open>int(time.time() * 1000 + offset)\<close>\<close>

definition bn_timestamp :: "('x, 'cb, 'm) exchange_client_scheme \<Rightarrow> int" where
  "bn_timestamp s = millis (clock s) + ea_time_offset s"

definition bn_headers :: "('x, 'cb, 'm) exchange_client_scheme \<Rightarrow> (string, string) dict" where
  "bn_headers s = [(''X-MBX-APIKEY'', ea_api_key s)]"

definition bn_unsigned :: "('x, 'cb, 'm) exchange_client_scheme \<Rightarrow> (string, json) dict \<Rightarrow> (string, json) dict" where
  "bn_unsigned s ps =
     (let window = (case dget ps ''recvWindow'' of None \<Rightarrow> JInt (ea_recv_window s) | Some w \<Rightarrow> w)
      in dput ''timestamp'' (JInt (bn_timestamp s)) (dput ''recvWindow'' window ps))"

definition bn_signed_params :: "'x library \<Rightarrow> (string, json) dict \<Rightarrow> ('x, 'cb, 'm, (string, json) dict) client" where
  "bn_signed_params lib ps = seq ensure_authenticated (gets (\<lambda>s.
     let us = bn_unsigned s ps
     in dput ''signature'' (JStr (lb_hmac_hex lib (ea_api_secret s) (urlencode lib (sorted_items us)))) us))"

section \<open>Errors\<close>

definition drift_error :: exn where
  "drift_error = Exn ExchangeError [''TIMESTAMP_DRIFT'']"

definition bn_raise_for_status :: "'x library \<Rightarrow> http_response \<Rightarrow> unit res" where
  "bn_raise_for_status lib r =
     (if rs_status r < 400 then Ok ()
      else let body = error_body r; status = rs_status r in
        rbind (item_or body ''code'' JNull) (\<lambda>code.
        rbind (item_or body ''msg'' (JStr [])) (\<lambda>msg.
          if status = 429 \<or> json_is (-1003) code \<or> json_is (-1015) code then Raise (Exn ExchangeRateLimitError [])
          else if status = 418 then Raise (Exn ExchangeRateLimitError [])
          else if json_is (-1021) code then Raise drift_error
          else if json_is (-1022) code \<or> json_is (-2014) code \<or> json_is (-2015) code then Raise (Exn AuthenticationError [])
          else if json_is (-2013) code
          then rbind (get_str lib body ''orderId'') (\<lambda>i. Raise (Exn OrderNotFound [i]))
          else rbind (if json_is (-2010) code then on_text (\<lambda>m. has_substring ''balance'' (py_lower m)) msg else Ok False)
            (\<lambda>poor.
              if poor then Raise (Exn InsufficientBalanceError [])
              else if json_is (-1120) code \<or> json_is (-1121) code
              then rbind (item_or body ''symbol'' (JStr [])) (\<lambda>y. Raise (symbol_not_supported (py_str lib y)))
              else if 500 \<le> status then Raise (Exn ExchangeConnectionError [])
              else Raise (Exn ExchangeError [])))))"

section \<open>Requests\<close>

definition bn_sync_time :: "'x library \<Rightarrow> ('x, 'cb, 'm, bool) client" where
  "bn_sync_time lib = bind (with_http (\<lambda>c. http_get c ''/api/v3/time'' [] [])) (\<lambda>r.
     seq (lift_res (bn_raise_for_status lib r))
     (case rs_body r of
        None \<Rightarrow> throw (Exn PyValueError [])
      | Some j \<Rightarrow> bind now (\<lambda>t. bind (lift_res (rbind (item j ''serverTime'') as_int)) (\<lambda>server.
          seq (modify (\<lambda>s. s\<lparr>ea_time_offset := server - millis t\<rparr>)) (ret True)))))"

definition bn_send_signed :: "'x library \<Rightarrow> signed_method \<Rightarrow> string \<Rightarrow> (string, json) dict \<Rightarrow>
    ('x, 'cb, 'm, http_response) client" where
  "bn_send_signed lib method path ps = bind (bn_signed_params lib ps) (\<lambda>signed. reading (\<lambda>s.
     with_http (\<lambda>c. case method of
        SignedGet \<Rightarrow> http_get c path signed (bn_headers s)
      | SignedPost \<Rightarrow> http_post c path (TextBody (urlencode lib (sorted_items signed)))
          (bn_headers s @ [(''Content-Type'', ''application/x-www-form-urlencoded'')])
      | SignedDelete \<Rightarrow> http_delete c path signed (bn_headers s))))"

text \<open>
  One attempt, and a second one after synchronising the clock when the first was refused for its
  timestamp; the statement after the loop of the code is never reached.
\<close>

definition bn_attempt :: "'x library \<Rightarrow> signed_method \<Rightarrow> string \<Rightarrow> (string, json) dict \<Rightarrow> ('x, 'cb, 'm, http_response) client" where
  "bn_attempt lib method path ps = bind (bn_send_signed lib method path ps) (\<lambda>r.
     seq (lift_res (bn_raise_for_status lib r)) (ret r))"

definition bn_signed_request :: "'x library \<Rightarrow> signed_method \<Rightarrow> string \<Rightarrow> (string, json) dict \<Rightarrow>
    ('x, 'cb, 'm, http_response) client" where
  "bn_signed_request lib method path ps = try_catch (bn_attempt lib method path ps)
     (\<lambda>e. if isinstance e [ExchangeError] \<and> exn_args e = [''TIMESTAMP_DRIFT'']
          then seq (bn_sync_time lib) (bn_attempt lib method path ps)
          else throw e)"

definition bn_fetch :: "'x library \<Rightarrow> string \<Rightarrow> (string, json) dict \<Rightarrow> ('x, 'cb, 'm, json) client" where
  "bn_fetch lib = fetch (bn_raise_for_status lib)"

definition bn_signed_json :: "'x library \<Rightarrow> signed_method \<Rightarrow> string \<Rightarrow> (string, json) dict \<Rightarrow> ('x, 'cb, 'm, json) client" where
  "bn_signed_json lib method path ps =
     bind (bn_signed_request lib method path ps) (parse_json (bn_raise_for_status lib))"

section \<open>Lifecycle\<close>

definition bn_initialize :: "'x library \<Rightarrow> adapter_config \<Rightarrow> ('x, 'cb, 'm, bool) client" where
  "bn_initialize lib cfg =
     seq (modify (\<lambda>s. s\<lparr>ea_recv_window := ac_recv_window cfg\<rparr>))
     (initialize_client lib \<lparr>rl_max_tokens = 1200, rl_refill_rate = 20\<rparr> cfg
       (address (ac_is_testnet cfg) ''https://testnet.binance.vision'' (ac_rest_url cfg) ''https://api.binance.com'')
       (address (ac_is_testnet cfg) ''wss://testnet.binance.vision/ws'' (ac_market_stream_url cfg)
         ''wss://stream.binance.com:9443/ws'') [])"

definition bn_authenticate :: "'x library \<Rightarrow> exchange_credentials \<Rightarrow> ('x, 'cb, 'm, bool) client" where
  "bn_authenticate lib cr =
     seq (bn_sync_time lib)
     (seq (modify (\<lambda>s. s\<lparr>ea_api_key := ec_api_key cr, ea_api_secret := ec_api_secret cr\<rparr>))
     (bind (bn_signed_request lib SignedGet ''/api/v3/account'' []) (\<lambda>r.
       seq (lift_res (bn_raise_for_status lib r)) (ret True))))"

definition bn_connect_market :: "'x library \<Rightarrow> ('x, 'cb, 'm, bool) client" where
  "bn_connect_market lib = reading (\<lambda>s. ws_connect (lb_ws lib) Market (ea_ws_url s))"

definition bn_connect_account :: "'x library \<Rightarrow> ('x, 'cb, 'm, bool) client" where
  "bn_connect_account lib =
     seq (reading (\<lambda>s. if truthy (ea_listen_key s) then ret ()
       else seq ensure_authenticated
         (bind (with_http (\<lambda>c. http_post c ''/api/v3/userDataStream'' NoContent (bn_headers s))) (\<lambda>r.
            seq (lift_res (bn_raise_for_status lib r))
            (case rs_body r of
               None \<Rightarrow> throw (Exn PyValueError [])
             | Some j \<Rightarrow> bind (lift_res (rbind (item j ''listenKey'') as_str)) (\<lambda>k.
                 modify (\<lambda>s. s\<lparr>ea_listen_key := Some k\<rparr>)))))))
     (reading (\<lambda>s. ws_connect (lb_ws lib) Account
        (ea_ws_url s @ ''/'' @ (case ea_listen_key s of None \<Rightarrow> ''None'' | Some k \<Rightarrow> k))))"

definition bn_disconnect :: "('x, 'cb, 'm, unit) client" where
  "bn_disconnect = seq disconnect_client (modify (\<lambda>s. s\<lparr>ea_listen_key := None\<rparr>))"

definition bn_health_check :: "'x library \<Rightarrow> ('x, 'cb, 'm, bool) client" where
  "bn_health_check lib = health_answer (bind (bn_sync_time lib) (\<lambda>_. ret ()))"

definition bn_keepalive_round :: "('x, 'cb, 'm, unit) client" where
  "bn_keepalive_round = try_catch
     (seq (nap 1800) (reading (\<lambda>s. if truthy (ea_listen_key s)
        then bind (with_http (\<lambda>c. http_put c ''/api/v3/userDataStream''
               [(''listenKey'', JStr (the (ea_listen_key s)))] (bn_headers s))) (\<lambda>_. ret ())
        else ret ())))
     (\<lambda>_. ret ())"

section \<open>Account and symbols\<close>

definition bn_get_account :: "'x library \<Rightarrow> ('x, 'cb, 'm, json) client" where
  "bn_get_account lib = bn_signed_json lib SignedGet ''/api/v3/account'' []"

definition bn_balance :: "string option \<Rightarrow> json \<Rightarrow> balance_entry list res" where
  "bn_balance asset j =
     rbind (if truthy asset then rbind (item j ''asset'') (\<lambda>a. Ok (a \<noteq> JStr (py_upper (the asset)))) else Ok False) (\<lambda>skip.
     if skip then Ok []
     else rbind (rbind (item j ''asset'') as_str) (\<lambda>currency.
       rbind (item_decimal j ''free'') (\<lambda>free. rbind (item_decimal j ''locked'') (\<lambda>locked.
         Ok [\<lparr>be_currency = currency, be_available = free, be_locked = locked, be_total = dadd free locked\<rparr>]))))"

definition bn_get_balance :: "'x library \<Rightarrow> string option \<Rightarrow> ('x, 'cb, 'm, balance_entry list) client" where
  "bn_get_balance lib asset = bind (bn_get_account lib) (\<lambda>account.
     lift_res (rbind (get_elements account ''balances'') (\<lambda>js. concat_res (rmap (bn_balance asset) js))))"

definition bn_load_exchange_info :: "'x library \<Rightarrow> ('x, 'cb, 'm, json) client" where
  "bn_load_exchange_info lib = load_exchange_info (bn_fetch lib ''/api/v3/exchangeInfo'' [])"

definition bn_get_symbol_info :: "'x library \<Rightarrow> string \<Rightarrow> ('x, 'cb, 'm, json) client" where
  "bn_get_symbol_info lib symbol = bind (bn_load_exchange_info lib) (\<lambda>info.
     bind (lift_res (rbind (get_elements info ''symbols'') (find_by ''symbol'' (py_upper symbol)))) (\<lambda>found.
       case found of None \<Rightarrow> throw (symbol_not_supported symbol) | Some j \<Rightarrow> ret j))"

definition bn_get_exchange_info :: "'x library \<Rightarrow> ('x, 'cb, 'm, exchange_info) client" where
  "bn_get_exchange_info lib = bind (bn_load_exchange_info lib) (\<lambda>info. reading (\<lambda>s. lift_res (
     rbind (rbind (get_elements info ''symbols'') (rmap (\<lambda>j. rbind (item j ''symbol'') as_str))) (\<lambda>symbols.
     rbind (item_or info ''rateLimits'' (JObj [])) (\<lambda>limits.
     rbind (rbind (item_or info ''serverTime'' (JInt (millis (clock s)))) from_millis) (\<lambda>t.
       Ok \<lparr>ei_name = ea_name s, ei_supported_symbols = symbols, ei_rate_limits = limits, ei_server_time = t\<rparr>))))))"

definition bn_get_positions :: "string option \<Rightarrow> ('x, 'cb, 'm, position_report list) client" where
  "bn_get_positions symbol = ret []"

section \<open>Market data\<close>

definition bn_get_ticker :: "'x library \<Rightarrow> string \<Rightarrow> ('x, 'cb, 'm, ticker_data) client" where
  "bn_get_ticker lib symbol = (let upper = py_upper symbol in
     bind (bn_fetch lib ''/api/v3/ticker/bookTicker'' [(''symbol'', JStr upper)]) (\<lambda>book.
     bind (bn_fetch lib ''/api/v3/ticker/24hr'' [(''symbol'', JStr upper)]) (\<lambda>stats.
       lift_res (rbind (item_decimal book ''bidPrice'') (\<lambda>bid. rbind (item_decimal book ''askPrice'') (\<lambda>ask.
         rbind (item_decimal stats ''lastPrice'') (\<lambda>last. rbind (item_decimal stats ''volume'') (\<lambda>volume.
         rbind (rbind (item stats ''closeTime'') from_millis) (\<lambda>t.
           Ok \<lparr>td_symbol = upper, td_bid = bid, td_ask = ask, td_last = last, td_volume = volume, td_timestamp = t\<rparr>)))))))))"

text \<open>One ticker of the list: skipped unless it is quoted in USDT, or when anything about it raises.\<close>

definition ends_with :: "string \<Rightarrow> string \<Rightarrow> bool" where
  "ends_with suffix s \<longleftrightarrow> length suffix \<le> length s \<and> drop (length s - length suffix) s = suffix"

definition bn_listed_ticker :: "datetime \<Rightarrow> json \<Rightarrow> ticker_data list res" where
  "bn_listed_ticker t j = rbind (item_or j ''symbol'' (JStr [])) (\<lambda>y. rbind (on_text (\<lambda>x. x) y) (\<lambda>symbol.
     if \<not> ends_with ''USDT'' symbol then Ok []
     else (case
         rbind (get_decimal j ''volume'') (\<lambda>volume.
         if volume \<le> 0 then Ok []
         else rbind (get_decimal j ''bidPrice'') (\<lambda>bid. rbind (get_decimal j ''askPrice'') (\<lambda>ask.
           rbind (get_decimal j ''lastPrice'') (\<lambda>last.
           rbind (rbind (item_or j ''closeTime'' (JInt (millis t))) from_millis) (\<lambda>closed.
             Ok [\<lparr>td_symbol = symbol, td_bid = bid, td_ask = ask, td_last = last, td_volume = volume, td_timestamp = closed\<rparr>])))))
       of Ok ts \<Rightarrow> Ok ts | Raise _ \<Rightarrow> Ok [])))"

definition by_volume :: "ticker_data list \<Rightarrow> ticker_data list" where
  "by_volume = sort_key (\<lambda>t. - td_volume t)"

definition bn_get_tickers :: "'x library \<Rightarrow> ('x, 'cb, 'm, ticker_data list) client" where
  "bn_get_tickers lib = bind (bn_fetch lib ''/api/v3/ticker/24hr'' []) (\<lambda>data. reading (\<lambda>s.
     lift_res (rbind (concat_res (rbind (elements data) (rmap (bn_listed_ticker (clock s))))) (\<lambda>ts. Ok (by_volume ts)))))"

definition bn_get_order_book :: "'x library \<Rightarrow> string \<Rightarrow> int \<Rightarrow> ('x, 'cb, 'm, order_book) client" where
  "bn_get_order_book lib symbol limit =
     bind (bn_fetch lib ''/api/v3/depth'' [(''symbol'', JStr (py_upper symbol)), (''limit'', JInt limit)]) (\<lambda>data.
       reading (\<lambda>s. lift_res (read_book (py_upper symbol) (clock s) data)))"

definition bn_get_candles :: "'x library \<Rightarrow> string \<Rightarrow> string \<Rightarrow> int \<Rightarrow> ('x, 'cb, 'm, market_candle list) client" where
  "bn_get_candles lib symbol interval limit =
     bind (bn_fetch lib ''/api/v3/klines''
        [(''symbol'', JStr (py_upper symbol)), (''interval'', JStr interval), (''limit'', JInt limit)]) (\<lambda>data.
       lift_res (rbind (elements data) (rmap (read_candle from_millis (py_upper symbol) interval))))"

text \<open>\<^verbatim>\<open>_quote_asset\<close>; a symbol of more than six characters has a fourth one from the end.\<close>

definition last_chars :: "nat \<Rightarrow> string \<Rightarrow> string" where
  "last_chars n s = drop (length s - n) s"

definition bn_quote_asset :: "string \<Rightarrow> string" where
  "bn_quote_asset symbol = (let s = py_upper symbol in
     if 6 < length s
     then if s ! (length s - 4) \<in> set ''UBTF'' then last_chars 4 s else last_chars 3 s
     else last_chars 3 s)"

definition bn_trade :: "'x library \<Rightarrow> string \<Rightarrow> json \<Rightarrow> trade_entry res" where
  "bn_trade lib symbol row =
     rbind (item row ''id'') (\<lambda>i. rbind (item_or row ''isBuyerMaker'' JNull) (\<lambda>maker.
     rbind (item_decimal row ''qty'') (\<lambda>qty. rbind (item_decimal row ''price'') (\<lambda>price.
     rbind (rbind (item row ''time'') from_millis) (\<lambda>t.
       Ok \<lparr>te_trade_id = py_str lib i, te_order_id = [], te_symbol = py_upper symbol,
         te_side = (if json_truthy maker then ''sell'' else ''buy''), te_quantity = qty, te_price = price, te_fee = 0,
         te_fee_currency = bn_quote_asset symbol, te_timestamp = t\<rparr>)))))"

definition bn_get_trades :: "'x library \<Rightarrow> string \<Rightarrow> int \<Rightarrow> ('x, 'cb, 'm, trade_entry list) client" where
  "bn_get_trades lib symbol limit =
     bind (bn_fetch lib ''/api/v3/trades'' [(''symbol'', JStr (py_upper symbol)), (''limit'', JInt limit)]) (\<lambda>data.
       lift_res (rbind (elements data) (rmap (bn_trade lib symbol))))"

section \<open>Orders\<close>

definition bn_order_status :: "string \<Rightarrow> string" where
  "bn_order_status status =
     (if status = ''NEW'' then ''open''
      else if status = ''PARTIALLY_FILLED'' then ''partially_filled''
      else if status = ''FILLED'' then ''filled''
      else if status = ''CANCELED'' then ''cancelled''
      else if status = ''PENDING_CANCEL'' then ''pending''
      else if status = ''REJECTED'' then ''rejected''
      else if status = ''EXPIRED'' then ''expired''
      else py_lower status)"

definition bn_order_result :: "'x library \<Rightarrow> datetime \<Rightarrow> json \<Rightarrow> order_result res" where
  "bn_order_result lib t j =
     rbind (get_decimal j ''executedQty'') (\<lambda>filled. rbind (get_decimal j ''cummulativeQuoteQty'') (\<lambda>quote.
     rbind (get_str lib j ''clientOrderId'') (\<lambda>own. rbind (get_str lib j ''orderId'') (\<lambda>i.
     rbind (get_text j ''symbol'') (\<lambda>symbol. rbind (get_lower j ''side'') (\<lambda>side. rbind (get_lower j ''type'') (\<lambda>kind.
     rbind (get_decimal j ''origQty'') (\<lambda>qty. rbind (get_decimal j ''price'') (\<lambda>price.
     rbind (rbind (item_or j ''status'' (JStr [])) (on_text (\<lambda>x. x))) (\<lambda>status.
     rbind (rbind (item_or j ''time'' (JInt (millis t))) from_millis) (\<lambda>created.
     rbind (rbind (item_or j ''updateTime'' (JInt (millis t))) from_millis) (\<lambda>updated.
       Ok \<lparr>r_order_id = own, r_exchange_order_id = i, r_symbol = symbol, r_side = side, r_order_type = kind,
         r_quantity = qty, r_price = or_none price, r_filled_quantity = filled,
         r_average_fill_price = Some (if 0 < filled then ddiv quote filled else 0),
         r_status = bn_order_status status, r_created_at = created, r_updated_at = updated, r_error_message = None\<rparr>))))))))))))"

definition bn_result :: "'x library \<Rightarrow> json \<Rightarrow> ('x, 'cb, 'm, order_result) client" where
  "bn_result lib j = reading (\<lambda>s. lift_res (bn_order_result lib (clock s) j))"

text \<open>Of the keyword arguments three are passed on under their own names.\<close>

definition bn_order_params :: "string \<Rightarrow> string \<Rightarrow> string \<Rightarrow> decimal \<Rightarrow> decimal option \<Rightarrow> (string, json) dict \<Rightarrow>
    (string, json) dict" where
  "bn_order_params symbol side order_type quantity price kwargs =
     [(''symbol'', JStr (py_upper symbol)), (''side'', JStr (py_upper side)), (''type'', JStr (py_upper order_type)),
      (''quantity'', JStr (str_decimal quantity))] @
     (case price of None \<Rightarrow> [] | Some p \<Rightarrow> [(''price'', JStr (str_decimal p)),
        (''timeInForce'', case dget kwargs ''time_in_force'' of None \<Rightarrow> JStr ''GTC'' | Some v \<Rightarrow> v)]) @
     concat (map (\<lambda>k. case dget kwargs k of None \<Rightarrow> [] | Some v \<Rightarrow> [(k, v)])
       [''stopPrice'', ''icebergQty'', ''newClientOrderId''])"

definition bn_place_order :: "'x library \<Rightarrow> string \<Rightarrow> string \<Rightarrow> string \<Rightarrow> decimal \<Rightarrow> decimal option \<Rightarrow>
    (string, json) dict \<Rightarrow> ('x, 'cb, 'm, order_result) client" where
  "bn_place_order lib symbol side order_type quantity price kwargs =
     bind (bn_signed_json lib SignedPost ''/api/v3/order'' (bn_order_params symbol side order_type quantity price kwargs))
       (bn_result lib)"

definition bn_order_key :: "string \<Rightarrow> string \<Rightarrow> (string, json) dict res" where
  "bn_order_key symbol i = rbind (py_int (JStr i)) (\<lambda>n. Ok [(''symbol'', JStr (py_upper symbol)), (''orderId'', JInt n)])"

definition bn_cancel_order :: "'x library \<Rightarrow> string \<Rightarrow> string \<Rightarrow> ('x, 'cb, 'm, order_result) client" where
  "bn_cancel_order lib symbol i = bind (lift_res (bn_order_key symbol i)) (\<lambda>ps.
     bind (bn_signed_json lib SignedDelete ''/api/v3/order'' ps) (bn_result lib))"

definition bn_get_order :: "'x library \<Rightarrow> string \<Rightarrow> string \<Rightarrow> ('x, 'cb, 'm, order_result) client" where
  "bn_get_order lib symbol i = bind (lift_res (bn_order_key symbol i)) (\<lambda>ps.
     bind (bn_signed_json lib SignedGet ''/api/v3/order'' ps) (bn_result lib))"

definition bn_results :: "'x library \<Rightarrow> json list \<Rightarrow> ('x, 'cb, 'm, order_result list) client" where
  "bn_results lib = collect (\<lambda>j. bind (bn_result lib j) (\<lambda>r. ret [r]))"

definition bn_get_open_orders :: "'x library \<Rightarrow> string option \<Rightarrow> ('x, 'cb, 'm, order_result list) client" where
  "bn_get_open_orders lib symbol =
     bind (bn_signed_json lib SignedGet ''/api/v3/openOrders'' (symbol_params symbol)) (\<lambda>data.
       bind (lift_res (or_empty data)) (bn_results lib))"

definition bn_cancel_all :: "'x library \<Rightarrow> string option \<Rightarrow> ('x, 'cb, 'm, order_result list) client" where
  "bn_cancel_all lib symbol =
     (if truthy symbol
      then bind (bn_signed_request lib SignedDelete ''/api/v3/openOrders'' (symbol_params symbol)) (\<lambda>r.
        if rs_status r = 200
        then bind (parse_json (bn_raise_for_status lib) r) (\<lambda>data. case data of
            JList js \<Rightarrow> bn_results lib js | _ \<Rightarrow> ret [])
        else ret [])
      else bind (bn_get_open_orders lib None) (collect (\<lambda>r.
        if r_symbol r = [] then ret []
        else bind (bn_cancel_order lib (r_symbol r) (r_exchange_order_id r)) (\<lambda>c. ret [c]))))"

section \<open>Streams\<close>

definition bn_stream :: "string \<Rightarrow> string \<Rightarrow> string" where
  "bn_stream channel symbol = py_lower symbol @ ''@'' @
     (if channel = ''ticker'' then ''ticker'' else if channel = ''orderbook'' then ''depth'' else channel)"

definition bn_ws_message :: "string \<Rightarrow> string list \<Rightarrow> ('x, 'cb, 'm, json) client" where
  "bn_ws_message method streams = reading (\<lambda>s.
     seq (modify (\<lambda>s. s\<lparr>ea_next_id := ea_next_id s + 1\<rparr>))
       (ret (JObj [(''method'', JStr method), (''params'', JList (map JStr streams)), (''id'', JInt (ea_next_id s))])))"

definition bn_subscribe_market :: "'x library \<Rightarrow> string list \<Rightarrow> string \<Rightarrow> 'cb \<Rightarrow> ('x, 'cb, 'm, bool) client" where
  "bn_subscribe_market lib symbols channel cb =
     seq (connect_if_closed Market (bn_connect_market lib))
     (seq (for_each (\<lambda>y. put_callback channel (py_upper y) cb) symbols)
     (bind (bn_ws_message ''SUBSCRIBE'' (map (\<lambda>y. bn_stream channel (py_upper y)) symbols)) (\<lambda>m.
       seq (ws_subscribe (lb_ws lib) Market m) (ret True))))"

definition bn_unsubscribe_market :: "'x library \<Rightarrow> string list \<Rightarrow> string \<Rightarrow> ('x, 'cb, 'm, bool) client" where
  "bn_unsubscribe_market lib symbols channel =
     seq (for_each (\<lambda>y. drop_callback channel (py_upper y)) symbols)
     (bind (bn_ws_message ''UNSUBSCRIBE'' (map (\<lambda>y. bn_stream channel (py_upper y)) symbols)) (\<lambda>m.
       seq (ws_unsubscribe (lb_ws lib) Market m) (ret True)))"

definition bn_subscribe_account :: "'x library \<Rightarrow> 'cb \<Rightarrow> ('x, 'cb, 'm, bool) client" where
  "bn_subscribe_account lib cb =
     seq (reading (\<lambda>s. if ws_is_connected Account s \<and> truthy (ea_listen_key s) then ret ()
       else bind (bn_connect_account lib) (\<lambda>_. ret ())))
     (set_user_callback (Some cb))"

definition bn_unsubscribe_account :: "('x, 'cb, 'm, bool) client" where
  "bn_unsubscribe_account = set_user_callback None"

text \<open>A message that is not text, not JSON or not an object is dropped.\<close>

definition bn_dispatch :: "('cb \<Rightarrow> json \<Rightarrow> ('x, 'cb, 'm, unit) client) \<Rightarrow> json option \<Rightarrow> ('x, 'cb, 'm, unit) client" where
  "bn_dispatch call message = (case message of
      Some (JObj d) \<Rightarrow>
        let event = (case dget d ''e'' of None \<Rightarrow> JNull | Some v \<Rightarrow> v);
            symbol = (case dget d ''s'' of None \<Rightarrow> JNull | Some v \<Rightarrow> v)
        in if event = JStr ''24hrTicker'' \<and> json_truthy symbol
           then bind (lift_res (on_text py_upper symbol)) (\<lambda>y.
             reading (\<lambda>s. call_if call (dget (ea_ticker_callbacks s) y) (JObj d)))
           else if event = JStr ''depthUpdate'' \<and> json_truthy symbol
           then bind (lift_res (on_text py_upper symbol)) (\<lambda>y.
             reading (\<lambda>s. call_if call (dget (ea_orderbook_callbacks s) y) (JObj d)))
           else if event \<in> set [JStr ''outboundAccountPosition'', JStr ''executionReport'', JStr ''balanceUpdate'']
           then reading (\<lambda>s. call_if call (ea_user_callback s) (JObj d))
           else ret ()
    | _ \<Rightarrow> ret ())"

end
