(* ===== verification/MexcAdapter.thy ===== *)
theory MexcAdapter
  imports ExchangeAdapter
begin

text \<open>
  \<^verbatim>\<open>exchanges/adapters/mexc.py\<close>: signed requests, account, market data, orders and streams of MEXC Spot.
  The number in a message of the streams is a hash of the symbol, which is a parameter.
\<close>

section \<open>Signing\<close>

definition mx_headers :: "('x, 'cb, 'm) exchange_client_scheme \<Rightarrow> (string, string) dict" where
  "mx_headers s = [(''X-MEXC-APIKEY'', ea_api_key s)]"

definition mx_unsigned :: "('x, 'cb, 'm) exchange_client_scheme \<Rightarrow> (string, json) dict \<Rightarrow> (string, json) dict" where
  "mx_unsigned s ps =
     (let ps' = dput ''timestamp'' (JInt (millis (clock s))) ps;
          window = (case dget ps' ''recvWindow'' of None \<Rightarrow> JInt (ea_recv_window s) | Some w \<Rightarrow> w)
      in dput ''recvWindow'' window ps')"

definition mx_signed_params :: "'x library \<Rightarrow> (string, json) dict \<Rightarrow> ('x, 'cb, 'm, (string, json) dict) client" where
  "mx_signed_params lib ps = seq ensure_authenticated (gets (\<lambda>s.
     let us = mx_unsigned s ps
     in dput ''signature'' (JStr (lb_hmac_hex lib (ea_api_secret s) (urlencode lib (sorted_items us)))) us))"

section \<open>Errors and requests\<close>

definition mx_raise_for_status :: "'x library \<Rightarrow> http_response \<Rightarrow> unit res" where
  "mx_raise_for_status lib r =
     (if rs_status r < 400 then Ok ()
      else let body = error_body r; status = rs_status r in
        rbind (item_or body ''code'' JNull) (\<lambda>code.
        rbind (item_or body ''msg'' (JStr [])) (\<lambda>msg.
          if status = 429 \<or> json_is 429 code then Raise (Exn ExchangeRateLimitError [])
          else if json_is 401 code \<or> json_is 403 code then Raise (Exn AuthenticationError [])
          else if json_is 1120 code \<or> json_is 1121 code then Raise (symbol_not_supported [])
          else if json_is 2010 code then Raise (Exn InsufficientBalanceError [])
          else if json_is 2013 code then Raise (Exn OrderNotFound [py_str lib msg])
          else if 500 \<le> status then Raise (Exn ExchangeConnectionError [])
          else Raise (Exn ExchangeError []))))"

definition mx_signed_request :: "'x library \<Rightarrow> signed_method \<Rightarrow> string \<Rightarrow> (string, json) dict \<Rightarrow>
    ('x, 'cb, 'm, http_response) client" where
  "mx_signed_request lib method path ps = bind (mx_signed_params lib ps) (\<lambda>signed.
     bind (reading (\<lambda>s. with_http (\<lambda>c. case method of
        SignedGet \<Rightarrow> http_get c path signed (mx_headers s)
      | SignedPost \<Rightarrow> http_post c path (TextBody (urlencode lib (sorted_items signed)))
          (mx_headers s @ [(''Content-Type'', ''application/x-www-form-urlencoded'')])
      | SignedDelete \<Rightarrow> http_delete c path signed (mx_headers s)))) (\<lambda>r.
     seq (lift_res (mx_raise_for_status lib r)) (ret r)))"

definition mx_fetch :: "'x library \<Rightarrow> string \<Rightarrow> (string, json) dict \<Rightarrow> ('x, 'cb, 'm, json) client" where
  "mx_fetch lib = fetch (mx_raise_for_status lib)"

definition mx_signed_json :: "'x library \<Rightarrow> signed_method \<Rightarrow> string \<Rightarrow> (string, json) dict \<Rightarrow> ('x, 'cb, 'm, json) client" where
  "mx_signed_json lib method path ps =
     bind (mx_signed_request lib method path ps) (parse_json (mx_raise_for_status lib))"

section \<open>Lifecycle\<close>

definition mx_initialize :: "'x library \<Rightarrow> adapter_config \<Rightarrow> ('x, 'cb, 'm, bool) client" where
  "mx_initialize lib cfg =
     seq (modify (\<lambda>s. s\<lparr>ea_recv_window := ac_recv_window cfg\<rparr>))
     (initialize_client lib \<lparr>rl_max_tokens = 100, rl_refill_rate = 15\<rparr> cfg
       (address (ac_is_testnet cfg) ''https://sandbox.mexc.com'' (ac_rest_url cfg) ''https://api.mexc.com'')
       (address (ac_is_testnet cfg) ''wss://wbs-api.mexc.com/ws'' (ac_market_stream_url cfg) ''wss://wbs-api.mexc.com/ws'') [])"

definition mx_authenticate :: "'x library \<Rightarrow> exchange_credentials \<Rightarrow> ('x, 'cb, 'm, bool) client" where
  "mx_authenticate lib cr =
     seq (modify (\<lambda>s. s\<lparr>ea_api_key := ec_api_key cr, ea_api_secret := ec_api_secret cr\<rparr>))
     (bind (mx_signed_request lib SignedGet ''/api/v3/account'' []) (\<lambda>r.
       seq (lift_res (mx_raise_for_status lib r)) (ret True)))"

definition mx_connect_market :: "'x library \<Rightarrow> ('x, 'cb, 'm, bool) client" where
  "mx_connect_market lib = reading (\<lambda>s. ws_connect (lb_ws lib) Market (ea_ws_url s))"

definition mx_connect_account :: "'x library \<Rightarrow> ('x, 'cb, 'm, bool) client" where
  "mx_connect_account lib = reading (\<lambda>s. ws_connect (lb_ws lib) Account (ea_ws_url s))"

definition mx_disconnect :: "('x, 'cb, 'm, unit) client" where
  "mx_disconnect = disconnect_client"

definition mx_health_check :: "'x library \<Rightarrow> ('x, 'cb, 'm, bool) client" where
  "mx_health_check lib = health_answer (bind (with_http (\<lambda>c. http_get c ''/api/v3/ping'' [] [])) (\<lambda>r.
     lift_res (mx_raise_for_status lib r)))"

section \<open>Account and symbols\<close>

definition mx_get_account :: "'x library \<Rightarrow> ('x, 'cb, 'm, json) client" where
  "mx_get_account lib = mx_signed_json lib SignedGet ''/api/v3/account'' []"

definition mx_balance :: "string option \<Rightarrow> json \<Rightarrow> balance_entry list res" where
  "mx_balance asset j =
     rbind (if truthy asset then rbind (item j ''asset'') (\<lambda>a. Ok (a \<noteq> JStr (py_upper (the asset)))) else Ok False) (\<lambda>skip.
     if skip then Ok []
     else rbind (get_decimal j ''free'') (\<lambda>free. rbind (get_decimal j ''locked'') (\<lambda>locked.
       rbind (get_text j ''asset'') (\<lambda>currency.
         Ok [\<lparr>be_currency = currency, be_available = free, be_locked = locked, be_total = dadd free locked\<rparr>]))))"

definition mx_get_balance :: "'x library \<Rightarrow> string option \<Rightarrow> ('x, 'cb, 'm, balance_entry list) client" where
  "mx_get_balance lib asset = bind (mx_get_account lib) (\<lambda>account.
     lift_res (rbind (get_elements account ''balances'') (\<lambda>js. concat_res (rmap (mx_balance asset) js))))"

definition mx_load_exchange_info :: "'x library \<Rightarrow> ('x, 'cb, 'm, json) client" where
  "mx_load_exchange_info lib = load_exchange_info (mx_fetch lib ''/api/v3/exchangeInfo'' [])"

definition mx_get_symbol_info :: "'x library \<Rightarrow> string \<Rightarrow> ('x, 'cb, 'm, json) client" where
  "mx_get_symbol_info lib symbol = bind (mx_load_exchange_info lib) (\<lambda>info.
     bind (lift_res (rbind (get_elements info ''symbols'') (find_by ''symbol'' (py_upper symbol)))) (\<lambda>found.
       case found of None \<Rightarrow> throw (symbol_not_supported symbol) | Some j \<Rightarrow> ret j))"

definition mx_get_exchange_info :: "'x library \<Rightarrow> ('x, 'cb, 'm, exchange_info) client" where
  "mx_get_exchange_info lib = bind (mx_load_exchange_info lib) (\<lambda>info. reading (\<lambda>s. lift_res (
     rbind (rbind (get_elements info ''symbols'') (rmap (\<lambda>j. rbind (item j ''symbol'') as_str))) (\<lambda>symbols.
       Ok \<lparr>ei_name = ea_name s, ei_supported_symbols = symbols, ei_rate_limits = JObj [], ei_server_time = clock s\<rparr>))))"

definition mx_get_positions :: "string option \<Rightarrow> ('x, 'cb, 'm, position_report list) client" where
  "mx_get_positions symbol = ret []"

section \<open>Market data\<close>

definition mx_get_ticker :: "'x library \<Rightarrow> string \<Rightarrow> ('x, 'cb, 'm, ticker_data) client" where
  "mx_get_ticker lib symbol = (let upper = py_upper symbol in
     bind (mx_fetch lib ''/api/v3/ticker/bookTicker'' [(''symbol'', JStr upper)]) (\<lambda>book.
     bind (mx_fetch lib ''/api/v3/ticker/24hr'' [(''symbol'', JStr upper)]) (\<lambda>stats. reading (\<lambda>s.
       lift_res (rbind (get_decimal book ''bidPrice'') (\<lambda>bid. rbind (get_decimal book ''askPrice'') (\<lambda>ask.
         rbind (get_decimal stats ''lastPrice'') (\<lambda>last. rbind (get_decimal stats ''volume'') (\<lambda>volume.
           Ok \<lparr>td_symbol = upper, td_bid = bid, td_ask = ask, td_last = last, td_volume = volume,
             td_timestamp = clock s\<rparr>)))))))))"

definition mx_get_order_book :: "'x library \<Rightarrow> string \<Rightarrow> int \<Rightarrow> ('x, 'cb, 'm, order_book) client" where
  "mx_get_order_book lib symbol limit =
     bind (mx_fetch lib ''/api/v3/depth'' [(''symbol'', JStr (py_upper symbol)), (''limit'', JInt limit)]) (\<lambda>data.
       reading (\<lambda>s. lift_res (read_book (py_upper symbol) (clock s) data)))"

definition mx_interval :: "string \<Rightarrow> string" where
  "mx_interval i = (if i = ''1h'' then ''60m'' else i)"

definition mx_get_candles :: "'x library \<Rightarrow> string \<Rightarrow> string \<Rightarrow> int \<Rightarrow> ('x, 'cb, 'm, market_candle list) client" where
  "mx_get_candles lib symbol interval limit =
     bind (mx_fetch lib ''/api/v3/klines'' [(''symbol'', JStr (py_upper symbol)),
        (''interval'', JStr (mx_interval interval)), (''limit'', JInt limit)]) (\<lambda>data.
       lift_res (rbind (elements data) (rmap (read_candle int_millis (py_upper symbol) interval))))"

definition mx_trade :: "'x library \<Rightarrow> string \<Rightarrow> json \<Rightarrow> trade_entry res" where
  "mx_trade lib symbol row =
     rbind (get_str lib row ''id'') (\<lambda>i. rbind (item_or row ''isBuyerMaker'' JNull) (\<lambda>maker.
     rbind (get_decimal row ''qty'') (\<lambda>qty. rbind (get_decimal row ''price'') (\<lambda>price.
     rbind (rbind (item_or row ''time'' (JStr ''0'')) int_millis) (\<lambda>t.
       Ok \<lparr>te_trade_id = i, te_order_id = [], te_symbol = py_upper symbol,
         te_side = (if json_truthy maker then ''sell'' else ''buy''), te_quantity = qty, te_price = price, te_fee = 0,
         te_fee_currency = ''USDT'', te_timestamp = t\<rparr>)))))"

definition mx_get_trades :: "'x library \<Rightarrow> string \<Rightarrow> int \<Rightarrow> ('x, 'cb, 'm, trade_entry list) client" where
  "mx_get_trades lib symbol limit =
     bind (mx_fetch lib ''/api/v3/trades'' [(''symbol'', JStr (py_upper symbol)), (''limit'', JInt limit)]) (\<lambda>data.
       lift_res (rbind (elements data) (rmap (mx_trade lib symbol))))"

section \<open>Orders\<close>

definition mx_order_status :: "string \<Rightarrow> string" where
  "mx_order_status status =
     (if status = ''NEW'' then ''open''
      else if status = ''PARTIALLY_FILLED'' then ''partially_filled''
      else if status = ''FILLED'' then ''filled''
      else if status = ''CANCELED'' then ''cancelled''
      else if status = ''REJECTED'' then ''rejected''
      else if status = ''EXPIRED'' then ''expired''
      else py_lower status)"

definition mx_order_result :: "'x library \<Rightarrow> datetime \<Rightarrow> json \<Rightarrow> order_result res" where
  "mx_order_result lib t j =
     rbind (get_decimal j ''executedQty'') (\<lambda>filled. rbind (get_decimal j ''cummulativeQuoteQty'') (\<lambda>quote.
     rbind (get_str lib j ''clientOrderId'') (\<lambda>own. rbind (get_str lib j ''orderId'') (\<lambda>i.
     rbind (get_text j ''symbol'') (\<lambda>symbol. rbind (get_lower j ''side'') (\<lambda>side. rbind (get_lower j ''type'') (\<lambda>kind.
     rbind (get_decimal j ''origQty'') (\<lambda>qty. rbind (get_decimal j ''price'') (\<lambda>price.
     rbind (rbind (item_or j ''status'' (JStr [])) (on_text (\<lambda>x. x))) (\<lambda>status.
     rbind (rbind (item_or j ''time'' (JInt (millis t))) from_millis) (\<lambda>created.
     rbind (rbind (item_or j ''updateTime'' (JInt (millis t))) from_millis) (\<lambda>updated.
       Ok \<lparr>r_order_id = own, r_exchange_order_id = i, r_symbol = symbol, r_side = side, r_order_type = kind,
         r_quantity = qty, r_price = or_none price, r_filled_quantity = filled,
         r_average_fill_price = (if 0 < filled then Some (ddiv quote filled) else None),
         r_status = mx_order_status status, r_created_at = created, r_updated_at = updated, r_error_message = None\<rparr>))))))))))))"

definition mx_result :: "'x library \<Rightarrow> json \<Rightarrow> ('x, 'cb, 'm, order_result) client" where
  "mx_result lib j = reading (\<lambda>s. lift_res (mx_order_result lib (clock s) j))"

definition mx_order_params :: "string \<Rightarrow> string \<Rightarrow> string \<Rightarrow> decimal \<Rightarrow> decimal option \<Rightarrow> (string, json) dict \<Rightarrow>
    (string, json) dict" where
  "mx_order_params symbol side order_type quantity price kwargs =
     [(''symbol'', JStr (py_upper symbol)), (''side'', JStr (py_upper side)), (''type'', JStr (py_upper order_type)),
      (''quantity'', JStr (str_decimal quantity))] @
     (case price of None \<Rightarrow> [] | Some p \<Rightarrow> [(''price'', JStr (str_decimal p)),
        (''timeInForce'', case dget kwargs ''time_in_force'' of None \<Rightarrow> JStr ''GTC'' | Some v \<Rightarrow> v)]) @
     (case dget kwargs ''client_order_id'' of None \<Rightarrow> []
      | Some v \<Rightarrow> if json_truthy v then [(''newClientOrderId'', v)] else [])"

definition mx_place_order :: "'x library \<Rightarrow> string \<Rightarrow> string \<Rightarrow> string \<Rightarrow> decimal \<Rightarrow> decimal option \<Rightarrow>
    (string, json) dict \<Rightarrow> ('x, 'cb, 'm, order_result) client" where
  "mx_place_order lib symbol side order_type quantity price kwargs =
     bind (mx_signed_json lib SignedPost ''/api/v3/order'' (mx_order_params symbol side order_type quantity price kwargs))
       (mx_result lib)"

definition mx_order_key :: "string \<Rightarrow> string \<Rightarrow> (string, json) dict" where
  "mx_order_key symbol i = [(''symbol'', JStr (py_upper symbol)), (''orderId'', JStr i)]"

definition mx_cancel_order :: "'x library \<Rightarrow> string \<Rightarrow> string \<Rightarrow> ('x, 'cb, 'm, order_result) client" where
  "mx_cancel_order lib symbol i =
     bind (mx_signed_json lib SignedDelete ''/api/v3/order'' (mx_order_key symbol i)) (mx_result lib)"

definition mx_get_order :: "'x library \<Rightarrow> string \<Rightarrow> string \<Rightarrow> ('x, 'cb, 'm, order_result) client" where
  "mx_get_order lib symbol i =
     bind (mx_signed_json lib SignedGet ''/api/v3/order'' (mx_order_key symbol i)) (mx_result lib)"

definition mx_get_open_orders :: "'x library \<Rightarrow> string option \<Rightarrow> ('x, 'cb, 'm, order_result list) client" where
  "mx_get_open_orders lib symbol =
     bind (mx_signed_json lib SignedGet ''/api/v3/openOrders'' (symbol_params symbol)) (\<lambda>data.
       bind (lift_res (or_empty data)) (collect (\<lambda>j. bind (mx_result lib j) (\<lambda>r. ret [r]))))"

definition mx_cancel_all :: "'x library \<Rightarrow> string option \<Rightarrow> ('x, 'cb, 'm, order_result list) client" where
  "mx_cancel_all lib symbol =
     (if truthy symbol
      then bind (mx_signed_request lib SignedDelete ''/api/v3/openOrders'' (symbol_params symbol)) (\<lambda>r.
        seq (lift_res (mx_raise_for_status lib r)) (ret []))
      else bind (mx_get_open_orders lib None) (collect (\<lambda>r.
        if r_symbol r = [] then ret []
        else bind (mx_cancel_order lib (r_symbol r) (r_exchange_order_id r)) (\<lambda>c. ret [c]))))"

section \<open>Streams\<close>

definition mx_ws_message :: "(string \<Rightarrow> int) \<Rightarrow> string \<Rightarrow> string \<Rightarrow> string \<Rightarrow> json" where
  "mx_ws_message hash method channel symbol = JObj [(''method'', JStr method),
     (''params'', JList [JStr (''spot@'' @ (if channel = ''ticker'' then ''ticker'' else if channel = ''orderbook'' then ''depth''
        else channel) @ ''@'' @ symbol)]),
     (''id'', JInt (hash symbol mod 100000))]"

definition mx_subscribe_market :: "'x library \<Rightarrow> (string \<Rightarrow> int) \<Rightarrow> string list \<Rightarrow> string \<Rightarrow> 'cb \<Rightarrow>
    ('x, 'cb, 'm, bool) client" where
  "mx_subscribe_market lib hash symbols channel cb =
     seq (connect_if_closed Market (mx_connect_market lib))
     (seq (for_each (\<lambda>y. seq (put_callback channel (py_upper y) cb)
             (ws_subscribe (lb_ws lib) Market (mx_ws_message hash ''SUBSCRIPTION'' channel (py_upper y)))) symbols)
       (ret True))"

definition mx_unsubscribe_market :: "'x library \<Rightarrow> (string \<Rightarrow> int) \<Rightarrow> string list \<Rightarrow> string \<Rightarrow> ('x, 'cb, 'm, bool) client" where
  "mx_unsubscribe_market lib hash symbols channel =
     seq (for_each (\<lambda>y. seq (drop_callback channel (py_upper y))
           (ws_unsubscribe (lb_ws lib) Market (mx_ws_message hash ''UNSUBSCRIPTION'' channel (py_upper y)))) symbols)
       (ret True)"

definition mx_subscribe_account :: "'x library \<Rightarrow> 'cb \<Rightarrow> ('x, 'cb, 'm, bool) client" where
  "mx_subscribe_account lib cb = seq (connect_if_closed Account (mx_connect_account lib)) (set_user_callback (Some cb))"

definition mx_unsubscribe_account :: "('x, 'cb, 'm, bool) client" where
  "mx_unsubscribe_account = set_user_callback None"

definition mx_dispatch :: "('cb \<Rightarrow> json \<Rightarrow> ('x, 'cb, 'm, unit) client) \<Rightarrow> json option \<Rightarrow> ('x, 'cb, 'm, unit) client" where
  "mx_dispatch call message = (case message of
      Some (JObj d) \<Rightarrow>
        let field = (\<lambda>k. case dget d k of None \<Rightarrow> JNull | Some v \<Rightarrow> v) in
        if json_truthy (field ''c'') \<and> json_truthy (field ''d'')
        then bind (lift_res (rbind (item_or (JObj d) ''symbol'' (JStr [])) (on_text py_upper))) (\<lambda>symbol.
          bind (lift_res (as_str (field ''c''))) (\<lambda>channel. reading (\<lambda>s.
            if has_substring ''ticker'' channel then call_if call (dget (ea_ticker_callbacks s) symbol) (JObj d)
            else if has_substring ''depth'' channel then call_if call (dget (ea_orderbook_callbacks s) symbol) (JObj d)
            else ret ())))
        else ret ()
    | _ \<Rightarrow> ret ())"

end
