(* ===== verification/OkxAdapter.thy ===== *)
theory OkxAdapter
  imports ExchangeAdapter
begin

text \<open>
  \<^verbatim>\<open>exchanges/adapters/okx.py\<close>: signed requests, account, market data, orders and streams of OKX V5.
\<close>

section \<open>Requests\<close>

definition ok_raise_for_status :: "'x library \<Rightarrow> http_response \<Rightarrow> unit res" where
  "ok_raise_for_status lib r =
     (if rs_status r < 400 then Ok ()
      else let body = error_body r; status = rs_status r in
        rbind (item_or body ''code'' (JStr ''0'')) (\<lambda>code.
        rbind (item_or body ''msg'' (JStr [])) (\<lambda>msg.
          if status = 429 \<or> code = JStr ''50011'' then Raise (Exn ExchangeRateLimitError [])
          else if code \<in> set [JStr ''50102'', JStr ''50103'', JStr ''50104''] then Raise (Exn AuthenticationError [])
          else if code = JStr ''51001'' then Raise (symbol_not_supported [])
          else if code = JStr ''51020'' then Raise (Exn InsufficientBalanceError [])
          else if code = JStr ''51401'' then Raise (Exn OrderNotFound [py_str lib msg])
          else if 500 \<le> status then Raise (Exn ExchangeConnectionError [])
          else Raise (Exn ExchangeError []))))"

definition ok_sign :: "'x library \<Rightarrow> ('x, 'cb, 'm) exchange_client_scheme \<Rightarrow> string \<Rightarrow> string \<Rightarrow> string \<Rightarrow> string \<Rightarrow> string" where
  "ok_sign lib s ts method path body = lb_hmac_base64 lib (ea_api_secret s) (ts @ py_upper method @ path @ body)"

definition ok_headers :: "('x, 'cb, 'm) exchange_client_scheme \<Rightarrow> string \<Rightarrow> string \<Rightarrow> (string, string) dict" where
  "ok_headers s signature ts = [(''OK-ACCESS-KEY'', ea_api_key s), (''OK-ACCESS-SIGN'', signature),
     (''OK-ACCESS-TIMESTAMP'', ts), (''OK-ACCESS-PASSPHRASE'', ea_passphrase s), (''Content-Type'', ''application/json'')]"

definition ok_signed_get :: "'x library \<Rightarrow> string \<Rightarrow> (string, json) dict \<Rightarrow> ('x, 'cb, 'm, http_response) client" where
  "ok_signed_get lib path ps = seq ensure_authenticated (bind (reading (\<lambda>s.
     let ts = lb_iso_time lib (clock s); query = plain_query lib ps;
         full = (if query = [] then path else path @ ''?'' @ query)
     in with_http (\<lambda>c. http_get c path ps (ok_headers s (ok_sign lib s ts ''GET'' full []) ts)))) (\<lambda>r.
     seq (lift_res (ok_raise_for_status lib r)) (ret r)))"

definition ok_signed_post :: "'x library \<Rightarrow> string \<Rightarrow> (string, json) dict \<Rightarrow> ('x, 'cb, 'm, http_response) client" where
  "ok_signed_post lib path ps = seq ensure_authenticated (bind (reading (\<lambda>s.
     let ts = lb_iso_time lib (clock s); body = json_dumps lib (JObj ps)
     in with_http (\<lambda>c. http_post c path (TextBody body) (ok_headers s (ok_sign lib s ts ''POST'' path body) ts)))) (\<lambda>r.
     seq (lift_res (ok_raise_for_status lib r)) (ret r)))"

definition ok_json :: "'x library \<Rightarrow> http_response \<Rightarrow> ('x, 'cb, 'm, json) client" where
  "ok_json lib = parse_json (ok_raise_for_status lib)"

definition ok_fetch :: "'x library \<Rightarrow> string \<Rightarrow> (string, json) dict \<Rightarrow> ('x, 'cb, 'm, json) client" where
  "ok_fetch lib = fetch (ok_raise_for_status lib)"

section \<open>Lifecycle\<close>

definition ok_initialize :: "'x library \<Rightarrow> adapter_config \<Rightarrow> ('x, 'cb, 'm, bool) client" where
  "ok_initialize lib cfg =
     initialize_client lib \<lparr>rl_max_tokens = 60, rl_refill_rate = 10\<rparr> cfg
       (address (ac_is_testnet cfg) ''https://sim5.okx.com'' (ac_rest_url cfg) ''https://www.okx.com'')
       (address (ac_is_testnet cfg) ''wss://wspap.okx.com/ws/v5/public?brokerId=9999'' (ac_market_stream_url cfg)
         ''wss://ws.okx.com/ws/v5/public'')
       (address (ac_is_testnet cfg) ''wss://wspap.okx.com/ws/v5/private?brokerId=9999'' (ac_account_stream_url cfg)
         ''wss://ws.okx.com/ws/v5/private'')"

definition ok_authenticate :: "'x library \<Rightarrow> exchange_credentials \<Rightarrow> ('x, 'cb, 'm, bool) client" where
  "ok_authenticate lib cr =
     seq (modify (\<lambda>s. s\<lparr>ea_api_key := ec_api_key cr, ea_api_secret := ec_api_secret cr,
       ea_passphrase := (case ec_passphrase cr of None \<Rightarrow> [] | Some p \<Rightarrow> p)\<rparr>))
     (bind (ok_signed_get lib ''/api/v5/account/balance'' []) (\<lambda>r.
       seq (lift_res (ok_raise_for_status lib r)) (ret True)))"

definition ok_connect_market :: "'x library \<Rightarrow> ('x, 'cb, 'm, bool) client" where
  "ok_connect_market lib = reading (\<lambda>s. ws_connect (lb_ws lib) Market (ea_ws_url s))"

definition ok_connect_account :: "'x library \<Rightarrow> ('x, 'cb, 'm, bool) client" where
  "ok_connect_account lib = reading (\<lambda>s. ws_connect (lb_ws lib) Account (ea_private_url s))"

definition ok_disconnect :: "('x, 'cb, 'm, unit) client" where
  "ok_disconnect = disconnect_client"

definition ok_health_check :: "'x library \<Rightarrow> ('x, 'cb, 'm, bool) client" where
  "ok_health_check lib = health_answer (bind (with_http (\<lambda>c. http_get c ''/api/v5/public/time'' [] [])) (\<lambda>r.
     lift_res (ok_raise_for_status lib r)))"

section \<open>Account and symbols\<close>

definition ok_get_account :: "'x library \<Rightarrow> ('x, 'cb, 'm, json) client" where
  "ok_get_account lib = bind (ok_signed_get lib ''/api/v5/account/balance'' []) (ok_json lib)"

definition ok_balance :: "string option \<Rightarrow> json \<Rightarrow> balance_entry list res" where
  "ok_balance asset j =
     rbind (item_or j ''ccy'' JNull) (\<lambda>ccy.
     if truthy asset \<and> ccy \<noteq> JStr (py_upper (the asset)) then Ok []
     else rbind (get_decimal j ''availBal'') (\<lambda>available. rbind (get_decimal j ''frozenBal'') (\<lambda>frozen.
       rbind (get_text j ''ccy'') (\<lambda>currency.
         Ok [\<lparr>be_currency = currency, be_available = available, be_locked = frozen, be_total = dadd available frozen\<rparr>]))))"

definition ok_get_balance :: "'x library \<Rightarrow> string option \<Rightarrow> ('x, 'cb, 'm, balance_entry list) client" where
  "ok_get_balance lib asset = bind (ok_get_account lib) (\<lambda>account.
     lift_res (rbind (rbind (item_or account ''data'' (JList [JObj []])) elements) (\<lambda>details.
       concat_res (rmap (\<lambda>d. rbind (get_elements d ''details'') (\<lambda>bs. concat_res (rmap (ok_balance asset) bs))) details))))"

definition ok_load_exchange_info :: "'x library \<Rightarrow> ('x, 'cb, 'm, json) client" where
  "ok_load_exchange_info lib =
     load_exchange_info (ok_fetch lib ''/api/v5/public/instruments'' [(''instType'', JStr ''SPOT'')])"

definition ok_get_symbol_info :: "'x library \<Rightarrow> string \<Rightarrow> ('x, 'cb, 'm, json) client" where
  "ok_get_symbol_info lib symbol = bind (ok_load_exchange_info lib) (\<lambda>info.
     bind (lift_res (rbind (get_elements info ''data'') (find_by ''instId'' (py_upper symbol)))) (\<lambda>found.
       case found of None \<Rightarrow> throw (symbol_not_supported symbol) | Some j \<Rightarrow> ret j))"

definition ok_spot_symbol :: "json \<Rightarrow> string list res" where
  "ok_spot_symbol j = rbind (item_or j ''instType'' JNull) (\<lambda>t.
     if t = JStr ''SPOT'' then rbind (rbind (item j ''instId'') as_str) (\<lambda>i. Ok [i]) else Ok [])"

definition ok_get_exchange_info :: "'x library \<Rightarrow> ('x, 'cb, 'm, exchange_info) client" where
  "ok_get_exchange_info lib = bind (ok_load_exchange_info lib) (\<lambda>info. reading (\<lambda>s. lift_res (
     rbind (concat_res (rbind (get_elements info ''data'') (rmap ok_spot_symbol))) (\<lambda>symbols.
       Ok \<lparr>ei_name = ea_name s, ei_supported_symbols = symbols, ei_rate_limits = JObj [], ei_server_time = clock s\<rparr>))))"

definition inst_params :: "string option \<Rightarrow> (string, json) dict" where
  "inst_params symbol = (if truthy symbol then [(''instId'', JStr (py_upper (the symbol)))] else [])"

definition ok_position :: "json \<Rightarrow> position_report res" where
  "ok_position j =
     rbind (get_text j ''instId'') (\<lambda>symbol. rbind (get_lower j ''posSide'') (\<lambda>side. rbind (get_decimal j ''pos'') (\<lambda>qty.
     rbind (get_decimal j ''avgPx'') (\<lambda>entry. rbind (get_decimal j ''upl'') (\<lambda>pnl.
       Ok \<lparr>pe_symbol = symbol, pe_side = side, pe_quantity = qty, pe_entry_price = entry, pe_unrealized_pnl = pnl\<rparr>)))))"

definition ok_get_positions :: "'x library \<Rightarrow> string option \<Rightarrow> ('x, 'cb, 'm, position_report list) client" where
  "ok_get_positions lib symbol =
     bind (ok_signed_get lib ''/api/v5/account/positions'' ([(''instType'', JStr ''SWAP'')] @ inst_params symbol)) (\<lambda>r.
     bind (ok_json lib r) (\<lambda>data. lift_res (rbind (get_elements data ''data'') (rmap ok_position))))"

section \<open>Market data\<close>

text \<open>The first element of \<^verbatim>\<open>data\<close>; an empty answer means that the symbol is not supported.\<close>

definition ok_first :: "string \<Rightarrow> json \<Rightarrow> json res" where
  "ok_first symbol data = rbind (item_or data ''data'' (JList [])) (\<lambda>js.
     if \<not> json_truthy js then Raise (symbol_not_supported symbol) else nth_item js 0)"

definition ok_get_ticker :: "'x library \<Rightarrow> string \<Rightarrow> ('x, 'cb, 'm, ticker_data) client" where
  "ok_get_ticker lib symbol =
     bind (ok_fetch lib ''/api/v5/market/ticker'' [(''instId'', JStr (py_upper symbol))]) (\<lambda>data. reading (\<lambda>s.
       lift_res (rbind (ok_first symbol data) (\<lambda>t.
         rbind (get_decimal t ''bidPx'') (\<lambda>bid. rbind (get_decimal t ''askPx'') (\<lambda>ask.
         rbind (get_decimal t ''last'') (\<lambda>last. rbind (get_decimal t ''vol24h'') (\<lambda>volume.
           Ok \<lparr>td_symbol = py_upper symbol, td_bid = bid, td_ask = ask, td_last = last, td_volume = volume,
             td_timestamp = clock s\<rparr>))))))))"

definition ok_get_order_book :: "'x library \<Rightarrow> string \<Rightarrow> int \<Rightarrow> ('x, 'cb, 'm, order_book) client" where
  "ok_get_order_book lib symbol limit =
     bind (ok_fetch lib ''/api/v5/market/books'' [(''instId'', JStr (py_upper symbol)), (''sz'', JInt limit)]) (\<lambda>data.
       reading (\<lambda>s. lift_res (rbind (ok_first symbol data) (read_book (py_upper symbol) (clock s)))))"

definition ok_interval :: "string \<Rightarrow> string" where
  "ok_interval i = (if i = ''1h'' then ''1H'' else if i = ''4h'' then ''4H'' else if i = ''1d'' then ''1D'' else i)"

definition ok_get_candles :: "'x library \<Rightarrow> string \<Rightarrow> string \<Rightarrow> int \<Rightarrow> ('x, 'cb, 'm, market_candle list) client" where
  "ok_get_candles lib symbol interval limit =
     bind (ok_fetch lib ''/api/v5/market/candles'' [(''instId'', JStr (py_upper symbol)),
        (''bar'', JStr (ok_interval interval)), (''limit'', JInt limit)]) (\<lambda>data.
       lift_res (rbind (get_elements data ''data'') (rmap (read_candle int_millis (py_upper symbol) interval))))"

definition ok_trade :: "'x library \<Rightarrow> string \<Rightarrow> json \<Rightarrow> trade_entry res" where
  "ok_trade lib symbol row =
     rbind (get_str lib row ''tradeId'') (\<lambda>i. rbind (get_str lib row ''ordId'') (\<lambda>order_id.
     rbind (get_lower row ''side'') (\<lambda>side. rbind (get_decimal row ''sz'') (\<lambda>qty. rbind (get_decimal row ''px'') (\<lambda>price.
     rbind (rbind (item_or row ''ts'' (JStr ''0'')) int_millis) (\<lambda>t.
       Ok \<lparr>te_trade_id = i, te_order_id = order_id, te_symbol = py_upper symbol, te_side = side, te_quantity = qty,
         te_price = price, te_fee = 0, te_fee_currency = ''USDT'', te_timestamp = t\<rparr>))))))"

definition ok_get_trades :: "'x library \<Rightarrow> string \<Rightarrow> int \<Rightarrow> ('x, 'cb, 'm, trade_entry list) client" where
  "ok_get_trades lib symbol limit =
     bind (ok_fetch lib ''/api/v5/market/trades'' [(''instId'', JStr (py_upper symbol)), (''limit'', JInt limit)]) (\<lambda>data.
       lift_res (rbind (get_elements data ''data'') (rmap (ok_trade lib symbol))))"

section \<open>Orders\<close>

definition ok_order_status :: "string \<Rightarrow> string" where
  "ok_order_status status =
     (if status = ''live'' then ''open''
      else if status = ''partially_filled'' then ''partially_filled''
      else if status = ''filled'' then ''filled''
      else if status = ''canceled'' then ''cancelled''
      else if status = ''mmp_canceled'' then ''cancelled''
      else py_lower status)"

text \<open>A message of the exchange is kept as an error, as the message of an exception is.\<close>

definition error_message :: "json \<Rightarrow> exn option res" where
  "error_message j = rbind (as_str_option j) (\<lambda>m. Ok (map_option (\<lambda>s. Exn ExchangeError [s]) m))"

definition ok_placed_result :: "'x library \<Rightarrow> datetime \<Rightarrow> json \<Rightarrow> string \<Rightarrow> string \<Rightarrow> string \<Rightarrow> decimal \<Rightarrow>
    decimal option \<Rightarrow> order_result res" where
  "ok_placed_result lib t data symbol side order_type quantity price =
     rbind (item_or data ''data'' JNull) (\<lambda>js.
     rbind (if json_truthy js then nth_item js 0 else Ok (JObj [])) (\<lambda>result.
     rbind (get_str lib result ''clOrdId'') (\<lambda>own. rbind (get_str lib result ''ordId'') (\<lambda>i.
     rbind (rbind (item_or result ''sMsg'' JNull) error_message) (\<lambda>msg.
       Ok \<lparr>r_order_id = own, r_exchange_order_id = i, r_symbol = symbol, r_side = py_lower side,
         r_order_type = py_lower order_type, r_quantity = quantity, r_price = price, r_filled_quantity = 0,
         r_average_fill_price = None, r_status = ''open'', r_created_at = t, r_updated_at = t, r_error_message = msg\<rparr>)))))"

definition ok_order_result :: "'x library \<Rightarrow> json \<Rightarrow> order_result res" where
  "ok_order_result lib j =
     rbind (get_str lib j ''clOrdId'') (\<lambda>own. rbind (get_str lib j ''ordId'') (\<lambda>i.
     rbind (get_text j ''instId'') (\<lambda>symbol. rbind (get_lower j ''side'') (\<lambda>side. rbind (get_lower j ''ordType'') (\<lambda>kind.
     rbind (get_decimal j ''sz'') (\<lambda>qty. rbind (get_decimal j ''px'') (\<lambda>price. rbind (get_decimal j ''fillSz'') (\<lambda>filled.
     rbind (get_decimal j ''avgPx'') (\<lambda>average.
     rbind (rbind (item_or j ''state'' (JStr [])) (on_text (\<lambda>x. x))) (\<lambda>status.
     rbind (rbind (item_or j ''cTime'' (JStr ''0'')) int_millis) (\<lambda>created.
     rbind (rbind (item_or j ''uTime'' (JStr ''0'')) int_millis) (\<lambda>updated.
       Ok \<lparr>r_order_id = own, r_exchange_order_id = i, r_symbol = symbol, r_side = side, r_order_type = kind,
         r_quantity = qty, r_price = or_none price, r_filled_quantity = filled, r_average_fill_price = or_none average,
         r_status = ok_order_status status, r_created_at = created, r_updated_at = updated, r_error_message = None\<rparr>))))))))))))"

definition ok_order_params :: "string \<Rightarrow> string \<Rightarrow> string \<Rightarrow> decimal \<Rightarrow> decimal option \<Rightarrow> (string, json) dict \<Rightarrow>
    (string, json) dict" where
  "ok_order_params symbol side order_type quantity price kwargs =
     [(''instId'', JStr (py_upper symbol)), (''tdMode'', JStr ''cash''), (''side'', JStr (py_lower side)),
      (''ordType'', JStr (py_lower order_type)), (''sz'', JStr (str_decimal quantity))] @
     (case price of None \<Rightarrow> [] | Some p \<Rightarrow> [(''px'', JStr (str_decimal p))]) @
     (case dget kwargs ''client_order_id'' of None \<Rightarrow> []
      | Some v \<Rightarrow> if json_truthy v then [(''clOrdId'', v)] else [])"

definition ok_place_order :: "'x library \<Rightarrow> string \<Rightarrow> string \<Rightarrow> string \<Rightarrow> decimal \<Rightarrow> decimal option \<Rightarrow>
    (string, json) dict \<Rightarrow> ('x, 'cb, 'm, order_result) client" where
  "ok_place_order lib symbol side order_type quantity price kwargs =
     bind (ok_signed_post lib ''/api/v5/trade/order'' (ok_order_params symbol side order_type quantity price kwargs)) (\<lambda>r.
     bind (ok_json lib r) (\<lambda>data. reading (\<lambda>s.
       lift_res (ok_placed_result lib (clock s) data (py_upper symbol) side order_type quantity price))))"

definition ok_order_key :: "string \<Rightarrow> string \<Rightarrow> (string, json) dict" where
  "ok_order_key symbol i = [(''instId'', JStr (py_upper symbol)), (''ordId'', JStr i)]"

definition ok_cancel_order :: "'x library \<Rightarrow> string \<Rightarrow> string \<Rightarrow> ('x, 'cb, 'm, order_result) client" where
  "ok_cancel_order lib symbol i =
     bind (ok_signed_post lib ''/api/v5/trade/cancel-order'' (ok_order_key symbol i)) (\<lambda>r.
       seq (lift_res (ok_raise_for_status lib r)) (gets (\<lambda>s. cancel_report symbol i (clock s))))"

definition ok_cancel_all :: "'x library \<Rightarrow> string option \<Rightarrow> ('x, 'cb, 'm, order_result list) client" where
  "ok_cancel_all lib symbol =
     bind (ok_signed_post lib ''/api/v5/trade/cancel-orders'' (inst_params symbol)) (\<lambda>r.
       seq (lift_res (ok_raise_for_status lib r)) (ret []))"

definition ok_get_order :: "'x library \<Rightarrow> string \<Rightarrow> string \<Rightarrow> ('x, 'cb, 'm, order_result) client" where
  "ok_get_order lib symbol i =
     bind (ok_signed_get lib ''/api/v5/trade/order'' (ok_order_key symbol i)) (\<lambda>r. bind (ok_json lib r) (\<lambda>data.
       lift_res (rbind (item_or data ''data'' (JList [])) (\<lambda>js.
         if \<not> json_truthy js then Raise (Exn OrderNotFound [i]) else rbind (nth_item js 0) (ok_order_result lib)))))"

definition ok_get_open_orders :: "'x library \<Rightarrow> string option \<Rightarrow> ('x, 'cb, 'm, order_result list) client" where
  "ok_get_open_orders lib symbol =
     bind (ok_signed_get lib ''/api/v5/trade/orders-pending'' (inst_params symbol)) (\<lambda>r. bind (ok_json lib r) (\<lambda>data.
       lift_res (rbind (get_elements data ''data'') (rmap (ok_order_result lib)))))"

section \<open>Streams\<close>

definition ok_stream :: "string \<Rightarrow> string \<Rightarrow> string" where
  "ok_stream channel symbol = (if channel = ''ticker'' then ''tickers'' else if channel = ''orderbook'' then ''books5''
     else channel) @ ''/'' @ symbol"

definition op_message :: "string \<Rightarrow> string list \<Rightarrow> json" where
  "op_message op args = JObj [(''op'', JStr op), (''args'', JList (map JStr args))]"

definition ok_subscribe_market :: "'x library \<Rightarrow> string list \<Rightarrow> string \<Rightarrow> 'cb \<Rightarrow> ('x, 'cb, 'm, bool) client" where
  "ok_subscribe_market lib symbols channel cb =
     seq (connect_if_closed Market (ok_connect_market lib))
     (seq (for_each (\<lambda>y. put_callback channel (py_upper y) cb) symbols)
     (seq (ws_subscribe (lb_ws lib) Market (op_message ''subscribe'' (map (\<lambda>y. ok_stream channel (py_upper y)) symbols)))
       (ret True)))"

definition ok_unsubscribe_market :: "'x library \<Rightarrow> string list \<Rightarrow> string \<Rightarrow> ('x, 'cb, 'm, bool) client" where
  "ok_unsubscribe_market lib symbols channel =
     seq (for_each (\<lambda>y. drop_callback channel (py_upper y)) symbols)
     (seq (ws_unsubscribe (lb_ws lib) Market (op_message ''unsubscribe'' (map (\<lambda>y. ok_stream channel (py_upper y)) symbols)))
       (ret True))"

definition ok_subscribe_account :: "'x library \<Rightarrow> 'cb \<Rightarrow> ('x, 'cb, 'm, bool) client" where
  "ok_subscribe_account lib cb = seq (connect_if_closed Account (ok_connect_account lib)) (set_user_callback (Some cb))"

definition ok_unsubscribe_account :: "('x, 'cb, 'm, bool) client" where
  "ok_unsubscribe_account = set_user_callback None"

definition has_prefix :: "string \<Rightarrow> string \<Rightarrow> bool" where
  "has_prefix prefix s \<longleftrightarrow> take (length prefix) s = prefix"

definition ok_dispatch :: "('cb \<Rightarrow> json \<Rightarrow> ('x, 'cb, 'm, unit) client) \<Rightarrow> json option \<Rightarrow> ('x, 'cb, 'm, unit) client" where
  "ok_dispatch call message = (case message of
      Some (JObj d) \<Rightarrow>
        bind (lift_res (item_or (JObj d) ''arg'' (JObj []))) (\<lambda>arg.
        bind (lift_res (item_or arg ''channel'' (JStr []))) (\<lambda>channel.
        bind (lift_res (item_or arg ''instId'' (JStr []))) (\<lambda>inst.
          if channel = JStr ''tickers'' \<and> json_truthy inst
          then bind (lift_res (on_text py_upper inst)) (\<lambda>y.
            reading (\<lambda>s. call_if call (dget (ea_ticker_callbacks s) y) (JObj d)))
          else bind (lift_res (on_text (has_prefix ''books'') channel)) (\<lambda>books.
            if books \<and> json_truthy inst
            then bind (lift_res (on_text py_upper inst)) (\<lambda>y.
              reading (\<lambda>s. call_if call (dget (ea_orderbook_callbacks s) y) (JObj d)))
            else ret ()))))
    | _ \<Rightarrow> ret ())"

end
