(* ===== verification/BybitAdapter.thy ===== *)
theory BybitAdapter
  imports OkxAdapter
begin

text \<open>
  \<^verbatim>\<open>exchanges/adapters/bybit.py\<close>: signed requests, account, market data, orders and streams of Bybit V5.
\<close>

section \<open>Requests\<close>

definition by_raise_for_status :: "'x library \<Rightarrow> http_response \<Rightarrow> unit res" where
  "by_raise_for_status lib r =
     (if rs_status r < 400 then Ok ()
      else let body = error_body r; status = rs_status r in
        rbind (item_or body ''retCode'' (JInt 0)) (\<lambda>code.
        rbind (item_or body ''retMsg'' (JStr [])) (\<lambda>msg.
          if status = 429 \<or> json_is 10001 code then Raise (Exn ExchangeRateLimitError [])
          else if json_is 10003 code \<or> json_is 10004 code then Raise (Exn AuthenticationError [])
          else if json_is 110001 code then Raise (symbol_not_supported [])
          else if json_is 110017 code then Raise (Exn InsufficientBalanceError [])
          else if json_is 20001 code then Raise (Exn OrderNotFound [py_str lib msg])
          else if 500 \<le> status then Raise (Exn ExchangeConnectionError [])
          else Raise (Exn ExchangeError []))))"

definition by_sign :: "'x library \<Rightarrow> ('x, 'cb, 'm) exchange_client_scheme \<Rightarrow> string \<Rightarrow> string \<Rightarrow> string" where
  "by_sign lib s ts text = lb_hmac_hex lib (ea_api_secret s) (ts @ ea_api_key s @ show_int (ea_recv_window s) @ text)"

definition by_headers :: "('x, 'cb, 'm) exchange_client_scheme \<Rightarrow> string \<Rightarrow> string \<Rightarrow> (string, string) dict" where
  "by_headers s signature ts = [(''X-BAPI-API-KEY'', ea_api_key s), (''X-BAPI-SIGN'', signature),
     (''X-BAPI-SIGN-TYPE'', ''2''), (''X-BAPI-TIMESTAMP'', ts), (''X-BAPI-RECV-WINDOW'', show_int (ea_recv_window s))]"

definition by_signed_get :: "'x library \<Rightarrow> string \<Rightarrow> (string, json) dict \<Rightarrow> ('x, 'cb, 'm, http_response) client" where
  "by_signed_get lib path ps = seq ensure_authenticated (bind (reading (\<lambda>s.
     let ts = show_int (millis (clock s))
     in with_http (\<lambda>c. http_get c path ps (by_headers s (by_sign lib s ts (plain_query lib ps)) ts)))) (\<lambda>r.
     seq (lift_res (by_raise_for_status lib r)) (ret r)))"

text \<open>The signed text has the keys sorted; the body is written by the library from the dictionary as it is.\<close>

definition by_signed_post :: "'x library \<Rightarrow> string \<Rightarrow> (string, json) dict \<Rightarrow> ('x, 'cb, 'm, http_response) client" where
  "by_signed_post lib path ps = seq ensure_authenticated (bind (reading (\<lambda>s.
     let ts = show_int (millis (clock s)); body = json_dumps lib (JObj (sorted_items ps))
     in with_http (\<lambda>c. http_post c path (JsonBody (JObj ps))
          (by_headers s (by_sign lib s ts body) ts @ [(''Content-Type'', ''application/json'')])))) (\<lambda>r.
     seq (lift_res (by_raise_for_status lib r)) (ret r)))"

definition by_json :: "'x library \<Rightarrow> http_response \<Rightarrow> ('x, 'cb, 'm, json) client" where
  "by_json lib = parse_json (by_raise_for_status lib)"

definition by_fetch :: "'x library \<Rightarrow> string \<Rightarrow> (string, json) dict \<Rightarrow> ('x, 'cb, 'm, json) client" where
  "by_fetch lib = fetch (by_raise_for_status lib)"

text \<open>\<^verbatim>\<open>data.get("result", {}).get("list", [])\<close>\<close>

definition by_result :: "json \<Rightarrow> json res" where
  "by_result data = item_or data ''result'' (JObj [])"

definition by_list :: "json \<Rightarrow> json list res" where
  "by_list data = rbind (by_result data) (\<lambda>r. get_elements r ''list'')"

definition by_params :: "string option \<Rightarrow> (string, json) dict" where
  "by_params symbol = (''category'', JStr ''spot'') # symbol_params symbol"

section \<open>Lifecycle\<close>

definition by_initialize :: "'x library \<Rightarrow> adapter_config \<Rightarrow> ('x, 'cb, 'm, bool) client" where
  "by_initialize lib cfg =
     seq (modify (\<lambda>s. s\<lparr>ea_recv_window := ac_recv_window cfg\<rparr>))
     (initialize_client lib \<lparr>rl_max_tokens = 120, rl_refill_rate = 20\<rparr> cfg
       (address (ac_is_testnet cfg) ''https://api-testnet.bybit.com'' (ac_rest_url cfg) ''https://api.bybit.com'')
       (address (ac_is_testnet cfg) ''wss://stream-testnet.bybit.com/v5/public/spot'' (ac_market_stream_url cfg)
         ''wss://stream.bybit.com/v5/public/spot'')
       (address (ac_is_testnet cfg) ''wss://stream-testnet.bybit.com/v5/private'' (ac_account_stream_url cfg)
         ''wss://stream.bybit.com/v5/private''))"

definition by_authenticate :: "'x library \<Rightarrow> exchange_credentials \<Rightarrow> ('x, 'cb, 'm, bool) client" where
  "by_authenticate lib cr =
     seq (modify (\<lambda>s. s\<lparr>ea_api_key := ec_api_key cr, ea_api_secret := ec_api_secret cr\<rparr>))
     (bind (by_signed_get lib ''/v5/account/wallet-balance'' [(''accountType'', JStr ''UNIFIED'')]) (\<lambda>r.
       seq (lift_res (by_raise_for_status lib r)) (ret True)))"

definition by_connect_market :: "'x library \<Rightarrow> ('x, 'cb, 'm, bool) client" where
  "by_connect_market lib = reading (\<lambda>s. ws_connect (lb_ws lib) Market (ea_ws_url s))"

definition by_connect_account :: "'x library \<Rightarrow> ('x, 'cb, 'm, bool) client" where
  "by_connect_account lib = reading (\<lambda>s. ws_connect (lb_ws lib) Account (ea_private_url s))"

definition by_disconnect :: "('x, 'cb, 'm, unit) client" where
  "by_disconnect = disconnect_client"

definition by_health_check :: "'x library \<Rightarrow> ('x, 'cb, 'm, bool) client" where
  "by_health_check lib = health_answer (bind (with_http (\<lambda>c. http_get c ''/v5/market/time'' [] [])) (\<lambda>r.
     lift_res (by_raise_for_status lib r)))"

section \<open>Account and symbols\<close>

definition by_get_account :: "'x library \<Rightarrow> ('x, 'cb, 'm, json) client" where
  "by_get_account lib =
     bind (by_signed_get lib ''/v5/account/wallet-balance'' [(''accountType'', JStr ''UNIFIED'')]) (by_json lib)"

definition by_balance :: "string option \<Rightarrow> json \<Rightarrow> balance_entry list res" where
  "by_balance asset j =
     rbind (item_or j ''coin'' JNull) (\<lambda>coin.
     if truthy asset \<and> coin \<noteq> JStr (py_upper (the asset)) then Ok []
     else rbind (get_decimal j ''availableToWithdraw'') (\<lambda>free. rbind (get_decimal j ''locked'') (\<lambda>locked.
       rbind (get_decimal j ''walletBalance'') (\<lambda>total. rbind (get_text j ''coin'') (\<lambda>currency.
         Ok [\<lparr>be_currency = currency, be_available = free, be_locked = locked, be_total = total\<rparr>])))))"

definition by_get_balance :: "'x library \<Rightarrow> string option \<Rightarrow> ('x, 'cb, 'm, balance_entry list) client" where
  "by_get_balance lib asset = bind (by_get_account lib) (\<lambda>account.
     lift_res (rbind (by_list account) (\<lambda>accounts.
       concat_res (rmap (\<lambda>a. rbind (get_elements a ''coin'') (\<lambda>cs. concat_res (rmap (by_balance asset) cs))) accounts))))"

definition by_load_exchange_info :: "'x library \<Rightarrow> ('x, 'cb, 'm, json) client" where
  "by_load_exchange_info lib =
     load_exchange_info (by_fetch lib ''/v5/market/instruments-info'' [(''category'', JStr ''spot'')])"

definition by_get_symbol_info :: "'x library \<Rightarrow> string \<Rightarrow> ('x, 'cb, 'm, json) client" where
  "by_get_symbol_info lib symbol = bind (by_load_exchange_info lib) (\<lambda>info.
     bind (lift_res (rbind (by_list info) (find_by ''symbol'' (py_upper symbol)))) (\<lambda>found.
       case found of None \<Rightarrow> throw (symbol_not_supported symbol) | Some j \<Rightarrow> ret j))"

definition by_get_exchange_info :: "'x library \<Rightarrow> ('x, 'cb, 'm, exchange_info) client" where
  "by_get_exchange_info lib = bind (by_load_exchange_info lib) (\<lambda>info. reading (\<lambda>s. lift_res (
     rbind (rbind (by_list info) (rmap (\<lambda>j. rbind (item j ''symbol'') as_str))) (\<lambda>symbols.
       Ok \<lparr>ei_name = ea_name s, ei_supported_symbols = symbols, ei_rate_limits = JObj [], ei_server_time = clock s\<rparr>))))"

definition by_position :: "json \<Rightarrow> position_report res" where
  "by_position j =
     rbind (get_text j ''symbol'') (\<lambda>symbol. rbind (get_lower j ''side'') (\<lambda>side. rbind (get_decimal j ''size'') (\<lambda>qty.
     rbind (get_decimal j ''avgPrice'') (\<lambda>entry. rbind (get_decimal j ''unrealisedPnl'') (\<lambda>pnl.
       Ok \<lparr>pe_symbol = symbol, pe_side = side, pe_quantity = qty, pe_entry_price = entry, pe_unrealized_pnl = pnl\<rparr>)))))"

definition by_get_positions :: "'x library \<Rightarrow> string option \<Rightarrow> ('x, 'cb, 'm, position_report list) client" where
  "by_get_positions lib symbol =
     bind (by_signed_get lib ''/v5/position/list''
        ([(''category'', JStr ''linear''), (''settleCoin'', JStr ''USDT'')] @ symbol_params symbol)) (\<lambda>r.
     seq (lift_res (by_raise_for_status lib r))
     (bind (by_json lib r) (\<lambda>data. lift_res (rbind (by_list data) (rmap by_position)))))"

section \<open>Market data\<close>

definition by_get_ticker :: "'x library \<Rightarrow> string \<Rightarrow> ('x, 'cb, 'm, ticker_data) client" where
  "by_get_ticker lib symbol =
     bind (by_fetch lib ''/v5/market/tickers'' [(''category'', JStr ''spot''), (''symbol'', JStr (py_upper symbol))]) (\<lambda>data.
       reading (\<lambda>s. lift_res (rbind (rbind (by_result data) (\<lambda>r. item_or r ''list'' (JList []))) (\<lambda>js.
         if \<not> json_truthy js then Raise (symbol_not_supported symbol)
         else rbind (nth_item js 0) (\<lambda>t.
           rbind (get_decimal t ''bid1Price'') (\<lambda>bid. rbind (get_decimal t ''ask1Price'') (\<lambda>ask.
           rbind (get_decimal t ''lastPrice'') (\<lambda>last. rbind (get_decimal t ''volume24h'') (\<lambda>volume.
             Ok \<lparr>td_symbol = py_upper symbol, td_bid = bid, td_ask = ask, td_last = last, td_volume = volume,
               td_timestamp = clock s\<rparr>)))))))))"

definition by_get_order_book :: "'x library \<Rightarrow> string \<Rightarrow> int \<Rightarrow> ('x, 'cb, 'm, order_book) client" where
  "by_get_order_book lib symbol limit =
     bind (by_fetch lib ''/v5/market/orderbook''
        [(''category'', JStr ''spot''), (''symbol'', JStr (py_upper symbol)), (''limit'', JInt limit)]) (\<lambda>data.
       reading (\<lambda>s. lift_res (rbind (by_result data) (read_book (py_upper symbol) (clock s)))))"

definition by_interval :: "string \<Rightarrow> string" where
  "by_interval i = (if i = ''1m'' then ''1'' else if i = ''5m'' then ''5'' else if i = ''15m'' then ''15''
     else if i = ''1h'' then ''60'' else if i = ''4h'' then ''240'' else if i = ''1d'' then ''D'' else i)"

definition by_get_candles :: "'x library \<Rightarrow> string \<Rightarrow> string \<Rightarrow> int \<Rightarrow> ('x, 'cb, 'm, market_candle list) client" where
  "by_get_candles lib symbol interval limit =
     bind (by_fetch lib ''/v5/market/kline'' [(''category'', JStr ''spot''), (''symbol'', JStr (py_upper symbol)),
        (''interval'', JStr (by_interval interval)), (''limit'', JInt limit)]) (\<lambda>data.
       lift_res (rbind (by_list data) (rmap (read_candle int_millis (py_upper symbol) interval))))"

definition by_trade :: "'x library \<Rightarrow> string \<Rightarrow> json \<Rightarrow> trade_entry res" where
  "by_trade lib symbol row =
     rbind (get_str lib row ''execId'') (\<lambda>i. rbind (get_lower row ''side'') (\<lambda>side.
     rbind (get_decimal row ''size'') (\<lambda>qty. rbind (get_decimal row ''price'') (\<lambda>price.
     rbind (rbind (item_or row ''time'' (JStr ''0'')) int_millis) (\<lambda>t.
       Ok \<lparr>te_trade_id = i, te_order_id = [], te_symbol = py_upper symbol, te_side = side, te_quantity = qty,
         te_price = price, te_fee = 0, te_fee_currency = ''USDT'', te_timestamp = t\<rparr>)))))"

definition by_get_trades :: "'x library \<Rightarrow> string \<Rightarrow> int \<Rightarrow> ('x, 'cb, 'm, trade_entry list) client" where
  "by_get_trades lib symbol limit =
     bind (by_fetch lib ''/v5/market/recent-trade''
        [(''category'', JStr ''spot''), (''symbol'', JStr (py_upper symbol)), (''limit'', JInt limit)]) (\<lambda>data.
       lift_res (rbind (by_list data) (rmap (by_trade lib symbol))))"

section \<open>Orders\<close>

definition by_order_status :: "string \<Rightarrow> string" where
  "by_order_status status =
     (if status = ''New'' then ''open''
      else if status = ''PartiallyFilled'' then ''partially_filled''
      else if status = ''Filled'' then ''filled''
      else if status = ''Cancelled'' then ''cancelled''
      else if status = ''Rejected'' then ''rejected''
      else if status = ''Untriggered'' then ''pending''
      else if status = ''Triggered'' then ''open''
      else if status = ''Deactivated'' then ''cancelled''
      else py_lower status)"

definition by_placed_result :: "'x library \<Rightarrow> datetime \<Rightarrow> json \<Rightarrow> string \<Rightarrow> string \<Rightarrow> string \<Rightarrow> decimal \<Rightarrow>
    decimal option \<Rightarrow> order_result res" where
  "by_placed_result lib t data symbol side order_type quantity price =
     rbind (by_result data) (\<lambda>result.
     rbind (get_str lib result ''orderLinkId'') (\<lambda>own. rbind (get_str lib result ''orderId'') (\<lambda>i.
       Ok \<lparr>r_order_id = own, r_exchange_order_id = i, r_symbol = symbol, r_side = py_lower side,
         r_order_type = py_lower order_type, r_quantity = quantity, r_price = price, r_filled_quantity = 0,
         r_average_fill_price = None, r_status = ''open'', r_created_at = t, r_updated_at = t, r_error_message = None\<rparr>)))"

definition by_order_result :: "'x library \<Rightarrow> datetime \<Rightarrow> json \<Rightarrow> order_result res" where
  "by_order_result lib t j =
     rbind (get_str lib j ''orderLinkId'') (\<lambda>own. rbind (get_str lib j ''orderId'') (\<lambda>i.
     rbind (get_text j ''symbol'') (\<lambda>symbol. rbind (get_lower j ''side'') (\<lambda>side. rbind (get_lower j ''orderType'') (\<lambda>kind.
     rbind (get_decimal j ''qty'') (\<lambda>qty. rbind (get_decimal j ''price'') (\<lambda>price. rbind (get_decimal j ''cumExecQty'') (\<lambda>filled.
     rbind (get_decimal j ''avgPrice'') (\<lambda>average.
     rbind (rbind (item_or j ''orderStatus'' (JStr [])) (on_text (\<lambda>x. x))) (\<lambda>status.
       Ok \<lparr>r_order_id = own, r_exchange_order_id = i, r_symbol = symbol, r_side = side, r_order_type = kind,
         r_quantity = qty, r_price = or_none price, r_filled_quantity = filled, r_average_fill_price = or_none average,
         r_status = by_order_status status, r_created_at = t, r_updated_at = t, r_error_message = None\<rparr>))))))))))"

text \<open>\<^verbatim>\<open>s.capitalize()\<close>\<close>

definition capitalize :: "string \<Rightarrow> string" where
  "capitalize s = (case s of [] \<Rightarrow> [] | c # cs \<Rightarrow> char_upper c # py_lower cs)"

definition by_order_params :: "string \<Rightarrow> string \<Rightarrow> string \<Rightarrow> decimal \<Rightarrow> decimal option \<Rightarrow> (string, json) dict \<Rightarrow>
    (string, json) dict" where
  "by_order_params symbol side order_type quantity price kwargs =
     [(''category'', JStr ''spot''), (''symbol'', JStr (py_upper symbol)), (''side'', JStr (capitalize side)),
      (''qty'', JStr (str_decimal quantity)), (''orderType'', JStr (capitalize order_type))] @
     (case price of None \<Rightarrow> [] | Some p \<Rightarrow> [(''price'', JStr (str_decimal p))]) @
     (case dget kwargs ''client_order_id'' of None \<Rightarrow> []
      | Some v \<Rightarrow> if json_truthy v then [(''orderLinkId'', v)] else [])"

definition by_place_order :: "'x library \<Rightarrow> string \<Rightarrow> string \<Rightarrow> string \<Rightarrow> decimal \<Rightarrow> decimal option \<Rightarrow>
    (string, json) dict \<Rightarrow> ('x, 'cb, 'm, order_result) client" where
  "by_place_order lib symbol side order_type quantity price kwargs =
     bind (by_signed_post lib ''/v5/order/create'' (by_order_params symbol side order_type quantity price kwargs)) (\<lambda>r.
     bind (by_json lib r) (\<lambda>data. reading (\<lambda>s.
       lift_res (by_placed_result lib (clock s) data (py_upper symbol) side order_type quantity price))))"

definition by_order_key :: "string \<Rightarrow> string \<Rightarrow> (string, json) dict" where
  "by_order_key symbol i = [(''category'', JStr ''spot''), (''symbol'', JStr (py_upper symbol)), (''orderId'', JStr i)]"

definition by_cancel_order :: "'x library \<Rightarrow> string \<Rightarrow> string \<Rightarrow> ('x, 'cb, 'm, order_result) client" where
  "by_cancel_order lib symbol i =
     bind (by_signed_post lib ''/v5/order/cancel'' (by_order_key symbol i)) (\<lambda>r.
     bind (by_json lib r) (\<lambda>data. reading (\<lambda>s.
       lift_res (by_placed_result lib (clock s) data (py_upper symbol) [] [] 0 None))))"

definition by_cancel_all :: "'x library \<Rightarrow> string option \<Rightarrow> ('x, 'cb, 'm, order_result list) client" where
  "by_cancel_all lib symbol =
     bind (by_signed_post lib ''/v5/order/cancel-all'' (by_params symbol)) (\<lambda>r.
       seq (lift_res (by_raise_for_status lib r)) (ret []))"

definition by_get_order :: "'x library \<Rightarrow> string \<Rightarrow> string \<Rightarrow> ('x, 'cb, 'm, order_result) client" where
  "by_get_order lib symbol i =
     bind (by_signed_get lib ''/v5/order/realtime'' (by_order_key symbol i)) (\<lambda>r. bind (by_json lib r) (\<lambda>data.
       reading (\<lambda>s. lift_res (rbind (rbind (by_result data) (\<lambda>r. item_or r ''list'' (JList []))) (\<lambda>js.
         if \<not> json_truthy js then Raise (Exn OrderNotFound [i])
         else rbind (nth_item js 0) (by_order_result lib (clock s)))))))"

definition by_get_open_orders :: "'x library \<Rightarrow> string option \<Rightarrow> ('x, 'cb, 'm, order_result list) client" where
  "by_get_open_orders lib symbol =
     bind (by_signed_get lib ''/v5/order/realtime'' (by_params symbol)) (\<lambda>r. bind (by_json lib r) (\<lambda>data.
       reading (\<lambda>s. lift_res (rbind (by_list data) (rmap (by_order_result lib (clock s)))))))"

section \<open>Streams\<close>

definition by_stream :: "string \<Rightarrow> string \<Rightarrow> string" where
  "by_stream channel symbol = (if channel = ''ticker'' then ''tickers'' else if channel = ''orderbook'' then ''orderbook.50''
     else channel) @ ''.'' @ symbol"

definition by_subscribe_market :: "'x library \<Rightarrow> string list \<Rightarrow> string \<Rightarrow> 'cb \<Rightarrow> ('x, 'cb, 'm, bool) client" where
  "by_subscribe_market lib symbols channel cb =
     seq (connect_if_closed Market (by_connect_market lib))
     (seq (for_each (\<lambda>y. put_callback channel (py_upper y) cb) symbols)
     (seq (ws_subscribe (lb_ws lib) Market (op_message ''subscribe'' (map (\<lambda>y. by_stream channel (py_upper y)) symbols)))
       (ret True)))"

definition by_unsubscribe_market :: "'x library \<Rightarrow> string list \<Rightarrow> string \<Rightarrow> ('x, 'cb, 'm, bool) client" where
  "by_unsubscribe_market lib symbols channel =
     seq (for_each (\<lambda>y. drop_callback channel (py_upper y)) symbols)
     (seq (ws_unsubscribe (lb_ws lib) Market (op_message ''unsubscribe'' (map (\<lambda>y. by_stream channel (py_upper y)) symbols)))
       (ret True))"

definition by_subscribe_account :: "'x library \<Rightarrow> 'cb \<Rightarrow> ('x, 'cb, 'm, bool) client" where
  "by_subscribe_account lib cb = seq (connect_if_closed Account (by_connect_account lib)) (set_user_callback (Some cb))"

definition by_unsubscribe_account :: "('x, 'cb, 'm, bool) client" where
  "by_unsubscribe_account = set_user_callback None"

text \<open>The symbol of a topic: \<^verbatim>\<open>topic.replace("tickers.", "")\<close>, and the last part between dots.\<close>

fun remove_all :: "nat \<Rightarrow> string \<Rightarrow> string \<Rightarrow> string" where
  "remove_all 0 sub s = s"
| "remove_all (Suc n) sub s = (case s of
      [] \<Rightarrow> []
    | c # cs \<Rightarrow> if has_prefix sub s then remove_all n sub (drop (length sub) s) else c # remove_all n sub cs)"

definition last_part :: "string \<Rightarrow> string" where
  "last_part s = rev (takeWhile (\<lambda>c. c \<noteq> CHR ''.'') (rev s))"

definition dots :: "string \<Rightarrow> nat" where
  "dots s = length (filter (\<lambda>c. c = CHR ''.'') s)"

definition by_dispatch :: "('cb \<Rightarrow> json \<Rightarrow> ('x, 'cb, 'm, unit) client) \<Rightarrow> json option \<Rightarrow> ('x, 'cb, 'm, unit) client" where
  "by_dispatch call message = (case message of
      Some (JObj d) \<Rightarrow>
        bind (lift_res (rbind (item_or (JObj d) ''topic'' (JStr [])) (on_text (\<lambda>x. x)))) (\<lambda>topic.
          if has_prefix ''tickers.'' topic
          then reading (\<lambda>s. call_if call
            (dget (ea_ticker_callbacks s) (py_upper (remove_all (length topic) ''tickers.'' topic))) (JObj d))
          else if has_prefix ''orderbook.'' topic
          then (if 2 \<le> dots topic
            then reading (\<lambda>s. call_if call (dget (ea_orderbook_callbacks s) (py_upper (last_part topic))) (JObj d))
            else ret ())
          else if dget d ''type'' = Some (JStr ''snapshot'')
          then reading (\<lambda>s. call_if call (ea_user_callback s) (JObj d))
          else ret ())
    | _ \<Rightarrow> ret ())"

end
