(* ===== verification/HyperliquidAdapter.thy ===== *)
theory HyperliquidAdapter
  imports ExchangeAdapter
begin

text \<open>
  \<^verbatim>\<open>exchanges/adapters/hyperliquid.py\<close>: information requests, actions, account, market data, orders
  and streams of Hyperliquid. The client sends actions without a signature, as the code does.
\<close>

section \<open>Requests\<close>

definition hl_raise_for_status :: "'x library \<Rightarrow> http_response \<Rightarrow> unit res" where
  "hl_raise_for_status lib r =
     (if rs_status r < 400 then Ok ()
      else let status = rs_status r in
        rbind (item_or (error_body r) ''response'' (JStr [])) (\<lambda>msg.
          if status = 429 then Raise (Exn ExchangeRateLimitError [])
          else if status \<in> set [401, 403] then Raise (Exn AuthenticationError [])
          else if 500 \<le> status then Raise (Exn ExchangeConnectionError [])
          else Raise (Exn ExchangeError [])))"

text \<open>\<^verbatim>\<open>_post_info\<close>: an answer that is not an object is wrapped in one.\<close>

definition as_object :: "json \<Rightarrow> json" where
  "as_object j = (case j of JObj _ \<Rightarrow> j | _ \<Rightarrow> JObj [(''data'', j)])"

definition hl_post_info :: "'x library \<Rightarrow> (string, json) dict \<Rightarrow> ('x, 'cb, 'm, json) client" where
  "hl_post_info lib body =
     bind (with_http (\<lambda>c. http_post c ''/info'' (JsonBody (JObj body)) [])) (\<lambda>r.
     bind (parse_json (hl_raise_for_status lib) r) (\<lambda>j. ret (as_object j)))"

definition hl_post_action :: "'x library \<Rightarrow> json \<Rightarrow> ('x, 'cb, 'm, json) client" where
  "hl_post_action lib action = reading (\<lambda>s.
     bind (with_http (\<lambda>c. http_post c ''/exchange''
       (JsonBody (JObj [(''action'', action), (''nonce'', JInt (millis (clock s)))])) []))
       (parse_json (hl_raise_for_status lib)))"

definition hl_user_info :: "'x library \<Rightarrow> string \<Rightarrow> ('x, 'cb, 'm, json) client" where
  "hl_user_info lib kind = reading (\<lambda>s. hl_post_info lib [(''type'', JStr kind), (''user'', JStr (ea_wallet s))])"

section \<open>Lifecycle\<close>

definition hl_initialize :: "'x library \<Rightarrow> adapter_config \<Rightarrow> ('x, 'cb, 'm, bool) client" where
  "hl_initialize lib cfg =
     (let url = address (ac_is_testnet cfg) ''wss://api.hyperliquid-testnet.xyz/ws'' (ac_market_stream_url cfg)
                  ''wss://api.hyperliquid.xyz/ws''
      in initialize_client lib \<lparr>rl_max_tokens = 60, rl_refill_rate = 10\<rparr> cfg
        (address (ac_is_testnet cfg) ''https://api.hyperliquid-testnet.xyz'' (ac_rest_url cfg)
          ''https://api.hyperliquid.xyz'') url url)"

definition hl_authenticate :: "'x library \<Rightarrow> exchange_credentials \<Rightarrow> ('x, 'cb, 'm, bool) client" where
  "hl_authenticate lib cr =
     seq (modify (\<lambda>s. s\<lparr>ea_api_key := ec_api_key cr, ea_api_secret := ec_api_secret cr, ea_wallet := ec_api_key cr\<rparr>))
     (bind (hl_user_info lib ''clearinghouseState'') (\<lambda>j.
       if j = JNull then throw (Exn AuthenticationError []) else ret True))"

definition hl_connect_market :: "'x library \<Rightarrow> ('x, 'cb, 'm, bool) client" where
  "hl_connect_market lib = reading (\<lambda>s. ws_connect (lb_ws lib) Market (ea_ws_url s))"

definition hl_connect_account :: "'x library \<Rightarrow> ('x, 'cb, 'm, bool) client" where
  "hl_connect_account lib = reading (\<lambda>s. ws_connect (lb_ws lib) Account (ea_ws_url s))"

definition hl_disconnect :: "('x, 'cb, 'm, unit) client" where
  "hl_disconnect = disconnect_client"

definition hl_health_check :: "'x library \<Rightarrow> ('x, 'cb, 'm, bool) client" where
  "hl_health_check lib =
     try_catch (bind (hl_post_info lib [(''type'', JStr ''meta'')]) (\<lambda>j. ret (j \<noteq> JNull))) (\<lambda>_. ret False)"

section \<open>Account and symbols\<close>

definition hl_get_account :: "'x library \<Rightarrow> ('x, 'cb, 'm, json) client" where
  "hl_get_account lib = hl_user_info lib ''clearinghouseState''"

definition hl_margin_balance :: "json \<Rightarrow> balance_entry list res" where
  "hl_margin_balance data =
     rbind (item_or data ''marginSummary'' (JObj [])) (\<lambda>m.
     rbind (get_decimal m ''accountValue'') (\<lambda>margin.
       if 0 < margin then rbind (get_decimal m ''availableMargin'') (\<lambda>free.
         Ok [\<lparr>be_currency = ''USDC'', be_available = free, be_locked = dsub margin free, be_total = margin\<rparr>])
       else Ok []))"

definition hl_spot_balance :: "string option \<Rightarrow> json \<Rightarrow> balance_entry list res" where
  "hl_spot_balance asset j =
     rbind (item_or j ''coin'' (JStr [])) (\<lambda>coin.
     if truthy asset \<and> coin \<noteq> JStr (py_upper (the asset)) then Ok []
     else rbind (get_decimal j ''total'') (\<lambda>total. rbind (get_decimal j ''hold'') (\<lambda>hold.
       rbind (as_str coin) (\<lambda>currency.
         Ok [\<lparr>be_currency = currency, be_available = dsub total hold, be_locked = hold, be_total = total\<rparr>]))))"

definition hl_get_balance :: "'x library \<Rightarrow> string option \<Rightarrow> ('x, 'cb, 'm, balance_entry list) client" where
  "hl_get_balance lib asset = bind (hl_get_account lib) (\<lambda>data.
     if \<not> json_truthy data then ret []
     else bind (lift_res (hl_margin_balance data)) (\<lambda>margin.
       bind (hl_user_info lib ''spotClearinghouseState'') (\<lambda>spot.
         if \<not> json_truthy spot then ret margin
         else lift_res (rbind (concat_res (rbind (get_elements spot ''balances'') (rmap (hl_spot_balance asset)))) (\<lambda>bs.
           Ok (margin @ bs))))))"

definition hl_meta :: "'x library \<Rightarrow> ('x, 'cb, 'm, json) client" where
  "hl_meta lib = hl_post_info lib [(''type'', JStr ''meta'')]"

definition hl_get_symbol_info :: "'x library \<Rightarrow> string \<Rightarrow> ('x, 'cb, 'm, json) client" where
  "hl_get_symbol_info lib symbol = bind (hl_meta lib) (\<lambda>meta.
     if \<not> json_truthy meta then throw (symbol_not_supported symbol)
     else bind (lift_res (rbind (get_elements meta ''universe'') (find_by ''name'' (py_upper symbol)))) (\<lambda>found.
       case found of None \<Rightarrow> throw (symbol_not_supported symbol) | Some j \<Rightarrow> ret j))"

definition hl_get_exchange_info :: "'x library \<Rightarrow> ('x, 'cb, 'm, exchange_info) client" where
  "hl_get_exchange_info lib = bind (hl_meta lib) (\<lambda>meta. reading (\<lambda>s. lift_res (
     rbind (rbind (get_elements meta ''universe'') (rmap (\<lambda>j. rbind (item j ''name'') as_str))) (\<lambda>symbols.
       Ok \<lparr>ei_name = ea_name s, ei_supported_symbols = symbols, ei_rate_limits = JObj [], ei_server_time = clock s\<rparr>))))"

definition hl_position :: "string option \<Rightarrow> json \<Rightarrow> position_report list res" where
  "hl_position symbol j =
     rbind (item_or j ''position'' (JObj [])) (\<lambda>p. rbind (item_or p ''coin'' JNull) (\<lambda>coin.
     if truthy symbol \<and> coin \<noteq> JStr (py_upper (the symbol)) then Ok []
     else rbind (get_text p ''coin'') (\<lambda>name. rbind (get_decimal p ''szi'') (\<lambda>size.
       rbind (get_decimal p ''entryPx'') (\<lambda>entry. rbind (get_decimal p ''unrealizedPnl'') (\<lambda>pnl.
         Ok [\<lparr>pe_symbol = name, pe_side = (if 0 < size then ''long'' else ''short''), pe_quantity = dfix \<bar>size\<bar>,
           pe_entry_price = entry, pe_unrealized_pnl = pnl\<rparr>]))))))"

definition hl_get_positions :: "'x library \<Rightarrow> string option \<Rightarrow> ('x, 'cb, 'm, position_report list) client" where
  "hl_get_positions lib symbol = bind (hl_get_account lib) (\<lambda>data.
     if \<not> json_truthy data then ret []
     else lift_res (concat_res (rbind (get_elements data ''assetPositions'') (rmap (hl_position symbol)))))"

section \<open>Market data\<close>

definition hl_levels :: "string \<Rightarrow> json list \<Rightarrow> (decimal \<times> decimal) list res" where
  "hl_levels side levels = concat_res (rmap (\<lambda>l. rbind (item_or l ''side'' JNull) (\<lambda>y.
     if y \<noteq> JStr side then Ok []
     else rbind (item_decimal l ''px'') (\<lambda>px. rbind (item_decimal l ''sz'') (\<lambda>sz. Ok [(px, sz)])))) levels)"

definition hl_book :: "'x library \<Rightarrow> string \<Rightarrow> ('x, 'cb, 'm, (decimal \<times> decimal) list \<times> (decimal \<times> decimal) list) client" where
  "hl_book lib symbol =
     bind (hl_post_info lib [(''type'', JStr ''l2Book''), (''coin'', JStr (py_upper symbol))]) (\<lambda>data.
       if \<not> json_truthy data then throw (symbol_not_supported symbol)
       else lift_res (rbind (get_elements data ''levels'') (\<lambda>levels.
         rbind (hl_levels ''bid'' levels) (\<lambda>bids. rbind (hl_levels ''ask'' levels) (\<lambda>asks. Ok (bids, asks))))))"

definition best_price :: "(decimal \<times> decimal) list \<Rightarrow> decimal" where
  "best_price levels = (case levels of [] \<Rightarrow> 0 | (p, _) # _ \<Rightarrow> p)"

definition hl_get_ticker :: "'x library \<Rightarrow> string \<Rightarrow> ('x, 'cb, 'm, ticker_data) client" where
  "hl_get_ticker lib symbol = bind (hl_book lib symbol) (\<lambda>(bids, asks).
     bind (hl_post_info lib [(''type'', JStr ''allMids'')]) (\<lambda>mids.
     bind (lift_res (if json_truthy mids
         then rbind (item_or mids (py_upper symbol) (JStr (str_decimal (best_price bids)))) as_decimal
         else Ok (best_price bids))) (\<lambda>last.
       gets (\<lambda>s. \<lparr>td_symbol = py_upper symbol, td_bid = best_price bids, td_ask = best_price asks, td_last = last,
         td_volume = 0, td_timestamp = clock s\<rparr>))))"

text \<open>\<^verbatim>\<open>xs[:n]\<close>\<close>

definition first_items :: "int \<Rightarrow> 'a list \<Rightarrow> 'a list" where
  "first_items n xs = take (nat (if n < 0 then int (length xs) + n else n)) xs"

definition hl_get_order_book :: "'x library \<Rightarrow> string \<Rightarrow> int \<Rightarrow> ('x, 'cb, 'm, order_book) client" where
  "hl_get_order_book lib symbol limit = bind (hl_book lib symbol) (\<lambda>(bids, asks).
     gets (\<lambda>s. \<lparr>ob_symbol = py_upper symbol, ob_bids = first_items limit bids, ob_asks = first_items limit asks,
       ob_timestamp = clock s\<rparr>))"

definition hl_interval_to_ms :: "string \<Rightarrow> int" where
  "hl_interval_to_ms i = (if i = ''5m'' then 300000 else if i = ''15m'' then 900000 else if i = ''1h'' then 3600000
     else if i = ''4h'' then 14400000 else if i = ''1d'' then 86400000 else 60000)"

text \<open>\<^verbatim>\<open>Decimal(str(x.get(k, "0")))\<close>\<close>

definition text_decimal :: "'x library \<Rightarrow> json \<Rightarrow> string \<Rightarrow> decimal res" where
  "text_decimal lib j k = rbind (item_or j k (JStr ''0'')) (\<lambda>v. read_decimal (py_str lib v))"

definition hl_candle :: "'x library \<Rightarrow> string \<Rightarrow> string \<Rightarrow> json \<Rightarrow> market_candle res" where
  "hl_candle lib symbol interval row =
     rbind (text_decimal lib row ''o'') (\<lambda>op. rbind (text_decimal lib row ''h'') (\<lambda>hi. rbind (text_decimal lib row ''l'') (\<lambda>lo.
     rbind (text_decimal lib row ''c'') (\<lambda>cl. rbind (text_decimal lib row ''v'') (\<lambda>vol.
     rbind (rbind (item_or row ''t'' (JStr ''0'')) int_millis) (\<lambda>t.
       Ok \<lparr>mc_symbol = symbol, mc_interval = interval, mc_open = op, mc_high = hi, mc_low = lo, mc_close = cl,
         mc_volume = vol, mc_timestamp = t\<rparr>))))))"

definition hl_get_candles :: "'x library \<Rightarrow> string \<Rightarrow> string \<Rightarrow> int \<Rightarrow> ('x, 'cb, 'm, market_candle list) client" where
  "hl_get_candles lib symbol interval limit = reading (\<lambda>s. let now = millis (clock s) in
     bind (hl_post_info lib [(''type'', JStr ''candleSnapshot''), (''coin'', JStr (py_upper symbol)),
        (''interval'', JStr interval), (''startTime'', JInt (now - limit * hl_interval_to_ms interval)),
        (''endTime'', JInt now)]) (\<lambda>data.
       lift_res (rbind (rbind (item_or data ''t'' (JObj [])) (\<lambda>t. get_elements t (py_upper symbol)))
         (rmap (hl_candle lib (py_upper symbol) interval)))))"

definition hl_trade :: "'x library \<Rightarrow> string \<Rightarrow> json \<Rightarrow> trade_entry list res" where
  "hl_trade lib symbol fill =
     rbind (item_or fill ''coin'' JNull) (\<lambda>coin.
     if coin \<noteq> JStr symbol then Ok []
     else rbind (get_str lib fill ''tid'') (\<lambda>i. rbind (get_str lib fill ''oid'') (\<lambda>order_id.
       rbind (get_lower fill ''side'') (\<lambda>side. rbind (text_decimal lib fill ''sz'') (\<lambda>qty.
       rbind (text_decimal lib fill ''px'') (\<lambda>price. rbind (text_decimal lib fill ''fee'') (\<lambda>fee.
       rbind (rbind (item_or fill ''time'' (JStr ''0'')) int_millis) (\<lambda>t.
         Ok [\<lparr>te_trade_id = i, te_order_id = order_id, te_symbol = symbol, te_side = side, te_quantity = qty,
           te_price = price, te_fee = fee, te_fee_currency = ''USDC'', te_timestamp = t\<rparr>]))))))))"

definition hl_get_trades :: "'x library \<Rightarrow> string \<Rightarrow> int \<Rightarrow> ('x, 'cb, 'm, trade_entry list) client" where
  "hl_get_trades lib symbol limit = bind (hl_user_info lib ''userFills'') (\<lambda>data.
     if \<not> json_truthy data then ret []
     else lift_res (rbind (concat_res (rbind (get_elements data ''fills'') (rmap (hl_trade lib (py_upper symbol)))))
       (\<lambda>trades. Ok (first_items limit trades))))"

section \<open>Orders\<close>

definition set_price :: "decimal option \<Rightarrow> bool" where
  "set_price price = (case price of None \<Rightarrow> False | Some p \<Rightarrow> p \<noteq> 0)"

definition hl_order_type :: "string \<Rightarrow> decimal option \<Rightarrow> string" where
  "hl_order_type order_type price =
     (let kind = (if py_lower order_type = ''stop_limit'' then ''trigger'' else if set_price price then ''limit'' else ''ioc'')
      in if kind = ''ioc'' then ''ioc'' else ''limit'')"

definition hl_order_data :: "string \<Rightarrow> string \<Rightarrow> string \<Rightarrow> decimal \<Rightarrow> decimal option \<Rightarrow> (string, json) dict \<Rightarrow>
    (string, json) dict" where
  "hl_order_data symbol side order_type quantity price kwargs =
     [(''coin'', JStr (py_upper symbol)), (''isBuy'', JBool (py_lower side = ''buy'')),
      (''sz'', JStr (str_decimal quantity)),
      (''limitPx'', JStr (if set_price price then str_decimal (the price) else ''0'')),
      (''orderType'', JStr (hl_order_type order_type price)),
      (''reduceOnly'', case dget kwargs ''reduce_only'' of None \<Rightarrow> JBool False | Some v \<Rightarrow> v)] @
     (case dget kwargs ''client_order_id'' of None \<Rightarrow> []
      | Some v \<Rightarrow> if json_truthy v then [(''cloid'', v)] else [])"

text \<open>The order is open when the answer says \<^verbatim>\<open>ok\<close>, otherwise rejected.\<close>

definition hl_placed_result :: "'x library \<Rightarrow> datetime \<Rightarrow> json \<Rightarrow> string \<Rightarrow> string \<Rightarrow> string \<Rightarrow> decimal \<Rightarrow>
    decimal option \<Rightarrow> (string, json) dict \<Rightarrow> order_result res" where
  "hl_placed_result lib t response symbol side order_type quantity price kwargs =
     rbind (if json_truthy response then item_or response ''status'' (JStr ''err'') else Ok (JStr ''err'')) (\<lambda>status.
     rbind (if json_truthy response
        then rbind (item_or response ''resting'' (JObj [])) (\<lambda>r. item_or r ''oid'' (JStr [])) else Ok (JStr [])) (\<lambda>oid.
     rbind (get_text (JObj kwargs) ''client_order_id'') (\<lambda>own.
       Ok \<lparr>r_order_id = own, r_exchange_order_id = py_str lib oid, r_symbol = symbol, r_side = py_lower side,
         r_order_type = py_lower order_type, r_quantity = quantity, r_price = price, r_filled_quantity = 0,
         r_average_fill_price = None, r_status = (if status = JStr ''ok'' then ''open'' else ''rejected''),
         r_created_at = t, r_updated_at = t,
         r_error_message = (if status = JStr ''ok'' then None else Some (Exn ExchangeError [py_str lib status]))\<rparr>)))"

definition hl_place_order :: "'x library \<Rightarrow> string \<Rightarrow> string \<Rightarrow> string \<Rightarrow> decimal \<Rightarrow> decimal option \<Rightarrow>
    (string, json) dict \<Rightarrow> ('x, 'cb, 'm, order_result) client" where
  "hl_place_order lib symbol side order_type quantity price kwargs =
     bind (hl_post_action lib (JObj [(''type'', JStr ''order''),
         (''orders'', JList [JObj (hl_order_data symbol side order_type quantity price kwargs)]),
         (''grouping'', JStr ''na'')])) (\<lambda>response. reading (\<lambda>s.
       lift_res (hl_placed_result lib (clock s) response (py_upper symbol) side order_type quantity price kwargs)))"

definition hl_cancel_order :: "'x library \<Rightarrow> string \<Rightarrow> string \<Rightarrow> ('x, 'cb, 'm, order_result) client" where
  "hl_cancel_order lib symbol i = bind (lift_res (py_int (JStr i))) (\<lambda>oid.
     bind (hl_post_action lib (JObj [(''type'', JStr ''cancel''),
         (''cancels'', JList [JObj [(''coin'', JStr (py_upper symbol)), (''oid'', JInt oid)]])])) (\<lambda>_.
       gets (\<lambda>s. cancel_report symbol i (clock s))))"

text \<open>
  The answer is a list, which \<^verbatim>\<open>_post_info\<close> has wrapped in an object: the loop runs over the keys of
  that object, which are strings and have no \<^verbatim>\<open>get\<close>.
\<close>

definition hl_open_order :: "'x library \<Rightarrow> datetime \<Rightarrow> string option \<Rightarrow> json \<Rightarrow> order_result list res" where
  "hl_open_order lib t symbol j =
     rbind (item_or j ''coin'' JNull) (\<lambda>coin.
     if truthy symbol \<and> coin \<noteq> JStr (py_upper (the symbol)) then Ok []
     else rbind (get_str lib j ''cloid'') (\<lambda>own. rbind (get_str lib j ''oid'') (\<lambda>i. rbind (get_text j ''coin'') (\<lambda>name.
       rbind (get_lower j ''side'') (\<lambda>side. rbind (text_decimal lib j ''sz'') (\<lambda>size.
       rbind (text_decimal lib j ''limitPx'') (\<lambda>price. rbind (text_decimal lib j ''origSz'') (\<lambda>original.
         Ok [\<lparr>r_order_id = own, r_exchange_order_id = i, r_symbol = name, r_side = (if side = ''b'' then ''buy'' else ''sell''),
           r_order_type = ''limit'', r_quantity = size, r_price = Some price, r_filled_quantity = dsub original size,
           r_average_fill_price = None, r_status = ''open'', r_created_at = t, r_updated_at = t,
           r_error_message = None\<rparr>]))))))))"

definition hl_get_open_orders :: "'x library \<Rightarrow> string option \<Rightarrow> ('x, 'cb, 'm, order_result list) client" where
  "hl_get_open_orders lib symbol = bind (hl_user_info lib ''openOrders'') (\<lambda>data.
     if \<not> json_truthy data then ret []
     else reading (\<lambda>s. lift_res (concat_res (rbind (elements data) (rmap (hl_open_order lib (clock s) symbol))))))"

definition hl_cancel_all :: "'x library \<Rightarrow> string option \<Rightarrow> ('x, 'cb, 'm, order_result list) client" where
  "hl_cancel_all lib symbol = bind (hl_get_open_orders lib symbol) (collect (\<lambda>r.
     bind (hl_cancel_order lib (r_symbol r) (r_exchange_order_id r)) (\<lambda>c. ret [c])))"

definition hl_get_order :: "'x library \<Rightarrow> string \<Rightarrow> string \<Rightarrow> ('x, 'cb, 'm, order_result) client" where
  "hl_get_order lib symbol i = bind (hl_get_open_orders lib (Some symbol)) (\<lambda>rs.
     case find (\<lambda>r. r_exchange_order_id r = i) rs of None \<Rightarrow> throw (Exn OrderNotFound [i]) | Some r \<Rightarrow> ret r)"

section \<open>Streams\<close>

definition hl_stream :: "string \<Rightarrow> string \<Rightarrow> string \<Rightarrow> json" where
  "hl_stream method channel symbol = JObj [(''method'', JStr method), (''subscription'', JObj
     (if channel = ''ticker'' then [(''type'', JStr ''allMids'')]
      else [(''type'', JStr (if channel = ''orderbook'' then ''l2Book'' else channel)), (''coin'', JStr symbol)]))]"

definition hl_subscribe_market :: "'x library \<Rightarrow> string list \<Rightarrow> string \<Rightarrow> 'cb \<Rightarrow> ('x, 'cb, 'm, bool) client" where
  "hl_subscribe_market lib symbols channel cb =
     seq (connect_if_closed Market (hl_connect_market lib))
     (seq (for_each (\<lambda>y. seq (put_callback channel (py_upper y) cb)
         (ws_subscribe (lb_ws lib) Market (hl_stream ''subscribe'' channel (py_upper y)))) symbols)
       (ret True))"

definition hl_unsubscribe_market :: "'x library \<Rightarrow> string list \<Rightarrow> string \<Rightarrow> ('x, 'cb, 'm, bool) client" where
  "hl_unsubscribe_market lib symbols channel =
     seq (for_each (\<lambda>y. seq (drop_callback channel (py_upper y))
         (ws_unsubscribe (lb_ws lib) Market (hl_stream ''unsubscribe'' channel (py_upper y)))) symbols)
       (ret True)"

definition hl_subscribe_account :: "'x library \<Rightarrow> 'cb \<Rightarrow> ('x, 'cb, 'm, bool) client" where
  "hl_subscribe_account lib cb =
     seq (connect_if_closed Account (hl_connect_account lib))
     (bind (set_user_callback (Some cb)) (\<lambda>_. reading (\<lambda>s.
       seq (ws_subscribe (lb_ws lib) Account (JObj [(''method'', JStr ''subscribe''),
           (''subscription'', JObj [(''type'', JStr ''userFills''), (''user'', JStr (ea_wallet s))])]))
         (ret True))))"

definition hl_unsubscribe_account :: "('x, 'cb, 'm, bool) client" where
  "hl_unsubscribe_account = set_user_callback None"

definition hl_dispatch :: "('cb \<Rightarrow> json \<Rightarrow> ('x, 'cb, 'm, unit) client) \<Rightarrow> json option \<Rightarrow> ('x, 'cb, 'm, unit) client" where
  "hl_dispatch call message = (case message of
      Some (JObj d) \<Rightarrow>
        let channel = (case dget d ''channel'' of None \<Rightarrow> JStr [] | Some v \<Rightarrow> v)
        in if channel = JStr ''allMids''
           then reading (\<lambda>s. for_each (\<lambda>(_, cb). call cb (JObj d)) (ea_ticker_callbacks s))
           else if channel = JStr ''l2Book''
           then bind (lift_res (rbind (item_or (JObj d) ''data'' (JObj [])) (\<lambda>j.
               rbind (item_or j ''coin'' (JStr [])) (on_text py_upper)))) (\<lambda>y.
             reading (\<lambda>s. call_if call (dget (ea_orderbook_callbacks s) y) (JObj d)))
           else if channel = JStr ''userFills''
           then reading (\<lambda>s. call_if call (ea_user_callback s) (JObj d))
           else ret ()
    | _ \<Rightarrow> ret ())"

end
