(* ===== verification/AdapterLaws.thy ===== *)
theory AdapterLaws
  imports RequestLaws BinanceAdapter MexcAdapter BybitAdapter HyperliquidAdapter
begin

text \<open>
  What the exchange clients promise and what they do not: which requests carry a signature of what
  they send, what becomes of an order that is refused or whose answer is lost, how the clock of
  Binance is followed, and what reading open orders from Hyperliquid comes to.
\<close>

section \<open>Requests that the server can verify\<close>

text \<open>
  OKX signs the time, the method, the path and the body; Bybit the time, the key, the window and
  the body. Both verify the body as it arrives.
\<close>

definition ok_authentic :: "'x library \<Rightarrow> string \<Rightarrow> string \<Rightarrow> http_request \<Rightarrow> bool" where
  "ok_authentic lib base secret q = (case (dget (rq_headers q) ''OK-ACCESS-TIMESTAMP'', rq_content q) of
      (Some ts, TextBody body) \<Rightarrow> dget (rq_headers q) ''OK-ACCESS-SIGN'' =
         Some (lb_hmac_base64 lib secret (ts @ rq_method q @ drop (length base) (rq_url q) @ body))
    | _ \<Rightarrow> False)"

definition by_authentic :: "'x library \<Rightarrow> string \<Rightarrow> http_request \<Rightarrow> bool" where
  "by_authentic lib secret q = (case (dget (rq_headers q) ''X-BAPI-TIMESTAMP'', dget (rq_headers q) ''X-BAPI-API-KEY'',
        dget (rq_headers q) ''X-BAPI-RECV-WINDOW'', rq_content q) of
      (Some ts, Some key, Some window, JsonBody j) \<Rightarrow> dget (rq_headers q) ''X-BAPI-SIGN'' =
         Some (lb_hmac_hex lib secret (ts @ key @ window @ json_dumps lib j))
    | _ \<Rightarrow> False)"

text \<open>Reading an answer changes nothing.\<close>

lemma silent_bind: "(\<And>a t. snd (f a t) = t) \<Longrightarrow> snd (bind m f s) = snd (m s)"
  by (simp add: py_simps split: prod.splits res.splits)

lemma silent_results [simp]:
  "snd (lift_res r s) = s" "snd (ret a s) = s" "snd (throw e s) = s" "snd (gets g s) = s"
  "snd (reading (\<lambda>s. lift_res (h s)) s) = s"
  by (simp_all add: py_simps)

lemma silent_seq: "(\<And>t. snd (n t) = t) \<Longrightarrow> snd (seq m n s) = snd (m s)"
  unfolding seq_def by (rule silent_bind)

lemma silent_parse [simp]: "snd (parse_json f r s) = s"
  by (simp add: parse_json_def py_simps split: res.splits option.splits)

lemma snd_signed_okx:
  assumes "ea_http s = Some c"
  shows "snd (ok_signed_post lib path ps s) = (if ea_api_key s = [] then s
    else snd (http_post c path (TextBody (json_dumps lib (JObj ps)))
      (ok_headers s (ok_sign lib s (lb_iso_time lib (clock s)) ''POST'' path (json_dumps lib (JObj ps)))
        (lb_iso_time lib (clock s))) s))"
  using assms
  by (simp add: ok_signed_post_def ensure_authenticated_def with_http_def Let_def py_simps split: prod.splits res.splits)

lemma dropped_slash: "path = slash # p \<Longrightarrow> hd p \<noteq> slash \<Longrightarrow> p \<noteq> [] \<Longrightarrow> slash # dropWhile (\<lambda>c. c = slash) path = path"
  by (cases p) auto

lemma okx_post_authentic:
  assumes "ea_http s = Some c" and path: "slash # dropWhile (\<lambda>c. c = slash) path = path"
  shows "only_sends (ok_authentic lib (hc_base_url c) (ea_api_secret s)) c s (snd (ok_signed_post lib path ps s))"
proof (cases "ea_api_key s = []")
  case True
  then show ?thesis by (simp add: snd_signed_okx [OF assms(1)] sends.R_refl)
next
  case False
  then show ?thesis unfolding snd_signed_okx [OF assms(1)] http_post_def using path
    by (simp, intro obeysD [OF sends_request])
      (simp add: ok_authentic_def ok_headers_def ok_sign_def http_url_def py_upper_def)
qed

text \<open>
  C34. Every request by which the client places or cancels an order at OKX can be verified: whatever the
  exchange answers, and however often a request is repeated, each carries the signature of the very
  body it has, and of its method and path.
\<close>

theorem okx_orders_authentic:
  assumes "ea_http s = Some c"
  shows "only_sends (ok_authentic lib (hc_base_url c) (ea_api_secret s)) c s
      (snd (ok_place_order lib symbol side order_type quantity price kwargs s)) \<and>
    only_sends (ok_authentic lib (hc_base_url c) (ea_api_secret s)) c s (snd (ok_cancel_order lib symbol i s)) \<and>
    only_sends (ok_authentic lib (hc_base_url c) (ea_api_secret s)) c s (snd (ok_cancel_all lib account s))"
proof -
  have "snd (ok_place_order lib symbol side order_type quantity price kwargs s) =
      snd (ok_signed_post lib ''/api/v5/trade/order'' (ok_order_params symbol side order_type quantity price kwargs) s)"
    unfolding ok_place_order_def by (intro silent_bind) (simp add: ok_json_def silent_bind)
  moreover have "snd (ok_cancel_order lib symbol i s) =
      snd (ok_signed_post lib ''/api/v5/trade/cancel-order'' (ok_order_key symbol i) s)"
    unfolding ok_cancel_order_def by (intro silent_bind) (simp add: silent_seq)
  moreover have "snd (ok_cancel_all lib account s) =
      snd (ok_signed_post lib ''/api/v5/trade/cancel-orders'' (inst_params account) s)"
    unfolding ok_cancel_all_def by (intro silent_bind) (simp add: silent_seq)
  ultimately show ?thesis using okx_post_authentic [OF assms] by (simp add: slash_def)
qed

definition counting :: "http_response \<Rightarrow> http_request \<Rightarrow> nat \<Rightarrow> http_outcome \<times> nat" where
  "counting r q n = (Response r, Suc n)"

theorem okx_orders_authentic_witness:
  defines "send \<equiv> counting \<lparr>rs_status = 200, rs_body = Some (JObj [])\<rparr>"
  shows "only_sends (ok_authentic (sample_library send) ''https://api'' ''secret'') (sample_http send) (sample_client send 0)
    (snd (ok_place_order (sample_library send) ''btc'' ''Buy'' ''limit'' 1 (Some 100) [] (sample_client send 0)))"
  using okx_orders_authentic [of "sample_client send 0" "sample_http send" "sample_library send" "''btc''" "''Buy''" "''limit''"
    1 "Some 100" "[]" "[]" None] by simp

text \<open>The text that Bybit requests are signed over has the keys in order; the body has them as they were written.\<close>

lemma by_params_sorted:
  "\<exists>k v rest. k \<in> set [''orderType'', ''orderLinkId''] \<and>
    sorted_items (by_order_params symbol side order_type quantity price kwargs) = (''category'', JStr ''spot'') # (k, v) # rest"
  by (cases price; cases "dget kwargs ''client_order_id''")
    (simp_all add: sorted_items_def by_order_params_def less_eq_char_def less_char_def)

lemma dumps_second:
  "\<exists>r. json_dumps lib (JObj ((j, w) # (k, v) # rest)) =
    ''{'' @ json_string j @ '':'' @ json_dumps lib w @ '','' @ json_string k @ r"
proof -
  have "\<exists>ys. join '','' (y # zs) = y @ ys" for y :: string and zs by (cases zs) auto
  then obtain ys where "join '','' ((json_string k @ '':'' @ json_dumps lib v) #
      map (\<lambda>(k, v). json_string k @ '':'' @ json_dumps lib v) rest) = (json_string k @ '':'' @ json_dumps lib v) @ ys"
    by blast
  then show ?thesis by (intro exI [of _ "'':'' @ json_dumps lib v @ ys @ ''}''"]) simp
qed

lemma signed_text_differs:
  "json_dumps lib (JObj (sorted_items (by_order_params symbol side order_type quantity price kwargs))) \<noteq>
    json_dumps lib (JObj (by_order_params symbol side order_type quantity price kwargs))"
proof -
  obtain k v rest where k: "k \<in> set [''orderType'', ''orderLinkId'']"
    and s: "sorted_items (by_order_params symbol side order_type quantity price kwargs) =
      (''category'', JStr ''spot'') # (k, v) # rest"
    using by_params_sorted by blast
  obtain v' rest' where b: "by_order_params symbol side order_type quantity price kwargs =
      (''category'', JStr ''spot'') # (''symbol'', v') # rest'"
    by (simp add: by_order_params_def)
  show ?thesis unfolding s unfolding b
    using k dumps_second [of lib "''category''" "JStr ''spot''" k v rest]
      dumps_second [of lib "''category''" "JStr ''spot''" "''symbol''" v' rest']
    by (auto simp: json_string_def json_char_def quote_mark_def simp del: json_dumps.simps)
qed

text \<open>How Bybit refuses a request: with status 200, a code, and an empty result.\<close>

definition by_refusal :: http_response where
  "by_refusal = \<lparr>rs_status = 200, rs_body = Some (JObj [(''retCode'', JInt 10004), (''retMsg'', JStr ''error sign!''),
     (''result'', JObj [])])\<rparr>"

text \<open>
  C35. No order ever reaches Bybit, and the caller is told it is open. The client signs the order with its
  fields in alphabetical order and sends it with its fields as they were written, so a server that
  verifies what it receives refuses every order; it refuses with status 200 and an error code, which
  the client does not look at. When no two texts have the same signature, placing an order leaves the
  exchange as it was and returns an order without an exchange id, whose status is open and whose
  error message is missing.
\<close>

theorem bybit_orders_refused:
  assumes "ea_http s = Some c" and "ea_api_key s \<noteq> []" and "flowing_bucket s"
    and unique: "inj (lb_hmac_hex lib (ea_api_secret s))"
    and verified: "\<And>q x. \<not> by_authentic lib (ea_api_secret s) q \<Longrightarrow> hc_send c q x = (Response by_refusal, x)"
  shows "\<exists>r t. by_place_order lib symbol side order_type quantity price kwargs s = (Ok r, t) \<and> exch t = exch s \<and>
    r_status r = ''open'' \<and> r_exchange_order_id r = [] \<and> r_error_message r = None"
proof -
  let ?ps = "by_order_params symbol side order_type quantity price kwargs"
  let ?ts = "show_int (millis (clock s))"
  let ?hs = "by_headers s (by_sign lib s ?ts (json_dumps lib (JObj (sorted_items ?ps)))) ?ts @ [(''Content-Type'', ''application/json'')]"
  let ?q = "\<lparr>rq_method = py_upper ''POST'', rq_url = http_url c ''/v5/order/create'', rq_params = [], rq_headers = ?hs,
      rq_content = JsonBody (JObj ?ps)\<rparr>"
  have "\<not> by_authentic lib (ea_api_secret s) ?q"
    using signed_text_differs [of lib symbol side order_type quantity price kwargs]
    by (auto simp: by_authentic_def by_headers_def by_sign_def simp del: json_dumps.simps dest: injD [OF unique])
  from verified [OF this] have "hc_send c ?q (exch s) = (Response by_refusal, exch s)" .
  from answered_at_once [OF assms(3) this _ refl] obtain t where
    t: "perform_request c ''POST'' ''/v5/order/create'' ''default'' 1 [] ?hs (JsonBody (JObj ?ps)) s = (Ok by_refusal, t)"
      "exch t = exch s" by (auto simp: by_refusal_def)
  have "by_signed_post lib ''/v5/order/create'' ?ps s = (Ok by_refusal, t)"
    using assms(1,2) t(1)
    by (simp add: by_signed_post_def ensure_authenticated_def with_http_def http_post_def Let_def py_simps
        by_raise_for_status_def by_refusal_def del: json_dumps.simps)
  then show ?thesis using t(2)
    by (simp add: by_place_order_def by_json_def parse_json_def by_raise_for_status_def by_refusal_def by_placed_result_def
        by_result_def item_or_def get_str_def py_str_def py_simps)
qed

text \<open>A server that counts the orders it can verify.\<close>

definition verifying :: "http_request \<Rightarrow> nat \<Rightarrow> http_outcome \<times> nat" where
  "verifying q n = (if by_authentic (sample_library (\<lambda>_ n. (Response by_refusal, n :: nat))) ''secret'' q
     then (Response \<lparr>rs_status = 200, rs_body = Some (JObj [])\<rparr>, Suc n) else (Response by_refusal, n))"

theorem bybit_orders_refused_witness:
  "\<exists>r t. by_place_order (sample_library (\<lambda>_ n. (Response by_refusal, n))) ''btc'' ''buy'' ''limit'' 1 (Some 100) []
      (sample_client verifying 0) = (Ok r, t) \<and> exch t = 0 \<and> r_status r = ''open'' \<and> r_exchange_order_id r = []"
proof -
  have "inj (lb_hmac_hex (sample_library (\<lambda>_ n. (Response by_refusal, n :: nat))) (ea_api_secret (sample_client verifying 0)))"
    by (simp add: sample_library_def inj_def)
  from bybit_orders_refused [OF _ _ sample_flows this, of "sample_http verifying" "''btc''" "''buy''" "''limit''" 1 "Some 100" "[]"]
  show ?thesis by (auto simp: verifying_def)
qed

section \<open>Answers that are not looked at\<close>

text \<open>What a POST of OKX comes to when the answer comes at once.\<close>

lemma okx_post_answered:
  assumes "ea_http s = Some c" and "ea_api_key s \<noteq> []" and "flowing_bucket s"
    and answer: "\<And>q. fst (hc_send c q (exch s)) = Response r" and "rs_status r < 400"
  obtains t where "ok_signed_post lib path ps s = (Ok r, t)"
proof -
  let ?body = "json_dumps lib (JObj ps)" and ?ts = "lb_iso_time lib (clock s)"
  let ?hs = "ok_headers s (ok_sign lib s ?ts ''POST'' path ?body) ?ts"
  let ?q = "\<lparr>rq_method = py_upper ''POST'', rq_url = http_url c path, rq_params = [], rq_headers = ?hs,
      rq_content = TextBody ?body\<rparr>"
  have send: "hc_send c ?q (exch s) = (Response r, snd (hc_send c ?q (exch s)))"
    using answer [of ?q] by (metis prod.collapse)
  have "rs_status r < 500" using assms(5) by simp
  from answered_at_once [OF assms(3) send this refl] obtain t where
    "perform_request c ''POST'' path ''default'' 1 [] ?hs (TextBody ?body) s = (Ok r, t)" by blast
  then have "ok_signed_post lib path ps s = (Ok r, t)"
    using assms(1,2,5)
    by (simp add: ok_signed_post_def ensure_authenticated_def with_http_def http_post_def Let_def py_simps
        ok_raise_for_status_def del: json_dumps.simps)
  then show ?thesis by (rule that)
qed

text \<open>
  C36. A refusal of OKX is reported as success. OKX answers a refused order or cancellation with status 200,
  an error code and a message; the client looks at neither code: the refused order comes back open, with
  an empty exchange id and the message as its error message, and the order whose cancellation was
  refused comes back cancelled.
\<close>

theorem okx_refusals_reported_as_success:
  assumes "ea_http s = Some c" and "ea_api_key s \<noteq> []" and "flowing_bucket s"
    and "\<And>q. fst (hc_send c q (exch s)) = Response \<lparr>rs_status = 200, rs_body = Some (JObj [(''code'', JStr ''1''),
      (''data'', JList [JObj [(''clOrdId'', JStr own), (''ordId'', JStr []), (''sCode'', JStr code), (''sMsg'', JStr msg)]])])\<rparr>"
  shows "\<exists>r r' t t'. ok_place_order lib symbol side order_type quantity price kwargs s = (Ok r, t) \<and>
    r_status r = ''open'' \<and> r_exchange_order_id r = [] \<and> r_error_message r = Some (Exn ExchangeError [msg]) \<and>
    ok_cancel_order lib symbol i s = (Ok r', t') \<and> r_status r' = ''cancelled'' \<and> r_error_message r' = None"
proof -
  let ?r = "\<lparr>rs_status = 200, rs_body = Some (JObj [(''code'', JStr ''1''),
      (''data'', JList [JObj [(''clOrdId'', JStr own), (''ordId'', JStr []), (''sCode'', JStr code), (''sMsg'', JStr msg)]])])\<rparr>"
  note answered = okx_post_answered [OF assms(1-3), of ?r lib, OF assms(4)]
  obtain t where t: "ok_signed_post lib ''/api/v5/trade/order''
      (ok_order_params symbol side order_type quantity price kwargs) s = (Ok ?r, t)"
    by (rule answered) simp_all
  obtain t' where t': "ok_signed_post lib ''/api/v5/trade/cancel-order'' (ok_order_key symbol i) s = (Ok ?r, t')"
    by (rule answered) simp_all
  show ?thesis
    by (simp add: ok_place_order_def ok_cancel_order_def seq_def bind_def [of "ok_signed_post _ _ _"] t t')
      (simp add: ok_json_def parse_json_def ok_raise_for_status_def ok_placed_result_def item_or_def json_truthy_def
        nth_item_def get_str_def py_str_def error_message_def as_str_option_def cancel_report_def py_simps)
qed

theorem okx_refusals_reported_as_success_witness:
  defines "send \<equiv> counting \<lparr>rs_status = 200, rs_body = Some (JObj [(''code'', JStr ''1''),
      (''data'', JList [JObj [(''clOrdId'', JStr ''o1''), (''ordId'', JStr []), (''sCode'', JStr ''51008''),
        (''sMsg'', JStr ''Insufficient balance'')]])])\<rparr>"
  shows "\<exists>r r' t t'. ok_place_order (sample_library send) ''btc'' ''buy'' ''limit'' 1 (Some 100) [] (sample_client send 0) = (Ok r, t) \<and>
    r_status r = ''open'' \<and> r_exchange_order_id r = [] \<and>
    ok_cancel_order (sample_library send) ''btc'' ''7'' (sample_client send 0) = (Ok r', t') \<and> r_status r' = ''cancelled''"
  using okx_refusals_reported_as_success [of "sample_client send 0" "sample_http send" "''o1''" "''51008''" "''Insufficient balance''"
    "sample_library send" "''btc''" "''buy''" "''limit''" 1 "Some 100" "[]" "''7''"] sample_flows [of send 0]
  by (auto simp: send_def counting_def)

section \<open>Answers that are lost\<close>

lemma told_replicate: "told c (replicate k q) x = sent_so_far c q k x"
  by (induction k arbitrary: x) (simp_all add: sent_so_far_Suc, simp add: sent_so_far_def)

text \<open>
  C37. An order whose answer is lost is placed again. When OKX gets an order and every answer times out, the
  very same order, with the same signature, is sent three times in all, although the caller is told
  that it timed out: nothing but the client order id, which is optional, keeps it from being placed thrice.
\<close>

theorem lost_answers_repeat_orders:
  assumes "ea_http s = Some c" and "ea_api_key s \<noteq> []" and "flowing_bucket s" and "hc_policy c = client_policy"
    and lost: "\<And>q x. fst (hc_send c q x) = Failed TimeoutException"
  shows "\<exists>q t. ok_place_order lib symbol side order_type quantity price kwargs s = (Raise timed_out, t) \<and>
    exch t = told c [q, q, q] (exch s) \<and>
    rq_content q = TextBody (json_dumps lib (JObj (ok_order_params symbol side order_type quantity price kwargs)))"
proof -
  let ?ps = "ok_order_params symbol side order_type quantity price kwargs" and ?path = "''/api/v5/trade/order''"
  let ?body = "json_dumps lib (JObj ?ps)" and ?ts = "lb_iso_time lib (clock s)"
  let ?hs = "ok_headers s (ok_sign lib s ?ts ''POST'' ?path ?body) ?ts"
  let ?q = "\<lparr>rq_method = py_upper ''POST'', rq_url = http_url c ?path, rq_params = [], rq_headers = ?hs,
      rq_content = TextBody ?body\<rparr>"
  obtain u where u: "exch u = exch s"
    "perform_request c ''POST'' ?path ''default'' 1 [] ?hs (TextBody ?body) s = http_loop 3 1 c ?q u"
    by (rule limited_request [OF assms(3), of c "''POST''" ?path "[]" ?hs "TextBody ?body"])
      (simp add: assms(4) client_policy_def default_policy_def)
  have p: "rp_max_retries (hc_policy c) = 3" "rp_retryable (hc_policy c) f" for f
    by (simp_all add: assms(4) client_policy_def default_policy_def)
  have rep: "repeatable (hc_policy c) (outcome_at c ?q k x)" for k x
    by (simp add: outcome_at_def lost repeatable_def p)
  obtain n where "(0 < n \<longrightarrow> 1 + int n \<le> 3) \<and> fst (http_loop 3 1 c ?q u) = answer_of c (outcome_at c ?q n (exch u)) \<and>
      exch (snd (http_loop 3 1 c ?q u)) = sent_so_far c ?q (Suc n) (exch u) \<and> 3 \<le> 1 + int n"
    using http_loop_attempts [of c 1 3 ?q u] rep by (auto simp: p)
  moreover from this have "n = 2" by (cases n) auto
  ultimately have run: "fst (http_loop 3 1 c ?q u) = Raise timed_out" "exch (snd (http_loop 3 1 c ?q u)) = told c [?q, ?q, ?q] (exch s)"
    using told_replicate [of c 3 ?q "exch s"] by (simp_all add: answer_of_def outcome_at_def lost u(1) numeral_3_eq_3)
  from run(1) obtain t where l: "http_loop 3 1 c ?q u = (Raise timed_out, t)" by (metis prod.collapse)
  then have "ok_signed_post lib ?path ?ps s = (Raise timed_out, t)"
    using assms(1,2) u(2)
    by (simp add: ok_signed_post_def ensure_authenticated_def with_http_def http_post_def Let_def py_simps
        del: json_dumps.simps)
  then show ?thesis using run(2) l
    by (intro exI [of _ ?q]) (simp add: ok_place_order_def py_simps del: json_dumps.simps)
qed

text \<open>A server that does what it is told and never answers.\<close>

definition silent :: "http_request \<Rightarrow> nat \<Rightarrow> http_outcome \<times> nat" where
  "silent q n = (Failed TimeoutException, Suc n)"

theorem lost_answers_repeat_orders_witness:
  "\<exists>t. ok_place_order (sample_library silent) ''btc'' ''buy'' ''limit'' 1 (Some 100) [] (sample_client silent 0) = (Raise timed_out, t) \<and>
    exch t = 3"
  using lost_answers_repeat_orders [of "sample_client silent 0" "sample_http silent" "sample_library silent"
    "''btc''" "''buy''" "''limit''" 1 "Some 100" "[]"] sample_flows [of silent 0]
  by (auto simp: silent_def)

section \<open>Open orders of Hyperliquid\<close>

lemma info_answered:
  assumes "ea_http s = Some c" and "flowing_bucket s"
    and answer: "\<And>q. fst (hc_send c q (exch s)) = Response \<lparr>rs_status = 200, rs_body = Some j\<rparr>"
  obtains t where "hl_user_info lib kind s = (Ok (as_object j), t)"
proof -
  let ?body = "[(''type'', JStr kind), (''user'', JStr (ea_wallet s))]"
  let ?q = "\<lparr>rq_method = py_upper ''POST'', rq_url = http_url c ''/info'', rq_params = [], rq_headers = [],
      rq_content = JsonBody (JObj ?body)\<rparr>"
  have "hc_send c ?q (exch s) = (Response \<lparr>rs_status = 200, rs_body = Some j\<rparr>, snd (hc_send c ?q (exch s)))"
    using answer [of ?q] by (metis prod.collapse)
  from answered_at_once [OF assms(2) this _ refl] obtain t where
    "perform_request c ''POST'' ''/info'' ''default'' 1 [] [] (JsonBody (JObj ?body)) s =
      (Ok \<lparr>rs_status = 200, rs_body = Some j\<rparr>, t)" by auto
  then have "hl_user_info lib kind s = (Ok (as_object j), t)"
    using assms(1)
    by (simp add: hl_user_info_def hl_post_info_def with_http_def http_post_def parse_json_def hl_raise_for_status_def py_simps)
  then show ?thesis by (rule that)
qed

text \<open>
  Open orders of Hyperliquid can never be read. The answer is a list; the client wraps it in an object
  and then walks over the keys of that object as if they were the orders. So reading the open
  orders, reading one order and cancelling all of them raise an attribute error for every
  answer, with orders in it or none.
\<close>

theorem hyperliquid_open_orders_raise:
  assumes "ea_http s = Some c" and "flowing_bucket s"
    and "\<And>q. fst (hc_send c q (exch s)) = Response \<lparr>rs_status = 200, rs_body = Some (JList orders)\<rparr>"
  shows "fst (hl_get_open_orders lib symbol s) = Raise (Exn PyAttributeError []) \<and>
    fst (hl_cancel_all lib symbol s) = Raise (Exn PyAttributeError []) \<and>
    fst (hl_get_order lib coin i s) = Raise (Exn PyAttributeError [])"
proof -
  obtain t where "hl_user_info lib ''openOrders'' s = (Ok (JObj [(''data'', JList orders)]), t)"
    by (rule info_answered [OF assms, of lib "''openOrders''"]) (simp add: as_object_def)
  then have "hl_get_open_orders lib symbol s = (Raise (Exn PyAttributeError []), t)" for symbol
    by (simp add: hl_get_open_orders_def json_truthy_def elements_def hl_open_order_def item_or_def concat_res_def py_simps)
  then show ?thesis by (simp add: hl_cancel_all_def hl_get_order_def bind_def)
qed

theorem hyperliquid_open_orders_raise_witness:
  defines "send \<equiv> counting \<lparr>rs_status = 200, rs_body = Some (JList [])\<rparr>"
  shows "fst (hl_cancel_all (sample_library send) None (sample_client send 0)) = Raise (Exn PyAttributeError [])"
  using hyperliquid_open_orders_raise [of "sample_client send 0" "sample_http send" "[]" "sample_library send" None "[]" "[]"]
    sample_flows [of send 0]
  by (simp add: send_def counting_def)

section \<open>The clock of Binance\<close>

text \<open>The signed request that a state sends: a POST carries its parameters as the body, the others in the address.\<close>

definition bn_request :: "'x library \<Rightarrow> 'x http_client \<Rightarrow> ('x, 'cb, 'm) exchange_client_scheme \<Rightarrow> signed_method \<Rightarrow>
    string \<Rightarrow> (string, json) dict \<Rightarrow> http_request" where
  "bn_request lib c s mth path ps =
    (let us = bn_unsigned s ps;
         signed = dput ''signature'' (JStr (lb_hmac_hex lib (ea_api_secret s) (urlencode lib (sorted_items us)))) us
     in case mth of
       SignedPost \<Rightarrow> \<lparr>rq_method = ''POST'', rq_url = http_url c path, rq_params = [],
         rq_headers = bn_headers s @ [(''Content-Type'', ''application/x-www-form-urlencoded'')],
         rq_content = TextBody (urlencode lib (sorted_items signed))\<rparr>
     | _ \<Rightarrow> \<lparr>rq_method = (if mth = SignedGet then ''GET'' else ''DELETE''), rq_url = http_url c path,
         rq_params = signed, rq_headers = bn_headers s, rq_content = NoContent\<rparr>)"

lemma own_fields:
  fixes s t :: "('x, 'cb, 'm) exchange_client_scheme"
  assumes "own_state t = own_state s"
  shows "clock t = clock s" "ea_http t = ea_http s" "ea_api_key t = ea_api_key s" "ea_api_secret t = ea_api_secret s"
    "ea_recv_window t = ea_recv_window s" "ea_time_offset t = ea_time_offset s"
  using assms by (cases s; cases t; simp add: own_state_def)+

lemma method_names: "py_upper ''GET'' = ''GET''" "py_upper ''POST'' = ''POST''" "py_upper ''DELETE'' = ''DELETE''"
  by (simp_all add: py_upper_def char_upper_def)

lemma binance_answered:
  fixes s :: "('x, 'cb, 'm) exchange_client_scheme"
  assumes "ea_http s = Some c" and "ea_api_key s \<noteq> []" and "flowing_bucket s"
    and "hc_send c (bn_request lib c s mth path ps) (exch s) = (Response r, x)" and "rs_status r < 500"
  obtains t where "bn_attempt lib mth path ps s =
      ((case bn_raise_for_status lib r of Ok _ \<Rightarrow> Ok r | Raise e \<Rightarrow> Raise e), t)"
    "exch t = x" "own_state t = own_state s" "flowing_bucket t"
proof -
  let ?q = "bn_request lib c s mth path ps"
  let ?name = "case mth of SignedGet \<Rightarrow> ''GET'' | SignedPost \<Rightarrow> ''POST'' | SignedDelete \<Rightarrow> ''DELETE''"
  have "?q = \<lparr>rq_method = py_upper ?name, rq_url = http_url c path, rq_params = rq_params ?q, rq_headers = rq_headers ?q,
      rq_content = rq_content ?q\<rparr>"
    by (simp add: bn_request_def Let_def method_names split: signed_method.split)
  from answered_at_once [OF assms(3-5) this] obtain t where
    t: "perform_request c ?name path ''default'' 1 (rq_params ?q) (rq_headers ?q) (rq_content ?q) s = (Ok r, t)"
      "exch t = x" "own_state t = own_state s" "flowing_bucket t" by blast
  have "bn_send_signed lib mth path ps s = (Ok r, t)" using t(1) assms(1,2)
    by (cases mth) (simp_all add: bn_send_signed_def bn_signed_params_def ensure_authenticated_def with_http_def http_get_def
        http_post_def http_delete_def bn_request_def Let_def py_simps)
  with t(2-4) show ?thesis
    by (intro that [of t]) (simp_all add: bn_attempt_def py_simps split: res.splits)
qed

lemma binance_time_answered:
  fixes s :: "('x, 'cb, 'm) exchange_client_scheme"
  assumes "ea_http s = Some c" and "flowing_bucket s"
    and "hc_send c \<lparr>rq_method = ''GET'', rq_url = http_url c ''/api/v3/time'', rq_params = [], rq_headers = [],
        rq_content = NoContent\<rparr> (exch s) = (Response \<lparr>rs_status = 200, rs_body = Some (JObj d)\<rparr>, x)"
    and "dget d ''serverTime'' = Some (JInt T)"
  obtains t where "bn_sync_time lib s = (Ok True, t\<lparr>ea_time_offset := T - millis (clock s)\<rparr>)"
    "exch t = x" "own_state t = own_state s" "flowing_bucket t"
proof -
  from answered_at_once [OF assms(2,3), of "''GET''" "''/api/v3/time''" "[]" "[]" NoContent] obtain t where
    t: "perform_request c ''GET'' ''/api/v3/time'' ''default'' 1 [] [] NoContent s =
        (Ok \<lparr>rs_status = 200, rs_body = Some (JObj d)\<rparr>, t)"
      "exch t = x" "own_state t = own_state s" "flowing_bucket t" by (auto simp: method_names)
  have "bn_sync_time lib s = (Ok True, t\<lparr>ea_time_offset := T - millis (clock s)\<rparr>)"
    using t(1) assms(1,4) own_fields(1) [OF t(3)]
    by (simp add: bn_sync_time_def with_http_def http_get_def bn_raise_for_status_def item_def as_int_def now_def py_simps)
  then show ?thesis using t(2-4) by (rule that)
qed

text \<open>
  C38. A drifting clock is corrected once. When Binance refuses a signed request, a GET, a POST or a
  DELETE, for its timestamp and then tells its time, the client measures the offset between that time and
  its own clock and sends the request once more, built and signed again with the new offset; what is
  answered to that is the answer, and there is no third attempt. The offset stays: from then on the client
  stamps a request with the time it was told, moved on by what its own clock has moved since it was read.
  (The model reads the clock as it was when the request began: it stands still while requests run, so the
  time on the way is not part of the statement.)
\<close>

theorem binance_clock_followed:
  fixes s :: "('x, 'cb, 'm) exchange_client_scheme" and T :: int and path :: string and ps :: "(string, json) dict"
    and mth :: signed_method
  assumes "ea_http s = Some c" and "ea_api_key s \<noteq> []" and "flowing_bucket s"
    and first: "hc_send c (bn_request lib c s mth path ps) (exch s) = (Response r1, x1)" "rs_status r1 < 500"
      "bn_raise_for_status lib r1 = Raise drift_error"
    and told_time: "hc_send c \<lparr>rq_method = ''GET'', rq_url = http_url c ''/api/v3/time'', rq_params = [], rq_headers = [],
        rq_content = NoContent\<rparr> x1 = (Response \<lparr>rs_status = 200, rs_body = Some (JObj d)\<rparr>, x2)"
      "dget d ''serverTime'' = Some (JInt T)"
    and second: "hc_send c (bn_request lib c (s\<lparr>ea_time_offset := T - millis (clock s)\<rparr>) mth path ps) x2 = (Response r2, x3)"
      "rs_status r2 < 500"
  shows "\<exists>u. bn_signed_request lib mth path ps s =
      ((case bn_raise_for_status lib r2 of Ok _ \<Rightarrow> Ok r2 | Raise e \<Rightarrow> Raise e), u) \<and>
    exch u = x3 \<and> (\<forall>t. bn_timestamp (u\<lparr>clock := t\<rparr>) = T + (millis t - millis (clock s)))"
proof -
  obtain t1 where t1: "bn_attempt lib mth path ps s = (Raise drift_error, t1)" "exch t1 = x1"
    "own_state t1 = own_state s" "flowing_bucket t1"
    by (rule binance_answered [OF assms(1-3) first(1,2)]) (simp add: first(3))
  obtain t2 where t2: "bn_sync_time lib t1 = (Ok True, t2\<lparr>ea_time_offset := T - millis (clock t1)\<rparr>)" "exch t2 = x2"
    "own_state t2 = own_state t1" "flowing_bucket t2"
    by (rule binance_time_answered [of t1 c d x2 T lib]) (use t1 told_time assms(1) own_fields [OF t1(3)] in simp_all)
  let ?s2 = "t2\<lparr>ea_time_offset := T - millis (clock t1)\<rparr>"
  note same = own_fields [OF t1(3)] own_fields [OF t2(3)]
  have q: "bn_request lib c ?s2 mth path ps = bn_request lib c (s\<lparr>ea_time_offset := T - millis (clock s)\<rparr>) mth path ps"
    by (cases mth)
      (simp_all add: bn_request_def bn_unsigned_def bn_timestamp_def bn_headers_def same cong: option.case_cong)
  obtain t3 where t3: "bn_attempt lib mth path ps ?s2 =
      ((case bn_raise_for_status lib r2 of Ok _ \<Rightarrow> Ok r2 | Raise e \<Rightarrow> Raise e), t3)" "exch t3 = x3" "own_state t3 = own_state ?s2"
    by (rule binance_answered [of ?s2 c lib mth path ps r2 x3])
      (use t2(2,4) second same assms(1,2) q in \<open>simp_all add: flowing_bucket_def bucket_ok_def last_refill_def cong: option.case_cong\<close>)
  have "bn_signed_request lib mth path ps s = bn_attempt lib mth path ps ?s2"
    by (simp add: bn_signed_request_def try_catch_def t1(1) t2(1) drift_error_def isinstance_def py_simps)
  moreover have "bn_timestamp (t3\<lparr>clock := t\<rparr>) = T + (millis t - millis (clock s))" for t
    using own_fields(6) [OF t3(3)] same by (simp add: bn_timestamp_def)
  ultimately show ?thesis using t3(1,2) by simp
qed

text \<open>A server that refuses the first request for its timestamp, then tells its time, then answers.\<close>

definition timed :: "http_request \<Rightarrow> nat \<Rightarrow> http_outcome \<times> nat" where
  "timed q n = (Response (if n = 0 then \<lparr>rs_status = 400, rs_body = Some (JObj [(''code'', JInt (-1021))])\<rparr>
     else if n = 1 then \<lparr>rs_status = 200, rs_body = Some (JObj [(''serverTime'', JInt 5000)])\<rparr>
     else \<lparr>rs_status = 200, rs_body = Some JNull\<rparr>), Suc n)"

theorem binance_clock_followed_witness:
  "fst (bn_signed_request (sample_library timed) SignedPost ''/api/v3/order'' [] (sample_client timed 0)) =
      Ok \<lparr>rs_status = 200, rs_body = Some JNull\<rparr> \<and>
    exch (snd (bn_signed_request (sample_library timed) SignedPost ''/api/v3/order'' [] (sample_client timed 0))) = 3"
  using binance_clock_followed [of "sample_client timed 0" "sample_http timed" "sample_library timed" SignedPost "''/api/v3/order''" "[]"
      "\<lparr>rs_status = 400, rs_body = Some (JObj [(''code'', JInt (-1021))])\<rparr>" 1 "[(''serverTime'', JInt 5000)]" 2 5000
      "\<lparr>rs_status = 200, rs_body = Some JNull\<rparr>" 3] sample_flows [of timed 0]
  by (auto simp: timed_def bn_raise_for_status_def error_body_def item_or_def json_is_def)

end
