(* ===== verification/StreamLaws.thy ===== *)
theory StreamLaws
  imports RequestLaws BybitAdapter
begin

text \<open>
  What the clients of OKX and Bybit remember of their streams: a subscription and its cancellation
  have different keys in the manager of the connection, so that no stream is ever forgotten.
\<close>

section \<open>Remembered messages\<close>

definition remembered :: "('x, 'm) streams_scheme \<Rightarrow> string \<Rightarrow> (json, json) dict" where
  "remembered s url = (case dget (ws_subscriptions (st_market s)) url of None \<Rightarrow> [] | Some d \<Rightarrow> d)"

definition only_subscriptions :: "('x, 'm) streams_scheme \<Rightarrow> bool" where
  "only_subscriptions s \<longleftrightarrow> (\<forall>url k v. dget (remembered s url) k = Some v \<longrightarrow> (\<exists>args. k = op_message ''subscribe'' args))"

definition remembers :: "('x, 'm) streams_scheme \<Rightarrow> ('x, 'm) streams_scheme \<Rightarrow> bool" where
  "remembers s t \<longleftrightarrow> (only_subscriptions s \<longrightarrow> only_subscriptions t \<and>
     (\<forall>url k v. dget (remembered s url) k = Some v \<longrightarrow> dget (remembered t url) k = Some v))"

interpretation memory: step_contract remembers
  by unfold_locales (auto simp: remembers_def)

definition market_subscriptions :: "('x, 'm) streams_scheme \<Rightarrow> (string, (json, json) dict) dict" where
  "market_subscriptions s = ws_subscriptions (st_market s)"

lemma remembers_same:
  assumes "market_subscriptions t = market_subscriptions s"
  shows "remembers s t"
proof -
  have r: "remembered t url = remembered s url" for url
    using assms unfolding remembered_def market_subscriptions_def by (rule arg_cong)
  show ?thesis unfolding remembers_def only_subscriptions_def r by blast
qed

lemma untouched_remembers: "obeys (same market_subscriptions) m \<Longrightarrow> obeys remembers m"
  unfolding obeys_def same_def by (blast intro: remembers_same)

section \<open>What leaves the subscriptions alone\<close>

lemma same_through: "obeys (same f) m \<Longrightarrow> (\<And>s t. f t = f s \<Longrightarrow> g t = g s) \<Longrightarrow> obeys (same g) m"
  unfolding obeys_def same_def by blast

lemma own_market:
  fixes s t :: "('x, 'm) streams_scheme"
  shows "own_state t = own_state s \<Longrightarrow> market_subscriptions t = market_subscriptions s"
  by (cases s; cases t) (simp add: own_state_def market_subscriptions_def)

lemma untouched_acquire: "obeys (same market_subscriptions) (acquire k e n)"
  unfolding acquire_def
  by (intro resp_intros same_through [OF own_acquire_loop own_market])

lemma untouched_nap: "obeys (same market_subscriptions) (nap d)"
  by (rule same_through [OF own_nap own_market])

lemma world_market:
  fixes s t :: "('x, 'm) streams_scheme"
  shows "world.more t = world.more s \<Longrightarrow> market_subscriptions t = market_subscriptions s"
  by (cases s; cases t) (simp add: market_subscriptions_def)

lemma untouched_call: "obeys (same market_subscriptions) (call_adapter f)"
  by (rule same_through [OF world_frames(4) world_market])

lemma untouched_send: "obeys (same market_subscriptions) (ws_send lib w message)"
  unfolding ws_send_def by (intro resp_intros untouched_call)

lemma untouched_on_ws:
  "(\<And>m. ws_subscriptions (f m) = ws_subscriptions m) \<Longrightarrow> obeys (same market_subscriptions) (modify (on_ws w f))"
  by (intro obeys_same_modify) (cases w; simp add: market_subscriptions_def)

lemma untouched_open: "obeys (same market_subscriptions) (ws_open lib w url)"
  unfolding ws_open_def
  by (intro resp_intros untouched_acquire untouched_call untouched_send untouched_on_ws) simp_all

lemma untouched_attempts: "obeys (same market_subscriptions) (ws_attempts k a lib w url)"
proof (induction k arbitrary: a)
  case (Suc k)
  then show ?case by (auto simp: Let_def intro!: resp_intros untouched_open untouched_nap)
qed (simp add: frame.ret)

lemma untouched_connect: "obeys (same market_subscriptions) (ws_connect lib w url)"
  unfolding ws_connect_def Let_def
  by (intro resp_intros untouched_attempts untouched_on_ws) simp_all

lemma untouched_callbacks:
  "obeys (same market_subscriptions) (put_callback channel y cb)" "obeys (same market_subscriptions) (drop_callback channel y)"
  by (auto simp: put_callback_def drop_callback_def market_subscriptions_def intro!: obeys_same_modify)

section \<open>Subscribing and unsubscribing\<close>

lemma op_message_key [simp]: "subscription_key (op_message op args) = Ok (op_message op args)"
  by (simp add: subscription_key_def op_message_def)

lemma op_message_eq: "op_message op args = op_message op' args' \<longleftrightarrow> op = op' \<and> args = args'"
  by (auto simp: op_message_def inj_map_eq_map inj_def)

lemma unsubscribe_word: "''unsubscribe'' \<noteq> ''subscribe''"
  by simp

lemma subscribe_remembers: "obeys remembers (ws_subscribe lib Market (op_message ''subscribe'' args))"
proof -
  have "remembers s (on_ws Market (\<lambda>m. m\<lparr>ws_subscriptions := dput (ws_url m) (remembered s (ws_url m)) (ws_subscriptions m)\<rparr>) s)"
    for s :: "('a, 'b) streams_scheme"
    by (auto simp: remembers_def only_subscriptions_def remembered_def split: option.splits)
  moreover have "remembers s (on_ws Market (\<lambda>m. m\<lparr>ws_subscriptions := dput (ws_url m)
        (dput (op_message ''subscribe'' args) (op_message ''subscribe'' args) (remembered s (ws_url m))) (ws_subscriptions m)\<rparr>) s)"
    if "dget (remembered s (ws_url (st_market s))) (op_message ''subscribe'' args) = None" for s :: "('a, 'b) streams_scheme"
    using that by (auto simp: remembers_def only_subscriptions_def remembered_def split: option.splits if_splits)
  moreover have "remembers s (snd (ws_send lib Market message t))"
    if "remembers s t" for s t :: "('a, 'b) streams_scheme" and message
    using that obeysD [OF untouched_remembers [OF untouched_send]] by (rule memory.R_trans)
  ultimately show ?thesis unfolding obeys_def ws_subscribe_def op_message_key
    by (simp add: bind_lift_res Let_def remembered_def [symmetric] py_simps)
qed

lemma unsubscribe_remembers: "obeys remembers (ws_unsubscribe lib Market (op_message ''unsubscribe'' args))"
proof -
  have "remembers s (on_ws Market (forget_subscription (op_message ''unsubscribe'' args)) s)" for s :: "('a, 'b) streams_scheme"
  proof (cases "only_subscriptions s")
    case True
    then have "dget (remembered s (ws_url (st_market s))) (op_message ''unsubscribe'' args) = None"
      unfolding only_subscriptions_def
      by (metis (no_types, lifting) op_message_eq[of "''unsubscribe''" args "''subscribe''"] not_None_eq unsubscribe_word)
    then have "forget_subscription (op_message ''unsubscribe'' args) (st_market s) = st_market s"
      by (auto simp: forget_subscription_def remembered_def split: option.splits)
    then show ?thesis by (simp add: memory.R_refl)
  qed (simp add: remembers_def)
  then show ?thesis unfolding ws_unsubscribe_def op_message_key bind_lift_res
    by (simp, intro memory.seq memory.modify untouched_remembers [OF untouched_send])
qed

lemma connect_remembers: "obeys remembers (connect_if_closed Market (reading (\<lambda>s. ws_connect lib Market (f s))))"
  unfolding connect_if_closed_def
  by (intro untouched_remembers resp_intros untouched_connect)

text \<open>What a client of OKX or of Bybit does to its market streams; every call may also raise.\<close>

inductive market_calls :: "('x, 'cb, 'm) exchange_client_scheme \<Rightarrow> ('x, 'cb, 'm) exchange_client_scheme \<Rightarrow> bool"
  for s :: "('x, 'cb, 'm) exchange_client_scheme"
where
  none: "market_calls s s"
| okx_subscribed: "market_calls s t \<Longrightarrow> market_calls s (snd (ok_subscribe_market lib symbols channel cb t))"
| okx_unsubscribed: "market_calls s t \<Longrightarrow> market_calls s (snd (ok_unsubscribe_market lib symbols channel t))"
| bybit_subscribed: "market_calls s t \<Longrightarrow> market_calls s (snd (by_subscribe_market lib symbols channel cb t))"
| bybit_unsubscribed: "market_calls s t \<Longrightarrow> market_calls s (snd (by_unsubscribe_market lib symbols channel t))"
| reopened: "market_calls s t \<Longrightarrow> market_calls s (snd (ws_closed streams_lib Market t))"

lemma reopen_remembers: "obeys remembers (ws_closed lib Market)"
  unfolding ws_closed_def Let_def
  by (intro untouched_remembers resp_intros untouched_connect untouched_on_ws) simp_all

lemma calls_remember: "market_calls s t \<Longrightarrow> remembers s t"
proof (induction rule: market_calls.induct)
  case none
  show ?case by (rule memory.R_refl)
next
  case (okx_subscribed t lib symbols channel cb)
  have "obeys remembers (ok_subscribe_market lib symbols channel cb)"
    unfolding ok_subscribe_market_def ok_connect_market_def
    by (intro memory.contract_rules connect_remembers subscribe_remembers untouched_remembers [OF untouched_callbacks(1)])
  from okx_subscribed.IH obeysD [OF this] show ?case by (rule memory.R_trans)
next
  case (okx_unsubscribed t lib symbols channel)
  have "obeys remembers (ok_unsubscribe_market lib symbols channel)"
    unfolding ok_unsubscribe_market_def
    by (intro memory.contract_rules unsubscribe_remembers untouched_remembers [OF untouched_callbacks(2)])
  from okx_unsubscribed.IH obeysD [OF this] show ?case by (rule memory.R_trans)
next
  case (bybit_subscribed t lib symbols channel cb)
  have "obeys remembers (by_subscribe_market lib symbols channel cb)"
    unfolding by_subscribe_market_def by_connect_market_def
    by (intro memory.contract_rules connect_remembers subscribe_remembers untouched_remembers [OF untouched_callbacks(1)])
  from bybit_subscribed.IH obeysD [OF this] show ?case by (rule memory.R_trans)
next
  case (bybit_unsubscribed t lib symbols channel)
  have "obeys remembers (by_unsubscribe_market lib symbols channel)"
    unfolding by_unsubscribe_market_def
    by (intro memory.contract_rules unsubscribe_remembers untouched_remembers [OF untouched_callbacks(2)])
  from bybit_unsubscribed.IH obeysD [OF this] show ?case by (rule memory.R_trans)
next
  case (reopened t streams_lib)
  from reopened.IH obeysD [OF reopen_remembers] show ?case by (rule memory.R_trans)
qed

text \<open>
  C39. No stream of OKX or Bybit is ever forgotten. Whatever a client subscribes to and unsubscribes from, and
  however often its connection is opened again, every subscription it once remembered for an address
  is remembered still, and is sent again each time the connection to that address opens:
  unsubscribing removes only a message of its own, which is never there.
\<close>

theorem unsubscribed_streams_return:
  assumes "market_calls s t" and "only_subscriptions s" and "dget (remembered s url) k = Some message"
  shows "dget (remembered t url) k = Some message \<and> 
    message \<in> set (subscribed_messages ((st_market t)\<lparr>ws_url := url\<rparr>))"
proof -
  have d: "dget (remembered t url) k = Some message"
    using calls_remember [OF assms(1)] assms(2,3) by (simp add: remembers_def)
  then have "message \<in> snd ` set (remembered t url)"
    by (metis image_eqI map_of_SomeD snd_conv)
  then show ?thesis using d by (auto simp: subscribed_messages_def remembered_def split: option.splits)
qed

theorem unsubscribed_streams_return_witness:
  defines "send \<equiv> (\<lambda>q n. (Failed TimeoutException, n :: nat))"
  shows "JNull \<in> set (subscribed_messages ((st_market (snd (ok_unsubscribe_market (sample_library send) [''btc''] ''ticker''
    (sample_client send 0))))\<lparr>ws_url := ''wss://x''\<rparr>))"
proof -
  let ?s = "sample_client send 0"
  have r: "remembered ?s url = (if url = ''wss://x'' then [(op_message ''subscribe'' [''tickers/BTC''], JNull)] else [])" for url
    by (simp add: remembered_def sample_client_def op_message_def)
  then have "only_subscriptions ?s" by (auto simp: only_subscriptions_def split: if_splits)
  moreover have "market_calls ?s (snd (ok_unsubscribe_market (sample_library send) [''btc''] ''ticker'' ?s))"
    by (rule okx_unsubscribed [OF none])
  ultimately show ?thesis
    using unsubscribed_streams_return [of ?s _ "''wss://x''" "op_message ''subscribe'' [''tickers/BTC'']" JNull] r by simp
qed

end
