(* ===== verification/EventChannels.thy ===== *)
theory EventChannels
  imports Persistence
begin

text \<open>
  \<^verbatim>\<open>events/redis_event_bus.py\<close>: events over the channels of Redis. Redis is a parameter; of the text of
  a message the JSON value is kept. A request is two steps, sending it and the end of its waiting;
  the listener is the events that reach it: its start, a message, an error. The thread pool runs a
  plain function at once; calling a coroutine function there makes a coroutine that nobody awaits.
\<close>

section \<open>State\<close>

text \<open>\<open>Responder\<close> is the coroutine function \<^verbatim>\<open>request_handler\<close> that \<^verbatim>\<open>respond\<close> makes.\<close>

datatype 'h bus_handler = Plain 'h | Coroutine 'h | Responder 'h

record channel_event =
  ce_event_type :: json
  ce_event_id :: json
  ce_timestamp :: datetime
  ce_data :: json
  ce_metadata :: json

text \<open>
  \<open>ev_waiters\<close> are the requests that wait, \<open>ev_answers\<close> the results that their futures have been given.
\<close>

record ('x, 'h) event_channels = "'x world" +
  ev_redis :: bool
  ev_subscriptions :: "(string, 'h bus_handler) dict"
  ev_pubsub :: bool
  ev_listener :: bool
  ev_waiters :: "string list"
  ev_answers :: "(string, json) dict"
  ev_pool :: bool

type_synonym ('x, 'h, 'm, 'a) channels = "(('x, 'h, 'm) event_channels_scheme, 'a) py"

record ('x, 'h, 'm) redis_library =
  rl_publish :: "string \<Rightarrow> json \<Rightarrow> 'x \<Rightarrow> unit res \<times> 'x"
  rl_subscribe :: "string list \<Rightarrow> 'x \<Rightarrow> unit res \<times> 'x"
  rl_unsubscribe :: "string \<Rightarrow> 'x \<Rightarrow> unit res \<times> 'x"
  rl_ping :: "'x \<Rightarrow> bool res \<times> 'x"
  rl_close_pubsub :: "'x \<Rightarrow> unit res \<times> 'x"
  rl_close :: "'x \<Rightarrow> unit res \<times> 'x"
  rl_iso :: "datetime \<Rightarrow> string"
  rl_from_iso :: "string \<Rightarrow> datetime res"
  rl_id :: "'h bus_handler \<Rightarrow> int"
  rl_call :: "'h \<Rightarrow> channel_event \<Rightarrow> ('x, 'h, 'm, unit) channels"

definition event_error :: exn where
  "event_error = Exn OtherException [''EventError'']"

text \<open>\<^verbatim>\<open>except Exception as e: raise EventError(...)\<close>\<close>

definition or_event_error :: "('x, 'h, 'm, 'a) channels \<Rightarrow> ('x, 'h, 'm, 'a) channels" where
  "or_event_error m = try_catch m (\<lambda>_. throw event_error)"

section \<open>The listener\<close>

definition get_redis :: "('x, 'h, 'm, unit) channels" where
  "get_redis = modify (\<lambda>s. s\<lparr>ev_redis := True\<rparr>)"

definition ensure_listener :: "('x, 'h, 'm, unit) channels" where
  "ensure_listener = modify (\<lambda>s. s\<lparr>ev_listener := True\<rparr>)"

text \<open>The first steps of \<^verbatim>\<open>_listen_events\<close>, and what it does when it raises.\<close>

definition listener_starts :: "('x, 'h, 'm) redis_library \<Rightarrow> ('x, 'h, 'm, unit) channels" where
  "listener_starts lib = reading (\<lambda>s.
     if \<not> ev_listener s then ret ()
     else seq get_redis (seq (modify (\<lambda>s. s\<lparr>ev_pubsub := True\<rparr>))
       (if ev_subscriptions s = [] then ret ()
        else call_adapter (rl_subscribe lib (map fst (ev_subscriptions s))))))"

definition listener_fails :: "('x, 'h, 'm, unit) channels" where
  "listener_fails = seq (sleep 5) (seq (modify (\<lambda>s. s\<lparr>ev_listener := False\<rparr>)) ensure_listener)"

definition response_prefix :: string where
  "response_prefix = ''response:''"

definition parse_event :: "('x, 'h, 'm) redis_library \<Rightarrow> json \<Rightarrow> channel_event res" where
  "parse_event lib j =
     rbind (item_or j ''event_type'' JNull) (\<lambda>kind. rbind (item_or j ''event_id'' JNull) (\<lambda>i.
     rbind (rbind (rbind (item_or j ''timestamp'' JNull) as_str) (rl_from_iso lib)) (\<lambda>t.
     rbind (item_or j ''data'' (JObj [])) (\<lambda>d. rbind (item_or j ''metadata'' (JObj [])) (\<lambda>md.
       Ok \<lparr>ce_event_type = kind, ce_event_id = i, ce_timestamp = t, ce_data = d, ce_metadata = md\<rparr>)))))"

text \<open>
  \<^verbatim>\<open>run_in_executor\<close>: what the function raises is kept in a future nobody looks at, and what a pool
  that is shut down raises is caught by \<^verbatim>\<open>_handle_message\<close>.
\<close>

definition run_in_pool :: "('x, 'h, 'm) redis_library \<Rightarrow> 'h bus_handler \<Rightarrow> channel_event \<Rightarrow> ('x, 'h, 'm, unit) channels" where
  "run_in_pool lib h e = reading (\<lambda>s. if \<not> ev_pool s then ret () else (case h of
      Plain f \<Rightarrow> try_catch (rl_call lib f e) (\<lambda>_. ret ())
    | Coroutine _ \<Rightarrow> ret ()
    | Responder _ \<Rightarrow> ret ()))"

definition handle_message :: "('x, 'h, 'm) redis_library \<Rightarrow> string \<Rightarrow> json option \<Rightarrow> ('x, 'h, 'm, unit) channels" where
  "handle_message lib channel data = (case data of
      None \<Rightarrow> ret ()
    | Some j \<Rightarrow>
        if take (length response_prefix) channel = response_prefix
        then (let i = drop (length response_prefix) channel in
          modify (\<lambda>s. if i \<in> set (ev_waiters s)
            then s\<lparr>ev_waiters := removeAll i (ev_waiters s), ev_answers := dput i j (ev_answers s)\<rparr> else s))
        else reading (\<lambda>s. case dget (ev_subscriptions s) channel of
            None \<Rightarrow> ret ()
          | Some h \<Rightarrow> (case parse_event lib j of Raise _ \<Rightarrow> ret () | Ok e \<Rightarrow> run_in_pool lib h e)))"

section \<open>Publishing\<close>

definition event_json :: "('x, 'h, 'm) redis_library \<Rightarrow> uuid \<Rightarrow> datetime \<Rightarrow> string \<Rightarrow> json \<Rightarrow> json \<Rightarrow> json" where
  "event_json lib i t event_type data metadata = JObj [(''event_type'', JStr event_type), (''event_id'', JStr (str_uuid i)),
     (''timestamp'', JStr (rl_iso lib t)), (''data'', data), (''metadata'', metadata)]"

definition publish_on :: "('x, 'h, 'm) redis_library \<Rightarrow> string list \<Rightarrow> string \<Rightarrow> json \<Rightarrow> json \<Rightarrow> ('x, 'h, 'm, string) channels" where
  "publish_on lib chans event_type data metadata = or_event_error (seq get_redis (bind uuid4 (\<lambda>i. bind now (\<lambda>t.
     seq (for_each (\<lambda>c. call_adapter (rl_publish lib c (event_json lib i t event_type data metadata))) chans)
       (ret (str_uuid i))))))"

definition ev_publish :: "('x, 'h, 'm) redis_library \<Rightarrow> string \<Rightarrow> json \<Rightarrow> json \<Rightarrow> ('x, 'h, 'm, string) channels" where
  "ev_publish lib event_type data metadata = publish_on lib [''events'', ''event:'' @ event_type] event_type data
     (if json_truthy metadata then metadata else JObj [])"

definition publish_to_user :: "('x, 'h, 'm) redis_library \<Rightarrow> string \<Rightarrow> string \<Rightarrow> json \<Rightarrow> ('x, 'h, 'm, string) channels" where
  "publish_to_user lib user event_type data =
     publish_on lib [''user:'' @ user] event_type data (JObj [(''user_id'', JStr user)])"

definition publish_instance_event :: "('x, 'h, 'm) redis_library \<Rightarrow> string \<Rightarrow> string \<Rightarrow> json \<Rightarrow> ('x, 'h, 'm, string) channels" where
  "publish_instance_event lib i event_type data =
     publish_on lib [''instance:'' @ i] event_type data (JObj [(''instance_id'', JStr i)])"

definition publish_market_event :: "('x, 'h, 'm) redis_library \<Rightarrow> string \<Rightarrow> string \<Rightarrow> string \<Rightarrow> json \<Rightarrow>
    ('x, 'h, 'm, string) channels" where
  "publish_market_event lib symbol exchange event_type data =
     publish_on lib [''market:'' @ exchange @ '':'' @ symbol] event_type data
       (JObj [(''symbol'', JStr symbol), (''exchange'', JStr exchange)])"

definition publish_system_event :: "('x, 'h, 'm) redis_library \<Rightarrow> string \<Rightarrow> json \<Rightarrow> ('x, 'h, 'm, string) channels" where
  "publish_system_event lib event_type data = publish_on lib [''system''] event_type data (JObj [(''scope'', JStr ''system'')])"

section \<open>Subscribing\<close>

text \<open>A channel has one handler: the last one that subscribed.\<close>

definition ev_subscribe :: "('x, 'h, 'm) redis_library \<Rightarrow> string \<Rightarrow> 'h bus_handler \<Rightarrow> ('x, 'h, 'm, string) channels" where
  "ev_subscribe lib channel h = or_event_error (bind uuid4 (\<lambda>i.
     seq (modify (\<lambda>s. s\<lparr>ev_subscriptions := dput channel h (ev_subscriptions s)\<rparr>))
     (seq ensure_listener
     (seq (reading (\<lambda>s. if ev_pubsub s then call_adapter (rl_subscribe lib [channel]) else ret ()))
       (ret (str_uuid i))))))"

text \<open>\<^verbatim>\<open>id(handler) == subscription_id\<close> compares an integer with a string.\<close>

definition ev_unsubscribe :: "('x, 'h, 'm) redis_library \<Rightarrow> json \<Rightarrow> ('x, 'h, 'm, unit) channels" where
  "ev_unsubscribe lib subscription_id = or_event_error (reading (\<lambda>s.
     case find (\<lambda>(_, h). JInt (rl_id lib h) = subscription_id) (ev_subscriptions s) of
       None \<Rightarrow> ret ()
     | Some (channel, _) \<Rightarrow>
         if channel = [] then ret ()
         else seq (modify (\<lambda>s. s\<lparr>ev_subscriptions := ddel channel (ev_subscriptions s)\<rparr>))
           (if ev_pubsub s then call_adapter (rl_unsubscribe lib channel) else ret ())))"

definition respond :: "('x, 'h, 'm) redis_library \<Rightarrow> string \<Rightarrow> 'h \<Rightarrow> ('x, 'h, 'm, string) channels" where
  "respond lib channel f = or_event_error (bind uuid4 (\<lambda>i.
     seq (ev_subscribe lib (''request:'' @ channel) (Responder f)) (ret (str_uuid i))))"

definition create_event_stream :: "('x, 'h, 'm) redis_library \<Rightarrow> string list \<Rightarrow> 'h \<Rightarrow> ('x, 'h, 'm, string) channels" where
  "create_event_stream lib chans f = or_event_error (bind uuid4 (\<lambda>i.
     seq (for_each (\<lambda>c. bind (ev_subscribe lib c (Plain f)) (\<lambda>_. ret ())) chans) (ret (str_uuid i))))"

definition close_event_stream :: "string \<Rightarrow> ('x, 'h, 'm, unit) channels" where
  "close_event_stream i = ret ()"

section \<open>Requests\<close>

definition request_json :: "('x, 'h, 'm) redis_library \<Rightarrow> uuid \<Rightarrow> datetime \<Rightarrow> string \<Rightarrow> json \<Rightarrow> json" where
  "request_json lib i t channel data = JObj [(''request_id'', JStr (str_uuid i)), (''channel'', JStr channel),
     (''data'', data), (''timestamp'', JStr (rl_iso lib t))]"

definition begin_request :: "('x, 'h, 'm) redis_library \<Rightarrow> string \<Rightarrow> json \<Rightarrow> ('x, 'h, 'm, string) channels" where
  "begin_request lib channel data = or_event_error (seq get_redis (bind uuid4 (\<lambda>i.
     seq (modify (\<lambda>s. s\<lparr>ev_waiters := ev_waiters s @ [str_uuid i]\<rparr>))
     (seq ensure_listener
     (seq (reading (\<lambda>s. if ev_pubsub s then call_adapter (rl_subscribe lib [response_prefix @ str_uuid i]) else ret ()))
     (bind now (\<lambda>t.
     seq (call_adapter (rl_publish lib (''request:'' @ channel) (request_json lib i t channel data)))
       (ret (str_uuid i)))))))))"

text \<open>The end of the waiting: the answer, or the timeout, whose error is wrapped like every other.\<close>

definition end_request :: "string \<Rightarrow> ('x, 'h, 'm, json) channels" where
  "end_request i = or_event_error (reading (\<lambda>s. case dget (ev_answers s) i of
      Some j \<Rightarrow> ret j
    | None \<Rightarrow> seq (modify (\<lambda>s. s\<lparr>ev_waiters := removeAll i (ev_waiters s)\<rparr>)) (throw (Exn TimeoutError []))))"

section \<open>Queries and closing\<close>

definition get_event :: "string \<Rightarrow> ('x, 'h, 'm, channel_event option) channels" where
  "get_event i = ret None"

definition get_events :: "('x, 'h, 'm, channel_event list) channels" where
  "get_events = ret []"

definition ev_health_check :: "('x, 'h, 'm) redis_library \<Rightarrow> ('x, 'h, 'm, bool) channels" where
  "ev_health_check lib = try_catch (seq get_redis (call_adapter (rl_ping lib))) (\<lambda>_. ret False)"

definition ev_close :: "('x, 'h, 'm) redis_library \<Rightarrow> ('x, 'h, 'm, unit) channels" where
  "ev_close lib = try_catch
     (seq (modify (\<lambda>s. s\<lparr>ev_listener := False\<rparr>))
     (seq (reading (\<lambda>s. if ev_pubsub s
        then seq (call_adapter (rl_close_pubsub lib)) (modify (\<lambda>s. s\<lparr>ev_pubsub := False\<rparr>)) else ret ()))
     (seq (reading (\<lambda>s. if ev_redis s
        then seq (call_adapter (rl_close lib)) (modify (\<lambda>s. s\<lparr>ev_redis := False\<rparr>)) else ret ()))
       (modify (\<lambda>s. s\<lparr>ev_pool := False\<rparr>)))))
     (\<lambda>_. ret ())"

section \<open>Requests are never answered\<close>

text \<open>The channels on which something has been published, as Redis keeps them for those who listen.\<close>

definition only_own_channels :: "('x, 'h, 'm) redis_library \<Rightarrow> ('x \<Rightarrow> string set) \<Rightarrow> bool" where
  "only_own_channels lib published \<longleftrightarrow>
     (\<forall>c j x. published (snd (rl_publish lib c j x)) \<subseteq> insert c (published x)) \<and>
     (\<forall>cs x. published (snd (rl_subscribe lib cs x)) = published x) \<and>
     (\<forall>c x. published (snd (rl_unsubscribe lib c x)) = published x) \<and>
     (\<forall>x. published (snd (rl_ping lib x)) = published x) \<and>
     (\<forall>x. published (snd (rl_close_pubsub lib x)) = published x) \<and>
     (\<forall>x. published (snd (rl_close lib x)) = published x)"

definition is_response :: "string \<Rightarrow> bool" where
  "is_response c \<longleftrightarrow> take (length response_prefix) c = response_prefix"

definition unanswered :: "('x \<Rightarrow> string set) \<Rightarrow> ('x, 'h, 'm) event_channels_scheme \<Rightarrow> bool" where
  "unanswered published s \<longleftrightarrow> (\<forall>c \<in> published (exch s). \<not> is_response c) \<and> ev_answers s = []"

text \<open>
  Everything that happens to a bus: calls of its operations, what other programs publish (on
  channels that answer nothing, as they run the same code), and of what Redis delivers messages on
  channels where something was published.
\<close>

inductive bus_run :: "('x, 'h, 'm) redis_library \<Rightarrow> ('x \<Rightarrow> string set) \<Rightarrow> ('x, 'h, 'm) event_channels_scheme \<Rightarrow>
    ('x, 'h, 'm) event_channels_scheme \<Rightarrow> bool"
  for lib :: "('x, 'h, 'm) redis_library" and published :: "'x \<Rightarrow> string set" and s :: "('x, 'h, 'm) event_channels_scheme"
where
  idle: "bus_run lib published s s"
| elsewhere: "bus_run lib published s t \<Longrightarrow> published x \<subseteq> published (exch t) \<union> {c. \<not> is_response c} \<Longrightarrow>
    bus_run lib published s (t\<lparr>exch := x\<rparr>)"
| started: "bus_run lib published s t \<Longrightarrow> bus_run lib published s (snd (listener_starts lib t))"
| failed: "bus_run lib published s t \<Longrightarrow> bus_run lib published s (snd (listener_fails t))"
| received: "bus_run lib published s t \<Longrightarrow> c \<in> published (exch t) \<Longrightarrow>
    bus_run lib published s (snd (handle_message lib c message t))"
| announced: "bus_run lib published s t \<Longrightarrow> bus_run lib published s (snd (ev_publish lib event_type data metadata t))"
| told_user: "bus_run lib published s t \<Longrightarrow> bus_run lib published s (snd (publish_to_user lib user event_type data t))"
| told_instance: "bus_run lib published s t \<Longrightarrow>
    bus_run lib published s (snd (publish_instance_event lib i event_type data t))"
| told_market: "bus_run lib published s t \<Longrightarrow>
    bus_run lib published s (snd (publish_market_event lib symbol exchange event_type data t))"
| told_all: "bus_run lib published s t \<Longrightarrow> bus_run lib published s (snd (publish_system_event lib event_type data t))"
| subscribed: "bus_run lib published s t \<Longrightarrow> bus_run lib published s (snd (ev_subscribe lib c h t))"
| unsubscribed: "bus_run lib published s t \<Longrightarrow> bus_run lib published s (snd (ev_unsubscribe lib j t))"
| responding: "bus_run lib published s t \<Longrightarrow> bus_run lib published s (snd (respond lib c f t))"
| streaming: "bus_run lib published s t \<Longrightarrow> bus_run lib published s (snd (create_event_stream lib chans f t))"
| asking: "bus_run lib published s t \<Longrightarrow> bus_run lib published s (snd (begin_request lib c data t))"
| asked: "bus_run lib published s t \<Longrightarrow> bus_run lib published s (snd (end_request i t))"
| checked: "bus_run lib published s t \<Longrightarrow> bus_run lib published s (snd (ev_health_check lib t))"
| closed: "bus_run lib published s t \<Longrightarrow> bus_run lib published s (snd (ev_close lib t))"

lemma unanswered_worlds:
  "obeys (keeps (unanswered published)) now" "obeys (keeps (unanswered published)) uuid4"
  "obeys (keeps (unanswered published)) (sleep d)"
  by (auto simp: obeys_def keeps_def unanswered_def py_simps)

lemma unanswered_call:
  assumes "\<And>x. published (snd (f x)) \<subseteq> published x \<union> {c. \<not> is_response c}"
  shows "obeys (keeps (unanswered published)) (call_adapter f)"
  unfolding obeys_def keeps_def
proof (intro allI impI)
  fix s
  assume "unanswered published s"
  then show "unanswered published (snd (call_adapter f s))"
    using assms [of "exch s"] by (auto simp: unanswered_def call_adapter_def split: prod.splits)
qed

lemma unanswered_or_event_error:
  "obeys (keeps (unanswered published)) m \<Longrightarrow> obeys (keeps (unanswered published)) (or_event_error m)"
  unfolding or_event_error_def by (intro inv_rules)

lemma no_response:
  "\<not> is_response ''events''" "\<not> is_response (''event:'' @ c)" "\<not> is_response (''user:'' @ c)"
  "\<not> is_response (''instance:'' @ c)" "\<not> is_response (''market:'' @ c)" "\<not> is_response ''system''"
  "\<not> is_response (''request:'' @ c)"
  by (simp_all add: is_response_def response_prefix_def)

lemma unanswered_fields:
  "unanswered published (s\<lparr>ev_redis := b\<rparr>) = unanswered published s"
  "unanswered published (s\<lparr>ev_subscriptions := d\<rparr>) = unanswered published s"
  "unanswered published (s\<lparr>ev_pubsub := b\<rparr>) = unanswered published s"
  "unanswered published (s\<lparr>ev_listener := b\<rparr>) = unanswered published s"
  "unanswered published (s\<lparr>ev_waiters := ws\<rparr>) = unanswered published s"
  "unanswered published (s\<lparr>ev_pool := b\<rparr>) = unanswered published s"
  by (simp_all add: unanswered_def)

lemma unanswered_calls:
  assumes own: "only_own_channels lib published"
  shows "\<not> is_response c \<Longrightarrow> obeys (keeps (unanswered published)) (call_adapter (rl_publish lib c j))"
    and "obeys (keeps (unanswered published)) (call_adapter (rl_subscribe lib cs))"
    and "obeys (keeps (unanswered published)) (call_adapter (rl_unsubscribe lib c))"
    and "obeys (keeps (unanswered published)) (call_adapter (rl_ping lib))"
    and "obeys (keeps (unanswered published)) (call_adapter (rl_close_pubsub lib))"
    and "obeys (keeps (unanswered published)) (call_adapter (rl_close lib))"
proof -
  have p: "\<And>c j x. published (snd (rl_publish lib c j x)) \<subseteq> insert c (published x)"
    and s: "\<And>cs x. published (snd (rl_subscribe lib cs x)) = published x"
    and u: "\<And>c x. published (snd (rl_unsubscribe lib c x)) = published x"
    and q: "\<And>x. published (snd (rl_ping lib x)) = published x"
    and b: "\<And>x. published (snd (rl_close_pubsub lib x)) = published x"
    and e: "\<And>x. published (snd (rl_close lib x)) = published x"
    using own unfolding only_own_channels_def by (simp_all only: simp_thms)
  show "\<not> is_response c \<Longrightarrow> obeys (keeps (unanswered published)) (call_adapter (rl_publish lib c j))"
    using p by (intro unanswered_call) blast
  show "obeys (keeps (unanswered published)) (call_adapter (rl_subscribe lib cs))"
    by (rule unanswered_call) (simp add: s)
  show "obeys (keeps (unanswered published)) (call_adapter (rl_unsubscribe lib c))"
    by (rule unanswered_call) (simp add: u)
  show "obeys (keeps (unanswered published)) (call_adapter (rl_ping lib))"
    by (rule unanswered_call) (simp add: q)
  show "obeys (keeps (unanswered published)) (call_adapter (rl_close_pubsub lib))"
    by (rule unanswered_call) (simp add: b)
  show "obeys (keeps (unanswered published)) (call_adapter (rl_close lib))"
    by (rule unanswered_call) (simp add: e)
qed

lemma unanswered_modify:
  "obeys (keeps (unanswered published)) (modify (\<lambda>s. s\<lparr>ev_redis := f s\<rparr>))"
  "obeys (keeps (unanswered published)) (modify (\<lambda>s. s\<lparr>ev_subscriptions := d s\<rparr>))"
  "obeys (keeps (unanswered published)) (modify (\<lambda>s. s\<lparr>ev_pubsub := f s\<rparr>))"
  "obeys (keeps (unanswered published)) (modify (\<lambda>s. s\<lparr>ev_listener := f s\<rparr>))"
  "obeys (keeps (unanswered published)) (modify (\<lambda>s. s\<lparr>ev_waiters := ws s\<rparr>))"
  "obeys (keeps (unanswered published)) (modify (\<lambda>s. s\<lparr>ev_pool := f s\<rparr>))"
  by (rule obeys_keeps_modify; simp add: unanswered_fields)+

lemmas unanswered_rules = inv_rules obeys_if obeys_option obeys_res obeys_reading obeys_pair
  unanswered_worlds unanswered_modify unanswered_or_event_error no_response

lemma publish_on_unanswered:
  assumes own: "only_own_channels lib published" and chans: "list_all (\<lambda>c. \<not> is_response c) chans"
  shows "obeys (keeps (unanswered published)) (publish_on lib chans event_type data metadata)"
  unfolding publish_on_def get_redis_def using chans
  by (intro unanswered_rules unanswered_calls [OF own]) (simp add: list_all_iff)

lemma publishing_unanswered:
  assumes own: "only_own_channels lib published"
  shows "obeys (keeps (unanswered published)) (ev_publish lib event_type data metadata)"
    and "obeys (keeps (unanswered published)) (publish_to_user lib user event_type data)"
    and "obeys (keeps (unanswered published)) (publish_instance_event lib i event_type data)"
    and "obeys (keeps (unanswered published)) (publish_market_event lib symbol exchange event_type data)"
    and "obeys (keeps (unanswered published)) (publish_system_event lib event_type data)"
  unfolding ev_publish_def publish_to_user_def publish_instance_event_def publish_market_event_def
    publish_system_event_def
  by (rule publish_on_unanswered [OF own]; simp add: is_response_def response_prefix_def)+

lemma ev_subscribe_unanswered:
  assumes own: "only_own_channels lib published"
  shows "obeys (keeps (unanswered published)) (ev_subscribe lib c h)"
  unfolding ev_subscribe_def ensure_listener_def by (intro unanswered_rules unanswered_calls [OF own])

lemma operations_unanswered:
  assumes own: "only_own_channels lib published"
  shows "obeys (keeps (unanswered published)) (listener_starts lib)"
    and "obeys (keeps (unanswered published)) listener_fails"
    and "obeys (keeps (unanswered published)) (ev_unsubscribe lib j)"
    and "obeys (keeps (unanswered published)) (respond lib c f)"
    and "obeys (keeps (unanswered published)) (create_event_stream lib chans f)"
    and "obeys (keeps (unanswered published)) (begin_request lib c data)"
    and "obeys (keeps (unanswered published)) (end_request i)"
    and "obeys (keeps (unanswered published)) (ev_health_check lib)"
    and "obeys (keeps (unanswered published)) (ev_close lib)"
  unfolding listener_starts_def listener_fails_def ev_unsubscribe_def respond_def create_event_stream_def
    begin_request_def end_request_def ev_health_check_def ev_close_def ensure_listener_def get_redis_def
  by (intro unanswered_rules unanswered_calls [OF own] ev_subscribe_unanswered [OF own])+

lemma handle_message_unanswered:
  assumes handlers: "\<And>f e. obeys (keeps (unanswered published)) (rl_call lib f e)"
    and s: "unanswered published s" and c: "c \<in> published (exch s)"
  shows "unanswered published (snd (handle_message lib c message s))"
proof (cases message)
  case None
  then show ?thesis using s by (simp add: handle_message_def py_simps)
next
  case (Some j)
  have "\<not> is_response c" using s c by (simp add: unanswered_def)
  moreover have "obeys (keeps (unanswered published)) (run_in_pool lib h e)" for h e
    unfolding run_in_pool_def by (cases h) (auto intro!: unanswered_rules handlers)
  then have "obeys (keeps (unanswered published)) (reading (\<lambda>s. case dget (ev_subscriptions s) c of
      None \<Rightarrow> ret ()
    | Some h \<Rightarrow> (case parse_event lib j of Raise _ \<Rightarrow> ret () | Ok e \<Rightarrow> run_in_pool lib h e)))"
    by (intro unanswered_rules)
  ultimately show ?thesis
    using s Some by (simp add: handle_message_def is_response_def keepsD)
qed

lemma bus_run_unanswered:
  assumes own: "only_own_channels lib published"
    and handlers: "\<And>f e. obeys (keeps (unanswered published)) (rl_call lib f e)"
    and s: "unanswered published s" and run: "bus_run lib published s t"
  shows "unanswered published t"
  using run
proof induction
  case idle
  show ?case by (rule s)
next
  case (elsewhere t x)
  then show ?case by (auto simp: unanswered_def)
next
  case (received t c message)
  then show ?case by (intro handle_message_unanswered handlers)
qed (rule keepsD, rule operations_unanswered publishing_unanswered ev_subscribe_unanswered, rule own, assumption)+

lemma end_request_unanswered:
  assumes "ev_answers t = []"
  shows "fst (end_request i t) = Raise event_error"
  using assms by (simp add: end_request_def or_event_error_def py_simps)

text \<open>A subscription is never found by the text of an identifier.\<close>

lemma ev_unsubscribe_text: "ev_unsubscribe lib (JStr i) s = (Ok (), s)"
proof -
  have "find (\<lambda>(_, h). JInt (rl_id lib h) = JStr i) (ev_subscriptions s) = None"
    by (simp add: find_None_iff split_beta)
  then show ?thesis by (simp add: ev_unsubscribe_def or_event_error_def py_simps)
qed

text \<open>
  C27. A request over Redis is never answered. However the bus and the programs that share
  its Redis have run, every request that ends its waiting raises \<^verbatim>\<open>EventError\<close>: the answering
  function is a coroutine function that the thread pool calls and nobody awaits, so nothing is
  ever published on a response channel. No subscription is given up by the text
  \<^verbatim>\<open>subscribe\<close> returns either.
\<close>

theorem requests_never_answered:
  assumes "only_own_channels lib published"
    and "\<And>f e. obeys (keeps (unanswered published)) (rl_call lib f e)"
    and "unanswered published s" and "bus_run lib published s t"
  shows "fst (end_request i t) = Raise event_error \<and> ev_unsubscribe lib (JStr i) t = (Ok (), t)"
proof -
  have "unanswered published t" by (rule bus_run_unanswered) (rule assms)+
  then have "ev_answers t = []" by (simp add: unanswered_def)
  then show ?thesis by (simp add: end_request_unanswered ev_unsubscribe_text)
qed

text \<open>A Redis that remembers the channels published on, and a responder that is asked once.\<close>

definition channel_list :: "(string list, nat, unit) redis_library" where
  "channel_list = \<lparr>rl_publish = (\<lambda>c j x. (Ok (), c # x)), rl_subscribe = (\<lambda>cs x. (Ok (), x)),
     rl_unsubscribe = (\<lambda>c x. (Ok (), x)), rl_ping = (\<lambda>x. (Ok True, x)), rl_close_pubsub = (\<lambda>x. (Ok (), x)),
     rl_close = (\<lambda>x. (Ok (), x)), rl_iso = (\<lambda>t. ''2024-01-01''), rl_from_iso = (\<lambda>t. Ok 0), rl_id = (\<lambda>h. 7),
     rl_call = (\<lambda>f e. ret ())\<rparr>"

definition fresh_bus :: "(string list, nat) event_channels" where
  "fresh_bus = \<lparr>clock = 0, uuid_next = 0, sleeps = [], exch = [], ev_redis = False, ev_subscriptions = [],
     ev_pubsub = False, ev_listener = False, ev_waiters = [], ev_answers = [], ev_pool = True\<rparr>"

definition asked_bus :: "(string list, nat) event_channels" where
  "asked_bus = snd (handle_message channel_list ''request:price'' (Some (JObj [(''request_id'', JStr ''2'')]))
     (snd (begin_request channel_list ''price'' (JObj []) (snd (listener_starts channel_list
       (snd (respond channel_list ''price'' 7 fresh_bus)))))))"

lemma requests_never_answered_witness:
  "ev_waiters asked_bus = [''2''] \<and> map fst (ev_subscriptions asked_bus) = [''request:price''] \<and>
   fst (end_request ''2'' asked_bus) = Raise event_error"
proof -
  have own: "only_own_channels channel_list set" by (auto simp: only_own_channels_def channel_list_def)
  have calls: "obeys (keeps (unanswered set)) (rl_call channel_list f e)" for f e
    by (simp add: channel_list_def inv_rules)
  have start: "unanswered set fresh_bus" by (simp add: unanswered_def fresh_bus_def)
  have asked: "''request:price'' \<in> set (exch (snd (begin_request channel_list ''price'' (JObj [])
      (snd (listener_starts channel_list (snd (respond channel_list ''price'' 7 fresh_bus)))))))"
    by code_simp
  have run: "bus_run channel_list set fresh_bus asked_bus"
    unfolding asked_bus_def by (intro bus_run.received bus_run.asking bus_run.started bus_run.responding bus_run.idle asked)
  have "ev_waiters asked_bus = [''2''] \<and> map fst (ev_subscriptions asked_bus) = [''request:price'']" by code_simp
  then show ?thesis
    using requests_never_answered [OF own calls start run, of "''2''"] by blast
qed

end
