(* ===== verification/BinaryFloats.thy ===== *)
theory BinaryFloats
  imports Decimal
begin

text \<open>
  Python's \<^verbatim>\<open>float\<close> where the program computes with few of them: a finite double is represented by its
  exact value, a rational; an operation computes the exact result and rounds it to 53 binary digits,
  half to even (\<open>ffix\<close>). \<^verbatim>\<open>round(x, n)\<close> rounds the exact value of \<open>x\<close> to \<open>n\<close> decimals, half to even, and
  gives the double nearest to that. Overflow, underflow to subnormal numbers, infinities and NaN are not
  represented. The lemmas: rounding is monotone and exact on the numbers it is compared with.
\<close>

section \<open>Rounding to 53 binary digits\<close>

type_synonym double = rat

fun nbits :: "nat \<Rightarrow> nat" where
  "nbits n = (if n < 2 then 1 else Suc (nbits (n div 2)))"

declare nbits.simps [simp del]

definition pow2 :: "int \<Rightarrow> rat" where
  "pow2 k = (if 0 \<le> k then 2 ^ nat k else 1 / 2 ^ nat (- k))"

text \<open>The exponent of the leading binary digit of a non-zero value.\<close>

definition binade :: "rat \<Rightarrow> int" where
  "binade x = (let a = \<bar>x\<bar> in
     if 1 \<le> a then int (nbits (nat \<lfloor>a\<rfloor>)) - 1 else - int (nbits (nat (\<lceil>1 / a\<rceil> - 1))))"

definition unit_of :: "rat \<Rightarrow> rat" where
  "unit_of x = pow2 (binade x - 52)"

definition ffix :: "rat \<Rightarrow> double" where
  "ffix x = (if x = 0 then 0 else of_int (round_half_even (x / unit_of x)) * unit_of x)"

definition fmul :: "double \<Rightarrow> double \<Rightarrow> double" where
  "fmul a b = ffix (a * b)"

text \<open>\<^verbatim>\<open>float(d)\<close> of a decimal, and \<^verbatim>\<open>round(x, n)\<close>.\<close>

definition float_of_decimal :: "decimal \<Rightarrow> double" where
  "float_of_decimal d = ffix d"

definition fround :: "nat \<Rightarrow> double \<Rightarrow> double" where
  "fround n x = ffix (of_int (round_half_even (x * 10 ^ n)) / 10 ^ n)"

section \<open>Binades\<close>

lemma pow2_pos [simp]: "0 < pow2 k"
  by (simp add: pow2_def)

lemma pow2_Suc: "pow2 (k + 1) = 2 * pow2 k"
proof (cases "0 \<le> k")
  case True
  then show ?thesis by (simp add: pow2_def nat_add_distrib)
next
  case False
  then have "nat (- k) = Suc (nat (- (k + 1)))" by linarith
  then show ?thesis using False by (cases "k = - 1") (simp_all add: pow2_def)
qed

lemma pow2_add_nat: "pow2 (k + int n) = 2 ^ n * pow2 k"
proof (induction n)
  case (Suc n)
  have "pow2 (k + int (Suc n)) = pow2 ((k + int n) + 1)" by (simp add: ac_simps)
  then show ?case by (simp add: pow2_Suc Suc)
qed simp

lemma pow2_mono: "j \<le> k \<Longrightarrow> pow2 j \<le> pow2 k"
  using pow2_add_nat [of j "nat (k - j)"] by simp

lemma pow2_less_cancel: "pow2 j < pow2 k \<Longrightarrow> j < k"
  using pow2_mono [of k j] by force

lemma nbits_pos: "0 < nbits n"
  by (subst nbits.simps) simp

lemma nbits_bounds: "0 < n \<Longrightarrow> 2 ^ (nbits n - 1) \<le> n \<and> n < 2 ^ nbits n"
proof (induction n rule: nbits.induct)
  case (1 n)
  show ?case
  proof (cases "n < 2")
    case True
    then show ?thesis using 1(2) by (subst (1 2) nbits.simps) auto
  next
    case False
    then have ih: "2 ^ (nbits (n div 2) - 1) \<le> n div 2" "n div 2 < 2 ^ nbits (n div 2)"
      using 1(1) by (simp_all add: div_greater_zero_iff)
    have b: "nbits n = Suc (nbits (n div 2))" using False by (subst nbits.simps) simp
    have "2 * (n div 2) \<le> n" and "n < 2 * (n div 2) + 2" by presburger+
    with ih show ?thesis unfolding b using nbits_pos [of "n div 2"]
      by (cases "nbits (n div 2)") simp_all
  qed
qed

lemma of_nat_pow2_le: "(2 :: rat) ^ d \<le> of_nat n \<longleftrightarrow> 2 ^ d \<le> n"
  by (metis of_nat_le_iff of_nat_numeral of_nat_power)

lemma of_nat_le_pow2: "of_nat n + 1 \<le> (2 :: rat) ^ d \<longleftrightarrow> n + 1 \<le> 2 ^ d"
  by (metis of_nat_1 of_nat_add of_nat_le_iff of_nat_numeral of_nat_power)

lemma binade_bounds:
  assumes "0 < x"
  shows "pow2 (binade x) \<le> x" and "x < pow2 (binade x + 1)"
proof -
  have "pow2 (binade x) \<le> x \<and> x < pow2 (binade x + 1)"
  proof (cases "1 \<le> x")
    case True
    define n where "n = nat \<lfloor>x\<rfloor>"
    have n: "0 < n" using True by (simp add: n_def le_floor_iff)
    have x: "of_nat n \<le> x" "x < of_nat n + 1" using True unfolding n_def by (simp_all, linarith)
    have e: "binade x = int (nbits n - 1)"
      using True nbits_pos [of n] by (simp add: binade_def n_def Let_def of_nat_diff)
    have "binade x + 1 = int (nbits n)" using e nbits_pos [of n] by simp
    then have "pow2 (binade x) = 2 ^ (nbits n - 1)" and "pow2 (binade x + 1) = 2 ^ nbits n"
      using e by (simp_all add: pow2_def)
    moreover have "(2 :: rat) ^ (nbits n - 1) \<le> of_nat n" and "of_nat n + 1 \<le> (2 :: rat) ^ nbits n"
      using nbits_bounds [OF n] by (simp_all only: of_nat_pow2_le of_nat_le_pow2 Suc_eq_plus1 [symmetric] Suc_le_eq)
    ultimately show ?thesis using x by (intro conjI) linarith+
  next
    case False
    define n where "n = nat (\<lceil>1 / x\<rceil> - 1)"
    have "1 < 1 / x" using assms False by simp
    then have n: "0 < n" by (simp add: n_def less_ceiling_iff)
    have "0 \<le> \<lceil>1 / x\<rceil> - 1" using \<open>1 < 1 / x\<close> by linarith
    then have c: "of_nat n = of_int \<lceil>1 / x\<rceil> - (1 :: rat)" by (simp add: n_def of_nat_nat)
    have x: "of_nat n < 1 / x" "1 / x \<le> of_nat n + 1" unfolding c by linarith+
    have e: "binade x = - int (nbits n)" using False assms by (simp add: binade_def n_def Let_def)
    have p: "pow2 (binade x) = 1 / 2 ^ nbits n" using e nbits_pos [of n] by (simp add: pow2_def)
    have "binade x + 1 = - int (nbits n - 1)" using e nbits_pos [of n] by simp
    then have q: "pow2 (binade x + 1) = 1 / 2 ^ (nbits n - 1)" by (auto simp: pow2_def)
    have lo: "(2 :: rat) ^ (nbits n - 1) \<le> of_nat n" and hi: "of_nat n + 1 \<le> (2 :: rat) ^ nbits n"
      using nbits_bounds [OF n] by (simp_all only: of_nat_pow2_le of_nat_le_pow2 Suc_eq_plus1 [symmetric] Suc_le_eq)
    have "1 / x \<le> 2 ^ nbits n" and "2 ^ (nbits n - 1) < 1 / x" using x lo hi by linarith+
    then show ?thesis unfolding p q using assms by (simp add: field_simps)
  qed
  then show "pow2 (binade x) \<le> x" and "x < pow2 (binade x + 1)" by blast+
qed

section \<open>Rounding is monotone\<close>

text \<open>
  Numbers with a significand of constant size: the unit of a number is a power of the base \<open>b\<close>, and a
  positive number is between \<open>B\<close> and \<open>b * B\<close> of its units.
\<close>

locale significand =
  fixes unit :: "rat \<Rightarrow> rat" and B b :: int
  assumes unit_pos: "0 < x \<Longrightarrow> 0 < unit x"
    and unit_low: "0 < x \<Longrightarrow> of_int B * unit x \<le> x"
    and unit_high: "0 < x \<Longrightarrow> x < of_int (b * B) * unit x"
    and unit_step: "0 < x \<Longrightarrow> x \<le> y \<Longrightarrow> unit x = unit y \<or> of_int b * unit x \<le> unit y"
    and B_pos: "0 < B"
begin

lemma rounded_low: "0 < x \<Longrightarrow> of_int B * unit x \<le> of_int (round_half_even (x / unit x)) * unit x"
proof -
  assume x: "0 < x"
  have "of_int B \<le> x / unit x" using unit_low [OF x] unit_pos [OF x] by (simp add: pos_le_divide_eq)
  from round_half_even_mono [OF this] have "B \<le> round_half_even (x / unit x)" by simp
  then show ?thesis using unit_pos [OF x] by simp
qed

lemma rounded_high: "0 < x \<Longrightarrow> of_int (round_half_even (x / unit x)) * unit x \<le> of_int (b * B) * unit x"
proof -
  assume x: "0 < x"
  have "x / unit x \<le> of_int (b * B)" using unit_high [OF x] unit_pos [OF x] by (simp add: pos_divide_le_eq)
  from round_half_even_mono [OF this] have "round_half_even (x / unit x) \<le> b * B"
    by (simp only: round_half_even_of_int)
  then show ?thesis using unit_pos [OF x] by (simp del: of_int_mult)
qed

lemma rounded_mono:
  assumes x: "0 < x" and xy: "x \<le> y"
  shows "of_int (round_half_even (x / unit x)) * unit x \<le> of_int (round_half_even (y / unit y)) * unit y"
proof (cases "unit x = unit y")
  case True
  have "x / unit y \<le> y / unit y" using xy x unit_pos [of y] by (simp add: divide_right_mono)
  then show ?thesis using round_half_even_mono True unit_pos [of y] x xy by simp
next
  case False
  have "of_int (round_half_even (x / unit x)) * unit x \<le> of_int B * (of_int b * unit x)"
    using rounded_high [OF x] by (simp add: ac_simps)
  also have "\<dots> \<le> of_int B * unit y" using unit_step [OF x xy] False B_pos by simp
  also have "\<dots> \<le> of_int (round_half_even (y / unit y)) * unit y" using x xy by (intro rounded_low) simp
  finally show ?thesis .
qed

end

interpretation binary: significand unit_of "2 ^ 52" 2
proof
  fix x y :: rat
  have u: "of_int (2 ^ 52) * unit_of x = pow2 (binade x)" for x
    using pow2_add_nat [of "binade x - 52" 52] by (simp add: unit_of_def)
  show "0 < x \<Longrightarrow> 0 < unit_of x" by (simp add: unit_of_def)
  show "0 < x \<Longrightarrow> of_int (2 ^ 52) * unit_of x \<le> x" using binade_bounds(1) u by simp
  show "0 < x \<Longrightarrow> x < of_int (2 * 2 ^ 52) * unit_of x"
    using binade_bounds(2) [of x] u [of x] by (simp add: pow2_Suc)
  show "unit_of x = unit_of y \<or> of_int 2 * unit_of x \<le> unit_of y" if "0 < x" and "x \<le> y"
  proof -
    have "pow2 (binade x) < pow2 (binade y + 1)"
      using binade_bounds(1) [of x] binade_bounds(2) [of y] that by simp
    then have "binade x \<le> binade y" using pow2_less_cancel by fastforce
    then consider "binade x = binade y" | "binade x + 1 \<le> binade y" by linarith
    then show ?thesis
    proof cases
      case 2
      then have "pow2 ((binade x - 52) + 1) \<le> pow2 (binade y - 52)" by (intro pow2_mono) simp
      then show ?thesis unfolding pow2_Suc by (simp add: unit_of_def)
    qed (simp add: unit_of_def)
  qed
  show "0 < (2 :: int) ^ 52" by simp
qed

lemma ffix_pos: "0 < x \<Longrightarrow> 0 < ffix x"
  using binary.rounded_low [of x] binary.unit_pos [of x] by (simp add: ffix_def)

lemma unit_of_minus: "unit_of (- x) = unit_of x"
  by (simp add: unit_of_def binade_def)

lemma ffix_minus: "ffix (- x) = - ffix x"
  by (simp add: ffix_def unit_of_minus round_half_even_minus)

lemma ffix_0 [simp]: "ffix 0 = 0"
  by (simp add: ffix_def)

lemma ffix_mono: "x \<le> y \<Longrightarrow> ffix x \<le> ffix y"
proof -
  have pos: "ffix x \<le> ffix y" if "0 < x" "x \<le> y" for x y
    using binary.rounded_mono [OF that] that by (simp add: ffix_def)
  assume "x \<le> y"
  then consider "0 < x" | "y < 0" | "x \<le> 0" "0 \<le> y" by linarith
  then show ?thesis
  proof cases
    case 1
    then show ?thesis using pos \<open>x \<le> y\<close> by blast
  next
    case 2
    have "ffix (- y) \<le> ffix (- x)" using 2 \<open>x \<le> y\<close> by (intro pos) simp_all
    then show ?thesis by (simp add: ffix_minus)
  next
    case 3
    have "0 \<le> ffix y" using 3 ffix_pos [of y] by (cases "y = 0") auto
    moreover have "ffix x \<le> 0" using 3 ffix_pos [of "- x"] by (cases "x = 0") (auto simp: ffix_minus)
    ultimately show ?thesis by linarith
  qed
qed

text \<open>A number that fits into the significand is a double.\<close>

lemma ffix_exact: "x = of_int n * unit_of x \<Longrightarrow> ffix x = x"
  by (metis ffix_0 ffix_def nonzero_mult_div_cancel_right mult_zero_left mult_zero_right round_half_even_of_int
      mult.commute)

lemma fround_mono: "x \<le> y \<Longrightarrow> fround n x \<le> fround n y"
  unfolding fround_def
  by (intro ffix_mono divide_right_mono) (auto intro: round_half_even_mono)

lemma fmul_nonneg: "0 \<le> a \<Longrightarrow> 0 \<le> b \<Longrightarrow> 0 \<le> fmul a b"
  unfolding fmul_def using ffix_mono [of 0 "a * b"] by simp

end
