(* ===== verification/AtrSpacing.thy ===== *)
theory AtrSpacing
  imports BinaryFloats DomainTypes
begin

text \<open>
  \<^verbatim>\<open>services/atr_calculator.py\<close>: the spacing of a grid from the average true range of the daily
  candles. True ranges and their averages are decimals, percentages and the adaptive factor are
  floats (\<open>BinaryFloats\<close>). The two periods are natural numbers. Lemmas: what the spacing lies between.
\<close>

section \<open>True ranges\<close>

definition atr_period :: nat where
  "atr_period = 14"

definition avg_atr_period :: nat where
  "avg_atr_period = 30"

definition base_factor :: double where
  "base_factor = 3 / 2"

definition min_factor :: double where
  "min_factor = ffix (4 / 5)"

definition max_factor :: double where
  "max_factor = 5 / 2"

definition max_spacing_pct :: double where
  "max_spacing_pct = 1"

definition min_candles :: nat where
  "min_candles = atr_period + 1"

record spacing_result =
  sp_tp_range_pct :: double
  sp_atr_pct :: double
  sp_avg_atr_pct :: double
  sp_adaptive_factor :: double
  sp_spacing_pct :: double
  sp_used_fallback :: bool
  sp_candle_count :: nat

definition candle_range :: "decimal \<Rightarrow> market_candle \<Rightarrow> decimal" where
  "candle_range prev_close c = max (max (dsub (mc_high c) (mc_low c)) \<bar>dsub (mc_high c) prev_close\<bar>)
     \<bar>dsub (mc_low c) prev_close\<bar>"

fun true_ranges :: "market_candle list \<Rightarrow> decimal list" where
  "true_ranges (p # c # cs) =
     (if mc_close p \<le> 0 then true_ranges (c # cs) else candle_range (mc_close p) c # true_ranges (c # cs))"
| "true_ranges cs = []"

definition decimal_sum :: "decimal list \<Rightarrow> decimal" where
  "decimal_sum ds = foldl dadd 0 ds"

text \<open>\<^verbatim>\<open>ds[-n:]\<close>, which is the whole list for \<open>0\<close>.\<close>

definition last_items :: "nat \<Rightarrow> 'a list \<Rightarrow> 'a list" where
  "last_items n ds = (if n = 0 then ds else drop (length ds - n) ds)"

definition atr_of :: "market_candle list \<Rightarrow> nat \<Rightarrow> decimal res" where
  "atr_of candles period = (let trs = true_ranges candles in
     if length trs < period
     then (if trs = [] then Ok 0 else py_div (decimal_sum trs) (of_nat (length trs)))
     else py_div (decimal_sum (last_items period trs)) (of_nat period))"

definition avg_atr_of :: "market_candle list \<Rightarrow> nat \<Rightarrow> decimal res" where
  "avg_atr_of candles period = (let trs = true_ranges candles in
     if trs = [] then Ok 0
     else let window = (if period \<le> length trs then last_items period trs else trs) in
       py_div (decimal_sum window) (of_nat (length window)))"

section \<open>Spacing\<close>

definition adaptive_factor :: "decimal \<Rightarrow> decimal \<Rightarrow> double res" where
  "adaptive_factor atr avg_atr = (if avg_atr \<le> 0 then Ok base_factor
     else rbind (py_div atr avg_atr) (\<lambda>q.
       Ok (max min_factor (min max_factor (fmul base_factor (float_of_decimal q))))))"

definition fallback_spacing :: "double \<Rightarrow> nat \<Rightarrow> spacing_result" where
  "fallback_spacing tp_range_pct n = \<lparr>sp_tp_range_pct = tp_range_pct, sp_atr_pct = 0, sp_avg_atr_pct = 0,
     sp_adaptive_factor = base_factor, sp_spacing_pct = tp_range_pct, sp_used_fallback = True, sp_candle_count = n\<rparr>"

definition percent_of :: "decimal \<Rightarrow> decimal \<Rightarrow> double res" where
  "percent_of d close = rbind (py_div d close) (\<lambda>q. Ok (float_of_decimal (dmul q 100)))"

definition atr_spacing :: "double \<Rightarrow> market_candle list \<Rightarrow> nat \<Rightarrow> nat \<Rightarrow> spacing_result res" where
  "atr_spacing tp_range_pct candles period avg_period =
     (if length candles < min_candles then Ok (fallback_spacing tp_range_pct (length candles))
      else let latest_close = mc_close (last candles) in
        if latest_close \<le> 0 then Ok (fallback_spacing tp_range_pct (length candles))
        else rbind (atr_of candles period) (\<lambda>atr. rbind (avg_atr_of candles avg_period) (\<lambda>avg_atr.
          rbind (adaptive_factor atr avg_atr) (\<lambda>factor.
          rbind (percent_of atr latest_close) (\<lambda>atr_pct. rbind (percent_of avg_atr latest_close) (\<lambda>avg_atr_pct.
            let spacing_pct = min (max tp_range_pct (fmul atr_pct factor)) max_spacing_pct in
            Ok \<lparr>sp_tp_range_pct = tp_range_pct, sp_atr_pct = fround 4 atr_pct, sp_avg_atr_pct = fround 4 avg_atr_pct,
              sp_adaptive_factor = fround 3 factor, sp_spacing_pct = fround 4 spacing_pct,
              sp_used_fallback = False, sp_candle_count = length candles\<rparr>))))))"

section \<open>Between which values the spacing lies\<close>

lemma candle_range_nonneg: "0 \<le> candle_range p c"
  by (simp add: candle_range_def le_max_iff_disj)

lemma true_ranges_nonneg: "list_all (\<lambda>d. 0 \<le> d) (true_ranges cs)"
  by (induction cs rule: true_ranges.induct) (simp_all add: candle_range_nonneg)

lemma decimal_sum_nonneg: "list_all (\<lambda>d. 0 \<le> d) ds \<Longrightarrow> 0 \<le> decimal_sum ds"
proof -
  have "list_all (\<lambda>d. 0 \<le> d) ds \<Longrightarrow> 0 \<le> a \<Longrightarrow> 0 \<le> foldl dadd a ds" for a
    by (induction ds arbitrary: a) (simp_all add: dadd_def)
  then show "list_all (\<lambda>d. 0 \<le> d) ds \<Longrightarrow> 0 \<le> decimal_sum ds" by (simp add: decimal_sum_def)
qed

lemma length_last_items: "length (last_items n ds) = (if n = 0 then length ds else min n (length ds))"
  by (simp add: last_items_def min_def)

lemma last_items_nonneg: "list_all P ds \<Longrightarrow> list_all P (last_items n ds)"
  by (auto simp: last_items_def list_all_iff dest: in_set_dropD)

lemma average_nonneg:
  "list_all (\<lambda>d. 0 \<le> d) ds \<Longrightarrow> 0 < n \<Longrightarrow> \<exists>a \<ge> 0. py_div (decimal_sum ds) (of_nat n) = Ok a"
  by (simp add: py_div_def ddiv_nonneg decimal_sum_nonneg)

lemma atr_of_nonneg: "0 < period \<Longrightarrow> \<exists>a \<ge> 0. atr_of candles period = Ok a"
  unfolding atr_of_def Let_def
  by (auto intro!: average_nonneg last_items_nonneg true_ranges_nonneg)

lemma avg_atr_of_nonneg: "\<exists>a \<ge> 0. avg_atr_of candles period = Ok a"
  unfolding avg_atr_of_def Let_def
  by (auto intro!: average_nonneg last_items_nonneg true_ranges_nonneg simp: length_last_items)

lemma factor_bounds:
  obtains f where "adaptive_factor atr avg_atr = Ok f" and "min_factor \<le> f" and "f \<le> max_factor"
proof (cases "avg_atr \<le> 0")
  case True
  have "min_factor \<le> base_factor" and "base_factor \<le> max_factor" by code_simp+
  then show ?thesis using that True by (simp add: adaptive_factor_def)
next
  case False
  have "min_factor \<le> max_factor" by code_simp
  then show ?thesis using that False by (simp add: adaptive_factor_def py_div_def)
qed

lemma min_factor_pos: "0 < min_factor"
  by code_simp

lemma rounded_constants:
  "fround 4 1 = 1" "fround 4 0 = 0" "fround 3 min_factor = min_factor" "fround 3 max_factor = max_factor"
  by code_simp+

lemma percent_of_nonneg: "0 \<le> d \<Longrightarrow> 0 < close \<Longrightarrow> \<exists>f \<ge> 0. percent_of d close = Ok f"
  using ffix_mono [of 0 "dmul (ddiv d close) 100"]
  by (simp add: percent_of_def py_div_def float_of_decimal_def dmul_nonneg ddiv_nonneg)

text \<open>
  C17. The spacing of a grid is bounded. The calculator always returns. With fifteen candles and a
  positive last price the spacing is at most one percent and at least the take-profit range of the mode
  (or one percent, when that is less), and the adaptive factor is between 0.8 and 2.5; otherwise the
  spacing is the take-profit range itself, which no cap bounds.
\<close>

theorem spacing_bounds:
  assumes period: "0 < period"
  shows "\<exists>r. atr_spacing tp_range_pct candles period avg_period = Ok r \<and> sp_candle_count r = length candles \<and>
    (if length candles < min_candles \<or> mc_close (last candles) \<le> 0
     then sp_used_fallback r \<and> sp_spacing_pct r = tp_range_pct
     else \<not> sp_used_fallback r \<and> fround 4 (min tp_range_pct 1) \<le> sp_spacing_pct r \<and> sp_spacing_pct r \<le> 1 \<and>
       min_factor \<le> sp_adaptive_factor r \<and> sp_adaptive_factor r \<le> max_factor \<and>
       0 \<le> sp_atr_pct r \<and> 0 \<le> sp_spacing_pct r)"
proof (cases "length candles < min_candles \<or> mc_close (last candles) \<le> 0")
  case True
  then show ?thesis by (auto simp: atr_spacing_def fallback_spacing_def Let_def)
next
  case False
  then have close: "0 < mc_close (last candles)" by simp
  obtain a where a: "atr_of candles period = Ok a" "0 \<le> a" using atr_of_nonneg [OF period] by blast
  obtain v where v: "avg_atr_of candles avg_period = Ok v" "0 \<le> v" using avg_atr_of_nonneg by blast
  obtain f where f: "adaptive_factor a v = Ok f" "min_factor \<le> f" "f \<le> max_factor" by (rule factor_bounds)
  obtain p where p: "percent_of a (mc_close (last candles)) = Ok p" "0 \<le> p"
    using percent_of_nonneg [OF a(2) close] by blast
  obtain q where q: "percent_of v (mc_close (last candles)) = Ok q" using percent_of_nonneg [OF v(2) close] by blast
  have "0 \<le> f" using f(2) min_factor_pos by simp
  then have "0 \<le> min (max tp_range_pct (fmul p f)) 1" using fmul_nonneg [OF p(2)] by (simp add: le_max_iff_disj)
  then have "fround 4 0 \<le> fround 4 (min (max tp_range_pct (fmul p f)) 1)" by (rule fround_mono)
  moreover have "fround 4 (min (max tp_range_pct (fmul p f)) 1) \<le> fround 4 1" by (intro fround_mono) simp
  moreover have "fround 4 (min tp_range_pct 1) \<le> fround 4 (min (max tp_range_pct (fmul p f)) 1)"
    by (intro fround_mono) simp
  moreover note fround_mono [OF f(2), of 3] fround_mono [OF f(3), of 3] fround_mono [OF p(2), of 4]
  ultimately show ?thesis
    using False by (simp add: atr_spacing_def a(1) v(1) f(1) p(1) q rounded_constants max_spacing_pct_def Let_def)
qed

text \<open>Days that move by one percent, seen by mode A, and too few of them for a mode of three percent.\<close>

definition quiet_day :: market_candle where
  "quiet_day = \<lparr>mc_symbol = ''BTCUSDT'', mc_interval = ''1d'', mc_open = 100, mc_high = 101, mc_low = 100,
     mc_close = 100, mc_volume = 1, mc_timestamp = 0\<rparr>"

lemma quiet_days:
  "atr_spacing (ffix (3 / 10)) (replicate 15 quiet_day) 14 30 = Ok \<lparr>sp_tp_range_pct = ffix (3 / 10), sp_atr_pct = 1,
     sp_avg_atr_pct = 1, sp_adaptive_factor = 3 / 2, sp_spacing_pct = 1, sp_used_fallback = False, sp_candle_count = 15\<rparr>"
proof -
  define cs where "cs = replicate 15 quiet_day"
  have cs: "length cs = 15" "mc_close (last cs) = 100" by (simp_all add: cs_def quiet_day_def)
  have tr: "true_ranges cs = replicate 14 1"
    by (simp add: cs_def eval_nat_numeral candle_range_def quiet_day_def dsub_def rep_numeral)
  have sum: "decimal_sum (replicate 14 1) = 14"
    by (simp add: decimal_sum_def eval_nat_numeral dadd_def rep_numeral)
  have one: "py_div 14 14 = Ok 1" "py_div 1 1 = Ok 1" by (simp_all add: py_div_def ddiv_def)
  have atr: "atr_of cs 14 = Ok 1" "avg_atr_of cs 30 = Ok 1"
    by (simp_all add: atr_of_def avg_atr_of_def tr sum one last_items_def)
  have factor: "adaptive_factor 1 1 = Ok (3 / 2)"
    by (simp add: adaptive_factor_def one) code_simp
  have pct: "percent_of 1 100 = Ok 1" by code_simp
  have rounded: "min (max (ffix (3 / 10)) (fmul 1 (3 / 2))) 1 = 1" "fround 3 (3 / 2) = 3 / 2" "fround 4 1 = 1"
    by code_simp+
  show ?thesis
    unfolding cs_def [symmetric] atr_spacing_def max_spacing_pct_def
    by (simp add: cs atr factor pct rounded min_candles_def atr_period_def del: One_nat_def)
qed

lemma spacing_bounds_witness:
  "(\<exists>r. atr_spacing (ffix (3 / 10)) (replicate 15 quiet_day) 14 30 = Ok r \<and> sp_spacing_pct r = 1 \<and> sp_atr_pct r = 1) \<and>
   (\<exists>r. atr_spacing 3 (replicate 14 quiet_day) 14 30 = Ok r \<and> sp_spacing_pct r = 3)"
proof -
  obtain r where "atr_spacing 3 (replicate 14 quiet_day) 14 30 = Ok r" and "sp_spacing_pct r = 3"
    using spacing_bounds [of 14 3 "replicate 14 quiet_day" 30] by (auto simp: min_candles_def atr_period_def)
  then show ?thesis by (auto simp: quiet_days)
qed

end
