(* ===== verification/StrategyModes.thy ===== *)
theory StrategyModes
  imports AtrSpacing MarketHub
begin

text \<open>
  \<^verbatim>\<open>services/strategy_mode_store.py\<close> with its table (\<^verbatim>\<open>models/strategy_mode.py\<close>), and the route of
  \<^verbatim>\<open>api/v1/endpoints/strategies.py\<close> that answers with the spacing of a grid. The table holds the committed
  rows; a session keeps what it has flushed until its commit. A load that misses the cache is two steps,
  the answer of the database and the assignment, between which other requests run; the lock lets
  one load at a time through. Lemmas: an update is seen by the loads that come after it, except when
  a load runs between the update and the commit of its session.
\<close>

section \<open>Modes\<close>

record strategy_mode =
  sm_mode :: string
  sm_label :: string
  sm_tp_range_min :: double
  sm_tp_range_max :: double
  sm_risk_level :: string
  sm_description :: "string option"
  sm_is_active :: bool
  sm_sort_order :: int

text \<open>The dictionaries the store hands out; the built-in ones have no status and no order.\<close>

record mode_dict =
  mo_mode :: string
  mo_label :: string
  mo_tp_range_min :: double
  mo_tp_range_max :: double
  mo_risk_level :: string
  mo_description :: "string option"
  mo_is_active :: "bool option"
  mo_sort_order :: "int option"

definition default_mode :: "string \<Rightarrow> string \<Rightarrow> rat \<Rightarrow> string \<Rightarrow> string \<Rightarrow> mode_dict" where
  "default_mode code name tp risk about = \<lparr>mo_mode = code, mo_label = name, mo_tp_range_min = 0, mo_tp_range_max = ffix tp,
     mo_risk_level = risk, mo_description = Some about, mo_is_active = None, mo_sort_order = None\<rparr>"

definition em_dash :: string where
  "em_dash = [CHR 0xE2, CHR 0x80, CHR 0x94]"

definition default_modes :: "mode_dict list" where
  "default_modes =
    [default_mode ''A'' ''Hyper'' (3 / 10) ''Very Aggressive''
       (''Tightest grid (0.3% spacing). Maximum trade frequency '' @ em_dash @
        '' many small profits, fast capital rotation. Best for ranging markets. TP 0.75% per level.''),
     default_mode ''B'' ''Aggressive'' (6 / 10) ''Aggressive''
       ''Tight grid (0.6% spacing). High trade frequency with moderate profit per level. Good for normal volatility. TP 1.5% per level.'',
     default_mode ''C'' ''Balanced'' (9 / 10) ''Balanced''
       ''Moderate grid (0.9% spacing). Balanced trade frequency and profit. General-purpose mode. TP 2.25% per level.'']"

definition row_to_dict :: "strategy_mode \<Rightarrow> mode_dict" where
  "row_to_dict r = \<lparr>mo_mode = sm_mode r, mo_label = sm_label r, mo_tp_range_min = sm_tp_range_min r,
     mo_tp_range_max = sm_tp_range_max r, mo_risk_level = sm_risk_level r, mo_description = sm_description r,
     mo_is_active = Some (sm_is_active r), mo_sort_order = Some (sm_sort_order r)\<rparr>"

section \<open>Loading\<close>

text \<open>\<open>ms_reading\<close>: what the load that holds the lock has read and not yet stored.\<close>

record mode_store =
  ms_rows :: "strategy_mode list"
  ms_reachable :: bool
  ms_cache :: "mode_dict list option"
  ms_reading :: "mode_dict list option"

definition load_from_db :: "strategy_mode list \<Rightarrow> mode_dict list" where
  "load_from_db rows = (let active = sort_key sm_sort_order (sort_key sm_mode (filter sm_is_active rows)) in
     if active = [] then default_modes else map row_to_dict active)"

definition modes_read :: "mode_store \<Rightarrow> mode_dict list" where
  "modes_read s = (if ms_reachable s then load_from_db (ms_rows s) else default_modes)"

definition query_modes :: "mode_store \<Rightarrow> mode_store" where
  "query_modes s = (if ms_cache s = None \<and> ms_reading s = None then s\<lparr>ms_reading := Some (modes_read s)\<rparr> else s)"

definition store_modes :: "mode_store \<Rightarrow> mode_store" where
  "store_modes s = (case ms_reading s of None \<Rightarrow> s | Some m \<Rightarrow> s\<lparr>ms_cache := Some m, ms_reading := None\<rparr>)"

text \<open>A load that nothing comes between.\<close>

definition load_strategy_modes :: "(mode_store, mode_dict list) py" where
  "load_strategy_modes s = (case ms_cache s of
      Some m \<Rightarrow> (Ok m, s)
    | None \<Rightarrow> let t = store_modes (query_modes s) in
        (case ms_cache t of Some m \<Rightarrow> (Ok m, t) | None \<Rightarrow> (Raise (Exn PyRuntimeError []), t)))"

definition get_strategy_modes :: "(mode_store, mode_dict list) py" where
  "get_strategy_modes = load_strategy_modes"

definition get_tp_range_max :: "string \<Rightarrow> (mode_store, double) py" where
  "get_tp_range_max mode = bind load_strategy_modes (\<lambda>modes.
     case find (\<lambda>m. mo_mode m = py_upper mode) modes of
       None \<Rightarrow> throw (Exn PyValueError [''Strategy mode '' @ py_upper mode @ '' not found''])
     | Some m \<Rightarrow> ret (mo_tp_range_max m))"

section \<open>Updating\<close>

record mode_changes =
  mg_label :: "string option"
  mg_tp_range_min :: "double option"
  mg_tp_range_max :: "double option"
  mg_risk_level :: "string option"
  mg_description :: "string option"

definition changed :: "'a option \<Rightarrow> 'a \<Rightarrow> 'a" where
  "changed x old = (case x of None \<Rightarrow> old | Some new \<Rightarrow> new)"

definition apply_changes :: "mode_changes \<Rightarrow> strategy_mode \<Rightarrow> strategy_mode" where
  "apply_changes c r = r\<lparr>sm_label := changed (mg_label c) (sm_label r),
     sm_tp_range_min := changed (mg_tp_range_min c) (sm_tp_range_min r),
     sm_tp_range_max := changed (mg_tp_range_max c) (sm_tp_range_max r),
     sm_risk_level := changed (mg_risk_level c) (sm_risk_level r),
     sm_description := (case mg_description c of None \<Rightarrow> sm_description r | Some d \<Rightarrow> Some d)\<rparr>"

definition changed_rows :: "string \<Rightarrow> mode_changes \<Rightarrow> strategy_mode list \<Rightarrow> strategy_mode list" where
  "changed_rows mode c rows = map (\<lambda>r. if sm_mode r = mode then apply_changes c r else r) rows"

definition invalidate_cache :: "mode_store \<Rightarrow> mode_store" where
  "invalidate_cache s = s\<lparr>ms_cache := None\<rparr>"

text \<open>\<open>mode\<close> is the primary key, so \<^verbatim>\<open>scalar_one_or_none\<close> finds one row or none.\<close>

definition update_strategy_mode :: "string \<Rightarrow> mode_changes \<Rightarrow> (mode_store, mode_dict option) py" where
  "update_strategy_mode mode c s = (
     if \<not> ms_reachable s then (Raise (Exn OtherException []), s)
     else (case find (\<lambda>r. sm_mode r = py_upper mode) (ms_rows s) of
         None \<Rightarrow> (Ok None, s)
       | Some r \<Rightarrow> (Ok (Some (row_to_dict (apply_changes c r))),
           invalidate_cache (s\<lparr>ms_rows := changed_rows (py_upper mode) c (ms_rows s)\<rparr>))))"

text \<open>The session of the caller: what it has flushed and not committed.\<close>

type_synonym mode_session = "(string \<times> mode_changes) list"

definition update_strategy_mode_with_session :: "string \<Rightarrow> mode_changes \<Rightarrow>
    (mode_store \<times> mode_session, mode_dict option) py" where
  "update_strategy_mode_with_session mode c = (\<lambda>(s, pending).
     if \<not> ms_reachable s then (Raise (Exn OtherException []), (s, pending))
     else (case find (\<lambda>r. sm_mode r = py_upper mode)
             (foldl (\<lambda>rows (m, c). changed_rows m c rows) (ms_rows s) pending) of
         None \<Rightarrow> (Ok None, (s, pending))
       | Some r \<Rightarrow> (Ok (Some (row_to_dict (apply_changes c r))), (invalidate_cache s, pending @ [(py_upper mode, c)]))))"

text \<open>The end of the request: \<^verbatim>\<open>get_db\<close> commits, or rolls back when the handler raised.\<close>

definition commit_session :: "mode_store \<times> mode_session \<Rightarrow> mode_store" where
  "commit_session = (\<lambda>(s, pending). s\<lparr>ms_rows := foldl (\<lambda>rows (m, c). changed_rows m c rows) (ms_rows s) pending\<rparr>)"

definition admin_update_strategy_mode :: "string \<Rightarrow> mode_changes \<Rightarrow> (mode_store \<times> mode_session, (nat, mode_dict) sum) py" where
  "admin_update_strategy_mode mode c = bind (update_strategy_mode_with_session mode c) (\<lambda>updated.
     case updated of None \<Rightarrow> ret (Inl 404) | Some d \<Rightarrow> ret (Inr d))"

section \<open>The spacing of a grid\<close>

record spacing_response =
  gr_symbol :: string
  gr_exchange :: string
  gr_mode :: string
  gr_result :: spacing_result

definition trading_pair :: "string \<Rightarrow> string" where
  "trading_pair symbol = (let p = py_upper symbol in
     if 4 \<le> length p \<and> drop (length p - 4) p = ''USDT'' then p else p @ ''USDT'')"

definition tp_range_for_mode :: "string \<Rightarrow> (mode_store, (nat, double) sum) py" where
  "tp_range_for_mode mode = try_catch (bind (get_tp_range_max mode) (\<lambda>tp. ret (Inr tp)))
     (\<lambda>e. if isinstance e [PyValueError] then ret (Inl 404) else throw e)"

text \<open>The route: a status of HTTP or a response; what else is raised is left to the framework.\<close>

definition get_grid_spacing :: "string \<Rightarrow> string \<Rightarrow> string \<Rightarrow>
    (mode_store \<times> ('x, 'cb) hub_state option, (nat, spacing_response) sum) py" where
  "get_grid_spacing symbol mode exchange = (\<lambda>(s, hub).
     case tp_range_for_mode mode s of
       (Raise e, s') \<Rightarrow> (Raise e, (s', hub))
     | (Ok (Inl status), s') \<Rightarrow> (Ok (Inl status), (s', hub))
     | (Ok (Inr tp), s') \<Rightarrow> (case hub of
         None \<Rightarrow> (Ok (Inl 503), (s', hub))
       | Some h \<Rightarrow> (case market_candles exchange (trading_pair symbol) ''1d'' h of
           (Raise e, h') \<Rightarrow>
             (if isinstance e [SymbolNotSupported] then Ok (Inl 404) else Raise e, (s', Some h'))
         | (Ok candles, h') \<Rightarrow> (rbind (atr_spacing tp candles atr_period avg_atr_period) (\<lambda>r.
             Ok (Inr \<lparr>gr_symbol = trading_pair symbol, gr_exchange = py_lower exchange, gr_mode = py_upper mode,
               gr_result = r\<rparr>)), (s', Some h')))))"

section \<open>Which modes a load returns\<close>

lemma load_cached: "ms_cache s = Some m \<Longrightarrow> load_strategy_modes s = (Ok m, s)"
  by (simp add: load_strategy_modes_def)

lemma load_missed:
  "ms_cache s = None \<Longrightarrow> ms_reading s = None \<Longrightarrow>
   load_strategy_modes s = (Ok (modes_read s), s\<lparr>ms_cache := Some (modes_read s), ms_reading := None\<rparr>)"
  by (simp add: load_strategy_modes_def query_modes_def store_modes_def)

text \<open>Every load after the first returns the same, whoever asks and whatever the table holds by then.\<close>

inductive loads_only :: "mode_store \<Rightarrow> mode_store \<Rightarrow> bool" for s where
  none: "loads_only s s"
| queried: "loads_only s t \<Longrightarrow> loads_only s (query_modes t)"
| stored: "loads_only s t \<Longrightarrow> loads_only s (store_modes t)"
| loaded: "loads_only s t \<Longrightarrow> loads_only s (snd (load_strategy_modes t))"

lemma loads_only_cached:
  assumes "loads_only s t" and "ms_cache s = Some m" and "ms_reading s = None"
  shows "t = s"
  using assms
  by induction (simp_all add: query_modes_def store_modes_def load_cached)

lemma update_seen:
  assumes "ms_reachable s" and "ms_reading s = None"
    and "find (\<lambda>r. sm_mode r = py_upper mode) (ms_rows s) = Some r"
  shows "fst (load_strategy_modes (snd (update_strategy_mode mode c s))) =
    Ok (load_from_db (changed_rows (py_upper mode) c (ms_rows s)))"
  using assms by (simp add: update_strategy_mode_def invalidate_cache_def load_missed modes_read_def)

text \<open>
  C18. An update of a strategy mode can be lost on every reader. The route of the administrator invalidates
  the cache before its session commits. When a load comes in between, it stores the modes of before, and
  after the commit every load returns them, although the table holds the new ones and the
  administrator was answered with the new ones.
\<close>

theorem stale_modes_served:
  assumes reachable: "ms_reachable s" and idle: "ms_reading s = None"
    and row: "find (\<lambda>r. sm_mode r = py_upper mode) (ms_rows s) = Some r"
    and updated: "admin_update_strategy_mode mode c (s, []) = (answer, t, pending)"
    and between: "between = snd (load_strategy_modes t)"
    and later: "loads_only (commit_session (between, pending)) u"
  shows "answer = Ok (Inr (row_to_dict (apply_changes c r))) \<and>
    ms_rows u = changed_rows (py_upper mode) c (ms_rows s) \<and>
    fst (load_strategy_modes u) = Ok (load_from_db (ms_rows s))"
proof -
  have a: "answer = Ok (Inr (row_to_dict (apply_changes c r)))" and t: "t = invalidate_cache s"
    and p: "pending = [(py_upper mode, c)]"
    using updated reachable row
    by (simp_all add: admin_update_strategy_mode_def update_strategy_mode_with_session_def py_simps)
  let ?b = "commit_session (between, pending)"
  have "load_strategy_modes t = (Ok (load_from_db (ms_rows s)),
      t\<lparr>ms_cache := Some (load_from_db (ms_rows s)), ms_reading := None\<rparr>)"
    using reachable idle by (simp add: t load_missed modes_read_def invalidate_cache_def)
  then have b: "ms_cache ?b = Some (load_from_db (ms_rows s))" "ms_reading ?b = None"
    "ms_rows ?b = changed_rows (py_upper mode) c (ms_rows s)"
    by (simp_all add: between commit_session_def p t invalidate_cache_def)
  have "u = ?b" using later b(1,2) by (rule loads_only_cached)
  then show ?thesis using a b by (simp add: load_cached)
qed

text \<open>Mode A is widened to two percent, and the spacing is asked for in between.\<close>

definition mode_a :: strategy_mode where
  "mode_a = \<lparr>sm_mode = ''A'', sm_label = ''Hyper'', sm_tp_range_min = 0, sm_tp_range_max = 1 / 2,
     sm_risk_level = ''High'', sm_description = None, sm_is_active = True, sm_sort_order = 1\<rparr>"

definition one_mode :: mode_store where
  "one_mode = \<lparr>ms_rows = [mode_a], ms_reachable = True, ms_cache = None, ms_reading = None\<rparr>"

definition widened :: mode_changes where
  "widened = \<lparr>mg_label = None, mg_tp_range_min = None, mg_tp_range_max = Some 2, mg_risk_level = None, mg_description = None\<rparr>"

lemma stale_modes_served_witness:
  "\<exists>u. map sm_tp_range_max (ms_rows u) = [2] \<and> fst (load_strategy_modes u) = Ok [row_to_dict mode_a]"
proof -
  obtain answer t pending where w: "admin_update_strategy_mode ''a'' widened (one_mode, []) = (answer, t, pending)"
    by (metis prod_cases3)
  let ?u = "commit_session (snd (load_strategy_modes t), pending)"
  have row: "find (\<lambda>r. sm_mode r = py_upper ''a'') (ms_rows one_mode) = Some mode_a" by code_simp
  have "ms_rows ?u = changed_rows (py_upper ''a'') widened (ms_rows one_mode) \<and>
      fst (load_strategy_modes ?u) = Ok (load_from_db (ms_rows one_mode))"
    using stale_modes_served [OF _ _ row w refl loads_only.none] by (simp add: one_mode_def)
  moreover have "load_from_db (ms_rows one_mode) = [row_to_dict mode_a]" by code_simp
  moreover have "map sm_tp_range_max (changed_rows (py_upper ''a'') widened (ms_rows one_mode)) = [2]" by code_simp
  ultimately show ?thesis by metis
qed

end
