(* ===== verification/Spec2Isabelle.thy ===== *)
theory Spec2Isabelle
  imports GridCorrectness RetryWorker DeadLetterQueue EventBus JobScheduler WorkerManager
    HeartbeatMonitor RiskManager RecoveryCoordinator ProcessLifecycle NotificationDelivery
    MoneyManagement BreakerThresholds MarketStreams EntitlementLaws BillingLaws AuthenticationLaws AdapterLaws StreamLaws
    EventChannels StrategyModes
begin

text \<open>
  Verification library of the trading platform UTOS: its engines (\<^verbatim>\<open>src/backend/engine\<close>), market
  data (\<^verbatim>\<open>market\<close>), strategy services and SaaS services (\<^verbatim>\<open>services\<close>).

  \<^bold>\<open>The program.\<close> UTOS runs trading strategies on crypto exchanges. A trading instance owns a grid
  of price levels and, optionally, a profit lock. The grid engine reacts to prices, fills and operator
  commands; it and the profit lock engine place and cancel orders through one execution engine, which
  makes placing idempotent, retries transient failures and tracks every order; behind it stand the
  adapters of the exchanges. The process manager creates, starts, pauses, resumes, stops and recovers
  the instances, keeps their rows and locks, and wires their grids to the prices of the market, which
  a hub shares out among subscribers. A circuit breaker and a technical-analysis gate decide whether
  the grid may buy; the thresholds of the breakers come from screening daily candles, and a calculator
  splits the capital over the coins. A risk manager judges orders over a portfolio of positions. After
  a restart the recovery engine rebuilds connections, snapshots and positions, and reconciles them with the exchange. A
  scheduler package supplies retries, a dead letter queue, an in-memory event bus, periodic tasks,
  workers and health checks; a notification engine renders and delivers messages with retries of its
  own. Around the engines stand accounts: authentication, roles, licenses, subscriptions, billing and
  affiliates.

  \<^bold>\<open>How the code is modelled.\<close> A method that may mutate state and may raise is a function from a
  state to a result (\<open>Ok\<close> or \<open>Raise\<close>) and the state reached (theory \<^verbatim>\<open>Prelude\<close>), so what was
  changed before an exception stays changed. Objects are records; an object that holds another one
  extends its record, as the profit lock engine's state extends the execution engine's and the grid
  engine's extends the profit lock engine's. Dictionaries are association lists in insertion order,
  decimals are rationals rounded to 28 digits after every operation (\<^verbatim>\<open>Decimal\<close>), time and
  \<^verbatim>\<open>uuid4()\<close> come from a world with a clock and a counter (\<^verbatim>\<open>DomainTypes\<close>). The exchange behind
  an adapter, callbacks, jobs, handlers and loaders are arguments or fields of arbitrary behaviour;
  where a theorem needs them to leave the caller's own fields alone it says so (\<open>quiet\<close> and
  \<open>well_behaved\<close> hypotheses). A handler runs without interleaving with others. Log lines and the
  free text of messages are left out. The clock of the world moves between
  handlers and stands still while one runs: a request takes no time, and of a wait only its length is
  recorded; the monotonic clock of the rate limiter moves on with every wait for it.

  \<^bold>\<open>Theories and sources.\<close>

  \<^item> \<^verbatim>\<open>Prelude\<close>: exceptions of \<^verbatim>\<open>core/exceptions.py\<close>, the state-and-error routines, loops, frames,
    triples, routines that never raise, dictionaries, and the locales of the development:
    \<open>step_contract\<close> (a relation every step respects), \<open>keyed_store\<close>, \<open>validated_machine\<close>.
  \<^item> \<^verbatim>\<open>Decimal\<close>, \<^verbatim>\<open>DecimalText\<close>: arithmetic of \<^verbatim>\<open>decimal.Decimal\<close>, and its text form.
  \<^item> \<^verbatim>\<open>DomainTypes\<close>: \<^verbatim>\<open>core/domain_types.py\<close>, \<^verbatim>\<open>adapters/base.py\<close>. \<^verbatim>\<open>PaperExchange\<close>: a
    concrete exchange for the witnesses.
  \<^item> \<^verbatim>\<open>OrderModel\<close>, \<^verbatim>\<open>OrderExecutor\<close>, \<^verbatim>\<open>OrderTracker\<close>, \<^verbatim>\<open>ExecutionEngine\<close>:
    \<^verbatim>\<open>engine/execution\<close>. Lemmas: idempotence, uniqueness of request ids over reachable states, what
    the exchange sees, outcomes of placing, cancelling and synchronising in every status, retries.
    The locale \<open>order_gateway\<close> is the engine's promise to its clients.
  \<^item> \<^verbatim>\<open>ProfitLockModel\<close>, \<^verbatim>\<open>ProfitLockEngine\<close>: \<^verbatim>\<open>engine/profit_lock\<close>. Lemmas: an invariant of
    all reachable locks, refinement of an abstract trailing stop, outcomes of executing a lock.
  \<^item> \<^verbatim>\<open>GridModel\<close>, \<^verbatim>\<open>TAEngine\<close>, \<^verbatim>\<open>CircuitBreaker\<close>, \<^verbatim>\<open>GridEngine\<close>, \<^verbatim>\<open>GridCorrectness\<close>:
    \<^verbatim>\<open>engine/grid\<close> and \<^verbatim>\<open>services/ta_engine.py\<close>. Lemmas: layouts of the levels, exactness of the
    plan, what every history of handlers keeps of a grid, the effect of the breaker, of pausing.
  \<^item> \<^verbatim>\<open>Persistence\<close>: \<^verbatim>\<open>persistence.py\<close> of the grid and of the profit lock; round trips.
  \<^item> \<^verbatim>\<open>TradingProcess\<close>, \<^verbatim>\<open>ProcessLifecycle\<close>: \<^verbatim>\<open>engine/trading\<close>, over the grid engine and the
    tables of the database. Lemmas: what the handlers change in the rows and in the engines; the life
    of an instance over any history of handlers; what resuming does not set up again.
  \<^item> \<^verbatim>\<open>Portfolio\<close>, \<^verbatim>\<open>PortfolioReports\<close>, \<^verbatim>\<open>RiskManager\<close>: \<^verbatim>\<open>engine/risk\<close>. Lemmas: consistency
    of reachable portfolios, agreement of the aggregations, exactness of the risk gate.
  \<^item> \<^verbatim>\<open>ConnectionRecovery\<close>, \<^verbatim>\<open>Reconciler\<close>, \<^verbatim>\<open>StateRecovery\<close>, \<^verbatim>\<open>RecoveryCoordinator\<close>:
    \<^verbatim>\<open>engine/recovery\<close>. Lemmas: what replaying, reconciling and recovering really do, on every answer.
  \<^item> \<^verbatim>\<open>RetryWorker\<close>, \<^verbatim>\<open>DeadLetterQueue\<close>, \<^verbatim>\<open>EventBus\<close>, \<^verbatim>\<open>JobScheduler\<close>, \<^verbatim>\<open>WorkerManager\<close>,
    \<^verbatim>\<open>HeartbeatMonitor\<close>: \<^verbatim>\<open>engine/scheduler\<close>. Lemmas: no callback silences another, retries end,
    counters balance, states are well typed. \<^verbatim>\<open>RetryRounds\<close> has the locales \<open>retry_rounds\<close> and
    \<open>retry_queue\<close>: whatever counts down attempts over a queue drains it.
  \<^item> \<^verbatim>\<open>Notifications\<close>, \<^verbatim>\<open>NotificationDelivery\<close>: \<^verbatim>\<open>engine/notification\<close>. Lemmas: rendering is
    substitution, the queue drains (an interpretation of \<open>retry_queue\<close>), rules fire exactly.
  \<^item> \<^verbatim>\<open>MoneyManagement\<close>: \<^verbatim>\<open>services/mm_calculator.py\<close>. Lemmas: the buys fit into the capital.
  \<^item> \<^verbatim>\<open>BreakerScreening\<close>, \<^verbatim>\<open>BreakerThresholds\<close>: \<^verbatim>\<open>services/daily_drop_analyzer.py\<close>,
    \<^verbatim>\<open>circuit_breaker_screener.py\<close>, \<^verbatim>\<open>breaker_screening_store.py\<close> and their repository. Lemmas: the
    scan finds the least supported threshold; what a screened breaker protects from.
  \<^item> \<^verbatim>\<open>MarketData\<close>, \<^verbatim>\<open>MarketHub\<close>, \<^verbatim>\<open>MarketStreams\<close>: \<^verbatim>\<open>backend/market\<close>. Lemmas: a stream is
    open while somebody holds it, and what happens when two subscribe at once; the last price is served.
  \<^item> \<^verbatim>\<open>Entitlements\<close>, \<^verbatim>\<open>EntitlementLaws\<close>, \<^verbatim>\<open>Billing\<close>, \<^verbatim>\<open>BillingLaws\<close>, \<^verbatim>\<open>Authentication\<close>,
    \<^verbatim>\<open>AuthenticationLaws\<close>: \<^verbatim>\<open>services/saas\<close> and \<^verbatim>\<open>core/security.py\<close>. Lemmas: permissions refine a
    policy, invoices and books are consistent, tokens say who they are for and can be revoked or not.
  \<^item> \<^verbatim>\<open>JsonValues\<close>: the values of \<^verbatim>\<open>json\<close> and how the program reads them.
  \<^item> \<^verbatim>\<open>ExchangeTransport\<close>, \<^verbatim>\<open>TransportLaws\<close>: \<^verbatim>\<open>exchanges/retry.py\<close>, \<^verbatim>\<open>rate_limiter.py\<close>,
    \<^verbatim>\<open>errors.py\<close>, \<^verbatim>\<open>http_client.py\<close>, \<^verbatim>\<open>factory.py\<close>, \<^verbatim>\<open>credential_manager.py\<close>. Lemmas: a rate limit is
    never exceeded and always grants in the end; what a request with retries comes to.
  \<^item> \<^verbatim>\<open>ExchangeStreams\<close>: \<^verbatim>\<open>exchanges/websocket_manager.py\<close>. \<^verbatim>\<open>ExchangeAdapter\<close>: what the clients
    share. \<^verbatim>\<open>BinanceAdapter\<close>, \<^verbatim>\<open>MexcAdapter\<close>, \<^verbatim>\<open>OkxAdapter\<close>, \<^verbatim>\<open>BybitAdapter\<close>,
    \<^verbatim>\<open>HyperliquidAdapter\<close>: \<^verbatim>\<open>exchanges/adapters\<close>, one theory each, with a prefix for each client.
  \<^item> \<^verbatim>\<open>RequestLaws\<close>, \<^verbatim>\<open>AdapterLaws\<close>, \<^verbatim>\<open>StreamLaws\<close>: which requests a client sends and whether they
    are signed over what they carry, what becomes of refused orders and lost answers, how the clock of
    Binance is followed, and which streams are forgotten.
  \<^item> \<^verbatim>\<open>EventChannels\<close>: \<^verbatim>\<open>events/redis_event_bus.py\<close>. Lemmas: no request over Redis is ever answered.
  \<^item> \<^verbatim>\<open>BinaryFloats\<close>: Python's \<^verbatim>\<open>float\<close>; the locale \<open>significand\<close> shows that rounding to a significand
    of constant size is monotone. \<^verbatim>\<open>AtrSpacing\<close>, \<^verbatim>\<open>StrategyModes\<close>: \<^verbatim>\<open>services/atr_calculator.py\<close>,
    \<^verbatim>\<open>strategy_mode_store.py\<close> and their routes. Lemmas: the spacing is bounded; which updates of a mode
    the readers see.

  \<^bold>\<open>Bounds.\<close> Loops of the modelled code run over a list or count down a number of attempts. Two
  have fuel: waiting for the rate limit has two rounds, which \<open>acquire_returns\<close> shows to be enough
  when sleeps last as long as asked, and the attempts of a request are bounded by the policy's
  \<^verbatim>\<open>max_retries\<close>, after which the code does not repeat either (\<open>http_request_attempts\<close>). Integers are Python's, unbounded. The rounds of \<open>retry_rounds_drain\<close> are
  the caller's; as many as the jobs have attempts left are enough.

  \<^bold>\<open>Not modelled.\<close> Of a trading process the JSON snapshot, and of its memory the fields that the
  manager only carries along, are left out. Most HTTP routes, the database layer
  and the core infrastructure (logging, backups, configuration) are input
  and output around libraries. The libraries httpx, websockets, hmac, bcrypt and jwt are parameters;
  the engines see an exchange through the adapter interface of \<^verbatim>\<open>adapters/base.py\<close>, a parameter
  too: the clients of \<^verbatim>\<open>exchanges\<close> implement another interface, and the program has no bridge. Floats of the technical analysis are an abstract record of
  operations; measured times, descriptions of indicators, checkpoint data and JSON text are left out,
  as each theory says.
\<close>

end
